(* ===== verification/Prelude.thy ===== *)
theory Prelude
  imports Main "HOL-Library.Char_ord" "HOL-Library.List_Lexorder" "HOL-Library.Product_Lexorder"
    "HOL-Library.Option_ord" "HOL-Library.Word" "HOL-Library.Sublist"
    "HOL-Library.Code_Target_Numeral"
begin

text \<open>
  Shared vocabulary of the development. A Rust \<open>String\<close> or \<open>&str\<close> is its UTF-8 byte
  sequence, a \<open>string\<close> of 8-bit characters, so that \<open>len\<close> is \<open>length\<close> and the derived
  \<open>Ord\<close> of Rust strings (and the BINARY collation of SQLite) is the lexicographic order on
  lists. A \<open>Result\<close> is a sum whose left part is the error. An \<open>i64\<close> is an \<open>int\<close> whose
  additions wrap at 64 bits, as a release build without overflow checks computes them; the
  counters of the metrics are 64-bit words. Tables of a database are lists of rows in insertion
  order, and the SQL statements of the two stores are compositions of the list operations below.
\<close>

named_theorems guard_simps \<open>the validation functions, one equation per outcome\<close>
named_theorems table_simps \<open>how the SQL list operations act on rows\<close>

section \<open>Results\<close>

type_synonym ('a, 'e) result = "'e + 'a"

abbreviation Ok :: "'a \<Rightarrow> ('a, 'e) result" where "Ok \<equiv> Inr"
abbreviation Err :: "'e \<Rightarrow> ('a, 'e) result" where "Err \<equiv> Inl"

fun and_then :: "('a, 'e) result \<Rightarrow> ('a \<Rightarrow> ('b, 'e) result) \<Rightarrow> ('b, 'e) result" where
  "and_then (Inl e) f = Inl e"
| "and_then (Inr a) f = f a"

fun map_err :: "('e \<Rightarrow> 'f) \<Rightarrow> ('a, 'e) result \<Rightarrow> ('a, 'f) result" where
  "map_err f (Inl e) = Inl (f e)"
| "map_err f (Inr a) = Inr a"

fun is_ok :: "('a, 'e) result \<Rightarrow> bool" where
  "is_ok (Inl e) = False"
| "is_ok (Inr a) = True"

fun ok_or :: "'e \<Rightarrow> 'a option \<Rightarrow> ('a, 'e) result" where
  "ok_or e None = Inl e"
| "ok_or e (Some a) = Inr a"

fun ok_option :: "('a, 'e) result \<Rightarrow> 'a option" where
  "ok_option (Inl e) = None"
| "ok_option (Inr a) = Some a"

fun err_option :: "('a, 'e) result \<Rightarrow> 'e option" where
  "err_option (Inl e) = Some e"
| "err_option (Inr a) = None"

text \<open>\<open>iter.map(f).collect::<Result<Vec<_>, _>>()\<close>: the first error wins.\<close>

fun collect_results :: "('a \<Rightarrow> ('b, 'e) result) \<Rightarrow> 'a list \<Rightarrow> ('b list, 'e) result" where
  "collect_results f [] = Inr []"
| "collect_results f (x # xs) =
     and_then (f x) (\<lambda>y. and_then (collect_results f xs) (\<lambda>ys. Inr (y # ys)))"

lemma and_then_eq_Inr [simp]: "and_then r f = Inr b \<longleftrightarrow> (\<exists>a. r = Inr a \<and> f a = Inr b)"
  by (cases r) auto

lemma and_then_eq_Inl: "and_then r f = Inl e \<longleftrightarrow> r = Inl e \<or> (\<exists>a. r = Inr a \<and> f a = Inl e)"
  by (cases r) auto

lemma map_err_eq_Inr [simp]: "map_err f r = Inr a \<longleftrightarrow> r = Inr a"
  by (cases r) auto

lemma map_err_eq_Inl [simp]: "map_err f r = Inl e \<longleftrightarrow> (\<exists>e'. r = Inl e' \<and> e = f e')"
  by (cases r) auto

lemma ok_or_eq_Inr [simp]: "ok_or e r = Inr a \<longleftrightarrow> r = Some a"
  by (cases r) auto

lemma ok_or_eq_Inl [simp]: "ok_or e r = Inl e' \<longleftrightarrow> r = None \<and> e' = e"
  by (cases r) auto

lemma is_ok_iff: "is_ok r \<longleftrightarrow> (\<exists>a. r = Inr a)"
  by (cases r) auto

lemma collect_results_ok:
  "collect_results f xs = Inr ys \<longleftrightarrow> list_all2 (\<lambda>x y. f x = Inr y) xs ys"
  by (induction xs arbitrary: ys) (auto simp: list_all2_Cons1)

lemma collect_results_length: "collect_results f xs = Inr ys \<Longrightarrow> length ys = length xs"
  by (auto simp: collect_results_ok dest: list_all2_lengthD)

section \<open>Bytes and strings\<close>

definition byte :: "char \<Rightarrow> nat" where
  "byte c = of_char c"

definition is_ascii_lowercase :: "char \<Rightarrow> bool" where
  "is_ascii_lowercase c \<longleftrightarrow> 97 \<le> byte c \<and> byte c \<le> 122"

definition is_ascii_uppercase :: "char \<Rightarrow> bool" where
  "is_ascii_uppercase c \<longleftrightarrow> 65 \<le> byte c \<and> byte c \<le> 90"

definition is_ascii_digit :: "char \<Rightarrow> bool" where
  "is_ascii_digit c \<longleftrightarrow> 48 \<le> byte c \<and> byte c \<le> 57"

definition is_ascii_alphanumeric :: "char \<Rightarrow> bool" where
  "is_ascii_alphanumeric c \<longleftrightarrow> is_ascii_lowercase c \<or> is_ascii_uppercase c \<or> is_ascii_digit c"

definition is_ascii_graphic :: "char \<Rightarrow> bool" where
  "is_ascii_graphic c \<longleftrightarrow> 33 \<le> byte c \<and> byte c \<le> 126"

definition to_ascii_lower :: "char \<Rightarrow> char" where
  "to_ascii_lower c = (if is_ascii_uppercase c then char_of (byte c + 32) else c)"

definition ascii_lowercase :: "string \<Rightarrow> string" where
  "ascii_lowercase s = map to_ascii_lower s"

definition eq_ignore_ascii_case :: "string \<Rightarrow> string \<Rightarrow> bool" where
  "eq_ignore_ascii_case a b \<longleftrightarrow> ascii_lowercase a = ascii_lowercase b"

text \<open>Characters of a string: the byte groups of its UTF-8 code points.\<close>

definition utf8_width :: "char \<Rightarrow> nat" where
  "utf8_width c =
     (if byte c < 192 then 1 else if byte c < 224 then 2 else if byte c < 240 then 3 else 4)"

lemma utf8_width_pos: "0 < utf8_width c"
  by (simp add: utf8_width_def)

function utf8_chars :: "string \<Rightarrow> string list" where
  "utf8_chars [] = []"
| "utf8_chars (c # cs) =
     take (utf8_width c) (c # cs) # utf8_chars (drop (utf8_width c - 1) cs)"
  by pat_completeness auto
termination by (relation "measure length") auto

definition code_point :: "string \<Rightarrow> nat" where
  "code_point bs = (case map byte bs of
       [a] \<Rightarrow> a
     | [a, b] \<Rightarrow> (a mod 32) * 64 + b mod 64
     | [a, b, c] \<Rightarrow> ((a mod 16) * 64 + b mod 64) * 64 + c mod 64
     | [a, b, c, d] \<Rightarrow> (((a mod 8) * 64 + b mod 64) * 64 + c mod 64) * 64 + d mod 64
     | _ \<Rightarrow> 0)"

definition is_whitespace_cp :: "nat \<Rightarrow> bool" where
  "is_whitespace_cp n \<longleftrightarrow> (9 \<le> n \<and> n \<le> 13) \<or> n = 32 \<or> n = 133 \<or> n = 160 \<or> n = 5760 \<or>
     (8192 \<le> n \<and> n \<le> 8202) \<or> n = 8232 \<or> n = 8233 \<or> n = 8239 \<or> n = 8287 \<or> n = 12288"

definition is_control_cp :: "nat \<Rightarrow> bool" where
  "is_control_cp n \<longleftrightarrow> n < 32 \<or> (127 \<le> n \<and> n \<le> 159)"

abbreviation is_white :: "string \<Rightarrow> bool" where
  "is_white ch \<equiv> is_whitespace_cp (code_point ch)"

text \<open>\<open>str::trim\<close>, \<open>chars().any(char::is_control)\<close>, \<open>split_whitespace\<close>.\<close>

definition trim :: "string \<Rightarrow> string" where
  "trim s = concat (rev (dropWhile is_white (rev (dropWhile is_white (utf8_chars s)))))"

definition has_control :: "string \<Rightarrow> bool" where
  "has_control s \<longleftrightarrow> (\<exists>ch \<in> set (utf8_chars s). is_control_cp (code_point ch))"

function split_white :: "string list \<Rightarrow> string list" where
  "split_white cs =
     (let body = dropWhile is_white cs
      in if body = [] then []
         else concat (takeWhile (\<lambda>c. \<not> is_white c) body)
              # split_white (dropWhile (\<lambda>c. \<not> is_white c) body))"
  by pat_completeness auto
termination
proof (relation "measure length", goal_cases)
  case (2 cs body)
  then have "body \<noteq> []" by simp
  then obtain c rest where b: "body = c # rest" by (meson list.exhaust)
  have "dropWhile is_white cs = c # rest" using 2 b by simp
  then have nw: "\<not> is_white c" by (simp add: dropWhile_eq_Cons_conv)
  have "length (dropWhile (\<lambda>c. \<not> is_white c) body) \<le> length rest"
    using b nw by (simp add: length_dropWhile_le)
  also have "\<dots> < length body" using b by simp
  also have "\<dots> \<le> length cs" using 2 by (simp add: length_dropWhile_le)
  finally show ?case by simp
qed simp

declare split_white.simps [simp del]

definition split_whitespace :: "string \<Rightarrow> string list" where
  "split_whitespace s = split_white (utf8_chars s)"

subsection \<open>Splitting, joining, prefixes\<close>

fun split_on :: "char \<Rightarrow> string \<Rightarrow> string list" where
  "split_on c [] = [[]]"
| "split_on c (x # xs) =
     (if x = c then [] # split_on c xs
      else case split_on c xs of [] \<Rightarrow> [[x]] | w # ws \<Rightarrow> (x # w) # ws)"

fun join :: "string \<Rightarrow> string list \<Rightarrow> string" where
  "join sep [] = []"
| "join sep [w] = w"
| "join sep (w # v # ws) = w @ sep @ join sep (v # ws)"

definition strip_prefix :: "string \<Rightarrow> string \<Rightarrow> string option" where
  "strip_prefix p s = (if take (length p) s = p then Some (drop (length p) s) else None)"

definition ends_with :: "string \<Rightarrow> string \<Rightarrow> bool" where
  "ends_with p s \<longleftrightarrow> length p \<le> length s \<and> drop (length s - length p) s = p"

definition strip_suffix :: "string \<Rightarrow> string \<Rightarrow> string option" where
  "strip_suffix p s = (if ends_with p s then Some (take (length s - length p) s) else None)"

fun contains_str :: "string \<Rightarrow> string \<Rightarrow> bool" where
  "contains_str p [] = (p = [])"
| "contains_str p (x # xs) = (take (length p) (x # xs) = p \<or> contains_str p xs)"

fun split_once :: "char \<Rightarrow> string \<Rightarrow> (string \<times> string) option" where
  "split_once c [] = None"
| "split_once c (x # xs) =
     (if x = c then Some ([], xs)
      else case split_once c xs of None \<Rightarrow> None | Some (a, b) \<Rightarrow> Some (x # a, b))"

definition rsplit_once :: "char \<Rightarrow> string \<Rightarrow> (string \<times> string) option" where
  "rsplit_once c s =
     (case split_once c (rev s) of None \<Rightarrow> None | Some (b, a) \<Rightarrow> Some (rev a, rev b))"

definition replace_char :: "char \<Rightarrow> char \<Rightarrow> string \<Rightarrow> string" where
  "replace_char a b s = map (\<lambda>c. if c = a then b else c) s"

lemma split_on_nonempty [simp]: "split_on c s \<noteq> []"
  by (induction s) (auto split: list.splits)

lemma join_split_on: "join [c] (split_on c s) = s"
proof (induction s)
  case Nil
  then show ?case by simp
next
  case (Cons x xs)
  obtain w ws where w: "split_on c xs = w # ws"
    using split_on_nonempty [of c xs] by (cases "split_on c xs") auto
  have "join [c] (split_on c (x # xs)) = x # join [c] (w # ws)"
    using w by (cases ws) auto
  with Cons w show ?case by simp
qed

lemma split_on_parts: "w \<in> set (split_on c s) \<Longrightarrow> c \<notin> set w \<and> set w \<subseteq> set s"
proof (induction s arbitrary: w)
  case Nil
  then show ?case by simp
next
  case (Cons x xs)
  obtain v ws where v: "split_on c xs = v # ws"
    using split_on_nonempty [of c xs] by (cases "split_on c xs") auto
  have "\<And>u. u \<in> set (v # ws) \<Longrightarrow> c \<notin> set u \<and> set u \<subseteq> set xs"
    using Cons.IH v by simp
  with Cons.prems v show ?case by (fastforce split: if_splits)
qed

lemma split_once_Some: "split_once c s = Some (a, b) \<longleftrightarrow> s = a @ c # b \<and> c \<notin> set a"
proof (induction s arbitrary: a b)
  case Nil
  then show ?case by simp
next
  case (Cons x xs)
  show ?case
  proof (cases "x = c")
    case True
    then show ?thesis by (auto simp: Cons_eq_append_conv)
  next
    case False
    have "split_once c (x # xs) = Some (a, b) \<longleftrightarrow>
        (\<exists>a'. split_once c xs = Some (a', b) \<and> a = x # a')"
      using False by (auto split: option.splits)
    with Cons False show ?thesis by (auto simp: Cons_eq_append_conv)
  qed
qed

lemma strip_prefix_Some [simp]: "strip_prefix p s = Some r \<longleftrightarrow> s = p @ r"
  by (auto simp: strip_prefix_def) (metis append_take_drop_id)

section \<open>Decimal numbers\<close>

fun nat_str :: "nat \<Rightarrow> string" where
  "nat_str n = (if n < 10 then [char_of (48 + n)] else nat_str (n div 10) @ [char_of (48 + n mod 10)])"

declare nat_str.simps [simp del]

definition int_str :: "int \<Rightarrow> string" where
  "int_str i = (if i < 0 then ''-'' @ nat_str (nat (- i)) else nat_str (nat i))"

definition digits_value :: "string \<Rightarrow> nat" where
  "digits_value s = foldl (\<lambda>acc c. acc * 10 + (byte c - 48)) 0 s"

text \<open>\<open>str::parse\<close> for an unsigned type with values below \<open>bound\<close>: an optional plus sign,
  then one or more digits, an error when the value does not fit.\<close>

definition parse_digits :: "nat \<Rightarrow> string \<Rightarrow> nat option" where
  "parse_digits bound s =
     (if s \<noteq> [] \<and> list_all is_ascii_digit s \<and> digits_value s < bound
      then Some (digits_value s) else None)"

definition parse_unsigned :: "nat \<Rightarrow> string \<Rightarrow> nat option" where
  "parse_unsigned bound s =
     parse_digits bound (if s \<noteq> [] \<and> hd s = CHR ''+'' then tl s else s)"

abbreviation parse_u64 :: "string \<Rightarrow> nat option" where
  "parse_u64 \<equiv> parse_unsigned (2 ^ 64)"

definition parse_i64 :: "string \<Rightarrow> int option" where
  "parse_i64 s =
     (if s \<noteq> [] \<and> hd s = CHR ''-''
      then map_option (\<lambda>n. - int n) (parse_digits (2 ^ 63 + 1) (tl s))
      else map_option int (parse_unsigned (2 ^ 63) s))"

lemma byte_char_of [simp]: "n < 256 \<Longrightarrow> byte (char_of n) = n"
  by (simp add: byte_def)

lemma digits_value_snoc: "digits_value (s @ [c]) = digits_value s * 10 + (byte c - 48)"
  by (simp add: digits_value_def)

lemma nat_str_digits: "list_all is_ascii_digit (nat_str n)"
proof (induction n rule: nat_str.induct)
  case (1 n)
  show ?case
  proof (cases "n < 10")
    case True
    then show ?thesis by (subst nat_str.simps) (simp add: is_ascii_digit_def)
  next
    case False
    have "is_ascii_digit (char_of (48 + n mod 10))"
      by (simp add: is_ascii_digit_def)
    with 1 False show ?thesis by (subst nat_str.simps) simp
  qed
qed

lemma nat_str_nonempty [simp]: "nat_str n \<noteq> []"
  by (subst nat_str.simps) simp

lemma digits_value_nat_str: "digits_value (nat_str n) = n"
proof (induction n rule: nat_str.induct)
  case (1 n)
  show ?case
  proof (cases "n < 10")
    case True
    then show ?thesis by (subst nat_str.simps) (simp add: digits_value_def)
  next
    case False
    with 1 show ?thesis
      by (subst nat_str.simps) (simp add: digits_value_snoc)
  qed
qed

lemma digit_bounds: "is_ascii_digit c \<Longrightarrow> c \<noteq> CHR ''+'' \<and> c \<noteq> CHR ''-''"
  by (auto simp: is_ascii_digit_def byte_def)

lemma nat_str_hd: "hd (nat_str n) \<noteq> CHR ''+'' \<and> hd (nat_str n) \<noteq> CHR ''-''"
proof -
  have "is_ascii_digit (hd (nat_str n))"
    using nat_str_digits [of n] by (cases "nat_str n") auto
  then show ?thesis by (rule digit_bounds)
qed

lemma parse_unsigned_nat_str: "n < bound \<Longrightarrow> parse_unsigned bound (nat_str n) = Some n"
  using nat_str_digits [of n] nat_str_hd [of n]
  by (simp add: parse_unsigned_def parse_digits_def digits_value_nat_str)

lemma parse_unsigned_less: "parse_unsigned bound s = Some n \<Longrightarrow> n < bound"
  by (auto simp: parse_unsigned_def parse_digits_def split: if_splits)

lemma nat_str_inj: "nat_str m = nat_str n \<longleftrightarrow> m = n"
  using digits_value_nat_str by metis

section \<open>Machine integers\<close>

definition add64 :: "int \<Rightarrow> int \<Rightarrow> int" where
  "add64 a b = signed_take_bit 63 (a + b)"

definition in_i64 :: "int \<Rightarrow> bool" where
  "in_i64 a \<longleftrightarrow> - (2 ^ 63) \<le> a \<and> a < 2 ^ 63"

definition i64_min :: int where "i64_min = - (2 ^ 63)"
definition i64_max :: int where "i64_max = 2 ^ 63 - 1"

definition clamp64 :: "int \<Rightarrow> int" where
  "clamp64 a = max i64_min (min i64_max a)"

lemma add64_in_range [simp]: "in_i64 (a + b) \<Longrightarrow> add64 a b = a + b"
  by (simp add: add64_def in_i64_def signed_take_bit_int_eq_self)

lemma clamp64_in [simp]: "in_i64 (clamp64 a)"
  by (auto simp: clamp64_def in_i64_def i64_min_def i64_max_def)

text \<open>Saturating increment and addition on machine words.\<close>

definition sat_inc :: "'w::len word \<Rightarrow> 'w word" where
  "sat_inc w = (if w = - 1 then w else w + 1)"

definition sat_add :: "nat \<Rightarrow> nat \<Rightarrow> nat \<Rightarrow> nat" where
  "sat_add bound a b = min (bound - 1) (a + b)"

section \<open>Ordered maps\<close>

text \<open>A \<open>BTreeMap\<close> is the list of its entries in key order.\<close>

fun bt_insert :: "'k::linorder \<Rightarrow> 'v \<Rightarrow> ('k \<times> 'v) list \<Rightarrow> ('k \<times> 'v) list" where
  "bt_insert k v [] = [(k, v)]"
| "bt_insert k v (e # es) =
     (if k < fst e then (k, v) # e # es
      else if fst e < k then e # bt_insert k v es
      else (k, v) # es)"

definition bt_collect :: "('k::linorder \<times> 'v) list \<Rightarrow> ('k \<times> 'v) list" where
  "bt_collect kvs = foldl (\<lambda>m kv. bt_insert (fst kv) (snd kv) m) [] kvs"

definition bt_sorted :: "('k::linorder \<times> 'v) list \<Rightarrow> bool" where
  "bt_sorted m \<longleftrightarrow> sorted_wrt (<) (map fst m)"

lemma bt_insert_keys: "fst ` set (bt_insert k v m) = insert k (fst ` set m)"
  by (induction m) auto

lemma bt_insert_sorted: "bt_sorted m \<Longrightarrow> bt_sorted (bt_insert k v m)"
proof (induction m)
  case Nil
  then show ?case by (simp add: bt_sorted_def)
next
  case (Cons e es)
  have keys: "set (map fst (bt_insert k v es)) = insert k (fst ` set es)"
    using bt_insert_keys [of k v es] by simp
  have eq: "\<not> k < fst e \<Longrightarrow> \<not> fst e < k \<Longrightarrow> k = fst e" by auto
  from Cons keys eq show ?case
    by (auto simp: bt_sorted_def)
qed

lemma map_of_bt_insert: "bt_sorted m \<Longrightarrow> map_of (bt_insert k v m) = (map_of m)(k \<mapsto> v)"
proof (induction m)
  case Nil
  then show ?case by simp
next
  case (Cons e es)
  obtain a b where e: "e = (a, b)" by (cases e)
  show ?case
  proof (cases "k < a")
    case True
    then show ?thesis using e by (auto simp: fun_eq_iff)
  next
    case False
    with Cons e show ?thesis by (auto simp: fun_eq_iff bt_sorted_def)
  qed
qed

lemma bt_collect_snoc:
  "bt_collect (kvs @ [kv]) = bt_insert (fst kv) (snd kv) (bt_collect kvs)"
  by (simp add: bt_collect_def)

lemma bt_collect_sorted: "bt_sorted (bt_collect kvs)"
  by (induction kvs rule: rev_induct)
    (simp_all add: bt_collect_snoc bt_insert_sorted, simp add: bt_collect_def bt_sorted_def)

lemma map_of_bt_collect: "map_of (bt_collect kvs) = map_of (rev kvs)"
proof (induction kvs rule: rev_induct)
  case Nil
  then show ?case by (simp add: bt_collect_def)
next
  case (snoc kv kvs)
  then show ?case
    by (cases kv) (simp add: bt_collect_snoc map_of_bt_insert bt_collect_sorted)
qed

lemma bt_collect_keys: "fst ` set (bt_collect kvs) = fst ` set kvs"
  by (induction kvs rule: rev_induct)
    (simp_all add: bt_collect_snoc bt_insert_keys, simp add: bt_collect_def)

section \<open>Tables\<close>

definition update_where :: "('r \<Rightarrow> bool) \<Rightarrow> ('r \<Rightarrow> 'r) \<Rightarrow> 'r list \<Rightarrow> 'r list" where
  "update_where P f rows = map (\<lambda>r. if P r then f r else r) rows"

definition count_where :: "('r \<Rightarrow> bool) \<Rightarrow> 'r list \<Rightarrow> nat" where
  "count_where P rows = length (filter P rows)"

definition delete_where :: "('r \<Rightarrow> bool) \<Rightarrow> 'r list \<Rightarrow> 'r list" where
  "delete_where P rows = filter (\<lambda>r. \<not> P r) rows"

definition exists_where :: "('r \<Rightarrow> bool) \<Rightarrow> 'r list \<Rightarrow> bool" where
  "exists_where P rows \<longleftrightarrow> (\<exists>r \<in> set rows. P r)"

text \<open>\<open>SELECT ... WHERE P\<close> read with \<open>query_row(..).optional()\<close>: the first row, if any.\<close>

definition select_first :: "('r \<Rightarrow> bool) \<Rightarrow> 'r list \<Rightarrow> 'r option" where
  "select_first P rows = find P rows"

definition order_by :: "('r \<Rightarrow> 'k::linorder) \<Rightarrow> 'r list \<Rightarrow> 'r list" where
  "order_by key rows = sort_key key rows"

definition select_ordered :: "('r \<Rightarrow> bool) \<Rightarrow> ('r \<Rightarrow> 'k::linorder) \<Rightarrow> 'r list \<Rightarrow> 'r list" where
  "select_ordered P key rows = order_by key (filter P rows)"

fun head_option :: "'a list \<Rightarrow> 'a option" where
  "head_option [] = None"
| "head_option (x # xs) = Some x"

lemma set_update_where [table_simps]:
  "set (update_where P f rows) = (\<lambda>r. if P r then f r else r) ` set rows"
  by (simp add: update_where_def)

lemma set_delete_where [table_simps]: "set (delete_where P rows) = {r \<in> set rows. \<not> P r}"
  by (auto simp: delete_where_def)

lemma set_select_ordered [table_simps]: "set (select_ordered P key rows) = {r \<in> set rows. P r}"
  by (auto simp: select_ordered_def order_by_def)

lemma length_update_where [table_simps]: "length (update_where P f rows) = length rows"
  by (simp add: update_where_def)

lemma update_where_none: "(\<And>r. r \<in> set rows \<Longrightarrow> \<not> P r) \<Longrightarrow> update_where P f rows = rows"
  by (simp add: update_where_def map_idI)

lemma update_where_cong:
  "(\<And>r. r \<in> set rows \<Longrightarrow> P r = Q r) \<Longrightarrow> (\<And>r. r \<in> set rows \<Longrightarrow> P r \<Longrightarrow> f r = g r) \<Longrightarrow>
   update_where P f rows = update_where Q g rows"
  by (auto simp: update_where_def)

lemma map_update_where:
  "(\<And>r. P r \<Longrightarrow> k (f r) = k r) \<Longrightarrow> map k (update_where P f rows) = map k rows"
  by (simp add: update_where_def)

lemma update_where_congE:
  "r \<in> set (update_where P f rows) \<Longrightarrow>
   (\<And>r0. r0 \<in> set rows \<Longrightarrow> P r0 \<Longrightarrow> r = f r0 \<Longrightarrow> thesis) \<Longrightarrow>
   (r \<in> set rows \<Longrightarrow> \<not> P r \<Longrightarrow> thesis) \<Longrightarrow> thesis"
  by (auto simp: update_where_def split: if_splits)

lemma count_where_zero: "count_where P rows = 0 \<longleftrightarrow> (\<forall>r \<in> set rows. \<not> P r)"
  by (simp add: count_where_def filter_empty_conv)

lemma find_Some_iff2: "find P xs = Some x \<Longrightarrow> x \<in> set xs \<and> P x"
  by (auto simp: find_Some_iff)

lemma select_first_SomeD: "select_first P rows = Some r \<Longrightarrow> r \<in> set rows \<and> P r"
  unfolding select_first_def by (rule find_Some_iff2)

lemma select_first_None [table_simps]:
  "select_first P rows = None \<longleftrightarrow> (\<forall>r \<in> set rows. \<not> P r)"
  by (auto simp: select_first_def find_None_iff)

lemma exists_where_select: "exists_where P rows \<longleftrightarrow> select_first P rows \<noteq> None"
  by (auto simp: exists_where_def table_simps)

lemma head_option_select:
  "head_option (select_ordered P key rows) = Some r \<Longrightarrow>
     r \<in> set rows \<and> P r \<and> (\<forall>r' \<in> set rows. P r' \<longrightarrow> key r \<le> key r')"
proof -
  assume h: "head_option (select_ordered P key rows) = Some r"
  then obtain rest where s: "sort_key key (filter P rows) = r # rest"
    by (cases "select_ordered P key rows") (auto simp: select_ordered_def order_by_def)
  have "set (r # rest) = {r \<in> set rows. P r}"
    using s by (metis set_sort set_filter)
  moreover have "sorted (map key (r # rest))"
    using s by (metis sorted_sort_key)
  ultimately show ?thesis by force
qed

lemma head_option_select_None:
  "head_option (select_ordered P key rows) = None \<longleftrightarrow> (\<forall>r \<in> set rows. \<not> P r)"
proof -
  have "head_option (select_ordered P key rows) = None \<longleftrightarrow> set (select_ordered P key rows) = {}"
    by (cases "select_ordered P key rows") auto
  then show ?thesis by (auto simp: table_simps)
qed

text \<open>Rows that a unique key tells apart.\<close>

definition unique_by :: "('r \<Rightarrow> 'k) \<Rightarrow> 'r list \<Rightarrow> bool" where
  "unique_by k rows \<longleftrightarrow> distinct (map k rows)"

lemma unique_byD: "unique_by k rows \<Longrightarrow> r \<in> set rows \<Longrightarrow> s \<in> set rows \<Longrightarrow> k r = k s \<Longrightarrow> r = s"
  by (auto simp: unique_by_def distinct_map inj_on_def)

lemma unique_by_update [table_simps]:
  "(\<And>r. P r \<Longrightarrow> k (f r) = k r) \<Longrightarrow> unique_by k (update_where P f rows) = unique_by k rows"
  by (simp add: unique_by_def map_update_where)

lemma unique_by_delete: "unique_by k rows \<Longrightarrow> unique_by k (delete_where P rows)"
  by (simp add: unique_by_def delete_where_def distinct_map_filter)

lemma unique_by_append:
  "unique_by k (rows @ [r]) \<longleftrightarrow> unique_by k rows \<and> (\<forall>s \<in> set rows. k s \<noteq> k r)"
  by (auto simp: unique_by_def) (metis image_eqI)

lemma count_where_unique:
  assumes u: "unique_by k rows" and r: "r \<in> set rows" and P: "P r"
    and one: "\<And>s. s \<in> set rows \<Longrightarrow> P s \<Longrightarrow> k s = k r"
  shows "count_where P rows = 1"
proof -
  have d: "distinct (filter P rows)" using u by (simp add: unique_by_def distinct_map)
  have "set (filter P rows) = {r}"
    using u r P one by (auto dest: unique_byD [of k rows])
  with d have "card {r} = length (filter P rows)" by (metis distinct_card)
  then show ?thesis by (simp add: count_where_def)
qed

lemma select_first_unique:
  assumes "unique_by k rows" "r \<in> set rows" "P r"
    and "\<And>s. s \<in> set rows \<Longrightarrow> P s \<Longrightarrow> k s = k r"
  shows "select_first P rows = Some r"
proof (cases "select_first P rows")
  case None
  with assms(2,3) show ?thesis by (auto simp: table_simps)
next
  case (Some s)
  from select_first_SomeD [OF this] assms(4) have "s \<in> set rows" "k s = k r" by auto
  with unique_byD [OF assms(1) this(1) assms(2)] Some show ?thesis by simp
qed

end
