(* ===== verification/Json.thy ===== *)
theory Json
  imports Prelude
begin

text \<open>
  The values the program exchanges with its libraries. \<open>json\<close> is \<open>serde_json::Value\<close>: an
  object is the list of its members in key order (the map of \<open>serde_json\<close> without the
  \<open>preserve_order\<close> feature is a \<open>BTreeMap\<close>), a float is carried by its 64 bits and never
  inspected. \<open>url\<close> is what the program reads of a parsed \<open>url::Url\<close>. The functions of the
  libraries themselves (URL and RFC 3339 parsing, serialized JSON text, the text of a
  decoding error, percent encoding) are the fields of \<open>libs\<close>, an argument of the definitions
  that call them.
\<close>

section \<open>JSON values\<close>

datatype json =
    JNull
  | JBool bool
  | JInt int
  | JFloat "64 word"
  | JString string
  | JArray "json list"
  | JObject "(string \<times> json) list"

definition json_object :: "(string \<times> json) list \<Rightarrow> json" where
  "json_object kvs = JObject (bt_collect kvs)"

fun json_get :: "json \<Rightarrow> string \<Rightarrow> json option" where
  "json_get (JObject kvs) k = map_of kvs k"
| "json_get _ k = None"

fun as_str :: "json \<Rightarrow> string option" where
  "as_str (JString s) = Some s"
| "as_str _ = None"

fun as_bool :: "json \<Rightarrow> bool option" where
  "as_bool (JBool b) = Some b"
| "as_bool _ = None"

fun as_u64 :: "json \<Rightarrow> nat option" where
  "as_u64 (JInt i) = (if 0 \<le> i \<and> i < 2 ^ 64 then Some (nat i) else None)"
| "as_u64 _ = None"

fun as_array :: "json \<Rightarrow> json list option" where
  "as_array (JArray vs) = Some vs"
| "as_array _ = None"

fun as_object :: "json \<Rightarrow> (string \<times> json) list option" where
  "as_object (JObject kvs) = Some kvs"
| "as_object _ = None"

fun is_object :: "json \<Rightarrow> bool" where
  "is_object (JObject kvs) = True"
| "is_object _ = False"

fun is_null :: "json \<Rightarrow> bool" where
  "is_null JNull = True"
| "is_null _ = False"

text \<open>\<open>json!\<close> on an optional value: \<open>None\<close> is \<open>null\<close>.\<close>

fun json_opt :: "('a \<Rightarrow> json) \<Rightarrow> 'a option \<Rightarrow> json" where
  "json_opt f None = JNull"
| "json_opt f (Some a) = f a"

abbreviation json_opt_str :: "string option \<Rightarrow> json" where
  "json_opt_str \<equiv> json_opt JString"

abbreviation json_nat :: "nat \<Rightarrow> json" where
  "json_nat n \<equiv> JInt (int n)"

lemma is_object_iff: "is_object v \<longleftrightarrow> (\<exists>kvs. v = JObject kvs)"
  by (cases v) auto

lemma is_null_iff: "is_null v \<longleftrightarrow> v = JNull"
  by (cases v) auto

lemma as_str_Some [simp]: "as_str v = Some s \<longleftrightarrow> v = JString s"
  by (cases v) auto

lemma json_get_object: "json_get (json_object kvs) k = map_of (rev kvs) k"
  by (simp add: json_object_def map_of_bt_collect)

section \<open>URLs and library functions\<close>

datatype host = Domain string | Host_Ipv4 "32 word" | Host_Ipv6 "128 word"

record url =
  url_scheme :: string
  url_username :: string
  url_password :: "string option"
  url_host :: "host option"
  url_segments :: "string list option"
  url_query_pairs :: "(string \<times> string) list"
  url_text :: string
  url_without_fragment :: string

definition url_domain :: "url \<Rightarrow> string option" where
  "url_domain u = (case url_host u of Some (Domain d) \<Rightarrow> Some d | _ \<Rightarrow> None)"

record libs =
  parse_rfc3339 :: "string \<Rightarrow> int option"
  parse_url :: "string \<Rightarrow> url option"
  url_error_text :: "string \<Rightarrow> string"
  json_text :: "json \<Rightarrow> string"
  decode_text :: "json \<Rightarrow> string"
  percent_encode :: "string \<Rightarrow> string"

text \<open>The length of \<open>serde_json::to_vec\<close>.\<close>

definition json_len :: "libs \<Rightarrow> json \<Rightarrow> nat" where
  "json_len L v = length (json_text L v)"

text \<open>Concrete library functions for the examples: a URL is \<open>https://\<close> and a host, any JSON
  value takes ten bytes, a timestamp is a decimal number of seconds.\<close>

definition example_libs :: libs where
  "example_libs = \<lparr>
     parse_rfc3339 = (\<lambda>s. map_option int (parse_unsigned 10000000000 s)),
     parse_url = (\<lambda>s. case strip_prefix ''https://'' s of None \<Rightarrow> None
        | Some h \<Rightarrow> Some \<lparr>url_scheme = ''https'', url_username = [], url_password = None,
            url_host = Some (Domain h), url_segments = Some [[]], url_query_pairs = [],
            url_text = s, url_without_fragment = s\<rparr>),
     url_error_text = (\<lambda>s. ''relative URL without a base''),
     json_text = (\<lambda>v. ''0123456789''),
     decode_text = (\<lambda>v. ''invalid type''),
     percent_encode = (\<lambda>s. s)\<rparr>"

end
