(* ===== verification/Types.thy ===== *)
theory Types
  imports Json
begin

text \<open>
  The crate \<open>comsat-types\<close>: identities, records, queries, targets and source errors, with the
  validation each constructor or \<open>validate\<close> method performs, in the order of its checks.
  A validation error is its message.
\<close>

section \<open>Errors (\<open>error.rs\<close>)\<close>

datatype error_class =
    Authentication
  | Authorization
  | RateLimit
  | InvalidQuery
  | NotFound
  | Unsupported
  | Upstream
  | Timeout
  | Cancelled
  | Protocol
  | Internal

text \<open>The \<open>snake_case\<close> name serde gives each class.\<close>

fun class_name :: "error_class \<Rightarrow> string" where
  "class_name Authentication = ''authentication''"
| "class_name Authorization = ''authorization''"
| "class_name RateLimit = ''rate_limit''"
| "class_name InvalidQuery = ''invalid_query''"
| "class_name NotFound = ''not_found''"
| "class_name Unsupported = ''unsupported''"
| "class_name Upstream = ''upstream''"
| "class_name Timeout = ''timeout''"
| "class_name Cancelled = ''cancelled''"
| "class_name Protocol = ''protocol''"
| "class_name Internal = ''internal''"

definition all_classes :: "error_class list" where
  "all_classes = [Authentication, Authorization, RateLimit, InvalidQuery, NotFound, Unsupported,
     Upstream, Timeout, Cancelled, Protocol, Internal]"

definition class_of_name :: "string \<Rightarrow> error_class option" where
  "class_of_name s = find (\<lambda>c. class_name c = s) all_classes"

lemma all_classes_complete: "c \<in> set all_classes"
  by (cases c) (simp_all add: all_classes_def)

lemma class_name_inj: "class_name a = class_name b \<longleftrightarrow> a = b"
  by (cases a; cases b; simp)

lemma class_of_name_class_name [simp]: "class_of_name (class_name c) = Some c"
  by (cases c) (simp_all add: class_of_name_def all_classes_def)

section \<open>Identities (\<open>identity.rs\<close>)\<close>

datatype source_id = Source_Id (sid_str: string)
datatype record_id = Record_Id (rid_str: string)

text \<open>Both derive \<open>Ord\<close> from the string they wrap.\<close>

instantiation source_id :: linorder
begin

definition less_eq_source_id :: "source_id \<Rightarrow> source_id \<Rightarrow> bool" where
  "less_eq_source_id a b \<longleftrightarrow> sid_str a \<le> sid_str b"

definition less_source_id :: "source_id \<Rightarrow> source_id \<Rightarrow> bool" where
  "less_source_id a b \<longleftrightarrow> sid_str a < sid_str b"

instance
  by standard (auto simp: less_eq_source_id_def less_source_id_def source_id.expand)

end

instantiation record_id :: linorder
begin

definition less_eq_record_id :: "record_id \<Rightarrow> record_id \<Rightarrow> bool" where
  "less_eq_record_id a b \<longleftrightarrow> rid_str a \<le> rid_str b"

definition less_record_id :: "record_id \<Rightarrow> record_id \<Rightarrow> bool" where
  "less_record_id a b \<longleftrightarrow> rid_str a < rid_str b"

instance
  by standard (auto simp: less_eq_record_id_def less_record_id_def record_id.expand)

end

definition source_word :: "string \<Rightarrow> bool" where
  "source_word part \<longleftrightarrow> part \<noteq> [] \<and> list_all (\<lambda>b. is_ascii_lowercase b \<or> is_ascii_digit b) part"

definition source_id_new :: "string \<Rightarrow> (source_id, string) result" where
  "source_id_new value =
     (if value = [] \<or> 64 < length value \<or>
         list_ex (\<lambda>part. part = [] \<or>
           \<not> list_all (\<lambda>b. is_ascii_lowercase b \<or> is_ascii_digit b) part) (split_on CHR ''-'' value)
      then Err ''source must contain lowercase ASCII words separated by hyphens''
      else Ok (Source_Id value))"

definition record_id_new :: "string \<Rightarrow> (record_id, string) result" where
  "record_id_new value =
     (if trim value = [] \<or> 2048 < length value \<or> has_control value
      then Err ''record id must be nonempty, bounded, and contain no control characters''
      else Ok (Record_Id value))"

definition valid_source_id :: "source_id \<Rightarrow> bool" where
  "valid_source_id s \<longleftrightarrow> is_ok (source_id_new (sid_str s))"

section \<open>Source errors\<close>

record source_error =
  err_source :: source_id
  err_class :: error_class
  err_message :: string
  err_retry_after :: "nat option"

definition source_error_new :: "source_id \<Rightarrow> error_class \<Rightarrow> string \<Rightarrow> source_error" where
  "source_error_new source class message =
     \<lparr>err_source = source, err_class = class, err_message = message, err_retry_after = None\<rparr>"

section \<open>Queries (\<open>query.rs\<close>)\<close>

record query =
  q_text :: string
  q_limit :: "nat option"
  q_since :: "string option"
  q_until :: "string option"

definition validate_timestamp :: "libs \<Rightarrow> string \<Rightarrow> (int, string) result" where
  "validate_timestamp L value = ok_or ''timestamp must be RFC 3339'' (parse_rfc3339 L value)"

fun validate_opt_timestamp :: "libs \<Rightarrow> string option \<Rightarrow> (int option, string) result" where
  "validate_opt_timestamp L None = Ok None"
| "validate_opt_timestamp L (Some v) = and_then (validate_timestamp L v) (\<lambda>t. Ok (Some t))"

fun both_later :: "int option \<Rightarrow> int option \<Rightarrow> bool" where
  "both_later (Some a) (Some b) = (b < a)"
| "both_later _ _ = False"

definition query_validate :: "libs \<Rightarrow> query \<Rightarrow> (unit, string) result" where
  "query_validate L q =
     (if trim (q_text q) = [] \<or> 8192 < length (q_text q)
      then Err ''query text must contain 1 to 8192 bytes''
      else if (case q_limit q of None \<Rightarrow> False | Some n \<Rightarrow> n = 0 \<or> 1000 < n)
      then Err ''query limit must be between 1 and 1000''
      else and_then (validate_opt_timestamp L (q_since q)) (\<lambda>since.
           and_then (validate_opt_timestamp L (q_until q)) (\<lambda>until.
             if both_later since until then Err ''since must not be later than until''
             else Ok ())))"

section \<open>Records (\<open>record.rs\<close>)\<close>

record comsat_record =
  rec_id :: record_id
  rec_source :: source_id
  rec_kind :: string
  rec_url :: string
  rec_title :: "string option"
  rec_text :: "string option"
  rec_author :: "string option"
  rec_created_at :: "string option"
  rec_updated_at :: "string option"
  rec_metadata :: json

definition validate_url :: "libs \<Rightarrow> string \<Rightarrow> (unit, string) result" where
  "validate_url L value =
     and_then (ok_or ''invalid URL'' (parse_url L value)) (\<lambda>u.
       if url_scheme u \<notin> {''http'', ''https''} \<or> url_host u = None \<or> url_username u \<noteq> []
          \<or> url_password u \<noteq> None
       then Err ''URL must be absolute HTTP(S), without credentials''
       else Ok ())"

definition record_validate :: "libs \<Rightarrow> comsat_record \<Rightarrow> (unit, string) result" where
  "record_validate L r =
     (if trim (rec_kind r) = [] \<or> 128 < length (rec_kind r)
      then Err ''record kind must contain 1 to 128 bytes''
      else and_then (validate_url L (rec_url r)) (\<lambda>_.
           and_then (validate_opt_timestamp L (rec_created_at r)) (\<lambda>_.
           and_then (validate_opt_timestamp L (rec_updated_at r)) (\<lambda>_.
             if \<not> is_object (rec_metadata r) then Err ''metadata must be a JSON object''
             else Ok ()))))"

subsection \<open>The derived serde encoding of a record\<close>

definition record_fields :: "string list" where
  "record_fields = [''id'', ''source'', ''kind'', ''url'', ''title'', ''text'', ''author'',
     ''created_at'', ''updated_at'', ''metadata'']"

definition record_to_json :: "comsat_record \<Rightarrow> json" where
  "record_to_json r = json_object
     [(''id'', JString (rid_str (rec_id r))), (''source'', JString (sid_str (rec_source r))),
      (''kind'', JString (rec_kind r)), (''url'', JString (rec_url r)),
      (''title'', json_opt_str (rec_title r)), (''text'', json_opt_str (rec_text r)),
      (''author'', json_opt_str (rec_author r)),
      (''created_at'', json_opt_str (rec_created_at r)),
      (''updated_at'', json_opt_str (rec_updated_at r)), (''metadata'', rec_metadata r)]"

fun opt_string_field :: "json option \<Rightarrow> string option option" where
  "opt_string_field None = Some None"
| "opt_string_field (Some JNull) = Some None"
| "opt_string_field (Some (JString s)) = Some (Some s)"
| "opt_string_field (Some _) = None"

definition string_field :: "json option \<Rightarrow> string option" where
  "string_field v = Option.bind v as_str"

text \<open>A derived struct is read from an object by name, or from an array by position.\<close>

fun struct_members :: "string list \<Rightarrow> json \<Rightarrow> (string \<times> json) list option" where
  "struct_members names (JObject kvs) = Some kvs"
| "struct_members names (JArray vs) =
     (if length vs = length names then Some (zip names vs) else None)"
| "struct_members names _ = None"

definition record_of_members :: "(string \<times> json) list \<Rightarrow> comsat_record option" where
  "record_of_members kvs =
     Option.bind (Option.bind (string_field (map_of kvs ''id'')) (\<lambda>s. ok_option (record_id_new s))) (\<lambda>i.
     Option.bind (Option.bind (string_field (map_of kvs ''source'')) (\<lambda>s. ok_option (source_id_new s))) (\<lambda>src.
     Option.bind (string_field (map_of kvs ''kind'')) (\<lambda>kind.
     Option.bind (string_field (map_of kvs ''url'')) (\<lambda>u.
     Option.bind (opt_string_field (map_of kvs ''title'')) (\<lambda>title.
     Option.bind (opt_string_field (map_of kvs ''text'')) (\<lambda>text.
     Option.bind (opt_string_field (map_of kvs ''author'')) (\<lambda>author.
     Option.bind (opt_string_field (map_of kvs ''created_at'')) (\<lambda>created.
     Option.bind (opt_string_field (map_of kvs ''updated_at'')) (\<lambda>updated.
     Option.bind (map_of kvs ''metadata'') (\<lambda>metadata.
       Some \<lparr>rec_id = i, rec_source = src, rec_kind = kind, rec_url = u, rec_title = title,
         rec_text = text, rec_author = author, rec_created_at = created,
         rec_updated_at = updated, rec_metadata = metadata\<rparr>))))))))))"

definition record_from_json :: "json \<Rightarrow> comsat_record option" where
  "record_from_json v = Option.bind (struct_members record_fields v) record_of_members"

section \<open>Targets (\<open>target.rs\<close>)\<close>

datatype target =
    Target_Record comsat_record
  | Target_Url source_id string
  | Target_Native source_id string

fun target_source :: "target \<Rightarrow> source_id" where
  "target_source (Target_Record r) = rec_source r"
| "target_source (Target_Url s u) = s"
| "target_source (Target_Native s i) = s"

fun target_validate :: "libs \<Rightarrow> target \<Rightarrow> (unit, string) result" where
  "target_validate L (Target_Record r) = record_validate L r"
| "target_validate L (Target_Url s u) = validate_url L u"
| "target_validate L (Target_Native s i) = and_then (record_id_new i) (\<lambda>_. Ok ())"


section \<open>What the constructors accept\<close>

lemma no_empty_part_iff:
  "[] \<notin> set (split_on c s) \<longleftrightarrow>
     s \<noteq> [] \<and> hd s \<noteq> c \<and> last s \<noteq> c \<and> successively (\<lambda>a b. \<not> (a = c \<and> b = c)) s"
proof (induction s rule: induct_list012)
  case 1
  then show ?case by simp
next
  case (2 x)
  then show ?case by auto
next
  case (3 x y zs)
  obtain w ws where w: "split_on c (y # zs) = w # ws"
    using split_on_nonempty [of c "y # zs"] by (cases "split_on c (y # zs)") auto
  have step: "x \<noteq> c \<Longrightarrow> [] \<notin> set (split_on c (x # y # zs)) \<longleftrightarrow> [] \<notin> set ws"
    using w by simp
  show ?case
  proof (cases "x = c")
    case True
    then show ?thesis by simp
  next
    case x: False
    show ?thesis
    proof (cases "y = c")
      case True
      with w have "ws = split_on c zs" by simp
      with step x 3 True show ?thesis
        by (cases zs) auto
    next
      case False
      then have "w \<noteq> []" using w by (auto split: list.splits)
      with step x w 3 False show ?thesis by auto
    qed
  qed
qed

lemma parts_alphabet_iff:
  "(\<forall>part \<in> set (split_on c s). list_all P part) \<longleftrightarrow> list_all (\<lambda>b. b = c \<or> P b) s"
proof (induction s)
  case Nil
  then show ?case by simp
next
  case (Cons x xs)
  obtain w ws where w: "split_on c xs = w # ws"
    using split_on_nonempty [of c xs] by (cases "split_on c xs") auto
  with Cons show ?case by auto
qed

lemma source_id_new_parts:
  "is_ok (source_id_new s) \<longleftrightarrow>
     s \<noteq> [] \<and> length s \<le> 64 \<and> (\<forall>part \<in> set (split_on CHR ''-'' s). source_word part)"
  by (auto simp: source_id_new_def source_word_def list_ex_iff list_all_iff)

text \<open>\<open>SourceId::new\<close> accepts exactly the strings of 1 to 64 bytes over lowercase ASCII
  letters, digits and hyphens that neither start nor end with a hyphen and hold no two hyphens in
  a row, and returns the string unchanged.\<close>

lemma source_id_new_accepts:
  "source_id_new s = Ok sid \<longleftrightarrow>
     sid = Source_Id s \<and> s \<noteq> [] \<and> length s \<le> 64 \<and>
     list_all (\<lambda>b. b = CHR ''-'' \<or> is_ascii_lowercase b \<or> is_ascii_digit b) s \<and>
     hd s \<noteq> CHR ''-'' \<and> last s \<noteq> CHR ''-'' \<and>
     successively (\<lambda>a b. \<not> (a = CHR ''-'' \<and> b = CHR ''-'')) s"
proof -
  have wrap: "source_id_new s = Ok sid \<longleftrightarrow> is_ok (source_id_new s) \<and> sid = Source_Id s"
    by (auto simp: source_id_new_def)
  have "(\<forall>part \<in> set (split_on CHR ''-'' s). source_word part) \<longleftrightarrow>
      [] \<notin> set (split_on CHR ''-'' s) \<and>
      (\<forall>part \<in> set (split_on CHR ''-'' s). list_all (\<lambda>b. is_ascii_lowercase b \<or> is_ascii_digit b) part)"
    by (auto simp: source_word_def)
  with wrap source_id_new_parts [of s] show ?thesis
    by (simp add: no_empty_part_iff parts_alphabet_iff) blast
qed

lemma source_id_new_valid: "source_id_new s = Ok sid \<Longrightarrow> sid = Source_Id s \<and> valid_source_id sid"
  by (auto simp: source_id_new_def valid_source_id_def split: if_splits)

definition valid_ids :: "comsat_record \<Rightarrow> bool" where
  "valid_ids r \<longleftrightarrow> is_ok (record_id_new (rid_str (rec_id r))) \<and> valid_source_id (rec_source r)"

lemma opt_string_field_json [simp]: "opt_string_field (Some (json_opt_str x)) = Some x"
  by (cases x) auto

lemma record_id_new_ok: "is_ok (record_id_new (rid_str i)) \<Longrightarrow> record_id_new (rid_str i) = Inr i"
  by (cases i) (auto simp: record_id_new_def split: if_splits)

lemma source_id_new_ok: "valid_source_id s \<Longrightarrow> source_id_new (sid_str s) = Inr s"
  by (cases s) (auto simp: valid_source_id_def source_id_new_def split: if_splits)

lemma map_of_record_json:
  "struct_members record_fields (record_to_json r) = Some (bt_collect
     [(''id'', JString (rid_str (rec_id r))), (''source'', JString (sid_str (rec_source r))),
      (''kind'', JString (rec_kind r)), (''url'', JString (rec_url r)),
      (''title'', json_opt_str (rec_title r)), (''text'', json_opt_str (rec_text r)),
      (''author'', json_opt_str (rec_author r)),
      (''created_at'', json_opt_str (rec_created_at r)),
      (''updated_at'', json_opt_str (rec_updated_at r)), (''metadata'', rec_metadata r)])"
  by (simp add: record_to_json_def json_object_def)

lemma record_from_to_json:
  "record_from_json (record_to_json r) = (if valid_ids r then Some r else None)"
proof -
  have "record_from_json (record_to_json r) =
      Option.bind (ok_option (record_id_new (rid_str (rec_id r)))) (\<lambda>i.
      Option.bind (ok_option (source_id_new (sid_str (rec_source r)))) (\<lambda>src.
        Some (r\<lparr>rec_id := i, rec_source := src\<rparr>)))"
    by (cases r) (simp add: record_from_json_def map_of_record_json record_of_members_def
        string_field_def map_of_bt_collect)
  then show ?thesis
    by (cases "record_id_new (rid_str (rec_id r))"; cases "source_id_new (sid_str (rec_source r))")
      (auto simp: valid_ids_def valid_source_id_def dest: record_id_new_ok source_id_new_ok
        simp: record_id_new_def source_id_new_def split: if_splits)
qed

lemma record_from_json_valid_ids: "record_from_json v = Some r \<Longrightarrow> valid_ids r"
  by (auto simp: record_from_json_def record_of_members_def valid_ids_def Option.bind_eq_Some_conv
      valid_source_id_def is_ok_iff record_id_new_def source_id_new_def ok_option.simps
      split: if_splits elim!: ok_option.elims)

definition example_record :: "string \<Rightarrow> string \<Rightarrow> string \<Rightarrow> comsat_record" where
  "example_record s i u = \<lparr>rec_id = Record_Id i, rec_source = Source_Id s, rec_kind = ''page'',
     rec_url = u, rec_title = None, rec_text = None, rec_author = None, rec_created_at = None,
     rec_updated_at = None, rec_metadata = json_object [(''id'', JString ''7'')]\<rparr>"

end
