(* ===== verification/Source_Contract.thy ===== *)
theory Source_Contract
  imports Types
begin

text \<open>
  The contract between sources and the engine: operation kinds, profiles and tool names
  (\<open>comsat-source/src/descriptor.rs\<close>), and the tool catalog a registered source brings. The
  catalog itself belongs to the Incurs library; a call of a tool is what the engine sees of it,
  the events it hands to the sink and its outcome.
\<close>

datatype operation = Op_Search | Op_Fetch | Op_Follow

fun op_str :: "operation \<Rightarrow> string" where
  "op_str Op_Search = ''search''"
| "op_str Op_Fetch = ''fetch''"
| "op_str Op_Follow = ''follow''"

record profile =
  can_search :: bool
  can_fetch :: bool
  can_follow :: bool

record command_names =
  search_name :: string
  fetch_name :: string
  follow_name :: string

record descriptor =
  desc_id :: source_id
  desc_display_name :: string
  desc_profile :: profile
  desc_commands :: command_names

definition search_only :: profile where
  "search_only = \<lparr>can_search = True, can_fetch = False, can_follow = False\<rparr>"

definition commands_for_source :: "source_id \<Rightarrow> command_names" where
  "commands_for_source s =
     (let source = replace_char CHR ''-'' CHR ''_'' (sid_str s)
      in \<lparr>search_name = ''comsat_'' @ source @ ''_search'',
          fetch_name = ''comsat_'' @ source @ ''_fetch'',
          follow_name = ''comsat_'' @ source @ ''_follow''\<rparr>)"

definition descriptor_new :: "source_id \<Rightarrow> string \<Rightarrow> profile \<Rightarrow> descriptor" where
  "descriptor_new i name p =
     \<lparr>desc_id = i, desc_display_name = name, desc_profile = p, desc_commands = commands_for_source i\<rparr>"

fun supports :: "descriptor \<Rightarrow> operation \<Rightarrow> bool" where
  "supports d Op_Search = can_search (desc_profile d)"
| "supports d Op_Fetch = can_fetch (desc_profile d)"
| "supports d Op_Follow = can_follow (desc_profile d)"

fun command_name :: "command_names \<Rightarrow> operation \<Rightarrow> string" where
  "command_name c Op_Search = search_name c"
| "command_name c Op_Fetch = fetch_name c"
| "command_name c Op_Follow = follow_name c"

definition tool_name :: "descriptor \<Rightarrow> operation \<Rightarrow> string option" where
  "tool_name d op = (if \<not> supports d op then None else Some (command_name (desc_commands d) op))"

section \<open>Tool calls\<close>

datatype tool_event = Chunk json | Other_Event

datatype tool_outcome = Tool_Ok json | Tool_Error string string

record tool_run =
  run_events :: "tool_event list"
  run_outcome :: tool_outcome

type_synonym arguments = "(string \<times> json) list"

record catalog_source =
  cs_descriptor :: descriptor
  cs_call :: "string \<Rightarrow> arguments \<Rightarrow> tool_run"

abbreviation cs_id :: "catalog_source \<Rightarrow> source_id" where
  "cs_id s \<equiv> desc_id (cs_descriptor s)"

lemma sid_str_eq [simp]: "sid_str a = sid_str b \<longleftrightarrow> a = b"
  by (cases a; cases b; simp)

lemma supports_tool_name: "supports d op \<longleftrightarrow> tool_name d op \<noteq> None"
  by (simp add: tool_name_def)

text \<open>Different sources get different tool names: a source id holds no underscore, so replacing
  its hyphens loses nothing.\<close>

lemma replace_char_inj:
  assumes "b \<notin> set s" "b \<notin> set t" "replace_char a b s = replace_char a b t"
  shows "s = t"
proof (rule nth_equalityI)
  from assms(3) have m: "map (\<lambda>c. if c = a then b else c) s = map (\<lambda>c. if c = a then b else c) t"
    by (simp add: replace_char_def)
  then show len: "length s = length t" by (rule map_eq_imp_length_eq)
  fix i assume i: "i < length s"
  have "map (\<lambda>c. if c = a then b else c) s ! i = map (\<lambda>c. if c = a then b else c) t ! i"
    by (simp only: m)
  then have "(if s ! i = a then b else s ! i) = (if t ! i = a then b else t ! i)"
    using i len by simp
  moreover have "s ! i \<noteq> b" using assms(1) i nth_mem [of i s] by (intro notI) simp
  moreover have "t ! i \<noteq> b" using assms(2) i len nth_mem [of i t] by (intro notI) simp
  ultimately show "s ! i = t ! i" by (simp split: if_splits)
qed

lemma source_id_no_underscore:
  assumes "valid_source_id s"
  shows "CHR ''_'' \<notin> set (sid_str s)"
proof -
  have "is_ok (source_id_new (sid_str s))" using source_id_new_ok [OF assms] by simp
  then have "\<forall>part \<in> set (split_on CHR ''-'' (sid_str s)).
      list_all (\<lambda>b. is_ascii_lowercase b \<or> is_ascii_digit b) part"
    by (simp add: source_id_new_parts source_word_def)
  then have "list_all (\<lambda>b. b = CHR ''-'' \<or> is_ascii_lowercase b \<or> is_ascii_digit b) (sid_str s)"
    by (simp only: parts_alphabet_iff)
  moreover have "\<not> (CHR ''_'' = CHR ''-'' \<or> is_ascii_lowercase CHR ''_'' \<or> is_ascii_digit CHR ''_'')"
    by code_simp
  ultimately show ?thesis unfolding list_all_iff by blast
qed

lemma op_str_inj: "op_str a = op_str b \<longleftrightarrow> a = b"
  by (cases a; cases b; simp)

lemma command_name_shape:
  "command_name (commands_for_source s) op =
     ''comsat_'' @ replace_char CHR ''-'' CHR ''_'' (sid_str s) @ ''_'' @ op_str op"
  by (cases op) (simp_all add: commands_for_source_def Let_def)

lemma last_word_unique:
  assumes "u @ c # v = u' @ c # v'" "c \<notin> set v" "c \<notin> set v'"
  shows "u = u' \<and> v = v'"
proof -
  have "rev v @ c # rev u = rev v' @ c # rev u'"
    using arg_cong [OF assms(1), of rev] by simp
  then have eq: "takeWhile (\<lambda>x. x \<noteq> c) (rev v @ c # rev u) = takeWhile (\<lambda>x. x \<noteq> c) (rev v' @ c # rev u')"
    by (simp only:)
  have "takeWhile (\<lambda>x. x \<noteq> c) (rev v @ c # rev u) = rev v"
    using assms(2) by (subst takeWhile_append2) auto
  moreover have "takeWhile (\<lambda>x. x \<noteq> c) (rev v' @ c # rev u') = rev v'"
    using assms(3) by (subst takeWhile_append2) auto
  ultimately have "rev v = rev v'" using eq by simp
  with assms(1) show ?thesis by simp
qed

text \<open>Tool names are unambiguous: two operations of descriptors built for valid source ids
  have the same tool name only when both the source and the operation are the same.\<close>

lemma tool_names_injective:
  assumes "valid_source_id s" "valid_source_id t"
    and "tool_name (descriptor_new s n p) a = Some w" "tool_name (descriptor_new t m q) b = Some w"
  shows "s = t \<and> a = b"
proof -
  let ?r = "\<lambda>x. replace_char CHR ''-'' CHR ''_'' (sid_str x)"
  have "''comsat_'' @ ?r s @ ''_'' @ op_str a = ''comsat_'' @ ?r t @ ''_'' @ op_str b"
    using assms(3,4) by (auto simp: tool_name_def descriptor_new_def command_name_shape split: if_splits)
  then have "?r s @ CHR ''_'' # op_str a = ?r t @ CHR ''_'' # op_str b" by simp
  moreover have "CHR ''_'' \<notin> set (op_str a)" "CHR ''_'' \<notin> set (op_str b)"
    by (cases a; simp) (cases b; simp)
  ultimately have "?r s = ?r t \<and> op_str a = op_str b" by (rule last_word_unique)
  then show ?thesis
    using assms(1,2) replace_char_inj [of "CHR ''_''" "sid_str s" "sid_str t" "CHR ''-''"]
    by (simp add: op_str_inj source_id_no_underscore sid_str_eq)
qed

end
