(* ===== verification/Engine_Plan.thy ===== *)
theory Engine_Plan
  imports Source_Contract
begin

text \<open>
  \<open>comsat-engine/src/plan.rs\<close>: which sources a search or a follow runs, in which order, and the
  diagnostics for the ones it cannot run; the value types of \<open>merge.rs\<close> it produces.
\<close>

record diagnostic =
  diag_source :: source_id
  diag_class :: error_class
  diag_message :: string
  diag_retry_after :: "nat option"

definition diagnostic_of_error :: "source_error \<Rightarrow> diagnostic" where
  "diagnostic_of_error e = \<lparr>diag_source = err_source e, diag_class = err_class e,
     diag_message = err_message e, diag_retry_after = err_retry_after e\<rparr>"

datatype engine_error =
    SourceNotFound source_id
  | DuplicateSourceId source_id
  | UnsupportedOperation source_id string
  | SourceFailure source_error
  | StrictSearchFailed "diagnostic list"

record search_request =
  sr_query :: query
  sr_sources :: "source_id list"
  sr_strict :: bool

definition search_request_all :: "query \<Rightarrow> search_request" where
  "search_request_all q = \<lparr>sr_query = q, sr_sources = [], sr_strict = False\<rparr>"

record engine_limits =
  max_active_sources :: nat
  event_buffer :: nat
  max_records_per_source :: nat
  max_bytes_per_source :: nat

definition default_limits :: engine_limits where
  "default_limits = \<lparr>max_active_sources = 4, event_buffer = 32,
     max_records_per_source = 1000, max_bytes_per_source = 8 * 1024 * 1024\<rparr>"

datatype operation_input = Input_Query query | Input_Target target

datatype stream_plan = Plan_Search search_request | Plan_Follow target

record planned_source =
  ps_source :: catalog_source
  ps_operation :: operation
  ps_input :: operation_input

type_synonym plan = "planned_source list \<times> diagnostic list \<times> bool"

definition source_not_found :: "source_id \<Rightarrow> diagnostic" where
  "source_not_found s = \<lparr>diag_source = s, diag_class = NotFound,
     diag_message = ''source is not registered'', diag_retry_after = None\<rparr>"

definition unsupported :: "source_id \<Rightarrow> operation \<Rightarrow> diagnostic" where
  "unsupported s op = \<lparr>diag_source = s, diag_class = Unsupported,
     diag_message = ''source does not support '' @ op_str op, diag_retry_after = None\<rparr>"

definition sources_by_id :: "catalog_source list \<Rightarrow> (string \<times> catalog_source) list" where
  "sources_by_id sources = bt_collect (map (\<lambda>s. (sid_str (cs_id s), s)) sources)"

definition selected_source_ids ::
  "(string \<times> catalog_source) list \<Rightarrow> source_id list \<Rightarrow> source_id list" where
  "selected_source_ids by_id selected =
     (let ids = (if selected = [] then map (\<lambda>e. cs_id (snd e)) by_id else selected)
      in remdups_adj (sort ids))"

definition missing_source_diagnostics ::
  "(string \<times> catalog_source) list \<Rightarrow> source_id list \<Rightarrow> diagnostic list" where
  "missing_source_diagnostics by_id selected =
     map source_not_found
       (remdups_adj (sort (filter (\<lambda>s. map_of by_id (sid_str s) = None) selected)))"

definition planned_search :: "search_request \<Rightarrow> catalog_source \<Rightarrow> planned_source" where
  "planned_search request source =
     \<lparr>ps_source = source, ps_operation = Op_Search, ps_input = Input_Query (sr_query request)\<rparr>"

definition planned_follow :: "catalog_source \<Rightarrow> target \<Rightarrow> planned_source" where
  "planned_follow source t =
     \<lparr>ps_source = source, ps_operation = Op_Follow, ps_input = Input_Target t\<rparr>"

definition plan_search :: "catalog_source list \<Rightarrow> search_request \<Rightarrow> plan" where
  "plan_search sources request =
     (let by_id = sources_by_id sources;
          diagnostics = missing_source_diagnostics by_id (sr_sources request);
          pending = map (planned_search request)
            (filter (\<lambda>s. supports (cs_descriptor s) Op_Search)
              (List.map_filter (\<lambda>i. map_of by_id (sid_str i))
                (selected_source_ids by_id (sr_sources request))))
      in (pending, diagnostics, sr_strict request))"

definition plan_follow :: "catalog_source list \<Rightarrow> target \<Rightarrow> plan" where
  "plan_follow sources t =
     (let source_id = target_source t; by_id = sources_by_id sources
      in case map_of by_id (sid_str source_id) of
           None \<Rightarrow> ([], [source_not_found source_id], False)
         | Some source \<Rightarrow>
             if \<not> supports (cs_descriptor source) Op_Follow
             then ([], [unsupported source_id Op_Follow], False)
             else ([planned_follow source t], [], False))"

fun plan_sources :: "catalog_source list \<Rightarrow> stream_plan \<Rightarrow> plan" where
  "plan_sources sources (Plan_Search request) = plan_search sources request"
| "plan_sources sources (Plan_Follow t) = plan_follow sources t"

fun validate_unique_from :: "source_id set \<Rightarrow> catalog_source list \<Rightarrow> (unit, engine_error) result" where
  "validate_unique_from seen [] = Ok ()"
| "validate_unique_from seen (s # ss) =
     (if cs_id s \<in> seen then Err (DuplicateSourceId (cs_id s))
      else validate_unique_from (insert (cs_id s) seen) ss)"

definition validate_unique_sources :: "catalog_source list \<Rightarrow> (unit, engine_error) result" where
  "validate_unique_sources sources = validate_unique_from {} sources"

section \<open>What a plan holds\<close>

lemma validate_unique_from_ok:
  "validate_unique_from seen ss = Ok () \<longleftrightarrow> distinct (map cs_id ss) \<and> cs_id ` set ss \<inter> seen = {}"
  by (induction ss arbitrary: seen) auto

lemma validate_unique_sources_ok:
  "validate_unique_sources ss = Ok () \<longleftrightarrow> distinct (map cs_id ss)"
  by (simp add: validate_unique_sources_def validate_unique_from_ok)

lemma validate_unique_from_err:
  "validate_unique_from seen ss = Err e \<Longrightarrow> \<exists>s \<in> set ss. e = DuplicateSourceId (cs_id s)"
  by (induction ss arbitrary: seen) (auto split: if_splits)

lemma map_of_rev_distinct: "distinct (map fst xs) \<Longrightarrow> map_of (rev xs) = map_of xs"
  by (simp add: map_of_inject_set rev_map [symmetric])

lemma map_of_sources_by_id:
  assumes "distinct (map cs_id sources)"
  shows "map_of (sources_by_id sources) k = Some s \<longleftrightarrow> s \<in> set sources \<and> sid_str (cs_id s) = k"
proof -
  let ?es = "map (\<lambda>s. (sid_str (cs_id s), s)) sources"
  have d: "distinct (map fst ?es)"
    using assms by (simp add: distinct_map inj_on_def comp_def)
  have "map_of (sources_by_id sources) = map_of ?es"
    unfolding sources_by_id_def map_of_bt_collect by (rule map_of_rev_distinct [OF d])
  moreover have "map_of ?es k = Some s \<longleftrightarrow> (k, s) \<in> set ?es"
    by (rule map_of_eq_Some_iff [OF d])
  ultimately show ?thesis by auto
qed

lemma keys_sources_by_id: "fst ` set (sources_by_id sources) = (\<lambda>s. sid_str (cs_id s)) ` set sources"
  by (auto simp: sources_by_id_def bt_collect_keys image_image)

lemma registered_iff:
  "map_of (sources_by_id sources) (sid_str i) = None \<longleftrightarrow> i \<notin> cs_id ` set sources"
  by (auto simp: map_of_eq_None_iff keys_sources_by_id)

lemma values_sources_by_id:
  assumes "distinct (map cs_id sources)"
  shows "(\<lambda>e. cs_id (snd e)) ` set (sources_by_id sources) = cs_id ` set sources"
proof -
  have "distinct (map fst (sources_by_id sources))"
    using bt_collect_sorted [of "map (\<lambda>s. (sid_str (cs_id s), s)) sources"]
    by (simp add: sources_by_id_def bt_sorted_def strict_sorted_iff)
  then have "\<And>k s. (k, s) \<in> set (sources_by_id sources) \<longleftrightarrow> map_of (sources_by_id sources) k = Some s"
    by (simp add: map_of_eq_Some_iff)
  then have "set (sources_by_id sources) = (\<lambda>s. (sid_str (cs_id s), s)) ` set sources"
    using map_of_sources_by_id [OF assms] by auto
  then show ?thesis by (simp add: image_image)
qed

lemma distinct_remdups_adj_sorted:
  fixes xs :: "'a::linorder list"
  shows "sorted xs \<Longrightarrow> distinct (remdups_adj xs)"
  by (induction xs rule: remdups_adj.induct) auto

lemma strict_sorted_dedup: "sorted_wrt (<) (remdups_adj (sort xs))"
  by (simp add: strict_sorted_iff distinct_remdups_adj_sorted)

lemma set_map_filter_eq: "set (List.map_filter f xs) = {y. \<exists>x \<in> set xs. f x = Some y}"
  by (induction xs) (auto simp: List.map_filter_simps split: option.splits)

lemma sorted_wrt_map_filter:
  "sorted_wrt R xs \<Longrightarrow> (\<And>x y. f x = Some y \<Longrightarrow> k y = x) \<Longrightarrow>
   sorted_wrt R (map k (List.map_filter f xs))"
proof (induction xs)
  case Nil
  then show ?case by (simp add: List.map_filter_simps)
next
  case (Cons x xs)
  have "set (map k (List.map_filter f xs)) \<subseteq> set xs"
    using Cons.prems(2) by (auto simp: set_map_filter_eq)
  with Cons show ?case by (auto simp: List.map_filter_simps split: option.splits)
qed

lemma selected_pool:
  assumes "distinct (map cs_id sources)"
  shows "set (List.map_filter (\<lambda>i. map_of (sources_by_id sources) (sid_str i))
      (selected_source_ids (sources_by_id sources) sel)) =
    {s \<in> set sources. sel = [] \<or> cs_id s \<in> set sel}"
proof -
  have "set (selected_source_ids (sources_by_id sources) sel) =
      (if sel = [] then cs_id ` set sources else set sel)"
    using values_sources_by_id [OF assms] by (auto simp: selected_source_ids_def Let_def)
  moreover have "\<And>ids. set (List.map_filter (\<lambda>i. map_of (sources_by_id sources) (sid_str i)) ids) =
      {s \<in> set sources. cs_id s \<in> set ids}"
    using map_of_sources_by_id [OF assms] by (auto simp: set_map_filter_eq)
  ultimately show ?thesis by auto
qed

lemma plan_search_facts:
  assumes "validate_unique_sources sources = Ok ()"
    and "plan_search sources request = (pending, diagnostics, strict)"
  shows "sorted_wrt (<) (map (\<lambda>p. cs_id (ps_source p)) pending)
    \<and> ps_source ` set pending = {s \<in> set sources. can_search (desc_profile (cs_descriptor s)) \<and>
           (sr_sources request = [] \<or> cs_id s \<in> set (sr_sources request))}
    \<and> set pending = planned_search request ` ps_source ` set pending
    \<and> sorted_wrt (<) (map diag_source diagnostics)
    \<and> set diagnostics = source_not_found ` (set (sr_sources request) - cs_id ` set sources)
    \<and> strict = sr_strict request"
    (is "?order \<and> ?sources \<and> ?input \<and> ?d_order \<and> ?d_set \<and> ?strict")
proof -
  have d: "distinct (map cs_id sources)" using assms(1) by (simp add: validate_unique_sources_ok)
  let ?by = "sources_by_id sources"
  let ?ids = "selected_source_ids ?by (sr_sources request)"
  let ?pool = "filter (\<lambda>s. can_search (desc_profile (cs_descriptor s)))
    (List.map_filter (\<lambda>i. map_of ?by (sid_str i)) ?ids)"
  have p: "pending = map (planned_search request) ?pool"
    and di: "diagnostics = missing_source_diagnostics ?by (sr_sources request)"
    and st: ?strict
    using assms(2) by (auto simp: plan_search_def Let_def)
  have ps: "ps_source (planned_search request s) = s" for s by (simp add: planned_search_def)
  have ?sources ?input
    using selected_pool [OF d, of "sr_sources request"] by (auto simp: p ps image_image)
  have "sorted_wrt (<) ?ids" by (simp add: selected_source_ids_def Let_def strict_sorted_dedup)
  then have "sorted_wrt (<) (map cs_id (List.map_filter (\<lambda>i. map_of ?by (sid_str i)) ?ids))"
    by (rule sorted_wrt_map_filter) (simp add: map_of_sources_by_id [OF d])
  then have "sorted_wrt (<) (map cs_id ?pool)" by (simp add: sorted_wrt_map sorted_wrt_filter)
  then have ?order by (simp add: p ps comp_def)
  have ?d_order
    by (simp add: di missing_source_diagnostics_def comp_def source_not_found_def strict_sorted_dedup)
  have ?d_set
    by (auto simp: di missing_source_diagnostics_def registered_iff)
  show ?thesis
    using \<open>?order\<close> \<open>?sources\<close> \<open>?input\<close> \<open>?d_order\<close> \<open>?d_set\<close> st by blast
qed

text \<open>The plan of a search over a catalog with distinct source ids names each selected,
  registered and search-capable source exactly once, in increasing id order (an empty selection
  selects every source), asks each for the request's query, and holds one \<open>not_found\<close> diagnostic,
  in id order, for each selected id that is not registered.\<close>

lemma plan_search_exact:
  assumes "validate_unique_sources sources = Ok ()"
    and "plan_search sources request = (pending, diagnostics, strict)"
  shows "sorted_wrt (<) (map (\<lambda>p. cs_id (ps_source p)) pending)
    \<and> ps_source ` set pending = {s \<in> set sources. can_search (desc_profile (cs_descriptor s)) \<and>
           (sr_sources request = [] \<or> cs_id s \<in> set (sr_sources request))}
    \<and> set pending = planned_search request ` ps_source ` set pending
    \<and> sorted_wrt (<) (map diag_source diagnostics)
    \<and> set diagnostics = source_not_found ` (set (sr_sources request) - cs_id ` set sources)
    \<and> strict = sr_strict request"
  by (rule plan_search_facts [OF assms])

definition example_source :: "string \<Rightarrow> profile \<Rightarrow> catalog_source" where
  "example_source name p = \<lparr>cs_descriptor = descriptor_new (Source_Id name) name p,
     cs_call = \<lambda>_ _. \<lparr>run_events = [], run_outcome = Tool_Ok JNull\<rparr>\<rparr>"

definition example_request :: search_request where
  "example_request =
     \<lparr>sr_query = \<lparr>q_text = ''rust'', q_limit = None, q_since = None, q_until = None\<rparr>,
      sr_sources = [Source_Id ''web'', Source_Id ''reddit'', Source_Id ''github''], sr_strict = True\<rparr>"

end
