(* ===== verification/Metrics.thy ===== *)
theory Metrics
  imports Source_Contract
begin

text \<open>
  \<open>comsat-engine/src/metrics.rs\<close>: counters per source and operation. A \<open>u64\<close> counter is a
  64-bit word: \<open>+= 1\<close> wraps, \<open>saturating_add(1)\<close> is \<open>sat_inc\<close>. An \<open>OperationGuard\<close> is
  the record of an operation that has started and not yet reported its outcome; its methods and
  its \<open>Drop\<close> are functions on the counters and the guard.
\<close>

record op_metrics =
  requests :: "64 word"
  successes :: "64 word"
  failures :: "64 word"
  rate_limits :: "64 word"
  cancelled :: "64 word"

definition op_metrics_default :: op_metrics where
  "op_metrics_default = \<lparr>requests = 0, successes = 0, failures = 0, rate_limits = 0, cancelled = 0\<rparr>"

record source_metrics =
  sm_search :: op_metrics
  sm_fetch :: op_metrics
  sm_follow :: op_metrics
  records_emitted :: "64 word"
  records_deduplicated :: "64 word"

definition source_metrics_default :: source_metrics where
  "source_metrics_default = \<lparr>sm_search = op_metrics_default, sm_fetch = op_metrics_default,
     sm_follow = op_metrics_default, records_emitted = 0, records_deduplicated = 0\<rparr>"

type_synonym metrics = "(source_id \<times> source_metrics) list"

fun operation_of :: "operation \<Rightarrow> source_metrics \<Rightarrow> op_metrics" where
  "operation_of Op_Search m = sm_search m"
| "operation_of Op_Fetch m = sm_fetch m"
| "operation_of Op_Follow m = sm_follow m"

fun operation_mut :: "operation \<Rightarrow> (op_metrics \<Rightarrow> op_metrics) \<Rightarrow> source_metrics \<Rightarrow> source_metrics" where
  "operation_mut Op_Search f m = m\<lparr>sm_search := f (sm_search m)\<rparr>"
| "operation_mut Op_Fetch f m = m\<lparr>sm_fetch := f (sm_fetch m)\<rparr>"
| "operation_mut Op_Follow f m = m\<lparr>sm_follow := f (sm_follow m)\<rparr>"

definition metrics_new :: "source_id list \<Rightarrow> metrics" where
  "metrics_new sources = bt_collect (map (\<lambda>s. (s, source_metrics_default)) sources)"

definition metrics_snapshot :: "metrics \<Rightarrow> (string \<times> source_metrics) list" where
  "metrics_snapshot m = bt_collect (map (\<lambda>e. (sid_str (fst e), snd e)) m)"

definition metrics_update :: "source_id \<Rightarrow> (source_metrics \<Rightarrow> source_metrics) \<Rightarrow> metrics \<Rightarrow> metrics" where
  "metrics_update s f m = map (\<lambda>e. if fst e = s then (fst e, f (snd e)) else e) m"

datatype terminal_outcome = Out_Success | Out_Failure bool | Out_Cancelled

fun terminal_update :: "terminal_outcome \<Rightarrow> op_metrics \<Rightarrow> op_metrics" where
  "terminal_update Out_Success m = m\<lparr>successes := successes m + 1\<rparr>"
| "terminal_update Out_Cancelled m = m\<lparr>cancelled := cancelled m + 1\<rparr>"
| "terminal_update (Out_Failure rate_limited) m =
     (let m = m\<lparr>failures := failures m + 1\<rparr>
      in if rate_limited then m\<lparr>rate_limits := rate_limits m + 1\<rparr> else m)"

definition terminal :: "source_id \<Rightarrow> operation \<Rightarrow> terminal_outcome \<Rightarrow> metrics \<Rightarrow> metrics" where
  "terminal s op out m = metrics_update s (operation_mut op (terminal_update out)) m"

record guard =
  g_source :: source_id
  g_operation :: operation
  g_completed :: bool

definition start :: "source_id \<Rightarrow> operation \<Rightarrow> metrics \<Rightarrow> metrics \<times> guard" where
  "start s op m =
     (metrics_update s (operation_mut op (\<lambda>c. c\<lparr>requests := requests c + 1\<rparr>)) m,
      \<lparr>g_source = s, g_operation = op, g_completed = False\<rparr>)"

definition record_emitted :: "source_id \<Rightarrow> metrics \<Rightarrow> metrics" where
  "record_emitted s m = metrics_update s (\<lambda>c. c\<lparr>records_emitted := sat_inc (records_emitted c)\<rparr>) m"

definition record_deduplicated :: "source_id \<Rightarrow> metrics \<Rightarrow> metrics" where
  "record_deduplicated s m =
     metrics_update s (\<lambda>c. c\<lparr>records_deduplicated := sat_inc (records_deduplicated c)\<rparr>) m"

definition guard_drop :: "guard \<Rightarrow> metrics \<Rightarrow> metrics" where
  "guard_drop g m = (if \<not> g_completed g then terminal (g_source g) (g_operation g) Out_Cancelled m else m)"

text \<open>The three methods take the guard by value: it is dropped, completed, at their end.\<close>

definition guard_success :: "guard \<Rightarrow> metrics \<Rightarrow> metrics" where
  "guard_success g m =
     (let g = g\<lparr>g_completed := True\<rparr>
      in guard_drop g (terminal (g_source g) (g_operation g) Out_Success m))"

definition guard_failure :: "error_class \<Rightarrow> guard \<Rightarrow> metrics \<Rightarrow> metrics" where
  "guard_failure class g m =
     (let g = g\<lparr>g_completed := True\<rparr>
      in guard_drop g (terminal (g_source g) (g_operation g) (Out_Failure (class = RateLimit)) m))"

definition guard_cancelled :: "guard \<Rightarrow> metrics \<Rightarrow> metrics" where
  "guard_cancelled g m =
     (let g = g\<lparr>g_completed := True\<rparr>
      in guard_drop g (terminal (g_source g) (g_operation g) Out_Cancelled m))"

section \<open>Every started operation is accounted for\<close>

lemmas guard_defs = guard_success_def guard_failure_def guard_cancelled_def guard_drop_def

lemma map_of_metrics_update:
  "map_of (metrics_update s f m) t = (if t = s then map_option f (map_of m s) else map_of m t)"
  by (induction m) (auto simp: metrics_update_def)

lemma operation_of_mut [simp]:
  "operation_of o1 (operation_mut o2 f m) = (if o1 = o2 then f (operation_of o1 m) else operation_of o1 m)"
  by (cases o1; cases o2; simp)

lemma operation_of_records [simp]:
  "operation_of op (m\<lparr>records_emitted := x\<rparr>) = operation_of op m"
  "operation_of op (m\<lparr>records_deduplicated := x\<rparr>) = operation_of op m"
  by (cases op; simp)+

definition op_ended :: "op_metrics \<Rightarrow> 64 word" where
  "op_ended c = successes c + failures c + cancelled c"

lemma op_ended_terminal [simp]: "op_ended (terminal_update out c) = op_ended c + 1"
  by (cases out) (simp_all add: op_ended_def Let_def)

lemma requests_terminal [simp]: "requests (terminal_update out c) = requests c"
  by (cases out) (simp_all add: Let_def)

text \<open>\<open>balanced m open\<close>: of each registered source, the requests of each operation are the ended
  ones and those with an open guard.\<close>

definition owed :: "op_metrics \<Rightarrow> 64 word" where
  "owed c = requests c - op_ended c"

definition balanced :: "metrics \<Rightarrow> (source_id \<times> operation) list \<Rightarrow> bool" where
  "balanced m open \<longleftrightarrow> (\<forall>s c op. map_of m s = Some c \<longrightarrow>
     owed (operation_of op c) = of_nat (count_list open (s, op)))"

lemma balancedD:
  "balanced m open \<Longrightarrow> map_of m s = Some c \<Longrightarrow>
   owed (operation_of op c) = of_nat (count_list open (s, op))"
  by (simp add: balanced_def)

lemma balanced_new: "balanced (metrics_new sources) []"
  unfolding balanced_def
proof (intro allI impI)
  fix s c op
  assume "map_of (metrics_new sources) s = Some c"
  then have c: "c = source_metrics_default"
    using map_of_SomeD [of "rev (map (\<lambda>s. (s, source_metrics_default)) sources)" s c]
    by (auto simp: metrics_new_def map_of_bt_collect)
  show "owed (operation_of op c) = of_nat (count_list [] (s, op))"
    unfolding c
    by (cases op) (simp_all add: source_metrics_default_def op_metrics_default_def op_ended_def owed_def)
qed

lemma balanced_update:
  assumes "balanced m open"
    and "\<And>c op. owed (operation_of op (f c)) + of_nat (count_list open (s, op)) =
        owed (operation_of op c) + of_nat (count_list open' (s, op))"
    and "\<And>t op. t \<noteq> s \<Longrightarrow> count_list open' (t, op) = count_list open (t, op)"
  shows "balanced (metrics_update s f m) open'"
  unfolding balanced_def
proof (intro allI impI)
  fix t c op
  assume c: "map_of (metrics_update s f m) t = Some c"
  show "owed (operation_of op c) = of_nat (count_list open' (t, op))"
  proof (cases "t = s")
    case True
    with c obtain c0 where c0: "map_of m s = Some c0" "c = f c0"
      by (auto simp: map_of_metrics_update)
    from balancedD [OF assms(1) c0(1)] have "owed (operation_of op c0) = of_nat (count_list open (s, op))" .
    with assms(2) [of op c0] c0 True show ?thesis by simp
  next
    case False
    with c have "map_of m t = Some c" by (simp add: map_of_metrics_update)
    from balancedD [OF assms(1) this] assms(3) [OF False] show ?thesis by simp
  qed
qed

lemma balanced_start: "balanced m open \<Longrightarrow> balanced (fst (start s op m)) ((s, op) # open)"
  unfolding start_def fst_conv by (erule balanced_update) (auto simp: owed_def op_ended_def)

lemma count_list_remove1:
  "count_list (remove1 a xs) x = (if x = a then count_list xs x - 1 else count_list xs x)"
  by (induction xs) auto

lemma balanced_terminal:
  assumes "balanced m open" "(s, op) \<in> set open"
  shows "balanced (terminal s op out m) (remove1 (s, op) open)"
  unfolding terminal_def
proof (rule balanced_update [OF assms(1)])
  have p: "count_list open (s, op) \<noteq> 0" using assms(2) by (simp add: count_list_0_iff)
  then obtain n where n: "count_list open (s, op) = Suc n" by (cases "count_list open (s, op)") auto
  show "owed (operation_of op' (operation_mut op (terminal_update out) c)) + of_nat (count_list open (s, op')) =
      owed (operation_of op' c) + of_nat (count_list (remove1 (s, op) open) (s, op'))" for c op'
    by (cases "op' = op") (simp_all add: owed_def count_list_remove1 n)
qed (simp add: count_list_remove1)

lemma balanced_record_emitted: "balanced m open \<Longrightarrow> balanced (record_emitted s m) open"
  unfolding record_emitted_def by (erule balanced_update) simp_all

lemma balanced_record_deduplicated: "balanced m open \<Longrightarrow> balanced (record_deduplicated s m) open"
  unfolding record_deduplicated_def by (erule balanced_update) simp_all

lemmas balanced_records = balanced_record_emitted balanced_record_deduplicated

text \<open>The life of the engine's counters: guards open and close in any order.\<close>

type_synonym metrics_state = "metrics \<times> guard list"

inductive metrics_step :: "metrics_state \<Rightarrow> metrics_state \<Rightarrow> bool" where
  m_start: "start s op m = (m', g) \<Longrightarrow> metrics_step (m, gs) (m', g # gs)"
| m_success: "g \<in> set gs \<Longrightarrow> metrics_step (m, gs) (guard_success g m, remove1 g gs)"
| m_failure: "g \<in> set gs \<Longrightarrow> metrics_step (m, gs) (guard_failure class g m, remove1 g gs)"
| m_cancelled: "g \<in> set gs \<Longrightarrow> metrics_step (m, gs) (guard_cancelled g m, remove1 g gs)"
| m_drop: "g \<in> set gs \<Longrightarrow> metrics_step (m, gs) (guard_drop g m, remove1 g gs)"
| m_emitted: "metrics_step (m, gs) (record_emitted s m, gs)"
| m_deduplicated: "metrics_step (m, gs) (record_deduplicated s m, gs)"

inductive_cases metrics_stepE: "metrics_step (m, gs) (m', gs')"

abbreviation guard_key :: "guard \<Rightarrow> source_id \<times> operation" where
  "guard_key g \<equiv> (g_source g, g_operation g)"

definition metrics_inv :: "metrics_state \<Rightarrow> bool" where
  "metrics_inv st \<longleftrightarrow> balanced (fst st) (map guard_key (snd st)) \<and>
     (\<forall>g \<in> set (snd st). \<not> g_completed g)"

lemma count_list_map_remove1:
  assumes "g \<in> set gs"
  shows "count_list (map f (remove1 g gs)) x = count_list (remove1 (f g) (map f gs)) x"
proof -
  from assms have "count_list (map f gs) x = count_list (f g # map f (remove1 g gs)) x"
    by (induction gs) auto
  then show ?thesis by (simp add: count_list_remove1)
qed

lemma metrics_inv_step:
  assumes "metrics_step st st'" "metrics_inv st"
  shows "metrics_inv st'"
proof -
  have close: "metrics_inv (terminal (g_source g) (g_operation g) out m, remove1 g gs)"
    if "metrics_inv (m, gs)" "g \<in> set gs" for m gs g out
  proof -
    have "balanced (terminal (g_source g) (g_operation g) out m) (remove1 (guard_key g) (map guard_key gs))"
      by (rule balanced_terminal) (use that in \<open>auto simp: metrics_inv_def\<close>)
    then have "balanced (terminal (g_source g) (g_operation g) out m) (map guard_key (remove1 g gs))"
      by (simp add: balanced_def count_list_map_remove1 [OF that(2), of guard_key])
    with that show ?thesis using set_remove1_subset [of g gs] by (auto simp: metrics_inv_def)
  qed
  from assms show ?thesis
  proof (cases rule: metrics_step.cases)
    case (m_start s op m m' g gs)
    then have "fst (start s op m) = m'" "g = \<lparr>g_source = s, g_operation = op, g_completed = False\<rparr>"
      by (auto simp: start_def)
    with m_start assms(2) balanced_start [of m "map guard_key gs" s op] show ?thesis
      by (auto simp: metrics_inv_def)
  next
    case (m_drop g gs m)
    with assms(2) close [of m gs g] show ?thesis by (auto simp: metrics_inv_def guard_drop_def)
  qed (use assms(2) close in \<open>auto simp: guard_defs Let_def metrics_inv_def balanced_records\<close>)
qed

text \<open>Whatever operations start, succeed, fail, are cancelled or are dropped, in any order and
  for any sources, once no guard is open the requests of every operation of every registered source
  are its successes, failures and cancellations together (as 64-bit counters).\<close>

lemma metrics_accounted:
  assumes "metrics_step\<^sup>*\<^sup>* (metrics_new sources, []) (m, [])" "map_of m s = Some c"
  shows "requests (operation_of op c) =
    successes (operation_of op c) + failures (operation_of op c) + cancelled (operation_of op c)"
proof -
  from assms(1) have "metrics_inv (m, [])"
  proof (induction rule: rtranclp_induct)
    case base
    then show ?case by (simp add: metrics_inv_def balanced_new)
  next
    case (step y z)
    then show ?case by (blast intro: metrics_inv_step)
  qed
  with assms(2) show ?thesis by (simp add: metrics_inv_def balanced_def owed_def op_ended_def)
qed

definition example_counters :: "source_metrics option" where
  "example_counters = map_of (guard_failure RateLimit
       \<lparr>g_source = Source_Id ''web'', g_operation = Op_Fetch, g_completed = False\<rparr>
       (fst (start (Source_Id ''web'') Op_Fetch (metrics_new [Source_Id ''web'']))))
     (Source_Id ''web'')"

end
