(* ===== verification/Engine_Sink.thy ===== *)
theory Engine_Sink
  imports Engine_Plan Metrics
begin

text \<open>
  \<open>comsat-engine/src/invoke.rs\<close>: one call of a source's tool, the budgeted sink its events go
  through, and a fetch. What the task that runs a source does to the rest of the engine is a list
  of \<open>worker_step\<close>s in program order: it opens its guard, sends events into its channel and
  reports its outcome to the metrics. Cancellation by the driver drops the task, so a script may
  be cut short (\<open>Engine_Merge\<close>). A \<open>usize\<close> counter is a 64-bit word whose addition saturates.
\<close>

datatype worker_event = W_Record source_id comsat_record | W_Failed diagnostic

datatype worker_step =
    Step_Start source_id operation
  | Step_Send worker_event
  | Step_End source_id operation terminal_outcome

section \<open>Arguments of a tool call\<close>

definition object_arguments :: "json \<Rightarrow> arguments" where
  "object_arguments v =
     (case as_object v of None \<Rightarrow> []
      | Some kvs \<Rightarrow> bt_collect (filter (\<lambda>e. \<not> is_null (snd e)) kvs))"

definition query_to_json :: "query \<Rightarrow> json" where
  "query_to_json q = json_object
     [(''text'', JString (q_text q)), (''limit'', json_opt json_nat (q_limit q)),
      (''since'', json_opt_str (q_since q)), (''until'', json_opt_str (q_until q))]"

definition query_arguments :: "query \<Rightarrow> arguments" where
  "query_arguments q = object_arguments (query_to_json q)"

fun target_arguments :: "target \<Rightarrow> arguments" where
  "target_arguments (Target_Record r) = object_arguments (json_object
     [(''type'', JString ''record''), (''record'', record_to_json r)])"
| "target_arguments (Target_Url s u) = object_arguments (json_object
     [(''type'', JString ''url''), (''source'', JString (sid_str s)), (''url'', JString u)])"
| "target_arguments (Target_Native s i) = object_arguments (json_object
     [(''type'', JString ''native''), (''source'', JString (sid_str s)), (''id'', JString i)])"

fun input_arguments :: "operation_input \<Rightarrow> arguments" where
  "input_arguments (Input_Query q) = query_arguments q"
| "input_arguments (Input_Target t) = target_arguments t"

definition error_class_of_code :: "string \<Rightarrow> error_class" where
  "error_class_of_code code =
     (let normalized = ascii_lowercase code
      in if normalized = ''validation_error'' then InvalidQuery
         else case class_of_name normalized of Some c \<Rightarrow> c | None \<Rightarrow> Upstream)"

section \<open>The budgeted sink\<close>

record sink_state =
  sk_records :: "64 word"
  sk_bytes :: "64 word"
  sk_budget_error :: "source_error option"

definition sink_default :: sink_state where
  "sink_default = \<lparr>sk_records = 0, sk_bytes = 0, sk_budget_error = None\<rparr>"

definition sat_add_word :: "'w::len word \<Rightarrow> nat \<Rightarrow> 'w word" where
  "sat_add_word w n = word_of_int (min (2 ^ LENGTH('w) - 1) (int (unat w + n)))"

definition budget_error :: "source_id \<Rightarrow> string \<Rightarrow> source_error" where
  "budget_error s message = source_error_new s Unsupported message"

definition apply_budget ::
  "libs \<Rightarrow> source_id \<Rightarrow> engine_limits \<Rightarrow> json \<Rightarrow> sink_state \<Rightarrow> bool \<times> sink_state" where
  "apply_budget L s lim data st =
     (let st = st\<lparr>sk_records := sat_add_word (sk_records st) 1, sk_bytes := sat_add_word (sk_bytes st) (json_len L data)\<rparr>;
          st = (if max_records_per_source lim < unat (sk_records st)
                then st\<lparr>sk_budget_error := Some (budget_error s ''source record budget exceeded'')\<rparr> else st);
          st = (if max_bytes_per_source lim < unat (sk_bytes st)
                then st\<lparr>sk_budget_error := Some (budget_error s ''source byte budget exceeded'')\<rparr> else st)
      in (sk_budget_error st \<noteq> None, st))"

definition sink_fail :: "source_id \<Rightarrow> string \<Rightarrow> sink_state \<Rightarrow> sink_state" where
  "sink_fail s message st = st\<lparr>sk_budget_error := Some (source_error_new s Protocol message)\<rparr>"

definition emit_record_value ::
  "libs \<Rightarrow> source_id \<Rightarrow> engine_limits \<Rightarrow> json \<Rightarrow> sink_state \<Rightarrow> worker_event list \<times> sink_state" where
  "emit_record_value L s lim data st =
     (case apply_budget L s lim data st of (exceeded, st) \<Rightarrow>
        if exceeded then ([], st)
        else case record_from_json data of
               Some r \<Rightarrow> if is_ok (record_validate L r) then ([W_Record s r], st)
                         else ([], sink_fail s ''source emitted invalid record data'' st)
             | None \<Rightarrow> ([], sink_fail s ''source emitted invalid record data'' st))"

fun sink_emit ::
  "libs \<Rightarrow> source_id \<Rightarrow> engine_limits \<Rightarrow> tool_event \<Rightarrow> sink_state \<Rightarrow> worker_event list \<times> sink_state" where
  "sink_emit L s lim (Chunk data) st = emit_record_value L s lim data st"
| "sink_emit L s lim Other_Event st = ([], st)"

fun sink_emits ::
  "libs \<Rightarrow> source_id \<Rightarrow> engine_limits \<Rightarrow> tool_event list \<Rightarrow> sink_state \<Rightarrow> worker_event list \<times> sink_state" where
  "sink_emits L s lim [] st = ([], st)"
| "sink_emits L s lim (e # es) st =
     (case sink_emit L s lim e st of (out, st) \<Rightarrow>
      case sink_emits L s lim es st of (outs, st) \<Rightarrow> (out @ outs, st))"

fun emit_array ::
  "libs \<Rightarrow> source_id \<Rightarrow> engine_limits \<Rightarrow> json list \<Rightarrow> sink_state \<Rightarrow> worker_event list \<times> sink_state" where
  "emit_array L s lim [] st = ([], st)"
| "emit_array L s lim (v # vs) st =
     (case emit_record_value L s lim v st of (out, st) \<Rightarrow>
        if sk_budget_error st \<noteq> None then (out, st)
        else case emit_array L s lim vs st of (outs, st) \<Rightarrow> (out @ outs, st))"

fun emit_final_data ::
  "libs \<Rightarrow> source_id \<Rightarrow> engine_limits \<Rightarrow> json \<Rightarrow> sink_state \<Rightarrow> worker_event list \<times> sink_state" where
  "emit_final_data L s lim (JArray vs) st = emit_array L s lim vs st"
| "emit_final_data L s lim v st = emit_record_value L s lim v st"

definition has_records :: "sink_state \<Rightarrow> bool" where
  "has_records st \<longleftrightarrow> 0 < sk_records st"

section \<open>Running a source\<close>

definition failure_outcome :: "error_class \<Rightarrow> terminal_outcome" where
  "failure_outcome class =
     (if class = Cancelled then Out_Cancelled else Out_Failure (class = RateLimit))"

definition failed :: "source_error \<Rightarrow> worker_step" where
  "failed e = Step_Send (W_Failed (diagnostic_of_error e))"

text \<open>\<open>guard.failure(error.class)\<close> on a budget error, whose class is never \<open>Cancelled\<close>.\<close>

definition finish_stream_outcome ::
  "libs \<Rightarrow> source_id \<Rightarrow> operation \<Rightarrow> engine_limits \<Rightarrow> tool_outcome \<Rightarrow> sink_state \<Rightarrow> worker_step list" where
  "finish_stream_outcome L s op lim outcome st =
     (case sk_budget_error st of
        Some e \<Rightarrow> [Step_End s op (Out_Failure (err_class e = RateLimit)), failed e]
      | None \<Rightarrow>
          (case outcome of
             Tool_Ok data \<Rightarrow>
               if \<not> has_records st then
                 (case emit_final_data L s lim data st of (out, st) \<Rightarrow>
                    map Step_Send out @
                    (case sk_budget_error st of
                       Some e \<Rightarrow> [Step_End s op (Out_Failure (err_class e = RateLimit)), failed e]
                     | None \<Rightarrow> [Step_End s op Out_Success]))
               else [Step_End s op Out_Success]
           | Tool_Error code message \<Rightarrow>
               (let class = error_class_of_code code
                in [Step_End s op (failure_outcome class), failed (source_error_new s class message)])))"

definition run_source_operation :: "libs \<Rightarrow> engine_limits \<Rightarrow> planned_source \<Rightarrow> worker_step list" where
  "run_source_operation L lim p =
     (let source = ps_source p; op = ps_operation p; s = cs_id source
      in case tool_name (cs_descriptor source) op of
           None \<Rightarrow> []
         | Some tool \<Rightarrow>
             (let run = cs_call source tool (input_arguments (ps_input p))
              in case sink_emits L s lim (run_events run) sink_default of (out, st) \<Rightarrow>
                   Step_Start s op # map Step_Send out @
                     finish_stream_outcome L s op lim (run_outcome run) st))"

fun sends :: "worker_step list \<Rightarrow> worker_event list" where
  "sends [] = []"
| "sends (Step_Send e # ss) = e # sends ss"
| "sends (_ # ss) = sends ss"

definition script :: "libs \<Rightarrow> engine_limits \<Rightarrow> planned_source \<Rightarrow> worker_event list" where
  "script L lim p = sends (run_source_operation L lim p)"

section \<open>Fetching one record\<close>

definition deserialize_record ::
  "libs \<Rightarrow> source_id \<Rightarrow> json \<Rightarrow> engine_limits \<Rightarrow> (comsat_record, engine_error) result" where
  "deserialize_record L s data lim =
     (if max_bytes_per_source lim < json_len L data
      then Err (SourceFailure (source_error_new s Unsupported ''fetch byte budget exceeded''))
      else case record_from_json data of
             None \<Rightarrow> Err (SourceFailure (source_error_new s Protocol (decode_text L data)))
           | Some r \<Rightarrow> (case record_validate L r of
               Err e \<Rightarrow> Err (SourceFailure (source_error_new s Protocol e))
             | Ok _ \<Rightarrow> Ok r))"

definition finish_fetch_record ::
  "libs \<Rightarrow> source_id \<Rightarrow> json \<Rightarrow> engine_limits \<Rightarrow> guard \<Rightarrow> metrics \<Rightarrow>
     (comsat_record, engine_error) result \<times> metrics" where
  "finish_fetch_record L s data lim g m =
     (case deserialize_record L s data lim of
        Ok r \<Rightarrow> (Ok r, guard_success g m)
      | Err e \<Rightarrow> (Err e, guard_failure Protocol g m))"

definition record_failure :: "guard \<Rightarrow> error_class \<Rightarrow> metrics \<Rightarrow> metrics" where
  "record_failure g class m = (if class = Cancelled then guard_cancelled g m else guard_failure class g m)"

fun finish_fetch_outcome ::
  "libs \<Rightarrow> source_id \<Rightarrow> tool_outcome \<Rightarrow> engine_limits \<Rightarrow> guard \<Rightarrow> metrics \<Rightarrow>
     (comsat_record, engine_error) result \<times> metrics" where
  "finish_fetch_outcome L s (Tool_Ok data) lim g m = finish_fetch_record L s data lim g m"
| "finish_fetch_outcome L s (Tool_Error code message) lim g m =
     (let class = error_class_of_code code
      in (Err (SourceFailure (source_error_new s class message)), record_failure g class m))"

definition catalog_source_find :: "catalog_source list \<Rightarrow> source_id \<Rightarrow> catalog_source option" where
  "catalog_source_find sources s = find (\<lambda>c. cs_id c = s) sources"

definition fetch ::
  "libs \<Rightarrow> catalog_source list \<Rightarrow> target \<Rightarrow> engine_limits \<Rightarrow> metrics \<Rightarrow>
     (comsat_record, engine_error) result \<times> metrics" where
  "fetch L sources t lim m =
     (let s = target_source t
      in case catalog_source_find sources s of
           None \<Rightarrow> (Err (SourceNotFound s), m)
         | Some source \<Rightarrow>
             (case start s Op_Fetch m of (m, g) \<Rightarrow>
                (case tool_name (cs_descriptor source) Op_Fetch of
                   None \<Rightarrow> (Err (UnsupportedOperation s (op_str Op_Fetch)), guard_failure Unsupported g m)
                 | Some tool \<Rightarrow>
                     finish_fetch_outcome L s (run_outcome (cs_call source tool (target_arguments t))) lim g m)))"

section \<open>What a source's script holds\<close>

text \<open>\<open>carries L data r\<close>: the chunk \<open>data\<close> decodes to the valid record \<open>r\<close>.\<close>

definition carries :: "libs \<Rightarrow> json \<Rightarrow> comsat_record \<Rightarrow> bool" where
  "carries L data r \<longleftrightarrow> record_from_json data = Some r \<and> is_ok (record_validate L r)"

definition limits_ok :: "engine_limits \<Rightarrow> bool" where
  "limits_ok lim \<longleftrightarrow> max_records_per_source lim < 2 ^ 64 - 1 \<and> max_bytes_per_source lim < 2 ^ 64 - 1"

text \<open>After the chunks \<open>seen\<close>, all of them sent: the counters are exact, or an error is kept.\<close>

definition sink_inv :: "libs \<Rightarrow> engine_limits \<Rightarrow> json list \<Rightarrow> sink_state \<Rightarrow> bool" where
  "sink_inv L lim seen st \<longleftrightarrow>
     length seen \<le> max_records_per_source lim \<and>
     sum_list (map (json_len L) seen) \<le> max_bytes_per_source lim \<and>
     (sk_budget_error st = None \<longrightarrow>
        unat (sk_records st) = length seen \<and> unat (sk_bytes st) = sum_list (map (json_len L) seen))"

lemma unat_sat_add_word: "unat (sat_add_word (w :: 64 word) n) = min (2 ^ 64 - 1) (unat w + n)"
proof -
  have "min (2 ^ LENGTH(64) - 1) (int (unat w + n)) = int (min (2 ^ 64 - 1) (unat w + n))"
    by (simp only: of_nat_min) simp
  then have "sat_add_word w n = of_nat (min (2 ^ 64 - 1) (unat w + n))"
    unfolding sat_add_word_def by (simp only: of_int_of_nat_eq)
  moreover have "min (2 ^ 64 - 1) (unat w + n) < 2 ^ 64" by simp
  ultimately show ?thesis by (simp only: unat_of_nat) simp
qed

lemma sink_inv_default: "sink_inv L lim [] sink_default"
  by (simp add: sink_inv_def sink_default_def)

lemma emit_record_value_blocked:
  "sk_budget_error st \<noteq> None \<Longrightarrow> emit_record_value L s lim data st = (out, st') \<Longrightarrow>
   out = [] \<and> sk_budget_error st' \<noteq> None"
  by (auto simp: emit_record_value_def apply_budget_def Let_def split: prod.splits if_splits)

text \<open>One chunk: it is sent and counted, or nothing is sent and an error of the source is kept.\<close>

lemma emit_record_value_cases:
  assumes inv: "sink_inv L lim seen st" and lim: "limits_ok lim" and none: "sk_budget_error st = None"
    and emit: "emit_record_value L s lim data st = (out, st')"
  obtains r where "out = [W_Record s r]" "carries L data r" "sk_budget_error st' = None"
      "sink_inv L lim (seen @ [data]) st'"
  | e where "out = []" "sk_budget_error st' = Some e" "sink_inv L lim seen st'"
      "err_source e = s" "err_class e = Unsupported \<or> err_class e = Protocol"
proof -
  let ?n = "length seen" and ?b = "sum_list (map (json_len L) seen)"
  have rec: "unat (sk_records st) = ?n" and byt: "unat (sk_bytes st) = ?b"
    and small: "?n \<le> max_records_per_source lim" "?b \<le> max_bytes_per_source lim"
    using inv none by (auto simp: sink_inv_def)
  have r': "unat (sat_add_word (sk_records st) 1) = ?n + 1"
    using small lim by (simp add: unat_sat_add_word rec limits_ok_def)
  show thesis
  proof (cases "?n + 1 \<le> max_records_per_source lim \<and> ?b + json_len L data \<le> max_bytes_per_source lim")
    case True
    then have b': "unat (sat_add_word (sk_bytes st) (json_len L data)) = ?b + json_len L data"
      using lim by (simp add: unat_sat_add_word byt limits_ok_def)
    with True r' none have ap: "apply_budget L s lim data st = (False,
        st\<lparr>sk_records := sat_add_word (sk_records st) 1, sk_bytes := sat_add_word (sk_bytes st) (json_len L data)\<rparr>)"
      by (auto simp: apply_budget_def Let_def)
    show thesis
    proof (cases "\<exists>r. carries L data r")
      case True
      then obtain r where r: "carries L data r" ..
      with ap emit have "out = [W_Record s r]" "st' = st\<lparr>sk_records := sat_add_word (sk_records st) 1,
          sk_bytes := sat_add_word (sk_bytes st) (json_len L data)\<rparr>"
        by (auto simp: emit_record_value_def carries_def)
      with that(1) r r' b' none \<open>_ \<and> _\<close> show thesis by (auto simp: sink_inv_def)
    next
      case False
      then have "record_from_json data = None \<or>
          (\<exists>r. record_from_json data = Some r \<and> \<not> is_ok (record_validate L r))"
        by (cases "record_from_json data") (auto simp: carries_def)
      with ap emit that(2) small show thesis
        by (auto simp: emit_record_value_def sink_fail_def sink_inv_def source_error_new_def)
    qed
  next
    case False
    have b': "max_bytes_per_source lim < unat (sat_add_word (sk_bytes st) (json_len L data)) \<longleftrightarrow>
        max_bytes_per_source lim < ?b + json_len L data"
      using lim by (auto simp: unat_sat_add_word byt limits_ok_def)
    from False r' b' obtain e st1 where "apply_budget L s lim data st = (True, st1)"
        "sk_budget_error st1 = Some e" "err_source e = s" "err_class e = Unsupported"
      by (auto simp: apply_budget_def Let_def budget_error_def source_error_new_def not_le)
    with emit that(2) small show thesis
      by (auto simp: emit_record_value_def sink_inv_def)
  qed
qed

text \<open>\<open>sent L s lim seen out st\<close>: of the chunks, \<open>seen\<close> were sent as \<open>out\<close>, and the sink is
  clear or holds an error of the source.\<close>

definition sent ::
  "libs \<Rightarrow> source_id \<Rightarrow> engine_limits \<Rightarrow> json list \<Rightarrow> worker_event list \<Rightarrow> sink_state \<Rightarrow> bool" where
  "sent L s lim seen out st \<longleftrightarrow>
     sink_inv L lim seen st \<and>
     (\<exists>rs. out = map (W_Record s) rs \<and> list_all2 (carries L) seen rs) \<and>
     (\<forall>e. sk_budget_error st = Some e \<longrightarrow>
        err_source e = s \<and> (err_class e = Unsupported \<or> err_class e = Protocol))"

lemma sent_start: "sent L s lim [] [] sink_default"
  by (simp add: sent_def sink_inv_default) (simp add: sink_default_def)

lemma sent_record:
  assumes "sent L s lim seen out st" "limits_ok lim" "sk_budget_error st = None"
    and "emit_record_value L s lim data st = (out', st')"
  shows "\<exists>seen'. sent L s lim seen' (out @ out') st'"
proof -
  have inv: "sink_inv L lim seen st" using assms(1) by (simp add: sent_def)
  obtain rs where rs: "out = map (W_Record s) rs" "list_all2 (carries L) seen rs"
    using assms(1) by (auto simp: sent_def)
  from inv assms(2-4) show ?thesis
  proof (cases rule: emit_record_value_cases)
    case (1 r)
    then have "sent L s lim (seen @ [data]) (out @ out') st'"
      using rs by (auto simp: sent_def intro!: exI [of _ "rs @ [r]"] list_all2_appendI)
    then show ?thesis ..
  next
    case (2 e)
    then have "sent L s lim seen (out @ out') st'" using rs by (auto simp: sent_def)
    then show ?thesis ..
  qed
qed

lemma sent_blocked:
  assumes "sk_budget_error st \<noteq> None" "emit_record_value L s lim data st = (out, st')"
    "sent L s lim seen prev st"
  shows "\<exists>seen'. sent L s lim seen' (prev @ out) st'"
proof -
  obtain e where e: "sk_budget_error st = Some e" using assms(1) by auto
  have "out = []" "sk_budget_error st' \<noteq> None"
    using emit_record_value_blocked [OF assms(1,2)] by auto
  moreover have "sk_budget_error st' = Some e \<or> sk_budget_error st' = Some (budget_error s ''source record budget exceeded'')
      \<or> sk_budget_error st' = Some (budget_error s ''source byte budget exceeded'')"
    using assms(1,2) e
    by (auto simp: emit_record_value_def apply_budget_def Let_def split: prod.splits if_splits)
  ultimately have "sent L s lim seen (prev @ out) st'"
    using assms(3) e by (auto simp: sent_def sink_inv_def budget_error_def source_error_new_def)
  then show ?thesis ..
qed

lemma sent_emit:
  assumes "sent L s lim seen prev st" "limits_ok lim" "emit_record_value L s lim data st = (out, st')"
  shows "\<exists>seen'. sent L s lim seen' (prev @ out) st'"
  using assms sent_record [OF assms(1,2) _ assms(3)] sent_blocked [OF _ assms(3,1)]
  by (cases "sk_budget_error st") auto

lemma sent_emits:
  "sent L s lim seen prev st \<Longrightarrow> limits_ok lim \<Longrightarrow> sink_emits L s lim es st = (out, st') \<Longrightarrow>
   \<exists>seen'. sent L s lim seen' (prev @ out) st'"
proof (induction es arbitrary: seen prev st out)
  case Nil
  then show ?case by auto
next
  case (Cons e es)
  obtain out1 st1 out2 where o: "sink_emit L s lim e st = (out1, st1)"
      "sink_emits L s lim es st1 = (out2, st')" "out = out1 @ out2"
    using Cons.prems(3) by (auto split: prod.splits)
  have "\<exists>seen1. sent L s lim seen1 (prev @ out1) st1"
  proof (cases e)
    case (Chunk data)
    with o sent_emit [OF Cons.prems(1,2)] show ?thesis by auto
  next
    case Other_Event
    with o Cons.prems(1) show ?thesis by auto
  qed
  then obtain seen1 where "sent L s lim seen1 (prev @ out1) st1" ..
  from Cons.IH [OF this Cons.prems(2) o(2)] o(3) show ?case by simp
qed

lemma sent_array:
  "sent L s lim seen prev st \<Longrightarrow> limits_ok lim \<Longrightarrow> emit_array L s lim vs st = (out, st') \<Longrightarrow>
   \<exists>seen'. sent L s lim seen' (prev @ out) st'"
proof (induction vs arbitrary: seen prev st out)
  case Nil
  then show ?case by auto
next
  case (Cons v vs)
  obtain out1 st1 where o: "emit_record_value L s lim v st = (out1, st1)"
    by (cases "emit_record_value L s lim v st")
  from sent_emit [OF Cons.prems(1,2) o] obtain seen1 where s1: "sent L s lim seen1 (prev @ out1) st1" ..
  show ?case
  proof (cases "sk_budget_error st1 = None")
    case False
    with o Cons.prems(3) s1 show ?thesis by auto
  next
    case True
    obtain out2 where "emit_array L s lim vs st1 = (out2, st')" "out = out1 @ out2"
      using o True Cons.prems(3) by (auto split: prod.splits)
    with Cons.IH [OF s1 Cons.prems(2)] show ?thesis by auto
  qed
qed

lemma sent_final:
  assumes "sent L s lim seen prev st" "limits_ok lim" "emit_final_data L s lim v st = (out, st')"
  shows "\<exists>seen'. sent L s lim seen' (prev @ out) st'"
  using assms sent_array sent_emit by (cases v) auto

text \<open>The shape of a script: the records it carries, then the guard's outcome, then a failure
  event exactly when the outcome is not a success.\<close>

definition run_steps ::
  "source_id \<Rightarrow> operation \<Rightarrow> comsat_record list \<Rightarrow> terminal_outcome \<Rightarrow> diagnostic list \<Rightarrow> worker_step list" where
  "run_steps s op rs out ds =
     Step_Start s op # map (\<lambda>r. Step_Send (W_Record s r)) rs @ Step_End s op out #
       map (\<lambda>d. Step_Send (W_Failed d)) ds"

definition within_budget :: "libs \<Rightarrow> engine_limits \<Rightarrow> json list \<Rightarrow> bool" where
  "within_budget L lim datas \<longleftrightarrow> length datas \<le> max_records_per_source lim \<and>
     sum_list (map (json_len L) datas) \<le> max_bytes_per_source lim"

definition outcome_reported :: "source_id \<Rightarrow> terminal_outcome \<Rightarrow> diagnostic list \<Rightarrow> bool" where
  "outcome_reported s out ds \<longleftrightarrow>
     out = Out_Success \<and> ds = [] \<or>
     (\<exists>d. ds = [d] \<and> diag_source d = s \<and> out = failure_outcome (diag_class d))"

definition finished ::
  "libs \<Rightarrow> engine_limits \<Rightarrow> source_id \<Rightarrow> operation \<Rightarrow> worker_step list \<Rightarrow> bool" where
  "finished L lim s op steps \<longleftrightarrow> (\<exists>datas rs out ds.
     Step_Start s op # steps = run_steps s op rs out ds \<and> list_all2 (carries L) datas rs \<and>
     within_budget L lim datas \<and> outcome_reported s out ds)"

lemma finishedI:
  assumes "sent L s lim seen prev st" "outcome_reported s out ds"
    and "steps = map Step_Send prev @ Step_End s op out # map (\<lambda>d. Step_Send (W_Failed d)) ds"
  shows "finished L lim s op steps"
proof -
  from assms(1) obtain rs where "prev = map (W_Record s) rs" "list_all2 (carries L) seen rs"
    by (auto simp: sent_def)
  moreover have "within_budget L lim seen" using assms(1) by (auto simp: sent_def sink_inv_def within_budget_def)
  ultimately show ?thesis using assms(2,3)
    unfolding finished_def run_steps_def
    by (intro exI [of _ seen] exI [of _ rs] exI [of _ out] exI [of _ ds]) (simp add: comp_def)
qed

lemma sent_error_reported:
  assumes "sent L s lim seen prev st" "sk_budget_error st = Some e"
  shows "outcome_reported s (Out_Failure (err_class e = RateLimit)) [diagnostic_of_error e]"
  using assms by (auto simp: sent_def outcome_reported_def diagnostic_of_error_def failure_outcome_def)

lemma finish_shape:
  assumes sent: "sent L s lim seen prev st" and lim: "limits_ok lim"
  shows "finished L lim s op (map Step_Send prev @ finish_stream_outcome L s op lim outcome st)"
proof (cases "sk_budget_error st")
  case (Some e)
  show ?thesis
    by (rule finishedI [OF sent sent_error_reported [OF sent Some]])
      (simp add: finish_stream_outcome_def Some failed_def)
next
  case None
  show ?thesis
  proof (cases outcome)
    case (Tool_Error code message)
    let ?e = "source_error_new s (error_class_of_code code) message"
    have "outcome_reported s (failure_outcome (error_class_of_code code)) [diagnostic_of_error ?e]"
      by (simp add: outcome_reported_def diagnostic_of_error_def source_error_new_def)
    then show ?thesis
      by (rule finishedI [OF sent])
        (simp add: finish_stream_outcome_def None Tool_Error failed_def Let_def)
  next
    case (Tool_Ok data)
    have good: "outcome_reported s Out_Success []" by (simp add: outcome_reported_def)
    show ?thesis
    proof (cases "has_records st")
      case True
      show ?thesis
        by (rule finishedI [OF sent good])
          (simp add: finish_stream_outcome_def None Tool_Ok True)
    next
      case False
      obtain out st' where f: "emit_final_data L s lim data st = (out, st')"
        by (cases "emit_final_data L s lim data st")
      from sent_final [OF sent lim f] obtain seen' where sent': "sent L s lim seen' (prev @ out) st'" ..
      show ?thesis
      proof (cases "sk_budget_error st'")
        case None2: None
        show ?thesis
          by (rule finishedI [OF sent' good])
            (simp add: finish_stream_outcome_def None Tool_Ok False f None2)
      next
        case (Some e)
        show ?thesis
          by (rule finishedI [OF sent' sent_error_reported [OF sent' Some]])
            (simp add: finish_stream_outcome_def None Tool_Ok False f Some failed_def)
      qed
    qed
  qed
qed

lemma run_shape:
  assumes "limits_ok lim" "tool_name (cs_descriptor (ps_source p)) (ps_operation p) \<noteq> None"
  shows "\<exists>datas rs out ds. run_source_operation L lim p = run_steps (cs_id (ps_source p)) (ps_operation p) rs out ds
     \<and> list_all2 (carries L) datas rs \<and> within_budget L lim datas
     \<and> outcome_reported (cs_id (ps_source p)) out ds"
proof -
  let ?s = "cs_id (ps_source p)"
  from assms(2) obtain tool where t: "tool_name (cs_descriptor (ps_source p)) (ps_operation p) = Some tool" by auto
  let ?run = "cs_call (ps_source p) tool (input_arguments (ps_input p))"
  obtain out st where e: "sink_emits L ?s lim (run_events ?run) sink_default = (out, st)"
    by (cases "sink_emits L ?s lim (run_events ?run) sink_default")
  from sent_emits [OF sent_start assms(1) e] obtain seen where "sent L ?s lim seen out st" by auto
  from finish_shape [OF this assms(1), of "ps_operation p" "run_outcome ?run"]
  show ?thesis by (simp add: finished_def run_source_operation_def Let_def t e)
qed

lemma sends_append [simp]: "sends (a @ b) = sends a @ sends b"
  by (induction a rule: sends.induct) auto

lemma sends_run_steps: "sends (run_steps s op rs out ds) = map (W_Record s) rs @ map W_Failed ds"
proof -
  have "sends (map (\<lambda>r. Step_Send (f r)) xs) = map f xs" for f and xs :: "'z list"
    by (induction xs) auto
  from this [of "W_Record s" rs] this [of W_Failed ds] show ?thesis by (simp add: run_steps_def)
qed

text \<open>C5: a source that can run the operation opens one guard, sends records decoded from its
  chunks, each of them valid, at most \<open>max_records_per_source\<close> of them from chunks of at most
  \<open>max_bytes_per_source\<close> bytes together, and reports one outcome: success, with no failure event,
  or a failure (a cancellation for the class \<open>cancelled\<close>) followed by one last failure event of
  that class. This holds for any tool, whatever its chunks and its outcome.\<close>

theorem run_source_operation_shape:
  assumes "limits_ok lim" "supports (cs_descriptor (ps_source p)) (ps_operation p)"
  shows "\<exists>datas rs out ds. run_source_operation L lim p =
       Step_Start (cs_id (ps_source p)) (ps_operation p) #
       map (\<lambda>r. Step_Send (W_Record (cs_id (ps_source p)) r)) rs @
       Step_End (cs_id (ps_source p)) (ps_operation p) out # map (\<lambda>d. Step_Send (W_Failed d)) ds
     \<and> list_all2 (\<lambda>data r. record_from_json data = Some r \<and> is_ok (record_validate L r)) datas rs
     \<and> length datas \<le> max_records_per_source lim
     \<and> sum_list (map (json_len L) datas) \<le> max_bytes_per_source lim
     \<and> (out = Out_Success \<and> ds = [] \<or>
        (\<exists>d. ds = [d] \<and> diag_source d = cs_id (ps_source p) \<and> out = failure_outcome (diag_class d)))"
proof -
  have "list_all2 (\<lambda>data r. record_from_json data = Some r \<and> is_ok (record_validate L r)) = list_all2 (carries L)"
    by (simp add: carries_def [abs_def])
  with run_shape [OF assms(1), of p L] assms(2) show ?thesis
    by (simp add: supports_tool_name run_steps_def within_budget_def outcome_reported_def)
qed

definition example_tool :: "tool_event list \<Rightarrow> tool_outcome \<Rightarrow> catalog_source" where
  "example_tool es out = \<lparr>cs_descriptor =
       descriptor_new (Source_Id ''web'') ''Web'' \<lparr>can_search = True, can_fetch = True, can_follow = True\<rparr>,
     cs_call = \<lambda>_ _. \<lparr>run_events = es, run_outcome = out\<rparr>\<rparr>"

definition example_limits :: engine_limits where
  "example_limits = \<lparr>max_active_sources = 2, event_buffer = 1, max_records_per_source = 1,
     max_bytes_per_source = 100\<rparr>"

definition example_planned :: planned_source where
  "example_planned = \<lparr>ps_source = example_tool
       [Chunk (record_to_json (example_record ''web'' ''a'' ''https://x'')), Other_Event,
        Chunk (record_to_json (example_record ''web'' ''b'' ''https://y''))] (Tool_Ok JNull),
     ps_operation = Op_Search,
     ps_input = Input_Query \<lparr>q_text = ''rust'', q_limit = None, q_since = None, q_until = None\<rparr>\<rparr>"

theorem run_source_operation_shape_witness:
  "sends (run_source_operation example_libs example_limits example_planned) =
     [W_Record (Source_Id ''web'') (example_record ''web'' ''a'' ''https://x''),
      W_Failed (diagnostic_of_error (budget_error (Source_Id ''web'') ''source record budget exceeded''))]
   \<and> (\<exists>rs out ds. run_source_operation example_libs example_limits example_planned =
        run_steps (Source_Id ''web'') Op_Search rs out ds)"
proof -
  have l: "limits_ok example_limits" by (simp add: limits_ok_def example_limits_def)
  have s: "supports (cs_descriptor (ps_source example_planned)) (ps_operation example_planned)" by code_simp
  have i: "cs_id (ps_source example_planned) = Source_Id ''web''"
    "ps_operation example_planned = Op_Search" by code_simp+
  have e: "sends (run_source_operation example_libs example_limits example_planned) =
     [W_Record (Source_Id ''web'') (example_record ''web'' ''a'' ''https://x''),
      W_Failed (diagnostic_of_error (budget_error (Source_Id ''web'') ''source record budget exceeded''))]"
    by code_simp
  from run_source_operation_shape [OF l s, of example_libs] e i show ?thesis
    unfolding run_steps_def by (metis (no_types))
qed

section \<open>What a fetch returns\<close>

lemma error_class_of_code_name: "ascii_lowercase code = class_name c \<Longrightarrow> error_class_of_code code = c"
proof -
  have "class_name c \<noteq> ''validation_error''" by (cases c) simp_all
  then show "ascii_lowercase code = class_name c \<Longrightarrow> error_class_of_code code = c"
    by (simp add: error_class_of_code_def Let_def)
qed

lemma guard_start_finish:
  assumes "balanced m open"
  shows "balanced (terminal s op out (fst (start s op m))) open"
  using balanced_terminal [OF balanced_start [OF assms, of s op], of s op out] by simp

lemma deserialize_record_Ok:
  "deserialize_record L s data lim = Ok r \<longleftrightarrow> json_len L data \<le> max_bytes_per_source lim \<and> carries L data r"
  by (auto simp: deserialize_record_def carries_def is_ok_iff split: option.splits sum.splits)

lemma finish_fetch_metrics:
  "\<not> g_completed g \<Longrightarrow> \<exists>out'. snd (finish_fetch_outcome L s out lim g m) = terminal (g_source g) (g_operation g) out' m"
  by (cases out) (auto simp: finish_fetch_record_def record_failure_def guard_defs Let_def split: sum.splits)

lemma finish_fetch_Ok:
  "fst (finish_fetch_outcome L s out lim g m) = Ok r \<longleftrightarrow>
     (\<exists>data. out = Tool_Ok data \<and> json_len L data \<le> max_bytes_per_source lim \<and> carries L data r)"
proof (cases out)
  case (Tool_Ok data)
  have "fst (finish_fetch_outcome L s out lim g m) = deserialize_record L s data lim"
    by (simp add: Tool_Ok finish_fetch_record_def split: sum.splits)
  then show ?thesis by (simp add: Tool_Ok deserialize_record_Ok)
next
  case (Tool_Error code message)
  then show ?thesis by (simp add: Let_def)
qed

text \<open>A fetch succeeds exactly when the target's source is registered, can fetch, and its tool
  answers with a valid record of at most \<open>max_bytes_per_source\<close> bytes, which is the record
  returned; whatever it returns, it leaves no operation of the metrics open.\<close>

lemma fetch_exact:
  assumes "validate_unique_sources sources = Ok ()" "balanced m open"
  shows "(fst (fetch L sources t lim m) = Ok r \<longleftrightarrow>
      (\<exists>source \<in> set sources. cs_id source = target_source t \<and>
         (\<exists>tool data. tool_name (cs_descriptor source) Op_Fetch = Some tool \<and>
            run_outcome (cs_call source tool (target_arguments t)) = Tool_Ok data \<and>
            json_len L data \<le> max_bytes_per_source lim \<and>
            record_from_json data = Some r \<and> is_ok (record_validate L r))))
    \<and> balanced (snd (fetch L sources t lim m)) open"
proof (cases "catalog_source_find sources (target_source t)")
  case None
  then have "\<forall>c \<in> set sources. cs_id c \<noteq> target_source t"
    by (auto simp: catalog_source_find_def find_None_iff)
  with None assms(2) show ?thesis by (auto simp: fetch_def Let_def)
next
  case (Some source)
  then have src: "source \<in> set sources" "cs_id source = target_source t"
    using find_Some_iff2 [of "\<lambda>c. cs_id c = target_source t" sources source]
    by (auto simp: catalog_source_find_def)
  have d: "distinct (map cs_id sources)" using assms(1) by (simp add: validate_unique_sources_ok)
  then have uniq: "c = source" if "c \<in> set sources" "cs_id c = target_source t" for c
    using that src by (auto simp: distinct_map inj_on_def)
  let ?g = "\<lparr>g_source = target_source t, g_operation = Op_Fetch, g_completed = False\<rparr>"
  obtain m1 where st: "start (target_source t) Op_Fetch m = (m1, ?g)" by (simp add: start_def)
  then have m1: "fst (start (target_source t) Op_Fetch m) = m1" by simp
  have close: "balanced (terminal (target_source t) Op_Fetch out m1) open" for out
    using guard_start_finish [OF assms(2), of "target_source t" Op_Fetch out] by (simp only: m1)
  show ?thesis
  proof (cases "tool_name (cs_descriptor source) Op_Fetch")
    case None
    have "fetch L sources t lim m = (Err (UnsupportedOperation (target_source t) (op_str Op_Fetch)),
        guard_failure Unsupported ?g m1)"
      unfolding fetch_def Let_def Some option.case st prod.case None by (rule refl)
    moreover have "balanced (guard_failure Unsupported ?g m1) open"
      by (simp add: guard_defs Let_def close)
    ultimately show ?thesis using None uniq by auto
  next
    case t: (Some tool)
    let ?out = "run_outcome (cs_call source tool (target_arguments t))"
    have f: "fetch L sources t lim m = finish_fetch_outcome L (target_source t) ?out lim ?g m1"
      unfolding fetch_def Let_def Some option.case st prod.case t by (rule refl)
    have "balanced (snd (fetch L sources t lim m)) open"
      using finish_fetch_metrics [of ?g L "target_source t" ?out lim m1] close
      by (auto simp: f)
    moreover have "fst (fetch L sources t lim m) = Ok r \<longleftrightarrow>
        (\<exists>data. ?out = Tool_Ok data \<and> json_len L data \<le> max_bytes_per_source lim \<and> carries L data r)"
      by (simp add: f finish_fetch_Ok)
    moreover have "(\<exists>c \<in> set sources. cs_id c = target_source t \<and> Q c) \<longleftrightarrow> Q source" for Q
      using src uniq by blast
    ultimately show ?thesis
      by (simp add: t carries_def)
  qed
qed

end
