(* ===== verification/Dedupe.thy ===== *)
theory Dedupe
  imports Types
begin

text \<open>
  \<open>comsat-engine/src/dedupe.rs\<close>: the set of keys of the records a stream has already emitted.
  The locale \<open>seen_filter\<close> is the contract the stream relies on, for any key function: what is
  kept shares no key, what is dropped shares one with a record kept before.
\<close>

definition metadata_string :: "json \<Rightarrow> string \<Rightarrow> string option" where
  "metadata_string metadata key = Option.bind (json_get metadata key) as_str"

definition source_key :: "source_id \<Rightarrow> record_id \<Rightarrow> string" where
  "source_key s i = ''source:'' @ sid_str s @ '':'' @ rid_str i"

definition url_key :: "string \<Rightarrow> string" where
  "url_key u = ''url:'' @ u"

definition native_key :: "source_id \<Rightarrow> string \<Rightarrow> string" where
  "native_key s i = ''native:'' @ sid_str s @ '':'' @ i"

definition native_ids :: "comsat_record \<Rightarrow> string list" where
  "native_ids r =
     (case metadata_string (rec_metadata r) ''native_id'' of None \<Rightarrow> [] | Some i \<Rightarrow> [i]) @
     (case metadata_string (rec_metadata r) ''id'' of None \<Rightarrow> [] | Some i \<Rightarrow> [i])"

definition dedupe_keys :: "comsat_record \<Rightarrow> string list" where
  "dedupe_keys r = [source_key (rec_source r) (rec_id r), url_key (rec_url r)] @
     map (native_key (rec_source r)) (native_ids r)"

definition dedupe_insert :: "string set \<Rightarrow> comsat_record \<Rightarrow> bool \<times> string set" where
  "dedupe_insert seen r =
     (let keys = dedupe_keys r
      in if list_ex (\<lambda>k. k \<in> seen) keys then (False, seen) else (True, seen \<union> set keys))"

section \<open>Filtering by seen keys\<close>

locale seen_filter =
  fixes keys :: "'r \<Rightarrow> 'k list"
    and insert_seen :: "'k set \<Rightarrow> 'r \<Rightarrow> bool \<times> 'k set"
  assumes nonempty: "keys r \<noteq> []"
    and fresh: "set (keys r) \<inter> seen = {} \<Longrightarrow> insert_seen seen r = (True, seen \<union> set (keys r))"
    and stale: "set (keys r) \<inter> seen \<noteq> {} \<Longrightarrow> insert_seen seen r = (False, seen)"
begin

primrec kept :: "'k set \<Rightarrow> 'r list \<Rightarrow> 'r list" where
  "kept seen [] = []"
| "kept seen (r # rs) =
     (case insert_seen seen r of (new, seen') \<Rightarrow> if new then r # kept seen' rs else kept seen' rs)"

primrec seen_after :: "'k set \<Rightarrow> 'r list \<Rightarrow> 'k set" where
  "seen_after seen [] = seen"
| "seen_after seen (r # rs) = seen_after (snd (insert_seen seen r)) rs"

lemma insert_cases:
  obtains "set (keys r) \<inter> seen = {}" "insert_seen seen r = (True, seen \<union> set (keys r))"
  | "set (keys r) \<inter> seen \<noteq> {}" "insert_seen seen r = (False, seen)"
  using fresh stale by blast

lemma kept_new: "r \<in> set (kept seen rs) \<Longrightarrow> set (keys r) \<inter> seen = {}"
proof (induction rs arbitrary: seen)
  case Nil
  then show ?case by simp
next
  case (Cons s rs)
  show ?case
    by (rule insert_cases [of s seen]) (use Cons in \<open>auto split: if_splits\<close>)
qed

lemma kept_disjoint: "sorted_wrt (\<lambda>a b. set (keys a) \<inter> set (keys b) = {}) (kept seen rs)"
proof (induction rs arbitrary: seen)
  case Nil
  then show ?case by simp
next
  case (Cons s rs)
  show ?case
    by (rule insert_cases [of s seen]) (use Cons kept_new in \<open>fastforce simp: Int_commute\<close>)+
qed

lemma kept_subset: "set (kept seen rs) \<subseteq> set rs"
proof (induction rs arbitrary: seen)
  case Nil
  then show ?case by simp
next
  case (Cons s rs)
  show ?case by (rule insert_cases [of s seen]) (use Cons in \<open>auto\<close>)
qed

lemma seen_after_kept: "seen_after seen rs = seen \<union> (\<Union>r \<in> set (kept seen rs). set (keys r))"
proof (induction rs arbitrary: seen)
  case Nil
  then show ?case by simp
next
  case (Cons s rs)
  show ?case by (rule insert_cases [of s seen]) (use Cons in \<open>auto\<close>)
qed

lemma covered: "r \<in> set rs \<Longrightarrow> set (keys r) \<inter> seen_after seen rs \<noteq> {}"
proof (induction rs arbitrary: seen)
  case Nil
  then show ?case by simp
next
  case (Cons s rs)
  have mono: "seen \<subseteq> seen_after seen qs" for seen qs by (auto simp: seen_after_kept)
  have "set (keys s) \<inter> snd (insert_seen seen s) \<noteq> {}"
    by (rule insert_cases [of s seen]) (use nonempty in \<open>auto\<close>)
  with mono [of "snd (insert_seen seen s)" rs] have "set (keys s) \<inter> seen_after seen (s # rs) \<noteq> {}"
    by auto
  with Cons show ?case by auto
qed

lemma dropped_shares:
  assumes "r \<in> set rs" "r \<notin> set (kept {} rs)"
  shows "\<exists>s \<in> set (kept {} rs). set (keys r) \<inter> set (keys s) \<noteq> {}"
  using covered [OF assms(1), of "{}"] by (auto simp: seen_after_kept)

lemma kept_idem: "kept seen (kept seen rs) = kept seen rs"
proof (induction rs arbitrary: seen)
  case Nil
  then show ?case by simp
next
  case (Cons s rs)
  show ?case by (rule insert_cases [of s seen]) (use Cons in \<open>auto\<close>)
qed

end

interpretation dedupe: seen_filter dedupe_keys dedupe_insert
proof unfold_locales
  fix r :: comsat_record and seen :: "string set"
  show "dedupe_keys r \<noteq> []" by (simp add: dedupe_keys_def)
  show "set (dedupe_keys r) \<inter> seen = {} \<Longrightarrow> dedupe_insert seen r = (True, seen \<union> set (dedupe_keys r))"
    by (auto simp: dedupe_insert_def list_ex_iff Let_def)
  show "set (dedupe_keys r) \<inter> seen \<noteq> {} \<Longrightarrow> dedupe_insert seen r = (False, seen)"
    by (auto simp: dedupe_insert_def list_ex_iff Let_def)
qed

section \<open>When two records are the same item\<close>

lemma source_id_no_colon: "valid_source_id s \<Longrightarrow> CHR '':'' \<notin> set (sid_str s)"
proof -
  assume "valid_source_id s"
  then have "is_ok (source_id_new (sid_str s))" by (simp add: valid_source_id_def)
  then have "\<forall>part \<in> set (split_on CHR ''-'' (sid_str s)).
      list_all (\<lambda>b. is_ascii_lowercase b \<or> is_ascii_digit b) part"
    by (simp add: source_id_new_parts source_word_def)
  then have "list_all (\<lambda>b. b = CHR ''-'' \<or> is_ascii_lowercase b \<or> is_ascii_digit b) (sid_str s)"
    by (simp only: parts_alphabet_iff)
  moreover have "\<not> (CHR '':'' = CHR ''-'' \<or> is_ascii_lowercase CHR '':'' \<or> is_ascii_digit CHR '':'')"
    by code_simp
  ultimately show ?thesis unfolding list_all_iff by blast
qed

lemma first_separator_unique:
  assumes "u @ c # v = u' @ c # v'" "c \<notin> set u" "c \<notin> set u'"
  shows "u = u' \<and> v = v'"
proof -
  have "takeWhile (\<lambda>x. x \<noteq> c) (u @ c # v) = u" using assms(2) by (subst takeWhile_append2) auto
  moreover have "takeWhile (\<lambda>x. x \<noteq> c) (u' @ c # v') = u'" using assms(3) by (subst takeWhile_append2) auto
  ultimately have "u = u'" using assms(1) by simp
  with assms(1) show ?thesis by simp
qed

lemma sid_str_inj: "sid_str a = sid_str b \<longleftrightarrow> a = b"
  by (cases a; cases b; simp)

lemma rid_str_inj: "rid_str a = rid_str b \<longleftrightarrow> a = b"
  by (cases a; cases b; simp)

lemma source_key_eq:
  "valid_source_id s \<Longrightarrow> valid_source_id t \<Longrightarrow> source_key s i = source_key t j \<longleftrightarrow> s = t \<and> i = j"
  using first_separator_unique [of "sid_str s" "CHR '':''" "rid_str i" "sid_str t" "rid_str j"]
  by (auto simp: source_key_def sid_str_inj rid_str_inj source_id_no_colon)

lemma native_key_eq:
  "valid_source_id s \<Longrightarrow> valid_source_id t \<Longrightarrow> native_key s i = native_key t j \<longleftrightarrow> s = t \<and> i = j"
  using first_separator_unique [of "sid_str s" "CHR '':''" i "sid_str t" j]
  by (auto simp: native_key_def sid_str_inj source_id_no_colon)

lemma key_kinds [simp]:
  "source_key s i \<noteq> url_key u" "url_key u \<noteq> source_key s i" "source_key s i \<noteq> native_key t j"
  "native_key t j \<noteq> source_key s i" "url_key u \<noteq> native_key t j" "native_key t j \<noteq> url_key u"
  by (simp_all add: source_key_def url_key_def native_key_def)

lemma url_key_eq [simp]: "url_key a = url_key b \<longleftrightarrow> a = b"
  by (simp add: url_key_def)

text \<open>Two records with valid source ids share a deduplication key exactly when they have the
  same source and id, or the same URL, or the same source and a native id in common: no two
  different kinds of key, sources or ids are ever confused by the key text.\<close>

lemma dedupe_keys_meet:
  assumes "valid_source_id (rec_source r)" "valid_source_id (rec_source s)"
  shows "set (dedupe_keys r) \<inter> set (dedupe_keys s) \<noteq> {} \<longleftrightarrow>
    rec_source r = rec_source s \<and> rec_id r = rec_id s \<or>
    rec_url r = rec_url s \<or>
    rec_source r = rec_source s \<and> set (native_ids r) \<inter> set (native_ids s) \<noteq> {}"
proof -
  have "set (dedupe_keys r) \<inter> set (dedupe_keys s) \<noteq> {} \<longleftrightarrow>
      source_key (rec_source r) (rec_id r) = source_key (rec_source s) (rec_id s) \<or>
      rec_url r = rec_url s \<or>
      native_key (rec_source r) ` set (native_ids r) \<inter> native_key (rec_source s) ` set (native_ids s) \<noteq> {}"
    by (auto simp: dedupe_keys_def)
  then show ?thesis
    using assms by (auto simp: source_key_eq native_key_eq)
qed

end
