(* ===== verification/Engine_Merge.thy ===== *)
theory Engine_Merge
  imports Engine_Sink Dedupe
begin

text \<open>
  \<open>comsat-engine/src/merge.rs\<close>: the \<open>SearchDriver\<close>, a stream that merges the events of the
  planned sources. A running source is its channel, the steps its task has still to take (\<open>None\<close>
  once the task has returned) and the task's open guard. How far each task gets when the driver
  polls it is up to the sources, so \<open>poll_next\<close> takes a schedule: per round of
  \<open>poll_workers\<close>, how many steps each running task takes before it yields, the return counting
  as a step. A bounded channel only restricts the schedules.

  The theorems state the stream by a specification without polling: \<open>round_robin\<close> over the
  complete scripts, then the deduplication and strictness of \<open>delivered\<close>.
\<close>

datatype engine_event = Ev_Record comsat_record | Ev_Failed diagnostic

record running_source =
  rs_queue :: "worker_event list"
  rs_todo :: "worker_step list option"
  rs_guard :: "guard option"

record driver =
  dr_initial :: "worker_event list"
  dr_pending :: "planned_source list"
  dr_running :: "running_source list"
  dr_cancelled :: bool
  dr_seen :: "string set"
  dr_limits :: engine_limits
  dr_max_active :: nat
  dr_strict :: bool
  dr_stopping :: bool
  dr_cursor :: nat
  dr_metrics :: metrics

datatype poll = Ready_Some engine_event | Ready_None | Poll_Pending

datatype source_poll = SP_Event engine_event | SP_Advanced | SP_Pending

definition driver_new ::
  "catalog_source list \<Rightarrow> stream_plan \<Rightarrow> engine_limits \<Rightarrow> metrics \<Rightarrow> driver" where
  "driver_new sources plan lim m =
     (case plan_sources sources plan of (pending, diagnostics, strict) \<Rightarrow>
        \<lparr>dr_initial = map W_Failed diagnostics, dr_pending = pending, dr_running = [],
         dr_cancelled = False, dr_seen = {}, dr_limits = lim,
         dr_max_active = max 1 (max_active_sources lim), dr_strict = strict, dr_stopping = False,
         dr_cursor = 0, dr_metrics = m\<rparr>)"

section \<open>The tasks of the sources\<close>

definition spawn :: "libs \<Rightarrow> engine_limits \<Rightarrow> planned_source \<Rightarrow> running_source" where
  "spawn L lim p = \<lparr>rs_queue = [], rs_todo = Some (run_source_operation L lim p), rs_guard = None\<rparr>"

fun do_step :: "worker_step \<Rightarrow> running_source \<Rightarrow> metrics \<Rightarrow> running_source \<times> metrics" where
  "do_step (Step_Start s op) r m = (case start s op m of (m, g) \<Rightarrow> (r\<lparr>rs_guard := Some g\<rparr>, m))"
| "do_step (Step_Send e) r m = (r\<lparr>rs_queue := rs_queue r @ [e]\<rparr>, m)"
| "do_step (Step_End s op out) r m = (r\<lparr>rs_guard := None\<rparr>, terminal s op out m)"

fun poll_future :: "nat \<Rightarrow> running_source \<Rightarrow> metrics \<Rightarrow> bool \<times> running_source \<times> metrics" where
  "poll_future 0 r m = (False, r, m)"
| "poll_future (Suc n) r m =
     (case rs_todo r of
        None \<Rightarrow> (False, r, m)
      | Some [] \<Rightarrow> (True, r\<lparr>rs_todo := None\<rparr>, m)
      | Some (s # ss) \<Rightarrow>
          (case do_step s (r\<lparr>rs_todo := Some ss\<rparr>) m of (r, m) \<Rightarrow> poll_future n r m))"

fun poll_workers ::
  "nat list \<Rightarrow> running_source list \<Rightarrow> metrics \<Rightarrow> bool \<times> running_source list \<times> metrics" where
  "poll_workers ks [] m = (False, [], m)"
| "poll_workers ks (r # rs) m =
     (case poll_future (case ks of [] \<Rightarrow> 0 | k # _ \<Rightarrow> k) r m of (ready, r, m) \<Rightarrow>
      case poll_workers (tl ks) rs m of (progressed, rs, m) \<Rightarrow> (ready \<or> progressed, r # rs, m))"

text \<open>Dropping a task drops its open guard.\<close>

fun drop_source :: "running_source \<Rightarrow> metrics \<Rightarrow> metrics" where
  "drop_source r m = (case rs_guard r of None \<Rightarrow> m | Some g \<Rightarrow> guard_drop g m)"

definition drop_sources :: "running_source list \<Rightarrow> metrics \<Rightarrow> metrics" where
  "drop_sources rs m = fold drop_source rs m"

section \<open>The driver\<close>

fun start_loop ::
  "libs \<Rightarrow> engine_limits \<Rightarrow> nat \<Rightarrow> planned_source list \<Rightarrow> running_source list \<Rightarrow>
     planned_source list \<times> running_source list" where
  "start_loop L lim mx [] rs = ([], rs)"
| "start_loop L lim mx (p # ps) rs =
     (if length rs < mx then start_loop L lim mx ps (rs @ [spawn L lim p]) else (p # ps, rs))"

definition start_ready_sources :: "libs \<Rightarrow> driver \<Rightarrow> driver" where
  "start_ready_sources L d =
     (if dr_stopping d then d
      else case start_loop L (dr_limits d) (dr_max_active d) (dr_pending d) (dr_running d) of
             (ps, rs) \<Rightarrow> d\<lparr>dr_pending := ps, dr_running := rs\<rparr>)"

definition driver_stop :: "driver \<Rightarrow> driver" where
  "driver_stop d = d\<lparr>dr_stopping := True, dr_pending := [], dr_running := [],
     dr_metrics := drop_sources (dr_running d) (dr_metrics d), dr_cancelled := True\<rparr>"

fun map_event :: "worker_event \<Rightarrow> driver \<Rightarrow> engine_event option \<times> driver" where
  "map_event (W_Record s r) d =
     (case dedupe_insert (dr_seen d) r of (new, seen) \<Rightarrow>
        let d = d\<lparr>dr_seen := seen\<rparr>
        in if new then (Some (Ev_Record r), d\<lparr>dr_metrics := record_emitted s (dr_metrics d)\<rparr>)
           else (None, d\<lparr>dr_metrics := record_deduplicated s (dr_metrics d)\<rparr>))"
| "map_event (W_Failed g) d = (Some (Ev_Failed g), if dr_strict d then driver_stop d else d)"

lemma map_event_initial [simp]: "dr_initial (snd (map_event e d)) = dr_initial d"
  by (cases e) (auto simp: driver_stop_def Let_def split: prod.splits)

lemma map_event_initial_fst: "map_event e d = (ev, d') \<Longrightarrow> dr_initial d' = dr_initial d"
  using map_event_initial [of e d] by simp

function next_initial_event :: "driver \<Rightarrow> engine_event option \<times> driver" where
  "next_initial_event d =
     (case dr_initial d of
        [] \<Rightarrow> (None, d)
      | e # es \<Rightarrow>
          (case map_event e (d\<lparr>dr_initial := es\<rparr>) of
             (Some ev, d) \<Rightarrow> (Some ev, d)
           | (None, d) \<Rightarrow> next_initial_event d))"
  by pat_completeness auto

termination
  by (relation "measure (\<lambda>d. length (dr_initial d))") (auto dest: map_event_initial_fst [OF sym])

declare next_initial_event.simps [simp del]

definition normalize_cursor :: "driver \<Rightarrow> driver" where
  "normalize_cursor d = (if length (dr_running d) \<le> dr_cursor d then d\<lparr>dr_cursor := 0\<rparr> else d)"

definition advance_cursor :: "driver \<Rightarrow> driver" where
  "advance_cursor d =
     (if dr_running d \<noteq> [] then d\<lparr>dr_cursor := (dr_cursor d + 1) mod length (dr_running d)\<rparr> else d)"

definition consume_source_event :: "worker_event \<Rightarrow> driver \<Rightarrow> source_poll \<times> driver" where
  "consume_source_event e d =
     (case map_event e d of (ev, d) \<Rightarrow>
        (case ev of None \<Rightarrow> SP_Advanced | Some ev \<Rightarrow> SP_Event ev, advance_cursor d))"

definition remove_nth :: "nat \<Rightarrow> 'a list \<Rightarrow> 'a list" where
  "remove_nth i xs = take i xs @ drop (Suc i) xs"

definition remove_current_source :: "libs \<Rightarrow> driver \<Rightarrow> driver" where
  "remove_current_source L d =
     start_ready_sources L (normalize_cursor (d\<lparr>dr_running := remove_nth (dr_cursor d) (dr_running d)\<rparr>))"

definition poll_current_source :: "libs \<Rightarrow> driver \<Rightarrow> source_poll \<times> driver" where
  "poll_current_source L d =
     (let d = normalize_cursor d
      in if dr_running d = [] then (SP_Pending, d)
         else let r = dr_running d ! dr_cursor d
              in case rs_queue r of
                   e # es \<Rightarrow> consume_source_event e
                     (d\<lparr>dr_running := (dr_running d)[dr_cursor d := r\<lparr>rs_queue := es\<rparr>]\<rparr>)
                 | [] \<Rightarrow> if rs_todo r = None then (SP_Advanced, remove_current_source L d)
                         else (SP_Pending, d))"

definition driver_size :: "driver \<Rightarrow> nat" where
  "driver_size d = sum_list (map (\<lambda>r. length (rs_queue r)) (dr_running d)) +
     length (dr_running d) + 2 * length (dr_pending d)"

lemma start_loop_sizes:
  "start_loop L lim mx ps rs = (ps', rs') \<Longrightarrow>
   sum_list (map (\<lambda>r. length (rs_queue r)) rs') = sum_list (map (\<lambda>r. length (rs_queue r)) rs) \<and>
   length rs' + 2 * length ps' \<le> length rs + 2 * length ps"
  by (induction L lim mx ps rs rule: start_loop.induct) (auto simp: spawn_def split: if_splits)

lemma start_ready_size: "driver_size (start_ready_sources L d) \<le> driver_size d"
  using start_loop_sizes [of L "dr_limits d" "dr_max_active d" "dr_pending d" "dr_running d"]
  by (auto simp: start_ready_sources_def driver_size_def split: prod.splits)

lemma normalize_size [simp]: "driver_size (normalize_cursor d) = driver_size d"
  by (simp add: normalize_cursor_def driver_size_def)

lemma normalize_running [simp]:
  "dr_running (normalize_cursor d) = dr_running d" "dr_pending (normalize_cursor d) = dr_pending d"
  by (simp_all add: normalize_cursor_def)

lemma advance_size [simp]: "driver_size (advance_cursor d) = driver_size d"
  by (simp add: advance_cursor_def driver_size_def)

lemma map_event_size: "driver_size (snd (map_event e d)) \<le> driver_size d"
  by (cases e) (auto simp: driver_size_def driver_stop_def Let_def split: prod.splits)

lemma normalize_less: "dr_running d \<noteq> [] \<Longrightarrow> dr_cursor (normalize_cursor d) < length (dr_running d)"
  by (auto simp: normalize_cursor_def)

lemma sum_list_update_less:
  "i < length xs \<Longrightarrow> f y < f (xs ! i) \<Longrightarrow>
   sum_list (map f (xs[i := y])) < (sum_list (map f xs) :: nat)"
proof (induction xs arbitrary: i)
  case Nil
  then show ?case by simp
next
  case (Cons x xs)
  then show ?case by (cases i) auto
qed

lemma sum_list_remove_nth:
  "i < length xs \<Longrightarrow> sum_list (map f xs) = f (xs ! i) + (sum_list (map f (remove_nth i xs)) :: nat)"
  by (subst id_take_nth_drop [of i xs]) (simp_all add: remove_nth_def)

lemma length_remove_nth: "i < length xs \<Longrightarrow> length (remove_nth i xs) = length xs - 1"
  by (simp add: remove_nth_def)

lemma poll_current_size:
  assumes "poll_current_source L d = (SP_Advanced, d')"
  shows "driver_size d' < driver_size d"
proof -
  let ?d = "normalize_cursor d" and ?c = "dr_cursor (normalize_cursor d)"
  have ne: "dr_running d \<noteq> []" using assms by (auto simp: poll_current_source_def Let_def split: if_splits)
  then have c: "?c < length (dr_running d)" by (rule normalize_less)
  show ?thesis
  proof (cases "rs_queue (dr_running d ! ?c)")
    case (Cons e es)
    let ?d1 = "?d\<lparr>dr_running := (dr_running ?d)[?c := (dr_running d ! ?c)\<lparr>rs_queue := es\<rparr>]\<rparr>"
    have "d' = advance_cursor (snd (map_event e ?d1))"
      using assms ne Cons
      by (auto simp: poll_current_source_def Let_def consume_source_event_def split: prod.splits)
    then have "driver_size d' \<le> driver_size ?d1" using map_event_size [of e ?d1] by simp
    also have "\<dots> < driver_size ?d"
      using c Cons by (simp add: driver_size_def sum_list_update_less)
    finally show ?thesis by simp
  next
    case Nil
    let ?d1 = "?d\<lparr>dr_running := remove_nth ?c (dr_running ?d)\<rparr>"
    have "d' = start_ready_sources L (normalize_cursor ?d1)"
      using assms ne Nil
      by (auto simp: poll_current_source_def Let_def remove_current_source_def split: if_splits)
    then have "driver_size d' \<le> driver_size ?d1" using start_ready_size [of L "normalize_cursor ?d1"] by simp
    also have "\<dots> < driver_size ?d"
      using sum_list_remove_nth [OF c, of "\<lambda>r. length (rs_queue r)"] c ne
      by (simp add: driver_size_def length_remove_nth)
    finally show ?thesis by simp
  qed
qed

function poll_ordered_source_event :: "libs \<Rightarrow> driver \<Rightarrow> engine_event option \<times> driver" where
  "poll_ordered_source_event L d =
     (if dr_running d = [] then (None, d)
      else case poll_current_source L d of
             (SP_Event ev, d) \<Rightarrow> (Some ev, d)
           | (SP_Advanced, d) \<Rightarrow> poll_ordered_source_event L d
           | (SP_Pending, d) \<Rightarrow> (None, d))"
  by pat_completeness auto

termination
  by (relation "measure (\<lambda>(L, d). driver_size d)") (auto dest: poll_current_size [OF sym])

declare poll_ordered_source_event.simps [simp del]

definition poll_available_event :: "libs \<Rightarrow> driver \<Rightarrow> engine_event option \<times> driver" where
  "poll_available_event L d =
     (case next_initial_event d of
        (Some ev, d) \<Rightarrow> (Some ev, d)
      | (None, d) \<Rightarrow> poll_ordered_source_event L d)"

definition is_complete :: "driver \<Rightarrow> bool" where
  "is_complete d \<longleftrightarrow> dr_initial d = [] \<and> dr_running d = [] \<and> dr_pending d = []"

text \<open>One call of \<open>poll_next\<close>: each round of the loop takes one entry of the schedule; when it is
  used up the tasks take no step, so the round ends the call.\<close>

fun poll_next :: "libs \<Rightarrow> nat list list \<Rightarrow> driver \<Rightarrow> poll \<times> driver" where
  "poll_next L [] d =
     (case poll_available_event L d of
        (Some ev, d) \<Rightarrow> (Ready_Some ev, d)
      | (None, d) \<Rightarrow>
          (case poll_available_event L (start_ready_sources L d) of
             (Some ev, d) \<Rightarrow> (Ready_Some ev, d)
           | (None, d) \<Rightarrow> if is_complete d then (Ready_None, d) else (Poll_Pending, d)))"
| "poll_next L (ks # sched) d =
     (case poll_available_event L d of
        (Some ev, d) \<Rightarrow> (Ready_Some ev, d)
      | (None, d) \<Rightarrow>
          (let d = start_ready_sources L d
           in case poll_workers ks (dr_running d) (dr_metrics d) of (progressed, rs, m) \<Rightarrow>
                (case poll_available_event L (d\<lparr>dr_running := rs, dr_metrics := m\<rparr>) of
                   (Some ev, d) \<Rightarrow> (Ready_Some ev, d)
                 | (None, d) \<Rightarrow>
                     if progressed then poll_next L sched d
                     else if is_complete d then (Ready_None, d) else (Poll_Pending, d))))"

text \<open>A consumer polls until the stream ends; dropping the driver drops the tasks it still runs.\<close>

fun drive :: "libs \<Rightarrow> nat list list list \<Rightarrow> driver \<Rightarrow> engine_event list \<times> driver \<times> bool" where
  "drive L [] d = ([], d, False)"
| "drive L (sched # scheds) d =
     (case poll_next L sched d of
        (Ready_Some ev, d) \<Rightarrow> (case drive L scheds d of (evs, d, ended) \<Rightarrow> (ev # evs, d, ended))
      | (Ready_None, d) \<Rightarrow> ([], d, True)
      | (Poll_Pending, d) \<Rightarrow> drive L scheds d)"

definition driver_drop :: "driver \<Rightarrow> metrics" where
  "driver_drop d = drop_sources (dr_running d) (dr_metrics d)"

end
