(* ===== verification/Engine_Stream.thy ===== *)
theory Engine_Stream
  imports Engine_Merge
begin

text \<open>
  What the stream of \<open>Engine_Merge\<close> delivers, for every schedule. \<open>driver_steps\<close> is the
  contract between the pieces of the driver and its polling loops: a relation that holds of each
  piece and composes holds of a whole run. It is interpreted three times, for what is still to be
  delivered, for the work still to be done, and for the accounting of the metrics.
\<close>

section \<open>The specification\<close>

fun delivered :: "bool \<Rightarrow> string set \<Rightarrow> worker_event list \<Rightarrow> engine_event list" where
  "delivered strict seen [] = []"
| "delivered strict seen (W_Record s r # es) =
     (case dedupe_insert seen r of (new, seen) \<Rightarrow>
        if new then Ev_Record r # delivered strict seen es else delivered strict seen es)"
| "delivered strict seen (W_Failed g # es) =
     Ev_Failed g # (if strict then [] else delivered strict seen es)"

definition fill :: "nat \<Rightarrow> 'a list \<Rightarrow> 'a list \<Rightarrow> 'a list \<times> 'a list" where
  "fill mx qs ps = (qs @ take (mx - length qs) ps, drop (mx - length qs) ps)"

definition wrap :: "nat \<Rightarrow> nat \<Rightarrow> nat" where
  "wrap n c = (if n \<le> c then 0 else c)"

lemma wrap_less: "n \<noteq> 0 \<Longrightarrow> wrap n c < n"
  by (simp add: wrap_def)

definition rr_size :: "'a list list \<Rightarrow> 'a list list \<Rightarrow> nat" where
  "rr_size qs ps = sum_list (map (\<lambda>q. length q + 1) qs) + sum_list (map (\<lambda>q. length q + 1) ps)"

lemma rr_size_fill [simp]: "rr_size (fst (fill mx qs ps)) (snd (fill mx qs ps)) = rr_size qs ps"
proof -
  have "sum_list (map f (take n ps)) + sum_list (map f (drop n ps)) = (sum_list (map f ps) :: nat)" for f n
    by (metis append_take_drop_id map_append sum_list.append)
  then show ?thesis by (simp add: rr_size_def fill_def add.assoc)
qed

lemma rr_size_emit:
  "c < length qs \<Longrightarrow> qs ! c = e # es \<Longrightarrow> rr_size (qs[c := es]) ps < rr_size qs ps"
  unfolding rr_size_def by (simp add: sum_list_update_less)

lemma rr_size_remove: "c < length qs \<Longrightarrow> rr_size (remove_nth c qs) ps < rr_size qs ps"
  using sum_list_remove_nth [of c qs "\<lambda>q. length q + 1"] by (simp add: rr_size_def)

text \<open>Round robin over complete scripts: at most \<open>mx\<close> of them at a time, one event from each in
  turn; an empty script leaves its place and the next pending one joins at the end.\<close>

function round_robin :: "nat \<Rightarrow> 'a list list \<Rightarrow> nat \<Rightarrow> 'a list list \<Rightarrow> 'a list" where
  "round_robin mx qs c ps =
     (if qs = [] then []
      else let c = wrap (length qs) c
           in case qs ! c of
                e # es \<Rightarrow> e # round_robin mx (qs[c := es]) ((c + 1) mod length qs) ps
              | [] \<Rightarrow>
                  (let qs' = remove_nth c qs;
                       c' = wrap (length qs') c;
                       filled = fill mx qs' ps
                   in round_robin mx (fst filled) c' (snd filled)))"
  by pat_completeness auto

termination
proof (relation "measure (\<lambda>(mx, qs, c, ps). rr_size qs ps)", goal_cases)
  case 1
  then show ?case by simp
next
  case (2 mx qs c ps)
  then have "wrap (length qs) c < length qs" by (simp add: wrap_less)
  from rr_size_remove [OF this, of ps] 2 show ?case by simp
next
  case (3 mx qs c ps)
  then show ?case by (simp add: rr_size_emit wrap_less)
qed

declare round_robin.simps [simp del]

definition merged :: "nat \<Rightarrow> 'a list list \<Rightarrow> 'a list" where
  "merged mx scripts = (let filled = fill mx [] scripts in round_robin mx (fst filled) 0 (snd filled))"

definition stream_spec ::
  "libs \<Rightarrow> engine_limits \<Rightarrow> catalog_source list \<Rightarrow> stream_plan \<Rightarrow> engine_event list" where
  "stream_spec L lim sources plan =
     (case plan_sources sources plan of (pending, diagnostics, strict) \<Rightarrow>
        map Ev_Failed diagnostics @
        (if strict \<and> diagnostics \<noteq> [] then []
         else delivered strict {} (merged (max 1 (max_active_sources lim)) (map (script L lim) pending))))"

section \<open>Polling loops over any composable relation\<close>

abbreviation delivered_by :: "engine_event option \<Rightarrow> engine_event list" where
  "delivered_by ev \<equiv> (case ev of None \<Rightarrow> [] | Some e \<Rightarrow> [e])"

definition take_event :: "worker_event list \<Rightarrow> driver \<Rightarrow> driver" where
  "take_event es d = d\<lparr>dr_running :=
     (dr_running d)[dr_cursor d := (dr_running d ! dr_cursor d)\<lparr>rs_queue := es\<rparr>]\<rparr>"

lemma initial_kept [simp]:
  "dr_initial (start_ready_sources L d) = dr_initial d"
  "dr_initial (normalize_cursor d) = dr_initial d"
  "dr_initial (advance_cursor d) = dr_initial d"
  "dr_initial (take_event es d) = dr_initial d"
  "dr_initial (remove_current_source L d) = dr_initial d"
  by (simp_all add: start_ready_sources_def normalize_cursor_def advance_cursor_def take_event_def
      remove_current_source_def split: prod.splits)

text \<open>The outcomes of polling the current source.\<close>

lemma poll_current_cases:
  assumes "dr_running d \<noteq> []" "poll_current_source L d = (sp, d')"
  obtains e es ev d1 where "dr_cursor (normalize_cursor d) < length (dr_running d)"
      "rs_queue (dr_running d ! dr_cursor (normalize_cursor d)) = e # es"
      "map_event e (take_event es (normalize_cursor d)) = (ev, d1)" "d' = advance_cursor d1"
      "sp = (case ev of None \<Rightarrow> SP_Advanced | Some ev \<Rightarrow> SP_Event ev)"
  | "dr_cursor (normalize_cursor d) < length (dr_running d)"
      "rs_queue (dr_running d ! dr_cursor (normalize_cursor d)) = []"
      "rs_todo (dr_running d ! dr_cursor (normalize_cursor d)) = None"
      "sp = SP_Advanced" "d' = remove_current_source L (normalize_cursor d)"
  | "rs_queue (dr_running d ! dr_cursor (normalize_cursor d)) = []"
      "rs_todo (dr_running d ! dr_cursor (normalize_cursor d)) \<noteq> None"
      "sp = SP_Pending" "d' = normalize_cursor d"
proof -
  let ?r = "dr_running d ! dr_cursor (normalize_cursor d)"
  have c: "dr_cursor (normalize_cursor d) < length (dr_running d)"
    using assms(1) by (rule normalize_less)
  show thesis
  proof (cases "rs_queue ?r")
    case (Cons e es)
    obtain ev d1 where m: "map_event e (take_event es (normalize_cursor d)) = (ev, d1)"
      by (cases "map_event e (take_event es (normalize_cursor d))")
    with assms Cons have "d' = advance_cursor d1"
      "sp = (case ev of None \<Rightarrow> SP_Advanced | Some ev \<Rightarrow> SP_Event ev)"
      by (auto simp: poll_current_source_def Let_def consume_source_event_def take_event_def)
    with that(1) c Cons m show thesis by blast
  next
    case Nil
    show thesis
    proof (cases "rs_todo ?r = None")
      case True
      with assms Nil have "sp = SP_Advanced" "d' = remove_current_source L (normalize_cursor d)"
        by (auto simp: poll_current_source_def Let_def)
      with that(2) c Nil True show thesis by blast
    next
      case False
      with assms Nil have "sp = SP_Pending" "d' = normalize_cursor d"
        by (auto simp: poll_current_source_def Let_def)
      with that(3) Nil False show thesis by blast
    qed
  qed
qed

locale driver_steps =
  fixes L :: libs and R :: "driver \<Rightarrow> engine_event list \<Rightarrow> driver \<Rightarrow> bool"
  assumes refl: "R d [] d"
    and trans: "R d1 xs d2 \<Longrightarrow> R d2 ys d3 \<Longrightarrow> R d1 (xs @ ys) d3"
    and starts: "R d [] (start_ready_sources L d)"
    and works: "dr_initial d = [] \<Longrightarrow> poll_workers ks (dr_running d) (dr_metrics d) = (p, rs, m) \<Longrightarrow>
      R d [] (d\<lparr>dr_running := rs, dr_metrics := m\<rparr>)"
    and initial: "dr_initial d = e # es \<Longrightarrow> map_event e (d\<lparr>dr_initial := es\<rparr>) = (ev, d') \<Longrightarrow>
      R d (delivered_by ev) d'"
    and normalizes: "R d [] (normalize_cursor d)"
    and consumes: "dr_initial d = [] \<Longrightarrow> dr_cursor d < length (dr_running d) \<Longrightarrow>
      rs_queue (dr_running d ! dr_cursor d) = e # es \<Longrightarrow>
      map_event e (take_event es d) = (ev, d') \<Longrightarrow> R d (delivered_by ev) (advance_cursor d')"
    and removes: "dr_initial d = [] \<Longrightarrow> dr_cursor d < length (dr_running d) \<Longrightarrow>
      rs_queue (dr_running d ! dr_cursor d) = [] \<Longrightarrow> rs_todo (dr_running d ! dr_cursor d) = None \<Longrightarrow>
      R d [] (remove_current_source L d)"
begin

lemma trans_none: "R d1 [] d2 \<Longrightarrow> R d2 ys d3 \<Longrightarrow> R d1 ys d3"
  using trans [of d1 "[]" d2 ys d3] by simp

lemma current:
  assumes "dr_initial d = []" "dr_running d \<noteq> []" "poll_current_source L d = (sp, d')"
  shows "R d (case sp of SP_Event e \<Rightarrow> [e] | _ \<Rightarrow> []) d' \<and> dr_initial d' = []"
  using assms(2,3)
proof (cases rule: poll_current_cases)
  case (1 e es ev d1)
  have "R (normalize_cursor d) (delivered_by ev) (advance_cursor d1)"
    by (rule consumes) (use assms(1) 1 in simp_all)
  moreover have "dr_initial d1 = []" using map_event_initial_fst [OF 1(3)] assms(1) by simp
  ultimately show ?thesis using trans_none [OF normalizes] 1(4,5) by (cases ev) auto
next
  case 2
  have "R (normalize_cursor d) [] (remove_current_source L (normalize_cursor d))"
    by (rule removes) (use assms(1) 2 in simp_all)
  with trans_none [OF normalizes] 2 assms(1) show ?thesis by simp
next
  case 3
  with normalizes assms(1) show ?thesis by simp
qed

lemma ordered:
  "dr_initial d = [] \<Longrightarrow> poll_ordered_source_event L d = (ev, d') \<Longrightarrow>
   R d (delivered_by ev) d' \<and> dr_initial d' = []"
proof (induction d rule: measure_induct_rule [where f = driver_size])
  case (less d)
  show ?case
  proof (cases "dr_running d = []")
    case True
    with less.prems refl show ?thesis by (auto simp: poll_ordered_source_event.simps [of L d])
  next
    case False
    obtain sp d1 where c: "poll_current_source L d = (sp, d1)" by (cases "poll_current_source L d")
    from current [OF less.prems(1) False c] have step: "R d (case sp of SP_Event e \<Rightarrow> [e] | _ \<Rightarrow> []) d1"
      "dr_initial d1 = []" by auto
    show ?thesis
    proof (cases sp)
      case SP_Advanced
      with less.prems(2) False c have "poll_ordered_source_event L d1 = (ev, d')"
        by (simp add: poll_ordered_source_event.simps [of L d])
      moreover have "driver_size d1 < driver_size d" using c SP_Advanced by (simp add: poll_current_size)
      ultimately have "R d1 (delivered_by ev) d' \<and> dr_initial d' = []" using less.IH [of d1] step by blast
      with step SP_Advanced trans_none [of d d1] show ?thesis by simp
    qed (use less.prems(2) False c step in \<open>auto simp: poll_ordered_source_event.simps [of L d]\<close>)
  qed
qed

lemma initials: "next_initial_event d = (ev, d') \<Longrightarrow> R d (delivered_by ev) d' \<and> (ev = None \<longrightarrow> dr_initial d' = [])"
proof (induction d rule: measure_induct_rule [where f = "\<lambda>d. length (dr_initial d)"])
  case (less d)
  show ?case
  proof (cases "dr_initial d")
    case Nil
    with less.prems refl show ?thesis by (auto simp: next_initial_event.simps [of d])
  next
    case (Cons e es)
    obtain ev1 d1 where m: "map_event e (d\<lparr>dr_initial := es\<rparr>) = (ev1, d1)"
      by (cases "map_event e (d\<lparr>dr_initial := es\<rparr>)")
    from initial [OF Cons m] have step: "R d (delivered_by ev1) d1" .
    show ?thesis
    proof (cases ev1)
      case None
      with less.prems Cons m have "next_initial_event d1 = (ev, d')"
        by (simp add: next_initial_event.simps [of d])
      moreover have "length (dr_initial d1) < length (dr_initial d)"
        using map_event_initial_fst [OF m] Cons by simp
      ultimately have "R d1 (delivered_by ev) d' \<and> (ev = None \<longrightarrow> dr_initial d' = [])"
        using less.IH [of d1] by blast
      with step None trans_none [of d d1] show ?thesis by simp
    next
      case (Some e1)
      with less.prems Cons m step show ?thesis by (auto simp: next_initial_event.simps [of d])
    qed
  qed
qed

lemma available:
  assumes "poll_available_event L d = (ev, d')"
  shows "R d (delivered_by ev) d' \<and> (ev = None \<longrightarrow> dr_initial d' = [])"
proof -
  obtain ev1 d1 where n: "next_initial_event d = (ev1, d1)" by (cases "next_initial_event d")
  show ?thesis
  proof (cases ev1)
    case None
    with n assms have "poll_ordered_source_event L d1 = (ev, d')" by (simp add: poll_available_event_def)
    from ordered [OF _ this] initials [OF n] None
    have r: "R d1 (delivered_by ev) d'" "dr_initial d' = []" "R d [] d1" by simp_all
    from trans_none [OF r(3,1)] r(2) show ?thesis by simp
  next
    case (Some e)
    with n assms initials [OF n] show ?thesis by (simp add: poll_available_event_def)
  qed
qed

abbreviation polled :: "poll \<Rightarrow> engine_event list" where
  "polled p \<equiv> (case p of Ready_Some e \<Rightarrow> [e] | _ \<Rightarrow> [])"

lemma polls: "poll_next L sched d = (p, d') \<Longrightarrow> R d (polled p) d'"
proof (induction sched arbitrary: d)
  case Nil
  obtain ev1 d1 where a: "poll_available_event L d = (ev1, d1)" by (cases "poll_available_event L d")
  obtain ev2 d2 where b: "poll_available_event L (start_ready_sources L d1) = (ev2, d2)"
    by (cases "poll_available_event L (start_ready_sources L d1)")
  show ?case
  proof (cases ev1)
    case (Some e)
    with a Nil available [OF a] show ?thesis by auto
  next
    case None
    with available [OF a] have "R d [] d1" by simp
    from trans_none [OF this trans_none [OF starts]] available [OF b] have "R d (delivered_by ev2) d2"
      by blast
    with Nil a b None show ?thesis by (auto split: option.splits if_splits)
  qed
next
  case (Cons ks sched)
  obtain ev1 d1 where a: "poll_available_event L d = (ev1, d1)" by (cases "poll_available_event L d")
  show ?case
  proof (cases ev1)
    case (Some e)
    with a Cons.prems available [OF a] show ?thesis by auto
  next
    case None
    let ?d2 = "start_ready_sources L d1"
    obtain progressed rs m where w: "poll_workers ks (dr_running ?d2) (dr_metrics ?d2) = (progressed, rs, m)"
      by (cases "poll_workers ks (dr_running ?d2) (dr_metrics ?d2)")
    let ?d3 = "?d2\<lparr>dr_running := rs, dr_metrics := m\<rparr>"
    obtain ev2 d4 where b: "poll_available_event L ?d3 = (ev2, d4)" by (cases "poll_available_event L ?d3")
    have i: "dr_initial ?d2 = []" using available [OF a] None by simp
    have "R d [] d1" using None available [OF a] by simp
    from trans_none [OF this trans_none [OF starts trans_none [OF works [OF i w]]]] available [OF b]
    have r: "R d (delivered_by ev2) d4" by blast
    show ?thesis
    proof (cases "ev2 = None \<and> progressed")
      case True
      with Cons.prems a b None w have "poll_next L sched d4 = (p, d')" by (simp add: Let_def)
      from Cons.IH [OF this] r True trans_none [of d d4] show ?thesis by simp
    next
      case False
      with Cons.prems a b None w r show ?thesis by (auto simp: Let_def split: option.splits if_splits)
    qed
  qed
qed

lemma drives: "drive L scheds d = (evs, d', over) \<Longrightarrow> R d evs d'"
proof (induction scheds arbitrary: d evs)
  case Nil
  then show ?case using refl by auto
next
  case (Cons sched scheds)
  obtain p d1 where p: "poll_next L sched d = (p, d1)" by (cases "poll_next L sched d")
  from polls [OF p] have step: "R d (polled p) d1" .
  show ?case
  proof (cases p)
    case (Ready_Some e)
    obtain evs1 where "drive L scheds d1 = (evs1, d', over)" "evs = e # evs1"
      using Cons.prems p Ready_Some by (auto split: prod.splits)
    with Cons.IH step Ready_Some trans [of d "[e]" d1] show ?thesis by fastforce
  next
    case Ready_None
    with Cons.prems p step show ?thesis by auto
  next
    case Poll_Pending
    with Cons.prems p have "drive L scheds d1 = (evs, d', over)" by simp
    from Cons.IH [OF this] step Poll_Pending trans_none [of d d1] show ?thesis by simp
  qed
qed

end

section \<open>What is still to be delivered\<close>

definition remaining :: "running_source \<Rightarrow> worker_event list" where
  "remaining r = rs_queue r @ (case rs_todo r of None \<Rightarrow> [] | Some ss \<Rightarrow> sends ss)"

fun to_event :: "worker_event \<Rightarrow> engine_event" where
  "to_event (W_Record s r) = Ev_Record r"
| "to_event (W_Failed g) = Ev_Failed g"

definition to_merge :: "libs \<Rightarrow> driver \<Rightarrow> worker_event list" where
  "to_merge L d =
     (let filled = fill (dr_max_active d) (map remaining (dr_running d))
            (map (script L (dr_limits d)) (dr_pending d))
      in round_robin (dr_max_active d) (fst filled) (dr_cursor d) (snd filled))"

definition to_deliver :: "libs \<Rightarrow> driver \<Rightarrow> engine_event list" where
  "to_deliver L d = map to_event (dr_initial d) @
     (if dr_strict d \<and> dr_initial d \<noteq> [] then []
      else delivered (dr_strict d) (dr_seen d) (to_merge L d))"

definition driver_ok :: "driver \<Rightarrow> bool" where
  "driver_ok d \<longleftrightarrow>
     (\<forall>e \<in> set (dr_initial d). \<exists>g. e = W_Failed g) \<and>
     (dr_stopping d \<longrightarrow> dr_running d = [] \<and> dr_pending d = []) \<and>
     1 \<le> dr_max_active d \<and> length (dr_running d) \<le> dr_max_active d \<and>
     (dr_running d \<noteq> [] \<longrightarrow> dr_pending d = [] \<or> length (dr_running d) = dr_max_active d) \<and>
     (dr_running d = [] \<longrightarrow> dr_pending d = [] \<or> dr_cursor d = 0)"

definition delivers :: "libs \<Rightarrow> driver \<Rightarrow> engine_event list \<Rightarrow> driver \<Rightarrow> bool" where
  "delivers L d evs d' \<longleftrightarrow> (driver_ok d \<longrightarrow>
     driver_ok d' \<and> to_deliver L d = evs @ to_deliver L d' \<and> dr_max_active d' = dr_max_active d)"

lemma delivered_empty [simp]: "round_robin mx [] c ps = []"
  by (simp add: round_robin.simps)

lemma fill_idem [simp]: "fill mx (fst (fill mx qs ps)) (snd (fill mx qs ps)) = fill mx qs ps"
  by (auto simp: fill_def min_def)

lemma fill_full: "mx \<le> length qs \<or> ps = [] \<Longrightarrow> fill mx qs ps = (qs, ps)"
  by (auto simp: fill_def)

lemma start_loop_eq:
  "start_loop L lim mx ps rs =
     (drop (mx - length rs) ps, rs @ map (spawn L lim) (take (mx - length rs) ps))"
proof (induction ps arbitrary: rs)
  case Nil
  then show ?case by simp
next
  case (Cons p ps)
  show ?case
  proof (cases "length rs < mx")
    case True
    then have "mx - length rs = Suc (mx - length (rs @ [spawn L lim p]))" by simp
    with True Cons show ?thesis by simp
  qed simp
qed

lemma remaining_spawn: "remaining (spawn L lim p) = script L lim p"
  by (simp add: remaining_def spawn_def script_def)

lemma start_ready_fill:
  "\<not> dr_stopping d \<Longrightarrow>
   start_ready_sources L d =
     d\<lparr>dr_pending := drop (dr_max_active d - length (dr_running d)) (dr_pending d),
       dr_running := dr_running d @
         map (spawn L (dr_limits d)) (take (dr_max_active d - length (dr_running d)) (dr_pending d))\<rparr>"
  by (simp add: start_ready_sources_def start_loop_eq)

lemma to_merge_start: "to_merge L (start_ready_sources L d) = to_merge L d"
proof (cases "dr_stopping d")
  case True
  then show ?thesis by (simp add: start_ready_sources_def)
next
  case False
  have "fill mx (map remaining (rs @ map (spawn L lim) (take (mx - length rs) ps)))
      (map (script L lim) (drop (mx - length rs) ps)) =
    fill mx (map remaining rs) (map (script L lim) ps)" for mx rs lim ps
    using fill_idem [of mx "map remaining rs" "map (script L lim) ps"]
    by (simp add: fill_def comp_def remaining_spawn take_map drop_map)
  with False show ?thesis by (simp add: to_merge_def start_ready_fill)
qed

lemma start_ready_frame [simp]:
  "dr_seen (start_ready_sources L d) = dr_seen d" "dr_strict (start_ready_sources L d) = dr_strict d"
  "dr_max_active (start_ready_sources L d) = dr_max_active d"
  "dr_stopping (start_ready_sources L d) = dr_stopping d"
  "dr_limits (start_ready_sources L d) = dr_limits d"
  "dr_cursor (start_ready_sources L d) = dr_cursor d"
  "dr_metrics (start_ready_sources L d) = dr_metrics d"
  by (simp_all add: start_ready_sources_def split: prod.splits)

lemma start_ready_ok:
  assumes "\<forall>e \<in> set (dr_initial d). \<exists>g. e = W_Failed g"
    and "dr_stopping d \<longrightarrow> dr_running d = [] \<and> dr_pending d = []"
    and "1 \<le> dr_max_active d" "length (dr_running d) \<le> dr_max_active d"
  shows "driver_ok (start_ready_sources L d)"
proof (cases "dr_stopping d")
  case True
  with assms show ?thesis by (simp add: driver_ok_def start_ready_sources_def)
next
  case False
  with assms show ?thesis
    by (auto simp: driver_ok_def start_ready_fill min_def)
qed

lemma start_delivers: "delivers L d [] (start_ready_sources L d)"
  using start_ready_ok [of d L]
  by (auto simp: delivers_def to_deliver_def to_merge_start driver_ok_def)

lemma do_step_remaining:
  "do_step s (r\<lparr>rs_todo := Some ss\<rparr>) m = (r', m') \<Longrightarrow> rs_todo r = Some (s # ss) \<Longrightarrow>
   remaining r' = remaining r \<and> rs_todo r' = Some ss"
  by (cases s) (auto simp: remaining_def split: prod.splits)

lemma poll_future_remaining: "poll_future n r m = (b, r', m') \<Longrightarrow> remaining r' = remaining r"
proof (induction n r m rule: poll_future.induct)
  case (2 n r m)
  show ?case
  proof (cases "rs_todo r")
    case (Some ss)
    show ?thesis
    proof (cases ss)
      case (Cons x xs)
      obtain r1 m1 where st: "do_step x (r\<lparr>rs_todo := Some xs\<rparr>) m = (r1, m1)"
        by (cases "do_step x (r\<lparr>rs_todo := Some xs\<rparr>) m")
      with 2 Some Cons do_step_remaining [OF st] show ?thesis by auto
    qed (use 2 Some in \<open>auto simp: remaining_def\<close>)
  qed (use 2 in auto)
qed auto

lemma poll_workers_remaining:
  "poll_workers ks rs m = (b, rs', m') \<Longrightarrow> map remaining rs' = map remaining rs"
  by (induction ks rs m arbitrary: b rs' m' rule: poll_workers.induct)
    (auto dest: poll_future_remaining split: prod.splits)

lemma works_delivers:
  assumes "poll_workers ks (dr_running d) (dr_metrics d) = (p, rs, m)"
  shows "delivers L d [] (d\<lparr>dr_running := rs, dr_metrics := m\<rparr>)"
proof -
  from poll_workers_remaining [OF assms] have r: "map remaining rs = map remaining (dr_running d)" .
  then have "length rs = length (dr_running d)" by (rule map_eq_imp_length_eq)
  moreover from this have "rs = [] \<longleftrightarrow> dr_running d = []" by auto
  ultimately show ?thesis
    using r by (auto simp: delivers_def driver_ok_def to_deliver_def to_merge_def)
qed

lemma stop_delivers_nothing [simp]: "to_merge L (driver_stop d) = []"
  by (simp add: to_merge_def driver_stop_def fill_def)

lemma stop_ok: "1 \<le> dr_max_active d \<Longrightarrow> \<forall>e \<in> set (dr_initial d). \<exists>g. e = W_Failed g \<Longrightarrow> driver_ok (driver_stop d)"
  by (simp add: driver_ok_def driver_stop_def)

lemma driver_stop_frame [simp]:
  "dr_initial (driver_stop d) = dr_initial d" "dr_strict (driver_stop d) = dr_strict d"
  "dr_max_active (driver_stop d) = dr_max_active d" "dr_seen (driver_stop d) = dr_seen d"
  "dr_running (driver_stop d) = []" "dr_pending (driver_stop d) = []"
  by (simp_all add: driver_stop_def)

lemma initial_delivers:
  assumes "dr_initial d = e # es" "map_event e (d\<lparr>dr_initial := es\<rparr>) = (ev, d')"
  shows "delivers L d (delivered_by ev) d'"
  unfolding delivers_def
proof
  assume ok: "driver_ok d"
  then obtain g where g: "e = W_Failed g" using assms(1) by (auto simp: driver_ok_def)
  show "driver_ok d' \<and> to_deliver L d = delivered_by ev @ to_deliver L d' \<and> dr_max_active d' = dr_max_active d"
  proof (cases "dr_strict d")
    case True
    with assms g have d': "d' = driver_stop (d\<lparr>dr_initial := es\<rparr>)" "ev = Some (Ev_Failed g)" by auto
    have "driver_ok d'" unfolding d' by (rule stop_ok) (use ok assms(1) in \<open>auto simp: driver_ok_def\<close>)
    with d' True g assms(1) show ?thesis by (simp add: to_deliver_def)
  next
    case False
    with assms g have d': "d' = d\<lparr>dr_initial := es\<rparr>" "ev = Some (Ev_Failed g)" by auto
    with ok assms(1) False g show ?thesis
      by (auto simp: driver_ok_def to_deliver_def to_merge_def)
  qed
qed

lemma round_robin_wrap: "round_robin mx qs (wrap (length qs) c) ps = round_robin mx qs c ps"
  by (subst (1 2) round_robin.simps) (simp add: wrap_def)

lemma normalize_wrap: "normalize_cursor d = d\<lparr>dr_cursor := wrap (length (dr_running d)) (dr_cursor d)\<rparr>"
  by (simp add: normalize_cursor_def wrap_def)

lemma filled_running:
  assumes "driver_ok d" "dr_running d \<noteq> []"
  shows "to_merge L d = round_robin (dr_max_active d) (map remaining (dr_running d)) (dr_cursor d)
    (map (script L (dr_limits d)) (dr_pending d))"
proof -
  have "fill (dr_max_active d) (map remaining (dr_running d)) (map (script L (dr_limits d)) (dr_pending d)) =
      (map remaining (dr_running d), map (script L (dr_limits d)) (dr_pending d))"
    by (rule fill_full) (use assms in \<open>auto simp: driver_ok_def\<close>)
  then show ?thesis by (simp add: to_merge_def)
qed

lemma normalize_ok [simp]: "driver_ok d \<Longrightarrow> driver_ok (normalize_cursor d)"
  by (auto simp: driver_ok_def normalize_cursor_def)

lemma to_merge_normalize: "driver_ok d \<Longrightarrow> to_merge L (normalize_cursor d) = to_merge L d"
proof (cases "dr_running d = []")
  case True
  assume "driver_ok d"
  with True have "dr_pending d = [] \<or> dr_cursor d = 0" by (auto simp: driver_ok_def)
  then show ?thesis
    using True by (auto simp: to_merge_def normalize_wrap wrap_def fill_def)
next
  case False
  assume ok: "driver_ok d"
  from ok have n: "driver_ok (normalize_cursor d)" by simp
  have "dr_running (normalize_cursor d) \<noteq> []" using False by simp
  from filled_running [OF n this, of L] filled_running [OF ok False, of L]
    round_robin_wrap [of "dr_max_active d" "map remaining (dr_running d)"]
  show ?thesis by (simp add: normalize_wrap)
qed

lemma normalize_delivers: "delivers L d [] (normalize_cursor d)"
proof -
  have "to_merge L (normalize_cursor d) = to_merge L d" if "driver_ok d" using that by (rule to_merge_normalize)
  moreover have "dr_strict (normalize_cursor d) = dr_strict d" "dr_seen (normalize_cursor d) = dr_seen d"
    "dr_max_active (normalize_cursor d) = dr_max_active d" by (simp_all add: normalize_cursor_def)
  ultimately show ?thesis by (simp add: delivers_def to_deliver_def)
qed

lemma round_robin_emit:
  "c < length qs \<Longrightarrow> qs ! c = e # es \<Longrightarrow>
   round_robin mx qs c ps = e # round_robin mx (qs[c := es]) ((c + 1) mod length qs) ps"
  by (subst round_robin.simps) (auto simp: wrap_def Let_def)

lemma round_robin_remove:
  "c < length qs \<Longrightarrow> qs ! c = [] \<Longrightarrow>
   round_robin mx qs c ps = (let filled = fill mx (remove_nth c qs) ps
     in round_robin mx (fst filled) (wrap (length (remove_nth c qs)) c) (snd filled))"
  by (subst round_robin.simps) (auto simp: wrap_def Let_def)

lemma take_event_frame [simp]:
  "dr_seen (take_event es d) = dr_seen d" "dr_strict (take_event es d) = dr_strict d"
  "dr_max_active (take_event es d) = dr_max_active d" "dr_pending (take_event es d) = dr_pending d"
  "dr_limits (take_event es d) = dr_limits d" "dr_cursor (take_event es d) = dr_cursor d"
  "dr_metrics (take_event es d) = dr_metrics d" "dr_stopping (take_event es d) = dr_stopping d"
  "length (dr_running (take_event es d)) = length (dr_running d)"
  "dr_running (take_event es d) = [] \<longleftrightarrow> dr_running d = []"
  by (simp_all add: take_event_def)

lemma take_event_remaining:
  "dr_cursor d < length (dr_running d) \<Longrightarrow> rs_queue (dr_running d ! dr_cursor d) = e # es \<Longrightarrow>
   map remaining (dr_running d) ! dr_cursor d = e # remaining (dr_running (take_event es d) ! dr_cursor d) \<and>
   map remaining (dr_running (take_event es d)) =
     (map remaining (dr_running d))[dr_cursor d := remaining (dr_running (take_event es d) ! dr_cursor d)]"
  by (simp add: take_event_def remaining_def map_update)

lemma take_event_merge:
  assumes "driver_ok d" "dr_cursor d < length (dr_running d)" "rs_queue (dr_running d ! dr_cursor d) = e # es"
  shows "driver_ok (advance_cursor (take_event es d)) \<and>
    to_merge L d = e # to_merge L (advance_cursor (take_event es d))"
proof -
  let ?d = "advance_cursor (take_event es d)"
  have ne: "dr_running d \<noteq> []" using assms(2) by auto
  have ok: "driver_ok ?d" using assms(1) ne by (auto simp: driver_ok_def advance_cursor_def)
  have run: "dr_running ?d = dr_running (take_event es d)" by (simp add: advance_cursor_def)
  have "to_merge L ?d = round_robin (dr_max_active d) (map remaining (dr_running (take_event es d)))
      ((dr_cursor d + 1) mod length (dr_running d)) (map (script L (dr_limits d)) (dr_pending d))"
    using filled_running [OF ok, of L] ne run by (simp add: advance_cursor_def)
  moreover have "to_merge L d = e # round_robin (dr_max_active d)
      (map remaining (dr_running (take_event es d)))
      ((dr_cursor d + 1) mod length (dr_running d)) (map (script L (dr_limits d)) (dr_pending d))"
    unfolding filled_running [OF assms(1) ne]
    using take_event_remaining [OF assms(2,3)] assms(2) by (subst round_robin_emit) auto
  ultimately show ?thesis using ok by simp
qed

lemma consume_delivers:
  assumes "dr_initial d = []" "dr_cursor d < length (dr_running d)"
    "rs_queue (dr_running d ! dr_cursor d) = e # es" "map_event e (take_event es d) = (ev, d')"
  shows "delivers L d (delivered_by ev) (advance_cursor d')"
  unfolding delivers_def
proof
  assume ok: "driver_ok d"
  let ?t = "advance_cursor (take_event es d)"
  from take_event_merge [OF ok assms(2,3), of L] have t: "driver_ok ?t" "to_merge L d = e # to_merge L ?t"
    by auto
  show "driver_ok (advance_cursor d') \<and> to_deliver L d = delivered_by ev @ to_deliver L (advance_cursor d')
      \<and> dr_max_active (advance_cursor d') = dr_max_active d"
  proof (cases e)
    case (W_Record s r)
    obtain new seen where i: "dedupe_insert (dr_seen d) r = (new, seen)" by (cases "dedupe_insert (dr_seen d) r")
    obtain m where d': "d' = (take_event es d)\<lparr>dr_seen := seen, dr_metrics := m\<rparr>"
        "ev = (if new then Some (Ev_Record r) else None)"
      using assms(4) W_Record i by (auto simp: Let_def split: if_splits)
    have a: "advance_cursor d' = ?t\<lparr>dr_seen := seen, dr_metrics := m\<rparr>"
      by (simp add: d'(1) advance_cursor_def)
    have "to_merge L (advance_cursor d') = to_merge L ?t" "driver_ok (advance_cursor d')"
      using t(1) unfolding a by (simp_all add: to_merge_def driver_ok_def)
    moreover have "dr_seen (advance_cursor d') = seen" "dr_strict (advance_cursor d') = dr_strict d"
      "dr_initial (advance_cursor d') = []" "dr_max_active (advance_cursor d') = dr_max_active d"
      by (simp_all add: d'(1) advance_cursor_def assms(1))
    ultimately show ?thesis
      using t(2) W_Record i d'(2) assms(1) by (simp add: to_deliver_def)
  next
    case (W_Failed g)
    show ?thesis
    proof (cases "dr_strict d")
      case True
      with assms(4) W_Failed have d': "d' = driver_stop (take_event es d)" "ev = Some (Ev_Failed g)" by auto
      have "driver_ok d'"
        unfolding d' by (rule stop_ok) (use ok assms(1) in \<open>auto simp: driver_ok_def\<close>)
      moreover have "advance_cursor d' = d'" by (simp add: d' advance_cursor_def)
      ultimately show ?thesis using t(2) W_Failed True d' assms(1) by (simp add: to_deliver_def)
    next
      case False
      with assms(4) W_Failed have d': "d' = take_event es d" "ev = Some (Ev_Failed g)" by auto
      have "dr_strict ?t = dr_strict d" "dr_seen ?t = dr_seen d" "dr_max_active ?t = dr_max_active d"
        by (simp_all add: advance_cursor_def)
      with t W_Failed False d' assms(1) show ?thesis by (simp add: to_deliver_def)
    qed
  qed
qed

lemma length_remove_nth_map: "length (remove_nth i (map f xs)) = length (remove_nth i xs)"
  by (simp add: remove_nth_def)

lemma map_remove_nth: "map f (remove_nth i xs) = remove_nth i (map f xs)"
  by (simp add: remove_nth_def take_map drop_map)

lemma remove_delivers:
  assumes "dr_initial d = []" "dr_cursor d < length (dr_running d)"
    "rs_queue (dr_running d ! dr_cursor d) = []" "rs_todo (dr_running d ! dr_cursor d) = None"
  shows "delivers L d [] (remove_current_source L d)"
  unfolding delivers_def
proof
  assume ok: "driver_ok d"
  let ?d = "normalize_cursor (d\<lparr>dr_running := remove_nth (dr_cursor d) (dr_running d)\<rparr>)"
  have ne: "dr_running d \<noteq> []" using assms(2) by auto
  have q: "map remaining (dr_running d) ! dr_cursor d = []"
    using assms(2-4) by (simp add: remaining_def)
  have "to_merge L d = to_merge L ?d"
    unfolding filled_running [OF ok ne]
    using q assms(2) by (subst round_robin_remove) (simp_all add: to_merge_def map_remove_nth normalize_wrap length_remove_nth_map)
  also have "\<dots> = to_merge L (remove_current_source L d)"
    by (simp add: remove_current_source_def to_merge_start)
  finally have m: "to_merge L d = to_merge L (remove_current_source L d)" .
  have "driver_ok (remove_current_source L d)"
    unfolding remove_current_source_def
    by (rule start_ready_ok)
      (use ok ne assms(2) in \<open>auto simp: driver_ok_def normalize_cursor_def length_remove_nth\<close>)
  moreover have "dr_strict (remove_current_source L d) = dr_strict d"
    "dr_seen (remove_current_source L d) = dr_seen d"
    "dr_max_active (remove_current_source L d) = dr_max_active d"
    by (simp_all add: remove_current_source_def normalize_cursor_def)
  ultimately show "driver_ok (remove_current_source L d) \<and>
      to_deliver L d = [] @ to_deliver L (remove_current_source L d) \<and>
      dr_max_active (remove_current_source L d) = dr_max_active d"
    using m assms(1) by (simp add: to_deliver_def)
qed

interpretation delivery: driver_steps L "delivers L" for L
proof (unfold_locales, goal_cases)
  case (1 d)
  then show ?case by (simp add: delivers_def)
next
  case (2 d1 xs d2 ys d3)
  then show ?case by (simp add: delivers_def)
next
  case (3 d)
  then show ?case by (rule start_delivers)
next
  case (4 d ks p rs m)
  from 4(2) show ?case by (rule works_delivers)
next
  case (5 d e es ev d')
  then show ?case by (rule initial_delivers)
next
  case (6 d)
  then show ?case by (rule normalize_delivers)
next
  case (7 d e es ev d')
  then show ?case by (rule consume_delivers)
next
  case (8 d)
  then show ?case by (rule remove_delivers)
qed

lemma poll_next_none: "poll_next L sched d = (Ready_None, d') \<Longrightarrow> is_complete d'"
proof (induction sched arbitrary: d)
  case Nil
  then show ?case by (auto split: prod.splits option.splits if_splits)
next
  case (Cons ks sched)
  from Cons.prems show ?case
    by (auto simp: Let_def split: prod.splits option.splits if_splits intro: Cons.IH)
qed

lemma drive_over: "drive L scheds d = (evs, d', True) \<Longrightarrow> is_complete d'"
proof (induction scheds arbitrary: d evs)
  case Nil
  then show ?case by simp
next
  case (Cons sched scheds)
  obtain p d1 where p: "poll_next L sched d = (p, d1)" by (cases "poll_next L sched d")
  with Cons show ?case by (cases p) (auto dest: poll_next_none split: prod.splits)
qed

lemma complete_delivers: "is_complete d \<Longrightarrow> to_deliver L d = []"
  by (simp add: is_complete_def to_deliver_def to_merge_def fill_def)

lemma driver_new_ok: "driver_ok (driver_new sources plan lim m)"
  by (auto simp: driver_ok_def driver_new_def split: prod.splits)

lemma driver_new_delivers:
  "to_deliver L (driver_new sources plan lim m) = stream_spec L lim sources plan"
  by (auto simp: to_deliver_def driver_new_def stream_spec_def to_merge_def merged_def comp_def
      split: prod.splits)

section \<open>The work still to be done\<close>

fun step_work :: "worker_step \<Rightarrow> nat" where
  "step_work (Step_Send e) = 2"
| "step_work _ = 1"

definition steps_work :: "worker_step list \<Rightarrow> nat" where
  "steps_work ss = sum_list (map step_work ss)"

definition source_work :: "running_source \<Rightarrow> nat" where
  "source_work r = 1 + length (rs_queue r) + (case rs_todo r of None \<Rightarrow> 0 | Some ss \<Rightarrow> 1 + steps_work ss)"

definition planned_work :: "libs \<Rightarrow> engine_limits \<Rightarrow> planned_source \<Rightarrow> nat" where
  "planned_work L lim p = 2 + steps_work (run_source_operation L lim p)"

definition work :: "libs \<Rightarrow> driver \<Rightarrow> nat" where
  "work L d = length (dr_initial d) + sum_list (map source_work (dr_running d)) +
     sum_list (map (planned_work L (dr_limits d)) (dr_pending d))"

definition works_off :: "libs \<Rightarrow> driver \<Rightarrow> engine_event list \<Rightarrow> driver \<Rightarrow> bool" where
  "works_off L d evs d' \<longleftrightarrow> work L d' + length evs \<le> work L d"

lemma source_work_spawn [simp]: "source_work (spawn L lim p) = planned_work L lim p"
  by (simp add: source_work_def spawn_def planned_work_def)

lemma start_work: "work L (start_ready_sources L d) = work L d"
proof (cases "dr_stopping d")
  case True
  then show ?thesis by (simp add: start_ready_sources_def)
next
  case False
  have "sum_list (map f (take n ps)) + sum_list (map f (drop n ps)) = (sum_list (map f ps) :: nat)" for f n and ps :: "'z list"
    by (metis append_take_drop_id map_append sum_list.append)
  with False show ?thesis by (simp add: work_def start_ready_fill comp_def)
qed

lemma stop_work: "work L (driver_stop d) \<le> work L d"
  by (simp add: work_def driver_stop_def)

lemma map_event_work: "map_event e d = (ev, d') \<Longrightarrow> work L d' \<le> work L d"
  using stop_work [of L d]
  by (cases e) (auto simp: Let_def work_def split: prod.splits if_splits)

lemma do_step_work:
  "do_step s (r\<lparr>rs_todo := Some ss\<rparr>) m = (r', m') \<Longrightarrow> rs_todo r = Some (s # ss) \<Longrightarrow> source_work r' < source_work r"
  by (cases s) (auto simp: source_work_def steps_work_def split: prod.splits)

lemma poll_future_work:
  "poll_future n r m = (b, r', m') \<Longrightarrow>
   source_work r' \<le> source_work r \<and> (0 < n \<longrightarrow> rs_todo r \<noteq> None \<longrightarrow> source_work r' < source_work r)"
proof (induction n r m rule: poll_future.induct)
  case (2 n r m)
  show ?case
  proof (cases "rs_todo r")
    case (Some ss)
    show ?thesis
    proof (cases ss)
      case (Cons x xs)
      obtain r1 m1 where st: "do_step x (r\<lparr>rs_todo := Some xs\<rparr>) m = (r1, m1)"
        by (cases "do_step x (r\<lparr>rs_todo := Some xs\<rparr>) m")
      with 2 Some Cons do_step_work [OF st] show ?thesis by fastforce
    qed (use 2 Some in \<open>auto simp: source_work_def steps_work_def\<close>)
  qed (use 2 in auto)
qed auto

lemma poll_workers_work:
  "poll_workers ks rs m = (b, rs', m') \<Longrightarrow>
   sum_list (map source_work rs') \<le> sum_list (map source_work rs) \<and>
   (length rs \<le> length ks \<longrightarrow> (\<forall>k \<in> set ks. 0 < k) \<longrightarrow> (\<exists>r \<in> set rs. rs_todo r \<noteq> None) \<longrightarrow>
      sum_list (map source_work rs') < sum_list (map source_work rs))"
proof (induction ks rs m arbitrary: b rs' m' rule: poll_workers.induct)
  case (2 ks r rs m)
  let ?k = "case ks of [] \<Rightarrow> 0 | k # _ \<Rightarrow> k"
  obtain b1 r1 m1 where f: "poll_future ?k r m = (b1, r1, m1)" by (cases "poll_future ?k r m")
  obtain b2 rs2 m2 where w: "poll_workers (tl ks) rs m1 = (b2, rs2, m2)" by (cases "poll_workers (tl ks) rs m1")
  have rs': "rs' = r1 # rs2" using 2(2) f w by auto
  from 2(1) [OF f [symmetric] refl w]
  have ih: "sum_list (map source_work rs2) \<le> sum_list (map source_work rs)"
    "length rs \<le> length (tl ks) \<longrightarrow> (\<forall>k \<in> set (tl ks). 0 < k) \<longrightarrow> (\<exists>r \<in> set rs. rs_todo r \<noteq> None) \<longrightarrow>
      sum_list (map source_work rs2) < sum_list (map source_work rs)" by auto
  have h: "source_work r1 \<le> source_work r" "0 < ?k \<longrightarrow> rs_todo r \<noteq> None \<longrightarrow> source_work r1 < source_work r"
    using poll_future_work [OF f] by auto
  show ?case
  proof (intro conjI impI)
    show "sum_list (map source_work rs') \<le> sum_list (map source_work (r # rs))"
      using ih(1) h(1) by (simp add: rs')
    assume len: "length (r # rs) \<le> length ks" and pos: "\<forall>k \<in> set ks. 0 < k"
      and ex: "\<exists>q \<in> set (r # rs). rs_todo q \<noteq> None"
    from len obtain k ks' where ks: "ks = k # ks'" by (cases ks) auto
    show "sum_list (map source_work rs') < sum_list (map source_work (r # rs))"
    proof (cases "rs_todo r = None")
      case True
      with ex len pos ih(2) h(1) show ?thesis by (simp add: rs' ks)
    next
      case False
      with pos ih(1) h(2) show ?thesis by (simp add: rs' ks)
    qed
  qed
qed simp

lemma source_work_pos: "0 < source_work r"
  by (simp add: source_work_def)

lemma advance_work [simp]: "work L (advance_cursor d) = work L d"
  by (simp add: work_def advance_cursor_def)

lemma normalize_work [simp]: "work L (normalize_cursor d) = work L d"
  by (simp add: work_def normalize_cursor_def)

lemma take_event_work:
  assumes "dr_cursor d < length (dr_running d)" "rs_queue (dr_running d ! dr_cursor d) = e # es"
  shows "work L (take_event es d) < work L d"
proof -
  have "sum_list (map source_work (dr_running (take_event es d))) < sum_list (map source_work (dr_running d))"
    unfolding take_event_def using assms by (simp add: sum_list_update_less source_work_def)
  then show ?thesis by (simp add: work_def take_event_def)
qed

lemma remove_work:
  assumes "dr_cursor d < length (dr_running d)"
  shows "work L (remove_current_source L d) < work L d"
proof -
  have "sum_list (map source_work (remove_nth (dr_cursor d) (dr_running d))) <
      sum_list (map source_work (dr_running d))"
    using sum_list_remove_nth [OF assms, of source_work] source_work_pos by simp
  then show ?thesis
    by (simp add: remove_current_source_def start_work) (simp add: work_def)
qed

interpretation progress: driver_steps L "works_off L" for L
proof (unfold_locales, goal_cases)
  case (1 d)
  then show ?case by (simp add: works_off_def)
next
  case (2 d1 xs d2 ys d3)
  then show ?case by (simp add: works_off_def)
next
  case (3 d)
  then show ?case by (simp add: works_off_def start_work)
next
  case (4 d ks p rs m)
  with poll_workers_work [OF 4(2)] show ?case by (simp add: works_off_def work_def)
next
  case (5 d e es ev d')
  from map_event_work [OF 5(2), of L] 5(1) have "work L d' < work L d" by (simp add: work_def)
  then show ?case by (cases ev) (auto simp: works_off_def)
next
  case (6 d)
  then show ?case by (simp add: works_off_def)
next
  case (7 d e es ev d')
  from map_event_work [OF 7(4), of L] take_event_work [OF 7(2,3), of L] show ?case
    by (cases ev) (auto simp: works_off_def)
next
  case (8 d)
  from remove_work [OF 8(2), of L] show ?case by (simp add: works_off_def)
qed

definition fair :: "nat \<Rightarrow> nat list list \<Rightarrow> bool" where
  "fair n sched \<longleftrightarrow> (case sched of [] \<Rightarrow> False | ks # _ \<Rightarrow> n \<le> length ks \<and> list_all (\<lambda>k. 0 < k) ks)"

lemma poll_ordered_idle:
  assumes "dr_initial d = []" "dr_running d \<noteq> []" "\<forall>r \<in> set (dr_running d). rs_todo r = None"
    and "poll_ordered_source_event L d = (None, d')"
  shows "work L d' < work L d"
proof -
  obtain sp d1 where c: "poll_current_source L d = (sp, d1)" by (cases "poll_current_source L d")
  have ord: "case sp of SP_Event e \<Rightarrow> False | SP_Advanced \<Rightarrow> poll_ordered_source_event L d1 = (None, d') | SP_Pending \<Rightarrow> d' = d1"
    using assms(2,4) c by (cases sp) (auto simp: poll_ordered_source_event.simps [of L d])
  have i: "dr_initial d1 = []" using delivery.current [OF assms(1,2) c] by blast
  have less: "work L d1 < work L d \<and> sp = SP_Advanced"
    using assms(2) c
  proof (cases rule: poll_current_cases)
    case (1 e es ev d2)
    from ord 1(5) have "ev = None" by (cases ev) auto
    moreover have "work L d1 < work L d"
      using take_event_work [of "normalize_cursor d" e es L] map_event_work [OF 1(3), of L] 1(1,2,4) by simp
    ultimately show ?thesis using 1(5) by simp
  next
    case 2
    with remove_work [of "normalize_cursor d" L] show ?thesis by simp
  next
    case 3
    have "dr_cursor (normalize_cursor d) < length (dr_running d)" using assms(2) by (rule normalize_less)
    with 3 assms(3) show ?thesis by auto
  qed
  with ord have "poll_ordered_source_event L d1 = (None, d')" by simp
  from progress.ordered [OF i this] less show ?thesis by (simp add: works_off_def)
qed

lemma poll_future_idle: "rs_todo r = None \<Longrightarrow> poll_future k r m = (False, r, m)"
  by (cases k) auto

lemma poll_workers_idle: "\<forall>r \<in> set rs. rs_todo r = None \<Longrightarrow> poll_workers ks rs m = (False, rs, m)"
  by (induction rs arbitrary: ks) (simp_all add: poll_future_idle)

lemma pending_progress:
  assumes ok: "driver_ok d" and fair: "fair (dr_max_active d) (ks # sched)"
    and p: "poll_next L (ks # sched) d = (Poll_Pending, d')"
  shows "work L d' < work L d"
proof -
  obtain ev1 d1 where a: "poll_available_event L d = (ev1, d1)" by (cases "poll_available_event L d")
  have ev1: "ev1 = None" using p a by (cases ev1) auto
  have d1: "driver_ok d1" "work L d1 \<le> work L d" "dr_initial d1 = []" "dr_max_active d1 = dr_max_active d"
    using delivery.available [OF a] progress.available [OF a] ok ev1
    by (auto simp: delivers_def works_off_def)
  let ?d2 = "start_ready_sources L d1"
  have d2: "driver_ok ?d2" "work L ?d2 = work L d1" "dr_initial ?d2 = []"
    using start_delivers [of L d1] d1 by (auto simp: delivers_def start_work)
  obtain progressed rs m where w: "poll_workers ks (dr_running ?d2) (dr_metrics ?d2) = (progressed, rs, m)"
    by (cases "poll_workers ks (dr_running ?d2) (dr_metrics ?d2)")
  let ?d3 = "?d2\<lparr>dr_running := rs, dr_metrics := m\<rparr>"
  obtain ev2 d4 where b: "poll_available_event L ?d3 = (ev2, d4)" by (cases "poll_available_event L ?d3")
  have ev2: "ev2 = None" using p a b ev1 w by (cases ev2) (auto simp: Let_def)
  have d4: "work L d4 \<le> work L ?d3" using progress.available [OF b] ev2 by (simp add: works_off_def)
  have rest: "work L d' \<le> work L d4"
  proof (cases progressed)
    case True
    then have "poll_next L sched d4 = (Poll_Pending, d')" using p a b ev1 ev2 w by (simp add: Let_def)
    from progress.polls [OF this] show ?thesis by (simp add: works_off_def)
  next
    case False
    then have "d' = d4" using p a b ev1 ev2 w by (simp add: Let_def split: if_splits)
    then show ?thesis by simp
  qed
  have d3: "work L ?d3 \<le> work L ?d2" using poll_workers_work [OF w] by (simp add: work_def)
  show ?thesis
  proof (cases "\<exists>r \<in> set (dr_running ?d2). rs_todo r \<noteq> None")
    case True
    have "length (dr_running ?d2) \<le> length ks" "\<forall>k \<in> set ks. 0 < k"
      using fair d2(1) d1(4) by (auto simp: fair_def driver_ok_def list_all_iff)
    with poll_workers_work [OF w] True have "work L ?d3 < work L ?d2" by (simp add: work_def)
    with d4 rest d1(2) d2(2) show ?thesis by simp
  next
    case False
    then have idle: "progressed = False" "rs = dr_running ?d2" "m = dr_metrics ?d2"
      using poll_workers_idle [of "dr_running ?d2" ks "dr_metrics ?d2"] w by auto
    then have eq: "?d3 = ?d2" by simp
    have ord: "poll_ordered_source_event L ?d2 = (None, d4)"
      using b ev2 d2(3) eq
      by (auto simp: poll_available_event_def next_initial_event.simps [of ?d2] split: option.splits prod.splits)
    show ?thesis
    proof (cases "dr_running ?d2 = []")
      case True
      have pend: "dr_pending ?d2 = []"
      proof (cases "dr_stopping d1")
        case True
        then show ?thesis using d1(1) by (simp add: start_ready_sources_def driver_ok_def)
      next
        case nstop: False
        have "1 \<le> dr_max_active d1" using d1(1) by (simp add: driver_ok_def)
        with True nstop show ?thesis by (auto simp: start_ready_fill)
      qed
      from ord True have d4': "d4 = ?d2"
        by (simp add: poll_ordered_source_event.simps [of L ?d2])
      have "is_complete d4" unfolding d4' is_complete_def using True pend d2(3) by blast
      with idle(1) have "poll_next L (ks # sched) d = (Ready_None, d4)"
        using a b ev1 ev2 w by (simp add: Let_def)
      with p show ?thesis by simp
    next
      case ne: False
      have "work L d4 < work L ?d2"
        by (rule poll_ordered_idle [OF d2(3) ne _ ord]) (use False in auto)
      with rest d1(2) d2(2) show ?thesis by simp
    qed
  qed
qed

lemma drive_ends:
  assumes "driver_ok d" "list_all (fair (dr_max_active d)) scheds" "work L d < length scheds"
  shows "\<exists>evs d'. drive L scheds d = (evs, d', True)"
  using assms
proof (induction scheds arbitrary: d)
  case Nil
  then show ?case by simp
next
  case (Cons sched scheds)
  obtain p d1 where p: "poll_next L sched d = (p, d1)" by (cases "poll_next L sched d")
  have d1: "driver_ok d1" "dr_max_active d1 = dr_max_active d"
    using delivery.polls [OF p] Cons.prems(1) by (auto simp: delivers_def)
  show ?case
  proof (cases p)
    case (Ready_Some ev)
    have "work L d1 < work L d" using progress.polls [OF p] Ready_Some by (simp add: works_off_def)
    with Cons.IH [of d1] Cons.prems d1 obtain evs d' where "drive L scheds d1 = (evs, d', True)" by auto
    with p Ready_Some show ?thesis by simp
  next
    case Ready_None
    with p show ?thesis by simp
  next
    case Poll_Pending
    obtain ks rest where "sched = ks # rest" using Cons.prems(2) by (cases sched) (auto simp: fair_def)
    with Cons.prems p Poll_Pending pending_progress [of d ks rest L d1] have "work L d1 < work L d" by simp
    with Cons.IH [of d1] Cons.prems d1 obtain evs d' where "drive L scheds d1 = (evs, d', True)" by auto
    with p Poll_Pending show ?thesis by simp
  qed
qed

text \<open>C1: whatever the schedule of the sources' tasks, what a consumer of a new stream has received
  is a prefix of \<open>stream_spec\<close>, the round robin of the complete scripts without polling, and all of
  it when the stream has ended; the driver never runs more than \<open>max_active_sources\<close> sources (at
  least one) at once.\<close>

theorem stream_schedule_independent:
  "case drive L scheds (driver_new sources plan lim m) of (evs, d, over) \<Rightarrow>
     (if over then evs = stream_spec L lim sources plan
      else \<exists>later. stream_spec L lim sources plan = evs @ later) \<and>
     length (dr_running d) \<le> max 1 (max_active_sources lim)"
proof -
  let ?d0 = "driver_new sources plan lim m"
  obtain evs d over where r: "drive L scheds ?d0 = (evs, d, over)" by (cases "drive L scheds ?d0")
  have mx: "dr_max_active ?d0 = max 1 (max_active_sources lim)"
    by (simp add: driver_new_def split: prod.splits)
  have ok: "driver_ok d" "stream_spec L lim sources plan = evs @ to_deliver L d"
      "dr_max_active d = max 1 (max_active_sources lim)"
    using delivery.drives [OF r] driver_new_ok [of sources plan lim m] mx
    by (simp_all add: delivers_def driver_new_delivers)
  have "over \<Longrightarrow> to_deliver L d = []" using drive_over [of L scheds ?d0 evs d] r complete_delivers by auto
  with ok show ?thesis unfolding r driver_ok_def by auto
qed

text \<open>C2: the stream ends: when every call of \<open>poll_next\<close> lets each running task take at least one
  step, polling more often than there is work (each diagnostic and, per planned source, two and the
  steps of its task, a send counting twice) ends the stream, having delivered all of
  \<open>stream_spec\<close>.\<close>

theorem stream_ends:
  assumes "plan_sources sources plan = (pending, diagnostics, strict)"
    and "list_all (fair (max 1 (max_active_sources lim))) scheds"
    and "length diagnostics + sum_list (map (planned_work L lim) pending) < length scheds"
  shows "\<exists>d. drive L scheds (driver_new sources plan lim m) = (stream_spec L lim sources plan, d, True)"
proof -
  let ?d0 = "driver_new sources plan lim m"
  have "dr_max_active ?d0 = max 1 (max_active_sources lim)" "work L ?d0 < length scheds"
    using assms(1,3) by (simp_all add: driver_new_def work_def)
  with drive_ends [OF driver_new_ok, of sources plan lim m scheds L] assms(2)
  obtain evs d where r: "drive L scheds ?d0 = (evs, d, True)" by auto
  from delivery.drives [OF r] driver_new_ok [of sources plan lim m] complete_delivers [OF drive_over [OF r]]
  have "evs = stream_spec L lim sources plan" by (simp add: delivers_def driver_new_delivers)
  with r show ?thesis by auto
qed

definition example_plan :: stream_plan where
  "example_plan = Plan_Follow (Target_Native (Source_Id ''web'') ''a'')"

definition example_sources :: "catalog_source list" where
  "example_sources = [example_tool [Chunk (record_to_json (example_record ''web'' ''a'' ''https://x''))]
     (Tool_Error ''RATE_LIMIT'' ''slow down'')]"

theorem stream_ends_witness:
  "\<exists>d. drive example_libs (replicate 12 [[3, 3, 3, 3]]) (driver_new example_sources example_plan default_limits []) =
    (stream_spec example_libs default_limits example_sources example_plan, d, True)
   \<and> map to_event (sends (run_source_operation example_libs default_limits
        (planned_follow (hd example_sources) (Target_Native (Source_Id ''web'') ''a'')))) =
     stream_spec example_libs default_limits example_sources example_plan"
proof -
  let ?p = "planned_follow (hd example_sources) (Target_Native (Source_Id ''web'') ''a'')"
  have plan: "plan_sources example_sources example_plan = ([?p], [], False)"
    by (simp add: example_plan_def example_sources_def plan_follow_def Let_def example_tool_def
        sources_by_id_def bt_collect_def descriptor_new_def)
  have run: "map step_work (run_source_operation example_libs default_limits ?p) = [1, 2, 1, 2]"
    by code_simp
  have spec: "map to_event (sends (run_source_operation example_libs default_limits ?p)) =
      stream_spec example_libs default_limits example_sources example_plan"
    by code_simp
  have f: "list_all (fair (max 1 (max_active_sources default_limits))) (replicate 12 [[3, 3, 3, 3]])"
    by (simp add: list_all_iff fair_def default_limits_def)
  have w: "length ([] :: diagnostic list) + sum_list (map (planned_work example_libs default_limits) [?p])
      < length (replicate 12 [[3, 3, 3, 3 :: nat]])"
    by (simp add: planned_work_def steps_work_def run)
  from stream_ends [OF plan f w] spec show ?thesis by blast
qed

end
