(* ===== verification/Engine_Outcome.thy ===== *)
theory Engine_Outcome
  imports Engine_Stream "HOL-Library.Multiset"
begin

text \<open>
  What \<open>stream_spec\<close>, and so every stream, contains: no record of a source is lost or repeated, no
  failure is lost, a strict stream ends with its first failure, and the metrics of the operations it
  ran are closed. \<open>collect_events\<close> is the consumer of \<open>catalog.rs\<close>.
\<close>

section \<open>Round robin keeps everything\<close>

lemma mset_remove_nth: "c < length qs \<Longrightarrow> mset qs = add_mset (qs ! c) (mset (remove_nth c qs))"
  unfolding remove_nth_def by (subst id_take_nth_drop [of c qs]) simp_all

lemma mset_fill: "mset (fst (fill mx qs ps)) + mset (snd (fill mx qs ps)) = mset qs + mset ps"
  by (simp add: fill_def) (metis add.assoc append_take_drop_id mset_append)

lemma fill_occupied: "1 \<le> mx \<Longrightarrow> fst (fill mx qs ps) = [] \<Longrightarrow> snd (fill mx qs ps) = []"
  by (auto simp: fill_def)

definition pooled :: "'a list list \<Rightarrow> 'a multiset" where
  "pooled qs = sum_mset (image_mset mset (mset qs))"

lemma pooled_concat: "pooled qs = mset (concat qs)"
  by (induction qs) (simp_all add: pooled_def)

lemma pooled_cong: "mset qs = mset qs' \<Longrightarrow> pooled qs = pooled qs'"
  by (simp add: pooled_def)

lemma round_robin_mset:
  "1 \<le> mx \<Longrightarrow> (qs = [] \<longrightarrow> ps = []) \<Longrightarrow> mset (round_robin mx qs c ps) = pooled (qs @ ps)"
proof (induction mx qs c ps rule: round_robin.induct)
  case (1 mx qs c ps)
  show ?case
  proof (cases "qs = []")
    case True
    with 1 show ?thesis by (simp add: pooled_def)
  next
    case False
    let ?c = "wrap (length qs) c"
    have c: "?c < length qs" using False by (simp add: wrap_less)
    show ?thesis
    proof (cases "qs ! ?c")
      case Nil
      let ?f = "fill mx (remove_nth ?c qs) ps"
      have "mset (round_robin mx qs c ps) =
          mset (round_robin mx (fst ?f) (wrap (length (remove_nth ?c qs)) ?c) (snd ?f))"
        using False Nil by (subst round_robin.simps) (simp add: Let_def)
      also have "\<dots> = pooled (fst ?f @ snd ?f)"
        using 1(1) [OF False refl Nil refl refl refl] 1(3) fill_occupied [OF 1(3)] by blast
      also have "\<dots> = pooled (remove_nth ?c qs @ ps)" by (rule pooled_cong) (simp add: mset_fill)
      also have "\<dots> = pooled (([] # remove_nth ?c qs) @ ps)" by (simp add: pooled_def)
      also have "\<dots> = pooled (qs @ ps)"
        by (rule pooled_cong) (simp add: mset_remove_nth [OF c] Nil)
      finally show ?thesis .
    next
      case (Cons e es)
      have "mset (round_robin mx qs c ps) =
          add_mset e (mset (round_robin mx (qs[?c := es]) ((?c + 1) mod length qs) ps))"
        using False Cons by (subst round_robin.simps) (simp add: Let_def)
      also have "\<dots> = add_mset e (pooled (qs[?c := es] @ ps))"
        using 1(2) [OF False refl Cons] 1(3) False by simp
      also have "\<dots> = pooled (((e # es) # remove_nth ?c qs) @ ps)"
      proof -
        have "mset (qs[?c := es]) = add_mset es (mset (remove_nth ?c qs))"
          using c by (simp add: upd_conv_take_nth_drop remove_nth_def)
        then have "pooled (qs[?c := es] @ ps) = pooled ((es # remove_nth ?c qs) @ ps)"
          by (intro pooled_cong) simp
        then show ?thesis by (simp add: pooled_def)
      qed
      also have "\<dots> = pooled (qs @ ps)"
        by (rule pooled_cong) (simp add: mset_remove_nth [OF c] Cons)
      finally show ?thesis .
    qed
  qed
qed

lemma merged_mset: "1 \<le> mx \<Longrightarrow> mset (merged mx scripts) = mset (concat scripts)"
proof -
  assume mx: "1 \<le> mx"
  have "mset (merged mx scripts) = pooled (fst (fill mx [] scripts) @ snd (fill mx [] scripts))"
    unfolding merged_def Let_def using mx fill_occupied [OF mx] by (intro round_robin_mset) blast+
  also have "\<dots> = pooled scripts" by (rule pooled_cong) (simp add: mset_fill)
  finally show ?thesis by (simp add: pooled_concat)
qed

lemma set_remove_nth: "q \<in> set qs \<Longrightarrow> c < length qs \<Longrightarrow> q = qs ! c \<or> q \<in> set (remove_nth c qs)"
  using mset_remove_nth [of c qs] by (metis insert_iff set_mset_add_mset_insert set_mset_mset)

lemma round_robin_order:
  "1 \<le> mx \<Longrightarrow> (qs = [] \<longrightarrow> ps = []) \<Longrightarrow> q \<in> set qs \<union> set ps \<Longrightarrow> subseq q (round_robin mx qs c ps)"
proof (induction mx qs c ps arbitrary: q rule: round_robin.induct)
  case (1 mx qs c ps)
  show ?case
  proof (cases "qs = []")
    case True
    with 1 show ?thesis by simp
  next
    case False
    let ?c = "wrap (length qs) c"
    have c: "?c < length qs" using False by (simp add: wrap_less)
    show ?thesis
    proof (cases "qs ! ?c")
      case Nil
      let ?f = "fill mx (remove_nth ?c qs) ps"
      have rr: "round_robin mx qs c ps = round_robin mx (fst ?f) (wrap (length (remove_nth ?c qs)) ?c) (snd ?f)"
        using False Nil by (subst round_robin.simps) (simp add: Let_def)
      show ?thesis
      proof (cases "q = []")
        case False
        have "q \<in> set (remove_nth ?c qs) \<union> set ps"
          using 1(5) set_remove_nth [OF _ c] Nil False by auto
        then have "q \<in># mset (fst ?f) + mset (snd ?f)" unfolding mset_fill by simp
        then show ?thesis
          unfolding rr using 1(1) [OF \<open>qs \<noteq> []\<close> refl Nil refl refl refl] 1(3) fill_occupied [OF 1(3)]
          by auto
      qed simp
    next
      case (Cons e es)
      let ?rr = "round_robin mx (qs[?c := es]) ((?c + 1) mod length qs) ps"
      have rr: "round_robin mx qs c ps = e # ?rr"
        using False Cons by (subst round_robin.simps) (simp add: Let_def)
      have ih: "subseq p ?rr" if "p \<in> set (qs[?c := es]) \<union> set ps" for p
        using 1(2) [OF False refl Cons] 1(3) False that by simp
      show ?thesis
      proof (cases "q \<in> set (qs[?c := es]) \<union> set ps")
        case True
        with ih show ?thesis unfolding rr by (simp add: list_emb_Cons)
      next
        case new: False
        have "q = qs ! ?c"
        proof (rule ccontr)
          assume "q \<noteq> qs ! ?c"
          with 1(5) new obtain i where i: "i < length qs" "qs ! i = q" "i \<noteq> ?c"
            by (auto simp: in_set_conv_nth)
          then have "qs[?c := es] ! i = q" by simp
          with i(1) have "q \<in> set (qs[?c := es])" by (metis length_list_update nth_mem)
          with new show False by simp
        qed
        moreover have "es \<in> set (qs[?c := es])" using c by (simp add: set_update_memI)
        ultimately show ?thesis unfolding rr using ih [of es] Cons by simp
      qed
    qed
  qed
qed

lemma merged_order: "1 \<le> mx \<Longrightarrow> q \<in> set scripts \<Longrightarrow> subseq q (merged mx scripts)"
proof -
  assume mx: "1 \<le> mx" and q: "q \<in> set scripts"
  from q have "q \<in># mset (fst (fill mx [] scripts)) + mset (snd (fill mx [] scripts))"
    unfolding mset_fill by simp
  then show ?thesis
    unfolding merged_def Let_def using mx fill_occupied [OF mx] by (intro round_robin_order) auto
qed

section \<open>What is delivered\<close>

fun event_records :: "engine_event list \<Rightarrow> comsat_record list" where
  "event_records [] = []"
| "event_records (Ev_Record r # es) = r # event_records es"
| "event_records (Ev_Failed g # es) = event_records es"

fun event_failures :: "engine_event list \<Rightarrow> diagnostic list" where
  "event_failures [] = []"
| "event_failures (Ev_Record r # es) = event_failures es"
| "event_failures (Ev_Failed g # es) = g # event_failures es"

fun script_records :: "worker_event list \<Rightarrow> comsat_record list" where
  "script_records [] = []"
| "script_records (W_Record s r # es) = r # script_records es"
| "script_records (W_Failed g # es) = script_records es"

fun script_failures :: "worker_event list \<Rightarrow> diagnostic list" where
  "script_failures [] = []"
| "script_failures (W_Record s r # es) = script_failures es"
| "script_failures (W_Failed g # es) = g # script_failures es"

text \<open>\<open>collect_search\<close> and \<open>collect_follow\<close> push each event of the stream to one of two lists.\<close>

fun collect_events ::
  "engine_event list \<Rightarrow> comsat_record list \<times> diagnostic list \<Rightarrow> comsat_record list \<times> diagnostic list" where
  "collect_events [] out = out"
| "collect_events (Ev_Record r # es) (rs, ds) = collect_events es (rs @ [r], ds)"
| "collect_events (Ev_Failed g # es) (rs, ds) = collect_events es (rs, ds @ [g])"

lemma collect_events_eq:
  "collect_events evs (rs, ds) = (rs @ event_records evs, ds @ event_failures evs)"
  by (induction evs "(rs, ds)" arbitrary: rs ds rule: collect_events.induct) auto

lemma event_append [simp]:
  "event_records (a @ b) = event_records a @ event_records b"
  "event_failures (a @ b) = event_failures a @ event_failures b"
  by (induction a rule: event_records.induct) auto

lemma event_failed [simp]:
  "event_records (map Ev_Failed ds) = []" "event_failures (map Ev_Failed ds) = ds"
  by (induction ds) auto

lemma delivered_records: "event_records (delivered False seen es) = dedupe.kept seen (script_records es)"
  by (induction False seen es rule: delivered.induct) (auto split: prod.splits)

lemma delivered_failures: "event_failures (delivered False seen es) = script_failures es"
  by (induction False seen es rule: delivered.induct) (auto split: prod.splits)

lemma script_records_set: "set (script_records es) = {r. \<exists>s. W_Record s r \<in> set es}"
  by (induction es rule: script_records.induct) auto

lemma script_failures_mset: "mset (script_failures es) = image_mset (\<lambda>e. case e of W_Failed g \<Rightarrow> g | W_Record s r \<Rightarrow> undefined)
    (filter_mset (\<lambda>e. \<exists>g. e = W_Failed g) (mset es))"
  by (induction es rule: script_failures.induct) auto

lemma script_failures_append: "script_failures (a @ b) = script_failures a @ script_failures b"
  by (induction a rule: script_failures.induct) auto

lemma delivered_strict_prefix:
  "delivered True seen es = xs @ Ev_Failed g # ys \<Longrightarrow> ys = [] \<and> event_failures xs = []"
proof (induction True seen es arbitrary: xs rule: delivered.induct)
  case (1 seen)
  then show ?case by simp
next
  case (2 seen s r es)
  obtain new seen' where i: "dedupe_insert seen r = (new, seen')" by (cases "dedupe_insert seen r")
  show ?case
  proof (cases new)
    case True
    with 2(3) i obtain xs' where "xs = Ev_Record r # xs'" "delivered True seen' es = xs' @ Ev_Failed g # ys"
      by (cases xs) auto
    with 2(1) [OF i [symmetric] True] show ?thesis by auto
  next
    case False
    with 2(2) [OF i [symmetric] False] 2(3) i show ?thesis by simp
  qed
next
  case (3 seen g' es)
  then show ?case by (cases xs) auto
qed

text \<open>C3: a search or follow stream without strictness loses nothing: the failures it delivers are
  the diagnostics of the plan and those of every planned source, each exactly once; no two records
  it delivers share a deduplication key; and every record of every planned source is delivered or
  shares a key with one that is.\<close>

theorem stream_loses_nothing:
  assumes "plan_sources sources plan = (pending, diagnostics, False)"
  shows "let evs = stream_spec L lim sources plan; scripts = map (script L lim) pending
    in mset (event_failures evs) = mset diagnostics + mset (concat (map script_failures scripts))
     \<and> sorted_wrt (\<lambda>a b. set (dedupe_keys a) \<inter> set (dedupe_keys b) = {}) (event_records evs)
     \<and> set (event_records evs) \<subseteq> set (concat (map script_records scripts))
     \<and> (\<forall>r \<in> set (concat (map script_records scripts)).
          \<exists>s \<in> set (event_records evs). set (dedupe_keys r) \<inter> set (dedupe_keys s) \<noteq> {})"
proof -
  let ?scripts = "map (script L lim) pending"
  let ?m = "merged (max 1 (max_active_sources lim)) ?scripts"
  have mx: "1 \<le> max 1 (max_active_sources lim)" by simp
  have spec: "stream_spec L lim sources plan = map Ev_Failed diagnostics @ delivered False {} ?m"
    using assms by (simp add: stream_spec_def)
  have m: "mset ?m = mset (concat ?scripts)" using mx by (rule merged_mset)
  have "script_failures (concat scs) = concat (map script_failures scs)" for scs
    by (induction scs) (simp_all add: script_failures_append)
  then have fails: "mset (script_failures ?m) = mset (concat (map script_failures ?scripts))"
    by (metis m script_failures_mset)
  have recs: "set (script_records ?m) = set (concat (map script_records ?scripts))"
    using mset_eq_setD [OF m] by (auto simp: script_records_set)
  have kept: "event_records (stream_spec L lim sources plan) = dedupe.kept {} (script_records ?m)"
    by (simp add: spec delivered_records)
  have cover: "\<exists>s \<in> set (dedupe.kept {} (script_records ?m)). set (dedupe_keys r) \<inter> set (dedupe_keys s) \<noteq> {}"
    if "r \<in> set (script_records ?m)" for r
  proof (cases "r \<in> set (dedupe.kept {} (script_records ?m))")
    case True
    then show ?thesis using dedupe.nonempty [of r] by (intro bexI [of _ r]) auto
  next
    case False
    with that show ?thesis by (rule dedupe.dropped_shares)
  qed
  show ?thesis
    unfolding Let_def kept recs [symmetric]
    using fails cover dedupe.kept_disjoint dedupe.kept_subset
    by (simp add: spec delivered_failures)
qed

theorem stream_loses_nothing_witness:
  "event_records (stream_spec example_libs default_limits example_sources example_plan) =
     [example_record ''web'' ''a'' ''https://x'']
   \<and> mset (event_failures (stream_spec example_libs default_limits example_sources example_plan)) =
     {#\<lparr>diag_source = Source_Id ''web'', diag_class = RateLimit, diag_message = ''slow down'',
        diag_retry_after = None\<rparr>#}"
proof -
  let ?p = "planned_follow (hd example_sources) (Target_Native (Source_Id ''web'') ''a'')"
  have plan: "plan_sources example_sources example_plan = ([?p], [], False)"
    by (simp add: example_plan_def example_sources_def plan_follow_def Let_def example_tool_def
        sources_by_id_def bt_collect_def descriptor_new_def)
  have f: "script_failures (script example_libs default_limits ?p) =
      [\<lparr>diag_source = Source_Id ''web'', diag_class = RateLimit, diag_message = ''slow down'',
        diag_retry_after = None\<rparr>]" by code_simp
  have r: "event_records (stream_spec example_libs default_limits example_sources example_plan) =
     [example_record ''web'' ''a'' ''https://x'']" by code_simp
  from stream_loses_nothing [OF plan, of example_libs default_limits] f r show ?thesis
    by (simp add: Let_def)
qed

text \<open>The merge is an interleaving: the events it takes are those of the scripts of the planned
  sources, each as often as it occurs there, and every source's events keep their order.\<close>

lemma merge_interleaves:
  "mset (merged (max 1 n) scripts) = mset (concat scripts) \<and>
   list_all (\<lambda>p. subseq p (merged (max 1 n) scripts)) (scripts :: worker_event list list)"
  using merged_mset [of "max 1 n" scripts] merged_order [of "max 1 n" _ scripts]
  by (simp add: list_all_iff)

lemma delivered_strict_failures: "length (event_failures (delivered True seen es)) \<le> 1"
proof (induction es arbitrary: seen)
  case Nil
  then show ?case by simp
next
  case (Cons e es)
  then show ?case by (cases e) (auto split: prod.splits)
qed

text \<open>A strict stream stops at a failure: it delivers the plan's diagnostics and nothing else when
  there are any, otherwise at most one failure; no record follows a failure.\<close>

lemma strict_stream_stops:
  assumes "plan_sources sources plan = (pending, diagnostics, True)"
    and "stream_spec L lim sources plan = xs @ Ev_Failed g # ys"
  shows "event_records ys = [] \<and>
    (if diagnostics = [] then ys = [] \<and> event_failures xs = []
     else event_failures xs @ g # event_failures ys = diagnostics \<and> event_records xs = [])"
proof (cases "diagnostics = []")
  case True
  with assms have "delivered True {} (merged (max 1 (max_active_sources lim)) (map (script L lim) pending)) =
      xs @ Ev_Failed g # ys"
    by (simp add: stream_spec_def)
  from delivered_strict_prefix [OF this] True show ?thesis by simp
next
  case False
  with assms have e: "map Ev_Failed diagnostics = xs @ Ev_Failed g # ys" by (simp add: stream_spec_def)
  from arg_cong [OF e, of event_records] arg_cong [OF e, of event_failures] False show ?thesis by simp
qed

section \<open>The metrics of a stream\<close>

fun guard_wf :: "(source_id \<times> operation) option \<Rightarrow> worker_step list \<Rightarrow> bool" where
  "guard_wf None [] = True"
| "guard_wf (Some k) [] = False"
| "guard_wf g (Step_Send e # ss) = guard_wf g ss"
| "guard_wf None (Step_Start s op # ss) = guard_wf (Some (s, op)) ss"
| "guard_wf (Some k) (Step_Start s op # ss) = False"
| "guard_wf (Some k) (Step_End s op out # ss) = (k = (s, op) \<and> guard_wf None ss)"
| "guard_wf None (Step_End s op out # ss) = False"

definition task_wf :: "running_source \<Rightarrow> bool" where
  "task_wf r \<longleftrightarrow> guard_wf (map_option guard_key (rs_guard r)) (case rs_todo r of None \<Rightarrow> [] | Some ss \<Rightarrow> ss) \<and>
     (\<forall>g. rs_guard r = Some g \<longrightarrow> \<not> g_completed g)"

definition open_key :: "running_source \<Rightarrow> (source_id \<times> operation) list" where
  "open_key r = (case rs_guard r of None \<Rightarrow> [] | Some g \<Rightarrow> [guard_key g])"

definition open_keys :: "running_source list \<Rightarrow> (source_id \<times> operation) list" where
  "open_keys rs = concat (map open_key rs)"

definition accounted :: "(source_id \<times> operation) list \<Rightarrow> driver \<Rightarrow> bool" where
  "accounted others d \<longleftrightarrow> balanced (dr_metrics d) (open_keys (dr_running d) @ others) \<and>
     list_all task_wf (dr_running d)"

lemma guard_wf_sends [simp]: "guard_wf g (map Step_Send es @ ss) = guard_wf g ss"
  by (induction es) auto

lemma guard_wf_run: "guard_wf None (run_source_operation L lim p)"
  by (auto simp: run_source_operation_def Let_def finish_stream_outcome_def failed_def
      split: option.splits prod.splits tool_outcome.splits)

lemma balanced_perm: "mset a = mset b \<Longrightarrow> balanced m a = balanced m b"
  by (simp add: balanced_def flip: count_mset)

lemma task_wf_spawn: "task_wf (spawn L lim p)"
  by (simp add: task_wf_def spawn_def guard_wf_run)

lemma open_key_spawn [simp]: "open_key (spawn L lim p) = []"
  by (simp add: open_key_def spawn_def)

lemma do_step_accounted:
  assumes "do_step s (r\<lparr>rs_todo := Some ss\<rparr>) m = (r', m')" "rs_todo r = Some (s # ss)"
    and "task_wf r" "balanced m (open_key r @ others)"
  shows "task_wf r' \<and> balanced m' (open_key r' @ others)"
proof (cases s)
  case (Step_Start src op)
  with assms(2,3) have "rs_guard r = None" by (cases "rs_guard r") (auto simp: task_wf_def)
  with assms Step_Start balanced_start [of m others src op] show ?thesis
    by (auto simp: task_wf_def open_key_def start_def)
next
  case (Step_Send e)
  with assms show ?thesis by (auto simp: task_wf_def open_key_def)
next
  case (Step_End src op out)
  with assms(2,3) obtain g where "rs_guard r = Some g" "guard_key g = (src, op)"
    by (cases "rs_guard r") (auto simp: task_wf_def)
  with assms Step_End balanced_terminal [of m "(src, op) # others" src op out] show ?thesis
    by (auto simp: task_wf_def open_key_def)
qed

lemma poll_future_accounted:
  "poll_future n r m = (b, r', m') \<Longrightarrow> task_wf r \<Longrightarrow> balanced m (open_key r @ others) \<Longrightarrow>
   task_wf r' \<and> balanced m' (open_key r' @ others)"
proof (induction n r m rule: poll_future.induct)
  case (2 n r m)
  show ?case
  proof (cases "rs_todo r")
    case (Some ss)
    show ?thesis
    proof (cases ss)
      case (Cons x xs)
      obtain r1 m1 where st: "do_step x (r\<lparr>rs_todo := Some xs\<rparr>) m = (r1, m1)"
        by (cases "do_step x (r\<lparr>rs_todo := Some xs\<rparr>) m")
      with 2 Some Cons do_step_accounted [OF st] show ?thesis by auto
    qed (use 2 Some in \<open>auto simp: task_wf_def open_key_def\<close>)
  qed (use 2 in auto)
qed auto

lemma poll_workers_accounted:
  "poll_workers ks rs m = (b, rs', m') \<Longrightarrow> list_all task_wf rs \<Longrightarrow> balanced m (open_keys rs @ others) \<Longrightarrow>
   list_all task_wf rs' \<and> balanced m' (open_keys rs' @ others)"
proof (induction ks rs m arbitrary: b rs' m' others rule: poll_workers.induct)
  case (2 ks r rs m)
  let ?k = "case ks of [] \<Rightarrow> 0 | k # _ \<Rightarrow> k"
  obtain b1 r1 m1 where f: "poll_future ?k r m = (b1, r1, m1)" by (cases "poll_future ?k r m")
  obtain b2 rs2 m2 where w: "poll_workers (tl ks) rs m1 = (b2, rs2, m2)" by (cases "poll_workers (tl ks) rs m1")
  have res: "rs' = r1 # rs2" "m' = m2" using 2(2) f w by auto
  have "task_wf r1 \<and> balanced m1 (open_key r1 @ open_keys rs @ others)"
    by (rule poll_future_accounted [OF f]) (use 2(3,4) in \<open>auto simp: open_keys_def\<close>)
  moreover from this have "balanced m1 (open_keys rs @ open_key r1 @ others)"
    by (subst balanced_perm [of _ "open_key r1 @ open_keys rs @ others"]) auto
  ultimately have "task_wf r1" "list_all task_wf rs2 \<and> balanced m2 (open_keys rs2 @ open_key r1 @ others)"
    using 2(1) [OF f [symmetric] refl w] 2(3) by auto
  then show ?case
    by (subst balanced_perm [of _ "open_keys rs2 @ open_key r1 @ others"]) (auto simp: res open_keys_def)
qed (auto simp: open_keys_def)

lemma drop_source_balanced:
  assumes "task_wf r" "balanced m (open_key r @ others)"
  shows "balanced (drop_source r m) others"
proof (cases "rs_guard r")
  case None
  with assms show ?thesis by (simp add: open_key_def)
next
  case (Some g)
  with assms have "balanced m (guard_key g # others)" "\<not> g_completed g"
    by (auto simp: open_key_def task_wf_def)
  from balanced_terminal [OF this(1), of "g_source g" "g_operation g" Out_Cancelled] this(2) Some
  show ?thesis by (simp add: guard_drop_def)
qed

lemma drop_sources_balanced:
  "list_all task_wf rs \<Longrightarrow> balanced m (open_keys rs @ others) \<Longrightarrow> balanced (drop_sources rs m) others"
proof (induction rs arbitrary: m)
  case Nil
  then show ?case by (simp add: drop_sources_def open_keys_def)
next
  case (Cons r rs)
  have "balanced (drop_source r m) (open_keys rs @ others)"
    by (rule drop_source_balanced) (use Cons.prems in \<open>auto simp: open_keys_def\<close>)
  with Cons show ?case by (simp add: drop_sources_def)
qed

lemma stop_accounted: "accounted others d \<Longrightarrow> accounted others (driver_stop d)"
  by (simp add: accounted_def driver_stop_def drop_sources_balanced open_keys_def [of "[]"])

lemma map_event_accounted: "map_event e d = (ev, d') \<Longrightarrow> accounted others d \<Longrightarrow> accounted others d'"
  using stop_accounted [of others d]
  by (cases e) (auto simp: accounted_def Let_def balanced_records split: prod.splits if_splits)

lemma open_keys_update: "i < length rs \<Longrightarrow> rs_guard r = rs_guard (rs ! i) \<Longrightarrow> open_keys (rs[i := r]) = open_keys rs"
proof -
  assume "i < length rs" "rs_guard r = rs_guard (rs ! i)"
  then have "(map open_key rs)[i := open_key r] = map open_key rs"
    by (simp add: list_update_same_conv open_key_def)
  then show ?thesis by (simp add: open_keys_def map_update)
qed

lemma start_accounted: "accounted others d \<Longrightarrow> accounted others (start_ready_sources L d)"
proof (cases "dr_stopping d")
  case True
  then show "accounted others d \<Longrightarrow> ?thesis" by (simp add: start_ready_sources_def)
next
  case False
  have sp: "concat (map (open_key \<circ> spawn L (dr_limits d))
      (take (dr_max_active d - length (dr_running d)) (dr_pending d))) = []" by (simp add: comp_def)
  from False show "accounted others d \<Longrightarrow> ?thesis"
    by (auto simp: sp accounted_def start_ready_fill open_keys_def list_all_iff task_wf_spawn)
qed

lemma cursor_accounted [simp]:
  "accounted others (advance_cursor d) = accounted others d"
  "accounted others (normalize_cursor d) = accounted others d"
  by (simp_all add: accounted_def advance_cursor_def normalize_cursor_def)

interpretation accounting: driver_steps L "\<lambda>d _ d'. accounted others d \<longrightarrow> accounted others d'" for L others
proof (unfold_locales, goal_cases)
  case (4 d ks p rs m)
  with poll_workers_accounted [OF 4(2), of others] show ?case by (simp add: accounted_def)
next
  case (5 d e es ev d')
  have "accounted others (d\<lparr>dr_initial := es\<rparr>) = accounted others d" by (simp add: accounted_def)
  with map_event_accounted [OF 5(2)] show ?case by simp
next
  case (7 d e es ev d')
  have "accounted others (take_event es d)" if "accounted others d"
  proof -
    let ?r = "(dr_running d ! dr_cursor d)\<lparr>rs_queue := es\<rparr>"
    have "task_wf ?r"
      using that 7(2) by (simp add: accounted_def list_all_length task_wf_def)
    moreover have "open_keys ((dr_running d)[dr_cursor d := ?r]) = open_keys (dr_running d)"
      using 7(2) by (simp add: open_keys_update)
    ultimately show ?thesis
      using that set_update_subset_insert [of "dr_running d" "dr_cursor d" ?r]
      by (auto simp: accounted_def take_event_def list_all_iff)
  qed
  with map_event_accounted [OF 7(4)] show ?case by simp
next
  case (8 d)
  let ?d = "d\<lparr>dr_running := remove_nth (dr_cursor d) (dr_running d)\<rparr>"
  have "accounted others ?d" if "accounted others d"
  proof -
    let ?r = "dr_running d ! dr_cursor d"
    have "task_wf ?r" using that 8(2) by (simp add: accounted_def list_all_length)
    then have "rs_guard ?r = None" using 8(4) by (cases "rs_guard ?r") (auto simp: task_wf_def)
    then have "open_key ?r = []" by (simp add: open_key_def)
    then have "open_keys (remove_nth (dr_cursor d) (dr_running d)) = open_keys (dr_running d)"
      unfolding open_keys_def remove_nth_def
      by (subst (3) id_take_nth_drop [OF 8(2)]) simp
    with that show ?thesis
      by (auto simp: accounted_def list_all_iff remove_nth_def dest: in_set_takeD in_set_dropD)
  qed
  then show ?case by (simp add: remove_current_source_def start_accounted)
qed (simp_all add: start_accounted)

text \<open>C4: a stream closes the operations it starts: if the metrics were balanced with the guards
  \<open>others\<close> open before it, they are so again once the driver is dropped, at whatever point the
  consumer stops polling it and whatever its schedule; when it has ended no task is left to drop.\<close>

theorem stream_metrics_balanced:
  assumes "balanced m others"
  shows "case drive L scheds (driver_new sources plan lim m) of (evs, d, over) \<Rightarrow>
    balanced (driver_drop d) others \<and> (if over then driver_drop d = dr_metrics d else True)"
proof -
  obtain evs d over where r: "drive L scheds (driver_new sources plan lim m) = (evs, d, over)"
    by (cases "drive L scheds (driver_new sources plan lim m)")
  have "accounted others (driver_new sources plan lim m)"
    using assms by (simp add: accounted_def driver_new_def open_keys_def split: prod.splits)
  with accounting.drives [OF r] have "accounted others d" by blast
  then have "balanced (driver_drop d) others"
    by (auto simp: accounted_def driver_drop_def intro: drop_sources_balanced)
  moreover have "over \<Longrightarrow> driver_drop d = dr_metrics d"
    using drive_over [of L scheds _ evs d] r by (auto simp: is_complete_def driver_drop_def drop_sources_def)
  ultimately show ?thesis using r by simp
qed

theorem stream_metrics_balanced_witness:
  "balanced (driver_drop (fst (snd (drive example_libs [[[2]]]
     (driver_new example_sources example_plan default_limits (metrics_new [Source_Id ''web'']))))))
     [] \<and>
   map (\<lambda>e. cancelled (sm_follow (snd e))) (driver_drop (fst (snd (drive example_libs [[[2]]]
     (driver_new example_sources example_plan default_limits (metrics_new [Source_Id ''web''])))))) = [1]"
proof -
  have "map (\<lambda>e. cancelled (sm_follow (snd e))) (driver_drop (fst (snd (drive example_libs [[[2]]]
     (driver_new example_sources example_plan default_limits (metrics_new [Source_Id ''web''])))))) = [1]"
    by code_simp
  with stream_metrics_balanced [OF balanced_new, of example_libs "[[[2]]]" example_sources example_plan
      default_limits "[Source_Id ''web'']"]
  show ?thesis by (auto split: prod.splits)
qed

end
