(* ===== verification/Store_Model.thy ===== *)
theory Store_Model
  imports Types
begin

text \<open>
  The persistence contract of \<open>comsat-store/src/model.rs\<close> and \<open>error.rs\<close>: requests with their
  validation, and the values a store returns. Epoch seconds (\<open>i64\<close>) are integers, \<open>u64\<close> and
  \<open>u32\<close> values naturals.
\<close>

datatype store_error =
    Store_Validation string
  | Store_Conflict string
  | Store_NotFound string
  | Store_Backend string

type_synonym 'a store_result = "('a, store_error) result"

definition max_delivery_attempts :: nat where "max_delivery_attempts = 3"
definition delivery_retry_seconds :: int where "delivery_retry_seconds = 300"

section \<open>Requests and values\<close>

record upsert_source =
  us_tenant :: string
  us_source :: source_id
  us_enabled :: bool
  us_observed :: int

record create_watch =
  cw_tenant :: string
  cw_watch :: string
  cw_query :: query
  cw_sources :: "source_id list"
  cw_interval :: nat
  cw_cursor :: json
  cw_enabled :: bool
  cw_created :: int
  cw_first_due :: "int option"

record watch =
  w_tenant :: string
  w_id :: string
  w_query :: query
  w_sources :: "source_id list"
  w_interval :: nat
  w_cursor :: json
  w_enabled :: bool
  w_created :: int
  w_next_due :: int
  w_lease_owner :: "string option"
  w_lease_expires :: "int option"

record claim_due_watch =
  cd_tenant :: string
  cd_now :: int
  cd_owner :: string
  cd_lease_seconds :: nat

record delete_watch =
  dw_tenant :: string
  dw_watch :: string

record claimed_watch =
  cl_watch :: watch
  cl_owner :: string
  cl_expires :: int

record start_watch_run =
  sr_tenant :: string
  sr_watch :: string
  sr_run :: string
  sr_key :: string
  sr_owner :: string
  sr_started :: int

record watch_run =
  run_tenant :: string
  run_watch :: string
  run_id :: string
  run_key :: string
  run_owner :: string
  run_status :: string
  run_started :: int
  run_finished :: "int option"
  run_error :: "string option"

record watch_run_delivery =
  rd_id :: string
  rd_target :: json

record complete_watch_run =
  cr_tenant :: string
  cr_watch :: string
  cr_run :: string
  cr_owner :: string
  cr_finished :: int
  cr_records :: "comsat_record list"
  cr_cursor :: json
  cr_error :: "string option"
  cr_delivery :: "watch_run_delivery option"

record watch_run_outcome =
  out_run :: string
  out_status :: string
  out_seen :: nat
  out_inserted :: nat
  out_watch_inserted :: nat

record history_request =
  hr_tenant :: string
  hr_watch :: "string option"
  hr_since :: "int option"
  hr_limit :: nat

record record_observation =
  ob_record :: comsat_record
  ob_watch :: "string option"
  ob_first :: int
  ob_last :: int

record claim_pending_delivery =
  cp_tenant :: string
  cp_now :: int
  cp_owner :: string
  cp_lease_seconds :: nat

record complete_delivery =
  dc_tenant :: string
  dc_delivery :: string
  dc_owner :: string
  dc_finished :: int
  dc_success :: bool
  dc_error :: "string option"

record list_deliveries =
  ld_tenant :: string
  ld_status :: "string option"
  ld_limit :: nat

record delivery =
  d_tenant :: string
  d_id :: string
  d_watch :: string
  d_run :: "string option"
  d_status :: string
  d_target :: json
  d_payload :: json
  d_created :: int
  d_next_attempt :: int
  d_attempts :: nat
  d_lease_owner :: "string option"
  d_lease_expires :: "int option"
  d_delivered :: "int option"
  d_error :: "string option"

section \<open>Validation\<close>

definition token_byte :: "char \<Rightarrow> bool" where
  "token_byte b \<longleftrightarrow> is_ascii_alphanumeric b \<or> b = CHR ''-'' \<or> b = CHR ''_'' \<or> b = CHR ''.'' \<or> b = CHR '':''"

definition validate_bounded_token :: "string \<Rightarrow> nat \<Rightarrow> string \<Rightarrow> unit store_result" where
  "validate_bounded_token value max_len name =
     (let valid_chars = list_all token_byte value
      in if value \<noteq> [] \<and> length value \<le> max_len \<and> valid_chars then Ok ()
         else Err (Store_Validation (name @ '' must be a bounded ASCII token'')))"

definition validate_tenant_id :: "string \<Rightarrow> unit store_result" where
  "validate_tenant_id value = validate_bounded_token value 128 ''tenant_id''"

definition validate_storage_id :: "string \<Rightarrow> string \<Rightarrow> unit store_result" where
  "validate_storage_id value name = validate_bounded_token value 160 name"

definition validate_json_object :: "json \<Rightarrow> string \<Rightarrow> unit store_result" where
  "validate_json_object value name =
     (if is_object value then Ok () else Err (Store_Validation (name @ '' must be a JSON object'')))"

definition validate_interval :: "nat \<Rightarrow> unit store_result" where
  "validate_interval value =
     (if 1 \<le> value \<and> value \<le> 31536000 then Ok ()
      else Err (Store_Validation ''interval_seconds must be between 1 and 31536000''))"

definition validate_delivery_status :: "string \<Rightarrow> unit store_result" where
  "validate_delivery_status value =
     (if value \<in> set [''pending'', ''delivering'', ''succeeded'', ''failed''] then Ok ()
      else Err (Store_Validation ''delivery status is invalid''))"

definition upsert_source_validate :: "upsert_source \<Rightarrow> unit store_result" where
  "upsert_source_validate r = validate_tenant_id (us_tenant r)"

definition create_watch_validate :: "libs \<Rightarrow> create_watch \<Rightarrow> unit store_result" where
  "create_watch_validate L r =
     and_then (validate_tenant_id (cw_tenant r)) (\<lambda>_.
     and_then (validate_storage_id (cw_watch r) ''watch_id'') (\<lambda>_.
     and_then (validate_interval (cw_interval r)) (\<lambda>_.
     and_then (validate_json_object (cw_cursor r) ''cursor'') (\<lambda>_.
     map_err Store_Validation (query_validate L (cw_query r))))))"

definition into_watch :: "create_watch \<Rightarrow> watch" where
  "into_watch r =
     (let next_due = (case cw_first_due r of Some t \<Rightarrow> t | None \<Rightarrow> cw_created r)
      in \<lparr>w_tenant = cw_tenant r, w_id = cw_watch r, w_query = cw_query r, w_sources = cw_sources r,
          w_interval = cw_interval r, w_cursor = cw_cursor r, w_enabled = cw_enabled r,
          w_created = cw_created r, w_next_due = next_due, w_lease_owner = None,
          w_lease_expires = None\<rparr>)"

definition claim_due_watch_validate :: "claim_due_watch \<Rightarrow> unit store_result" where
  "claim_due_watch_validate r =
     and_then (validate_tenant_id (cd_tenant r)) (\<lambda>_.
     and_then (validate_storage_id (cd_owner r) ''lease_owner'') (\<lambda>_.
     validate_interval (cd_lease_seconds r)))"

definition delete_watch_validate :: "delete_watch \<Rightarrow> unit store_result" where
  "delete_watch_validate r =
     and_then (validate_tenant_id (dw_tenant r)) (\<lambda>_. validate_storage_id (dw_watch r) ''watch_id'')"

definition start_watch_run_validate :: "start_watch_run \<Rightarrow> unit store_result" where
  "start_watch_run_validate r =
     and_then (validate_tenant_id (sr_tenant r)) (\<lambda>_.
     and_then (validate_storage_id (sr_watch r) ''watch_id'') (\<lambda>_.
     and_then (validate_storage_id (sr_run r) ''run_id'') (\<lambda>_.
     and_then (validate_storage_id (sr_key r) ''idempotency_key'') (\<lambda>_.
     validate_storage_id (sr_owner r) ''lease_owner''))))"

definition run_delivery_validate :: "watch_run_delivery \<Rightarrow> unit store_result" where
  "run_delivery_validate r =
     and_then (validate_storage_id (rd_id r) ''delivery_id'') (\<lambda>_.
     validate_json_object (rd_target r) ''target'')"

fun validate_records :: "libs \<Rightarrow> comsat_record list \<Rightarrow> unit store_result" where
  "validate_records L [] = Ok ()"
| "validate_records L (r # rs) =
     and_then (map_err Store_Validation (record_validate L r)) (\<lambda>_. validate_records L rs)"

definition complete_watch_run_validate :: "libs \<Rightarrow> complete_watch_run \<Rightarrow> unit store_result" where
  "complete_watch_run_validate L r =
     and_then (validate_tenant_id (cr_tenant r)) (\<lambda>_.
     and_then (validate_storage_id (cr_watch r) ''watch_id'') (\<lambda>_.
     and_then (validate_storage_id (cr_run r) ''run_id'') (\<lambda>_.
     and_then (validate_storage_id (cr_owner r) ''lease_owner'') (\<lambda>_.
     and_then (validate_json_object (cr_cursor r) ''next_cursor'') (\<lambda>_.
     and_then (validate_records L (cr_records r)) (\<lambda>_.
     case cr_delivery r of None \<Rightarrow> Ok () | Some d \<Rightarrow> run_delivery_validate d))))))"

definition history_validate :: "history_request \<Rightarrow> unit store_result" where
  "history_validate r =
     and_then (validate_tenant_id (hr_tenant r)) (\<lambda>_.
     and_then (case hr_watch r of None \<Rightarrow> Ok () | Some w \<Rightarrow> validate_storage_id w ''watch_id'') (\<lambda>_.
     if hr_limit r = 0 \<or> 1000 < hr_limit r
     then Err (Store_Validation ''history limit must be between 1 and 1000'') else Ok ()))"

definition claim_pending_validate :: "claim_pending_delivery \<Rightarrow> unit store_result" where
  "claim_pending_validate r =
     and_then (validate_tenant_id (cp_tenant r)) (\<lambda>_.
     and_then (validate_storage_id (cp_owner r) ''lease_owner'') (\<lambda>_.
     validate_interval (cp_lease_seconds r)))"

definition complete_delivery_validate :: "complete_delivery \<Rightarrow> unit store_result" where
  "complete_delivery_validate r =
     and_then (validate_tenant_id (dc_tenant r)) (\<lambda>_.
     and_then (validate_storage_id (dc_delivery r) ''delivery_id'') (\<lambda>_.
     validate_storage_id (dc_owner r) ''lease_owner''))"

definition list_deliveries_validate :: "list_deliveries \<Rightarrow> unit store_result" where
  "list_deliveries_validate r =
     and_then (validate_tenant_id (ld_tenant r)) (\<lambda>_.
     and_then (case ld_status r of None \<Rightarrow> Ok () | Some s \<Rightarrow> validate_delivery_status s) (\<lambda>_.
     if ld_limit r = 0 \<or> 1000 < ld_limit r
     then Err (Store_Validation ''delivery limit must be between 1 and 1000'') else Ok ()))"

definition i64_from_u64 :: "nat \<Rightarrow> string \<Rightarrow> int store_result" where
  "i64_from_u64 value name =
     (if value < 2 ^ 63 then Ok (int value) else Err (Store_Validation (name @ '' is too large'')))"

lemma validate_interval_bounds: "validate_interval n = Ok () \<Longrightarrow> 1 \<le> n \<and> n \<le> 31536000"
  by (simp add: validate_interval_def split: if_splits)

lemma interval_i64: "validate_interval n = Ok () \<Longrightarrow> i64_from_u64 n name = Ok (int n)"
  using validate_interval_bounds [of n] by (simp add: i64_from_u64_def)

lemma validate_records_ok: "validate_records L rs = Ok () \<longleftrightarrow> (\<forall>r \<in> set rs. is_ok (record_validate L r))"
  by (induction rs) (auto simp: is_ok_iff)

end
