(* ===== verification/Store_Db.thy ===== *)
theory Store_Db
  imports Store_Model
begin

text \<open>
  The tables of \<open>migrations/0001_initial.sql\<close> and \<open>0002_delivery_notifications.sql\<close>, which both
  stores use, as lists of rows in insertion order; \<open>db_ok\<close> states the constraints of the schema
  and what the stores keep of the values. A row holds the decoded values: the codecs write a
  query, source ids, a cursor, a target and a payload as JSON text and read the same value back.
  The predicates below are the \<open>WHERE\<close> and \<open>ORDER BY\<close> clauses the statements share.
\<close>

record source_row =
  so_tenant :: string
  so_source :: source_id
  so_enabled :: bool
  so_observed :: int

record record_row =
  rw_tenant :: string
  rw_record :: comsat_record
  rw_first :: int
  rw_last :: int

record watch_record_row =
  wr_tenant :: string
  wr_watch :: string
  wr_source :: source_id
  wr_id :: record_id
  wr_first :: int
  wr_last :: int

record db =
  db_sources :: "source_row list"
  db_watches :: "watch list"
  db_runs :: "watch_run list"
  db_records :: "record_row list"
  db_watch_records :: "watch_record_row list"
  db_deliveries :: "delivery list"

definition empty_db :: db where
  "empty_db = \<lparr>db_sources = [], db_watches = [], db_runs = [], db_records = [],
     db_watch_records = [], db_deliveries = []\<rparr>"

section \<open>Keys\<close>

definition source_row_key :: "source_row \<Rightarrow> string \<times> source_id" where
  "source_row_key r = (so_tenant r, so_source r)"

definition watch_key :: "watch \<Rightarrow> string \<times> string" where
  "watch_key w = (w_tenant w, w_id w)"

definition run_pk :: "watch_run \<Rightarrow> string \<times> string \<times> string" where
  "run_pk r = (run_tenant r, run_watch r, run_id r)"

definition run_idem :: "watch_run \<Rightarrow> string \<times> string \<times> string" where
  "run_idem r = (run_tenant r, run_watch r, run_key r)"

definition record_key :: "comsat_record \<Rightarrow> source_id \<times> record_id" where
  "record_key r = (rec_source r, rec_id r)"

definition record_row_key :: "record_row \<Rightarrow> string \<times> source_id \<times> record_id" where
  "record_row_key r = (rw_tenant r, record_key (rw_record r))"

definition watch_record_key :: "watch_record_row \<Rightarrow> string \<times> string \<times> source_id \<times> record_id" where
  "watch_record_key r = (wr_tenant r, wr_watch r, wr_source r, wr_id r)"

definition delivery_key :: "delivery \<Rightarrow> string \<times> string" where
  "delivery_key d = (d_tenant d, d_id d)"

lemmas key_defs = source_row_key_def watch_key_def run_pk_def run_idem_def record_key_def
  record_row_key_def watch_record_key_def delivery_key_def

section \<open>Clauses\<close>

definition expires_after :: "int option \<Rightarrow> int \<Rightarrow> bool" where
  "expires_after e now = (case e of None \<Rightarrow> False | Some e \<Rightarrow> now < e)"

definition expired_at :: "int option \<Rightarrow> int \<Rightarrow> bool" where
  "expired_at e now = (case e of None \<Rightarrow> False | Some e \<Rightarrow> e \<le> now)"

definition lease_free :: "int \<Rightarrow> watch \<Rightarrow> bool" where
  "lease_free now w \<longleftrightarrow> w_lease_expires w = None \<or> expired_at (w_lease_expires w) now"

definition watch_due :: "string \<Rightarrow> int \<Rightarrow> watch \<Rightarrow> bool" where
  "watch_due t now w \<longleftrightarrow> w_tenant w = t \<and> w_enabled w \<and> w_next_due w \<le> now \<and> lease_free now w"

definition due_order :: "watch \<Rightarrow> int \<times> int \<times> string" where
  "due_order w = (w_next_due w, w_created w, w_id w)"

definition lease_held :: "string \<times> string \<Rightarrow> string \<Rightarrow> int \<Rightarrow> watch \<Rightarrow> bool" where
  "lease_held k owner now w \<longleftrightarrow>
     watch_key w = k \<and> w_lease_owner w = Some owner \<and> expires_after (w_lease_expires w) now"

definition delivery_due :: "string \<Rightarrow> int \<Rightarrow> delivery \<Rightarrow> bool" where
  "delivery_due t now d \<longleftrightarrow> d_tenant d = t \<and>
     (d_status d = ''pending'' \<and> d_next_attempt d \<le> now \<or>
      d_status d = ''delivering'' \<and> expired_at (d_lease_expires d) now)"

definition delivery_order :: "delivery \<Rightarrow> int \<times> int \<times> string" where
  "delivery_order d = (d_next_attempt d, d_created d, d_id d)"

definition delivery_held :: "string \<times> string \<Rightarrow> string \<Rightarrow> int \<Rightarrow> delivery \<Rightarrow> bool" where
  "delivery_held k owner now d \<longleftrightarrow>
     delivery_key d = k \<and> d_lease_owner d = Some owner \<and> d_status d = ''delivering'' \<and>
     expires_after (d_lease_expires d) now"

lemmas clause_defs = expires_after_def expired_at_def lease_free_def watch_due_def lease_held_def
  delivery_due_def delivery_held_def

section \<open>Statements\<close>

text \<open>\<open>INSERT ... ON CONFLICT (key) DO UPDATE\<close>.\<close>

definition upsert_by :: "('r \<Rightarrow> 'k) \<Rightarrow> 'r \<Rightarrow> ('r \<Rightarrow> 'r) \<Rightarrow> 'r list \<Rightarrow> 'r list" where
  "upsert_by key row f rows =
     (if exists_where (\<lambda>r. key r = key row) rows then update_where (\<lambda>r. key r = key row) f rows
      else rows @ [row])"

text \<open>\<open>DELETE FROM watches\<close> with the cascades of the foreign keys.\<close>

definition delete_watch_rows :: "string \<times> string \<Rightarrow> db \<Rightarrow> db" where
  "delete_watch_rows k db =
     (if exists_where (\<lambda>w. watch_key w = k) (db_watches db)
      then db\<lparr>db_watches := delete_where (\<lambda>w. watch_key w = k) (db_watches db),
              db_runs := delete_where (\<lambda>r. (run_tenant r, run_watch r) = k) (db_runs db),
              db_watch_records := delete_where (\<lambda>r. (wr_tenant r, wr_watch r) = k) (db_watch_records db),
              db_deliveries := delete_where (\<lambda>d. (d_tenant d, d_watch d) = k) (db_deliveries db)\<rparr>
      else db)"

definition run_status_of :: "string option \<Rightarrow> string" where
  "run_status_of error = (case error of Some _ \<Rightarrow> ''failed'' | None \<Rightarrow> ''succeeded'')"

text \<open>The payload of a run's delivery.\<close>

definition delivery_payload :: "complete_watch_run \<Rightarrow> comsat_record list \<Rightarrow> json" where
  "delivery_payload r new_records = json_object
     [(''type'', JString ''comsat.watch.records_observed''),
      (''tenant_id'', JString (cr_tenant r)), (''watch_id'', JString (cr_watch r)),
      (''run_id'', JString (cr_run r)),
      (''observed_at_epoch_seconds'', JInt (cr_finished r)),
      (''records'', JArray (map record_to_json new_records))]"

definition run_delivery_row :: "complete_watch_run \<Rightarrow> watch_run_delivery \<Rightarrow> comsat_record list \<Rightarrow> delivery" where
  "run_delivery_row r d new_records =
     \<lparr>d_tenant = cr_tenant r, d_id = rd_id d, d_watch = cr_watch r, d_run = Some (cr_run r),
      d_status = ''pending'', d_target = rd_target d, d_payload = delivery_payload r new_records,
      d_created = cr_finished r, d_next_attempt = cr_finished r, d_attempts = 0,
      d_lease_owner = None, d_lease_expires = None, d_delivered = None, d_error = None\<rparr>"

definition claim_delivery_set :: "string \<Rightarrow> int \<Rightarrow> delivery \<Rightarrow> delivery" where
  "claim_delivery_set owner expires d =
     d\<lparr>d_status := ''delivering'', d_attempts := d_attempts d + 1, d_lease_owner := Some owner,
       d_lease_expires := Some expires, d_error := None\<rparr>"

section \<open>The constraints of the schema\<close>

definition watch_ok :: "watch \<Rightarrow> bool" where
  "watch_ok w \<longleftrightarrow> (w_lease_owner w = None \<longleftrightarrow> w_lease_expires w = None) \<and>
     1 \<le> w_interval w \<and> w_interval w \<le> 31536000"

definition run_ok :: "watch_run \<Rightarrow> bool" where
  "run_ok r \<longleftrightarrow> (run_status r = ''running'' \<and> run_finished r = None \<or>
     (run_status r = ''succeeded'' \<or> run_status r = ''failed'') \<and> run_finished r \<noteq> None)"

definition delivery_ok :: "delivery \<Rightarrow> bool" where
  "delivery_ok d \<longleftrightarrow>
     d_status d \<in> {''pending'', ''delivering'', ''succeeded'', ''failed''} \<and>
     (d_status d = ''delivering'' \<longleftrightarrow> d_lease_owner d \<noteq> None) \<and>
     (d_lease_owner d = None \<longleftrightarrow> d_lease_expires d = None) \<and>
     (d_status d = ''succeeded'' \<longleftrightarrow> d_delivered d \<noteq> None) \<and>
     (d_status d = ''pending'' \<longrightarrow> d_attempts d < max_delivery_attempts) \<and>
     (d_status d = ''failed'' \<longrightarrow> max_delivery_attempts \<le> d_attempts d) \<and>
     (d_status d = ''delivering'' \<or> d_status d = ''succeeded'' \<longrightarrow> 1 \<le> d_attempts d)"

definition keys_ok :: "db \<Rightarrow> bool" where
  "keys_ok db \<longleftrightarrow> unique_by source_row_key (db_sources db) \<and> unique_by watch_key (db_watches db) \<and>
     unique_by run_pk (db_runs db) \<and> unique_by run_idem (db_runs db) \<and>
     unique_by record_row_key (db_records db) \<and> unique_by watch_record_key (db_watch_records db) \<and>
     unique_by delivery_key (db_deliveries db)"

definition refs_ok :: "db \<Rightarrow> bool" where
  "refs_ok db \<longleftrightarrow>
     (\<forall>r \<in> set (db_runs db). (run_tenant r, run_watch r) \<in> watch_key ` set (db_watches db)) \<and>
     (\<forall>r \<in> set (db_watch_records db). (wr_tenant r, wr_watch r) \<in> watch_key ` set (db_watches db) \<and>
        (wr_tenant r, wr_source r, wr_id r) \<in> record_row_key ` set (db_records db)) \<and>
     (\<forall>d \<in> set (db_deliveries db). (d_tenant d, d_watch d) \<in> watch_key ` set (db_watches db))"

definition rows_ok :: "db \<Rightarrow> bool" where
  "rows_ok db \<longleftrightarrow> list_all watch_ok (db_watches db) \<and> list_all run_ok (db_runs db) \<and>
     list_all delivery_ok (db_deliveries db)"

definition db_ok :: "db \<Rightarrow> bool" where
  "db_ok db \<longleftrightarrow> keys_ok db \<and> refs_ok db \<and> rows_ok db"

lemma empty_db_ok: "db_ok empty_db"
  by (simp add: db_ok_def keys_ok_def refs_ok_def rows_ok_def empty_db_def unique_by_def)

section \<open>How the statements act on the constraints\<close>

lemma list_all_update_where:
  "list_all Q rows \<Longrightarrow> (\<And>r. r \<in> set rows \<Longrightarrow> P r \<Longrightarrow> Q r \<Longrightarrow> Q (f r)) \<Longrightarrow> list_all Q (update_where P f rows)"
  by (auto simp: list_all_iff table_simps)

lemma list_all_delete_where: "list_all Q rows \<Longrightarrow> list_all Q (delete_where P rows)"
  by (auto simp: list_all_iff table_simps)

lemma keys_update_where:
  "(\<And>r. P r \<Longrightarrow> k (f r) = k r) \<Longrightarrow> k ` set (update_where P f rows) = k ` set rows"
  by (metis list.set_map map_update_where)

lemma unique_by_upsert:
  assumes "unique_by key rows" "\<And>r. key (f r) = key r"
  shows "unique_by key (upsert_by key row f rows)"
  using assms by (auto simp: upsert_by_def unique_by_update unique_by_append exists_where_def)

lemma keys_upsert:
  assumes "\<And>r. key r = key row \<Longrightarrow> key (f r) = key r"
  shows "key ` set (upsert_by key row f rows) = insert (key row) (key ` set rows)"
proof (cases "exists_where (\<lambda>r. key r = key row) rows")
  case True
  then obtain r where "r \<in> set rows" "key r = key row" by (auto simp: exists_where_def)
  then have "key row \<in> key ` set rows" by (metis imageI)
  with True keys_update_where [of "\<lambda>r. key r = key row" key f rows] assms show ?thesis
    by (auto simp: upsert_by_def)
next
  case False
  then show ?thesis by (simp add: upsert_by_def)
qed

lemma delete_watch_rows_ok: "db_ok db \<Longrightarrow> db_ok (delete_watch_rows k db)"
  unfolding db_ok_def
proof (intro conjI; elim conjE)
  assume "keys_ok db"
  then show "keys_ok (delete_watch_rows k db)"
    by (auto simp: keys_ok_def delete_watch_rows_def unique_by_delete)
next
  assume "refs_ok db"
  then show "refs_ok (delete_watch_rows k db)"
    by (auto simp: refs_ok_def delete_watch_rows_def table_simps image_iff)
next
  assume "rows_ok db"
  then show "rows_ok (delete_watch_rows k db)"
    by (auto simp: rows_ok_def delete_watch_rows_def list_all_delete_where)
qed

lemma watch_ok_unlease: "watch_ok w \<Longrightarrow> watch_ok (w\<lparr>w_cursor := c, w_next_due := n, w_lease_owner := None, w_lease_expires := None\<rparr>)"
  by (simp add: watch_ok_def)

lemma watch_ok_lease: "watch_ok w \<Longrightarrow> watch_ok (w\<lparr>w_lease_owner := Some owner, w_lease_expires := Some e\<rparr>)"
  by (simp add: watch_ok_def)

lemma claim_delivery_set_ok:
  "delivery_ok d \<Longrightarrow> d_status d = ''pending'' \<or> d_status d = ''delivering'' \<Longrightarrow> delivery_ok (claim_delivery_set owner e d)"
  by (auto simp: delivery_ok_def claim_delivery_set_def)

lemma claim_delivery_set_key [simp]: "delivery_key (claim_delivery_set owner e d) = delivery_key d"
  by (simp add: claim_delivery_set_def delivery_key_def)

lemma run_delivery_row_ok: "delivery_ok (run_delivery_row r d rs)"
  by (simp add: delivery_ok_def run_delivery_row_def max_delivery_attempts_def)

text \<open>Changes to one table that keep its keys and rows keep the database.\<close>

lemma db_ok_watches:
  assumes "db_ok db" and k: "\<And>w. P w \<Longrightarrow> watch_key (f w) = watch_key w"
    and ok: "\<And>w. w \<in> set (db_watches db) \<Longrightarrow> P w \<Longrightarrow> watch_ok w \<Longrightarrow> watch_ok (f w)"
  shows "db_ok (db\<lparr>db_watches := update_where P f (db_watches db)\<rparr>)"
proof -
  have "unique_by watch_key (update_where P f (db_watches db)) = unique_by watch_key (db_watches db)"
    by (rule unique_by_update) (rule k)
  moreover have "watch_key ` set (update_where P f (db_watches db)) = watch_key ` set (db_watches db)"
    by (rule keys_update_where) (rule k)
  moreover have "list_all watch_ok (update_where P f (db_watches db))"
    using assms(1) ok by (intro list_all_update_where) (auto simp: db_ok_def rows_ok_def)
  ultimately show ?thesis using assms(1) by (simp add: db_ok_def keys_ok_def refs_ok_def rows_ok_def)
qed

lemma db_ok_deliveries:
  assumes "db_ok db"
    and k: "\<And>d. P d \<Longrightarrow> delivery_key (f d) = delivery_key d" and w: "\<And>d. P d \<Longrightarrow> d_watch (f d) = d_watch d"
    and ok: "\<And>d. d \<in> set (db_deliveries db) \<Longrightarrow> P d \<Longrightarrow> delivery_ok d \<Longrightarrow> delivery_ok (f d)"
  shows "db_ok (db\<lparr>db_deliveries := update_where P f (db_deliveries db)\<rparr>)"
proof -
  have "unique_by delivery_key (update_where P f (db_deliveries db)) = unique_by delivery_key (db_deliveries db)"
    by (rule unique_by_update) (rule k)
  moreover have "(\<lambda>d. (d_tenant d, d_watch d)) ` set (update_where P f (db_deliveries db)) =
      (\<lambda>d. (d_tenant d, d_watch d)) ` set (db_deliveries db)"
    using k w by (intro keys_update_where) (simp add: delivery_key_def)
  then have "\<forall>d \<in> set (update_where P f (db_deliveries db)). (d_tenant d, d_watch d) \<in> watch_key ` set (db_watches db)"
    using assms(1) by (auto simp: db_ok_def refs_ok_def) (metis (mono_tags, lifting) image_iff)
  moreover have "list_all delivery_ok (update_where P f (db_deliveries db))"
    using assms(1) ok by (intro list_all_update_where) (auto simp: db_ok_def rows_ok_def)
  ultimately show ?thesis using assms(1) by (simp add: db_ok_def keys_ok_def refs_ok_def rows_ok_def)
qed

end
