(* ===== verification/D1_Store.thy ===== *)
theory D1_Store
  imports Store_Db
begin

text \<open>
  The D1 store of the cloud worker (\<open>comsat-cloud/src/{d1_store,d1_sql,d1_values}.rs\<close>). Each SQL
  statement is a definition; a completion is a batch of them, which D1 runs as one transaction, and
  its outcome is read from their results. Integers are bound as JavaScript numbers, which are exact
  below 2^53 as the code notes; additions in the statements are SQL's, those in Rust wrap. The
  \<open>GROUP BY\<close> of the delivery statement yields the groups in key order.
\<close>

section \<open>Watches\<close>

definition d1_upsert_source :: "upsert_source \<Rightarrow> db \<Rightarrow> unit store_result \<times> db" where
  "d1_upsert_source r db =
     (case upsert_source_validate r of
        Err e \<Rightarrow> (Err e, db)
      | Ok _ \<Rightarrow> (Ok (), db\<lparr>db_sources := upsert_by source_row_key
          \<lparr>so_tenant = us_tenant r, so_source = us_source r, so_enabled = us_enabled r, so_observed = us_observed r\<rparr>
          (\<lambda>row. row\<lparr>so_enabled := us_enabled r, so_observed := us_observed r\<rparr>) (db_sources db)\<rparr>))"

definition d1_create_watch :: "libs \<Rightarrow> create_watch \<Rightarrow> db \<Rightarrow> watch store_result \<times> db" where
  "d1_create_watch L r db =
     (case create_watch_validate L r of
        Err e \<Rightarrow> (Err e, db)
      | Ok _ \<Rightarrow>
          (let watch = into_watch r
           in case i64_from_u64 (w_interval watch) ''interval_seconds'' of
                Err e \<Rightarrow> (Err e, db)
              | Ok _ \<Rightarrow>
                  if exists_where (\<lambda>w. watch_key w = watch_key watch) (db_watches db)
                  then (Err (Store_Backend ''UNIQUE constraint failed: watches.tenant_id, watches.watch_id''), db)
                  else (Ok watch, db\<lparr>db_watches := db_watches db @ [watch]\<rparr>)))"

definition d1_list_watches :: "string \<Rightarrow> db \<Rightarrow> watch list store_result" where
  "d1_list_watches tenant db =
     and_then (validate_tenant_id tenant) (\<lambda>_.
       Ok (select_ordered (\<lambda>w. w_tenant w = tenant) (\<lambda>w. (w_created w, w_id w)) (db_watches db)))"

definition d1_delete_watch :: "delete_watch \<Rightarrow> db \<Rightarrow> bool store_result \<times> db" where
  "d1_delete_watch r db =
     (case delete_watch_validate r of
        Err e \<Rightarrow> (Err e, db)
      | Ok _ \<Rightarrow>
          (let k = (dw_tenant r, dw_watch r);
               changes = count_where (\<lambda>w. watch_key w = k) (db_watches db)
           in (Ok (0 < changes), delete_watch_rows k db)))"

text \<open>\<open>CLAIM_DUE_WATCH_SQL\<close> updates the row the subquery selects and returns it, updated.\<close>

definition claim_due_watch_sql :: "string \<Rightarrow> int \<Rightarrow> string \<Rightarrow> int \<Rightarrow> db \<Rightarrow> watch option \<times> db" where
  "claim_due_watch_sql owner lease_expires tenant now db =
     (case head_option (select_ordered (watch_due tenant now) due_order (db_watches db)) of
        None \<Rightarrow> (None, db)
      | Some selected \<Rightarrow>
          (let claims = (\<lambda>w. watch_due tenant now w \<and> w_id w = w_id selected);
               lease = (\<lambda>w. w\<lparr>w_lease_owner := Some owner, w_lease_expires := Some lease_expires\<rparr>)
           in (map_option lease (select_first claims (db_watches db)),
               db\<lparr>db_watches := update_where claims lease (db_watches db)\<rparr>)))"

definition d1_claim_due_watch :: "claim_due_watch \<Rightarrow> db \<Rightarrow> claimed_watch option store_result \<times> db" where
  "d1_claim_due_watch r db =
     (case claim_due_watch_validate r of
        Err e \<Rightarrow> (Err e, db)
      | Ok _ \<Rightarrow>
     (case i64_from_u64 (cd_lease_seconds r) ''lease_seconds'' of
        Err e \<Rightarrow> (Err e, db)
      | Ok lease_seconds \<Rightarrow>
          (let lease_expires = add64 (cd_now r) lease_seconds
           in case claim_due_watch_sql (cd_owner r) lease_expires (cd_tenant r) (cd_now r) db of
                (row, db) \<Rightarrow>
                  (Ok (map_option (\<lambda>w. \<lparr>cl_watch = w, cl_owner = cd_owner r, cl_expires = lease_expires\<rparr>) row), db))))"

section \<open>Runs\<close>

definition load_run :: "start_watch_run \<Rightarrow> db \<Rightarrow> watch_run store_result" where
  "load_run r db =
     ok_or (Store_Conflict ''watch is not currently claimed by this worker'')
       (select_first (\<lambda>x. run_idem x = (sr_tenant r, sr_watch r, sr_key r)) (db_runs db))"

definition d1_start_watch_run :: "start_watch_run \<Rightarrow> db \<Rightarrow> watch_run store_result \<times> db" where
  "d1_start_watch_run r db =
     (let row = \<lparr>run_tenant = sr_tenant r, run_watch = sr_watch r, run_id = sr_run r, run_key = sr_key r,
            run_owner = sr_owner r, run_status = ''running'', run_started = sr_started r,
            run_finished = None, run_error = None\<rparr>
      in case start_watch_run_validate r of
        Err e \<Rightarrow> (Err e, db)
      | Ok _ \<Rightarrow>
          if \<not> exists_where (lease_held (sr_tenant r, sr_watch r) (sr_owner r) (sr_started r)) (db_watches db)
             \<or> exists_where (\<lambda>x. run_idem x = run_idem row) (db_runs db)
          then (load_run r db, db)
          else if exists_where (\<lambda>x. run_pk x = run_pk row) (db_runs db)
          then (Err (Store_Backend
             ''UNIQUE constraint failed: watch_runs.tenant_id, watch_runs.watch_id, watch_runs.run_id''), db)
          else (let db = db\<lparr>db_runs := db_runs db @ [row]\<rparr> in (load_run r db, db)))"

text \<open>The join that guards every statement of a completion: the run is running under a lease of its
  owner that has not expired.\<close>

definition gate_run :: "complete_watch_run \<Rightarrow> watch_run \<Rightarrow> bool" where
  "gate_run r x \<longleftrightarrow> run_pk x = (cr_tenant r, cr_watch r, cr_run r) \<and> run_owner x = cr_owner r \<and>
     run_status x = ''running''"

definition gate_watch :: "complete_watch_run \<Rightarrow> watch \<Rightarrow> bool" where
  "gate_watch r w \<longleftrightarrow> lease_held (cr_tenant r, cr_watch r) (cr_owner r) (cr_finished r) w"

definition gate_open :: "complete_watch_run \<Rightarrow> db \<Rightarrow> bool" where
  "gate_open r db \<longleftrightarrow> exists_where (gate_watch r) (db_watches db) \<and> exists_where (gate_run r) (db_runs db)"

definition complete_gate_sql :: "complete_watch_run \<Rightarrow> db \<Rightarrow> nat list" where
  "complete_gate_sql r db =
     concat (map (\<lambda>w. map (\<lambda>_. w_interval w) (filter (gate_run r) (db_runs db)))
       (filter (gate_watch r) (db_watches db)))"

text \<open>\<open>incoming\<close> is the array of the request's records; \<open>DO NOTHING\<close> keeps the first of a key.\<close>

fun insert_new :: "('r \<Rightarrow> 'k) \<Rightarrow> 'r list \<Rightarrow> 'r list \<Rightarrow> nat \<times> 'r list" where
  "insert_new key [] rows = (0, rows)"
| "insert_new key (x # xs) rows =
     (if exists_where (\<lambda>r. key r = key x) rows then insert_new key xs rows
      else case insert_new key xs (rows @ [x]) of (n, rows) \<Rightarrow> (n + 1, rows))"

definition insert_records_sql :: "complete_watch_run \<Rightarrow> db \<Rightarrow> nat \<times> db" where
  "insert_records_sql r db =
     (if gate_open r db then
        case insert_new record_row_key
          (map (\<lambda>x. \<lparr>rw_tenant = cr_tenant r, rw_record = x, rw_first = cr_finished r, rw_last = cr_finished r\<rparr>)
            (cr_records r)) (db_records db) of
          (n, rows) \<Rightarrow> (n, db\<lparr>db_records := rows\<rparr>)
      else (0, db))"

definition incoming_for :: "complete_watch_run \<Rightarrow> source_id \<times> record_id \<Rightarrow> comsat_record option" where
  "incoming_for r k = select_first (\<lambda>x. record_key x = k) (cr_records r)"

definition update_records_sql :: "complete_watch_run \<Rightarrow> db \<Rightarrow> db" where
  "update_records_sql r db =
     (if gate_open r db then
        db\<lparr>db_records := update_where
          (\<lambda>y. rw_tenant y = cr_tenant r \<and> incoming_for r (record_key (rw_record y)) \<noteq> None)
          (\<lambda>y. case incoming_for r (record_key (rw_record y)) of
                 None \<Rightarrow> y | Some x \<Rightarrow> y\<lparr>rw_record := x, rw_last := cr_finished r\<rparr>) (db_records db)\<rparr>
      else db)"

text \<open>\<open>GROUP BY source_id, record_id\<close>: one row per key, in key order; the bare columns of a group
  are those of one of its rows, taken as the first.\<close>

definition incoming_groups :: "complete_watch_run \<Rightarrow> comsat_record list" where
  "incoming_groups r =
     map snd (bt_collect (rev (map (\<lambda>x. (record_key x, x)) (cr_records r))))"

definition insert_run_delivery_sql :: "complete_watch_run \<Rightarrow> watch_run_delivery \<Rightarrow> db \<Rightarrow> db" where
  "insert_run_delivery_sql r d db =
     (let new_records = filter (\<lambda>x. \<not> exists_where
            (\<lambda>y. watch_record_key y = (cr_tenant r, cr_watch r, rec_source x, rec_id x)) (db_watch_records db))
            (incoming_groups r)
      in if gate_open r db \<and> new_records \<noteq> []
           \<and> \<not> exists_where (\<lambda>x. delivery_key x = (cr_tenant r, rd_id d)) (db_deliveries db)
         then db\<lparr>db_deliveries := db_deliveries db @ [run_delivery_row r d new_records]\<rparr> else db)"

definition insert_watch_records_sql :: "complete_watch_run \<Rightarrow> db \<Rightarrow> nat \<times> db" where
  "insert_watch_records_sql r db =
     (if gate_open r db then
        case insert_new watch_record_key
          (map (\<lambda>x. \<lparr>wr_tenant = cr_tenant r, wr_watch = cr_watch r, wr_source = rec_source x, wr_id = rec_id x,
                wr_first = cr_finished r, wr_last = cr_finished r\<rparr>) (cr_records r)) (db_watch_records db) of
          (n, rows) \<Rightarrow> (n, db\<lparr>db_watch_records := rows\<rparr>)
      else (0, db))"

definition update_watch_records_sql :: "complete_watch_run \<Rightarrow> db \<Rightarrow> db" where
  "update_watch_records_sql r db =
     (if gate_open r db then
        db\<lparr>db_watch_records := update_where
          (\<lambda>y. wr_tenant y = cr_tenant r \<and> wr_watch y = cr_watch r \<and> incoming_for r (wr_source y, wr_id y) \<noteq> None)
          (\<lambda>y. y\<lparr>wr_last := cr_finished r\<rparr>) (db_watch_records db)\<rparr>
      else db)"

definition complete_run_sql :: "complete_watch_run \<Rightarrow> db \<Rightarrow> nat \<times> db" where
  "complete_run_sql r db =
     (let P = (\<lambda>x. gate_run r x \<and> exists_where (gate_watch r) (db_watches db))
      in (count_where P (db_runs db),
          db\<lparr>db_runs := update_where P
            (\<lambda>x. x\<lparr>run_status := run_status_of (cr_error r), run_finished := Some (cr_finished r), run_error := cr_error r\<rparr>)
            (db_runs db)\<rparr>))"

definition finished_run :: "complete_watch_run \<Rightarrow> watch_run \<Rightarrow> bool" where
  "finished_run r x \<longleftrightarrow> run_pk x = (cr_tenant r, cr_watch r, cr_run r) \<and> run_owner x = cr_owner r \<and>
     (run_status x = ''succeeded'' \<or> run_status x = ''failed'') \<and> run_finished x = Some (cr_finished r)"

definition complete_watch_sql :: "complete_watch_run \<Rightarrow> db \<Rightarrow> nat \<times> db" where
  "complete_watch_sql r db =
     (let P = (\<lambda>w. gate_watch r w \<and> exists_where (finished_run r) (db_runs db))
      in (count_where P (db_watches db),
          db\<lparr>db_watches := update_where P
            (\<lambda>w. w\<lparr>w_cursor := cr_cursor r, w_next_due := cr_finished r + int (w_interval w),
                   w_lease_owner := None, w_lease_expires := None\<rparr>) (db_watches db)\<rparr>))"

text \<open>The JSON array bound as \<open>?1\<close>; metadata travels as JSON text.\<close>

definition bulk_record_json :: "libs \<Rightarrow> comsat_record \<Rightarrow> json" where
  "bulk_record_json L x = json_object
     [(''source_id'', JString (sid_str (rec_source x))), (''record_id'', JString (rid_str (rec_id x))),
      (''kind'', JString (rec_kind x)), (''url'', JString (rec_url x)),
      (''title'', json_opt_str (rec_title x)), (''text'', json_opt_str (rec_text x)),
      (''author'', json_opt_str (rec_author x)), (''created_at'', json_opt_str (rec_created_at x)),
      (''updated_at'', json_opt_str (rec_updated_at x)),
      (''metadata_json'', JString (json_text L (rec_metadata x)))]"

definition max_records_json_bytes :: nat where "max_records_json_bytes = 1048576"

definition records_json_check :: "libs \<Rightarrow> complete_watch_run \<Rightarrow> unit store_result" where
  "records_json_check L r =
     (if json_len L (JArray (map (bulk_record_json L) (cr_records r))) \<le> max_records_json_bytes then Ok ()
      else Err (Store_Validation ''serialized D1 completion records exceed 1048576 bytes''))"

definition d1_complete_batch :: "complete_watch_run \<Rightarrow> db \<Rightarrow> (nat list \<times> nat \<times> nat \<times> nat \<times> nat) \<times> db" where
  "d1_complete_batch r db =
     (let gate = complete_gate_sql r db
      in case insert_records_sql r db of (inserted, db) \<Rightarrow>
         (let db = update_records_sql r db;
              db = (case cr_delivery r of None \<Rightarrow> db | Some d \<Rightarrow> insert_run_delivery_sql r d db)
          in case insert_watch_records_sql r db of (watch_inserted, db) \<Rightarrow>
             (let db = update_watch_records_sql r db
              in case complete_run_sql r db of (runs, db) \<Rightarrow>
                 case complete_watch_sql r db of (watches, db) \<Rightarrow>
                   ((gate, inserted, watch_inserted, runs, watches), db))))"

definition ensure_completion_gate :: "complete_watch_run \<Rightarrow> nat list \<Rightarrow> unit store_result" where
  "ensure_completion_gate r gate =
     (case gate of
        [interval] \<Rightarrow> if 0 < interval then Ok () else
          Err (Store_Conflict (if cr_error r \<noteq> None then ''watch run is not running under this lease''
            else ''watch lease is not held by this worker''))
      | _ \<Rightarrow> Err (Store_Conflict (if cr_error r \<noteq> None then ''watch run is not running under this lease''
            else ''watch lease is not held by this worker'')))"

definition ensure_changed :: "nat \<Rightarrow> string \<Rightarrow> unit store_result" where
  "ensure_changed changes message = (if changes = 1 then Ok () else Err (Store_Conflict message))"

fun complete_outcome ::
  "complete_watch_run \<Rightarrow> nat list \<times> nat \<times> nat \<times> nat \<times> nat \<Rightarrow> watch_run_outcome store_result" where
  "complete_outcome r (gate, inserted, watch_inserted, runs, watches) =
     and_then (ensure_completion_gate r gate) (\<lambda>_.
     and_then (ensure_changed runs ''watch run is not running under this lease'') (\<lambda>_.
     and_then (ensure_changed watches ''watch lease is not held by this worker'') (\<lambda>_.
       Ok \<lparr>out_run = cr_run r, out_status = run_status_of (cr_error r), out_seen = length (cr_records r),
           out_inserted = inserted, out_watch_inserted = watch_inserted\<rparr>)))"

definition d1_complete_watch_run ::
  "libs \<Rightarrow> complete_watch_run \<Rightarrow> db \<Rightarrow> watch_run_outcome store_result \<times> db" where
  "d1_complete_watch_run L r db =
     (case complete_watch_run_validate L r of
        Err e \<Rightarrow> (Err e, db)
      | Ok _ \<Rightarrow>
     (case records_json_check L r of
        Err e \<Rightarrow> (Err e, db)
      | Ok _ \<Rightarrow> (case d1_complete_batch r db of (results, db) \<Rightarrow> (complete_outcome r results, db))))"

section \<open>Deliveries\<close>

definition claim_delivery_sql :: "string \<Rightarrow> int \<Rightarrow> string \<Rightarrow> int \<Rightarrow> db \<Rightarrow> delivery option \<times> db" where
  "claim_delivery_sql owner lease_expires tenant now db =
     (case head_option (select_ordered (delivery_due tenant now) delivery_order (db_deliveries db)) of
        None \<Rightarrow> (None, db)
      | Some selected \<Rightarrow>
          (let claims = (\<lambda>d. d_id d = d_id selected \<and> delivery_due tenant now d)
           in (map_option (claim_delivery_set owner lease_expires) (select_first claims (db_deliveries db)),
               db\<lparr>db_deliveries := update_where claims (claim_delivery_set owner lease_expires) (db_deliveries db)\<rparr>)))"

definition d1_claim_pending_delivery ::
  "claim_pending_delivery \<Rightarrow> db \<Rightarrow> delivery option store_result \<times> db" where
  "d1_claim_pending_delivery r db =
     (case claim_pending_validate r of
        Err e \<Rightarrow> (Err e, db)
      | Ok _ \<Rightarrow>
     (case i64_from_u64 (cp_lease_seconds r) ''lease_seconds'' of
        Err e \<Rightarrow> (Err e, db)
      | Ok lease_seconds \<Rightarrow>
     (case claim_delivery_sql (cp_owner r) (add64 (cp_now r) lease_seconds) (cp_tenant r) (cp_now r) db of
        (row, db) \<Rightarrow> (Ok row, db))))"

definition next_attempt_epoch_seconds :: "complete_delivery \<Rightarrow> int" where
  "next_attempt_epoch_seconds r =
     (if dc_success r then dc_finished r else add64 (dc_finished r) delivery_retry_seconds)"

definition complete_delivery_sql :: "complete_delivery \<Rightarrow> db \<Rightarrow> delivery option \<times> db" where
  "complete_delivery_sql r db =
     (let held = delivery_held (dc_tenant r, dc_delivery r) (dc_owner r) (dc_finished r);
          completed = (\<lambda>d. d\<lparr>d_status := (if dc_success r then ''succeeded''
                 else if max_delivery_attempts \<le> d_attempts d then ''failed'' else ''pending''),
               d_next_attempt := next_attempt_epoch_seconds r,
               d_delivered := (if dc_success r then Some (dc_finished r) else None),
               d_error := dc_error r, d_lease_owner := None, d_lease_expires := None\<rparr>)
      in (map_option completed (select_first held (db_deliveries db)),
          db\<lparr>db_deliveries := update_where held completed (db_deliveries db)\<rparr>))"

definition d1_complete_delivery :: "complete_delivery \<Rightarrow> db \<Rightarrow> delivery store_result \<times> db" where
  "d1_complete_delivery r db =
     (case complete_delivery_validate r of
        Err e \<Rightarrow> (Err e, db)
      | Ok _ \<Rightarrow>
     (case complete_delivery_sql r db of
        (row, db) \<Rightarrow> (ok_or (Store_Conflict ''delivery is not leased by this worker'') row, db)))"

definition d1_list_deliveries :: "list_deliveries \<Rightarrow> db \<Rightarrow> delivery list store_result" where
  "d1_list_deliveries r db =
     and_then (list_deliveries_validate r) (\<lambda>_.
       Ok (take (ld_limit r)
         (select_ordered (\<lambda>d. d_tenant d = ld_tenant r \<and>
             (case ld_status r of None \<Rightarrow> True | Some s \<Rightarrow> d_status d = s))
           (\<lambda>d. (d_created d, d_id d)) (db_deliveries db))))"

section \<open>History\<close>

definition d1_history_for_tenant :: "history_request \<Rightarrow> db \<Rightarrow> record_observation list" where
  "d1_history_for_tenant r db =
     (let since = (case hr_since r of Some t \<Rightarrow> t | None \<Rightarrow> i64_min)
      in map (\<lambda>x. \<lparr>ob_record = rw_record x, ob_watch = None, ob_first = rw_first x, ob_last = rw_last x\<rparr>)
           (take (hr_limit r)
             (select_ordered (\<lambda>x. rw_tenant x = hr_tenant r \<and> since \<le> rw_last x)
               (\<lambda>x. (- rw_last x, rec_source (rw_record x), rec_id (rw_record x))) (db_records db))))"

text \<open>\<open>HISTORY_WATCH_SQL\<close>: the rows of the join, with the watch id of the joined row.\<close>

definition history_watch_sql :: "string \<Rightarrow> string \<Rightarrow> int \<Rightarrow> db \<Rightarrow> (watch_record_row \<times> record_row) list" where
  "history_watch_sql tenant watch_id since db =
     select_ordered (\<lambda>(wr, x). wr_tenant wr = tenant \<and> wr_watch wr = watch_id \<and> since \<le> wr_last wr \<and>
         record_row_key x = (wr_tenant wr, wr_source wr, wr_id wr))
       (\<lambda>(wr, x). (- wr_last wr, rec_source (rw_record x), rec_id (rw_record x)))
       (List.product (db_watch_records db) (db_records db))"

definition d1_history_for_watch :: "history_request \<Rightarrow> db \<Rightarrow> record_observation list" where
  "d1_history_for_watch r db =
     (let since = (case hr_since r of Some t \<Rightarrow> t | None \<Rightarrow> i64_min);
          watch_id = (case hr_watch r of Some w \<Rightarrow> w | None \<Rightarrow> [])
      in map (\<lambda>(wr, x). \<lparr>ob_record = rw_record x, ob_watch = Some (wr_watch wr), ob_first = wr_first wr, ob_last = wr_last wr\<rparr>)
           (take (hr_limit r) (history_watch_sql (hr_tenant r) watch_id since db)))"

definition d1_history :: "history_request \<Rightarrow> db \<Rightarrow> record_observation list store_result" where
  "d1_history r db =
     and_then (history_validate r) (\<lambda>_.
       Ok (if hr_watch r \<noteq> None then d1_history_for_watch r db else d1_history_for_tenant r db))"

end
