(* ===== verification/Sqlite_Store.thy ===== *)
theory Sqlite_Store
  imports Store_Db
begin

text \<open>
  The SQLite store (\<open>comsat-store-sqlite/src/{lib,ops,deliveries,sql}.rs\<close>): one definition per
  operation of the \<open>Store\<close> trait and per helper, a function of the request and the database that
  returns the result and the new database. A transaction that fails is rolled back, so an error
  inside one leaves the database as it was. The connection's mutex makes operations atomic.
\<close>

section \<open>Watches\<close>

definition sq_upsert_source :: "upsert_source \<Rightarrow> db \<Rightarrow> unit store_result \<times> db" where
  "sq_upsert_source r db =
     (case upsert_source_validate r of
        Err e \<Rightarrow> (Err e, db)
      | Ok _ \<Rightarrow> (Ok (), db\<lparr>db_sources := upsert_by source_row_key
          \<lparr>so_tenant = us_tenant r, so_source = us_source r, so_enabled = us_enabled r, so_observed = us_observed r\<rparr>
          (\<lambda>row. row\<lparr>so_enabled := us_enabled r, so_observed := us_observed r\<rparr>) (db_sources db)\<rparr>))"

definition sq_create_watch :: "libs \<Rightarrow> create_watch \<Rightarrow> db \<Rightarrow> watch store_result \<times> db" where
  "sq_create_watch L r db =
     (case create_watch_validate L r of
        Err e \<Rightarrow> (Err e, db)
      | Ok _ \<Rightarrow>
          (let watch = into_watch r
           in case i64_from_u64 (w_interval watch) ''interval_seconds'' of
                Err e \<Rightarrow> (Err e, db)
              | Ok _ \<Rightarrow>
                  if exists_where (\<lambda>w. watch_key w = watch_key watch) (db_watches db)
                  then (Err (Store_Backend ''UNIQUE constraint failed: watches.tenant_id, watches.watch_id''), db)
                  else (Ok watch, db\<lparr>db_watches := db_watches db @ [watch]\<rparr>)))"

definition sq_list_watches :: "string \<Rightarrow> db \<Rightarrow> watch list store_result" where
  "sq_list_watches tenant db =
     and_then (validate_tenant_id tenant) (\<lambda>_.
       Ok (select_ordered (\<lambda>w. w_tenant w = tenant) (\<lambda>w. (w_created w, w_id w)) (db_watches db)))"

definition sq_delete_watch :: "delete_watch \<Rightarrow> db \<Rightarrow> bool store_result \<times> db" where
  "sq_delete_watch r db =
     (case delete_watch_validate r of
        Err e \<Rightarrow> (Err e, db)
      | Ok _ \<Rightarrow>
          (let k = (dw_tenant r, dw_watch r);
               changed = count_where (\<lambda>w. watch_key w = k) (db_watches db)
           in (Ok (0 < changed), delete_watch_rows k db)))"

definition select_due_watch :: "claim_due_watch \<Rightarrow> db \<Rightarrow> watch option" where
  "select_due_watch r db =
     head_option (select_ordered (watch_due (cd_tenant r) (cd_now r)) due_order (db_watches db))"

definition sq_claim_due_watch :: "claim_due_watch \<Rightarrow> db \<Rightarrow> claimed_watch option store_result \<times> db" where
  "sq_claim_due_watch r db =
     (case claim_due_watch_validate r of
        Err e \<Rightarrow> (Err e, db)
      | Ok _ \<Rightarrow>
          (case select_due_watch r db of
             None \<Rightarrow> (Ok None, db)
           | Some watch \<Rightarrow>
               (case i64_from_u64 (cd_lease_seconds r) ''lease_seconds'' of
                  Err e \<Rightarrow> (Err e, db)
                | Ok lease_seconds \<Rightarrow>
                    (let lease_expires = add64 (cd_now r) lease_seconds;
                         claims = (\<lambda>w. watch_key w = (cd_tenant r, w_id watch) \<and> w_enabled w
                           \<and> w_next_due w \<le> cd_now r \<and> lease_free (cd_now r) w);
                         changed = count_where claims (db_watches db);
                         db = db\<lparr>db_watches := update_where claims
                           (\<lambda>w. w\<lparr>w_lease_owner := Some (cd_owner r), w_lease_expires := Some lease_expires\<rparr>)
                           (db_watches db)\<rparr>
                     in if changed = 0 then (Ok None, db)
                        else (Ok (Some \<lparr>cl_watch = watch, cl_owner = cd_owner r, cl_expires = lease_expires\<rparr>), db)))))"

section \<open>Runs\<close>

definition fetch_watch_run :: "start_watch_run \<Rightarrow> db \<Rightarrow> watch_run store_result" where
  "fetch_watch_run r db =
     ok_or (Store_Conflict ''watch is not currently claimed by this worker'')
       (select_first (\<lambda>x. run_idem x = (sr_tenant r, sr_watch r, sr_key r)) (db_runs db))"

definition new_run :: "start_watch_run \<Rightarrow> watch_run" where
  "new_run r = \<lparr>run_tenant = sr_tenant r, run_watch = sr_watch r, run_id = sr_run r, run_key = sr_key r,
     run_owner = sr_owner r, run_status = ''running'', run_started = sr_started r, run_finished = None,
     run_error = None\<rparr>"

text \<open>\<open>START_RUN_SQL\<close>: the conflict target is checked before the primary key.\<close>

definition sq_start_watch_run :: "start_watch_run \<Rightarrow> db \<Rightarrow> watch_run store_result \<times> db" where
  "sq_start_watch_run r db =
     (case start_watch_run_validate r of
        Err e \<Rightarrow> (Err e, db)
      | Ok _ \<Rightarrow>
          if \<not> exists_where (lease_held (sr_tenant r, sr_watch r) (sr_owner r) (sr_started r)) (db_watches db)
             \<or> exists_where (\<lambda>x. run_idem x = run_idem (new_run r)) (db_runs db)
          then (fetch_watch_run r db, db)
          else if exists_where (\<lambda>x. run_pk x = run_pk (new_run r)) (db_runs db)
          then (Err (Store_Backend
             ''UNIQUE constraint failed: watch_runs.tenant_id, watch_runs.watch_id, watch_runs.run_id''), db)
          else (let db = db\<lparr>db_runs := db_runs db @ [new_run r]\<rparr> in (fetch_watch_run r db, db)))"

definition watch_interval_under_lease :: "complete_watch_run \<Rightarrow> db \<Rightarrow> nat store_result" where
  "watch_interval_under_lease r db =
     ok_or (Store_Conflict ''watch lease is not held by this worker'')
       (map_option w_interval (select_first
         (lease_held (cr_tenant r, cr_watch r) (cr_owner r) (cr_finished r)) (db_watches db)))"

definition run_running :: "complete_watch_run \<Rightarrow> watch_run \<Rightarrow> bool" where
  "run_running r x \<longleftrightarrow> run_pk x = (cr_tenant r, cr_watch r, cr_run r) \<and> run_owner x = cr_owner r \<and>
     run_status x = ''running''"

definition ensure_running_run :: "complete_watch_run \<Rightarrow> db \<Rightarrow> unit store_result" where
  "ensure_running_run r db =
     ok_or (Store_Conflict ''watch run is not running under this lease'')
       (map_option (\<lambda>_. ()) (select_first (run_running r) (db_runs db)))"

definition upsert_record :: "complete_watch_run \<Rightarrow> comsat_record \<Rightarrow> db \<Rightarrow> nat \<times> db" where
  "upsert_record r x db =
     (let row = \<lparr>rw_tenant = cr_tenant r, rw_record = x, rw_first = cr_finished r, rw_last = cr_finished r\<rparr>;
          already = exists_where (\<lambda>y. record_row_key y = record_row_key row) (db_records db)
      in (if already then 0 else 1,
          db\<lparr>db_records := upsert_by record_row_key row
            (\<lambda>y. y\<lparr>rw_record := x, rw_last := cr_finished r\<rparr>) (db_records db)\<rparr>))"

definition upsert_watch_record :: "complete_watch_run \<Rightarrow> comsat_record \<Rightarrow> db \<Rightarrow> nat \<times> db" where
  "upsert_watch_record r x db =
     (let row = \<lparr>wr_tenant = cr_tenant r, wr_watch = cr_watch r, wr_source = rec_source x, wr_id = rec_id x,
            wr_first = cr_finished r, wr_last = cr_finished r\<rparr>;
          already = exists_where (\<lambda>y. watch_record_key y = watch_record_key row) (db_watch_records db)
      in (if already then 0 else 1,
          db\<lparr>db_watch_records := upsert_by watch_record_key row
            (\<lambda>y. y\<lparr>wr_last := cr_finished r\<rparr>) (db_watch_records db)\<rparr>))"

text \<open>The loop over the records: how many are new, and the ones new to the watch.\<close>

fun store_records ::
  "complete_watch_run \<Rightarrow> comsat_record list \<Rightarrow> db \<Rightarrow> nat \<times> nat \<times> comsat_record list \<times> db" where
  "store_records r [] db = (0, 0, [], db)"
| "store_records r (x # xs) db =
     (case upsert_record r x db of (inserted, db) \<Rightarrow>
      case upsert_watch_record r x db of (watch_inserted, db) \<Rightarrow>
      case store_records r xs db of (n, m, new, db) \<Rightarrow>
        (inserted + n, watch_inserted + m, (if watch_inserted = 1 then x # new else new), db))"

definition insert_run_delivery :: "complete_watch_run \<Rightarrow> comsat_record list \<Rightarrow> db \<Rightarrow> db" where
  "insert_run_delivery r new_records db =
     (case cr_delivery r of
        None \<Rightarrow> db
      | Some d \<Rightarrow>
          if new_records = [] then db
          else if exists_where (\<lambda>x. delivery_key x = (cr_tenant r, rd_id d)) (db_deliveries db) then db
          else db\<lparr>db_deliveries := db_deliveries db @ [run_delivery_row r d new_records]\<rparr>)"

definition finish_run_and_watch :: "complete_watch_run \<Rightarrow> string \<Rightarrow> nat \<Rightarrow> db \<Rightarrow> db" where
  "finish_run_and_watch r status interval db =
     db\<lparr>db_runs := update_where (\<lambda>x. run_pk x = (cr_tenant r, cr_watch r, cr_run r))
          (\<lambda>x. x\<lparr>run_status := status, run_finished := Some (cr_finished r), run_error := cr_error r\<rparr>)
          (db_runs db),
        db_watches := update_where (\<lambda>w. watch_key w = (cr_tenant r, cr_watch r))
          (\<lambda>w. w\<lparr>w_cursor := cr_cursor r, w_next_due := add64 (cr_finished r) (int interval),
                 w_lease_owner := None, w_lease_expires := None\<rparr>)
          (db_watches db)\<rparr>"

definition sq_complete_watch_run ::
  "libs \<Rightarrow> complete_watch_run \<Rightarrow> db \<Rightarrow> watch_run_outcome store_result \<times> db" where
  "sq_complete_watch_run L r db =
     (case complete_watch_run_validate L r of
        Err e \<Rightarrow> (Err e, db)
      | Ok _ \<Rightarrow>
     (case watch_interval_under_lease r db of
        Err e \<Rightarrow> (Err e, db)
      | Ok interval \<Rightarrow>
     (case ensure_running_run r db of
        Err e \<Rightarrow> (Err e, db)
      | Ok _ \<Rightarrow>
     (case store_records r (cr_records r) db of (inserted, watch_inserted, new_records, db) \<Rightarrow>
        (let db = insert_run_delivery r new_records db;
             status = run_status_of (cr_error r);
             db = finish_run_and_watch r status interval db
         in (Ok \<lparr>out_run = cr_run r, out_status = status, out_seen = length (cr_records r),
               out_inserted = inserted, out_watch_inserted = watch_inserted\<rparr>, db))))))"

section \<open>History\<close>

definition history_for_tenant :: "history_request \<Rightarrow> db \<Rightarrow> record_observation list" where
  "history_for_tenant r db =
     (let since = (case hr_since r of Some t \<Rightarrow> t | None \<Rightarrow> i64_min)
      in map (\<lambda>x. \<lparr>ob_record = rw_record x, ob_watch = None, ob_first = rw_first x, ob_last = rw_last x\<rparr>)
           (take (hr_limit r)
             (select_ordered (\<lambda>x. rw_tenant x = hr_tenant r \<and> since \<le> rw_last x)
               (\<lambda>x. (- rw_last x, rec_source (rw_record x), rec_id (rw_record x))) (db_records db))))"

text \<open>The join pairs each row of the watch with the record it refers to.\<close>

definition watch_record_join :: "string \<Rightarrow> string \<Rightarrow> db \<Rightarrow> (watch_record_row \<times> record_row) list" where
  "watch_record_join tenant watch_id db =
     concat (map (\<lambda>wr. map (\<lambda>x. (wr, x))
         (filter (\<lambda>x. record_row_key x = (wr_tenant wr, wr_source wr, wr_id wr)) (db_records db)))
       (filter (\<lambda>wr. wr_tenant wr = tenant \<and> wr_watch wr = watch_id) (db_watch_records db)))"

definition history_for_watch :: "history_request \<Rightarrow> db \<Rightarrow> record_observation list" where
  "history_for_watch r db =
     (let since = (case hr_since r of Some t \<Rightarrow> t | None \<Rightarrow> i64_min);
          watch_id = (case hr_watch r of Some w \<Rightarrow> w | None \<Rightarrow> [])
      in map (\<lambda>(wr, x). \<lparr>ob_record = rw_record x, ob_watch = Some watch_id, ob_first = wr_first wr, ob_last = wr_last wr\<rparr>)
           (take (hr_limit r)
             (select_ordered (\<lambda>(wr, x). since \<le> wr_last wr)
               (\<lambda>(wr, x). (- wr_last wr, rec_source (rw_record x), rec_id (rw_record x)))
               (watch_record_join (hr_tenant r) watch_id db))))"

definition sq_history :: "history_request \<Rightarrow> db \<Rightarrow> record_observation list store_result" where
  "sq_history r db =
     and_then (history_validate r) (\<lambda>_.
       Ok (if hr_watch r \<noteq> None then history_for_watch r db else history_for_tenant r db))"

section \<open>Deliveries\<close>

definition next_delivery :: "string \<Rightarrow> int \<Rightarrow> db \<Rightarrow> delivery option" where
  "next_delivery tenant now db =
     head_option (select_ordered (delivery_due tenant now) delivery_order (db_deliveries db))"

definition fetch_claimed_delivery :: "claim_pending_delivery \<Rightarrow> db \<Rightarrow> delivery option" where
  "fetch_claimed_delivery r db =
     head_option (select_ordered
       (\<lambda>d. d_tenant d = cp_tenant r \<and> d_lease_owner d = Some (cp_owner r) \<and> d_status d = ''delivering'')
       (\<lambda>d. (case d_lease_expires d of None \<Rightarrow> (1 :: int, 0) | Some e \<Rightarrow> (0, - e), d_id d)) (db_deliveries db))"

definition claim_delivery_rows :: "claim_pending_delivery \<Rightarrow> int \<Rightarrow> db \<Rightarrow> nat \<times> db" where
  "claim_delivery_rows r lease_expires db =
     (case next_delivery (cp_tenant r) (cp_now r) db of
        None \<Rightarrow> (0, db)
      | Some next \<Rightarrow>
          (let claims = (\<lambda>d. d_id d = d_id next \<and> delivery_due (cp_tenant r) (cp_now r) d)
           in (count_where claims (db_deliveries db),
               db\<lparr>db_deliveries := update_where claims
                 (claim_delivery_set (cp_owner r) lease_expires) (db_deliveries db)\<rparr>)))"

definition sq_claim_pending_delivery ::
  "claim_pending_delivery \<Rightarrow> db \<Rightarrow> delivery option store_result \<times> db" where
  "sq_claim_pending_delivery r db =
     (case claim_pending_validate r of
        Err e \<Rightarrow> (Err e, db)
      | Ok _ \<Rightarrow>
     (case i64_from_u64 (cp_lease_seconds r) ''lease_seconds'' of
        Err e \<Rightarrow> (Err e, db)
      | Ok lease_seconds \<Rightarrow>
     (case claim_delivery_rows r (add64 (cp_now r) lease_seconds) db of (changed, db) \<Rightarrow>
        if changed = 0 then (Ok None, db) else (Ok (fetch_claimed_delivery r db), db))))"

definition delivery_status :: "bool \<Rightarrow> string" where
  "delivery_status success = (if success then ''succeeded'' else ''pending'')"

definition next_attempt_epoch :: "complete_delivery \<Rightarrow> int" where
  "next_attempt_epoch r =
     (if dc_success r then dc_finished r else add64 (dc_finished r) delivery_retry_seconds)"

definition complete_delivery_set :: "complete_delivery \<Rightarrow> delivery \<Rightarrow> delivery" where
  "complete_delivery_set r d =
     d\<lparr>d_status := (if delivery_status (dc_success r) = ''succeeded'' then ''succeeded''
          else if max_delivery_attempts \<le> d_attempts d then ''failed'' else ''pending''),
       d_next_attempt := next_attempt_epoch r,
       d_delivered := (if dc_success r then Some (dc_finished r) else None),
       d_error := dc_error r, d_lease_owner := None, d_lease_expires := None\<rparr>"

definition fetch_delivery :: "string \<Rightarrow> string \<Rightarrow> db \<Rightarrow> delivery store_result" where
  "fetch_delivery tenant delivery_id db =
     ok_or (Store_Conflict ''delivery was not found'')
       (select_first (\<lambda>d. delivery_key d = (tenant, delivery_id)) (db_deliveries db))"

definition sq_complete_delivery :: "complete_delivery \<Rightarrow> db \<Rightarrow> delivery store_result \<times> db" where
  "sq_complete_delivery r db =
     (case complete_delivery_validate r of
        Err e \<Rightarrow> (Err e, db)
      | Ok _ \<Rightarrow>
          (let held = delivery_held (dc_tenant r, dc_delivery r) (dc_owner r) (dc_finished r);
               changed = count_where held (db_deliveries db);
               db' = db\<lparr>db_deliveries := update_where held (complete_delivery_set r) (db_deliveries db)\<rparr>
           in if changed \<noteq> 1 then (Err (Store_Conflict ''delivery is not leased by this worker''), db')
              else (fetch_delivery (dc_tenant r) (dc_delivery r) db', db')))"

definition sq_list_deliveries :: "list_deliveries \<Rightarrow> db \<Rightarrow> delivery list store_result" where
  "sq_list_deliveries r db =
     and_then (list_deliveries_validate r) (\<lambda>_.
       Ok (take (ld_limit r)
         (select_ordered (\<lambda>d. d_tenant d = ld_tenant r \<and>
             (case ld_status r of None \<Rightarrow> True | Some s \<Rightarrow> d_status d = s))
           (\<lambda>d. (d_created d, d_id d)) (db_deliveries db))))"

end
