(* ===== verification/Store_Contract.thy ===== *)
theory Store_Contract
  imports Store_Db
begin

text \<open>
  What the watch runner and the delivery sender rely on, whichever store they run on (the
  \<open>Store\<close> trait of \<open>comsat-store/src/store.rs\<close>): an unexpired lease is exclusive, a run completes
  once, and a delivery follows its life cycle. The laws are proved of both stores in their own
  theories.
\<close>

datatype store_request =
    Req_Upsert upsert_source
  | Req_Create create_watch
  | Req_Delete delete_watch
  | Req_Claim claim_due_watch
  | Req_Start start_watch_run
  | Req_Complete complete_watch_run
  | Req_Claim_Delivery claim_pending_delivery
  | Req_Complete_Delivery complete_delivery

section \<open>Leases and runs\<close>

definition lease_of :: "string \<times> string \<Rightarrow> string \<Rightarrow> int \<Rightarrow> db \<Rightarrow> bool" where
  "lease_of k owner e db \<longleftrightarrow>
     (\<exists>w \<in> set (db_watches db). watch_key w = k \<and> w_lease_owner w = Some owner \<and> w_lease_expires w = Some e)"

text \<open>A lease ends by its holder's completion before it expires, by the deletion of its watch, or by a
  claim after it expired; every other request leaves it.\<close>

fun leaves_lease :: "string \<times> string \<Rightarrow> string \<Rightarrow> int \<Rightarrow> store_request \<Rightarrow> bool" where
  "leaves_lease k owner e (Req_Claim r) \<longleftrightarrow> cd_now r < e"
| "leaves_lease k owner e (Req_Delete r) \<longleftrightarrow> (dw_tenant r, dw_watch r) \<noteq> k"
| "leaves_lease k owner e (Req_Complete r) \<longleftrightarrow>
     (cr_tenant r, cr_watch r) \<noteq> k \<or> cr_owner r \<noteq> owner \<or> e \<le> cr_finished r"
| "leaves_lease k owner e _ \<longleftrightarrow> True"

fun keeps_watch :: "string \<times> string \<Rightarrow> store_request \<Rightarrow> bool" where
  "keeps_watch k (Req_Delete r) \<longleftrightarrow> (dw_tenant r, dw_watch r) \<noteq> k"
| "keeps_watch k _ \<longleftrightarrow> True"

definition run_over :: "string \<times> string \<times> string \<Rightarrow> db \<Rightarrow> bool" where
  "run_over pk db \<longleftrightarrow> (\<exists>x \<in> set (db_runs db). run_pk x = pk \<and> run_status x \<noteq> ''running'')"

definition run_of :: "complete_watch_run \<Rightarrow> string \<times> string \<times> string" where
  "run_of r = (cr_tenant r, cr_watch r, cr_run r)"

lemma lease_of_append: "lease_of k owner e db \<Longrightarrow> lease_of k owner e (db\<lparr>db_watches := db_watches db @ ws\<rparr>)"
  by (auto simp: lease_of_def)

lemma update_where_image: "d \<in> set rows \<Longrightarrow> (if P d then f d else d) \<in> set (update_where P f rows)"
  by (simp add: table_simps)

lemma lease_of_update:
  assumes "lease_of k owner e db"
    and "\<And>w. w \<in> set (db_watches db) \<Longrightarrow> watch_key w = k \<Longrightarrow> w_lease_owner w = Some owner \<Longrightarrow>
      w_lease_expires w = Some e \<Longrightarrow> \<not> P w"
  shows "lease_of k owner e (db\<lparr>db_watches := update_where P f (db_watches db)\<rparr>)"
proof -
  from assms(1) obtain w where w: "w \<in> set (db_watches db)" "watch_key w = k" "w_lease_owner w = Some owner"
      "w_lease_expires w = Some e"
    by (auto simp: lease_of_def)
  have "w \<in> set (update_where P f (db_watches db))"
    using update_where_image [OF w(1), of P f] assms(2) [OF w] by simp
  with w show ?thesis by (auto simp: lease_of_def)
qed

lemma lease_of_cong: "db_watches db' = db_watches db \<Longrightarrow> lease_of k owner e db' = lease_of k owner e db"
  by (simp add: lease_of_def)

lemma run_over_cong: "db_runs db' = db_runs db \<Longrightarrow> run_over k db' = run_over k db"
  by (simp add: run_over_def)

lemma run_over_update:
  assumes "run_over k db" "\<And>x. x \<in> set (db_runs db) \<Longrightarrow> P x \<Longrightarrow> run_pk (f x) = run_pk x \<and> run_status (f x) \<noteq> ''running''"
  shows "run_over k (db\<lparr>db_runs := update_where P f (db_runs db)\<rparr>)"
proof -
  from assms(1) obtain x where x: "x \<in> set (db_runs db)" "run_pk x = k" "run_status x \<noteq> ''running''"
    by (auto simp: run_over_def)
  let ?y = "if P x then f x else x"
  have "?y \<in> set (update_where P f (db_runs db))" using x(1) by (auto simp: table_simps)
  moreover have "run_pk ?y = k" "run_status ?y \<noteq> ''running''" using x assms(2) by auto
  ultimately show ?thesis by (auto simp: run_over_def)
qed

locale watch_store =
  fixes exec :: "store_request \<Rightarrow> db \<Rightarrow> db"
    and claim :: "claim_due_watch \<Rightarrow> db \<Rightarrow> claimed_watch option store_result \<times> db"
    and complete :: "complete_watch_run \<Rightarrow> db \<Rightarrow> watch_run_outcome store_result \<times> db"
  assumes exec_ok: "db_ok db \<Longrightarrow> db_ok (exec q db)"
    and exec_complete: "exec (Req_Complete r) db = snd (complete r db)"
    and exec_claim: "exec (Req_Claim c) db = snd (claim c db)"
    and lease_kept: "db_ok db \<Longrightarrow> lease_of k owner e db \<Longrightarrow> leaves_lease k owner e q \<Longrightarrow> lease_of k owner e (exec q db)"
    and claim_due: "db_ok db \<Longrightarrow> claim c db = (Ok (Some got), db') \<Longrightarrow>
      (\<exists>w \<in> set (db_watches db). watch_key w = watch_key (cl_watch got) \<and> watch_due (cd_tenant c) (cd_now c) w) \<and>
      lease_of (watch_key (cl_watch got)) (cd_owner c) (cl_expires got) db'"
    and complete_running: "db_ok db \<Longrightarrow> complete r db = (Ok out, db') \<Longrightarrow> \<not> run_over (run_of r) db \<and> run_over (run_of r) db'"
    and over_kept: "db_ok db \<Longrightarrow> run_over (t, w, i) db \<Longrightarrow> keeps_watch (t, w) q \<Longrightarrow> run_over (t, w, i) (exec q db)"
begin

lemma all_ok: "db_ok db \<Longrightarrow> db_ok (fold exec qs db)"
  by (induction qs arbitrary: db) (auto intro: exec_ok)

lemma lease_kept_all:
  "db_ok db \<Longrightarrow> lease_of k owner e db \<Longrightarrow> list_all (leaves_lease k owner e) qs \<Longrightarrow> lease_of k owner e (fold exec qs db)"
  by (induction qs arbitrary: db) (auto intro: exec_ok lease_kept)

lemma exclusive:
  assumes "db_ok db" "claim c db = (Ok (Some got), db')"
    and "list_all (leaves_lease (watch_key (cl_watch got)) (cd_owner c) (cl_expires got)) qs"
    and "claim c2 (fold exec qs db') = (Ok (Some got2), db2)" "cd_now c2 < cl_expires got"
  shows "watch_key (cl_watch got2) \<noteq> watch_key (cl_watch got)"
proof
  assume same: "watch_key (cl_watch got2) = watch_key (cl_watch got)"
  have ok': "db_ok db'" using exec_ok [OF assms(1), of "Req_Claim c"] assms(2) by (simp add: exec_claim)
  let ?db = "fold exec qs db'"
  have "db_ok ?db" using ok' by (rule all_ok)
  then obtain w where w: "w \<in> set (db_watches ?db)" "watch_key w = watch_key (cl_watch got)"
      "watch_due (cd_tenant c2) (cd_now c2) w"
    using claim_due [OF _ assms(4)] same by auto
  have "lease_of (watch_key (cl_watch got)) (cd_owner c) (cl_expires got) ?db"
    by (rule lease_kept_all [OF ok' _ assms(3)]) (use claim_due [OF assms(1,2)] in blast)
  then obtain v where v: "v \<in> set (db_watches ?db)" "watch_key v = watch_key (cl_watch got)"
      "w_lease_expires v = Some (cl_expires got)"
    by (auto simp: lease_of_def)
  have "v = w"
    using \<open>db_ok ?db\<close> v w by (intro unique_byD [of watch_key "db_watches ?db"]) (auto simp: db_ok_def keys_ok_def)
  with v w(3) assms(5) show False by (auto simp: watch_due_def lease_free_def expired_at_def)
qed

lemma over_kept_all:
  "db_ok db \<Longrightarrow> run_over (t, w, i) db \<Longrightarrow> list_all (keeps_watch (t, w)) qs \<Longrightarrow> run_over (t, w, i) (fold exec qs db)"
  by (induction qs arbitrary: db) (auto intro: exec_ok over_kept)

lemma completes_once:
  assumes "db_ok db" "complete r db = (Ok out, db')" "list_all (keeps_watch (cr_tenant r, cr_watch r)) qs"
    and "run_of r2 = run_of r"
  shows "\<not> is_ok (fst (complete r2 (fold exec qs db')))"
proof
  assume "is_ok (fst (complete r2 (fold exec qs db')))"
  then obtain out2 db2 where c2: "complete r2 (fold exec qs db') = (Ok out2, db2)"
    by (cases "complete r2 (fold exec qs db')") (auto simp: is_ok_iff)
  have ok': "db_ok db'" using exec_ok [OF assms(1), of "Req_Complete r"] assms(2) by (simp add: exec_complete)
  have "run_over (run_of r) (fold exec qs db')"
    using over_kept_all [OF ok' _ assms(3)] complete_running [OF assms(1,2)] by (simp add: run_of_def)
  with complete_running [OF all_ok [OF ok'] c2] assms(4) show False by simp
qed

end

section \<open>Deliveries\<close>

text \<open>The steps of one delivery.\<close>

inductive delivery_step :: "delivery \<Rightarrow> delivery \<Rightarrow> bool" where
  stays: "delivery_step d d"
| claimed: "delivery_due (d_tenant d) now d \<Longrightarrow> delivery_step d (claim_delivery_set owner e d)"
| succeeds: "delivery_held (delivery_key d) owner now d \<Longrightarrow> delivery_step d
    (d\<lparr>d_status := ''succeeded'', d_next_attempt := now, d_delivered := Some now, d_error := err,
       d_lease_owner := None, d_lease_expires := None\<rparr>)"
| retries: "delivery_held (delivery_key d) owner now d \<Longrightarrow> d_attempts d < max_delivery_attempts \<Longrightarrow> delivery_step d
    (d\<lparr>d_status := ''pending'', d_next_attempt := add64 now delivery_retry_seconds, d_delivered := None,
       d_error := err, d_lease_owner := None, d_lease_expires := None\<rparr>)"
| fails: "delivery_held (delivery_key d) owner now d \<Longrightarrow> max_delivery_attempts \<le> d_attempts d \<Longrightarrow> delivery_step d
    (d\<lparr>d_status := ''failed'', d_next_attempt := add64 now delivery_retry_seconds, d_delivered := None,
       d_error := err, d_lease_owner := None, d_lease_expires := None\<rparr>)"

inductive_cases delivery_stepE: "delivery_step d d'"

lemma delivery_step_key: "delivery_step d d' \<Longrightarrow> delivery_key d' = delivery_key d \<and> d_watch d' = d_watch d"
  by (cases rule: delivery_step.cases) (auto simp: delivery_key_def claim_delivery_set_def)

lemma delivery_step_attempts: "delivery_step d d' \<Longrightarrow> d_attempts d \<le> d_attempts d' \<and> d_attempts d' \<le> d_attempts d + 1"
  by (cases rule: delivery_step.cases) (auto simp: claim_delivery_set_def)

lemma delivery_step_terminal:
  "delivery_step d d' \<Longrightarrow> d_status d = ''succeeded'' \<or> d_status d = ''failed'' \<Longrightarrow> d' = d"
  by (cases rule: delivery_step.cases) (auto simp: delivery_due_def delivery_held_def)

lemma delivery_steps_terminal:
  "delivery_step\<^sup>*\<^sup>* d d' \<Longrightarrow> d_status d = ''succeeded'' \<or> d_status d = ''failed'' \<Longrightarrow> d' = d"
  by (induction rule: rtranclp_induct) (auto dest: delivery_step_terminal)

lemma delivery_steps_attempts: "delivery_step\<^sup>*\<^sup>* d d' \<Longrightarrow> d_attempts d \<le> d_attempts d'"
  by (induction rule: rtranclp_induct) (auto dest: delivery_step_attempts)

lemma delivery_steps_key: "delivery_step\<^sup>*\<^sup>* d d' \<Longrightarrow> delivery_key d' = delivery_key d \<and> d_watch d' = d_watch d"
  by (induction rule: rtranclp_induct) (auto dest: delivery_step_key)

text \<open>A statement that updates some rows makes a step of each delivery it updates.\<close>

lemma delivery_update_step:
  assumes "d \<in> set ds" "ds' = ds \<or> (\<exists>e. ds' = update_where P (f e) ds)"
    and "\<And>e. P d \<Longrightarrow> delivery_step d (f e d)"
  shows "\<exists>d' \<in> set ds'. delivery_step d d'"
proof (cases "ds' = ds")
  case True
  with assms(1) stays show ?thesis by blast
next
  case False
  with assms(2) obtain e where e: "ds' = update_where P (f e) ds" by blast
  have "delivery_step d (if P d then f e d else d)" using assms(3) stays by simp
  with update_where_image [OF assms(1), of P "f e"] e show ?thesis by blast
qed

locale delivery_queue =
  fixes exec :: "store_request \<Rightarrow> db \<Rightarrow> db"
  assumes queue_ok: "db_ok db \<Longrightarrow> db_ok (exec q db)"
    and steps: "db_ok db \<Longrightarrow> d \<in> set (db_deliveries db) \<Longrightarrow> keeps_watch (d_tenant d, d_watch d) q \<Longrightarrow>
      \<exists>d' \<in> set (db_deliveries (exec q db)). delivery_step d d'"
begin

lemma queue_all_ok: "db_ok db \<Longrightarrow> db_ok (fold exec qs db)"
  by (induction qs arbitrary: db) (auto intro: queue_ok)

lemma life:
  "db_ok db \<Longrightarrow> d \<in> set (db_deliveries db) \<Longrightarrow> list_all (keeps_watch (d_tenant d, d_watch d)) qs \<Longrightarrow>
   \<exists>d' \<in> set (db_deliveries (fold exec qs db)). delivery_step\<^sup>*\<^sup>* d d'"
proof (induction qs arbitrary: db d)
  case Nil
  then show ?case by auto
next
  case (Cons q qs)
  from steps [OF Cons.prems(1,2)] Cons.prems(3) obtain d1 where
    d1: "d1 \<in> set (db_deliveries (exec q db))" "delivery_step d d1" by auto
  have same: "d_tenant d1 = d_tenant d" "d_watch d1 = d_watch d"
    using delivery_step_key [OF d1(2)] by (auto simp: delivery_key_def)
  from Cons.IH [OF queue_ok [OF Cons.prems(1)] d1(1)] Cons.prems(3) same obtain d' where
    "d' \<in> set (db_deliveries (fold exec qs (exec q db)))" "delivery_step\<^sup>*\<^sup>* d1 d'" by auto
  with d1(2) show ?case by (auto intro: converse_rtranclp_into_rtranclp)
qed

text \<open>The row of a key at two moments is related by steps.\<close>

lemma life_unique:
  assumes "db_ok db" "d \<in> set (db_deliveries db)" "list_all (keeps_watch (d_tenant d, d_watch d)) qs"
    and "d' \<in> set (db_deliveries (fold exec qs db))" "delivery_key d' = delivery_key d"
  shows "delivery_step\<^sup>*\<^sup>* d d'"
proof -
  from life [OF assms(1-3)] obtain d2 where
    d2: "d2 \<in> set (db_deliveries (fold exec qs db))" "delivery_step\<^sup>*\<^sup>* d d2" by auto
  have "delivery_key d2 = delivery_key d" using delivery_steps_key [OF d2(2)] by blast
  then have "d2 = d'"
    using queue_all_ok [OF assms(1), of qs] d2(1) assms(4,5)
    by (intro unique_byD [of delivery_key "db_deliveries (fold exec qs db)"]) (auto simp: db_ok_def keys_ok_def)
  with d2 show ?thesis by simp
qed

end

end
