(* ===== verification/Sqlite_Laws.thy ===== *)
theory Sqlite_Laws
  imports Sqlite_Store Store_Contract
begin

text \<open>
  What the operations of \<open>Sqlite_Store\<close> keep: the constraints of the schema, the lease of a watch
  that has not expired, a run that has finished, and the life cycle of a delivery.
\<close>

fun sq_apply :: "libs \<Rightarrow> store_request \<Rightarrow> db \<Rightarrow> db" where
  "sq_apply L (Req_Upsert r) db = snd (sq_upsert_source r db)"
| "sq_apply L (Req_Create r) db = snd (sq_create_watch L r db)"
| "sq_apply L (Req_Delete r) db = snd (sq_delete_watch r db)"
| "sq_apply L (Req_Claim r) db = snd (sq_claim_due_watch r db)"
| "sq_apply L (Req_Start r) db = snd (sq_start_watch_run r db)"
| "sq_apply L (Req_Complete r) db = snd (sq_complete_watch_run L r db)"
| "sq_apply L (Req_Claim_Delivery r) db = snd (sq_claim_pending_delivery r db)"
| "sq_apply L (Req_Complete_Delivery r) db = snd (sq_complete_delivery r db)"

section \<open>The constraints are kept\<close>

lemma upsert_source_ok: "db_ok db \<Longrightarrow> db_ok (snd (sq_upsert_source r db))"
  by (cases "upsert_source_validate r")
    (auto simp: sq_upsert_source_def db_ok_def keys_ok_def refs_ok_def rows_ok_def source_row_key_def
      intro!: unique_by_upsert)

lemma append_watch_ok:
  assumes "db_ok db" "\<not> exists_where (\<lambda>w. watch_key w = watch_key watch) (db_watches db)" "watch_ok watch"
  shows "db_ok (db\<lparr>db_watches := db_watches db @ [watch]\<rparr>)"
  using assms by (auto simp: db_ok_def keys_ok_def refs_ok_def rows_ok_def unique_by_append exists_where_def)

lemma into_watch_ok: "create_watch_validate L r = Ok () \<Longrightarrow> watch_ok (into_watch r)"
  by (auto simp: create_watch_validate_def watch_ok_def into_watch_def dest!: validate_interval_bounds)

lemma create_watch_ok: "db_ok db \<Longrightarrow> db_ok (snd (sq_create_watch L r db))"
  using append_watch_ok [of db "into_watch r"] into_watch_ok [of L r]
  by (auto simp: sq_create_watch_def Let_def split: sum.splits)

lemma delete_watch_ok: "db_ok db \<Longrightarrow> db_ok (snd (sq_delete_watch r db))"
  by (auto simp: sq_delete_watch_def Let_def delete_watch_rows_ok split: sum.splits)

lemma claim_due_watch_ok: "db_ok db \<Longrightarrow> db_ok (snd (sq_claim_due_watch r db))"
  by (auto simp: sq_claim_due_watch_def Let_def watch_key_def watch_ok_lease
      split: sum.splits option.splits intro!: db_ok_watches)

lemma append_run_ok:
  assumes "db_ok db" "\<not> exists_where (\<lambda>x. run_idem x = run_idem run) (db_runs db)"
    "\<not> exists_where (\<lambda>x. run_pk x = run_pk run) (db_runs db)" "run_ok run"
    "(run_tenant run, run_watch run) \<in> watch_key ` set (db_watches db)"
  shows "db_ok (db\<lparr>db_runs := db_runs db @ [run]\<rparr>)"
  using assms by (auto simp: db_ok_def keys_ok_def refs_ok_def rows_ok_def unique_by_append exists_where_def)

lemma lease_held_watch: "exists_where (lease_held k owner now) ws \<Longrightarrow> k \<in> watch_key ` set ws"
  by (auto simp: exists_where_def lease_held_def)

lemma start_watch_run_ok: "db_ok db \<Longrightarrow> db_ok (snd (sq_start_watch_run r db))"
  using append_run_ok [of db "new_run r"] lease_held_watch [of "(sr_tenant r, sr_watch r)"]
  by (auto simp: sq_start_watch_run_def Let_def new_run_def run_ok_def split: sum.splits)

definition kept_tables :: "db \<Rightarrow> db \<Rightarrow> bool" where
  "kept_tables db db' \<longleftrightarrow> db_sources db' = db_sources db \<and> db_watches db' = db_watches db \<and>
     db_runs db' = db_runs db \<and> db_deliveries db' = db_deliveries db"

lemma upsert_record_ok:
  assumes "db_ok db" "upsert_record r x db = (n, db')"
  shows "db_ok db' \<and> kept_tables db db' \<and> db_watch_records db' = db_watch_records db \<and>
    record_row_key ` set (db_records db') =
      insert (cr_tenant r, record_key x) (record_row_key ` set (db_records db))"
proof -
  let ?row = "\<lparr>rw_tenant = cr_tenant r, rw_record = x, rw_first = cr_finished r, rw_last = cr_finished r\<rparr>"
  let ?f = "\<lambda>y. y\<lparr>rw_record := x, rw_last := cr_finished r\<rparr>"
  have db': "db' = db\<lparr>db_records := upsert_by record_row_key ?row ?f (db_records db)\<rparr>"
    using assms(2) by (simp add: upsert_record_def Let_def)
  have same: "record_row_key y = record_row_key ?row \<Longrightarrow> record_row_key (?f y) = record_row_key y" for y
    by (simp add: record_row_key_def)
  have k: "record_row_key ` set (db_records db') = insert (record_row_key ?row) (record_row_key ` set (db_records db))"
    unfolding db' using keys_upsert [of record_row_key ?row ?f "db_records db", OF same] by simp
  have "unique_by record_row_key (db_records db')"
    unfolding db' upsert_by_def using assms(1) same
    by (auto simp: db_ok_def keys_ok_def unique_by_append exists_where_def
        unique_by_update [where P = "\<lambda>y. record_row_key y = record_row_key ?row"])
  then have "db_ok db'"
    using assms(1) k by (auto simp: db' db_ok_def keys_ok_def refs_ok_def rows_ok_def)
  with k db' show ?thesis by (simp add: kept_tables_def record_row_key_def)
qed

lemma upsert_watch_record_ok:
  assumes "db_ok db" "upsert_watch_record r x db = (n, db')"
    and "(cr_tenant r, cr_watch r) \<in> watch_key ` set (db_watches db)"
    and "(cr_tenant r, record_key x) \<in> record_row_key ` set (db_records db)"
  shows "db_ok db' \<and> kept_tables db db' \<and> db_records db' = db_records db"
proof -
  let ?row = "\<lparr>wr_tenant = cr_tenant r, wr_watch = cr_watch r, wr_source = rec_source x, wr_id = rec_id x,
      wr_first = cr_finished r, wr_last = cr_finished r\<rparr>"
  let ?f = "\<lambda>y. y\<lparr>wr_last := cr_finished r\<rparr>"
  have db': "db' = db\<lparr>db_watch_records := upsert_by watch_record_key ?row ?f (db_watch_records db)\<rparr>"
    using assms(2) by (simp add: upsert_watch_record_def Let_def)
  have same: "watch_record_key (?f y) = watch_record_key y" for y by (simp add: watch_record_key_def)
  have "unique_by watch_record_key (db_watch_records db')"
    unfolding db' using assms(1) same by (simp add: db_ok_def keys_ok_def unique_by_upsert)
  moreover have "\<forall>y \<in> set (db_watch_records db').
      (wr_tenant y, wr_watch y) \<in> watch_key ` set (db_watches db) \<and>
      (wr_tenant y, wr_source y, wr_id y) \<in> record_row_key ` set (db_records db)"
    using assms(1,3,4) unfolding db'
    by (auto simp: upsert_by_def db_ok_def refs_ok_def record_key_def elim!: update_where_congE)
  ultimately have "db_ok db'" using assms(1) by (auto simp: db' db_ok_def keys_ok_def refs_ok_def rows_ok_def)
  with db' show ?thesis by (simp add: kept_tables_def)
qed

lemma kept_tables_trans: "kept_tables a b \<Longrightarrow> kept_tables b c \<Longrightarrow> kept_tables a c"
  by (simp add: kept_tables_def)

lemma store_records_ok:
  "db_ok db \<Longrightarrow> (cr_tenant r, cr_watch r) \<in> watch_key ` set (db_watches db) \<Longrightarrow>
   store_records r xs db = (n, m, new, db') \<Longrightarrow> db_ok db' \<and> kept_tables db db'"
proof (induction xs arbitrary: db n m new)
  case Nil
  then show ?case by (simp add: kept_tables_def)
next
  case (Cons x xs)
  obtain i db1 where a: "upsert_record r x db = (i, db1)" by (cases "upsert_record r x db")
  obtain j db2 where b: "upsert_watch_record r x db1 = (j, db2)" by (cases "upsert_watch_record r x db1")
  obtain n2 m2 new2 where c: "store_records r xs db2 = (n2, m2, new2, db')"
    using Cons.prems(3) a b by (auto split: prod.splits)
  from upsert_record_ok [OF Cons.prems(1) a] have 1: "db_ok db1" "kept_tables db db1"
    "(cr_tenant r, record_key x) \<in> record_row_key ` set (db_records db1)" by auto
  have w1: "(cr_tenant r, cr_watch r) \<in> watch_key ` set (db_watches db1)"
    using 1(2) Cons.prems(2) by (simp add: kept_tables_def)
  from upsert_watch_record_ok [OF 1(1) b w1 1(3)] have 2: "db_ok db2" "kept_tables db1 db2" by auto
  have "(cr_tenant r, cr_watch r) \<in> watch_key ` set (db_watches db2)"
    using 2(2) w1 by (simp add: kept_tables_def)
  from Cons.IH [OF 2(1) this c] 1(2) 2(2) kept_tables_trans show ?case by blast
qed

lemma insert_run_delivery_ok:
  assumes "db_ok db" "(cr_tenant r, cr_watch r) \<in> watch_key ` set (db_watches db)"
  shows "db_ok (insert_run_delivery r new db)"
  using assms run_delivery_row_ok
  by (auto simp: insert_run_delivery_def db_ok_def keys_ok_def refs_ok_def rows_ok_def unique_by_append
      exists_where_def delivery_key_def run_delivery_row_def split: option.splits)

lemma finish_run_and_watch_ok:
  assumes "db_ok db" "status = ''succeeded'' \<or> status = ''failed''"
  shows "db_ok (finish_run_and_watch r status i db)"
proof -
  let ?P = "\<lambda>x. run_pk x = (cr_tenant r, cr_watch r, cr_run r)"
  let ?f = "\<lambda>x. x\<lparr>run_status := status, run_finished := Some (cr_finished r), run_error := cr_error r\<rparr>"
  let ?db = "db\<lparr>db_runs := update_where ?P ?f (db_runs db)\<rparr>"
  have u: "unique_by run_pk (update_where ?P ?f (db_runs db)) = unique_by run_pk (db_runs db)"
    "unique_by run_idem (update_where ?P ?f (db_runs db)) = unique_by run_idem (db_runs db)"
    by (rule unique_by_update, simp add: run_pk_def run_idem_def)+
  have "list_all run_ok (update_where ?P ?f (db_runs db))"
    using assms by (intro list_all_update_where) (auto simp: db_ok_def rows_ok_def run_ok_def)
  moreover have "\<forall>x \<in> set (update_where ?P ?f (db_runs db)). (run_tenant x, run_watch x) \<in> watch_key ` set (db_watches db)"
    using assms(1) by (auto simp: db_ok_def refs_ok_def elim!: update_where_congE)
  ultimately have "db_ok ?db" using assms(1) u by (auto simp: db_ok_def keys_ok_def refs_ok_def rows_ok_def)
  then have "db_ok (?db\<lparr>db_watches := update_where (\<lambda>w. watch_key w = (cr_tenant r, cr_watch r))
      (\<lambda>w. w\<lparr>w_cursor := cr_cursor r, w_next_due := add64 (cr_finished r) (int i),
             w_lease_owner := None, w_lease_expires := None\<rparr>) (db_watches ?db)\<rparr>)"
    by (rule db_ok_watches) (simp_all add: watch_key_def watch_ok_unlease)
  then show ?thesis by (simp add: finish_run_and_watch_def)
qed

lemma complete_cases:
  assumes "sq_complete_watch_run L r db = (res, db')"
  obtains e where "res = Err e" "db' = db"
  | w run n m new db1 where "w \<in> set (db_watches db)"
      "lease_held (cr_tenant r, cr_watch r) (cr_owner r) (cr_finished r) w"
      "run \<in> set (db_runs db)" "run_running r run"
      "store_records r (cr_records r) db = (n, m, new, db1)"
      "db' = finish_run_and_watch r (run_status_of (cr_error r)) (w_interval w) (insert_run_delivery r new db1)"
      "res = Ok \<lparr>out_run = cr_run r, out_status = run_status_of (cr_error r), out_seen = length (cr_records r),
               out_inserted = n, out_watch_inserted = m\<rparr>"
proof (cases "complete_watch_run_validate L r")
  case (Inl e)
  with assms have "res = Err e" "db' = db" by (simp_all add: sq_complete_watch_run_def)
  then show ?thesis by (rule that(1))
next
  case v: (Inr u)
  show ?thesis
  proof (cases "watch_interval_under_lease r db")
    case (Inl e)
    with assms v have "res = Err e" "db' = db" by (simp_all add: sq_complete_watch_run_def)
    then show ?thesis by (rule that(1))
  next
    case i: (Inr i)
    then obtain w where w: "select_first (lease_held (cr_tenant r, cr_watch r) (cr_owner r) (cr_finished r)) (db_watches db) = Some w"
        "i = w_interval w"
      by (auto simp: watch_interval_under_lease_def)
    show ?thesis
    proof (cases "ensure_running_run r db")
      case (Inl e)
      with assms v i have "res = Err e" "db' = db" by (simp_all add: sq_complete_watch_run_def)
      then show ?thesis by (rule that(1))
    next
      case e: (Inr u2)
      then obtain run where run: "select_first (run_running r) (db_runs db) = Some run"
        by (auto simp: ensure_running_run_def)
      obtain n m new db1 where s: "store_records r (cr_records r) db = (n, m, new, db1)"
        by (metis prod_cases4)
      from assms v i e s have "db' = finish_run_and_watch r (run_status_of (cr_error r)) i (insert_run_delivery r new db1)"
        "res = Ok \<lparr>out_run = cr_run r, out_status = run_status_of (cr_error r), out_seen = length (cr_records r),
               out_inserted = n, out_watch_inserted = m\<rparr>"
        by (simp_all add: sq_complete_watch_run_def Let_def)
      with that(2) s w(2) select_first_SomeD [OF w(1)] select_first_SomeD [OF run] show ?thesis by blast
    qed
  qed
qed

lemma run_status_of_cases: "run_status_of e = ''succeeded'' \<or> run_status_of e = ''failed''"
  by (cases e) (simp_all add: run_status_of_def)

lemma complete_watch_run_ok: "db_ok db \<Longrightarrow> db_ok (snd (sq_complete_watch_run L r db))"
proof -
  assume ok: "db_ok db"
  obtain res db' where c: "sq_complete_watch_run L r db = (res, db')" by (cases "sq_complete_watch_run L r db")
  then show ?thesis
  proof (cases rule: complete_cases)
    case (1 e)
    with ok c show ?thesis by simp
  next
    case (2 w run n m new db1)
    have k: "(cr_tenant r, cr_watch r) \<in> watch_key ` set (db_watches db)"
      using 2(1,2) unfolding lease_held_def by (metis imageI)
    from store_records_ok [OF ok k 2(5)] have "db_ok db1" "kept_tables db db1" by auto
    with k have "db_ok (insert_run_delivery r new db1)"
      by (intro insert_run_delivery_ok) (simp_all add: kept_tables_def)
    with 2(6) c run_status_of_cases show ?thesis by (simp add: finish_run_and_watch_ok)
  qed
qed

lemma claim_delivery_rows_ok: "db_ok db \<Longrightarrow> db_ok (snd (claim_delivery_rows r e db))"
  by (auto simp: claim_delivery_rows_def Let_def delivery_due_def claim_delivery_set_def delivery_key_def
      split: option.splits intro!: db_ok_deliveries [where f = "claim_delivery_set (cp_owner r) e"]
        claim_delivery_set_ok)

lemma claim_pending_delivery_ok: "db_ok db \<Longrightarrow> db_ok (snd (sq_claim_pending_delivery r db))"
  using claim_delivery_rows_ok [of db r]
  by (auto simp: sq_claim_pending_delivery_def split: sum.splits prod.splits) (metis snd_conv)+

lemma complete_delivery_set_ok:
  "delivery_ok d \<Longrightarrow> d_status d = ''delivering'' \<Longrightarrow> delivery_ok (complete_delivery_set r d)"
  by (auto simp: delivery_ok_def complete_delivery_set_def delivery_status_def)

lemma complete_delivery_ok: "db_ok db \<Longrightarrow> db_ok (snd (sq_complete_delivery r db))"
  by (auto simp: sq_complete_delivery_def Let_def delivery_held_def complete_delivery_set_ok
      split: sum.splits
      intro!: db_ok_deliveries)
    (simp_all add: complete_delivery_set_def delivery_key_def)

lemma sq_apply_ok: "db_ok db \<Longrightarrow> db_ok (sq_apply L q db)"
  by (cases q)
    (simp_all add: upsert_source_ok create_watch_ok delete_watch_ok claim_due_watch_ok start_watch_run_ok
      complete_watch_run_ok claim_pending_delivery_ok complete_delivery_ok)

section \<open>Leases and runs\<close>

lemma complete_tables:
  assumes "db_ok db" "w \<in> set (db_watches db)" "watch_key w = (cr_tenant r, cr_watch r)"
    and "store_records r xs db = (n, m, new, db1)"
    and "db' = finish_run_and_watch r st i (insert_run_delivery r new db1)"
  shows "db_watches db' = update_where (\<lambda>w. watch_key w = (cr_tenant r, cr_watch r))
      (\<lambda>w. w\<lparr>w_cursor := cr_cursor r, w_next_due := add64 (cr_finished r) (int i),
             w_lease_owner := None, w_lease_expires := None\<rparr>) (db_watches db)"
    and "db_runs db' = update_where (\<lambda>x. run_pk x = run_of r)
      (\<lambda>x. x\<lparr>run_status := st, run_finished := Some (cr_finished r), run_error := cr_error r\<rparr>) (db_runs db)"
    and "set (db_deliveries db) \<subseteq> set (db_deliveries db')"
proof -
  have k: "(cr_tenant r, cr_watch r) \<in> watch_key ` set (db_watches db)" using assms(2,3) by (metis imageI)
  have t: "kept_tables db db1" using store_records_ok [OF assms(1) k assms(4)] by blast
  have d: "db_watches (insert_run_delivery r new db1) = db_watches db1"
    "db_runs (insert_run_delivery r new db1) = db_runs db1"
    "set (db_deliveries db1) \<subseteq> set (db_deliveries (insert_run_delivery r new db1))"
    by (auto simp: insert_run_delivery_def split: option.splits)
  show "db_watches db' = update_where (\<lambda>w. watch_key w = (cr_tenant r, cr_watch r))
      (\<lambda>w. w\<lparr>w_cursor := cr_cursor r, w_next_due := add64 (cr_finished r) (int i),
             w_lease_owner := None, w_lease_expires := None\<rparr>) (db_watches db)"
    and "db_runs db' = update_where (\<lambda>x. run_pk x = run_of r)
      (\<lambda>x. x\<lparr>run_status := st, run_finished := Some (cr_finished r), run_error := cr_error r\<rparr>) (db_runs db)"
    and "set (db_deliveries db) \<subseteq> set (db_deliveries db')"
    using t d by (simp_all add: assms(5) finish_run_and_watch_def kept_tables_def run_of_def)
qed

lemma sq_complete_lease:
  assumes ok: "db_ok db" and lease: "lease_of k owner e db" and q: "leaves_lease k owner e (Req_Complete r)"
  shows "lease_of k owner e (snd (sq_complete_watch_run L r db))"
proof -
  obtain res db' where c: "sq_complete_watch_run L r db = (res, db')" by (cases "sq_complete_watch_run L r db")
  then show ?thesis
  proof (cases rule: complete_cases)
    case (1 e)
    with c lease show ?thesis by simp
  next
    case (2 w run n m new db1)
    have wk: "watch_key w = (cr_tenant r, cr_watch r)" using 2(2) by (simp add: lease_held_def)
    note watches = complete_tables(1) [OF ok 2(1) wk 2(5,6)]
    have "\<not> watch_key v = (cr_tenant r, cr_watch r)"
      if v: "v \<in> set (db_watches db)" "watch_key v = k" "w_lease_owner v = Some owner" "w_lease_expires v = Some e" for v
    proof
      assume "watch_key v = (cr_tenant r, cr_watch r)"
      with wk have "v = w"
        using ok v(1) 2(1) by (intro unique_byD [of watch_key "db_watches db"]) (auto simp: db_ok_def keys_ok_def)
      with v 2(2) q show False by (auto simp: lease_held_def expires_after_def)
    qed
    then have "lease_of k owner e (db\<lparr>db_watches := db_watches db'\<rparr>)"
      unfolding watches by (rule lease_of_update [OF lease])
    with c show ?thesis by (simp add: lease_of_def)
  qed
qed

lemma sq_lease_kept:
  assumes ok: "db_ok db" and lease: "lease_of k owner e db" and q: "leaves_lease k owner e q"
  shows "lease_of k owner e (sq_apply L q db)"
proof (cases q)
  case (Req_Upsert r)
  with lease show ?thesis
    by (auto simp: sq_upsert_source_def lease_of_def split: sum.splits)
next
  case (Req_Create r)
  with lease show ?thesis
    by (auto simp: sq_create_watch_def Let_def lease_of_append split: sum.splits)
next
  case (Req_Delete r)
  with lease q show ?thesis
    by (auto simp: sq_delete_watch_def Let_def delete_watch_rows_def lease_of_def table_simps split: sum.splits)
next
  case (Req_Claim r)
  with lease q show ?thesis
    by (auto simp: sq_claim_due_watch_def Let_def lease_free_def expired_at_def
        split: sum.splits option.splits intro!: lease_of_update)
next
  case (Req_Start r)
  with lease show ?thesis
    by (auto simp: sq_start_watch_run_def Let_def lease_of_def split: sum.splits)
next
  case (Req_Complete r)
  with sq_complete_lease [OF ok lease] q show ?thesis by simp
next
  case (Req_Claim_Delivery r)
  with lease show ?thesis
    by (auto simp: sq_claim_pending_delivery_def claim_delivery_rows_def Let_def lease_of_def
        split: sum.splits option.splits)
next
  case (Req_Complete_Delivery r)
  with lease show ?thesis
    by (auto simp: sq_complete_delivery_def Let_def lease_of_def split: sum.splits)
qed

lemma select_due_watch_Some:
  assumes "select_due_watch r db = Some w"
  shows "w \<in> set (db_watches db) \<and> watch_due (cd_tenant r) (cd_now r) w \<and>
    (\<forall>v \<in> set (db_watches db). watch_due (cd_tenant r) (cd_now r) v \<longrightarrow> due_order w \<le> due_order v)"
  using head_option_select [OF assms [unfolded select_due_watch_def]] by blast

lemma sq_claim_Some:
  assumes "sq_claim_due_watch r db = (Ok (Some c), db')"
  shows "select_due_watch r db = Some (cl_watch c) \<and> cl_owner c = cd_owner r \<and>
    cl_expires c = add64 (cd_now r) (int (cd_lease_seconds r)) \<and>
    db' = db\<lparr>db_watches := update_where (\<lambda>w. watch_key w = watch_key (cl_watch c) \<and> w_enabled w
        \<and> w_next_due w \<le> cd_now r \<and> lease_free (cd_now r) w)
      (\<lambda>w. w\<lparr>w_lease_owner := Some (cd_owner r), w_lease_expires := Some (cl_expires c)\<rparr>) (db_watches db)\<rparr>"
proof (cases "claim_due_watch_validate r")
  case (Inl e)
  with assms show ?thesis by (simp add: sq_claim_due_watch_def)
next
  case v: (Inr u)
  then have "validate_interval (cd_lease_seconds r) = Ok ()" by (auto simp: claim_due_watch_validate_def)
  then have i: "i64_from_u64 (cd_lease_seconds r) n = Ok (int (cd_lease_seconds r))" for n
    by (rule interval_i64)
  show ?thesis
  proof (cases "select_due_watch r db")
    case None
    with assms v show ?thesis by (simp add: sq_claim_due_watch_def)
  next
    case (Some w)
    have "w_tenant w = cd_tenant r" using select_due_watch_Some [OF Some] by (simp add: watch_due_def)
    then have k: "watch_key w = (cd_tenant r, w_id w)" by (simp add: watch_key_def)
    from assms v i Some show ?thesis
      by (auto simp: sq_claim_due_watch_def Let_def k split: if_splits)
  qed
qed

lemma sq_claim_due:
  assumes ok: "db_ok db" and c: "sq_claim_due_watch r db = (Ok (Some c), db')"
  shows "(\<exists>w \<in> set (db_watches db). watch_key w = watch_key (cl_watch c) \<and> watch_due (cd_tenant r) (cd_now r) w) \<and>
    lease_of (watch_key (cl_watch c)) (cd_owner r) (cl_expires c) db'"
proof -
  note s = sq_claim_Some [OF c]
  let ?w = "cl_watch c"
  have w: "?w \<in> set (db_watches db)" "watch_due (cd_tenant r) (cd_now r) ?w"
    using select_due_watch_Some [of r db ?w] s by auto
  let ?w' = "?w\<lparr>w_lease_owner := Some (cd_owner r), w_lease_expires := Some (cl_expires c)\<rparr>"
  have "?w' \<in> set (db_watches db')"
    using w s by (auto simp: table_simps watch_due_def image_iff intro!: bexI [of _ ?w])
  then have "lease_of (watch_key ?w) (cd_owner r) (cl_expires c) db'"
    by (auto simp: lease_of_def watch_key_def intro!: bexI [of _ ?w'])
  with w show ?thesis by blast
qed

lemma sq_complete_running:
  assumes ok: "db_ok db" and c: "sq_complete_watch_run L r db = (Ok out, db')"
  shows "\<not> run_over (run_of r) db \<and> run_over (run_of r) db'"
  using c
proof (cases rule: complete_cases)
  case (2 w run n m new db1)
  have wk: "watch_key w = (cr_tenant r, cr_watch r)" using 2(2) by (simp add: lease_held_def)
  have run: "run_pk run = run_of r" "run_status run = ''running''"
    using 2(4) by (auto simp: run_running_def run_of_def)
  have "x = run" if "x \<in> set (db_runs db)" "run_pk x = run_of r" for x
    using ok that 2(3) run by (intro unique_byD [of run_pk "db_runs db"]) (auto simp: db_ok_def keys_ok_def)
  then have "\<not> run_over (run_of r) db" using run by (auto simp: run_over_def)
  moreover have "run_over (run_of r) db'"
    using update_where_image [OF 2(3), of "\<lambda>x. run_pk x = run_of r"] run run_status_of_cases [of "cr_error r"]
    unfolding run_over_def complete_tables(2) [OF ok 2(1) wk 2(5,6)]
    by (auto simp: run_pk_def intro!: bexI [rotated])
  ultimately show ?thesis by simp
qed simp

lemma sq_over_kept:
  assumes ok: "db_ok db" and over: "run_over (t, w, i) db" and q: "keeps_watch (t, w) q"
  shows "run_over (t, w, i) (sq_apply L q db)"
proof (cases q)
  case (Req_Upsert r)
  with over show ?thesis by (auto simp: sq_upsert_source_def run_over_def split: sum.splits)
next
  case (Req_Create r)
  with over show ?thesis by (auto simp: sq_create_watch_def Let_def run_over_def split: sum.splits)
next
  case (Req_Delete r)
  with over q show ?thesis
    by (auto simp: sq_delete_watch_def Let_def delete_watch_rows_def run_over_def run_pk_def table_simps split: sum.splits)
next
  case (Req_Claim r)
  with over show ?thesis
    by (auto simp: sq_claim_due_watch_def Let_def run_over_def split: sum.splits option.splits)
next
  case (Req_Start r)
  with over show ?thesis by (auto simp: sq_start_watch_run_def Let_def run_over_def split: sum.splits)
next
  case (Req_Complete r)
  obtain res db' where c: "sq_complete_watch_run L r db = (res, db')" by (cases "sq_complete_watch_run L r db")
  then have "run_over (t, w, i) db'"
  proof (cases rule: complete_cases)
    case (1 e)
    with over show ?thesis by simp
  next
    case (2 v run n m new db1)
    have wk: "watch_key v = (cr_tenant r, cr_watch r)" using 2(2) by (simp add: lease_held_def)
    have "run_over (t, w, i) (db\<lparr>db_runs := db_runs db'\<rparr>)"
      unfolding complete_tables(2) [OF ok 2(1) wk 2(5,6)]
      using run_status_of_cases [of "cr_error r"]
      by (intro run_over_update [OF over]) (auto simp: run_pk_def)
    then show ?thesis by (simp add: run_over_def)
  qed
  with Req_Complete c show ?thesis by simp
next
  case (Req_Claim_Delivery r)
  with over show ?thesis
    by (auto simp: sq_claim_pending_delivery_def claim_delivery_rows_def Let_def run_over_def
        split: sum.splits option.splits)
next
  case (Req_Complete_Delivery r)
  with over show ?thesis by (auto simp: sq_complete_delivery_def Let_def run_over_def split: sum.splits)
qed

interpretation sqlite: watch_store "sq_apply L" sq_claim_due_watch "sq_complete_watch_run L" for L
  by unfold_locales
    (simp_all add: sq_apply_ok sq_lease_kept sq_complete_running sq_over_kept sq_claim_due)

section \<open>Deliveries\<close>

lemma complete_delivery_step:
  assumes "delivery_held (dc_tenant r, dc_delivery r) (dc_owner r) (dc_finished r) d"
  shows "delivery_step d (complete_delivery_set r d)"
proof -
  have k: "delivery_held (delivery_key d) (dc_owner r) (dc_finished r) d"
    using assms by (simp add: delivery_held_def)
  show ?thesis
    using succeeds [OF k, of "dc_error r"] retries [OF k, of "dc_error r"] fails [OF k, of "dc_error r"]
    by (auto simp: complete_delivery_set_def delivery_status_def next_attempt_epoch_def not_le)
qed

lemma sq_delivery_steps:
  assumes ok: "db_ok db" and d: "d \<in> set (db_deliveries db)" and q: "keeps_watch (d_tenant d, d_watch d) q"
  shows "\<exists>d' \<in> set (db_deliveries (sq_apply L q db)). delivery_step d d'"
proof -
  have same: ?thesis if "set (db_deliveries db) \<subseteq> set (db_deliveries (sq_apply L q db))"
    using that d stays [of d] by blast
  show ?thesis
  proof (cases q)
    case (Req_Upsert r)
    then show ?thesis by (intro same) (auto simp: sq_upsert_source_def split: sum.splits)
  next
    case (Req_Create r)
    then show ?thesis by (intro same) (auto simp: sq_create_watch_def Let_def split: sum.splits)
  next
    case (Req_Delete r)
    with d q stays [of d] show ?thesis
      by (auto simp: sq_delete_watch_def Let_def delete_watch_rows_def table_simps split: sum.splits
          intro!: bexI [of _ d])
  next
    case (Req_Claim r)
    then show ?thesis
      by (intro same) (auto simp: sq_claim_due_watch_def Let_def split: sum.splits option.splits)
  next
    case (Req_Start r)
    then show ?thesis by (intro same) (auto simp: sq_start_watch_run_def Let_def split: sum.splits)
  next
    case (Req_Complete r)
    obtain res db' where c: "sq_complete_watch_run L r db = (res, db')" by (cases "sq_complete_watch_run L r db")
    then have "set (db_deliveries db) \<subseteq> set (db_deliveries db')"
    proof (cases rule: complete_cases)
      case (2 v run n m new db1)
      have "watch_key v = (cr_tenant r, cr_watch r)" using 2(2) by (simp add: lease_held_def)
      from complete_tables(3) [OF ok 2(1) this 2(5,6)] show ?thesis .
    qed simp
    with Req_Complete c show ?thesis by (intro same) simp
  next
    case (Req_Claim_Delivery r)
    let ?n = "next_delivery (cp_tenant r) (cp_now r) db"
    let ?e = "add64 (cp_now r) (int (cp_lease_seconds r))"
    let ?P = "\<lambda>d. d_id d = d_id (the ?n) \<and> delivery_due (cp_tenant r) (cp_now r) d"
    have "db_deliveries (sq_apply L q db) = db_deliveries db \<or>
        (\<exists>e. db_deliveries (sq_apply L q db) = update_where ?P (claim_delivery_set (cp_owner r) e) (db_deliveries db))"
      using Req_Claim_Delivery
      by (auto simp: sq_claim_pending_delivery_def claim_delivery_rows_def Let_def split: sum.splits option.splits)
    then show ?thesis
    proof (rule delivery_update_step [OF d])
      fix e assume "?P d"
      then have "delivery_due (d_tenant d) (cp_now r) d" by (simp add: delivery_due_def)
      then show "delivery_step d (claim_delivery_set (cp_owner r) e d)" by (rule claimed)
    qed
  next
    case (Req_Complete_Delivery r)
    let ?P = "delivery_held (dc_tenant r, dc_delivery r) (dc_owner r) (dc_finished r)"
    have "db_deliveries (sq_apply L q db) = db_deliveries db \<or>
        (\<exists>e :: unit. db_deliveries (sq_apply L q db) = update_where ?P (complete_delivery_set r) (db_deliveries db))"
      using Req_Complete_Delivery by (auto simp: sq_complete_delivery_def Let_def split: sum.splits)
    then show ?thesis
      by (rule delivery_update_step [OF d]) (rule complete_delivery_step)
  qed
qed

interpretation sqlite_queue: delivery_queue "sq_apply L" for L
  by unfold_locales (simp_all add: sq_apply_ok sq_delivery_steps)

end
