(* ===== verification/D1_Laws.thy ===== *)
theory D1_Laws
  imports D1_Store Sqlite_Laws
begin

text \<open>
  The D1 store against the SQLite store: every operation but a completion changes the database in
  the same way, so the laws of \<open>Sqlite_Laws\<close> hold of it too; the statements of a completion keep
  the constraints of the schema by themselves.
\<close>

section \<open>The operations that agree\<close>

lemma d1_upsert_source_same: "d1_upsert_source r db = sq_upsert_source r db"
  by (simp add: d1_upsert_source_def sq_upsert_source_def)

lemma d1_create_watch_same: "d1_create_watch L r db = sq_create_watch L r db"
  by (simp add: d1_create_watch_def sq_create_watch_def)

lemma d1_list_watches_same: "d1_list_watches t db = sq_list_watches t db"
  by (simp add: d1_list_watches_def sq_list_watches_def)

lemma d1_delete_watch_same: "d1_delete_watch r db = sq_delete_watch r db"
  by (simp add: d1_delete_watch_def sq_delete_watch_def)

lemma load_run_fetch: "load_run r db = fetch_watch_run r db"
  by (simp add: load_run_def fetch_watch_run_def)

lemma d1_start_watch_run_same: "d1_start_watch_run r db = sq_start_watch_run r db"
  by (simp only: d1_start_watch_run_def sq_start_watch_run_def load_run_fetch new_run_def [symmetric] Let_def)

lemma d1_list_deliveries_same: "d1_list_deliveries r db = sq_list_deliveries r db"
  by (simp add: d1_list_deliveries_def sq_list_deliveries_def)

lemma filter_product_join:
  "filter (\<lambda>(a, b). P a \<and> Q a b) (List.product as bs) =
   concat (map (\<lambda>a. map (Pair a) (filter (Q a) bs)) (filter P as))"
  by (induction as) (auto simp: filter_map comp_def)

lemma history_watch_sql_same:
  "history_watch_sql tenant watch_id since db =
   select_ordered (\<lambda>(wr, x). since \<le> wr_last wr)
     (\<lambda>(wr, x). (- wr_last wr, rec_source (rw_record x), rec_id (rw_record x))) (watch_record_join tenant watch_id db)"
proof -
  let ?P = "\<lambda>wr. wr_tenant wr = tenant \<and> wr_watch wr = watch_id"
  let ?Q = "\<lambda>wr x. record_row_key x = (wr_tenant wr, wr_source wr, wr_id wr)"
  have "filter (\<lambda>(wr, x). since \<le> wr_last wr) (watch_record_join tenant watch_id db) =
      filter (\<lambda>(wr, x). since \<le> wr_last wr)
        (filter (\<lambda>(wr, x). ?P wr \<and> ?Q wr x) (List.product (db_watch_records db) (db_records db)))"
    by (simp only: filter_product_join watch_record_join_def)
  also have "\<dots> = filter (\<lambda>(wr, x). wr_tenant wr = tenant \<and> wr_watch wr = watch_id \<and> since \<le> wr_last wr \<and>
         record_row_key x = (wr_tenant wr, wr_source wr, wr_id wr))
        (List.product (db_watch_records db) (db_records db))"
    unfolding filter_filter by (rule filter_cong) auto
  finally show ?thesis by (simp only: history_watch_sql_def select_ordered_def)
qed

lemma watch_record_join_watch: "(wr, x) \<in> set (watch_record_join t w db) \<Longrightarrow> wr_watch wr = w"
  by (auto simp: watch_record_join_def)

lemma d1_history_same: "d1_history r db = sq_history r db"
proof -
  have "d1_history_for_watch r db = history_for_watch r db"
    unfolding d1_history_for_watch_def history_for_watch_def history_watch_sql_same Let_def
    by (rule map_cong [OF refl])
      (auto dest!: in_set_takeD simp: table_simps watch_record_join_watch)
  then show ?thesis
    by (simp add: d1_history_def sq_history_def d1_history_for_tenant_def history_for_tenant_def)
qed

lemmas d1_same = d1_upsert_source_same d1_create_watch_same d1_list_watches_same d1_delete_watch_same
  d1_start_watch_run_same d1_list_deliveries_same

lemma claim_clause:
  "(watch_due t now w \<and> w_id w = i) = (watch_key w = (t, i) \<and> w_enabled w \<and> w_next_due w \<le> now \<and> lease_free now w)"
  by (auto simp: watch_due_def watch_key_def)

definition claimed_row :: "claimed_watch \<Rightarrow> claimed_watch" where
  "claimed_row c = c\<lparr>cl_watch := (cl_watch c)\<lparr>w_lease_owner := Some (cl_owner c), w_lease_expires := Some (cl_expires c)\<rparr>\<rparr>"

text \<open>A claim leases the same watch; D1 returns the row as updated, SQLite as selected.\<close>

lemma d1_claim_due_watch_same:
  assumes "db_ok db"
  shows "d1_claim_due_watch r db =
    (map_sum id (map_option claimed_row) (fst (sq_claim_due_watch r db)), snd (sq_claim_due_watch r db))"
proof (cases "claim_due_watch_validate r")
  case (Inl e)
  then show ?thesis by (simp add: d1_claim_due_watch_def sq_claim_due_watch_def)
next
  case v: (Inr u)
  then have "validate_interval (cd_lease_seconds r) = Ok ()" by (auto simp: claim_due_watch_validate_def)
  then have i: "i64_from_u64 (cd_lease_seconds r) n = Ok (int (cd_lease_seconds r))" for n
    by (rule interval_i64)
  show ?thesis
  proof (cases "select_due_watch r db")
    case None
    with v i show ?thesis
      by (simp add: d1_claim_due_watch_def sq_claim_due_watch_def claim_due_watch_sql_def select_due_watch_def)
  next
    case (Some w)
    let ?P = "\<lambda>v. watch_due (cd_tenant r) (cd_now r) v \<and> w_id v = w_id w"
    note w = select_due_watch_Some [OF Some]
    have u: "unique_by watch_key (db_watches db)" using assms by (simp add: db_ok_def keys_ok_def)
    have wP: "w \<in> set (db_watches db)" "?P w" using w by simp_all
    have one: "watch_key v = watch_key w" if "v \<in> set (db_watches db)" "?P v" for v
      using that wP by (simp add: watch_due_def watch_key_def)
    have f: "select_first ?P (db_watches db) = Some w" by (rule select_first_unique [where P = ?P, OF u wP one])
    have n: "count_where ?P (db_watches db) = 1" by (rule count_where_unique [where P = ?P, OF u wP one])
    from v i Some f n show ?thesis
      by (simp add: d1_claim_due_watch_def sq_claim_due_watch_def claim_due_watch_sql_def Let_def
          claim_clause [symmetric] select_due_watch_def [symmetric] claimed_row_def)
  qed
qed

lemma d1_claim_pending_delivery_snd: "snd (d1_claim_pending_delivery r db) = snd (sq_claim_pending_delivery r db)"
  by (auto simp: d1_claim_pending_delivery_def sq_claim_pending_delivery_def claim_delivery_sql_def
      claim_delivery_rows_def next_delivery_def Let_def split: sum.splits option.splits)

lemma complete_delivery_sql_set:
  "complete_delivery_sql r db =
     (let held = delivery_held (dc_tenant r, dc_delivery r) (dc_owner r) (dc_finished r)
      in (map_option (complete_delivery_set r) (select_first held (db_deliveries db)),
          db\<lparr>db_deliveries := update_where held (complete_delivery_set r) (db_deliveries db)\<rparr>))"
  by (simp add: complete_delivery_sql_def complete_delivery_set_def [abs_def] delivery_status_def
      next_attempt_epoch_def next_attempt_epoch_seconds_def Let_def)

lemma complete_delivery_set_key [simp]: "delivery_key (complete_delivery_set r d) = delivery_key d"
  by (simp add: complete_delivery_set_def delivery_key_def)

lemma d1_complete_delivery_same:
  assumes "db_ok db"
  shows "d1_complete_delivery r db = sq_complete_delivery r db"
proof (cases "complete_delivery_validate r")
  case (Inl e)
  then show ?thesis by (simp add: d1_complete_delivery_def sq_complete_delivery_def)
next
  case v: (Inr u)
  let ?k = "(dc_tenant r, dc_delivery r)"
  let ?P = "delivery_held ?k (dc_owner r) (dc_finished r)"
  let ?f = "complete_delivery_set r"
  let ?ds = "db_deliveries db"
  have u: "unique_by delivery_key ?ds" using assms by (simp add: db_ok_def keys_ok_def)
  have u': "unique_by delivery_key (update_where ?P ?f ?ds)" using u by (subst unique_by_update) simp_all
  show ?thesis
  proof (cases "select_first ?P ?ds")
    case None
    then have "count_where ?P ?ds = 0" by (simp add: count_where_zero table_simps)
    with v None show ?thesis
      by (simp add: d1_complete_delivery_def sq_complete_delivery_def complete_delivery_sql_set Let_def)
  next
    case (Some d)
    from select_first_SomeD [OF this] have d: "d \<in> set ?ds" "?P d" by auto
    have "delivery_key s = delivery_key d" if "s \<in> set ?ds" "?P s" for s using that d by (simp add: delivery_held_def)
    from count_where_unique [where P = ?P, OF u d this] have n: "count_where ?P ?ds = 1" .
    have "?f d \<in> set (update_where ?P ?f ?ds)" using update_where_image [OF d(1), of ?P ?f] d(2) by simp
    moreover have k: "delivery_key (?f d) = ?k" using d(2) by (simp add: delivery_held_def)
    ultimately have "select_first (\<lambda>x. delivery_key x = ?k) (update_where ?P ?f ?ds) = Some (?f d)"
      by (rule select_first_unique [OF u']) (simp only: k)
    with v Some n show ?thesis
      by (simp add: d1_complete_delivery_def sq_complete_delivery_def complete_delivery_sql_set Let_def fetch_delivery_def)
  qed
qed

fun d1_apply :: "libs \<Rightarrow> store_request \<Rightarrow> db \<Rightarrow> db" where
  "d1_apply L (Req_Upsert r) db = snd (d1_upsert_source r db)"
| "d1_apply L (Req_Create r) db = snd (d1_create_watch L r db)"
| "d1_apply L (Req_Delete r) db = snd (d1_delete_watch r db)"
| "d1_apply L (Req_Claim r) db = snd (d1_claim_due_watch r db)"
| "d1_apply L (Req_Start r) db = snd (d1_start_watch_run r db)"
| "d1_apply L (Req_Complete r) db = snd (d1_complete_watch_run L r db)"
| "d1_apply L (Req_Claim_Delivery r) db = snd (d1_claim_pending_delivery r db)"
| "d1_apply L (Req_Complete_Delivery r) db = snd (d1_complete_delivery r db)"

lemma d1_apply_same:
  "db_ok db \<Longrightarrow> (\<forall>r. q \<noteq> Req_Complete r) \<Longrightarrow> d1_apply L q db = sq_apply L q db"
  by (cases q)
    (simp_all add: d1_same d1_claim_due_watch_same d1_claim_pending_delivery_snd d1_complete_delivery_same)

section \<open>A completion\<close>

lemma insert_new_spec:
  "unique_by key rows \<Longrightarrow> insert_new key xs rows = (n, rows') \<Longrightarrow>
   unique_by key rows' \<and> key ` set rows' = key ` set rows \<union> key ` set xs \<and>
   set rows \<subseteq> set rows' \<and> set rows' \<subseteq> set rows \<union> set xs \<and> length rows' = length rows + n"
proof (induction xs arbitrary: rows n)
  case Nil
  then show ?case by simp
next
  case (Cons x xs)
  show ?case
  proof (cases "exists_where (\<lambda>r. key r = key x) rows")
    case True
    then have "key x \<in> key ` set rows" by (auto simp: exists_where_def) (metis imageI)
    with Cons.IH [OF Cons.prems(1)] Cons.prems(2) True show ?thesis by auto
  next
    case False
    then obtain m where m: "insert_new key xs (rows @ [x]) = (m, rows')" "n = m + 1"
      using Cons.prems(2) by (auto split: prod.splits)
    have "unique_by key (rows @ [x])"
      using Cons.prems(1) False by (auto simp: unique_by_append exists_where_def)
    with Cons.IH m show ?thesis by fastforce
  qed
qed

lemma gate_open_watch: "gate_open r db \<Longrightarrow> (cr_tenant r, cr_watch r) \<in> watch_key ` set (db_watches db)"
  unfolding gate_open_def gate_watch_def [abs_def] by (blast intro: lease_held_watch)

lemma gate_open_cong:
  "db_watches db' = db_watches db \<Longrightarrow> db_runs db' = db_runs db \<Longrightarrow> gate_open r db' = gate_open r db"
  by (simp add: gate_open_def)

lemma incoming_for_Some:
  "incoming_for r k = Some x \<Longrightarrow> x \<in> set (cr_records r) \<and> record_key x = k"
  unfolding incoming_for_def by (drule select_first_SomeD) simp

lemma insert_records_sql_ok:
  assumes "db_ok db" "insert_records_sql r db = (n, db')"
  shows "db_ok db' \<and> kept_tables db db' \<and> db_watch_records db' = db_watch_records db \<and>
    (gate_open r db \<longrightarrow> (\<forall>x \<in> set (cr_records r). (cr_tenant r, record_key x) \<in> record_row_key ` set (db_records db')))"
proof (cases "gate_open r db")
  case False
  with assms show ?thesis by (simp add: insert_records_sql_def kept_tables_def)
next
  case True
  let ?rows = "map (\<lambda>x. \<lparr>rw_tenant = cr_tenant r, rw_record = x, rw_first = cr_finished r, rw_last = cr_finished r\<rparr>) (cr_records r)"
  obtain rows where i: "insert_new record_row_key ?rows (db_records db) = (n, rows)"
    and db': "db' = db\<lparr>db_records := rows\<rparr>"
    using assms(2) True by (auto simp: insert_records_sql_def split: prod.splits)
  have "unique_by record_row_key (db_records db)" using assms(1) by (simp add: db_ok_def keys_ok_def)
  note s = insert_new_spec [OF this i]
  from s have "db_ok db'"
    using assms(1) by (auto simp: db' db_ok_def keys_ok_def refs_ok_def rows_ok_def)
  moreover have "(cr_tenant r, record_key x) \<in> record_row_key ` set rows" if "x \<in> set (cr_records r)" for x
  proof -
    have "record_row_key \<lparr>rw_tenant = cr_tenant r, rw_record = x, rw_first = cr_finished r, rw_last = cr_finished r\<rparr>
        \<in> record_row_key ` set ?rows"
      using that by auto
    with s show ?thesis by (simp add: record_row_key_def)
  qed
  ultimately show ?thesis by (simp add: db' kept_tables_def)
qed

lemma update_records_sql_ok:
  assumes "db_ok db"
  shows "db_ok (update_records_sql r db) \<and> kept_tables db (update_records_sql r db) \<and>
    db_watch_records (update_records_sql r db) = db_watch_records db \<and>
    record_row_key ` set (db_records (update_records_sql r db)) = record_row_key ` set (db_records db)"
proof -
  let ?P = "\<lambda>y. rw_tenant y = cr_tenant r \<and> incoming_for r (record_key (rw_record y)) \<noteq> None"
  let ?f = "\<lambda>y. case incoming_for r (record_key (rw_record y)) of
                 None \<Rightarrow> y | Some x \<Rightarrow> y\<lparr>rw_record := x, rw_last := cr_finished r\<rparr>"
  have k: "record_row_key (?f y) = record_row_key y" for y
    by (auto simp: record_row_key_def split: option.splits dest: incoming_for_Some)
  have "unique_by record_row_key (update_where ?P ?f (db_records db)) = unique_by record_row_key (db_records db)"
    by (rule unique_by_update) (rule k)
  moreover have "record_row_key ` set (update_where ?P ?f (db_records db)) = record_row_key ` set (db_records db)"
    by (rule keys_update_where) (rule k)
  ultimately show ?thesis
    using assms
    by (auto simp: update_records_sql_def kept_tables_def db_ok_def keys_ok_def refs_ok_def rows_ok_def)
qed

lemma insert_run_delivery_sql_ok:
  assumes "db_ok db"
  shows "db_ok (insert_run_delivery_sql r d db) \<and>
    db_watches (insert_run_delivery_sql r d db) = db_watches db \<and>
    db_runs (insert_run_delivery_sql r d db) = db_runs db \<and>
    db_records (insert_run_delivery_sql r d db) = db_records db \<and>
    set (db_deliveries db) \<subseteq> set (db_deliveries (insert_run_delivery_sql r d db))"
  using assms run_delivery_row_ok gate_open_watch [of r db]
  by (auto simp: insert_run_delivery_sql_def Let_def db_ok_def keys_ok_def refs_ok_def rows_ok_def unique_by_append
      exists_where_def delivery_key_def run_delivery_row_def)

lemma insert_watch_records_sql_ok:
  assumes "db_ok db" "insert_watch_records_sql r db = (n, db')"
    and "gate_open r db \<Longrightarrow> \<forall>x \<in> set (cr_records r). (cr_tenant r, record_key x) \<in> record_row_key ` set (db_records db)"
  shows "db_ok db' \<and> kept_tables db db'"
proof (cases "gate_open r db")
  case False
  with assms show ?thesis by (simp add: insert_watch_records_sql_def kept_tables_def)
next
  case True
  let ?rows = "map (\<lambda>x. \<lparr>wr_tenant = cr_tenant r, wr_watch = cr_watch r, wr_source = rec_source x, wr_id = rec_id x,
                wr_first = cr_finished r, wr_last = cr_finished r\<rparr>) (cr_records r)"
  obtain rows where i: "insert_new watch_record_key ?rows (db_watch_records db) = (n, rows)"
    and db': "db' = db\<lparr>db_watch_records := rows\<rparr>"
    using assms(2) True by (auto simp: insert_watch_records_sql_def split: prod.splits)
  have "unique_by watch_record_key (db_watch_records db)" using assms(1) by (simp add: db_ok_def keys_ok_def)
  note s = insert_new_spec [OF this i]
  have "(wr_tenant y, wr_watch y) \<in> watch_key ` set (db_watches db) \<and>
      (wr_tenant y, wr_source y, wr_id y) \<in> record_row_key ` set (db_records db)" if y: "y \<in> set rows" for y
  proof (cases "y \<in> set (db_watch_records db)")
    case True
    with assms(1) show ?thesis by (auto simp: db_ok_def refs_ok_def)
  next
    case False
    with s y have "y \<in> set ?rows" by blast
    then show ?thesis
      using assms(3) [OF True] gate_open_watch [OF True] by (auto simp: record_key_def)
  qed
  with s have "db_ok db'"
    using assms(1) by (auto simp: db' db_ok_def keys_ok_def refs_ok_def rows_ok_def)
  then show ?thesis by (simp add: db' kept_tables_def)
qed

lemma update_watch_records_sql_ok:
  assumes "db_ok db"
  shows "db_ok (update_watch_records_sql r db) \<and> kept_tables db (update_watch_records_sql r db)"
proof -
  let ?P = "\<lambda>y. wr_tenant y = cr_tenant r \<and> wr_watch y = cr_watch r \<and> incoming_for r (wr_source y, wr_id y) \<noteq> None"
  let ?f = "\<lambda>y. y\<lparr>wr_last := cr_finished r\<rparr>"
  have "unique_by watch_record_key (update_where ?P ?f (db_watch_records db)) =
      unique_by watch_record_key (db_watch_records db)"
    by (rule unique_by_update) (simp add: watch_record_key_def)
  moreover have "\<forall>y \<in> set (update_where ?P ?f (db_watch_records db)).
      (wr_tenant y, wr_watch y) \<in> watch_key ` set (db_watches db) \<and>
      (wr_tenant y, wr_source y, wr_id y) \<in> record_row_key ` set (db_records db)"
    using assms by (auto simp: db_ok_def refs_ok_def elim!: update_where_congE)
  ultimately show ?thesis
    using assms
    by (auto simp: update_watch_records_sql_def kept_tables_def db_ok_def keys_ok_def refs_ok_def rows_ok_def)
qed

definition completed_run :: "complete_watch_run \<Rightarrow> watch_run \<Rightarrow> watch_run" where
  "completed_run r x =
     x\<lparr>run_status := run_status_of (cr_error r), run_finished := Some (cr_finished r), run_error := cr_error r\<rparr>"

lemma completed_run_sel [simp]:
  "run_pk (completed_run r x) = run_pk x" "run_idem (completed_run r x) = run_idem x"
  "run_tenant (completed_run r x) = run_tenant x" "run_watch (completed_run r x) = run_watch x"
  "run_status (completed_run r x) = run_status_of (cr_error r)"
  "run_owner (completed_run r x) = run_owner x" "run_finished (completed_run r x) = Some (cr_finished r)"
  by (simp_all add: completed_run_def run_pk_def run_idem_def)

lemma completed_run_ok: "run_ok (completed_run r x)"
  using run_status_of_cases [of "cr_error r"] by (auto simp: run_ok_def)

lemma db_ok_runs:
  assumes "db_ok db" and k: "\<And>x. run_pk (f x) = run_pk x" "\<And>x. run_idem (f x) = run_idem x" and ok: "\<And>x. run_ok (f x)"
  shows "db_ok (db\<lparr>db_runs := update_where P f (db_runs db)\<rparr>)"
proof -
  have "unique_by run_pk (update_where P f (db_runs db)) = unique_by run_pk (db_runs db)"
    "unique_by run_idem (update_where P f (db_runs db)) = unique_by run_idem (db_runs db)"
    by (rule unique_by_update, rule k)+
  moreover have "run_tenant (f x) = run_tenant x" "run_watch (f x) = run_watch x" for x
    using k(1) by (simp_all add: run_pk_def)
  then have "\<forall>x \<in> set (update_where P f (db_runs db)). (run_tenant x, run_watch x) \<in> watch_key ` set (db_watches db)"
    using assms(1) by (auto simp: db_ok_def refs_ok_def elim!: update_where_congE)
  moreover have "list_all run_ok (update_where P f (db_runs db))"
    using assms(1) ok by (intro list_all_update_where) (auto simp: db_ok_def rows_ok_def)
  ultimately show ?thesis using assms(1) by (auto simp: db_ok_def keys_ok_def refs_ok_def rows_ok_def)
qed

lemma complete_run_sql_set:
  "complete_run_sql r db =
     (count_where (\<lambda>x. gate_run r x \<and> exists_where (gate_watch r) (db_watches db)) (db_runs db),
      db\<lparr>db_runs := update_where (\<lambda>x. gate_run r x \<and> exists_where (gate_watch r) (db_watches db))
        (completed_run r) (db_runs db)\<rparr>)"
  by (simp add: complete_run_sql_def completed_run_def [abs_def] Let_def)

lemma complete_run_sql_ok: "db_ok db \<Longrightarrow> db_ok (snd (complete_run_sql r db))"
  by (auto simp: complete_run_sql_set completed_run_ok intro!: db_ok_runs)

lemma complete_watch_sql_ok: "db_ok db \<Longrightarrow> db_ok (snd (complete_watch_sql r db))"
  unfolding complete_watch_sql_def Let_def snd_conv
  by (rule db_ok_watches) (simp_all add: watch_key_def watch_ok_unlease)

text \<open>The batch, statement by statement.\<close>

lemma d1_complete_batch_cases:
  assumes "db_ok db" "d1_complete_batch r db = ((gate, inserted, watch_inserted, runs, watches), db')"
  obtains db1 where "db_ok db1" "db_watches db1 = db_watches db" "db_runs db1 = db_runs db"
    "set (db_deliveries db) \<subseteq> set (db_deliveries db1)" "gate = complete_gate_sql r db"
    "runs = fst (complete_run_sql r db1)"
    "(watches, db') = complete_watch_sql r (snd (complete_run_sql r db1))"
proof -
  obtain n dba where a: "insert_records_sql r db = (n, dba)" by (cases "insert_records_sql r db")
  let ?b = "update_records_sql r dba"
  let ?c = "case cr_delivery r of None \<Rightarrow> ?b | Some d \<Rightarrow> insert_run_delivery_sql r d ?b"
  obtain m dbd where d: "insert_watch_records_sql r ?c = (m, dbd)" by (cases "insert_watch_records_sql r ?c")
  let ?e = "update_watch_records_sql r dbd"
  note oka = insert_records_sql_ok [OF assms(1) a]
  then have okb: "db_ok ?b" "kept_tables dba ?b" "db_watch_records ?b = db_watch_records dba"
    "record_row_key ` set (db_records ?b) = record_row_key ` set (db_records dba)"
    using update_records_sql_ok [of dba r] by auto
  have okc: "db_ok ?c" "db_watches ?c = db_watches ?b" "db_runs ?c = db_runs ?b" "db_records ?c = db_records ?b"
    "set (db_deliveries ?b) \<subseteq> set (db_deliveries ?c)"
    using insert_run_delivery_sql_ok [OF okb(1), of r] okb(1) by (auto split: option.split)
  have w: "db_watches ?c = db_watches db" "db_runs ?c = db_runs db"
    using oka okb okc by (simp_all add: kept_tables_def)
  have "gate_open r ?c \<Longrightarrow> \<forall>x \<in> set (cr_records r). (cr_tenant r, record_key x) \<in> record_row_key ` set (db_records ?c)"
    using oka okb(4) okc(4) gate_open_cong [OF w] by simp
  from insert_watch_records_sql_ok [OF okc(1) d this] have okd: "db_ok dbd" "kept_tables ?c dbd" by auto
  have oke: "db_ok ?e" "kept_tables dbd ?e" using update_watch_records_sql_ok [OF okd(1)] by auto
  show thesis
  proof (rule that [of ?e])
    show "db_watches ?e = db_watches db" "db_runs ?e = db_runs db"
      using w okd(2) oke(2) by (simp_all add: kept_tables_def)
    have "db_deliveries ?b = db_deliveries db" using oka okb(2) by (simp add: kept_tables_def)
    then show "set (db_deliveries db) \<subseteq> set (db_deliveries ?e)"
      using okc(5) okd(2) oke(2) by (simp add: kept_tables_def)
    show "gate = complete_gate_sql r db" "runs = fst (complete_run_sql r ?e)"
      "(watches, db') = complete_watch_sql r (snd (complete_run_sql r ?e))"
      using assms(2) a d by (auto simp: d1_complete_batch_def Let_def split: prod.splits)
  qed (rule oke(1))
qed

lemma d1_complete_cases:
  assumes "db_ok db" "d1_complete_watch_run L r db = (res, db')"
  obtains e where "res = Err e" "db' = db"
  | db1 where "db_ok db1" "db_watches db1 = db_watches db" "db_runs db1 = db_runs db"
    "set (db_deliveries db) \<subseteq> set (db_deliveries db1)"
    "db' = snd (complete_watch_sql r (snd (complete_run_sql r db1)))"
    "is_ok res \<Longrightarrow> gate_open r db"
proof (cases "complete_watch_run_validate L r")
  case (Inl e)
  with assms(2) have "res = Err e" "db' = db" by (simp_all add: d1_complete_watch_run_def)
  then show thesis by (rule that(1))
next
  case v: (Inr u)
  show thesis
  proof (cases "records_json_check L r")
    case (Inl e)
    with v assms(2) have "res = Err e" "db' = db" by (simp_all add: d1_complete_watch_run_def)
    then show thesis by (rule that(1))
  next
    case (Inr u2)
    obtain gate n m runs watches db2 where b: "d1_complete_batch r db = ((gate, n, m, runs, watches), db2)"
      by (metis prod_cases5 surj_pair)
    with v Inr assms(2) have res: "res = complete_outcome r (gate, n, m, runs, watches)" "db' = db2"
      by (simp_all add: d1_complete_watch_run_def)
    from assms(1) b show thesis
    proof (cases rule: d1_complete_batch_cases)
      case (1 db1)
      have "gate_open r db" if "is_ok res"
      proof -
        have "gate \<noteq> []" using that res by (auto simp: ensure_completion_gate_def)
        then show ?thesis
          using 1(5) by (auto simp: complete_gate_sql_def gate_open_def exists_where_def filter_empty_conv)
      qed
      moreover have "db' = snd (complete_watch_sql r (snd (complete_run_sql r db1)))"
        using 1(7) res(2) by (metis snd_conv)
      ultimately show thesis using that(2) 1(1-4) by blast
    qed
  qed
qed

lemma d1_complete_watch_run_ok: "db_ok db \<Longrightarrow> db_ok (snd (d1_complete_watch_run L r db))"
proof -
  assume ok: "db_ok db"
  obtain res db' where c: "d1_complete_watch_run L r db = (res, db')" by (cases "d1_complete_watch_run L r db")
  from ok c show ?thesis
  proof (cases rule: d1_complete_cases)
    case (1 e)
    with ok c show ?thesis by simp
  next
    case (2 db1)
    with c show ?thesis by (simp add: complete_watch_sql_ok complete_run_sql_ok)
  qed
qed

lemma d1_apply_ok: "db_ok db \<Longrightarrow> db_ok (d1_apply L q db)"
  by (cases "\<exists>r. q = Req_Complete r") (auto simp: d1_complete_watch_run_ok d1_apply_same sq_apply_ok)

section \<open>Leases, runs and deliveries\<close>

lemma complete_watch_sql_watches:
  "db_watches (snd (complete_watch_sql r db)) =
     update_where (\<lambda>w. gate_watch r w \<and> exists_where (finished_run r) (db_runs db))
       (\<lambda>w. w\<lparr>w_cursor := cr_cursor r, w_next_due := cr_finished r + int (w_interval w),
              w_lease_owner := None, w_lease_expires := None\<rparr>) (db_watches db)"
  "db_runs (snd (complete_watch_sql r db)) = db_runs db"
  "db_deliveries (snd (complete_watch_sql r db)) = db_deliveries db"
  by (simp_all add: complete_watch_sql_def Let_def)

lemma complete_run_sql_tables:
  "db_watches (snd (complete_run_sql r db)) = db_watches db"
  "db_deliveries (snd (complete_run_sql r db)) = db_deliveries db"
  by (simp_all add: complete_run_sql_def Let_def)

lemma d1_complete_lease:
  assumes ok: "db_ok db" and lease: "lease_of k owner e db" and q: "leaves_lease k owner e (Req_Complete r)"
  shows "lease_of k owner e (snd (d1_complete_watch_run L r db))"
proof -
  obtain res db' where c: "d1_complete_watch_run L r db = (res, db')" by (cases "d1_complete_watch_run L r db")
  from ok c show ?thesis
  proof (cases rule: d1_complete_cases)
    case (1 e)
    with c lease show ?thesis by simp
  next
    case (2 db1)
    let ?db2 = "snd (complete_run_sql r db1)"
    have "lease_of k owner e ?db2" using lease 2(2) by (simp add: lease_of_def complete_run_sql_tables)
    then have "lease_of k owner e (?db2\<lparr>db_watches := db_watches db'\<rparr>)"
      unfolding 2(5) complete_watch_sql_watches
      by (rule lease_of_update) (use q in \<open>auto simp: gate_watch_def lease_held_def expires_after_def\<close>)
    with c show ?thesis by (simp add: lease_of_def)
  qed
qed

lemma d1_lease_kept:
  assumes "db_ok db" "lease_of k owner e db" "leaves_lease k owner e q"
  shows "lease_of k owner e (d1_apply L q db)"
proof (cases "\<exists>r. q = Req_Complete r")
  case True
  with assms show ?thesis by (auto simp: d1_complete_lease)
next
  case False
  with assms show ?thesis by (simp add: d1_apply_same sq_lease_kept)
qed

lemma d1_claim_due:
  assumes ok: "db_ok db" and c: "d1_claim_due_watch r db = (Ok (Some c), db')"
  shows "(\<exists>w \<in> set (db_watches db). watch_key w = watch_key (cl_watch c) \<and> watch_due (cd_tenant r) (cd_now r) w) \<and>
    lease_of (watch_key (cl_watch c)) (cd_owner r) (cl_expires c) db'"
proof -
  from c d1_claim_due_watch_same [OF ok, of r] obtain c0 where
    s: "sq_claim_due_watch r db = (Ok (Some c0), db')" and c0: "c = claimed_row c0"
    by (cases "sq_claim_due_watch r db"; cases "fst (sq_claim_due_watch r db)") auto
  have "watch_key (cl_watch c) = watch_key (cl_watch c0)" "cl_expires c = cl_expires c0"
    by (simp_all add: c0 claimed_row_def watch_key_def)
  with sq_claim_due [OF ok s] show ?thesis by simp
qed

lemma d1_complete_running:
  assumes ok: "db_ok db" and c: "d1_complete_watch_run L r db = (Ok out, db')"
  shows "\<not> run_over (run_of r) db \<and> run_over (run_of r) db'"
  using ok c
proof (cases rule: d1_complete_cases)
  case (2 db1)
  from 2(6) have g: "gate_open r db" by simp
  then obtain run where run: "run \<in> set (db_runs db)" "gate_run r run"
    by (auto simp: gate_open_def exists_where_def)
  have k: "run_pk run = run_of r" "run_status run = ''running''"
    using run(2) by (simp_all add: gate_run_def run_of_def)
  have "x = run" if "x \<in> set (db_runs db)" "run_pk x = run_of r" for x
    using ok that run(1) k by (intro unique_byD [of run_pk "db_runs db"]) (auto simp: db_ok_def keys_ok_def)
  then have "\<not> run_over (run_of r) db" using k by (auto simp: run_over_def)
  moreover have "exists_where (gate_watch r) (db_watches db1)" using g 2(2) by (simp add: gate_open_def)
  then have "completed_run r run \<in> set (db_runs db')"
    using update_where_image [OF run(1), of "gate_run r" "completed_run r"] run(2)
    by (simp add: 2(5) complete_watch_sql_watches complete_run_sql_set 2(3))
  then have "run_over (run_of r) db'"
    using k run_status_of_cases [of "cr_error r"]
    by (auto simp: run_over_def intro!: bexI [of _ "completed_run r run"])
  ultimately show ?thesis by simp
qed simp

lemma d1_over_kept:
  assumes ok: "db_ok db" and over: "run_over (t, w, i) db" and q: "keeps_watch (t, w) q"
  shows "run_over (t, w, i) (d1_apply L q db)"
proof (cases "\<exists>r. q = Req_Complete r")
  case True
  then obtain r where r: "q = Req_Complete r" by blast
  obtain res db' where c: "d1_complete_watch_run L r db = (res, db')" by (cases "d1_complete_watch_run L r db")
  from ok c have "run_over (t, w, i) db'"
  proof (cases rule: d1_complete_cases)
    case (1 e)
    with over show ?thesis by simp
  next
    case (2 db1)
    have "run_over (t, w, i) db1" using over 2(3) by (simp add: run_over_def)
    then have "run_over (t, w, i) (snd (complete_run_sql r db1))"
      unfolding complete_run_sql_set snd_conv
      using run_status_of_cases [of "cr_error r"] by (intro run_over_update) auto
    then show ?thesis by (simp add: 2(5) run_over_def complete_watch_sql_watches)
  qed
  with r c show ?thesis by simp
next
  case False
  with assms show ?thesis by (simp add: d1_apply_same sq_over_kept)
qed

interpretation d1: watch_store "d1_apply L" d1_claim_due_watch "d1_complete_watch_run L" for L
  by unfold_locales
    (simp_all add: d1_apply_ok d1_lease_kept d1_complete_running d1_over_kept d1_claim_due)

lemma d1_delivery_steps:
  assumes ok: "db_ok db" and d: "d \<in> set (db_deliveries db)" and q: "keeps_watch (d_tenant d, d_watch d) q"
  shows "\<exists>d' \<in> set (db_deliveries (d1_apply L q db)). delivery_step d d'"
proof (cases "\<exists>r. q = Req_Complete r")
  case True
  then obtain r where r: "q = Req_Complete r" by blast
  obtain res db' where c: "d1_complete_watch_run L r db = (res, db')" by (cases "d1_complete_watch_run L r db")
  from ok c have "set (db_deliveries db) \<subseteq> set (db_deliveries db')"
    by (cases rule: d1_complete_cases) (simp_all add: complete_watch_sql_watches complete_run_sql_tables)
  with r c d stays [of d] show ?thesis by auto
next
  case False
  with assms show ?thesis by (simp add: d1_apply_same sq_delivery_steps)
qed

interpretation d1_queue: delivery_queue "d1_apply L" for L
  by unfold_locales (simp_all add: d1_apply_ok d1_delivery_steps)

end
