(* ===== verification/Store_Equivalence.thy ===== *)
theory Store_Equivalence
  imports D1_Laws "HOL-Library.Multiset"
begin

text \<open>
  A completion stores the same rows through either store. SQLite upserts record by record and D1
  runs an insert and an update over the whole batch; both are \<open>merged_rows\<close> when no two records of
  the batch share a key, as the engine's deduplication ensures.
\<close>

section \<open>Storing a batch\<close>

definition merged_rows :: "('x \<Rightarrow> 'k) \<Rightarrow> ('r \<Rightarrow> 'k) \<Rightarrow> ('x \<Rightarrow> 'r) \<Rightarrow> ('x \<Rightarrow> 'r \<Rightarrow> 'r) \<Rightarrow> 'x list \<Rightarrow> 'r list \<Rightarrow> 'r list" where
  "merged_rows kx key mk upd xs rows =
     map (\<lambda>y. case find (\<lambda>x. kx x = key y) xs of None \<Rightarrow> y | Some x \<Rightarrow> upd x y) rows @
     map mk (filter (\<lambda>x. kx x \<notin> key ` set rows) xs)"

lemma merged_rows_Nil [simp]: "merged_rows kx key mk upd [] rows = rows"
  by (simp add: merged_rows_def)

lemma exists_key: "exists_where (\<lambda>y. key y = k) rows \<longleftrightarrow> k \<in> key ` set rows"
  by (auto simp: exists_where_def image_iff)

lemma find_other: "k \<notin> kx ` set xs \<Longrightarrow> find (\<lambda>x. kx x = k) xs = None"
  by (auto simp: find_None_iff)

text \<open>One more record at the front is an upsert before the rest.\<close>

lemma merged_rows_Cons:
  assumes x: "kx x \<notin> kx ` set xs" and mk: "key (mk x) = kx x"
    and upd: "\<And>y. key y = kx x \<Longrightarrow> key (upd x y) = key y"
  shows "merged_rows kx key mk upd (x # xs) rows =
    merged_rows kx key mk upd xs (upsert_by key (mk x) (upd x) rows)"
proof (cases "kx x \<in> key ` set rows")
  case True
  have k: "key ` set (update_where (\<lambda>y. key y = kx x) (upd x) rows) = key ` set rows"
    by (rule keys_update_where) (rule upd)
  have none: "find (\<lambda>v. kx v = kx x) xs = None" using x by (rule find_other)
  have e: "(\<lambda>y. if kx x = key y then Some x else find (\<lambda>v. kx v = key y) xs) =
      (\<lambda>y. if key y = kx x then Some x else find (\<lambda>v. kx v = key y) xs)" by auto
  have "map (\<lambda>y. case find (\<lambda>v. kx v = key y) (x # xs) of None \<Rightarrow> y | Some v \<Rightarrow> upd v y) rows =
      map (\<lambda>y. case find (\<lambda>v. kx v = key y) xs of None \<Rightarrow> y | Some v \<Rightarrow> upd v y)
        (update_where (\<lambda>y. key y = kx x) (upd x) rows)"
    using none by (auto simp: update_where_def upd)
  with True k show ?thesis
    by (simp add: merged_rows_def upsert_by_def mk exists_key)
next
  case False
  have "map (\<lambda>y. case find (\<lambda>v. kx v = key y) (x # xs) of None \<Rightarrow> y | Some v \<Rightarrow> upd v y) rows =
      map (\<lambda>y. case find (\<lambda>v. kx v = key y) xs of None \<Rightarrow> y | Some v \<Rightarrow> upd v y) rows"
    using False by (auto simp: image_iff)
  moreover have "filter (\<lambda>v. kx v \<notin> key ` set rows) xs = filter (\<lambda>v. kx v \<notin> key ` set (rows @ [mk x])) xs"
    using x mk by (intro filter_cong) (auto, metis imageI)
  ultimately show ?thesis
    using False find_other [OF x] by (simp add: merged_rows_def upsert_by_def mk exists_key)
qed

lemma insert_new_fresh:
  assumes "unique_by kx xs" and mk: "\<And>x. key (mk x) = kx x"
  shows "insert_new key (map mk xs) rows =
    (length (filter (\<lambda>x. kx x \<notin> key ` set rows) xs), rows @ map mk (filter (\<lambda>x. kx x \<notin> key ` set rows) xs))"
  using assms(1)
proof (induction xs arbitrary: rows)
  case Nil
  then show ?case by simp
next
  case (Cons x xs)
  have u: "unique_by kx xs" "kx x \<notin> kx ` set xs" using Cons.prems by (auto simp: unique_by_def)
  have "filter (\<lambda>v. kx v \<notin> key ` set (rows @ [mk x])) xs = filter (\<lambda>v. kx v \<notin> key ` set rows) xs"
    using u(2) mk by (intro filter_cong) (auto, metis imageI)
  with Cons.IH [OF u(1), of "rows @ [mk x]"] Cons.IH [OF u(1), of rows] show ?case
    by (simp add: mk exists_key)
qed

text \<open>Insert what is new, then update what is in the batch.\<close>

lemma insert_update_merged:
  assumes "unique_by kx xs" and mk: "\<And>x. key (mk x) = kx x" and fresh: "\<And>x. upd x (mk x) = mk x"
    and sel: "\<And>y. sel y = find (\<lambda>x. kx x = key y) xs"
  shows "update_where (\<lambda>y. sel y \<noteq> None) (\<lambda>y. case sel y of None \<Rightarrow> y | Some x \<Rightarrow> upd x y)
      (snd (insert_new key (map mk xs) rows)) = merged_rows kx key mk upd xs rows"
proof -
  have "(case find (\<lambda>v. kx v = kx x) xs of None \<Rightarrow> mk x | Some v \<Rightarrow> upd v (mk x)) = mk x" if "x \<in> set xs" for x
  proof -
    have "find (\<lambda>v. kx v = kx x) xs = Some x"
      using select_first_unique [OF assms(1) that, of "\<lambda>v. kx v = kx x"] by (simp add: select_first_def)
    then show ?thesis by (simp add: fresh)
  qed
  then show ?thesis
    by (auto simp: insert_new_fresh [OF assms(1), of key mk, OF mk] merged_rows_def update_where_def sel mk
        split: option.split)
qed

lemma merged_rows_stored:
  assumes "unique_by kx xs" "x \<in> set xs"
  shows "mk x \<in> set (merged_rows kx key mk upd xs rows) \<and> kx x \<notin> key ` set rows \<or>
    (\<exists>y \<in> set rows. key y = kx x \<and> upd x y \<in> set (merged_rows kx key mk upd xs rows))"
proof (cases "kx x \<in> key ` set rows")
  case False
  with assms(2) show ?thesis by (simp add: merged_rows_def)
next
  case True
  then obtain y where y: "y \<in> set rows" "key y = kx x" by (auto simp: image_iff)
  have f: "find (\<lambda>v. kx v = key y) xs = Some x"
    using select_first_unique [where P = "\<lambda>v. kx v = key y", OF assms] y(2) by (simp add: select_first_def)
  let ?f = "\<lambda>y. case find (\<lambda>x. kx x = key y) xs of None \<Rightarrow> y | Some x \<Rightarrow> upd x y"
  have "?f y \<in> ?f ` set rows" using y(1) by (rule imageI)
  then have "upd x y \<in> set (merged_rows kx key mk upd xs rows)" by (simp add: merged_rows_def f)
  with y show ?thesis by blast
qed

lemma merged_rows_other:
  assumes "y \<in> set rows" "key y \<notin> kx ` set xs"
  shows "y \<in> set (merged_rows kx key mk upd xs rows)"
proof -
  let ?f = "\<lambda>y. case find (\<lambda>x. kx x = key y) xs of None \<Rightarrow> y | Some x \<Rightarrow> upd x y"
  have "?f y \<in> ?f ` set rows" using assms(1) by (rule imageI)
  then show ?thesis by (simp add: merged_rows_def find_other [OF assms(2)])
qed

section \<open>The two tables\<close>

definition merged_records :: "complete_watch_run \<Rightarrow> comsat_record list \<Rightarrow> record_row list \<Rightarrow> record_row list" where
  "merged_records r = merged_rows (\<lambda>x. (cr_tenant r, record_key x)) record_row_key
     (\<lambda>x. \<lparr>rw_tenant = cr_tenant r, rw_record = x, rw_first = cr_finished r, rw_last = cr_finished r\<rparr>)
     (\<lambda>x y. y\<lparr>rw_record := x, rw_last := cr_finished r\<rparr>)"

definition merged_watch_records ::
  "complete_watch_run \<Rightarrow> comsat_record list \<Rightarrow> watch_record_row list \<Rightarrow> watch_record_row list" where
  "merged_watch_records r = merged_rows (\<lambda>x. (cr_tenant r, cr_watch r, record_key x)) watch_record_key
     (\<lambda>x. \<lparr>wr_tenant = cr_tenant r, wr_watch = cr_watch r, wr_source = rec_source x, wr_id = rec_id x,
            wr_first = cr_finished r, wr_last = cr_finished r\<rparr>)
     (\<lambda>x y. y\<lparr>wr_last := cr_finished r\<rparr>)"

text \<open>The records of the batch that are new to the tenant, and to the watch.\<close>

definition new_to_tenant :: "complete_watch_run \<Rightarrow> db \<Rightarrow> comsat_record list \<Rightarrow> comsat_record list" where
  "new_to_tenant r db = filter (\<lambda>x. (cr_tenant r, record_key x) \<notin> record_row_key ` set (db_records db))"

definition new_to_watch :: "complete_watch_run \<Rightarrow> db \<Rightarrow> comsat_record list \<Rightarrow> comsat_record list" where
  "new_to_watch r db = filter (\<lambda>x. (cr_tenant r, cr_watch r, record_key x) \<notin> watch_record_key ` set (db_watch_records db))"

lemma upsert_record_eq:
  "upsert_record r x db =
     ((if (cr_tenant r, record_key x) \<in> record_row_key ` set (db_records db) then 0 else 1),
      db\<lparr>db_records := upsert_by record_row_key
        \<lparr>rw_tenant = cr_tenant r, rw_record = x, rw_first = cr_finished r, rw_last = cr_finished r\<rparr>
        (\<lambda>y. y\<lparr>rw_record := x, rw_last := cr_finished r\<rparr>) (db_records db)\<rparr>)"
  by (simp add: upsert_record_def Let_def exists_key) (simp add: record_row_key_def)

lemma upsert_watch_record_eq:
  "upsert_watch_record r x db =
     ((if (cr_tenant r, cr_watch r, record_key x) \<in> watch_record_key ` set (db_watch_records db) then 0 else 1),
      db\<lparr>db_watch_records := upsert_by watch_record_key
        \<lparr>wr_tenant = cr_tenant r, wr_watch = cr_watch r, wr_source = rec_source x, wr_id = rec_id x,
            wr_first = cr_finished r, wr_last = cr_finished r\<rparr>
        (\<lambda>y. y\<lparr>wr_last := cr_finished r\<rparr>) (db_watch_records db)\<rparr>)"
  by (simp add: upsert_watch_record_def Let_def exists_key) (simp add: watch_record_key_def record_key_def)

lemma upsert_record_keys:
  "record_row_key ` set (db_records (snd (upsert_record r x db))) =
     insert (cr_tenant r, record_key x) (record_row_key ` set (db_records db))"
proof -
  let ?row = "\<lparr>rw_tenant = cr_tenant r, rw_record = x, rw_first = cr_finished r, rw_last = cr_finished r\<rparr>"
  have "record_row_key ?row = (cr_tenant r, record_key x)" by (simp add: record_row_key_def)
  then show ?thesis
    by (simp add: upsert_record_eq, subst keys_upsert) (simp_all add: record_row_key_def)
qed

lemma upsert_watch_record_keys:
  "watch_record_key ` set (db_watch_records (snd (upsert_watch_record r x db))) =
     insert (cr_tenant r, cr_watch r, record_key x) (watch_record_key ` set (db_watch_records db))"
proof -
  let ?row = "\<lparr>wr_tenant = cr_tenant r, wr_watch = cr_watch r, wr_source = rec_source x, wr_id = rec_id x,
            wr_first = cr_finished r, wr_last = cr_finished r\<rparr>"
  have "watch_record_key ?row = (cr_tenant r, cr_watch r, record_key x)"
    by (simp add: watch_record_key_def record_key_def)
  then show ?thesis
    by (simp add: upsert_watch_record_eq, subst keys_upsert) (simp_all add: watch_record_key_def)
qed

lemma store_records_merged:
  "unique_by record_key xs \<Longrightarrow> store_records r xs db =
     (length (new_to_tenant r db xs), length (new_to_watch r db xs), new_to_watch r db xs,
      db\<lparr>db_records := merged_records r xs (db_records db),
         db_watch_records := merged_watch_records r xs (db_watch_records db)\<rparr>)"
proof (induction xs arbitrary: db)
  case Nil
  then show ?case by (simp add: new_to_tenant_def new_to_watch_def merged_records_def merged_watch_records_def)
next
  case (Cons x xs)
  have u: "unique_by record_key xs" "record_key x \<notin> record_key ` set xs"
    using Cons.prems by (auto simp: unique_by_def)
  obtain i db1 where a: "upsert_record r x db = (i, db1)" by (cases "upsert_record r x db")
  obtain j db2 where b: "upsert_watch_record r x db1 = (j, db2)" by (cases "upsert_watch_record r x db1")
  have "db_records db2 = db_records db1" "db_watch_records db1 = db_watch_records db"
    using a b by (auto simp: upsert_record_eq upsert_watch_record_eq)
  then have t1: "record_row_key ` set (db_records db2) = insert (cr_tenant r, record_key x) (record_row_key ` set (db_records db))"
    "watch_record_key ` set (db_watch_records db2) =
      insert (cr_tenant r, cr_watch r, record_key x) (watch_record_key ` set (db_watch_records db))"
    using upsert_record_keys [of r x db] upsert_watch_record_keys [of r x db1] by (simp_all only: a b snd_conv)
  have tenant: "new_to_tenant r db2 xs = new_to_tenant r db xs"
    unfolding new_to_tenant_def t1 using u(2) by (intro filter_cong) (auto, metis imageI)
  have watch: "new_to_watch r db2 xs = new_to_watch r db xs"
    unfolding new_to_watch_def t1 using u(2) by (intro filter_cong) (auto, metis imageI)
  have m: "merged_records r (x # xs) (db_records db) = merged_records r xs (db_records db2)"
    "merged_watch_records r (x # xs) (db_watch_records db) = merged_watch_records r xs (db_watch_records db2)"
    using a b u(2) unfolding merged_records_def merged_watch_records_def
    by (subst merged_rows_Cons; auto simp: upsert_record_eq upsert_watch_record_eq record_row_key_def
        watch_record_key_def record_key_def)+
  have rest: "db2\<lparr>db_records := R, db_watch_records := W\<rparr> = db\<lparr>db_records := R, db_watch_records := W\<rparr>" for R W
    using a b by (auto simp: upsert_record_eq upsert_watch_record_eq)
  have ij: "i = (if (cr_tenant r, record_key x) \<in> record_row_key ` set (db_records db) then 0 else 1)"
    "j = (if (cr_tenant r, cr_watch r, record_key x) \<in> watch_record_key ` set (db_watch_records db) then 0 else 1)"
    using a b by (auto simp: upsert_record_eq upsert_watch_record_eq)
  show ?case
    using ij Cons.IH [OF u(1), of db2]
    by (simp add: a b tenant watch m rest) (simp add: new_to_tenant_def new_to_watch_def)
qed

section \<open>The batch of D1\<close>

lemma unique_by_pair: "unique_by (\<lambda>x. (t, k x)) xs \<longleftrightarrow> unique_by k xs"
  by (simp add: unique_by_def distinct_map inj_on_def)

lemma merged_record_stored:
  assumes "unique_by record_key xs" "x \<in> set xs"
  shows "\<exists>y \<in> set (merged_records r xs rows). record_row_key y = (cr_tenant r, record_key x) \<and> rw_record y = x \<and>
    rw_last y = cr_finished r \<and>
    (rw_first y = cr_finished r \<or> (\<exists>z \<in> set rows. record_row_key z = record_row_key y \<and> rw_first z = rw_first y))"
proof -
  have "unique_by (\<lambda>x. (cr_tenant r, record_key x)) xs" using assms(1) by (simp add: unique_by_pair)
  from merged_rows_stored [OF this assms(2), of
      "\<lambda>x. \<lparr>rw_tenant = cr_tenant r, rw_record = x, rw_first = cr_finished r, rw_last = cr_finished r\<rparr>"
      record_row_key "\<lambda>x y. y\<lparr>rw_record := x, rw_last := cr_finished r\<rparr>" rows]
  show ?thesis
    unfolding merged_records_def
    by (elim disjE conjE bexE; elim bexI [rotated]) (auto simp: record_row_key_def)
qed

lemma batch_records:
  assumes "gate_open r db" "unique_by record_key (cr_records r)" "insert_records_sql r db = (n, dba)"
  shows "n = length (new_to_tenant r db (cr_records r)) \<and>
    update_records_sql r dba = db\<lparr>db_records := merged_records r (cr_records r) (db_records db)\<rparr>"
proof -
  let ?kx = "\<lambda>x. (cr_tenant r, record_key x)"
  let ?mk = "\<lambda>x. \<lparr>rw_tenant = cr_tenant r, rw_record = x, rw_first = cr_finished r, rw_last = cr_finished r\<rparr>"
  let ?upd = "\<lambda>x y. y\<lparr>rw_record := x, rw_last := cr_finished r\<rparr>"
  let ?sel = "\<lambda>y. find (\<lambda>x. ?kx x = record_row_key y) (cr_records r)"
  have u: "unique_by ?kx (cr_records r)" using assms(2) by (simp add: unique_by_pair)
  have mk: "record_row_key (?mk x) = ?kx x" for x by (simp add: record_row_key_def)
  note new = insert_new_fresh [OF u, of record_row_key ?mk "db_records db", OF mk]
  have dba: "n = length (new_to_tenant r db (cr_records r))"
    "dba = db\<lparr>db_records := snd (insert_new record_row_key (map ?mk (cr_records r)) (db_records db))\<rparr>"
    using assms(1,3) by (auto simp: insert_records_sql_def new new_to_tenant_def)
  have sel: "?sel y = (if cr_tenant r = rw_tenant y then incoming_for r (record_key (rw_record y)) else None)" for y
    by (auto simp: record_row_key_def incoming_for_def select_first_def find_None_iff)
  have "update_where (\<lambda>y. rw_tenant y = cr_tenant r \<and> incoming_for r (record_key (rw_record y)) \<noteq> None)
      (\<lambda>y. case incoming_for r (record_key (rw_record y)) of None \<Rightarrow> y | Some x \<Rightarrow> ?upd x y) rows =
    update_where (\<lambda>y. ?sel y \<noteq> None) (\<lambda>y. case ?sel y of None \<Rightarrow> y | Some x \<Rightarrow> ?upd x y) rows" for rows
    by (rule update_where_cong) (auto simp: sel split: if_splits)
  also have "update_where (\<lambda>y. ?sel y \<noteq> None) (\<lambda>y. case ?sel y of None \<Rightarrow> y | Some x \<Rightarrow> ?upd x y)
      (snd (insert_new record_row_key (map ?mk (cr_records r)) (db_records db))) =
    merged_records r (cr_records r) (db_records db)"
    unfolding merged_records_def
    by (rule insert_update_merged [where mk = ?mk and upd = ?upd and sel = ?sel, OF u]) (simp_all add: mk)
  finally have m: "update_where (\<lambda>y. rw_tenant y = cr_tenant r \<and> incoming_for r (record_key (rw_record y)) \<noteq> None)
      (\<lambda>y. case incoming_for r (record_key (rw_record y)) of None \<Rightarrow> y | Some x \<Rightarrow> ?upd x y)
      (snd (insert_new record_row_key (map ?mk (cr_records r)) (db_records db))) =
    merged_records r (cr_records r) (db_records db)" .
  have "gate_open r dba" using assms(1) unfolding dba(2) by (simp add: gate_open_def)
  then have "update_records_sql r dba = db\<lparr>db_records := merged_records r (cr_records r) (db_records db)\<rparr>"
    unfolding m [symmetric] using dba(2) by (simp add: update_records_sql_def)
  with dba(1) show ?thesis by simp
qed

lemma batch_watch_records:
  assumes "gate_open r db" "unique_by record_key (cr_records r)" "insert_watch_records_sql r db = (n, dba)"
  shows "n = length (new_to_watch r db (cr_records r)) \<and>
    update_watch_records_sql r dba = db\<lparr>db_watch_records := merged_watch_records r (cr_records r) (db_watch_records db)\<rparr>"
proof -
  let ?kx = "\<lambda>x. (cr_tenant r, cr_watch r, record_key x)"
  let ?mk = "\<lambda>x. \<lparr>wr_tenant = cr_tenant r, wr_watch = cr_watch r, wr_source = rec_source x, wr_id = rec_id x,
      wr_first = cr_finished r, wr_last = cr_finished r\<rparr>"
  let ?upd = "\<lambda>(x :: comsat_record) y. y\<lparr>wr_last := cr_finished r\<rparr>"
  let ?sel = "\<lambda>y. find (\<lambda>x. ?kx x = watch_record_key y) (cr_records r)"
  have u: "unique_by ?kx (cr_records r)" using assms(2) by (simp add: unique_by_pair)
  have mk: "watch_record_key (?mk x) = ?kx x" for x by (simp add: watch_record_key_def record_key_def)
  note new = insert_new_fresh [OF u, of watch_record_key ?mk "db_watch_records db", OF mk]
  have dba: "n = length (new_to_watch r db (cr_records r))"
    "dba = db\<lparr>db_watch_records := snd (insert_new watch_record_key (map ?mk (cr_records r)) (db_watch_records db))\<rparr>"
    using assms(1,3) by (auto simp: insert_watch_records_sql_def new new_to_watch_def)
  have sel: "?sel y = (if cr_tenant r = wr_tenant y \<and> cr_watch r = wr_watch y
      then incoming_for r (wr_source y, wr_id y) else None)" for y
    by (auto simp: watch_record_key_def incoming_for_def select_first_def find_None_iff)
  have "update_where (\<lambda>y. wr_tenant y = cr_tenant r \<and> wr_watch y = cr_watch r \<and> incoming_for r (wr_source y, wr_id y) \<noteq> None)
      (\<lambda>y. y\<lparr>wr_last := cr_finished r\<rparr>) rows =
    update_where (\<lambda>y. ?sel y \<noteq> None) (\<lambda>y. case ?sel y of None \<Rightarrow> y | Some x \<Rightarrow> ?upd x y) rows" for rows
    by (rule update_where_cong) (auto simp: sel split: if_splits)
  also have "update_where (\<lambda>y. ?sel y \<noteq> None) (\<lambda>y. case ?sel y of None \<Rightarrow> y | Some x \<Rightarrow> ?upd x y)
      (snd (insert_new watch_record_key (map ?mk (cr_records r)) (db_watch_records db))) =
    merged_watch_records r (cr_records r) (db_watch_records db)"
    unfolding merged_watch_records_def
    by (rule insert_update_merged [where mk = ?mk and upd = ?upd and sel = ?sel, OF u]) (simp_all add: mk)
  finally have m: "update_where (\<lambda>y. wr_tenant y = cr_tenant r \<and> wr_watch y = cr_watch r \<and> incoming_for r (wr_source y, wr_id y) \<noteq> None)
      (\<lambda>y. y\<lparr>wr_last := cr_finished r\<rparr>)
      (snd (insert_new watch_record_key (map ?mk (cr_records r)) (db_watch_records db))) =
    merged_watch_records r (cr_records r) (db_watch_records db)" .
  have "gate_open r dba" using assms(1) unfolding dba(2) by (simp add: gate_open_def)
  then have "update_watch_records_sql r dba =
      db\<lparr>db_watch_records := merged_watch_records r (cr_records r) (db_watch_records db)\<rparr>"
    unfolding m [symmetric] using dba(2) by (simp add: update_watch_records_sql_def)
  with dba(1) show ?thesis by simp
qed

lemma distinct_map_fst: "distinct (map fst kvs) \<Longrightarrow> distinct kvs"
  by (simp add: distinct_map)

lemma incoming_groups_mset:
  assumes "unique_by record_key (cr_records r)"
  shows "mset (incoming_groups r) = mset (cr_records r)"
proof -
  let ?kvs = "map (\<lambda>x. (record_key x, x)) (cr_records r)"
  have d: "distinct (map fst ?kvs)" using assms by (simp add: unique_by_def comp_def)
  have s: "bt_sorted (bt_collect (rev ?kvs))" by (rule bt_collect_sorted)
  then have d2: "distinct (map fst (bt_collect (rev ?kvs)))"
    by (simp add: bt_sorted_def strict_sorted_iff)
  have "map_of (bt_collect (rev ?kvs)) = map_of ?kvs" by (simp add: map_of_bt_collect)
  then have "set (bt_collect (rev ?kvs)) = set ?kvs" using d d2 map_of_inject_set by blast
  moreover have "distinct ?kvs" "distinct (bt_collect (rev ?kvs))"
    by (rule distinct_map_fst, rule d d2)+
  ultimately have "mset (bt_collect (rev ?kvs)) = mset ?kvs" by (simp only: set_eq_iff_mset_eq_distinct [symmetric])
  then have "mset (map snd (bt_collect (rev ?kvs))) = mset (map snd ?kvs)" by (simp only: mset_map)
  then show ?thesis by (simp add: incoming_groups_def comp_def rev_map)
qed

section \<open>The completion\<close>

text \<open>Databases that differ only in the order of the records in a payload.\<close>

definition delivery_alike :: "delivery \<Rightarrow> delivery \<Rightarrow> bool" where
  "delivery_alike d d' \<longleftrightarrow> d = d' \<or>
     (\<exists>r t xs ys. mset xs = mset ys \<and> d = run_delivery_row r t xs \<and> d' = run_delivery_row r t ys)"

definition db_alike :: "db \<Rightarrow> db \<Rightarrow> bool" where
  "db_alike db db' \<longleftrightarrow> db' = db\<lparr>db_deliveries := db_deliveries db'\<rparr> \<and>
     list_all2 delivery_alike (db_deliveries db) (db_deliveries db')"

lemma complete_gate_same: "gate_watch r = lease_held (cr_tenant r, cr_watch r) (cr_owner r) (cr_finished r)"
  "gate_run r = run_running r"
  by (simp_all add: fun_eq_iff gate_watch_def gate_run_def run_running_def)

lemma sq_complete_is_ok:
  "is_ok (fst (sq_complete_watch_run L r db)) \<longleftrightarrow> complete_watch_run_validate L r = Ok () \<and> gate_open r db"
proof (cases "complete_watch_run_validate L r")
  case (Inl e)
  then show ?thesis by (simp add: sq_complete_watch_run_def)
next
  case (Inr u)
  then show ?thesis
    by (auto simp: sq_complete_watch_run_def watch_interval_under_lease_def ensure_running_run_def
        gate_open_def complete_gate_same exists_where_select Let_def is_ok_iff split: sum.splits prod.splits option.splits)
qed

lemma gate_rows:
  assumes "db_ok db" "gate_open r db"
  obtains w run where "w \<in> set (db_watches db)" "gate_watch r w" "run \<in> set (db_runs db)" "gate_run r run"
    "\<And>v. v \<in> set (db_watches db) \<Longrightarrow> watch_key v = (cr_tenant r, cr_watch r) \<Longrightarrow> v = w"
    "\<And>x. x \<in> set (db_runs db) \<Longrightarrow> run_pk x = (cr_tenant r, cr_watch r, cr_run r) \<Longrightarrow> x = run"
proof -
  from assms(2) obtain w run where a: "w \<in> set (db_watches db)" "gate_watch r w" "run \<in> set (db_runs db)" "gate_run r run"
    by (auto simp: gate_open_def exists_where_def)
  have u: "unique_by watch_key (db_watches db)" "unique_by run_pk (db_runs db)"
    using assms(1) by (simp_all add: db_ok_def keys_ok_def)
  have "watch_key w = (cr_tenant r, cr_watch r)" "run_pk run = (cr_tenant r, cr_watch r, cr_run r)"
    using a by (simp_all add: gate_watch_def lease_held_def gate_run_def)
  with a u show thesis by (intro that) (auto dest: unique_byD)
qed

lemma count_one:
  assumes "unique_by k rows" "x \<in> set rows" "P x" "\<And>y. y \<in> set rows \<Longrightarrow> P y \<Longrightarrow> y = x"
  shows "count_where P rows = 1" "filter P rows = [x]"
proof -
  show "count_where P rows = 1"
    by (rule count_where_unique [where P = P, OF assms(1-3)]) (use assms(4) in blast)
  then have "length (filter P rows) = 1" by (simp add: count_where_def)
  then obtain y where y: "filter P rows = [y]" by (cases "filter P rows") auto
  then have "y \<in> set (filter P rows)" by simp
  then have "y \<in> set rows" "P y" by simp_all
  with y assms(4) show "filter P rows = [x]" by simp
qed

lemma delivery_alike_refl: "list_all2 delivery_alike ds ds"
  by (simp add: list_all2_refl delivery_alike_def)

text \<open>The delivery statement reads the watch's records before the batch adds to them.\<close>

lemma batch_delivery:
  assumes "gate_open r db" "unique_by record_key (cr_records r)"
    and same: "db_watches db2 = db_watches db" "db_runs db2 = db_runs db" "db_deliveries db2 = db_deliveries db"
      "db_watch_records db2 = db_watch_records db"
  shows "\<exists>ds. (case cr_delivery r of None \<Rightarrow> db2 | Some d \<Rightarrow> insert_run_delivery_sql r d db2) = db2\<lparr>db_deliveries := ds\<rparr> \<and>
    list_all2 delivery_alike (db_deliveries (insert_run_delivery r (new_to_watch r db (cr_records r)) db)) ds"
proof (cases "cr_delivery r")
  case None
  then show ?thesis
    by (intro exI [of _ "db_deliveries db"])
      (simp add: insert_run_delivery_def delivery_alike_refl same [symmetric])
next
  case (Some d)
  have open2: "gate_open r db2" using assms(1) same by (simp add: gate_open_def)
  let ?new = "filter (\<lambda>x. \<not> exists_where (\<lambda>y. watch_record_key y = (cr_tenant r, cr_watch r, rec_source x, rec_id x))
      (db_watch_records db2)) (incoming_groups r)"
  have "?new = new_to_watch r db (incoming_groups r)"
    by (simp add: new_to_watch_def exists_key same record_key_def)
  then have m: "mset (new_to_watch r db (cr_records r)) = mset ?new"
    using incoming_groups_mset [OF assms(2)] by (simp add: new_to_watch_def)
  have nil: "?new = [] \<longleftrightarrow> new_to_watch r db (cr_records r) = []"
    by (simp only: length_0_conv [symmetric] mset_eq_length [OF m])
  have alike: "delivery_alike (run_delivery_row r d (new_to_watch r db (cr_records r))) (run_delivery_row r d ?new)"
    using m unfolding delivery_alike_def by blast
  let ?skip = "?new = [] \<or> exists_where (\<lambda>x. delivery_key x = (cr_tenant r, rd_id d)) (db_deliveries db)"
  have one: "insert_run_delivery_sql r d db2 =
      (if ?skip then db2 else db2\<lparr>db_deliveries := db_deliveries db @ [run_delivery_row r d ?new]\<rparr>)"
    using open2 by (auto simp: insert_run_delivery_sql_def Let_def same)
  have two: "db_deliveries (insert_run_delivery r (new_to_watch r db (cr_records r)) db) =
      (if ?skip then db_deliveries db
       else db_deliveries db @ [run_delivery_row r d (new_to_watch r db (cr_records r))])"
    using nil by (auto simp: insert_run_delivery_def Some)
  show ?thesis
  proof (cases ?skip)
    case True
    then show ?thesis unfolding one two Some option.simps
      by (intro exI [of _ "db_deliveries db"]) (simp add: delivery_alike_refl same [symmetric])
  next
    case False
    have "list_all2 delivery_alike (db_deliveries db @ [run_delivery_row r d (new_to_watch r db (cr_records r))])
        (db_deliveries db @ [run_delivery_row r d ?new])"
      by (rule list_all2_appendI) (use alike delivery_alike_refl in simp_all)
    then show ?thesis unfolding one two Some option.simps if_not_P [OF False] by blast
  qed
qed

lemma completion_rows:
  assumes ok: "db_ok db" and g: "gate_open r db"
    and range: "\<And>w. w \<in> set (db_watches db) \<Longrightarrow> in_i64 (cr_finished r + int (w_interval w))"
    and i: "select_first (gate_watch r) (db_watches db) = Some w0"
    and same: "db_watches db1 = db_watches db" "db_runs db1 = db_runs db"
  shows "complete_gate_sql r db = [w_interval w0]"
    and "fst (complete_run_sql r db1) = 1"
    and "complete_watch_sql r (snd (complete_run_sql r db1)) =
      (1, finish_run_and_watch r (run_status_of (cr_error r)) (w_interval w0) db1)"
proof -
  obtain w run where a: "w \<in> set (db_watches db)" "gate_watch r w" "run \<in> set (db_runs db)" "gate_run r run"
    and w1: "\<And>v. v \<in> set (db_watches db) \<Longrightarrow> watch_key v = (cr_tenant r, cr_watch r) \<Longrightarrow> v = w"
    and r1: "\<And>x. x \<in> set (db_runs db) \<Longrightarrow> run_pk x = (cr_tenant r, cr_watch r, cr_run r) \<Longrightarrow> x = run"
    by (rule gate_rows [OF ok g]) blast
  have u: "unique_by watch_key (db_watches db)" "unique_by run_pk (db_runs db)"
    using ok by (simp_all add: db_ok_def keys_ok_def)
  have gw: "gate_watch r v \<Longrightarrow> watch_key v = (cr_tenant r, cr_watch r)" for v
    by (simp add: gate_watch_def lease_held_def)
  have gr: "gate_run r x \<Longrightarrow> run_pk x = (cr_tenant r, cr_watch r, cr_run r)" for x
    by (simp add: gate_run_def)
  have w0: "w0 = w" using select_first_SomeD [OF i] gw w1 by blast
  have fw: "filter (gate_watch r) (db_watches db) = [w]"
    by (rule count_one(2) [where P = "gate_watch r", OF u(1) a(1,2)]) (use gw w1 in blast)
  have fr: "filter (gate_run r) (db_runs db) = [run]"
    by (rule count_one(2) [where P = "gate_run r", OF u(2) a(3,4)]) (use gr r1 in blast)
  show "complete_gate_sql r db = [w_interval w0]" by (simp add: complete_gate_sql_def fw fr w0)
  have e: "exists_where (gate_watch r) (db_watches db)" using a by (auto simp: exists_where_def)
  show "fst (complete_run_sql r db1) = 1"
    using e fr by (simp add: complete_run_sql_set same count_where_def)
  have runs: "snd (complete_run_sql r db1) = db1\<lparr>db_runs := update_where (gate_run r) (completed_run r) (db_runs db)\<rparr>"
    using e by (simp add: complete_run_sql_set same)
  have runs2: "update_where (gate_run r) (completed_run r) (db_runs db) =
      update_where (\<lambda>x. run_pk x = (cr_tenant r, cr_watch r, cr_run r))
        (\<lambda>x. x\<lparr>run_status := run_status_of (cr_error r), run_finished := Some (cr_finished r), run_error := cr_error r\<rparr>)
        (db_runs db)"
    by (rule update_where_cong) (use a(4) r1 gr in \<open>auto simp: completed_run_def\<close>)
  have f: "exists_where (finished_run r) (update_where (gate_run r) (completed_run r) (db_runs db))"
    unfolding exists_where_def
  proof (rule bexI)
    show "completed_run r run \<in> set (update_where (gate_run r) (completed_run r) (db_runs db))"
      using update_where_image [OF a(3), of "gate_run r" "completed_run r"] a(4) by simp
    show "finished_run r (completed_run r run)"
      using a(4) run_status_of_cases [of "cr_error r"] by (auto simp: finished_run_def gate_run_def)
  qed
  have ws: "update_where (gate_watch r)
        (\<lambda>w. w\<lparr>w_cursor := cr_cursor r, w_next_due := cr_finished r + int (w_interval w),
               w_lease_owner := None, w_lease_expires := None\<rparr>) (db_watches db) =
      update_where (\<lambda>w. watch_key w = (cr_tenant r, cr_watch r))
        (\<lambda>v. v\<lparr>w_cursor := cr_cursor r, w_next_due := add64 (cr_finished r) (int (w_interval w)),
               w_lease_owner := None, w_lease_expires := None\<rparr>) (db_watches db)"
  proof (rule update_where_cong)
    fix v assume v: "v \<in> set (db_watches db)"
    show "gate_watch r v = (watch_key v = (cr_tenant r, cr_watch r))" using v a(2) w1 gw by blast
    assume "gate_watch r v"
    then have "v = w" using v gw w1 by blast
    then show "v\<lparr>w_cursor := cr_cursor r, w_next_due := cr_finished r + int (w_interval v),
               w_lease_owner := None, w_lease_expires := None\<rparr> =
        v\<lparr>w_cursor := cr_cursor r, w_next_due := add64 (cr_finished r) (int (w_interval w)),
               w_lease_owner := None, w_lease_expires := None\<rparr>"
      using range [OF a(1)] by simp
  qed
  show "complete_watch_sql r (snd (complete_run_sql r db1)) =
      (1, finish_run_and_watch r (run_status_of (cr_error r)) (w_interval w0) db1)"
    using f fw
    by (simp add: complete_watch_sql_def runs Let_def same count_where_def ws w0 finish_run_and_watch_def runs2 [symmetric])
qed

lemma sq_complete_result:
  assumes u: "unique_by record_key (cr_records r)" and c: "sq_complete_watch_run L r db = (Ok out, db')"
  obtains w0 where "select_first (gate_watch r) (db_watches db) = Some w0"
    "out = \<lparr>out_run = cr_run r, out_status = run_status_of (cr_error r), out_seen = length (cr_records r),
      out_inserted = length (new_to_tenant r db (cr_records r)),
      out_watch_inserted = length (new_to_watch r db (cr_records r))\<rparr>"
    "db' = finish_run_and_watch r (run_status_of (cr_error r)) (w_interval w0)
      (insert_run_delivery r (new_to_watch r db (cr_records r))
        (db\<lparr>db_records := merged_records r (cr_records r) (db_records db),
            db_watch_records := merged_watch_records r (cr_records r) (db_watch_records db)\<rparr>))"
proof -
  have v: "complete_watch_run_validate L r = Ok ()" and g: "gate_open r db"
    using sq_complete_is_ok [of L r db] c by simp_all
  obtain w0 where w0: "select_first (gate_watch r) (db_watches db) = Some w0"
    using g by (auto simp: gate_open_def exists_where_select)
  obtain run where run: "select_first (run_running r) (db_runs db) = Some run"
    using g by (auto simp: gate_open_def exists_where_select complete_gate_same)
  from c v w0 run show thesis
    by (intro that [OF w0])
      (auto simp: sq_complete_watch_run_def watch_interval_under_lease_def ensure_running_run_def
        complete_gate_same store_records_merged [OF u] Let_def)
qed

text \<open>A completion that SQLite accepts, D1 accepts with the same outcome and rows.\<close>

lemma d1_complete_agrees:
  assumes ok: "db_ok db" and u: "unique_by record_key (cr_records r)"
    and range: "\<And>w. w \<in> set (db_watches db) \<Longrightarrow> in_i64 (cr_finished r + int (w_interval w))"
    and size: "records_json_check L r = Ok ()"
    and c: "sq_complete_watch_run L r db = (Ok out, db')"
  shows "\<exists>db2. d1_complete_watch_run L r db = (Ok out, db2) \<and> db_alike db' db2"
proof -
  have v: "complete_watch_run_validate L r = Ok ()" and g: "gate_open r db"
    using sq_complete_is_ok [of L r db] c by simp_all
  let ?xs = "cr_records r"
  let ?R = "merged_records r ?xs (db_records db)" and ?W = "merged_watch_records r ?xs (db_watch_records db)"
  obtain w0 where w0: "select_first (gate_watch r) (db_watches db) = Some w0"
    and sq: "out = \<lparr>out_run = cr_run r, out_status = run_status_of (cr_error r), out_seen = length ?xs,
        out_inserted = length (new_to_tenant r db ?xs), out_watch_inserted = length (new_to_watch r db ?xs)\<rparr>"
      "db' = finish_run_and_watch r (run_status_of (cr_error r)) (w_interval w0)
        (insert_run_delivery r (new_to_watch r db ?xs) (db\<lparr>db_records := ?R, db_watch_records := ?W\<rparr>))"
    by (rule sq_complete_result [OF u c])
  obtain n dba where a: "insert_records_sql r db = (n, dba)" by (cases "insert_records_sql r db")
  note b = batch_records [OF g u a]
  let ?b = "db\<lparr>db_records := ?R\<rparr>"
  obtain ds where ds: "(case cr_delivery r of None \<Rightarrow> ?b | Some d \<Rightarrow> insert_run_delivery_sql r d ?b) = ?b\<lparr>db_deliveries := ds\<rparr>"
    "list_all2 delivery_alike (db_deliveries (insert_run_delivery r (new_to_watch r db ?xs) db)) ds"
    using batch_delivery [OF g u, of ?b] by auto
  let ?c = "?b\<lparr>db_deliveries := ds\<rparr>"
  have gc: "gate_open r ?c" using g by (simp add: gate_open_def)
  obtain m dbd where d: "insert_watch_records_sql r ?c = (m, dbd)" by (cases "insert_watch_records_sql r ?c")
  note e = batch_watch_records [OF gc u d]
  let ?e = "?c\<lparr>db_watch_records := ?W\<rparr>"
  have ue: "update_watch_records_sql r dbd = ?e" and m: "m = length (new_to_watch r db ?xs)"
    using e by (simp_all add: new_to_watch_def)
  note rows = completion_rows [OF ok g range w0, of ?e]
  let ?db2 = "finish_run_and_watch r (run_status_of (cr_error r)) (w_interval w0) ?e"
  have ds1: "(case cr_delivery r of None \<Rightarrow> update_records_sql r dba
      | Some d \<Rightarrow> insert_run_delivery_sql r d (update_records_sql r dba)) = ?c"
    using ds(1) by (simp only: b)
  obtain runs dbr where cr: "complete_run_sql r ?e = (runs, dbr)" by (cases "complete_run_sql r ?e")
  have batch: "d1_complete_batch r db =
      (([w_interval w0], length (new_to_tenant r db ?xs), length (new_to_watch r db ?xs), 1, 1), ?db2)"
    unfolding d1_complete_batch_def Let_def a prod.case ds1 d ue cr using rows cr b m by simp
  have "1 \<le> w_interval w0"
    using ok select_first_SomeD [OF w0] by (auto simp: db_ok_def rows_ok_def list_all_iff watch_ok_def)
  then have "d1_complete_watch_run L r db = (Ok out, ?db2)"
    using v size batch by (simp add: d1_complete_watch_run_def sq(1) ensure_completion_gate_def ensure_changed_def)
  moreover have "db_alike db' ?db2"
    using ds(2) unfolding sq(2) db_alike_def
    by (auto simp: finish_run_and_watch_def insert_run_delivery_def split: option.splits if_splits)
  ultimately show ?thesis by blast
qed

lemma d1_complete_is_ok:
  assumes ok: "db_ok db" and u: "unique_by record_key (cr_records r)"
    and range: "\<And>w. w \<in> set (db_watches db) \<Longrightarrow> in_i64 (cr_finished r + int (w_interval w))"
    and size: "records_json_check L r = Ok ()"
  shows "is_ok (fst (d1_complete_watch_run L r db)) = is_ok (fst (sq_complete_watch_run L r db))"
proof
  obtain res db' where c: "d1_complete_watch_run L r db = (res, db')" by (cases "d1_complete_watch_run L r db")
  assume k: "is_ok (fst (d1_complete_watch_run L r db))"
  then have v: "complete_watch_run_validate L r = Ok ()"
    by (cases "complete_watch_run_validate L r") (auto simp: d1_complete_watch_run_def)
  from ok c have "gate_open r db" by (cases rule: d1_complete_cases) (use k c in auto)
  with v show "is_ok (fst (sq_complete_watch_run L r db))" by (simp add: sq_complete_is_ok)
next
  assume "is_ok (fst (sq_complete_watch_run L r db))"
  then obtain out db' where "sq_complete_watch_run L r db = (Ok out, db')"
    by (cases "sq_complete_watch_run L r db") (auto simp: is_ok_iff)
  from d1_complete_agrees [OF ok u range size this] show "is_ok (fst (d1_complete_watch_run L r db))" by auto
qed

end
