(* ===== verification/Store_Properties.thy ===== *)
theory Store_Properties
  imports Store_Equivalence
begin

text \<open>
  What the stores promise their callers, stated over the operations of \<open>Sqlite_Store\<close> and
  \<open>D1_Store\<close>. The lease, run and delivery properties are the lemmas of the contracts of
  \<open>Store_Contract\<close> at the two stores.
\<close>

section \<open>A database for the examples\<close>

definition example_watch :: "string \<Rightarrow> int \<Rightarrow> string option \<Rightarrow> int option \<Rightarrow> watch" where
  "example_watch i due owner expires = \<lparr>w_tenant = ''t'', w_id = i,
     w_query = \<lparr>q_text = ''rust'', q_limit = None, q_since = None, q_until = None\<rparr>,
     w_sources = [Source_Id ''web''], w_interval = 60, w_cursor = json_object [], w_enabled = True,
     w_created = 0, w_next_due = due, w_lease_owner = owner, w_lease_expires = expires\<rparr>"

definition example_run :: "string \<Rightarrow> string \<Rightarrow> watch_run" where
  "example_run w i = \<lparr>run_tenant = ''t'', run_watch = w, run_id = i, run_key = i, run_owner = ''a'',
     run_status = ''running'', run_started = 8, run_finished = None, run_error = None\<rparr>"

definition example_delivery :: "string \<Rightarrow> string \<Rightarrow> string option \<Rightarrow> int option \<Rightarrow> nat \<Rightarrow> delivery" where
  "example_delivery i st owner expires n = \<lparr>d_tenant = ''t'', d_id = i, d_watch = ''w2'', d_run = None,
     d_status = st, d_target = json_object [], d_payload = JNull, d_created = 1, d_next_attempt = 1,
     d_attempts = n, d_lease_owner = owner, d_lease_expires = expires, d_delivered = None, d_error = None\<rparr>"

definition example_db :: db where
  "example_db = \<lparr>db_sources = [],
     db_watches = [example_watch ''w1'' 10 None None, example_watch ''w2'' 5 (Some ''a'') (Some 100)],
     db_runs = [example_run ''w2'' ''r1''], db_records = [], db_watch_records = [],
     db_deliveries = [example_delivery ''d1'' ''pending'' None None 0]\<rparr>"

definition example_complete :: complete_watch_run where
  "example_complete = \<lparr>cr_tenant = ''t'', cr_watch = ''w2'', cr_run = ''r1'', cr_owner = ''a'', cr_finished = 50,
     cr_records = [example_record ''web'' ''a'' ''https://x''], cr_cursor = json_object [], cr_error = None,
     cr_delivery = Some \<lparr>rd_id = ''d2'', rd_target = json_object []\<rparr>\<rparr>"

definition example_claim :: "int \<Rightarrow> claim_due_watch" where
  "example_claim now = \<lparr>cd_tenant = ''t'', cd_now = now, cd_owner = ''a'', cd_lease_seconds = 60\<rparr>"

lemma example_db_ok: "db_ok example_db"
  by code_simp

lemma example_completes:
  "sq_complete_watch_run example_libs example_complete example_db =
     (Ok \<lparr>out_run = ''r1'', out_status = ''succeeded'', out_seen = 1, out_inserted = 1, out_watch_inserted = 1\<rparr>,
      snd (sq_complete_watch_run example_libs example_complete example_db))"
  by code_simp

lemma example_completes_d1:
  "d1_complete_watch_run example_libs example_complete example_db =
     (Ok \<lparr>out_run = ''r1'', out_status = ''succeeded'', out_seen = 1, out_inserted = 1, out_watch_inserted = 1\<rparr>,
      snd (d1_complete_watch_run example_libs example_complete example_db))"
  by code_simp

section \<open>The constraints of the schema\<close>

text \<open>C9: Whatever requests arrive, through SQLite or D1, the database keeps the constraints of the
  schema (unique keys, references) and of the values: a lease has an owner exactly when it has an
  expiry, a run is finished exactly when it is not running, a delivery is leased exactly when it is
  being delivered and pending only while it has attempts left.\<close>

theorem stores_keep_constraints:
  "db_ok (fold (sq_apply L) qs empty_db) \<and> db_ok (fold (d1_apply L) qs empty_db)"
  using sqlite.all_ok [OF empty_db_ok] d1.all_ok [OF empty_db_ok] by blast

section \<open>Leases and runs\<close>

text \<open>C6: A leased watch is not claimed again before its lease expires, through SQLite or D1: after a claim,
  whatever the other requests (but for the holder's completion, the deletion of the watch, or claims
  at or after the expiry), no claim before the expiry yields the same watch.\<close>

theorem lease_exclusive:
  assumes "db_ok db" "(claim, handle) = (sq_claim_due_watch, sq_apply L) \<or> (claim, handle) = (d1_claim_due_watch, d1_apply L)"
    and "claim c db = (Ok (Some got), db')"
    and "list_all (leaves_lease (watch_key (cl_watch got)) (cd_owner c) (cl_expires got)) qs"
    and "claim c2 (fold handle qs db') = (Ok (Some got2), db2)" "cd_now c2 < cl_expires got"
  shows "watch_key (cl_watch got2) \<noteq> watch_key (cl_watch got)"
  using assms(2)
proof
  assume "(claim, handle) = (sq_claim_due_watch, sq_apply L)"
  with assms(3,5) show ?thesis by (intro sqlite.exclusive [OF assms(1) _ assms(4) _ assms(6)]) simp_all
next
  assume "(claim, handle) = (d1_claim_due_watch, d1_apply L)"
  with assms(3,5) show ?thesis by (intro d1.exclusive [OF assms(1) _ assms(4) _ assms(6)]) simp_all
qed

lemma example_claims:
  "case sq_claim_due_watch (example_claim 110) example_db of
     (Ok (Some got), db) \<Rightarrow> watch_key (cl_watch got) = (''t'', ''w2'') \<and> cl_expires got = 170 \<and>
       (case sq_claim_due_watch (example_claim 120) db of
          (Ok (Some got2), _) \<Rightarrow> watch_key (cl_watch got2) = (''t'', ''w1'') | _ \<Rightarrow> False)
   | _ \<Rightarrow> False"
  by code_simp

theorem lease_exclusive_witness:
  "case sq_claim_due_watch (example_claim 110) example_db of
     (Ok (Some got), db) \<Rightarrow>
       (case sq_claim_due_watch (example_claim 120) db of
          (Ok (Some got2), _) \<Rightarrow> watch_key (cl_watch got2) \<noteq> watch_key (cl_watch got) | _ \<Rightarrow> False)
   | _ \<Rightarrow> False"
proof -
  obtain got db1 where 1: "sq_claim_due_watch (example_claim 110) example_db = (Ok (Some got), db1)" "cl_expires got = 170"
    using example_claims by (auto split: prod.splits sum.splits option.splits)
  moreover obtain got2 db2 where 2: "sq_claim_due_watch (example_claim 120) db1 = (Ok (Some got2), db2)"
    using example_claims 1 by (auto split: prod.splits sum.splits option.splits)
  ultimately show ?thesis
    using lease_exclusive [OF example_db_ok disjI1 [OF refl] 1(1), of "[]" "example_claim 120" example_libs got2 db2]
    by (simp add: example_claim_def)
qed

text \<open>C7: A run completes once: after a completion, while its watch is kept, any further completion of
  the same run is refused, through SQLite or D1.\<close>

theorem run_completes_once:
  assumes "db_ok db" "list_all (keeps_watch (cr_tenant r, cr_watch r)) qs" "run_of r2 = run_of r"
  shows "(if is_ok (fst (sq_complete_watch_run L r db))
          then \<not> is_ok (fst (sq_complete_watch_run L r2 (fold (sq_apply L) qs (snd (sq_complete_watch_run L r db))))) else True) \<and>
    (if is_ok (fst (d1_complete_watch_run L r db))
     then \<not> is_ok (fst (d1_complete_watch_run L r2 (fold (d1_apply L) qs (snd (d1_complete_watch_run L r db))))) else True)"
proof -
  have "\<not> is_ok (fst (sq_complete_watch_run L r2 (fold (sq_apply L) qs db1)))"
    if "sq_complete_watch_run L r db = (Ok out, db1)" for out db1
    by (rule sqlite.completes_once [OF assms(1) that assms(2,3)])
  moreover have "\<not> is_ok (fst (d1_complete_watch_run L r2 (fold (d1_apply L) qs db1)))"
    if "d1_complete_watch_run L r db = (Ok out, db1)" for out db1
    by (rule d1.completes_once [OF assms(1) that assms(2,3)])
  ultimately show ?thesis
    by (cases "sq_complete_watch_run L r db"; cases "d1_complete_watch_run L r db") (auto simp: is_ok_iff)
qed

theorem run_completes_once_witness:
  "is_ok (fst (sq_complete_watch_run example_libs example_complete example_db)) \<and>
   \<not> is_ok (fst (sq_complete_watch_run example_libs example_complete
     (snd (sq_complete_watch_run example_libs example_complete example_db)))) \<and>
   is_ok (fst (d1_complete_watch_run example_libs example_complete example_db)) \<and>
   \<not> is_ok (fst (d1_complete_watch_run example_libs example_complete
     (snd (d1_complete_watch_run example_libs example_complete example_db))))"
proof -
  have "is_ok (fst (sq_complete_watch_run example_libs example_complete example_db))"
    by (subst example_completes) simp
  moreover have "is_ok (fst (d1_complete_watch_run example_libs example_complete example_db))"
    by (subst example_completes_d1) simp
  ultimately show ?thesis
    using run_completes_once [OF example_db_ok, of example_complete "[]" example_complete example_libs] by simp
qed

text \<open>Starting a run is idempotent: while a run is recorded under an idempotency key, a start with the
  same key, whatever its run id, worker or time, returns that run and changes nothing.\<close>

lemma start_idempotent:
  assumes "sq_start_watch_run r db = (Ok run, db')" "start_watch_run_validate r2 = Ok ()"
    and "(sr_tenant r2, sr_watch r2, sr_key r2) = (sr_tenant r, sr_watch r, sr_key r)"
  shows "sq_start_watch_run r2 db' = (Ok run, db')"
proof -
  let ?P = "\<lambda>x. run_idem x = (sr_tenant r, sr_watch r, sr_key r)"
  have "select_first ?P (db_runs db') = Some run"
    using assms(1)
    by (auto simp: sq_start_watch_run_def fetch_watch_run_def Let_def split: sum.splits if_splits option.splits)
  moreover from this have "exists_where ?P (db_runs db')" by (simp add: exists_where_select)
  ultimately show ?thesis
    using assms(2,3) by (simp add: sq_start_watch_run_def fetch_watch_run_def new_run_def run_idem_def Let_def)
qed

definition example_start :: "string \<Rightarrow> string \<Rightarrow> int \<Rightarrow> start_watch_run" where
  "example_start run owner at = \<lparr>sr_tenant = ''t'', sr_watch = ''w2'', sr_run = run, sr_key = ''k'',
     sr_owner = owner, sr_started = at\<rparr>"

lemma example_starts:
  "let r = sq_start_watch_run (example_start ''r9'' ''a'' 20) example_db
   in is_ok (fst r) \<and> length (db_runs (snd r)) = 2 \<and> start_watch_run_validate (example_start ''r10'' ''b'' 30) = Ok ()"
  by code_simp

text \<open>A completion SQLite refuses leaves the database as it was, whatever step refused it.\<close>

lemma sqlite_refused_completion_changes_nothing:
  "sq_complete_watch_run L r db = (Err e, db') \<Longrightarrow> db' = db"
  by (cases rule: complete_cases) auto

text \<open>D1 does not keep this: a repeated completion is refused and yet ends the lease its worker took
  since on the same watch, because the last statement of the batch matches a run that is finished
  already.\<close>

lemma d1_refused_completion_ends_lease:
  "let db1 = snd (d1_complete_watch_run example_libs example_complete example_db);
       db2 = snd (d1_claim_due_watch (example_claim 120) db1);
       db3 = snd (d1_claim_due_watch (example_claim 120) db2);
       again = d1_complete_watch_run example_libs example_complete db3
   in exists_where (\<lambda>w. watch_key w = (''t'', ''w2'') \<and> w_lease_owner w = Some ''a'') (db_watches db3) \<and>
      fst again = Err (Store_Conflict ''watch lease is not held by this worker'') \<and>
      \<not> exists_where (\<lambda>w. watch_key w = (''t'', ''w2'') \<and> w_lease_owner w = Some ''a'') (db_watches (snd again))"
  by code_simp

text \<open>A claim takes the earliest due watch, by due time, creation and id, leases it to the worker until
  the end of the lease, and leaves every other watch; it takes none exactly when none is due.\<close>

lemma claim_takes_earliest_due:
  assumes "db_ok db" "claim_due_watch_validate r = Ok ()" "sq_claim_due_watch r db = (res, db')"
  shows "case res of
      Ok None \<Rightarrow> db' = db \<and> \<not> exists_where (watch_due (cd_tenant r) (cd_now r)) (db_watches db)
    | Ok (Some got) \<Rightarrow>
        cl_watch got \<in> set (db_watches db) \<and> watch_due (cd_tenant r) (cd_now r) (cl_watch got) \<and>
        list_all (\<lambda>v. if watch_due (cd_tenant r) (cd_now r) v then due_order (cl_watch got) \<le> due_order v else True) (db_watches db) \<and>
        db' = db\<lparr>db_watches := map (\<lambda>v. if v = cl_watch got
          then v\<lparr>w_lease_owner := Some (cd_owner r), w_lease_expires := Some (add64 (cd_now r) (int (cd_lease_seconds r)))\<rparr>
          else v) (db_watches db)\<rparr>
    | Err e \<Rightarrow> False"
proof (cases "select_due_watch r db")
  case None
  then have "\<not> exists_where (watch_due (cd_tenant r) (cd_now r)) (db_watches db)"
    by (auto simp: select_due_watch_def head_option_select_None exists_where_def)
  moreover have "res = Ok None" "db' = db" using None assms(2,3) by (simp_all add: sq_claim_due_watch_def)
  ultimately show ?thesis by simp
next
  case (Some w)
  note w = select_due_watch_Some [OF Some]
  have u: "unique_by watch_key (db_watches db)" using assms(1) by (simp add: db_ok_def keys_ok_def)
  have "validate_interval (cd_lease_seconds r) = Ok ()" using assms(2) by (auto simp: claim_due_watch_validate_def)
  then have i: "i64_from_u64 (cd_lease_seconds r) n = Ok (int (cd_lease_seconds r))" for n by (rule interval_i64)
  have same: "(watch_key v = (cd_tenant r, w_id w) \<and> w_enabled v \<and> w_next_due v \<le> cd_now r \<and> lease_free (cd_now r) v) = (v = w)"
    if v: "v \<in> set (db_watches db)" for v
  proof -
    have "watch_key v = watch_key w \<Longrightarrow> v = w"
      using unique_byD [OF u v] w by blast
    then show ?thesis using w by (auto simp: watch_due_def watch_key_def)
  qed
  let ?P = "\<lambda>v. watch_key v = (cd_tenant r, w_id w) \<and> w_enabled v \<and> w_next_due v \<le> cd_now r \<and> lease_free (cd_now r) v"
  let ?e = "add64 (cd_now r) (int (cd_lease_seconds r))"
  let ?f = "\<lambda>v. v\<lparr>w_lease_owner := Some (cd_owner r), w_lease_expires := Some ?e\<rparr>"
  have "?P w" using same w by blast
  then have "count_where ?P (db_watches db) \<noteq> 0" using w count_where_zero [of ?P "db_watches db"] by blast
  then have "res = Ok (Some \<lparr>cl_watch = w, cl_owner = cd_owner r, cl_expires = ?e\<rparr>)"
    "db' = db\<lparr>db_watches := update_where ?P ?f (db_watches db)\<rparr>"
    using assms(2,3) Some i by (simp_all add: sq_claim_due_watch_def Let_def)
  moreover have "update_where ?P ?f (db_watches db) = map (\<lambda>v. if v = w then ?f v else v) (db_watches db)"
    unfolding update_where_def by (rule map_cong [OF refl]) (simp only: same)
  ultimately show ?thesis using w by (simp add: list_all_iff)
qed

lemma example_earliest:
  "case sq_claim_due_watch (example_claim 110) example_db of (Ok (Some got), db) \<Rightarrow> True | _ \<Rightarrow> False"
  "claim_due_watch_validate (example_claim 110) = Ok ()"
  by code_simp+

text \<open>A completion stores what the run saw: every record of the batch is in the tenant's records and in
  the watch's with the time of the completion as last observation, the first observation of a record
  already known is kept, rows outside the batch are untouched, the counts are the numbers of records new
  to the tenant and to the watch, and a requested delivery is queued exactly when some record is new to
  the watch and its id is free.\<close>

lemma completion_stores_batch:
  assumes "unique_by record_key (cr_records r)" "sq_complete_watch_run L r db = (Ok out, db')"
  shows "out_seen out = length (cr_records r) \<and> out_status out = run_status_of (cr_error r) \<and>
    out_inserted out = length (filter (\<lambda>x. (cr_tenant r, record_key x) \<notin> record_row_key ` set (db_records db)) (cr_records r)) \<and>
    out_watch_inserted out = length (new_to_watch r db (cr_records r)) \<and>
    list_all (\<lambda>x. \<exists>y \<in> set (db_records db'). record_row_key y = (cr_tenant r, record_key x) \<and> rw_record y = x \<and>
        rw_last y = cr_finished r \<and>
        (rw_first y = cr_finished r \<or> (\<exists>z \<in> set (db_records db). record_row_key z = record_row_key y \<and> rw_first z = rw_first y)))
      (cr_records r) \<and>
    list_all (\<lambda>x. \<exists>y \<in> set (db_watch_records db'). watch_record_key y = (cr_tenant r, cr_watch r, record_key x) \<and>
        wr_last y = cr_finished r) (cr_records r) \<and>
    {y \<in> set (db_records db). record_row_key y \<notin> (\<lambda>x. (cr_tenant r, record_key x)) ` set (cr_records r)} \<subseteq> set (db_records db') \<and>
    db_deliveries db' = db_deliveries db @
      (case cr_delivery r of None \<Rightarrow> [] | Some d \<Rightarrow>
        if new_to_watch r db (cr_records r) = [] \<or>
           exists_where (\<lambda>x. delivery_key x = (cr_tenant r, rd_id d)) (db_deliveries db) then []
        else [run_delivery_row r d (new_to_watch r db (cr_records r))])"
proof -
  obtain w0 :: watch where out: "out = \<lparr>out_run = cr_run r, out_status = run_status_of (cr_error r), out_seen = length (cr_records r),
      out_inserted = length (new_to_tenant r db (cr_records r)),
      out_watch_inserted = length (new_to_watch r db (cr_records r))\<rparr>"
    and db': "db' = finish_run_and_watch r (run_status_of (cr_error r)) (w_interval w0)
      (insert_run_delivery r (new_to_watch r db (cr_records r))
        (db\<lparr>db_records := merged_records r (cr_records r) (db_records db),
            db_watch_records := merged_watch_records r (cr_records r) (db_watch_records db)\<rparr>))"
    by (rule sq_complete_result [OF assms]) blast
  have tables: "db_records db' = merged_records r (cr_records r) (db_records db)"
    "db_watch_records db' = merged_watch_records r (cr_records r) (db_watch_records db)"
    by (auto simp: db' finish_run_and_watch_def insert_run_delivery_def split: option.split)
  have u: "unique_by (\<lambda>x. (cr_tenant r, cr_watch r, record_key x)) (cr_records r)"
    using assms(1) by (simp add: unique_by_pair)
  have "\<exists>y \<in> set (db_records db'). record_row_key y = (cr_tenant r, record_key x) \<and> rw_record y = x \<and>
      rw_last y = cr_finished r \<and>
      (rw_first y = cr_finished r \<or> (\<exists>z \<in> set (db_records db). record_row_key z = record_row_key y \<and> rw_first z = rw_first y))"
    if x: "x \<in> set (cr_records r)" for x
    unfolding tables by (rule merged_record_stored [OF assms(1) x])
  moreover have "\<exists>y \<in> set (db_watch_records db'). watch_record_key y = (cr_tenant r, cr_watch r, record_key x) \<and>
      wr_last y = cr_finished r" if x: "x \<in> set (cr_records r)" for x
    using merged_rows_stored [OF u x, of
        "\<lambda>x. \<lparr>wr_tenant = cr_tenant r, wr_watch = cr_watch r, wr_source = rec_source x, wr_id = rec_id x,
            wr_first = cr_finished r, wr_last = cr_finished r\<rparr>"
        watch_record_key "\<lambda>x y. y\<lparr>wr_last := cr_finished r\<rparr>" "db_watch_records db"]
    unfolding tables merged_watch_records_def
    by (elim disjE conjE bexE; elim bexI [rotated]) (auto simp: watch_record_key_def record_key_def)
  moreover have "{y \<in> set (db_records db). record_row_key y \<notin> (\<lambda>x. (cr_tenant r, record_key x)) ` set (cr_records r)}
      \<subseteq> set (db_records db')"
    unfolding tables merged_records_def by (intro subsetI, elim CollectE conjE) (rule merged_rows_other)
  moreover have "db_deliveries db' = db_deliveries db @
      (case cr_delivery r of None \<Rightarrow> [] | Some d \<Rightarrow>
        if new_to_watch r db (cr_records r) = [] \<or>
           exists_where (\<lambda>x. delivery_key x = (cr_tenant r, rd_id d)) (db_deliveries db) then []
        else [run_delivery_row r d (new_to_watch r db (cr_records r))])"
    by (auto simp: db' finish_run_and_watch_def insert_run_delivery_def split: option.split)
  ultimately show ?thesis by (simp add: out new_to_tenant_def list_all_iff)
qed

section \<open>Deliveries\<close>

text \<open>C10: A delivery moves along its life cycle, through SQLite or D1: while its watch is kept, the row
  stays, its attempts never decrease, and once it has succeeded or failed it never changes again.\<close>

theorem delivery_life_cycle:
  assumes "db_ok db" "d \<in> set (db_deliveries db)" "list_all (keeps_watch (d_tenant d, d_watch d)) qs"
    and "exec = sq_apply L \<or> exec = d1_apply L"
  shows "\<exists>d' \<in> set (db_deliveries (fold exec qs db)). delivery_key d' = delivery_key d \<and>
    delivery_step\<^sup>*\<^sup>* d d' \<and> d_attempts d \<le> d_attempts d' \<and>
    (if d_status d = ''succeeded'' \<or> d_status d = ''failed'' then d' = d else True)"
proof -
  obtain d' where "d' \<in> set (db_deliveries (fold exec qs db))" "delivery_step\<^sup>*\<^sup>* d d'"
    using sqlite_queue.life [OF assms(1-3)] d1_queue.life [OF assms(1-3)] assms(4) by blast
  then show ?thesis
    using delivery_steps_key delivery_steps_attempts delivery_steps_terminal by (auto intro!: bexI [of _ d'])
qed

definition example_claim_delivery :: "int \<Rightarrow> claim_pending_delivery" where
  "example_claim_delivery now = \<lparr>cp_tenant = ''t'', cp_now = now, cp_owner = ''s'', cp_lease_seconds = 60\<rparr>"

theorem delivery_life_cycle_witness:
  "\<exists>d' \<in> set (db_deliveries (fold (sq_apply example_libs)
       [Req_Claim_Delivery (example_claim_delivery 7), Req_Complete example_complete] example_db)).
     delivery_key d' = (''t'', ''d1'') \<and> delivery_step\<^sup>*\<^sup>* (example_delivery ''d1'' ''pending'' None None 0) d'"
proof -
  let ?d = "example_delivery ''d1'' ''pending'' None None 0"
  have "?d \<in> set (db_deliveries example_db)" by (simp add: example_db_def)
  from delivery_life_cycle [OF example_db_ok this, of
      "[Req_Claim_Delivery (example_claim_delivery 7), Req_Complete example_complete]" "sq_apply example_libs" example_libs]
  show ?thesis by (auto simp: example_delivery_def delivery_key_def)
qed

text \<open>A failed attempt is retried after the retry delay until the attempts are used up: while the
  worker's lease holds, a completion succeeds, keeps the attempts, and leaves the delivery succeeded,
  pending again (fewer attempts than the limit) or failed (the limit is reached), without a lease.\<close>

lemma delivery_completion_outcome:
  assumes "db_ok db" "complete_delivery_validate r = Ok ()" "d \<in> set (db_deliveries db)"
    and "delivery_held (dc_tenant r, dc_delivery r) (dc_owner r) (dc_finished r) d"
  shows "case sq_complete_delivery r db of
      (Ok d', db') \<Rightarrow> d1_complete_delivery r db = (Ok d', db') \<and> d' \<in> set (db_deliveries db') \<and>
        d' = d\<lparr>d_status := (if dc_success r then ''succeeded''
            else if d_attempts d < max_delivery_attempts then ''pending'' else ''failed''),
          d_next_attempt := (if dc_success r then dc_finished r else add64 (dc_finished r) delivery_retry_seconds),
          d_delivered := (if dc_success r then Some (dc_finished r) else None),
          d_error := dc_error r, d_lease_owner := None, d_lease_expires := None\<rparr>
    | (Err e, db') \<Rightarrow> False"
proof -
  let ?k = "(dc_tenant r, dc_delivery r)"
  let ?P = "delivery_held ?k (dc_owner r) (dc_finished r)"
  let ?f = "complete_delivery_set r"
  let ?ds = "db_deliveries db"
  have u: "unique_by delivery_key ?ds" using assms(1) by (simp add: db_ok_def keys_ok_def)
  have "delivery_key s = delivery_key d" if "s \<in> set ?ds" "?P s" for s
    using that assms(4) by (simp add: delivery_held_def)
  then have f: "select_first ?P ?ds = Some d"
    by (rule select_first_unique [where P = ?P, OF u assms(3,4)])
  have d1: "d1_complete_delivery r db = (Ok (?f d), db\<lparr>db_deliveries := update_where ?P ?f ?ds\<rparr>)"
    using assms(2) f by (simp add: d1_complete_delivery_def complete_delivery_sql_set Let_def)
  have "?f d \<in> set (update_where ?P ?f ?ds)"
    using update_where_image [OF assms(3), of ?P ?f] assms(4) by simp
  with d1 d1_complete_delivery_same [OF assms(1), of r] show ?thesis
    by (auto simp: complete_delivery_set_def delivery_status_def next_attempt_epoch_def split: prod.splits)
qed

definition example_held_db :: db where
  "example_held_db = example_db\<lparr>db_deliveries := [example_delivery ''d1'' ''delivering'' (Some ''s'') (Some 67) 3]\<rparr>"

definition example_complete_delivery :: complete_delivery where
  "example_complete_delivery = \<lparr>dc_tenant = ''t'', dc_delivery = ''d1'', dc_owner = ''s'', dc_finished = 20,
     dc_success = False, dc_error = Some ''http 500''\<rparr>"

lemma delivery_claim_fresh:
  assumes "db_ok db" "claim_pending_validate r = Ok ()"
    and "\<not> exists_where (\<lambda>d. d_tenant d = cp_tenant r \<and> d_lease_owner d = Some (cp_owner r)) (db_deliveries db)"
  shows "d1_claim_pending_delivery r db = sq_claim_pending_delivery r db \<and>
    (case fst (sq_claim_pending_delivery r db) of
       Ok None \<Rightarrow> \<not> exists_where (delivery_due (cp_tenant r) (cp_now r)) (db_deliveries db)
     | Ok (Some d') \<Rightarrow> \<exists>d \<in> set (db_deliveries db). delivery_due (cp_tenant r) (cp_now r) d \<and>
         (\<forall>e \<in> set (db_deliveries db). delivery_due (cp_tenant r) (cp_now r) e \<longrightarrow> delivery_order d \<le> delivery_order e) \<and>
         d' = claim_delivery_set (cp_owner r) (add64 (cp_now r) (int (cp_lease_seconds r))) d
     | Err e \<Rightarrow> False)"
proof -
  have "validate_interval (cp_lease_seconds r) = Ok ()" using assms(2) by (auto simp: claim_pending_validate_def)
  then have i: "i64_from_u64 (cp_lease_seconds r) n = Ok (int (cp_lease_seconds r))" for n by (rule interval_i64)
  let ?ds = "db_deliveries db" and ?e = "add64 (cp_now r) (int (cp_lease_seconds r))"
  let ?f = "claim_delivery_set (cp_owner r) ?e"
  show ?thesis
  proof (cases "next_delivery (cp_tenant r) (cp_now r) db")
    case None
    then have "\<not> exists_where (delivery_due (cp_tenant r) (cp_now r)) ?ds"
      by (auto simp: next_delivery_def head_option_select_None exists_where_def)
    with None assms(2) i show ?thesis
      by (simp add: d1_claim_pending_delivery_def sq_claim_pending_delivery_def claim_delivery_rows_def
          claim_delivery_sql_def next_delivery_def)
  next
    case (Some d)
    let ?P = "\<lambda>x. d_id x = d_id d \<and> delivery_due (cp_tenant r) (cp_now r) x"
    let ?rows = "update_where ?P ?f ?ds"
    let ?Q = "\<lambda>x. d_tenant x = cp_tenant r \<and> d_lease_owner x = Some (cp_owner r) \<and> d_status x = ''delivering''"
    let ?k = "\<lambda>x. (case d_lease_expires x of None \<Rightarrow> (1 :: int, 0) | Some e \<Rightarrow> (0, - e), d_id x)"
    note d = head_option_select [OF Some [unfolded next_delivery_def]]
    have u: "unique_by delivery_key ?ds" using assms(1) by (simp add: db_ok_def keys_ok_def)
    have dP: "d \<in> set ?ds" "?P d" using d by simp_all
    have one: "delivery_key x = delivery_key d" if "x \<in> set ?ds" "?P x" for x
      using that dP by (simp add: delivery_due_def delivery_key_def)
    have f: "select_first ?P ?ds = Some d" by (rule select_first_unique [where P = ?P, OF u dP one])
    have n: "count_where ?P ?ds = 1" by (rule count_where_unique [where P = ?P, OF u dP one])
    have only: "x = ?f d" if "x \<in> set ?rows" "?Q x" for x
      using that(1)
    proof (rule update_where_congE)
      fix y assume "y \<in> set ?ds" "?P y" "x = ?f y"
      then show "x = ?f d" using unique_byD [OF u _ dP(1) one] by blast
    next
      assume "x \<in> set ?ds"
      with assms(3) that(2) show "x = ?f d" by (auto simp: exists_where_def)
    qed
    have "?f d \<in> set ?rows" using update_where_image [OF dP(1), of ?P ?f] dP(2) by simp
    moreover have "?Q (?f d)" using dP(2) by (simp add: claim_delivery_set_def delivery_due_def)
    ultimately have "head_option (select_ordered ?Q ?k ?rows) \<noteq> None"
      unfolding head_option_select_None by blast
    then obtain x where x: "head_option (select_ordered ?Q ?k ?rows) = Some x" by blast
    with head_option_select [OF x] only have "x = ?f d" by blast
    with x have fetched: "fetch_claimed_delivery r (db\<lparr>db_deliveries := ?rows\<rparr>) = Some (?f d)"
      by (simp add: fetch_claimed_delivery_def)
    have sq: "sq_claim_pending_delivery r db = (Ok (Some (?f d)), db\<lparr>db_deliveries := ?rows\<rparr>)"
      using assms(2) i Some n fetched by (simp add: sq_claim_pending_delivery_def claim_delivery_rows_def Let_def)
    have d1: "d1_claim_pending_delivery r db = (Ok (Some (?f d)), db\<lparr>db_deliveries := ?rows\<rparr>)"
      using assms(2) i Some f
      by (simp add: d1_claim_pending_delivery_def claim_delivery_sql_def next_delivery_def Let_def)
    show ?thesis unfolding sq d1 using d by auto
  qed
qed

section \<open>The two stores agree\<close>



text \<open>C8: A completion of a batch whose records have distinct keys, within the size D1 accepts, succeeds
  through D1 exactly when it does through SQLite, with the same outcome and the same rows; only the
  order of the records in a delivery's payload may differ.\<close>

theorem completions_agree:
  assumes "db_ok db" "unique_by record_key (cr_records r)" "records_json_check L r = Ok ()"
    and "list_all (\<lambda>w. in_i64 (cr_finished r + int (w_interval w))) (db_watches db)"
  shows "is_ok (fst (d1_complete_watch_run L r db)) = is_ok (fst (sq_complete_watch_run L r db)) \<and>
    (if is_ok (fst (sq_complete_watch_run L r db))
     then fst (d1_complete_watch_run L r db) = fst (sq_complete_watch_run L r db) \<and>
       db_alike (snd (sq_complete_watch_run L r db)) (snd (d1_complete_watch_run L r db)) else True)"
proof -
  have range: "in_i64 (cr_finished r + int (w_interval w))" if "w \<in> set (db_watches db)" for w
    using assms(4) that by (simp add: list_all_iff)
  obtain res db' where s: "sq_complete_watch_run L r db = (res, db')" by (cases "sq_complete_watch_run L r db")
  show ?thesis
  proof (cases "is_ok res")
    case True
    then obtain out where "sq_complete_watch_run L r db = (Ok out, db')" using s by (auto simp: is_ok_iff)
    from d1_complete_agrees [OF assms(1,2) range assms(3) this] this show ?thesis by auto
  next
    case False
    with s d1_complete_is_ok [OF assms(1,2) range assms(3)] show ?thesis by simp
  qed
qed

theorem completions_agree_witness:
  "fst (d1_complete_watch_run example_libs example_complete example_db) =
     fst (sq_complete_watch_run example_libs example_complete example_db)"
proof -
  have "unique_by record_key (cr_records example_complete)"
    "records_json_check example_libs example_complete = Ok ()" by code_simp+
  moreover have "list_all (\<lambda>w. in_i64 (cr_finished example_complete + int (w_interval w))) (db_watches example_db)"
    by (simp add: example_db_def example_watch_def example_complete_def in_i64_def)
  moreover have "is_ok (fst (sq_complete_watch_run example_libs example_complete example_db))"
    by (subst example_completes) simp
  ultimately show ?thesis using completions_agree [OF example_db_ok] by simp
qed

text \<open>SQLite answers a delivery claim with the worker's delivery whose lease ends last; a worker that
  holds another one with a later lease is handed that one, and the claimed one is left to expire.\<close>

lemma sqlite_claim_returns_other_delivery:
  "let db = example_db\<lparr>db_deliveries := [example_delivery ''d0'' ''delivering'' (Some ''s'') (Some 500) 1,
        example_delivery ''d1'' ''pending'' None None 0]\<rparr>
   in map_sum id (map_option d_id) (fst (sq_claim_pending_delivery (example_claim_delivery 7) db)) = Ok (Some ''d0'') \<and>
      map_sum id (map_option d_id) (fst (d1_claim_pending_delivery (example_claim_delivery 7) db)) = Ok (Some ''d1'') \<and>
      map d_attempts (db_deliveries (snd (sq_claim_pending_delivery (example_claim_delivery 7) db))) = [1, 1]"
  by code_simp

end
