(* ===== verification/Net_Address.thy ===== *)
theory Net_Address
  imports Json
begin

text \<open>
  The addresses of Rust's \<open>std::net\<close> the program parses and classifies: \<open>Ipv4Addr\<close> as its octets,
  \<open>Ipv6Addr\<close> as its eight segments. The parser follows \<open>core::net::parser\<close>: a reader takes the
  rest of the text and returns the value with what it left, or nothing.
\<close>

type_synonym ipv4 = "nat \<times> nat \<times> nat \<times> nat"
type_synonym ipv6 = "nat list"

section \<open>Reading\<close>

definition to_digit :: "nat \<Rightarrow> char \<Rightarrow> nat option" where
  "to_digit radix c =
     (if 48 \<le> byte c \<and> byte c \<le> 57 then Some (byte c - 48)
      else if radix = 16 \<and> 97 \<le> byte c \<and> byte c \<le> 102 then Some (byte c - 87)
      else if radix = 16 \<and> 65 \<le> byte c \<and> byte c \<le> 70 then Some (byte c - 55)
      else None)"

definition radix_value :: "nat \<Rightarrow> string \<Rightarrow> nat" where
  "radix_value radix s = foldl (\<lambda>acc c. acc * radix + the (to_digit radix c)) 0 s"

definition read_number :: "nat \<Rightarrow> nat \<Rightarrow> bool \<Rightarrow> nat \<Rightarrow> string \<Rightarrow> (nat \<times> string) option" where
  "read_number radix max_digits allow_zero_prefix bound s =
     (let ds = takeWhile (\<lambda>c. to_digit radix c \<noteq> None) s
      in if ds = [] \<or> max_digits < length ds \<or> bound \<le> radix_value radix ds
           \<or> (\<not> allow_zero_prefix \<and> hd ds = CHR ''0'' \<and> 1 < length ds) then None
         else Some (radix_value radix ds, drop (length ds) s))"

definition read_char :: "char \<Rightarrow> string \<Rightarrow> string option" where
  "read_char c s = (case s of [] \<Rightarrow> None | x # xs \<Rightarrow> if x = c then Some xs else None)"

text \<open>The separator is read before every element but the first.\<close>

definition read_separator :: "char \<Rightarrow> nat \<Rightarrow> (string \<Rightarrow> ('a \<times> string) option) \<Rightarrow> string \<Rightarrow> ('a \<times> string) option" where
  "read_separator sep i rd s =
     (if i = 0 then rd s else case read_char sep s of None \<Rightarrow> None | Some rest \<Rightarrow> rd rest)"

fun read_octets :: "nat \<Rightarrow> nat \<Rightarrow> string \<Rightarrow> (nat list \<times> string) option" where
  "read_octets 0 i s = Some ([], s)"
| "read_octets (Suc n) i s =
     (case read_separator (CHR ''.'') i (read_number 10 3 False 256) s of
        None \<Rightarrow> None
      | Some (a, rest) \<Rightarrow>
          (case read_octets n (Suc i) rest of None \<Rightarrow> None | Some (as, rest) \<Rightarrow> Some (a # as, rest)))"

definition read_ipv4 :: "string \<Rightarrow> (ipv4 \<times> string) option" where
  "read_ipv4 s = (case read_octets 4 0 s of Some ([a, b, c, d], rest) \<Rightarrow> Some ((a, b, c, d), rest) | _ \<Rightarrow> None)"

text \<open>The first argument is the number of groups left; the flag tells that a trailing IPv4 address
  was read, which takes two of them.\<close>

fun read_groups :: "nat \<Rightarrow> nat \<Rightarrow> string \<Rightarrow> nat list \<times> bool \<times> string" where
  "read_groups 0 i s = ([], False, s)"
| "read_groups (Suc n) i s =
     (case (if 0 < n then read_separator (CHR '':'') i read_ipv4 s else None) of
        Some ((a, b, c, d), rest) \<Rightarrow> ([a * 256 + b, c * 256 + d], True, rest)
      | None \<Rightarrow>
          (case read_separator (CHR '':'') i (read_number 16 4 True 65536) s of
             None \<Rightarrow> ([], False, s)
           | Some (g, rest) \<Rightarrow>
               (case read_groups n (Suc i) rest of (gs, v4, rest) \<Rightarrow> (g # gs, v4, rest))))"

definition read_ipv6 :: "string \<Rightarrow> (ipv6 \<times> string) option" where
  "read_ipv6 s =
     (case read_groups 8 0 s of (head, head_ipv4, rest) \<Rightarrow>
        if length head = 8 then Some (head, rest)
        else if head_ipv4 then None
        else (case read_char (CHR '':'') rest of None \<Rightarrow> None | Some rest \<Rightarrow>
             (case read_char (CHR '':'') rest of None \<Rightarrow> None | Some rest \<Rightarrow>
               (case read_groups (8 - (length head + 1)) 0 rest of (tail, _, rest) \<Rightarrow>
                  Some (head @ replicate (8 - (length head + length tail)) 0 @ tail, rest)))))"

definition parse_ipv4 :: "string \<Rightarrow> ipv4 option" where
  "parse_ipv4 s =
     (if 15 < length s then None
      else case read_ipv4 s of Some (ip, []) \<Rightarrow> Some ip | _ \<Rightarrow> None)"

definition parse_ipv6 :: "string \<Rightarrow> ipv6 option" where
  "parse_ipv6 s = (case read_ipv6 s of Some (ip, []) \<Rightarrow> Some ip | _ \<Rightarrow> None)"

section \<open>Classes of addresses\<close>

fun is_private :: "ipv4 \<Rightarrow> bool" where
  "is_private (a, b, c, d) \<longleftrightarrow> a = 10 \<or> (a = 172 \<and> 16 \<le> b \<and> b \<le> 31) \<or> (a = 192 \<and> b = 168)"

fun is_loopback :: "ipv4 \<Rightarrow> bool" where
  "is_loopback (a, b, c, d) \<longleftrightarrow> a = 127"

fun is_link_local :: "ipv4 \<Rightarrow> bool" where
  "is_link_local (a, b, c, d) \<longleftrightarrow> a = 169 \<and> b = 254"

fun is_broadcast :: "ipv4 \<Rightarrow> bool" where
  "is_broadcast ip \<longleftrightarrow> ip = (255, 255, 255, 255)"

fun is_documentation :: "ipv4 \<Rightarrow> bool" where
  "is_documentation (a, b, c, d) \<longleftrightarrow> (a, b, c) \<in> set [(192, 0, 2), (198, 51, 100), (203, 0, 113)]"

fun is_unspecified :: "ipv4 \<Rightarrow> bool" where
  "is_unspecified ip \<longleftrightarrow> ip = (0, 0, 0, 0)"

definition ipv6_loopback :: "ipv6 \<Rightarrow> bool" where
  "ipv6_loopback g \<longleftrightarrow> g = [0, 0, 0, 0, 0, 0, 0, 1]"

definition ipv6_unspecified :: "ipv6 \<Rightarrow> bool" where
  "ipv6_unspecified g \<longleftrightarrow> g = [0, 0, 0, 0, 0, 0, 0, 0]"

text \<open>\<open>fc00::/7\<close> and \<open>fe80::/10\<close>.\<close>

definition ipv6_unique_local :: "ipv6 \<Rightarrow> bool" where
  "ipv6_unique_local g \<longleftrightarrow> g ! 0 div 512 = 126"

definition ipv6_link_local :: "ipv6 \<Rightarrow> bool" where
  "ipv6_link_local g \<longleftrightarrow> g ! 0 div 64 = 1018"

definition to_ipv4_mapped :: "ipv6 \<Rightarrow> ipv4 option" where
  "to_ipv4_mapped g =
     (case g of [0, 0, 0, 0, 0, f, ab, cd] \<Rightarrow>
        if f = 65535 then Some (ab div 256, ab mod 256, cd div 256, cd mod 256) else None
      | _ \<Rightarrow> None)"

section \<open>Printing and reading back\<close>

fun ipv4_text :: "ipv4 \<Rightarrow> string" where
  "ipv4_text (a, b, c, d) = nat_str a @ ''.'' @ nat_str b @ ''.'' @ nat_str c @ ''.'' @ nat_str d"

fun octets :: "ipv4 \<Rightarrow> bool" where
  "octets (a, b, c, d) \<longleftrightarrow> a < 256 \<and> b < 256 \<and> c < 256 \<and> d < 256"

lemma nat_str_digit: "n < 10 \<Longrightarrow> nat_str n = [char_of (48 + n)]"
  by (simp add: nat_str.simps)

lemma nat_str_more: "10 \<le> n \<Longrightarrow> nat_str n = nat_str (n div 10) @ [char_of (48 + n mod 10)]"
  by (subst nat_str.simps) simp

lemma hd_nat_str: "byte (hd (nat_str n)) = 48 \<longleftrightarrow> n = 0"
proof (induction n rule: nat_str.induct)
  case (1 n)
  show ?case
  proof (cases "n < 10")
    case True
    then show ?thesis by (simp add: nat_str_digit)
  next
    case False
    with 1 have "byte (hd (nat_str (n div 10))) = 48 \<longleftrightarrow> n div 10 = 0" by blast
    moreover have "hd (nat_str n) = hd (nat_str (n div 10))" using False by (simp add: nat_str_more)
    ultimately show ?thesis using False by auto
  qed
qed

lemma octet_text:
  assumes "a < 256"
  shows "length (nat_str a) \<le> 3" "hd (nat_str a) = CHR ''0'' \<Longrightarrow> length (nat_str a) = 1"
proof -
  have 2: "length (nat_str n) \<le> 2" if "n < 100" for n
    by (cases "n < 10") (use that in \<open>simp_all add: nat_str_digit nat_str_more\<close>)
  show "length (nat_str a) \<le> 3"
  proof (cases "a < 10")
    case False
    have "a div 10 < 100" using assms by linarith
    with 2 [of "a div 10"] False show ?thesis by (simp add: nat_str_more)
  qed (simp add: nat_str_digit)
  assume "hd (nat_str a) = CHR ''0''"
  then have "byte (hd (nat_str a)) = 48" by (simp add: byte_def)
  then have "a = 0" by (simp only: hd_nat_str)
  then show "length (nat_str a) = 1" by (simp add: nat_str_digit)
qed

lemma to_digit_decimal: "to_digit 10 c \<noteq> None \<longleftrightarrow> is_ascii_digit c"
  by (simp add: to_digit_def is_ascii_digit_def)

lemma radix_value_decimal: "list_all is_ascii_digit s \<Longrightarrow> radix_value 10 s = digits_value s"
proof (induction s rule: rev_induct)
  case Nil
  then show ?case by (simp add: radix_value_def digits_value_def)
next
  case (snoc c s)
  then show ?case by (simp add: radix_value_def digits_value_def to_digit_def is_ascii_digit_def)
qed

lemma read_number_octet:
  assumes "a < 256" "case rest of [] \<Rightarrow> True | c # cs \<Rightarrow> \<not> is_ascii_digit c"
  shows "read_number 10 3 False 256 (nat_str a @ rest) = Some (a, rest)"
proof -
  have d: "\<forall>c \<in> set (nat_str a). is_ascii_digit c" using nat_str_digits [of a] by (simp add: list_all_iff)
  have "takeWhile (\<lambda>c. to_digit 10 c \<noteq> None) (nat_str a @ rest) = nat_str a"
    unfolding to_digit_decimal using d assms(2) by (cases rest) (simp_all add: takeWhile_append)
  moreover have "radix_value 10 (nat_str a) = a"
    using nat_str_digits [of a] by (simp add: radix_value_decimal digits_value_nat_str)
  ultimately show ?thesis
    using octet_text [OF assms(1)] assms(1) by (auto simp: read_number_def Let_def)
qed

lemma dot_no_digit [simp]: "\<not> is_ascii_digit (CHR ''.'')"
  by (simp add: is_ascii_digit_def byte_def)

lemma read_ipv4_text:
  assumes "octets ip" "case rest of [] \<Rightarrow> True | c # cs \<Rightarrow> \<not> is_ascii_digit c"
  shows "read_ipv4 (ipv4_text ip @ rest) = Some (ip, rest)"
proof -
  obtain a b c d where ip: "ip = (a, b, c, d)" by (cases ip)
  have "read_octets (Suc (Suc (Suc (Suc 0)))) 0 (ipv4_text ip @ rest) = Some ([a, b, c, d], rest)"
    using assms by (simp add: ip read_separator_def read_char_def read_number_octet)
  moreover have "(4 :: nat) = Suc (Suc (Suc (Suc 0)))" by simp
  ultimately show ?thesis unfolding read_ipv4_def by (simp only: ip list.case option.case prod.case)
qed

lemma ipv4_text_length: "octets ip \<Longrightarrow> length (ipv4_text ip) \<le> 15"
proof (cases ip)
  case (fields a b c d)
  assume "octets ip"
  with fields octet_text(1) [of a] octet_text(1) [of b] octet_text(1) [of c] octet_text(1) [of d]
  show ?thesis by simp
qed

lemma parse_ipv4_text: "octets ip \<Longrightarrow> parse_ipv4 (ipv4_text ip) = Some ip"
  using read_ipv4_text [of ip "[]"] ipv4_text_length [of ip] by (simp add: parse_ipv4_def)

end
