(* ===== verification/Webhook.thy ===== *)
theory Webhook
  imports Net_Address Store_Db Engine_Plan
begin

text \<open>
  Webhook notifications (\<open>comsat-app/src/notifications.rs\<close>): the destination a configuration accepts
  and the sending of one queued delivery. \<open>http::Uri\<close>, the header check of the \<open>http\<close> crate and the
  hash of a delivery id are fields of \<open>net_libs\<close>, the HTTP client is a function of the request.
\<close>

record uri =
  uri_scheme :: "string option"
  uri_authority :: "string option"

record net_libs =
  parse_uri :: "string \<Rightarrow> uri option"
  header_value_ok :: "string \<Rightarrow> bool"
  hash_strings :: "string list \<Rightarrow> nat"
  base_libs :: libs

section \<open>The destination\<close>

fun rejected_ipv4 :: "ipv4 \<Rightarrow> bool" where
  "rejected_ipv4 ip \<longleftrightarrow> is_private ip \<or> is_loopback ip \<or> is_link_local ip \<or> is_broadcast ip \<or>
     is_documentation ip \<or> is_unspecified ip"

definition rejected_ipv6 :: "ipv6 \<Rightarrow> bool" where
  "rejected_ipv6 ip =
     (case to_ipv4_mapped ip of
        Some mapped \<Rightarrow> rejected_ipv4 mapped
      | None \<Rightarrow> ipv6_loopback ip \<or> ipv6_unspecified ip \<or> ipv6_unique_local ip \<or> ipv6_link_local ip)"

definition reject_private_ip :: "bool \<Rightarrow> unit store_result" where
  "reject_private_ip rejected =
     (if rejected then Err (Store_Validation ''webhook URL rejects non-public IP targets'') else Ok ())"

definition trim_brackets :: "string \<Rightarrow> string" where
  "trim_brackets s =
     (let bracket = (\<lambda>c. c = CHR ''['' \<or> c = CHR '']'')
      in rev (dropWhile bracket (rev (dropWhile bracket s))))"

definition validate_public_host :: "string \<Rightarrow> unit store_result" where
  "validate_public_host host =
     (if eq_ignore_ascii_case host ''localhost'' \<or> ends_with ''.localhost'' host
      then Err (Store_Validation ''webhook URL rejects local targets'')
      else case parse_ipv4 host of
             Some ip \<Rightarrow> reject_private_ip (rejected_ipv4 ip)
           | None \<Rightarrow>
               (case parse_ipv6 (trim_brackets host) of
                  Some ip \<Rightarrow> reject_private_ip (rejected_ipv6 ip)
                | None \<Rightarrow> Ok ()))"

definition host_without_port :: "string \<Rightarrow> string" where
  "host_without_port authority =
     (case strip_prefix ''['' authority of
        Some rest \<Rightarrow>
          if CHR '']'' \<in> set rest then takeWhile (\<lambda>c. c \<noteq> CHR '']'') rest
          else takeWhile (\<lambda>c. c \<noteq> CHR '':'') authority
      | None \<Rightarrow> takeWhile (\<lambda>c. c \<noteq> CHR '':'') authority)"

definition validate_webhook_url :: "net_libs \<Rightarrow> string \<Rightarrow> unit store_result" where
  "validate_webhook_url N value =
     (case parse_uri N value of
        None \<Rightarrow> Err (Store_Validation ''webhook URL is invalid'')
      | Some uri \<Rightarrow>
          if uri_scheme uri \<noteq> Some ''https'' then Err (Store_Validation ''webhook URL must use https'')
          else (case uri_authority uri of
             None \<Rightarrow> Err (Store_Validation ''webhook URL has no host'')
           | Some authority \<Rightarrow>
               if CHR ''@'' \<in> set authority
               then Err (Store_Validation ''webhook URL must not contain credentials'')
               else validate_public_host (host_without_port authority)))"

record delivery_config =
  dcf_url :: string
  dcf_secret :: "string option"

definition bearer :: "string \<Rightarrow> string" where
  "bearer secret = ''Bearer '' @ secret"

definition delivery_config_new :: "net_libs \<Rightarrow> string \<Rightarrow> string option \<Rightarrow> delivery_config store_result" where
  "delivery_config_new N url auth_secret =
     and_then (validate_webhook_url N url) (\<lambda>_.
     and_then (case auth_secret of None \<Rightarrow> Ok ()
               | Some secret \<Rightarrow> if header_value_ok N (bearer secret) then Ok ()
                   else Err (Store_Validation ''invalid webhook authorization header'')) (\<lambda>_.
       Ok \<lparr>dcf_url = url, dcf_secret = auth_secret\<rparr>))"

text \<open>\<open>{:016x}\<close>\<close>

fun hex_str :: "nat \<Rightarrow> string" where
  "hex_str n = (let d = char_of (if n mod 16 < 10 then 48 + n mod 16 else 87 + n mod 16)
     in if n < 16 then [d] else hex_str (n div 16) @ [d])"

declare hex_str.simps [simp del]

definition hex16 :: "nat \<Rightarrow> string" where
  "hex16 n = replicate (16 - length (hex_str n)) (CHR ''0'') @ hex_str n"

definition delivery_id :: "net_libs \<Rightarrow> string \<Rightarrow> string \<Rightarrow> string \<Rightarrow> string" where
  "delivery_id N tenant watch run = ''webhook:'' @ hex16 (hash_strings N [tenant, watch, run])"

definition delivery_for_run :: "net_libs \<Rightarrow> delivery_config \<Rightarrow> string \<Rightarrow> string \<Rightarrow> string \<Rightarrow> watch_run_delivery" where
  "delivery_for_run N config tenant watch run =
     \<lparr>rd_id = delivery_id N tenant watch run,
      rd_target = json_object [(''type'', JString ''webhook''), (''url'', JString (dcf_url config))]\<rparr>"

section \<open>Sending\<close>

record http_request =
  rq_method :: string
  rq_uri :: string
  rq_headers :: "(string \<times> string) list"
  rq_body :: string

type_synonym http_client = "http_request \<Rightarrow> (nat, error_class) result"

fun class_debug :: "error_class \<Rightarrow> string" where
  "class_debug Authentication = ''Authentication''"
| "class_debug Authorization = ''Authorization''"
| "class_debug RateLimit = ''RateLimit''"
| "class_debug InvalidQuery = ''InvalidQuery''"
| "class_debug NotFound = ''NotFound''"
| "class_debug Unsupported = ''Unsupported''"
| "class_debug Upstream = ''Upstream''"
| "class_debug Timeout = ''Timeout''"
| "class_debug Cancelled = ''Cancelled''"
| "class_debug Protocol = ''Protocol''"
| "class_debug Internal = ''Internal''"

definition webhook_request :: "net_libs \<Rightarrow> delivery_config \<Rightarrow> string \<Rightarrow> json \<Rightarrow> http_request store_result" where
  "webhook_request N config did payload =
     (let body = json_text (base_libs N) payload
      in if 1024 * 1024 < length body then Err (Store_Validation ''webhook payload exceeds 1 MiB'')
         else
           let headers = [(''content-type'', ''application/json''), (''user-agent'', ''comsat-webhook''),
                 (''idempotency-key'', did),
                 (''x-comsat-retry-after-seconds'', int_str delivery_retry_seconds)] @
                 (case dcf_secret config of None \<Rightarrow> [] | Some secret \<Rightarrow> [(''authorization'', bearer secret)])
           in if parse_uri N (dcf_url config) \<noteq> None \<and> list_all (\<lambda>(_, v). header_value_ok N v) headers
              then Ok \<lparr>rq_method = ''POST'', rq_uri = dcf_url config, rq_headers = headers, rq_body = body\<rparr>
              else Err (Store_Validation ''invalid webhook request configuration''))"

fun store_error_text :: "store_error \<Rightarrow> string" where
  "store_error_text (Store_Validation m) = ''invalid persistence value: '' @ m"
| "store_error_text (Store_Conflict m) = ''persistence conflict: '' @ m"
| "store_error_text (Store_NotFound m) = ''not found: '' @ m"
| "store_error_text (Store_Backend m) = ''persistence backend failed: '' @ m"

text \<open>The requests sent are part of the result.\<close>

definition send_delivery ::
  "net_libs \<Rightarrow> http_client \<Rightarrow> delivery_config \<Rightarrow> string \<Rightarrow> json \<Rightarrow> (unit, string) result \<times> http_request list" where
  "send_delivery N client config did payload =
     (case webhook_request N config did payload of
        Err e \<Rightarrow> (Err (store_error_text e), [])
      | Ok request \<Rightarrow>
          (case client request of
             Err c \<Rightarrow> (Err (''webhook request failed ('' @ class_debug c @ '')''), [request])
           | Ok status \<Rightarrow>
               (if 200 \<le> status \<and> status < 300 then (Ok (), [request])
                else (Err (''webhook returned HTTP '' @ nat_str status), [request]))))"

record delivery_attempt =
  da_tenant :: string
  da_owner :: string
  da_now :: int

definition delivery_lease_seconds :: nat where "delivery_lease_seconds = 60"

type_synonym claim_delivery_op = "claim_pending_delivery \<Rightarrow> db \<Rightarrow> delivery option store_result \<times> db"
type_synonym complete_delivery_op = "complete_delivery \<Rightarrow> db \<Rightarrow> delivery store_result \<times> db"

text \<open>The part of \<open>deliver_pending_webhook\<close> before the completion: what was claimed, what sending it
  gave, the requests sent.\<close>

definition target_url :: "delivery \<Rightarrow> string option" where
  "target_url d = (case json_get (d_target d) ''url'' of None \<Rightarrow> None | Some v \<Rightarrow> as_str v)"

definition claim_and_send ::
  "claim_delivery_op \<Rightarrow> net_libs \<Rightarrow> http_client \<Rightarrow> delivery_config \<Rightarrow> delivery_attempt \<Rightarrow> db \<Rightarrow>
   (delivery \<times> (unit, string) result) option store_result \<times> http_request list \<times> db" where
  "claim_and_send claim N client config attempt db =
     (case claim \<lparr>cp_tenant = da_tenant attempt, cp_now = da_now attempt, cp_owner = da_owner attempt,
          cp_lease_seconds = delivery_lease_seconds\<rparr> db of
        (Err e, db) \<Rightarrow> (Err e, [], db)
      | (Ok None, db) \<Rightarrow> (Ok None, [], db)
      | (Ok (Some delivery), db) \<Rightarrow>
          (case (if max_delivery_attempts < d_attempts delivery then (Err ''webhook retry limit exhausted'', [])
                 else if target_url delivery \<noteq> Some (dcf_url config)
                 then (Err ''configured webhook destination does not match queued delivery'', [])
                 else send_delivery N client config (d_id delivery) (d_payload delivery)) of
             (result, requests) \<Rightarrow> (Ok (Some (delivery, result)), requests, db)))"

definition deliver_pending_webhook ::
  "claim_delivery_op \<Rightarrow> complete_delivery_op \<Rightarrow> net_libs \<Rightarrow> http_client \<Rightarrow> delivery_config \<Rightarrow>
   delivery_attempt \<Rightarrow> int \<Rightarrow> db \<Rightarrow> delivery option store_result \<times> http_request list \<times> db" where
  "deliver_pending_webhook claim complete N client config attempt finished_at db =
     (case claim_and_send claim N client config attempt db of
        (Err e, requests, db) \<Rightarrow> (Err e, requests, db)
      | (Ok None, requests, db) \<Rightarrow> (Ok None, requests, db)
      | (Ok (Some (delivery, result)), requests, db) \<Rightarrow>
          (case complete \<lparr>dc_tenant = d_tenant delivery, dc_delivery = d_id delivery, dc_owner = da_owner attempt,
               dc_finished = finished_at, dc_success = is_ok result, dc_error = err_option result\<rparr> db of
             (Err e, db) \<Rightarrow> (Err e, requests, db)
           | (Ok d, db) \<Rightarrow> (Ok (Some d), requests, db)))"

section \<open>What a configuration accepts\<close>

lemma ends_with_set: "ends_with p s \<Longrightarrow> set p \<subseteq> set s"
  unfolding ends_with_def by (metis set_drop_subset)

lemma ipv4_text_chars: "c \<in> set (ipv4_text ip) \<Longrightarrow> is_ascii_digit c \<or> c = CHR ''.''"
  using nat_str_digits by (cases ip) (auto simp: list_all_iff)

lemma ipv4_text_byte: "c \<in> set (ipv4_text ip) \<Longrightarrow> byte c \<le> 57"
proof -
  assume "c \<in> set (ipv4_text ip)"
  then consider "is_ascii_digit c" | "c = CHR ''.''" using ipv4_text_chars by blast
  then show ?thesis by cases (simp_all add: is_ascii_digit_def byte_def)
qed

lemma ipv4_text_not_local:
  "\<not> eq_ignore_ascii_case (ipv4_text ip) ''localhost''" "\<not> ends_with ''.localhost'' (ipv4_text ip)"
proof -
  have no_h: "CHR ''h'' \<notin> set (ipv4_text ip)"
    using ipv4_text_byte [of "CHR ''h''" ip] by (auto simp: byte_def)
  have "to_ascii_lower c = c" if "c \<in> set (ipv4_text ip)" for c
    using ipv4_text_byte [OF that] by (simp add: to_ascii_lower_def is_ascii_uppercase_def)
  then have lower: "ascii_lowercase (ipv4_text ip) = ipv4_text ip" by (simp add: ascii_lowercase_def map_idI)
  have h: "CHR ''h'' \<in> set (ascii_lowercase ''localhost'')" by code_simp
  show "\<not> eq_ignore_ascii_case (ipv4_text ip) ''localhost''"
  proof
    assume "eq_ignore_ascii_case (ipv4_text ip) ''localhost''"
    then have "ascii_lowercase ''localhost'' = ipv4_text ip" by (simp only: eq_ignore_ascii_case_def lower)
    with h no_h show False by (simp only:)
  qed
  show "\<not> ends_with ''.localhost'' (ipv4_text ip)"
    using ends_with_set [of "''.localhost''" "ipv4_text ip"] no_h by auto
qed

text \<open>The text of a non-public IPv4 address is refused, with or without a port.\<close>

lemma private_ipv4_host:
  assumes "octets ip" "rejected_ipv4 ip"
  shows "validate_public_host (ipv4_text ip) = Err (Store_Validation ''webhook URL rejects non-public IP targets'')"
  using assms ipv4_text_not_local [of ip]
  by (simp add: validate_public_host_def parse_ipv4_text reject_private_ip_def del: rejected_ipv4.simps ipv4_text.simps)

lemma takeWhile_no_colon:
  "takeWhile (\<lambda>c. c \<noteq> CHR '':'') (ipv4_text ip @ rest) =
   ipv4_text ip @ takeWhile (\<lambda>c. c \<noteq> CHR '':'') rest"
proof -
  have "\<forall>c \<in> set (ipv4_text ip). c \<noteq> CHR '':''"
    using ipv4_text_byte [of "CHR '':''" ip] by (auto simp: byte_def)
  then show ?thesis by (simp add: takeWhile_append)
qed

lemma host_of_ipv4:
  assumes "port = [] \<or> (\<exists>p. port = CHR '':'' # p)"
  shows "host_without_port (ipv4_text ip @ port) = ipv4_text ip"
proof -
  have "ipv4_text ip \<noteq> []" by (cases ip) simp
  then obtain c cs where c: "ipv4_text ip = c # cs" by (cases "ipv4_text ip") auto
  have "c \<noteq> CHR ''[''" using ipv4_text_byte [of c ip] c by (auto simp: byte_def)
  then have "strip_prefix ''['' (ipv4_text ip @ port) = None" by (simp add: c strip_prefix_def)
  moreover have "takeWhile (\<lambda>c. c \<noteq> CHR '':'') port = []" using assms by auto
  ultimately show ?thesis by (simp only: host_without_port_def option.case takeWhile_no_colon append_Nil2)
qed

lemma read_octets_letter: "read_octets (Suc n) 0 (CHR ''f'' # s) = None"
proof -
  have "to_digit 10 (CHR ''f'') = None" by code_simp
  then show ?thesis by (simp add: read_separator_def read_number_def)
qed

lemma read_octets_colon: "read_octets (Suc n) 0 (CHR '':'' # s) = None"
proof -
  have "to_digit 10 (CHR '':'') = None" by code_simp
  then show ?thesis by (simp add: read_separator_def read_number_def)
qed

lemma read_ipv4_letter: "read_ipv4 (CHR ''f'' # s) = None" "read_ipv4 (CHR '':'' # s) = None"
  using read_octets_letter [of 3 s] read_octets_colon [of 3 s] by (simp_all add: read_ipv4_def)

lemma read_groups_more:
  "n = Suc m \<Longrightarrow> read_groups n i s =
     (case (if 0 < m then read_separator (CHR '':'') i read_ipv4 s else None) of
        Some ((a, b, c, d), rest) \<Rightarrow> ([a * 256 + b, c * 256 + d], True, rest)
      | None \<Rightarrow>
          (case read_separator (CHR '':'') i (read_number 16 4 True 65536) s of
             None \<Rightarrow> ([], False, s)
           | Some (g, rest) \<Rightarrow>
               (case read_groups m (Suc i) rest of (gs, v4, rest) \<Rightarrow> (g # gs, v4, rest))))"
  by simp

lemma parse_mapped:
  assumes "octets ip"
  shows "parse_ipv6 (''::ffff:'' @ ipv4_text ip) =
    (case ip of (a, b, c, d) \<Rightarrow> Some [0, 0, 0, 0, 0, 65535, a * 256 + b, c * 256 + d])"
proof -
  obtain a b c d where ip: "ip = (a, b, c, d)" by (cases ip)
  have ffff: "read_number 16 4 True 65536 (''ffff:'' @ ipv4_text ip) = Some (65535, CHR '':'' # ipv4_text ip)"
  proof -
    have "to_digit 16 (CHR ''f'') = Some 15" "to_digit 16 (CHR '':'') = None" by code_simp+
    then show ?thesis by (simp add: read_number_def radix_value_def)
  qed
  have colon: "read_number 16 4 True 65536 (CHR '':'' # s) = None" for s
  proof -
    have "to_digit 16 (CHR '':'') = None" by code_simp
    then show ?thesis by (simp add: read_number_def)
  qed
  have v4: "read_ipv4 (ipv4_text ip) = Some (ip, [])" using read_ipv4_text [OF assms, of "[]"] by simp
  have head: "read_groups 8 0 (CHR '':'' # s) = ([], False, CHR '':'' # s)" for s
    using colon read_ipv4_letter(2) by (subst read_groups_more [where m = 7]) (simp_all add: read_separator_def)
  have tail: "read_groups 7 0 (''ffff:'' @ ipv4_text ip) = ([65535, a * 256 + b, c * 256 + d], True, [])"
  proof -
    have 1: "read_groups 6 (Suc 0) (CHR '':'' # ipv4_text ip) = ([a * 256 + b, c * 256 + d], True, [])"
      using v4 by (subst read_groups_more [where m = 5]) (simp_all add: read_separator_def read_char_def ip)
    have "read_ipv4 (''ffff:'' @ ipv4_text ip) = None" using read_ipv4_letter(1) by simp
    with ffff 1 show ?thesis by (subst read_groups_more [where m = 6]) (simp_all add: read_separator_def)
  qed
  have "replicate 5 (0 :: nat) = [0, 0, 0, 0, 0]" by (simp add: numeral_eq_Suc)
  then have "read_ipv6 (''::ffff:'' @ ipv4_text ip) = Some ([0, 0, 0, 0, 0, 65535, a * 256 + b, c * 256 + d], [])"
    using tail by (simp add: read_ipv6_def head read_char_def del: ipv4_text.simps)
  then show ?thesis by (simp only: parse_ipv6_def option.case prod.case list.case ip)
qed

lemma host_of_mapped: "host_without_port (''[::ffff:'' @ ipv4_text ip @ '']'' @ port) = ''::ffff:'' @ ipv4_text ip"
proof -
  have n: "\<forall>c \<in> set (ipv4_text ip). c \<noteq> CHR '']''" using ipv4_text_byte [of "CHR '']''" ip] by (auto simp: byte_def)
  then have "takeWhile (\<lambda>c. c \<noteq> CHR '']'') (''::ffff:'' @ ipv4_text ip @ '']'' @ port) = ''::ffff:'' @ ipv4_text ip"
    by (simp add: takeWhile_append del: ipv4_text.simps)
  then show ?thesis by (simp add: host_without_port_def strip_prefix_def del: ipv4_text.simps strip_prefix_Some)
qed

lemma private_mapped_host:
  assumes "octets ip" "rejected_ipv4 ip"
  shows "validate_public_host (''::ffff:'' @ ipv4_text ip) = Err (Store_Validation ''webhook URL rejects non-public IP targets'')"
proof -
  obtain a b c d where ip: "ip = (a, b, c, d)" by (cases ip)
  let ?h = "''::ffff:'' @ ipv4_text ip"
  have colon: "CHR '':'' \<in> set ?h" by simp
  have local1: "\<not> eq_ignore_ascii_case ?h ''localhost''"
  proof
    assume "eq_ignore_ascii_case ?h ''localhost''"
    then have "map to_ascii_lower ?h = ascii_lowercase ''localhost''"
      by (simp only: eq_ignore_ascii_case_def ascii_lowercase_def)
    moreover have "to_ascii_lower (CHR '':'') \<in> set (map to_ascii_lower ?h)" using colon by simp
    moreover have "to_ascii_lower (CHR '':'') \<notin> set (ascii_lowercase ''localhost'')" by code_simp
    ultimately show False by simp
  qed
  have local2: "\<not> ends_with ''.localhost'' ?h"
  proof
    assume "ends_with ''.localhost'' ?h"
    then have "CHR ''h'' \<in> set ?h" using ends_with_set by fastforce
    then show False using ipv4_text_byte [of "CHR ''h''" ip] by (auto simp: byte_def simp del: ipv4_text.simps)
  qed
  have v4: "parse_ipv4 ?h = None"
    using read_ipv4_letter(2) by (simp add: parse_ipv4_def del: ipv4_text.simps)
  have last: "ipv4_text ip \<noteq> [] \<and> byte (last (ipv4_text ip)) \<le> 57"
    using ipv4_text_byte [of "last (ipv4_text ip)" ip] by (cases ip) simp
  then obtain x xs where r: "rev (ipv4_text ip) = x # xs" by (cases "rev (ipv4_text ip)") auto
  then have "x = last (ipv4_text ip)" by (metis hd_rev list.sel(1))
  then have "x \<noteq> CHR ''['' \<and> x \<noteq> CHR '']''" using last by (auto simp: byte_def)
  then have t: "trim_brackets ?h = ?h"
    using r by (simp add: trim_brackets_def Let_def rev_swap del: ipv4_text.simps)
  have m: "to_ipv4_mapped [0, 0, 0, 0, 0, 65535, a * 256 + b, c * 256 + d] = Some ip"
    using assms(1) by (simp add: to_ipv4_mapped_def ip)
  show ?thesis
    using local1 local2 v4 t parse_mapped [OF assms(1)] assms(2) m
    by (simp add: validate_public_host_def reject_private_ip_def rejected_ipv6_def ip del: ipv4_text.simps rejected_ipv4.simps)
qed

end
