(* ===== verification/Webhook_Laws.thy ===== *)
theory Webhook_Laws
  imports Webhook Store_Properties
begin

text \<open>
  What the webhook sender promises: it refuses non-public destinations, and it sends one delivery at
  most as often as its attempts allow, whatever fails, crashes or runs in between. The second is a
  lemma of \<open>delivery_sender\<close>, which extends the delivery queue by the exactness of a claim.
\<close>

section \<open>Runs of the sender\<close>

text \<open>\<open>Crash\<close> is an attempt cut off after its request, before the completion.\<close>

datatype sender_event =
    Deliver http_client delivery_attempt int
  | Crash http_client delivery_attempt
  | Other store_request

fun sender_step ::
  "(store_request \<Rightarrow> db \<Rightarrow> db) \<Rightarrow> claim_delivery_op \<Rightarrow> complete_delivery_op \<Rightarrow> net_libs \<Rightarrow> delivery_config \<Rightarrow>
   sender_event \<Rightarrow> db \<Rightarrow> (string \<times> http_request) list \<times> db" where
  "sender_step exec claim complete N cfg (Deliver client a finished) db =
     (case deliver_pending_webhook claim complete N client cfg a finished db of
        (_, requests, db) \<Rightarrow> (map (Pair (da_tenant a)) requests, db))"
| "sender_step exec claim complete N cfg (Crash client a) db =
     (case claim_and_send claim N client cfg a db of (_, requests, db) \<Rightarrow> (map (Pair (da_tenant a)) requests, db))"
| "sender_step exec claim complete N cfg (Other q) db = ([], exec q db)"

fun sender_run ::
  "(store_request \<Rightarrow> db \<Rightarrow> db) \<Rightarrow> claim_delivery_op \<Rightarrow> complete_delivery_op \<Rightarrow> net_libs \<Rightarrow> delivery_config \<Rightarrow>
   sender_event list \<Rightarrow> db \<Rightarrow> (string \<times> http_request) list \<times> db" where
  "sender_run exec claim complete N cfg [] db = ([], db)"
| "sender_run exec claim complete N cfg (e # es) db =
     (case sender_step exec claim complete N cfg e db of (out, db) \<Rightarrow>
      case sender_run exec claim complete N cfg es db of (later, db) \<Rightarrow> (out @ later, db))"

definition attempt_claim :: "delivery_attempt \<Rightarrow> claim_pending_delivery" where
  "attempt_claim a = \<lparr>cp_tenant = da_tenant a, cp_now = da_now a, cp_owner = da_owner a,
     cp_lease_seconds = delivery_lease_seconds\<rparr>"

fun event_fresh :: "(claim_pending_delivery \<Rightarrow> db \<Rightarrow> bool) \<Rightarrow> sender_event \<Rightarrow> db \<Rightarrow> bool" where
  "event_fresh fresh (Deliver _ a _) db = fresh (attempt_claim a) db"
| "event_fresh fresh (Crash _ a) db = fresh (attempt_claim a) db"
| "event_fresh fresh (Other q) db = (case q of Req_Delete _ \<Rightarrow> False | _ \<Rightarrow> True)"

fun run_fresh ::
  "(claim_pending_delivery \<Rightarrow> db \<Rightarrow> bool) \<Rightarrow> (sender_event \<Rightarrow> db \<Rightarrow> db) \<Rightarrow> sender_event list \<Rightarrow> db \<Rightarrow> bool" where
  "run_fresh fresh next [] db = True"
| "run_fresh fresh next (e # es) db = (event_fresh fresh e db \<and> run_fresh fresh next es (next e db))"

text \<open>How often a run sends a delivery, told by its idempotency key.\<close>

definition sends_of :: "string \<times> string \<Rightarrow> (string \<times> http_request) list \<Rightarrow> nat" where
  "sends_of k out = count_where (\<lambda>(t, q). map_of (rq_headers q) ''idempotency-key'' = Some (snd k) \<and> t = fst k) out"

lemma sends_of_append [simp]: "sends_of k (a @ b) = sends_of k a + sends_of k b"
  by (simp add: sends_of_def count_where_def)

lemma sends_of_Nil [simp]: "sends_of k [] = 0"
  by (simp add: sends_of_def count_where_def)

definition attempts_left :: "string \<times> string \<Rightarrow> db \<Rightarrow> nat" where
  "attempts_left k db =
     (case select_first (\<lambda>d. delivery_key d = k) (db_deliveries db) of
        None \<Rightarrow> max_delivery_attempts
      | Some d \<Rightarrow> max_delivery_attempts - d_attempts d)"

lemma attempts_left_max: "attempts_left k db \<le> max_delivery_attempts"
  by (simp add: attempts_left_def split: option.split)

lemma attempts_left_row:
  assumes "db_ok db" "d \<in> set (db_deliveries db)"
  shows "attempts_left (delivery_key d) db = max_delivery_attempts - d_attempts d"
proof -
  have "unique_by delivery_key (db_deliveries db)" using assms(1) by (simp add: db_ok_def keys_ok_def)
  from select_first_unique [where P = "\<lambda>x. delivery_key x = delivery_key d", OF this assms(2)]
  show ?thesis by (simp add: attempts_left_def)
qed

lemma webhook_request_key:
  "webhook_request N cfg did payload = Ok q \<Longrightarrow> map_of (rq_headers q) ''idempotency-key'' = Some did"
  by (auto simp: webhook_request_def Let_def split: if_splits option.splits)

lemma send_delivery_requests:
  "snd (send_delivery N client cfg did payload) = [] \<or>
   (\<exists>q. snd (send_delivery N client cfg did payload) = [q] \<and> map_of (rq_headers q) ''idempotency-key'' = Some did)"
  by (auto simp: send_delivery_def webhook_request_key split: sum.splits)

locale delivery_sender = delivery_queue +
  fixes claim :: claim_delivery_op
    and complete :: complete_delivery_op
    and fresh :: "claim_pending_delivery \<Rightarrow> db \<Rightarrow> bool"
  assumes exec_claim_delivery: "exec (Req_Claim_Delivery r) db = snd (claim r db)"
    and exec_complete_delivery: "exec (Req_Complete_Delivery c) db = snd (complete c db)"
    and claim_exact: "db_ok db \<Longrightarrow> fresh r db \<Longrightarrow> claim r db = (Ok (Some d'), db') \<Longrightarrow>
      \<exists>d \<in> set (db_deliveries db). d' \<in> set (db_deliveries db') \<and> delivery_key d' = delivery_key d \<and>
        d_tenant d' = cp_tenant r \<and> d_attempts d' = d_attempts d + 1"
begin

lemma left_mono:
  assumes "db_ok db" "\<And>r. q \<noteq> Req_Delete r"
  shows "attempts_left k (exec q db) \<le> attempts_left k db"
proof (cases "select_first (\<lambda>d. delivery_key d = k) (db_deliveries db)")
  case None
  then show ?thesis using attempts_left_max by (simp add: attempts_left_def)
next
  case (Some d)
  from select_first_SomeD [OF this] have d: "d \<in> set (db_deliveries db)" "delivery_key d = k" by auto
  have "keeps_watch (d_tenant d, d_watch d) q" using assms(2) by (cases q) auto
  from steps [OF assms(1) d(1) this] obtain d' where
    d': "d' \<in> set (db_deliveries (exec q db))" "delivery_step d d'" by blast
  have "delivery_key d' = k" "d_attempts d \<le> d_attempts d'"
    using delivery_step_key [OF d'(2)] delivery_step_attempts [OF d'(2)] d(2) by auto
  with attempts_left_row [OF queue_ok [OF assms(1)] d'(1)] attempts_left_row [OF assms(1) d(1)] d(2)
  show ?thesis by simp
qed

lemma claim_and_send_left:
  assumes ok: "db_ok db" and f: "fresh (attempt_claim a) db"
    and s: "claim_and_send claim N client cfg a db = (res, requests, db')"
  shows "sends_of k (map (Pair (da_tenant a)) requests) + attempts_left k db' \<le> attempts_left k db"
proof -
  obtain c dbc where c: "claim (attempt_claim a) db = (c, dbc)" by (cases "claim (attempt_claim a) db")
  have dbc: "db' = dbc" using s c
    by (auto simp: claim_and_send_def attempt_claim_def split: sum.splits option.splits prod.splits)
  have mono: "attempts_left k db' \<le> attempts_left k db"
    using left_mono [OF ok, of "Req_Claim_Delivery (attempt_claim a)" k] c dbc by (simp add: exec_claim_delivery)
  show ?thesis
  proof (cases "requests = []")
    case True
    with mono show ?thesis by simp
  next
    case False
    then obtain d' where d': "c = Ok (Some d')" "d_attempts d' \<le> max_delivery_attempts"
        "requests = snd (send_delivery N client cfg (d_id d') (d_payload d'))"
      using s c by (auto simp: claim_and_send_def attempt_claim_def split: sum.splits option.splits prod.splits if_splits)
    then obtain q where q: "requests = [q]" "map_of (rq_headers q) ''idempotency-key'' = Some (d_id d')"
      using send_delivery_requests [of N client cfg "d_id d'" "d_payload d'"] False by auto
    obtain d where d: "d \<in> set (db_deliveries db)" "d' \<in> set (db_deliveries dbc)" "delivery_key d' = delivery_key d"
        "d_tenant d' = da_tenant a" "d_attempts d' = d_attempts d + 1"
      using claim_exact [OF ok f] c d'(1) by (auto simp: attempt_claim_def)
    show ?thesis
    proof (cases "k = delivery_key d")
      case True
      have "db_ok dbc" using queue_ok [OF ok, of "Req_Claim_Delivery (attempt_claim a)"] c by (simp add: exec_claim_delivery)
      with attempts_left_row [OF ok d(1)] attempts_left_row [OF _ d(2)] d(3,5) d'(2) True dbc q(1)
      show ?thesis by (simp add: sends_of_def count_where_def diff_le_mono2)
    next
      case False
      then have "sends_of k (map (Pair (da_tenant a)) requests) = 0"
        using q d(3,4) by (cases k) (auto simp: sends_of_def count_where_def delivery_key_def)
      with mono show ?thesis by simp
    qed
  qed
qed

lemma claim_and_send_ok:
  assumes "db_ok db" "claim_and_send claim N client cfg a db = (res, requests, db')"
  shows "db_ok db'"
proof -
  have "db' = snd (claim (attempt_claim a) db)"
    using assms(2) by (auto simp: claim_and_send_def attempt_claim_def split: sum.splits option.splits prod.splits)
  with queue_ok [OF assms(1), of "Req_Claim_Delivery (attempt_claim a)"] show ?thesis by (simp add: exec_claim_delivery)
qed

lemma sender_step_left:
  assumes ok: "db_ok db" and f: "event_fresh fresh e db"
    and s: "sender_step exec claim complete N cfg e db = (out, db')"
  shows "db_ok db' \<and> sends_of k out + attempts_left k db' \<le> attempts_left k db"
proof (cases e)
  case (Other q)
  then have "\<And>r. q \<noteq> Req_Delete r" using f by auto
  with Other s queue_ok [OF ok, of q] left_mono [OF ok, of q k] show ?thesis by auto
next
  case (Crash client a)
  then obtain res requests where r: "claim_and_send claim N client cfg a db = (res, requests, db')"
      "out = map (Pair (da_tenant a)) requests"
    using s by (auto split: prod.splits)
  with claim_and_send_left [OF ok _ r(1), of k] claim_and_send_ok [OF ok r(1)] f Crash show ?thesis by simp
next
  case (Deliver client a finished)
  obtain res requests db1 where r: "claim_and_send claim N client cfg a db = (res, requests, db1)"
    by (cases "claim_and_send claim N client cfg a db")
  note l = claim_and_send_left [OF ok _ r, of k] and ok1 = claim_and_send_ok [OF ok r]
  have "(out = map (Pair (da_tenant a)) requests) \<and> (db' = db1 \<or> (\<exists>c. db' = exec (Req_Complete_Delivery c) db1))"
    using s r Deliver
    by (auto simp: deliver_pending_webhook_def exec_complete_delivery split: sum.splits option.splits prod.splits)
      (metis snd_conv)+
  then consider "out = map (Pair (da_tenant a)) requests" "db' = db1"
    | c where "out = map (Pair (da_tenant a)) requests" "db' = exec (Req_Complete_Delivery c) db1" by blast
  then show ?thesis
  proof cases
    case 1
    with l ok1 f Deliver show ?thesis by simp
  next
    case (2 c)
    with l f Deliver left_mono [OF ok1, of "Req_Complete_Delivery c" k] queue_ok [OF ok1] show ?thesis by simp
  qed
qed

lemma sends_bounded:
  assumes "db_ok db" "run_fresh fresh (\<lambda>e db. snd (sender_step exec claim complete N cfg e db)) es db"
    and "sender_run exec claim complete N cfg es db = (out, db')"
  shows "sends_of k out + attempts_left k db' \<le> attempts_left k db"
  using assms
proof (induction es arbitrary: db out)
  case Nil
  then show ?case by simp
next
  case (Cons e es)
  obtain s1 db1 where s1: "sender_step exec claim complete N cfg e db = (s1, db1)"
    by (cases "sender_step exec claim complete N cfg e db")
  obtain later where later: "sender_run exec claim complete N cfg es db1 = (later, db')" "out = s1 @ later"
    using Cons.prems(3) s1 by (auto split: prod.splits)
  have "event_fresh fresh e db" using Cons.prems(2) by simp
  note one = sender_step_left [OF Cons.prems(1) this s1, of k]
  have "run_fresh fresh (\<lambda>e db. snd (sender_step exec claim complete N cfg e db)) es db1"
    using Cons.prems(2) s1 by simp
  from Cons.IH [OF _ this later(1)] one later(2) show ?case by simp
qed

end

section \<open>The two stores\<close>

lemma d1_claim_exact:
  assumes "d1_claim_pending_delivery r db = (Ok (Some d'), db')"
  shows "\<exists>d \<in> set (db_deliveries db). d' \<in> set (db_deliveries db') \<and> delivery_key d' = delivery_key d \<and>
    d_tenant d' = cp_tenant r \<and> d_attempts d' = d_attempts d + 1"
proof -
  obtain u n where v: "claim_pending_validate r = Ok u" "i64_from_u64 (cp_lease_seconds r) ''lease_seconds'' = Ok n"
    using assms by (auto simp: d1_claim_pending_delivery_def split: sum.splits)
  define e where "e = add64 (cp_now r) n"
  obtain selected where h: "head_option (select_ordered (delivery_due (cp_tenant r) (cp_now r)) delivery_order (db_deliveries db)) = Some selected"
    using assms v by (auto simp: d1_claim_pending_delivery_def claim_delivery_sql_def split: option.splits)
  let ?P = "\<lambda>d. d_id d = d_id selected \<and> delivery_due (cp_tenant r) (cp_now r) d"
  have c: "map_option (claim_delivery_set (cp_owner r) e) (select_first ?P (db_deliveries db)) = Some d'"
    "db_deliveries db' = update_where ?P (claim_delivery_set (cp_owner r) e) (db_deliveries db)"
    using assms v h by (auto simp: d1_claim_pending_delivery_def claim_delivery_sql_def e_def Let_def)
  then obtain d where s: "select_first ?P (db_deliveries db) = Some d" and d': "d' = claim_delivery_set (cp_owner r) e d"
    by auto
  note db' = c(2)
  note d = select_first_SomeD [OF s]
  have "d' \<in> set (db_deliveries db')"
    using update_where_image [of d "db_deliveries db"
      "\<lambda>d. d_id d = d_id selected \<and> delivery_due (cp_tenant r) (cp_now r) d" "claim_delivery_set (cp_owner r) e"]
    by (simp add: d d' db')
  with d show ?thesis
    by (auto simp: d' claim_delivery_set_def delivery_key_def delivery_due_def intro!: bexI [of _ d])
qed

definition owner_free :: "claim_pending_delivery \<Rightarrow> db \<Rightarrow> bool" where
  "owner_free r db \<longleftrightarrow> \<not> exists_where (\<lambda>d. d_tenant d = cp_tenant r \<and> d_lease_owner d = Some (cp_owner r)) (db_deliveries db)"

lemma sq_claim_exact:
  assumes "db_ok db" "owner_free r db" "sq_claim_pending_delivery r db = (Ok (Some d'), db')"
  shows "\<exists>d \<in> set (db_deliveries db). d' \<in> set (db_deliveries db') \<and> delivery_key d' = delivery_key d \<and>
    d_tenant d' = cp_tenant r \<and> d_attempts d' = d_attempts d + 1"
proof -
  have "claim_pending_validate r = Ok ()"
    using assms(3) by (cases "claim_pending_validate r") (auto simp: sq_claim_pending_delivery_def)
  from delivery_claim_fresh [OF assms(1) this] assms(2,3)
  have "d1_claim_pending_delivery r db = (Ok (Some d'), db')" by (simp add: owner_free_def)
  then show ?thesis by (rule d1_claim_exact)
qed

interpretation d1_sender: delivery_sender "d1_apply L" d1_claim_pending_delivery d1_complete_delivery "\<lambda>_ _. True" for L
  by (unfold_locales; (rule d1_claim_exact | simp))

interpretation sqlite_sender: delivery_sender "sq_apply L" sq_claim_pending_delivery sq_complete_delivery owner_free for L
  by (unfold_locales; (rule sq_claim_exact | simp))

fun no_delete :: "sender_event \<Rightarrow> bool" where
  "no_delete (Other (Req_Delete _)) = False"
| "no_delete _ = True"

lemma run_fresh_True: "list_all no_delete es \<Longrightarrow> run_fresh (\<lambda>_ _. True) next es db"
proof (induction es arbitrary: db)
  case Nil
  then show ?case by simp
next
  case (Cons e es)
  have "event_fresh (\<lambda>_ _. True) e db" for db
    using Cons.prems by (cases e) (auto split: store_request.splits)
  with Cons show ?case by simp
qed

section \<open>Properties\<close>

text \<open>C12: A delivery is sent at most as often as it has attempts, three times, however deliveries, crashes
  between a request and its completion, and other requests interleave: over D1 whenever no watch is
  deleted, over SQLite when moreover no attempt's worker still holds another delivery.\<close>

theorem webhook_sent_at_most_thrice:
  assumes "db_ok db"
  shows "(if list_all no_delete es
      then sends_of k (fst (sender_run (d1_apply L) d1_claim_pending_delivery d1_complete_delivery N cfg es db)) \<le> max_delivery_attempts
      else True) \<and>
    (if run_fresh owner_free (\<lambda>e db. snd (sender_step (sq_apply L) sq_claim_pending_delivery sq_complete_delivery N cfg e db)) es db
      then sends_of k (fst (sender_run (sq_apply L) sq_claim_pending_delivery sq_complete_delivery N cfg es db)) \<le> max_delivery_attempts
      else True)"
proof -
  let ?d1 = "sender_run (d1_apply L) d1_claim_pending_delivery d1_complete_delivery N cfg es db"
  let ?sq = "sender_run (sq_apply L) sq_claim_pending_delivery sq_complete_delivery N cfg es db"
  have e: "?d1 = (fst ?d1, snd ?d1)" "?sq = (fst ?sq, snd ?sq)" by simp_all
  have "sends_of k (fst ?d1) \<le> max_delivery_attempts" if d: "list_all no_delete es"
    using d1_sender.sends_bounded [OF assms run_fresh_True [OF d] e(1), of k] attempts_left_max [of k db] by linarith
  moreover have "sends_of k (fst ?sq) \<le> max_delivery_attempts"
    if f: "run_fresh owner_free (\<lambda>e db. snd (sender_step (sq_apply L) sq_claim_pending_delivery sq_complete_delivery N cfg e db)) es db"
    using sqlite_sender.sends_bounded [OF assms f e(2), of k] attempts_left_max [of k db] by linarith
  ultimately show ?thesis by simp
qed

definition example_net :: net_libs where
  "example_net = \<lparr>parse_uri = (\<lambda>s. case strip_prefix ''https://'' s of None \<Rightarrow> None
       | Some a \<Rightarrow> Some \<lparr>uri_scheme = Some ''https'', uri_authority = Some a\<rparr>),
     header_value_ok = (\<lambda>s. True), hash_strings = (\<lambda>ss. length (concat ss)), base_libs = example_libs\<rparr>"

definition example_hook_db :: db where
  "example_hook_db = example_db\<lparr>db_deliveries := [(example_delivery ''d1'' ''pending'' None None 0)
     \<lparr>d_target := json_object [(''type'', JString ''webhook''), (''url'', JString ''https://e'')]\<rparr>]\<rparr>"

definition example_attempt :: "string \<Rightarrow> int \<Rightarrow> delivery_attempt" where
  "example_attempt owner now = \<lparr>da_tenant = ''t'', da_owner = owner, da_now = now\<rparr>"

definition example_events :: "sender_event list" where
  "example_events = [Deliver (\<lambda>_. Ok 500) (example_attempt ''s1'' 10) 11, Crash (\<lambda>_. Ok 200) (example_attempt ''s2'' 400),
     Deliver (\<lambda>_. Ok 503) (example_attempt ''s3'' 500) 501, Deliver (\<lambda>_. Ok 200) (example_attempt ''s4'' 900) 901]"

definition example_hook :: delivery_config where
  "example_hook = \<lparr>dcf_url = ''https://e'', dcf_secret = None\<rparr>"

lemma example_hook_facts: "db_ok example_hook_db" "list_all no_delete example_events"
  by code_simp+

lemma example_sends:
  "sends_of (''t'', ''d1'') (fst (sender_run (d1_apply example_libs) d1_claim_pending_delivery d1_complete_delivery
     example_net example_hook example_events example_hook_db)) = 3"
  by code_simp

theorem webhook_sent_at_most_thrice_witness:
  "sends_of (''t'', ''d1'') (fst (sender_run (d1_apply example_libs) d1_claim_pending_delivery d1_complete_delivery
     example_net example_hook example_events example_hook_db)) = 3 \<and>
   sends_of (''t'', ''d1'') (fst (sender_run (sq_apply example_libs) sq_claim_pending_delivery sq_complete_delivery
     example_net example_hook example_events example_hook_db)) \<le> 3"
proof -
  have "run_fresh owner_free (\<lambda>e db. snd (sender_step (sq_apply example_libs) sq_claim_pending_delivery
      sq_complete_delivery example_net example_hook e db)) example_events example_hook_db" by code_simp
  with webhook_sent_at_most_thrice [OF example_hook_facts(1), of example_events "(''t'', ''d1'')" example_libs example_net example_hook] example_sends show ?thesis
    by (simp add: max_delivery_attempts_def)
qed

text \<open>A webhook at a non-public IPv4 address (private, loopback, link-local, broadcast, documentation
  or unspecified), written plainly or as an IPv4-mapped IPv6 address, with or without a port, is refused.\<close>

lemma webhook_refuses_private_ipv4:
  assumes "octets ip" "rejected_ipv4 ip" "port = [] \<or> (\<exists>p. port = CHR '':'' # p)"
    and "parse_uri N url = Some \<lparr>uri_scheme = scheme, uri_authority = Some authority\<rparr>"
    and "authority = ipv4_text ip @ port \<or> authority = ''[::ffff:'' @ ipv4_text ip @ '']'' @ port"
  shows "\<not> is_ok (delivery_config_new N url secret)"
proof -
  have "\<not> is_ok (validate_public_host (host_without_port authority))" using assms(5)
  proof
    assume "authority = ipv4_text ip @ port"
    with host_of_ipv4 [OF assms(3)] private_ipv4_host [OF assms(1,2)] show ?thesis by simp
  next
    assume a: "authority = ''[::ffff:'' @ ipv4_text ip @ '']'' @ port"
    have "host_without_port authority = ''::ffff:'' @ ipv4_text ip"
      unfolding a by (rule host_of_mapped)
    with private_mapped_host [OF assms(1,2)] show ?thesis by simp
  qed
  then show ?thesis using assms(4)
    by (auto simp: delivery_config_new_def validate_webhook_url_def is_ok_iff)
qed

text \<open>What gets through: another case or a trailing dot of the local names, addresses of the shared
  and of the current network.\<close>

lemma local_destinations_accepted:
  "list_all (\<lambda>host. is_ok (validate_public_host host))
     [''a.LOCALHOST'', ''localhost.'', ''127.0.0.1.'', ''100.64.0.1'', ''0.0.0.1'']"
  by code_simp

end
