(* ===== verification/App.thy ===== *)
theory App
  imports Webhook Engine_Outcome Sqlite_Store D1_Store
begin

text \<open>
  The application (\<open>comsat-app/src/app.rs\<close>): the handle that holds the sources, an optional store
  and the worker's name, and the run of one due watch. A \<open>dyn Store\<close> is a record of the operations of
  the trait; \<open>sqlite_store\<close> and \<open>d1_store\<close> are its two implementations. The clock is called a fixed
  number of times by each function; each reading is an argument. A search is the stream of
  \<open>Engine_Stream.stream_spec\<close>, which every schedule of the tasks delivers.
\<close>

record store_ops =
  st_upsert_source :: "upsert_source \<Rightarrow> db \<Rightarrow> unit store_result \<times> db"
  st_create_watch :: "create_watch \<Rightarrow> db \<Rightarrow> watch store_result \<times> db"
  st_list_watches :: "string \<Rightarrow> db \<Rightarrow> watch list store_result"
  st_delete_watch :: "delete_watch \<Rightarrow> db \<Rightarrow> bool store_result \<times> db"
  st_claim_due_watch :: "claim_due_watch \<Rightarrow> db \<Rightarrow> claimed_watch option store_result \<times> db"
  st_start_watch_run :: "start_watch_run \<Rightarrow> db \<Rightarrow> watch_run store_result \<times> db"
  st_complete_watch_run :: "complete_watch_run \<Rightarrow> db \<Rightarrow> watch_run_outcome store_result \<times> db"
  st_history :: "history_request \<Rightarrow> db \<Rightarrow> record_observation list store_result"
  st_claim_pending_delivery :: claim_delivery_op
  st_complete_delivery :: complete_delivery_op
  st_list_deliveries :: "list_deliveries \<Rightarrow> db \<Rightarrow> delivery list store_result"

definition sqlite_store :: "libs \<Rightarrow> store_ops" where
  "sqlite_store L = \<lparr>st_upsert_source = sq_upsert_source, st_create_watch = sq_create_watch L,
     st_list_watches = sq_list_watches, st_delete_watch = sq_delete_watch,
     st_claim_due_watch = sq_claim_due_watch, st_start_watch_run = sq_start_watch_run,
     st_complete_watch_run = sq_complete_watch_run L, st_history = sq_history,
     st_claim_pending_delivery = sq_claim_pending_delivery, st_complete_delivery = sq_complete_delivery,
     st_list_deliveries = sq_list_deliveries\<rparr>"

definition d1_store :: "libs \<Rightarrow> store_ops" where
  "d1_store L = \<lparr>st_upsert_source = d1_upsert_source, st_create_watch = d1_create_watch L,
     st_list_watches = d1_list_watches, st_delete_watch = d1_delete_watch,
     st_claim_due_watch = d1_claim_due_watch, st_start_watch_run = d1_start_watch_run,
     st_complete_watch_run = d1_complete_watch_run L, st_history = d1_history,
     st_claim_pending_delivery = d1_claim_pending_delivery, st_complete_delivery = d1_complete_delivery,
     st_list_deliveries = d1_list_deliveries\<rparr>"

text \<open>\<open>Target_Stream\<close>: the targets a native host reads from standard input.\<close>

record comsat_app =
  app_sources :: "catalog_source list"
  app_store :: "store_ops option"
  app_limits :: engine_limits
  app_owner :: string
  app_tenant :: string
  app_targets :: "(target, string) result list option"
  app_delivery :: "delivery_config option"

datatype app_error = Store_Unavailable | App_Store store_error

fun app_error_text :: "app_error \<Rightarrow> string" where
  "app_error_text Store_Unavailable = ''COMSAT persistence is not configured''"
| "app_error_text (App_Store e) = store_error_text e"

definition app_new :: "catalog_source list \<Rightarrow> string \<Rightarrow> comsat_app" where
  "app_new sources tenant = \<lparr>app_sources = sources, app_store = None, app_limits = default_limits,
     app_owner = ''comsat-native'', app_tenant = tenant, app_targets = None, app_delivery = None\<rparr>"

definition the_store :: "comsat_app \<Rightarrow> (store_ops, app_error) result" where
  "the_store app = ok_or Store_Unavailable (app_store app)"

definition diagnostics_error :: "diagnostic list \<Rightarrow> string option" where
  "diagnostics_error ds =
     (if ds = [] then None
      else Some (join ''; '' (map (\<lambda>g. sid_str (diag_source g) @ '': '' @ diag_message g) ds)))"

section \<open>One due watch\<close>

definition claim_request :: "comsat_app \<Rightarrow> int \<Rightarrow> claim_due_watch" where
  "claim_request app now = \<lparr>cd_tenant = app_tenant app, cd_now = now, cd_owner = app_owner app, cd_lease_seconds = 60\<rparr>"

definition app_claim_due_watch ::
  "comsat_app \<Rightarrow> store_ops \<Rightarrow> int \<Rightarrow> db \<Rightarrow> (claimed_watch option, app_error) result \<times> db" where
  "app_claim_due_watch app store now db =
     (case st_claim_due_watch store (claim_request app now) db of (r, db) \<Rightarrow> (map_err App_Store r, db))"

definition watch_run_id :: "comsat_app \<Rightarrow> claimed_watch \<Rightarrow> string" where
  "watch_run_id app claim =
     w_id (cl_watch claim) @ '':'' @ app_owner app @ '':'' @ int_str (w_next_due (cl_watch claim))"

definition start_request :: "comsat_app \<Rightarrow> claimed_watch \<Rightarrow> string \<Rightarrow> int \<Rightarrow> start_watch_run" where
  "start_request app claim run now =
     \<lparr>sr_tenant = w_tenant (cl_watch claim), sr_watch = w_id (cl_watch claim), sr_run = run, sr_key = run,
      sr_owner = app_owner app, sr_started = now\<rparr>"

definition app_start_watch_run ::
  "comsat_app \<Rightarrow> store_ops \<Rightarrow> claimed_watch \<Rightarrow> string \<Rightarrow> int \<Rightarrow> db \<Rightarrow> (unit, app_error) result \<times> db" where
  "app_start_watch_run app store claim run now db =
     (case st_start_watch_run store (start_request app claim run now) db of
        (r, db) \<Rightarrow> (and_then (map_err App_Store r) (\<lambda>_. Ok ()), db))"

definition completion_request ::
  "net_libs \<Rightarrow> comsat_app \<Rightarrow> claimed_watch \<Rightarrow> string \<Rightarrow> comsat_record list \<times> diagnostic list \<Rightarrow> int \<Rightarrow> complete_watch_run" where
  "completion_request N app claim run outcome done_at =
     \<lparr>cr_tenant = w_tenant (cl_watch claim), cr_watch = w_id (cl_watch claim), cr_run = run,
      cr_owner = app_owner app, cr_finished = done_at, cr_records = fst outcome,
      cr_cursor = w_cursor (cl_watch claim), cr_error = diagnostics_error (snd outcome),
      cr_delivery = map_option (\<lambda>c. delivery_for_run N c (w_tenant (cl_watch claim)) (w_id (cl_watch claim)) run)
        (app_delivery app)\<rparr>"

definition app_complete_watch_run ::
  "net_libs \<Rightarrow> comsat_app \<Rightarrow> store_ops \<Rightarrow> claimed_watch \<Rightarrow> string \<Rightarrow> comsat_record list \<times> diagnostic list \<Rightarrow> int \<Rightarrow>
   db \<Rightarrow> (watch_run_outcome option, app_error) result \<times> db" where
  "app_complete_watch_run N app store claim run outcome done_at db =
     (case st_complete_watch_run store (completion_request N app claim run outcome done_at) db of
        (r, db) \<Rightarrow> (and_then (map_err App_Store r) (\<lambda>completed. Ok (Some completed)), db))"

definition watch_search :: "watch \<Rightarrow> search_request" where
  "watch_search w = \<lparr>sr_query = w_query w, sr_sources = w_sources w, sr_strict = False\<rparr>"

definition collect_search ::
  "libs \<Rightarrow> comsat_app \<Rightarrow> search_request \<Rightarrow> comsat_record list \<times> diagnostic list" where
  "collect_search L app request =
     collect_events (stream_spec L (app_limits app) (app_sources app) (Plan_Search request)) ([], [])"

definition run_due_watch_once ::
  "net_libs \<Rightarrow> comsat_app \<Rightarrow> int \<Rightarrow> int \<Rightarrow> db \<Rightarrow> (watch_run_outcome option, app_error) result \<times> db" where
  "run_due_watch_once N app now done_at db =
     (case app_store app of
        None \<Rightarrow> (Err Store_Unavailable, db)
      | Some store \<Rightarrow>
     (case app_claim_due_watch app store now db of
        (Err e, db) \<Rightarrow> (Err e, db)
      | (Ok None, db) \<Rightarrow> (Ok None, db)
      | (Ok (Some claim), db) \<Rightarrow>
          (let run = watch_run_id app claim
           in case app_start_watch_run app store claim run now db of
                (Err e, db) \<Rightarrow> (Err e, db)
              | (Ok _, db) \<Rightarrow>
                  (let outcome = collect_search (base_libs N) app (watch_search (cl_watch claim))
                   in app_complete_watch_run N app store claim run outcome done_at db))))"

section \<open>One delivery\<close>

definition deliver_pending_once ::
  "net_libs \<Rightarrow> http_client \<Rightarrow> comsat_app \<Rightarrow> int \<Rightarrow> int \<Rightarrow> int \<Rightarrow> db \<Rightarrow>
   (delivery option, app_error) result \<times> http_request list \<times> db" where
  "deliver_pending_once N client app named now done_at db =
     (case app_delivery app of
        None \<Rightarrow> (Ok None, [], db)
      | Some config \<Rightarrow>
     (case the_store app of
        Err e \<Rightarrow> (Err e, [], db)
      | Ok store \<Rightarrow>
     (case deliver_pending_webhook (st_claim_pending_delivery store) (st_complete_delivery store) N client config
          \<lparr>da_tenant = app_tenant app, da_owner = app_owner app @ '':'' @ int_str named, da_now = now\<rparr> done_at db of
        (r, reqs, db) \<Rightarrow> (map_err App_Store r, reqs, db))))"

end
