(* ===== verification/Stored_Values.thy ===== *)
theory Stored_Values
  imports Store_Equivalence
begin

text \<open>
  What validation buys: every value a store holds has passed it. Watches, runs, records and
  deliveries written through either store satisfy the checks of \<open>Store_Model\<close>, so a worker that
  reads a watch back can rely on its id, its query and its cursor.
\<close>

definition watch_valid :: "libs \<Rightarrow> watch \<Rightarrow> bool" where
  "watch_valid L w \<longleftrightarrow> validate_tenant_id (w_tenant w) = Ok () \<and> validate_storage_id (w_id w) ''watch_id'' = Ok () \<and>
     is_object (w_cursor w) \<and> query_validate L (w_query w) = Ok ()"

definition run_valid :: "watch_run \<Rightarrow> bool" where
  "run_valid x \<longleftrightarrow> validate_storage_id (run_id x) ''run_id'' = Ok () \<and>
     validate_storage_id (run_key x) ''idempotency_key'' = Ok () \<and>
     validate_storage_id (run_owner x) ''lease_owner'' = Ok ()"

definition record_valid :: "libs \<Rightarrow> comsat_record \<Rightarrow> bool" where
  "record_valid L x \<longleftrightarrow> is_ok (record_validate L x)"

definition delivery_valid :: "delivery \<Rightarrow> bool" where
  "delivery_valid d \<longleftrightarrow> validate_storage_id (d_id d) ''delivery_id'' = Ok () \<and> is_object (d_target d)"

definition values_ok :: "libs \<Rightarrow> db \<Rightarrow> bool" where
  "values_ok L db \<longleftrightarrow> list_all (watch_valid L) (db_watches db) \<and> list_all run_valid (db_runs db) \<and>
     list_all (\<lambda>y. record_valid L (rw_record y)) (db_records db) \<and> list_all delivery_valid (db_deliveries db)"

lemma values_ok_empty: "values_ok L empty_db"
  by (simp add: values_ok_def empty_db_def)

lemma validate_records_iff: "validate_records L xs = Ok () \<longleftrightarrow> list_all (record_valid L) xs"
  by (induction xs) (auto simp: record_valid_def is_ok_iff)

lemma validate_json_object_iff: "validate_json_object v n = Ok () \<longleftrightarrow> is_object v"
  by (simp add: validate_json_object_def)

lemma list_all_upsert:
  "list_all P rows \<Longrightarrow> P row \<Longrightarrow> (\<And>y. P y \<Longrightarrow> P (f y)) \<Longrightarrow> list_all P (upsert_by k row f rows)"
  by (auto simp: upsert_by_def list_all_iff table_simps)

lemma list_all_update:
  "list_all P rows \<Longrightarrow> (\<And>y. P y \<Longrightarrow> P (f y)) \<Longrightarrow> list_all P (update_where Q f rows)"
  by (auto simp: list_all_iff table_simps)

lemma list_all_delete: "list_all P rows \<Longrightarrow> list_all P (delete_where Q rows)"
  by (auto simp: list_all_iff delete_where_def)

section \<open>Requests other than completions\<close>

lemma into_watch_valid: "create_watch_validate L r = Ok () \<Longrightarrow> watch_valid L (into_watch r)"
  by (auto simp: create_watch_validate_def into_watch_def watch_valid_def validate_json_object_iff)

lemma create_values: "values_ok L db \<Longrightarrow> values_ok L (snd (sq_create_watch L r db))"
  using into_watch_valid [of L r] by (auto simp: sq_create_watch_def Let_def values_ok_def split: sum.splits)

lemma claim_values: "values_ok L db \<Longrightarrow> values_ok L (snd (sq_claim_due_watch r db))"
  by (auto simp: sq_claim_due_watch_def Let_def values_ok_def watch_valid_def
      split: sum.splits option.splits intro!: list_all_update)

lemma start_values: "values_ok L db \<Longrightarrow> values_ok L (snd (sq_start_watch_run r db))"
  by (auto simp: sq_start_watch_run_def Let_def values_ok_def run_valid_def new_run_def
      start_watch_run_validate_def split: sum.splits)

lemma delete_values: "values_ok L db \<Longrightarrow> values_ok L (snd (sq_delete_watch r db))"
  by (auto simp: sq_delete_watch_def Let_def delete_watch_rows_def values_ok_def
      split: sum.splits intro!: list_all_delete)

lemma upsert_source_values: "values_ok L db \<Longrightarrow> values_ok L (snd (sq_upsert_source r db))"
  by (auto simp: sq_upsert_source_def values_ok_def split: sum.splits)

lemma claim_delivery_values: "values_ok L db \<Longrightarrow> values_ok L (snd (sq_claim_pending_delivery r db))"
  by (auto simp: sq_claim_pending_delivery_def claim_delivery_rows_def Let_def values_ok_def delivery_valid_def
      claim_delivery_set_def split: sum.splits option.splits intro!: list_all_update)

lemma complete_delivery_values: "values_ok L db \<Longrightarrow> values_ok L (snd (sq_complete_delivery r db))"
  by (auto simp: sq_complete_delivery_def Let_def values_ok_def delivery_valid_def complete_delivery_set_def
      split: sum.splits intro!: list_all_update)

section \<open>Completions\<close>

lemma insert_run_delivery_row_valid:
  "complete_watch_run_validate L r = Ok () \<Longrightarrow> cr_delivery r = Some d \<Longrightarrow> delivery_valid (run_delivery_row r d new)"
  by (auto simp: complete_watch_run_validate_def run_delivery_validate_def delivery_valid_def run_delivery_row_def
      validate_json_object_iff)

lemma complete_validate_records:
  "complete_watch_run_validate L r = Ok () \<Longrightarrow> list_all (record_valid L) (cr_records r) \<and> is_object (cr_cursor r)"
  by (auto simp: complete_watch_run_validate_def validate_records_iff validate_json_object_iff)

lemma store_records_values:
  "values_ok L db \<Longrightarrow> list_all (record_valid L) xs \<Longrightarrow> store_records r xs db = (n, m, new, db') \<Longrightarrow> values_ok L db'"
proof (induction xs arbitrary: db n m new)
  case Nil
  then show ?case by simp
next
  case (Cons x xs)
  obtain i db1 where a: "upsert_record r x db = (i, db1)" by (cases "upsert_record r x db")
  obtain j db2 where b: "upsert_watch_record r x db1 = (j, db2)" by (cases "upsert_watch_record r x db1")
  obtain n2 m2 new2 where c: "store_records r xs db2 = (n2, m2, new2, db')"
    using Cons.prems(3) a b by (auto split: prod.splits)
  have "values_ok L db1"
    using Cons.prems(1,2) a by (auto simp: upsert_record_def Let_def values_ok_def intro!: list_all_upsert)
  then have "values_ok L db2" using b by (auto simp: upsert_watch_record_def Let_def values_ok_def)
  with Cons.IH [OF _ _ c] Cons.prems(2) show ?case by simp
qed

lemma finish_values:
  assumes "values_ok L db" "is_object (cr_cursor r)"
  shows "values_ok L (finish_run_and_watch r status i db)"
  using assms by (auto simp: finish_run_and_watch_def values_ok_def watch_valid_def run_valid_def intro!: list_all_update)

lemma complete_values:
  assumes "values_ok L db"
  shows "values_ok L (snd (sq_complete_watch_run L r db))"
proof -
  obtain res db' where c: "sq_complete_watch_run L r db = (res, db')" by (cases "sq_complete_watch_run L r db")
  show ?thesis
  proof (cases "complete_watch_run_validate L r")
    case (Inl e)
    with assms show ?thesis by (simp add: sq_complete_watch_run_def)
  next
    case v: (Inr u)
    from c show ?thesis
    proof (cases rule: complete_cases)
      case (2 w run n m new db1)
      note valid = complete_validate_records [of L r] v
      have "values_ok L db1" using store_records_values [OF assms _ 2(5)] valid by simp
      then have "values_ok L (insert_run_delivery r new db1)"
        using insert_run_delivery_row_valid [of L r] v
        by (auto simp: insert_run_delivery_def values_ok_def split: option.split)
      with finish_values valid 2(6) c show ?thesis by simp
    qed (use assms c in simp)
  qed
qed

lemma sq_values: "values_ok L db \<Longrightarrow> values_ok L (sq_apply L q db)"
  by (cases q)
    (simp_all add: upsert_source_values create_values delete_values claim_values start_values
      complete_values claim_delivery_values complete_delivery_values)

subsection \<open>Through D1\<close>

lemma insert_new_subset: "insert_new key xs rows = (n, rows') \<Longrightarrow> set rows' \<subseteq> set rows \<union> set xs"
  by (induction key xs rows arbitrary: n rule: insert_new.induct) (fastforce split: if_splits prod.splits)+

lemma insert_records_values:
  assumes "values_ok L db" "list_all (record_valid L) (cr_records r)"
  shows "values_ok L (snd (insert_records_sql r db))"
proof -
  let ?rows = "map (\<lambda>x. \<lparr>rw_tenant = cr_tenant r, rw_record = x, rw_first = cr_finished r, rw_last = cr_finished r\<rparr>) (cr_records r)"
  obtain n rows where i: "insert_new record_row_key ?rows (db_records db) = (n, rows)"
    by (cases "insert_new record_row_key ?rows (db_records db)")
  from insert_new_subset [OF i] have "list_all (\<lambda>y. record_valid L (rw_record y)) rows"
    using assms by (auto simp: values_ok_def list_all_iff)
  with assms(1) i show ?thesis by (simp add: insert_records_sql_def values_ok_def)
qed

lemma update_records_values:
  assumes "values_ok L db" "list_all (record_valid L) (cr_records r)"
  shows "values_ok L (update_records_sql r db)"
proof -
  have incoming: "incoming_for r k = Some x \<Longrightarrow> record_valid L x" for k x
    using assms(2) incoming_for_Some by (auto simp: list_all_iff)
  from assms(1) show ?thesis
    by (auto simp: update_records_sql_def values_ok_def split: option.split intro!: list_all_update dest: incoming)
qed

lemma batch_values:
  assumes "values_ok L db" "complete_watch_run_validate L r = Ok ()"
  shows "values_ok L (snd (d1_complete_batch r db))"
proof -
  note valid = complete_validate_records [OF assms(2)]
  obtain n dba where a: "insert_records_sql r db = (n, dba)" by (cases "insert_records_sql r db")
  let ?b = "update_records_sql r dba"
  let ?c = "case cr_delivery r of None \<Rightarrow> ?b | Some d \<Rightarrow> insert_run_delivery_sql r d ?b"
  obtain m dbd where d: "insert_watch_records_sql r ?c = (m, dbd)" by (cases "insert_watch_records_sql r ?c")
  have "values_ok L dba" using insert_records_values [OF assms(1), of r] valid a by simp
  then have "values_ok L ?b" using update_records_values valid by blast
  then have "values_ok L ?c"
    using insert_run_delivery_row_valid [OF assms(2)]
    by (auto simp: insert_run_delivery_sql_def Let_def values_ok_def split: option.split)
  then have "values_ok L dbd"
    using d by (auto simp: insert_watch_records_sql_def values_ok_def split: if_splits prod.splits)
  then have "values_ok L (update_watch_records_sql r dbd)"
    by (simp add: update_watch_records_sql_def values_ok_def)
  then have "values_ok L (snd (complete_run_sql r (update_watch_records_sql r dbd)))"
    by (auto simp: complete_run_sql_def Let_def values_ok_def run_valid_def intro!: list_all_update)
  then have "values_ok L (snd (complete_watch_sql r (snd (complete_run_sql r (update_watch_records_sql r dbd)))))"
    using valid by (auto simp: complete_watch_sql_def Let_def values_ok_def watch_valid_def intro!: list_all_update)
  then show ?thesis using a d by (simp add: d1_complete_batch_def Let_def split_beta)
qed

lemma d1_complete_values: "values_ok L db \<Longrightarrow> values_ok L (snd (d1_complete_watch_run L r db))"
  using batch_values [of L db r]
  by (auto simp: d1_complete_watch_run_def split: sum.splits prod.splits)

lemma d1_values: "db_ok db \<Longrightarrow> values_ok L db \<Longrightarrow> values_ok L (d1_apply L q db)"
  by (cases "\<exists>r. q = Req_Complete r") (auto simp: d1_complete_values d1_apply_same sq_values)

text \<open>C13: Whatever requests arrive, through SQLite or D1, every stored value has passed the validation of
  its type: a watch has a valid tenant, id and query and an object as cursor, a run valid ids, a
  record is valid and a delivery has a valid id and an object as target.\<close>

theorem stored_values_valid:
  "values_ok L (fold (sq_apply L) qs empty_db) \<and> values_ok L (fold (d1_apply L) qs empty_db)"
proof -
  have "values_ok L db \<Longrightarrow> values_ok L (fold (sq_apply L) qs db)" for db
    by (induction qs arbitrary: db) (auto simp: sq_values)
  moreover have "db_ok db \<Longrightarrow> values_ok L db \<Longrightarrow> values_ok L (fold (d1_apply L) qs db)" for db
    by (induction qs arbitrary: db) (auto simp: d1_values d1_apply_ok)
  ultimately show ?thesis using values_ok_empty empty_db_ok by blast
qed

end
