(* ===== verification/App_Laws.thy ===== *)
theory App_Laws
  imports App Stored_Values
begin

text \<open>
  The run of a due watch, end to end: what the search hands the store (valid records with distinct
  keys), what the runner needs of a store (the locale \<open>due_watch_store\<close>, interpreted on SQLite and on
  D1), and what a tick does then.
\<close>

section \<open>What a search hands the store\<close>

lemma script_record_valid:
  assumes "limits_ok lim" "W_Record s x \<in> set (script L lim p)"
  shows "record_valid L x"
proof (cases "tool_name (cs_descriptor (ps_source p)) (ps_operation p)")
  case None
  with assms(2) show ?thesis by (simp add: script_def run_source_operation_def Let_def)
next
  case (Some tool)
  with run_shape [OF assms(1), of p L] obtain datas rs out ds where
    r: "run_source_operation L lim p = run_steps (cs_id (ps_source p)) (ps_operation p) rs out ds"
    and c: "list_all2 (carries L) datas rs" by auto
  from assms(2) have "x \<in> set rs" by (auto simp: script_def r sends_run_steps)
  with c obtain d where "carries L d x" by (metis in_set_conv_nth list_all2_conv_all_nth)
  then show ?thesis by (simp add: carries_def record_valid_def)
qed

lemma merged_set: "set (merged (max (Suc 0) n) scripts) = set (concat scripts)"
  using mset_eq_setD [OF merged_mset [of "max (Suc 0) n" scripts]] by simp

lemma stream_records:
  assumes "\<not> strict" "plan_sources sources plan = (pending, ds, strict)"
  shows "event_records (stream_spec L lim sources plan) =
    dedupe.kept {} (script_records (merged (max 1 (max_active_sources lim)) (map (script L lim) pending)))"
  using assms by (simp add: stream_spec_def delivered_records)

lemma plan_search_strict: "\<exists>pending ds. plan_search sources req = (pending, ds, sr_strict req)"
  by (simp add: plan_search_def Let_def)

lemma search_plan:
  assumes "\<not> sr_strict req"
  obtains pending ds where "plan_sources (app_sources app) (Plan_Search req) = (pending, ds, False)"
  using assms plan_search_strict [of "app_sources app" req] by auto

lemma collect_search_eq:
  "collect_search L app req =
     (event_records (stream_spec L (app_limits app) (app_sources app) (Plan_Search req)),
      event_failures (stream_spec L (app_limits app) (app_sources app) (Plan_Search req)))"
  by (simp add: collect_search_def collect_events_eq)

lemma search_records_valid:
  assumes "limits_ok (app_limits app)" "\<not> sr_strict req"
  shows "list_all (record_valid L) (fst (collect_search L app req))"
proof -
  obtain pending ds where p: "plan_sources (app_sources app) (Plan_Search req) = (pending, ds, False)"
    using search_plan [OF assms(2)] by blast
  have "record_valid L x"
    if "x \<in> set (event_records (stream_spec L (app_limits app) (app_sources app) (Plan_Search req)))" for x
  proof -
    from that have "x \<in> set (script_records (merged (max 1 (max_active_sources (app_limits app)))
        (map (script L (app_limits app)) pending)))"
      unfolding stream_records [OF _ p, simplified] using dedupe.kept_subset by auto
    then show ?thesis using script_record_valid [OF assms(1)] by (auto simp: script_records_set merged_set)
  qed
  then show ?thesis by (simp add: collect_search_eq list_all_iff)
qed

lemma disjoint_keys_unique:
  "sorted_wrt (\<lambda>a b. set (dedupe_keys a) \<inter> set (dedupe_keys b) = {}) xs \<Longrightarrow> unique_by record_key xs"
proof (induction xs)
  case Nil
  then show ?case by (simp add: unique_by_def)
next
  case (Cons x xs)
  have "record_key y \<noteq> record_key x" if y: "y \<in> set xs" for y
  proof
    assume "record_key y = record_key x"
    then have "source_key (rec_source x) (rec_id x) \<in> set (dedupe_keys x) \<inter> set (dedupe_keys y)"
      by (simp add: dedupe_keys_def record_key_def)
    moreover have "set (dedupe_keys x) \<inter> set (dedupe_keys y) = {}" using Cons.prems y by simp
    ultimately show False by simp
  qed
  then have "record_key x \<notin> record_key ` set xs" by (metis imageE)
  with Cons show ?case by (simp add: unique_by_def)
qed

lemma search_records_unique:
  assumes "\<not> sr_strict req"
  shows "unique_by record_key (fst (collect_search L app req))"
proof -
  obtain pending ds where p: "plan_sources (app_sources app) (Plan_Search req) = (pending, ds, False)"
    using search_plan [OF assms] by blast
  show ?thesis
    unfolding collect_search_eq fst_conv stream_records [OF _ p, simplified]
    by (rule disjoint_keys_unique) (rule dedupe.kept_disjoint)
qed

section \<open>Ids\<close>

lemma hex_str_token: "list_all token_byte (hex_str n)"
proof (induction n rule: hex_str.induct)
  case (1 n)
  have d: "token_byte (char_of (if n mod 16 < 10 then 48 + n mod 16 else 87 + n mod 16))"
    by (auto simp: token_byte_def is_ascii_alphanumeric_def is_ascii_digit_def is_ascii_lowercase_def)
  show ?case
  proof (cases "n < 16")
    case True
    with d show ?thesis by (subst hex_str.simps) (simp add: Let_def)
  next
    case False
    with 1 d show ?thesis by (subst hex_str.simps) (simp add: Let_def)
  qed
qed

lemma hex_str_length: "n < 16 ^ Suc k \<Longrightarrow> length (hex_str n) \<le> Suc k"
proof (induction k arbitrary: n)
  case 0
  then show ?case by (subst hex_str.simps) (simp add: Let_def)
next
  case (Suc k)
  show ?case
  proof (cases "n < 16")
    case True
    then show ?thesis by (subst hex_str.simps) (simp add: Let_def)
  next
    case False
    have "n div 16 < 16 ^ Suc k" using Suc.prems by (simp add: less_mult_imp_div_less mult.commute)
    with Suc.IH False show ?thesis by (subst hex_str.simps) (simp add: Let_def)
  qed
qed

lemma token_byte_0: "token_byte CHR ''0''"
  by code_simp

text \<open>\<open>DefaultHasher::finish\<close> returns a \<open>u64\<close>.\<close>

definition hash_ok :: "net_libs \<Rightarrow> bool" where
  "hash_ok N \<longleftrightarrow> (\<forall>xs. hash_strings N xs < 2 ^ 64)"

lemma delivery_id_valid: "hash_ok N \<Longrightarrow> validate_storage_id (delivery_id N t w r) n = Ok ()"
proof -
  assume h: "hash_ok N"
  let ?h = "hash_strings N [t, w, r]"
  have "?h < 16 ^ Suc 15" using h by (simp add: hash_ok_def)
  from hex_str_length [OF this] have len: "length (hex16 ?h) = 16" by (simp add: hex16_def)
  have "list_all token_byte (hex16 ?h)"
    using hex_str_token [of ?h] by (auto simp: hex16_def list_all_iff token_byte_0)
  moreover have "list_all token_byte ''webhook:''" by code_simp
  ultimately show ?thesis
    using len by (simp add: validate_storage_id_def validate_bounded_token_def delivery_id_def)
qed

lemma delivery_for_run_valid: "hash_ok N \<Longrightarrow> run_delivery_validate (delivery_for_run N c t w r) = Ok ()"
  by (simp add: run_delivery_validate_def delivery_for_run_def delivery_id_valid validate_json_object_def
      json_object_def)

section \<open>What the runner needs of a store\<close>

definition lease_to :: "string \<Rightarrow> int \<Rightarrow> watch \<Rightarrow> watch" where
  "lease_to owner e w = w\<lparr>w_lease_owner := Some owner, w_lease_expires := Some e\<rparr>"

definition leased_db :: "watch \<Rightarrow> string \<Rightarrow> int \<Rightarrow> db \<Rightarrow> db" where
  "leased_db w owner e db = db\<lparr>db_watches := map (\<lambda>v. if v = w then lease_to owner e v else v) (db_watches db)\<rparr>"

definition run_open :: "start_watch_run \<Rightarrow> watch_run \<Rightarrow> bool" where
  "run_open r x \<longleftrightarrow> run_pk x = (sr_tenant r, sr_watch r, sr_run r) \<and> run_idem x = (sr_tenant r, sr_watch r, sr_key r) \<and>
     run_owner x = sr_owner r \<and> run_status x = ''running''"

text \<open>No other run stands in the way: those under the same id or key are this one, interrupted.\<close>

definition startable :: "start_watch_run \<Rightarrow> db \<Rightarrow> bool" where
  "startable r db \<longleftrightarrow> (\<forall>x \<in> set (db_runs db).
     run_pk x = (sr_tenant r, sr_watch r, sr_run r) \<or> run_idem x = (sr_tenant r, sr_watch r, sr_key r) \<longrightarrow> run_open r x)"

definition closed_watch :: "complete_watch_run \<Rightarrow> watch \<Rightarrow> watch" where
  "closed_watch r w = w\<lparr>w_cursor := cr_cursor r, w_next_due := cr_finished r + int (w_interval w),
     w_lease_owner := None, w_lease_expires := None\<rparr>"

definition closed_run :: "complete_watch_run \<Rightarrow> watch_run \<Rightarrow> watch_run" where
  "closed_run r x = x\<lparr>run_status := run_status_of (cr_error r), run_finished := Some (cr_finished r), run_error := cr_error r\<rparr>"

definition completion_effect :: "complete_watch_run \<Rightarrow> db \<Rightarrow> watch_run_outcome \<Rightarrow> db \<Rightarrow> bool" where
  "completion_effect r db out db' \<longleftrightarrow>
     out_run out = cr_run r \<and> out_status out = run_status_of (cr_error r) \<and> out_seen out = length (cr_records r) \<and>
     db_watches db' = update_where (\<lambda>w. watch_key w = (cr_tenant r, cr_watch r)) (closed_watch r) (db_watches db) \<and>
     db_runs db' = update_where (\<lambda>x. run_pk x = (cr_tenant r, cr_watch r, cr_run r)) (closed_run r) (db_runs db) \<and>
     (\<forall>x \<in> set (cr_records r). \<exists>y \<in> set (db_records db').
        rw_tenant y = cr_tenant r \<and> rw_record y = x \<and> rw_last y = cr_finished r)"

text \<open>Clock readings that no sum of the stores leaves the range of \<open>i64\<close>.\<close>

definition clock_ok :: "int \<Rightarrow> bool" where
  "clock_ok t \<longleftrightarrow> 0 \<le> t \<and> t < 2 ^ 62"

lemma clock_ok_add: "clock_ok t \<Longrightarrow> n \<le> 31536000 \<Longrightarrow> in_i64 (t + int n)"
  by (simp add: clock_ok_def in_i64_def)

locale due_watch_store =
  fixes L :: libs and store :: store_ops
  assumes claim_takes: "db_ok db \<Longrightarrow> claim_due_watch_validate c = Ok () \<Longrightarrow> select_due_watch c db = Some w \<Longrightarrow>
      in_i64 (cd_now c + int (cd_lease_seconds c)) \<Longrightarrow>
      \<exists>got. st_claim_due_watch store c db = (Ok (Some got), leased_db w (cd_owner c) (cd_now c + int (cd_lease_seconds c)) db) \<and>
        (cl_watch got = w \<or> cl_watch got = lease_to (cd_owner c) (cd_now c + int (cd_lease_seconds c)) w)"
    and claim_none: "db_ok db \<Longrightarrow> claim_due_watch_validate c = Ok () \<Longrightarrow> select_due_watch c db = None \<Longrightarrow>
      st_claim_due_watch store c db = (Ok None, db)"
    and start_opens: "db_ok db \<Longrightarrow> start_watch_run_validate r = Ok () \<Longrightarrow>
      exists_where (lease_held (sr_tenant r, sr_watch r) (sr_owner r) (sr_started r)) (db_watches db) \<Longrightarrow> startable r db \<Longrightarrow>
      \<exists>run db'. st_start_watch_run store r db = (Ok run, db') \<and> (db' = db \<or> db' = db\<lparr>db_runs := db_runs db @ [new_run r]\<rparr>) \<and>
        exists_where (run_open r) (db_runs db') \<and> db_ok db'"
    and start_refused: "start_watch_run_validate r = Err e \<Longrightarrow> st_start_watch_run store r db = (Err e, db)"
    and complete_closes: "db_ok db \<Longrightarrow> complete_watch_run_validate L q = Ok () \<Longrightarrow> gate_open q db \<Longrightarrow>
      unique_by record_key (cr_records q) \<Longrightarrow> records_json_check L q = Ok () \<Longrightarrow> clock_ok (cr_finished q) \<Longrightarrow>
      \<exists>out db'. st_complete_watch_run store q db = (Ok out, db') \<and> completion_effect q db out db'"

subsection \<open>SQLite and D1 provide it\<close>

lemma lease_60_of_validate: "claim_due_watch_validate c = Ok () \<Longrightarrow> i64_from_u64 (cd_lease_seconds c) n = Ok (int (cd_lease_seconds c))"
  by (rule interval_i64) (auto simp: claim_due_watch_validate_def)

lemma sq_claim_none:
  "claim_due_watch_validate c = Ok () \<Longrightarrow> select_due_watch c db = None \<Longrightarrow> sq_claim_due_watch c db = (Ok None, db)"
  by (simp add: sq_claim_due_watch_def)

lemma sq_claim_takes:
  assumes "db_ok db" "claim_due_watch_validate c = Ok ()" "select_due_watch c db = Some w"
    and "in_i64 (cd_now c + int (cd_lease_seconds c))"
  shows "sq_claim_due_watch c db = (Ok (Some \<lparr>cl_watch = w, cl_owner = cd_owner c, cl_expires = cd_now c + int (cd_lease_seconds c)\<rparr>),
    leased_db w (cd_owner c) (cd_now c + int (cd_lease_seconds c)) db)"
proof -
  note w = select_due_watch_Some [OF assms(3)]
  have u: "unique_by watch_key (db_watches db)" using assms(1) by (simp add: db_ok_def keys_ok_def)
  let ?P = "\<lambda>v. watch_key v = (cd_tenant c, w_id w) \<and> w_enabled v \<and> w_next_due v \<le> cd_now c \<and> lease_free (cd_now c) v"
  have same: "?P v = (v = w)" if v: "v \<in> set (db_watches db)" for v
  proof -
    have "watch_key v = watch_key w \<Longrightarrow> v = w" using unique_byD [OF u v] w by blast
    then show ?thesis using w by (auto simp: watch_due_def watch_key_def)
  qed
  have "count_where ?P (db_watches db) \<noteq> 0" using same w count_where_zero [of ?P "db_watches db"] by blast
  moreover have "update_where ?P f (db_watches db) = map (\<lambda>v. if v = w then f v else v) (db_watches db)" for f
    unfolding update_where_def by (rule map_cong [OF refl]) (simp only: same)
  ultimately show ?thesis
    using assms(2-4) lease_60_of_validate [OF assms(2)]
    by (simp add: sq_claim_due_watch_def Let_def leased_db_def lease_to_def [abs_def])
qed

lemma select_first_append: "select_first P (xs @ ys) = (case select_first P xs of None \<Rightarrow> select_first P ys | Some x \<Rightarrow> Some x)"
  by (induction xs) (auto simp: select_first_def)

lemma sq_start_opens:
  assumes ok: "db_ok db" and v: "start_watch_run_validate r = Ok ()" and s: "startable r db"
    and held: "exists_where (lease_held (sr_tenant r, sr_watch r) (sr_owner r) (sr_started r)) (db_watches db)"
  shows "\<exists>run db'. sq_start_watch_run r db = (Ok run, db') \<and> (db' = db \<or> db' = db\<lparr>db_runs := db_runs db @ [new_run r]\<rparr>) \<and>
    exists_where (run_open r) (db_runs db') \<and> db_ok db'"
proof (cases "select_first (\<lambda>x. run_idem x = (sr_tenant r, sr_watch r, sr_key r)) (db_runs db)")
  case (Some x)
  from select_first_SomeD [OF Some] have x: "x \<in> set (db_runs db)" "run_idem x = (sr_tenant r, sr_watch r, sr_key r)" by auto
  then have "run_open r x" using s by (auto simp: startable_def)
  with x have "exists_where (run_open r) (db_runs db)" by (auto simp: exists_where_def)
  moreover have "sq_start_watch_run r db = (Ok x, db)"
    using v x Some by (auto simp: sq_start_watch_run_def fetch_watch_run_def new_run_def run_idem_def exists_where_def)
  ultimately show ?thesis using ok by blast
next
  case None
  then have idem: "\<not> exists_where (\<lambda>x. run_idem x = run_idem (new_run r)) (db_runs db)"
    by (auto simp: exists_where_def table_simps new_run_def run_idem_def)
  have pk: "\<not> exists_where (\<lambda>x. run_pk x = run_pk (new_run r)) (db_runs db)"
    using None s by (auto simp: exists_where_def table_simps new_run_def run_pk_def startable_def run_open_def)
  let ?db = "db\<lparr>db_runs := db_runs db @ [new_run r]\<rparr>"
  have "select_first (\<lambda>x. run_idem x = (sr_tenant r, sr_watch r, sr_key r)) (db_runs db @ [new_run r]) = Some (new_run r)"
    using None by (simp add: select_first_append) (simp add: select_first_def new_run_def run_idem_def)
  then have "sq_start_watch_run r db = (Ok (new_run r), ?db)"
    using v held idem pk by (simp add: sq_start_watch_run_def Let_def fetch_watch_run_def)
  moreover have "exists_where (run_open r) (db_runs ?db)"
    by (simp add: exists_where_def run_open_def new_run_def run_pk_def run_idem_def)
  moreover have "db_ok ?db" using start_watch_run_ok [OF ok, of r] calculation(1) by simp
  ultimately show ?thesis by blast
qed

lemma sq_complete_closes:
  assumes ok: "db_ok db" and v: "complete_watch_run_validate L q = Ok ()" and g: "gate_open q db"
    and u: "unique_by record_key (cr_records q)" and clock: "clock_ok (cr_finished q)"
  shows "\<exists>out db'. sq_complete_watch_run L q db = (Ok out, db') \<and> completion_effect q db out db'"
proof -
  obtain out db' where c: "sq_complete_watch_run L q db = (Ok out, db')"
    using sq_complete_is_ok [of L q db] v g by (cases "sq_complete_watch_run L q db") (auto simp: is_ok_iff)
  have stored: "\<exists>y \<in> set (db_records db'). rw_tenant y = cr_tenant q \<and> rw_record y = x \<and> rw_last y = cr_finished q"
    if x: "x \<in> set (cr_records q)" for x
  proof -
    have "db_records db' = merged_records q (cr_records q) (db_records db)"
      by (rule sq_complete_result [OF u c]) (auto simp: finish_run_and_watch_def insert_run_delivery_def split: option.split)
    with merged_record_stored [OF u x, of q "db_records db"] show ?thesis by (auto simp: record_row_key_def)
  qed
  from c show ?thesis
  proof (cases rule: complete_cases)
    case (2 w run n m new db1)
    have wk: "watch_key w = (cr_tenant q, cr_watch q)" using 2(2) by (simp add: lease_held_def)
    have "v = w" if "v \<in> set (db_watches db)" "watch_key v = (cr_tenant q, cr_watch q)" for v
      using ok that 2(1) wk by (intro unique_byD [of watch_key "db_watches db"]) (auto simp: db_ok_def keys_ok_def)
    moreover have "add64 (cr_finished q) (int (w_interval w)) = cr_finished q + int (w_interval w)"
      using ok 2(1) clock by (auto simp: db_ok_def rows_ok_def list_all_iff watch_ok_def intro!: add64_in_range clock_ok_add)
    ultimately have "db_watches db' = update_where (\<lambda>w. watch_key w = (cr_tenant q, cr_watch q)) (closed_watch q) (db_watches db)"
      unfolding complete_tables(1) [OF ok 2(1) wk 2(5,6)] closed_watch_def
      by (auto simp: update_where_def)
    moreover have "db_runs db' = update_where (\<lambda>x. run_pk x = (cr_tenant q, cr_watch q, cr_run q)) (closed_run q) (db_runs db)"
      unfolding complete_tables(2) [OF ok 2(1) wk 2(5,6)] closed_run_def [abs_def] run_of_def ..
    ultimately show ?thesis using c 2(7) stored by (auto simp: completion_effect_def)
  qed (use c in simp)
qed

lemma d1_complete_closes:
  assumes "db_ok db" "complete_watch_run_validate L q = Ok ()" "gate_open q db" "unique_by record_key (cr_records q)"
    and "records_json_check L q = Ok ()" "clock_ok (cr_finished q)"
  shows "\<exists>out db'. d1_complete_watch_run L q db = (Ok out, db') \<and> completion_effect q db out db'"
proof -
  obtain out db1 where s: "sq_complete_watch_run L q db = (Ok out, db1)" "completion_effect q db out db1"
    using sq_complete_closes [OF assms(1-4,6)] by blast
  have "in_i64 (cr_finished q + int (w_interval w))" if "w \<in> set (db_watches db)" for w
    using assms(1,6) that by (intro clock_ok_add) (auto simp: db_ok_def rows_ok_def list_all_iff watch_ok_def)
  from d1_complete_agrees [OF assms(1,4) this assms(5) s(1)] obtain db2 where
    d: "d1_complete_watch_run L q db = (Ok out, db2)" "db_alike db1 db2" by blast
  have "db2 = db1\<lparr>db_deliveries := db_deliveries db2\<rparr>" using d(2) by (simp add: db_alike_def)
  then have "db_watches db2 = db_watches db1" "db_runs db2 = db_runs db1" "db_records db2 = db_records db1"
    by (metis db.select_convs db.surjective db.update_convs(6))+
  with s(2) d(1) show ?thesis by (auto simp: completion_effect_def)
qed

interpretation sqlite_due: due_watch_store L "sqlite_store L" for L
proof
  fix c w db
  assume "db_ok db" "claim_due_watch_validate c = Ok ()" "select_due_watch c db = Some w"
    "in_i64 (cd_now c + int (cd_lease_seconds c))"
  from sq_claim_takes [OF this] show "\<exists>got. st_claim_due_watch (sqlite_store L) c db =
      (Ok (Some got), leased_db w (cd_owner c) (cd_now c + int (cd_lease_seconds c)) db) \<and>
      (cl_watch got = w \<or> cl_watch got = lease_to (cd_owner c) (cd_now c + int (cd_lease_seconds c)) w)"
    by (simp add: sqlite_store_def)
qed (simp_all add: sqlite_store_def sq_claim_none sq_start_opens sq_complete_closes, simp add: sq_start_watch_run_def)

interpretation d1_due: due_watch_store L "d1_store L" for L
proof
  fix c w db
  assume "db_ok db" "claim_due_watch_validate c = Ok ()" "select_due_watch c db = Some w"
    "in_i64 (cd_now c + int (cd_lease_seconds c))"
  from sq_claim_takes [OF this] d1_claim_due_watch_same [OF this(1), of c] show "\<exists>got. st_claim_due_watch (d1_store L) c db =
      (Ok (Some got), leased_db w (cd_owner c) (cd_now c + int (cd_lease_seconds c)) db) \<and>
      (cl_watch got = w \<or> cl_watch got = lease_to (cd_owner c) (cd_now c + int (cd_lease_seconds c)) w)"
    by (simp add: d1_store_def claimed_row_def lease_to_def)
qed (simp_all add: d1_store_def d1_claim_due_watch_same sq_claim_none d1_same sq_start_opens d1_complete_closes,
  simp add: sq_start_watch_run_def)

section \<open>A tick\<close>

definition claim_of :: "watch \<Rightarrow> claimed_watch" where
  "claim_of w = \<lparr>cl_watch = w, cl_owner = [], cl_expires = 0\<rparr>"

definition run_id_of :: "comsat_app \<Rightarrow> watch \<Rightarrow> string" where
  "run_id_of app w = watch_run_id app (claim_of w)"

definition start_of :: "comsat_app \<Rightarrow> watch \<Rightarrow> int \<Rightarrow> start_watch_run" where
  "start_of app w now = start_request app (claim_of w) (run_id_of app w) now"

definition completion_of :: "net_libs \<Rightarrow> comsat_app \<Rightarrow> watch \<Rightarrow> int \<Rightarrow> complete_watch_run" where
  "completion_of N app w done_at = completion_request N app (claim_of w) (run_id_of app w)
     (collect_search (base_libs N) app (watch_search w)) done_at"

lemma claimed_same:
  assumes "cl_watch got = w \<or> cl_watch got = lease_to owner e w"
  shows "watch_run_id app got = run_id_of app w" "start_request app got run now = start_request app (claim_of w) run now"
    "completion_request N app got run outcome done_at = completion_request N app (claim_of w) run outcome done_at"
    "watch_search (cl_watch got) = watch_search w"
  using assms by (auto simp: run_id_of_def watch_run_id_def start_request_def completion_request_def watch_search_def
      claim_of_def lease_to_def)

lemma storage_id_name: "validate_storage_id v n = Ok () \<Longrightarrow> validate_storage_id v m = Ok ()"
  by (auto simp: validate_storage_id_def validate_bounded_token_def Let_def split: if_splits)

lemma completion_sel [simp]:
  "cr_tenant (completion_of N app w t) = w_tenant w" "cr_watch (completion_of N app w t) = w_id w"
  "cr_run (completion_of N app w t) = run_id_of app w" "cr_owner (completion_of N app w t) = app_owner app"
  "cr_finished (completion_of N app w t) = t" "cr_cursor (completion_of N app w t) = w_cursor w"
  "cr_records (completion_of N app w t) = fst (collect_search (base_libs N) app (watch_search w))"
  "cr_error (completion_of N app w t) = diagnostics_error (snd (collect_search (base_libs N) app (watch_search w)))"
  "cr_delivery (completion_of N app w t) = map_option (\<lambda>c. delivery_for_run N c (w_tenant w) (w_id w) (run_id_of app w)) (app_delivery app)"
  by (simp_all add: completion_of_def completion_request_def claim_of_def)

lemma start_sel [simp]:
  "sr_tenant (start_of app w now) = w_tenant w" "sr_watch (start_of app w now) = w_id w"
  "sr_run (start_of app w now) = run_id_of app w" "sr_key (start_of app w now) = run_id_of app w"
  "sr_owner (start_of app w now) = app_owner app" "sr_started (start_of app w now) = now"
  by (simp_all add: start_of_def start_request_def claim_of_def)

text \<open>What a tick needs: a valid tenant and worker, limits and a hash within their types, a run id that
  fits, and a clock that neither leaves the range of \<open>i64\<close> nor outlives the lease.\<close>

definition tick_ready :: "net_libs \<Rightarrow> comsat_app \<Rightarrow> watch \<Rightarrow> int \<Rightarrow> int \<Rightarrow> bool" where
  "tick_ready N app w now done_at \<longleftrightarrow> hash_ok N \<and> limits_ok (app_limits app) \<and>
     claim_due_watch_validate (claim_request app now) = Ok () \<and>
     validate_storage_id (run_id_of app w) ''run_id'' = Ok () \<and>
     clock_ok now \<and> clock_ok done_at \<and> done_at < now + 60"

lemma completion_valid:
  assumes "tick_ready N app w now done_at" "watch_valid (base_libs N) w"
  shows "complete_watch_run_validate (base_libs N) (completion_of N app w done_at) = Ok ()"
proof -
  have "\<not> sr_strict (watch_search w)" by (simp add: watch_search_def)
  with assms have "validate_records (base_libs N) (fst (collect_search (base_libs N) app (watch_search w))) = Ok ()"
    by (simp add: validate_records_iff search_records_valid tick_ready_def)
  then show ?thesis
    using assms by (auto simp: complete_watch_run_validate_def tick_ready_def watch_valid_def claim_request_def
        claim_due_watch_validate_def validate_json_object_iff delivery_for_run_valid split: option.split)
qed

lemma start_valid:
  "tick_ready N app w now done_at \<Longrightarrow> watch_valid L w \<Longrightarrow> start_watch_run_validate (start_of app w now) = Ok ()"
  by (auto simp: start_watch_run_validate_def tick_ready_def watch_valid_def claim_request_def
      claim_due_watch_validate_def intro: storage_id_name)

lemma leased_ok: "db_ok db \<Longrightarrow> db_ok (leased_db w owner e db)"
proof -
  assume ok: "db_ok db"
  have "leased_db w owner e db = db\<lparr>db_watches := update_where (\<lambda>v. v = w) (lease_to owner e) (db_watches db)\<rparr>"
    by (simp add: leased_db_def update_where_def)
  then show ?thesis using ok by (auto simp: lease_to_def watch_key_def watch_ok_lease intro!: db_ok_watches)
qed

lemma leased_held:
  assumes "w \<in> set (db_watches db)" "t < e"
  shows "exists_where (lease_held (watch_key w) owner t) (db_watches (leased_db w owner e db))"
  using assms by (auto simp: exists_where_def leased_db_def lease_held_def lease_to_def watch_key_def expires_after_def
      intro!: bexI [of _ "lease_to owner e w"])

context due_watch_store
begin

lemma tick_claims:
  assumes "db_ok db" "claim_due_watch_validate (claim_request app now) = Ok ()" "clock_ok now"
    and "select_due_watch (claim_request app now) db = Some w"
  shows "\<exists>got. app_claim_due_watch app store now db = (Ok (Some got), leased_db w (app_owner app) (now + 60) db) \<and>
    (cl_watch got = w \<or> cl_watch got = lease_to (app_owner app) (now + 60) w)"
  using claim_takes [OF assms(1,2,4)] clock_ok_add [OF assms(3), of 60]
  by (auto simp: app_claim_due_watch_def claim_request_def)

lemma tick_runs:
  assumes ok: "db_ok db" and vals: "values_ok L db" and ready: "tick_ready N app w now done_at" and N: "base_libs N = L"
    and store: "app_store app = Some store" and w: "select_due_watch (claim_request app now) db = Some w"
    and free: "startable (start_of app w now) db" and size: "records_json_check L (completion_of N app w done_at) = Ok ()"
  obtains out db1 db' where "run_due_watch_once N app now done_at db = (Ok (Some out), db')"
    "completion_effect (completion_of N app w done_at) db1 out db'"
    "db_watches db1 = db_watches (leased_db w (app_owner app) (now + 60) db)"
    "db_runs db1 = db_runs db \<or> db_runs db1 = db_runs db @ [new_run (start_of app w now)]"
    "exists_where (run_open (start_of app w now)) (db_runs db1)"
proof -
  note due = select_due_watch_Some [OF w]
  let ?lease = "leased_db w (app_owner app) (now + 60) db"
  from ready have r: "claim_due_watch_validate (claim_request app now) = Ok ()" "clock_ok now" "clock_ok done_at" "done_at < now + 60"
    by (simp_all add: tick_ready_def)
  obtain got where got: "app_claim_due_watch app store now db = (Ok (Some got), ?lease)"
      "cl_watch got = w \<or> cl_watch got = lease_to (app_owner app) (now + 60) w"
    using tick_claims [OF ok r(1,2) w] by blast
  note same = claimed_same [OF got(2)]
  have wv: "watch_valid L w" using vals due by (auto simp: values_ok_def list_all_iff)
  have "exists_where (lease_held (watch_key w) (app_owner app) now) (db_watches ?lease)"
    using due by (intro leased_held) auto
  moreover have "startable (start_of app w now) ?lease" using free by (simp add: startable_def leased_db_def)
  ultimately have "\<exists>run db1. st_start_watch_run store (start_of app w now) ?lease = (Ok run, db1) \<and>
      (db1 = ?lease \<or> db1 = ?lease\<lparr>db_runs := db_runs ?lease @ [new_run (start_of app w now)]\<rparr>) \<and>
      exists_where (run_open (start_of app w now)) (db_runs db1) \<and> db_ok db1"
    by (intro start_opens [OF leased_ok [OF ok] start_valid [OF ready wv]]) (simp_all add: watch_key_def)
  then obtain run db1 where start: "st_start_watch_run store (start_of app w now) ?lease = (Ok run, db1)"
      "db1 = ?lease \<or> db1 = ?lease\<lparr>db_runs := db_runs ?lease @ [new_run (start_of app w now)]\<rparr>"
      "exists_where (run_open (start_of app w now)) (db_runs db1)" "db_ok db1" by blast
  then have tables: "db_watches db1 = db_watches ?lease"
    "db_runs db1 = db_runs db \<or> db_runs db1 = db_runs db @ [new_run (start_of app w now)]"
    by (auto simp: leased_db_def)
  let ?c = "completion_of N app w done_at"
  have "exists_where (lease_held (watch_key w) (app_owner app) done_at) (db_watches db1)"
    unfolding tables(1) using due r(4) by (intro leased_held) auto
  then have "gate_open ?c db1"
    using start(3) by (auto simp: gate_open_def exists_where_def gate_watch_def gate_run_def run_open_def watch_key_def)
  moreover have "unique_by record_key (cr_records ?c)"
    by (simp add: search_records_unique watch_search_def)
  moreover have "complete_watch_run_validate L ?c = Ok ()" "clock_ok (cr_finished ?c)"
    using completion_valid [OF ready] wv N r(3) by simp_all
  ultimately obtain out db' where c: "st_complete_watch_run store ?c db1 = (Ok out, db')" "completion_effect ?c db1 out db'"
    using complete_closes [OF start(4)] size by blast
  have "run_due_watch_once N app now done_at db = (Ok (Some out), db')"
    using store got(1) start(1) c(1)
    by (simp add: run_due_watch_once_def app_start_watch_run_def app_complete_watch_run_def same Let_def
        start_of_def [symmetric] completion_of_def [symmetric])
  with that c(2) tables start(3) show thesis by blast
qed

lemma tick_idle:
  assumes "db_ok db" "claim_due_watch_validate (claim_request app now) = Ok ()" "app_store app = Some store"
    and "select_due_watch (claim_request app now) db = None"
  shows "run_due_watch_once N app now done_at db = (Ok None, db)"
  using assms claim_none [OF assms(1,2,4)] by (simp add: run_due_watch_once_def app_claim_due_watch_def)

lemma tick_refused:
  assumes ok: "db_ok db" and vals: "values_ok L db" and "claim_due_watch_validate (claim_request app now) = Ok ()" "clock_ok now"
    and store: "app_store app = Some store" and w: "select_due_watch (claim_request app now) db = Some w"
    and bad: "validate_storage_id (run_id_of app w) ''run_id'' = Err e"
  shows "run_due_watch_once N app now done_at db = (Err (App_Store e), leased_db w (app_owner app) (now + 60) db)"
proof -
  obtain got where got: "app_claim_due_watch app store now db = (Ok (Some got), leased_db w (app_owner app) (now + 60) db)"
      "cl_watch got = w \<or> cl_watch got = lease_to (app_owner app) (now + 60) w"
    using tick_claims [OF ok assms(3,4) w] by blast
  have "watch_valid L w" using vals select_due_watch_Some [OF w] by (auto simp: values_ok_def list_all_iff)
  then have "start_watch_run_validate (start_of app w now) = Err e"
    using bad by (simp add: start_watch_run_validate_def watch_valid_def)
  from start_refused [OF this] store got show ?thesis
    by (simp add: run_due_watch_once_def app_start_watch_run_def claimed_same [OF got(2)] Let_def start_of_def [symmetric])
qed

end

text \<open>A completion touches the one watch it closes.\<close>

lemma completion_watches:
  assumes "db_ok db" "w \<in> set (db_watches db)" "completion_effect (completion_of N app w done_at) db1 out db'"
    and "db_watches db1 = db_watches (leased_db w owner e db)"
  shows "db_watches db' = map (\<lambda>v. if v = w
    then v\<lparr>w_next_due := done_at + int (w_interval v), w_lease_owner := None, w_lease_expires := None\<rparr> else v) (db_watches db)"
proof -
  let ?c = "completion_of N app w done_at"
  have key: "watch_key v = (w_tenant w, w_id w) \<longleftrightarrow> v = w" if "v \<in> set (db_watches db)" for v
    using unique_byD [of watch_key "db_watches db", OF _ that assms(2)] assms(1)
    by (auto simp: db_ok_def keys_ok_def watch_key_def)
  have "watch_key (lease_to owner e v) = watch_key v" for v by (simp add: watch_key_def lease_to_def)
  moreover have "db_watches db' = update_where (\<lambda>v. watch_key v = (w_tenant w, w_id w)) (closed_watch ?c) (db_watches db1)"
    using assms(3) by (simp add: completion_effect_def)
  ultimately show ?thesis
    unfolding assms(4) using key assms(2) by (auto simp: leased_db_def update_where_def closed_watch_def)
      (auto simp: lease_to_def)
qed

end
