(* ===== verification/App_Properties.thy ===== *)
theory App_Properties
  imports App_Laws Webhook_Laws
begin

text \<open>What a tick of the scheduler promises, over either store.\<close>

definition all_succeeded :: "diagnostic list \<Rightarrow> string" where
  "all_succeeded gs = (if gs = [] then ''succeeded'' else ''failed'')"

lemma run_status_diagnostics: "run_status_of (diagnostics_error ds) = all_succeeded ds"
  by (simp add: run_status_of_def diagnostics_error_def all_succeeded_def)

lemma closed_in_update:
  assumes "x \<in> set rows" "P x"
  shows "f x \<in> set (update_where P f rows)"
  using update_where_image [OF assms(1), of P f] assms(2) by simp


definition example_tick_net :: net_libs where
  "example_tick_net = example_net\<lparr>hash_strings := \<lambda>ss. length (concat ss) mod 2 ^ 64\<rparr>"

definition example_app :: "(libs \<Rightarrow> store_ops) \<Rightarrow> comsat_app" where
  "example_app store = (app_new [example_tool [Chunk (record_to_json (example_record ''web'' ''a'' ''https://x''))] (Tool_Ok JNull)] ''t'')
     \<lparr>app_store := Some (store example_libs), app_delivery := Some \<lparr>dcf_url = ''https://e'', dcf_secret = None\<rparr>\<rparr>"

lemma example_app_facts:
  "values_ok example_libs example_db" "base_libs example_tick_net = example_libs" "hash_ok example_tick_net"
  "select_due_watch (claim_request (example_app store) 110) example_db = Some (example_watch ''w2'' 5 (Some ''a'') (Some 100))"
  "claim_due_watch_validate (claim_request (example_app store) 110) = Ok ()"
  "limits_ok (app_limits (example_app store))"
  "validate_storage_id (run_id_of (example_app store) (example_watch ''w2'' 5 (Some ''a'') (Some 100))) ''run_id'' = Ok ()"
proof -
  show "values_ok example_libs example_db" by code_simp
  show "base_libs example_tick_net = example_libs" "hash_ok example_tick_net"
    by (simp_all add: example_tick_net_def example_net_def hash_ok_def)
  have r: "claim_request (example_app store) 110 =
      \<lparr>cd_tenant = ''t'', cd_now = 110, cd_owner = ''comsat-native'', cd_lease_seconds = 60\<rparr>"
    by (simp add: claim_request_def example_app_def app_new_def)
  show "select_due_watch (claim_request (example_app store) 110) example_db = Some (example_watch ''w2'' 5 (Some ''a'') (Some 100))"
    "claim_due_watch_validate (claim_request (example_app store) 110) = Ok ()" unfolding r by code_simp+
  show "limits_ok (app_limits (example_app store))"
    by (simp add: example_app_def app_new_def default_limits_def limits_ok_def)
  have "run_id_of (example_app store) (example_watch ''w2'' 5 (Some ''a'') (Some 100)) = ''w2:comsat-native:'' @ int_str 5"
    by (simp add: run_id_of_def watch_run_id_def claim_of_def example_app_def app_new_def example_watch_def)
  moreover have "validate_storage_id (''w2:comsat-native:'' @ int_str 5) ''run_id'' = Ok ()" by code_simp
  ultimately show "validate_storage_id (run_id_of (example_app store) (example_watch ''w2'' 5 (Some ''a'') (Some 100))) ''run_id'' = Ok ()"
    by simp
qed

lemma example_app_sel [simp]:
  "app_tenant (example_app store) = ''t''" "app_owner (example_app store) = ''comsat-native''"
  "app_store (example_app store) = Some (store example_libs)"
  "app_sources (example_app store) = [example_tool [Chunk (record_to_json (example_record ''web'' ''a'' ''https://x''))] (Tool_Ok JNull)]"
  "app_limits (example_app store) = default_limits"
  by (simp_all add: example_app_def app_new_def)

lemma example_search:
  "collect_search example_libs (example_app store) (watch_search (example_watch ''w2'' 5 (Some ''a'') (Some 100))) =
     ([example_record ''web'' ''a'' ''https://x''], [])"
proof -
  have "collect_events (stream_spec example_libs default_limits
      [example_tool [Chunk (record_to_json (example_record ''web'' ''a'' ''https://x''))] (Tool_Ok JNull)]
      (Plan_Search (watch_search (example_watch ''w2'' 5 (Some ''a'') (Some 100))))) ([], []) =
     ([example_record ''web'' ''a'' ''https://x''], [])" by code_simp
  then show ?thesis by (simp add: collect_search_def)
qed


text \<open>C15: A watch whose id is accepted but leaves no room in the run id (the watch id, the worker's name and
  the due time in at most 160 bytes) never runs, over SQLite or D1: each tick that claims it fails,
  starts no run and leaves the watch due, under a lease that only expires.\<close>

theorem overlong_watch_never_runs:
  assumes "db_ok db" "values_ok (base_libs N) db" "claim_due_watch_validate (claim_request app now) = Ok ()" "clock_ok now"
    and "app_store app = Some store" "store = sqlite_store (base_libs N) \<or> store = d1_store (base_libs N)"
    and "select_due_watch (claim_request app now) db = Some w" "160 < length (run_id_of app w)"
  shows "run_due_watch_once N app now done_at db =
      (Err (App_Store (Store_Validation ''run_id must be a bounded ASCII token'')), leased_db w (app_owner app) (now + 60) db) \<and>
    db_runs (leased_db w (app_owner app) (now + 60) db) = db_runs db \<and>
    map w_next_due (db_watches (leased_db w (app_owner app) (now + 60) db)) = map w_next_due (db_watches db)"
proof -
  have "validate_storage_id (run_id_of app w) ''run_id'' = Err (Store_Validation ''run_id must be a bounded ASCII token'')"
    using assms(8) by (simp add: validate_storage_id_def validate_bounded_token_def)
  then have "run_due_watch_once N app now done_at db =
      (Err (App_Store (Store_Validation ''run_id must be a bounded ASCII token'')), leased_db w (app_owner app) (now + 60) db)"
    using sqlite_due.tick_refused [OF assms(1-4) _ assms(7)] d1_due.tick_refused [OF assms(1-4) _ assms(7)] assms(5,6)
    by metis
  then show ?thesis by (auto simp: leased_db_def lease_to_def)
qed

definition example_long_db :: db where
  "example_long_db = example_db\<lparr>db_watches := [example_watch (replicate 150 CHR ''a'') 5 None None], db_runs := [], db_deliveries := []\<rparr>"

theorem overlong_watch_never_runs_witness:
  "validate_storage_id (replicate 150 CHR ''a'') ''watch_id'' = Ok () \<and>
   fst (run_due_watch_once example_tick_net (example_app sqlite_store) 110 120 example_long_db) =
     Err (App_Store (Store_Validation ''run_id must be a bounded ASCII token''))"
proof -
  let ?w = "example_watch (replicate 150 CHR ''a'') 5 None None"
  have r: "claim_request (example_app store) 110 =
      \<lparr>cd_tenant = ''t'', cd_now = 110, cd_owner = ''comsat-native'', cd_lease_seconds = 60\<rparr>" for store
    by (simp add: claim_request_def)
  have "select_due_watch (claim_request (example_app store) 110) example_long_db = Some ?w"
    "db_ok example_long_db" "values_ok example_libs example_long_db" for store unfolding r by code_simp+
  moreover have "160 < length (run_id_of (example_app sqlite_store) ?w)"
    by (simp add: run_id_of_def watch_run_id_def claim_of_def example_watch_def)
  moreover have "validate_storage_id (replicate 150 CHR ''a'') ''watch_id'' = Ok ()" by code_simp
  ultimately show ?thesis
    using overlong_watch_never_runs [of example_long_db example_tick_net "example_app sqlite_store" 110 "sqlite_store example_libs" ?w 120]
      example_app_facts(2,5) by (simp add: clock_ok_def)
qed

end
