(* ===== verification/Commands.thy ===== *)
theory Commands
  imports App
begin

text \<open>
  The command graph of \<open>comsat-app/src/commands\<close>: what each command answers, as the values it hands to
  the Incurs framework (a result, or a stream of chunks ended by an error). The framework decodes the
  JSON options; a command that decodes its own (search, fetch, follow, history) gets the outcome
  of that decoding as an argument. A served stream is the list of its items.
\<close>

record command_failure =
  cf_code :: string
  cf_message :: string
  cf_retryable :: bool
  cf_exit :: nat

datatype stream_record = SR_Chunk json | SR_Error command_failure

datatype command_result = CR_Ok json | CR_Error command_failure | CR_Stream "stream_record list"

datatype 'a typed_result = Typed_Ok 'a | Typed_Ok_Exit 'a nat | Typed_Error string string

section \<open>Errors (\<open>errors.rs\<close>)\<close>

definition retryable :: "error_class \<Rightarrow> bool" where
  "retryable class \<longleftrightarrow> class = RateLimit \<or> class = Timeout"

fun access_error_code :: "error_class \<Rightarrow> string option" where
  "access_error_code Authentication = Some ''authentication''"
| "access_error_code Authorization = Some ''authorization''"
| "access_error_code _ = None"

fun query_error_code :: "error_class \<Rightarrow> string option" where
  "query_error_code InvalidQuery = Some ''invalid_query''"
| "query_error_code NotFound = Some ''not_found''"
| "query_error_code Unsupported = Some ''unsupported''"
| "query_error_code _ = None"

fun upstream_error_code :: "error_class \<Rightarrow> string option" where
  "upstream_error_code RateLimit = Some ''rate_limit''"
| "upstream_error_code Upstream = Some ''upstream''"
| "upstream_error_code Timeout = Some ''timeout''"
| "upstream_error_code Cancelled = Some ''cancelled''"
| "upstream_error_code Protocol = Some ''protocol''"
| "upstream_error_code _ = None"

definition error_code :: "error_class \<Rightarrow> string" where
  "error_code class =
     (case access_error_code class of Some code \<Rightarrow> code
      | None \<Rightarrow> (case query_error_code class of Some code \<Rightarrow> code
      | None \<Rightarrow> (case upstream_error_code class of Some code \<Rightarrow> code
      | None \<Rightarrow> ''internal'')))"

definition failure :: "string \<Rightarrow> string \<Rightarrow> bool \<Rightarrow> nat \<Rightarrow> command_failure" where
  "failure code message retry exit = \<lparr>cf_code = code, cf_message = message, cf_retryable = retry, cf_exit = exit\<rparr>"

definition command_error :: "string \<Rightarrow> string \<Rightarrow> bool \<Rightarrow> nat \<Rightarrow> command_result" where
  "command_error code message retry exit = CR_Error (failure code message retry exit)"

definition stream_error :: "string \<Rightarrow> string \<Rightarrow> bool \<Rightarrow> nat \<Rightarrow> stream_record" where
  "stream_error code message retry exit = SR_Error (failure code message retry exit)"

definition diagnostic_value :: "diagnostic \<Rightarrow> json" where
  "diagnostic_value g = json_object
     [(''source'', JString (sid_str (diag_source g))), (''class'', JString (class_name (diag_class g))),
      (''message'', JString (diag_message g)), (''retry_after_seconds'', json_opt json_nat (diag_retry_after g))]"

definition source_error_value :: "diagnostic \<Rightarrow> json" where
  "source_error_value g = json_object [(''type'', JString ''source_error''), (''diagnostic'', diagnostic_value g)]"

definition source_failures_code :: "diagnostic list \<Rightarrow> bool \<Rightarrow> string" where
  "source_failures_code gs strict =
     (if strict then ''partial_failure''
      else case gs of [g] \<Rightarrow> error_code (diag_class g) | _ \<Rightarrow> ''source_failure'')"

definition source_failures_message :: "libs \<Rightarrow> diagnostic list \<Rightarrow> bool \<Rightarrow> string" where
  "source_failures_message L gs strict =
     (let message = if strict then ''one or more sources failed'' else ''all selected sources failed''
      in json_text L (json_object [(''message'', JString message), (''diagnostics'', JArray (map diagnostic_value gs))]))"

definition source_failures_stream_error :: "libs \<Rightarrow> diagnostic list \<Rightarrow> bool \<Rightarrow> stream_record" where
  "source_failures_stream_error L gs strict =
     stream_error (source_failures_code gs strict) (source_failures_message L gs strict)
       (list_ex (\<lambda>g. retryable (diag_class g)) gs) (if strict then 3 else 1)"

definition record_value :: "libs \<Rightarrow> comsat_record \<Rightarrow> (json, string) result" where
  "record_value L r = and_then (record_validate L r) (\<lambda>_. Ok (record_to_json r))"

definition record_result :: "libs \<Rightarrow> comsat_record \<Rightarrow> command_result" where
  "record_result L r =
     (case record_value L r of Ok data \<Rightarrow> CR_Ok data | Err message \<Rightarrow> command_error ''protocol'' message False 1)"

definition source_error_result :: "source_error \<Rightarrow> command_result" where
  "source_error_result e =
     command_error (error_code (err_class e)) (sid_str (err_source e) @ '': '' @ err_message e) (retryable (err_class e)) 1"

fun engine_error_result :: "engine_error \<Rightarrow> command_result" where
  "engine_error_result (SourceFailure e) = source_error_result e"
| "engine_error_result (SourceNotFound s) = command_error ''not_found'' (''source not found: '' @ sid_str s) False 1"
| "engine_error_result (UnsupportedOperation s op) =
     command_error ''unsupported'' (''source does not support '' @ op @ '': '' @ sid_str s) False 1"
| "engine_error_result (DuplicateSourceId s) = command_error ''invalid_query'' (''duplicate source id: '' @ sid_str s) False 2"
| "engine_error_result (StrictSearchFailed gs) =
     command_error ''partial_failure'' ''one or more sources failed'' (list_ex (\<lambda>g. retryable (diag_class g)) gs) 3"

fun engine_error_code :: "engine_error \<Rightarrow> string" where
  "engine_error_code (SourceFailure e) = error_code (err_class e)"
| "engine_error_code (SourceNotFound s) = ''not_found''"
| "engine_error_code (DuplicateSourceId s) = ''invalid_query''"
| "engine_error_code (UnsupportedOperation s op) = ''unsupported''"
| "engine_error_code (StrictSearchFailed gs) = ''partial_failure''"

fun engine_error_exit_code :: "engine_error \<Rightarrow> nat" where
  "engine_error_exit_code (DuplicateSourceId s) = 2"
| "engine_error_exit_code (StrictSearchFailed gs) = 3"
| "engine_error_exit_code _ = 1"

text \<open>The \<open>Display\<close> texts of \<open>EngineError\<close> and \<open>SourceError\<close>.\<close>

fun engine_error_text :: "engine_error \<Rightarrow> string" where
  "engine_error_text (SourceNotFound s) = ''source not found: '' @ sid_str s"
| "engine_error_text (DuplicateSourceId s) = ''duplicate source id: '' @ sid_str s"
| "engine_error_text (UnsupportedOperation s op) = ''source does not support '' @ op @ '': '' @ sid_str s"
| "engine_error_text (StrictSearchFailed gs) = ''strict search failed''"
| "engine_error_text (SourceFailure e) = sid_str (err_source e) @ '': '' @ err_message e"

fun engine_error_record :: "engine_error \<Rightarrow> stream_record" where
  "engine_error_record (SourceFailure e) =
     stream_error (error_code (err_class e)) (sid_str (err_source e) @ '': '' @ err_message e) (retryable (err_class e)) 1"
| "engine_error_record other =
     stream_error (engine_error_code other) (engine_error_text other) False (engine_error_exit_code other)"

section \<open>Targets (\<open>types.rs\<close>)\<close>

record target_options =
  to_type :: string
  to_source :: "source_id option"
  to_url :: "string option"
  to_id :: "string option"
  to_record :: "comsat_record option"
  to_strict :: bool

definition into_target :: "libs \<Rightarrow> target_options \<Rightarrow> (target, string) result" where
  "into_target L opts =
     and_then
       (if to_type opts = ''record'' then
          and_then (ok_or ''record target requires record'' (to_record opts)) (\<lambda>r. Ok (Target_Record r))
        else if to_type opts = ''url'' then
          and_then (ok_or ''url target requires source'' (to_source opts)) (\<lambda>s.
          and_then (ok_or ''url target requires url'' (to_url opts)) (\<lambda>u. Ok (Target_Url s u)))
        else if to_type opts = ''native'' then
          and_then (ok_or ''native target requires source'' (to_source opts)) (\<lambda>s.
          and_then (ok_or ''native target requires id'' (to_id opts)) (\<lambda>i. Ok (Target_Native s i)))
        else Err (''unsupported target type: '' @ to_type opts))
       (\<lambda>t. and_then (target_validate L t) (\<lambda>_. Ok t))"

text \<open>The derived decoding of the options: \<open>type\<close> has the alias \<open>target_kind\<close>, a field that is absent or
  null is \<open>None\<close>, \<open>strict\<close> defaults to false, other fields are ignored.\<close>

definition option_field :: "(json \<Rightarrow> 'a option) \<Rightarrow> json option \<Rightarrow> 'a option option" where
  "option_field f v = (case v of None \<Rightarrow> Some None | Some JNull \<Rightarrow> Some None | Some j \<Rightarrow> map_option Some (f j))"

definition decode_target_options :: "arguments \<Rightarrow> target_options option" where
  "decode_target_options kvs =
     Option.bind (case (map_of kvs ''type'', map_of kvs ''target_kind'') of
         (Some v, None) \<Rightarrow> as_str v | (None, Some v) \<Rightarrow> as_str v | _ \<Rightarrow> None) (\<lambda>kind.
     Option.bind (option_field (\<lambda>v. Option.bind (as_str v) (\<lambda>s. ok_option (source_id_new s))) (map_of kvs ''source'')) (\<lambda>src.
     Option.bind (option_field as_str (map_of kvs ''url'')) (\<lambda>u.
     Option.bind (option_field as_str (map_of kvs ''id'')) (\<lambda>i.
     Option.bind (option_field record_from_json (map_of kvs ''record'')) (\<lambda>r.
     Option.bind (case map_of kvs ''strict'' of None \<Rightarrow> Some False | Some v \<Rightarrow> as_bool v) (\<lambda>strict.
       Some \<lparr>to_type = kind, to_source = src, to_url = u, to_id = i, to_record = r, to_strict = strict\<rparr>))))))"

section \<open>Search, fetch and follow (\<open>search.rs\<close>)\<close>

record record_stream_state =
  rss_saw_record :: bool
  rss_failed_sources :: "source_id set"
  rss_diagnostics :: "diagnostic list"

definition rss_default :: record_stream_state where
  "rss_default = \<lparr>rss_saw_record = False, rss_failed_sources = {}, rss_diagnostics = []\<rparr>"

fun rss_observe :: "engine_event \<Rightarrow> record_stream_state \<Rightarrow> record_stream_state" where
  "rss_observe (Ev_Record r) st = st\<lparr>rss_saw_record := True\<rparr>"
| "rss_observe (Ev_Failed g) st =
     st\<lparr>rss_failed_sources := insert (diag_source g) (rss_failed_sources st), rss_diagnostics := rss_diagnostics st @ [g]\<rparr>"

definition rss_terminal :: "bool \<Rightarrow> nat \<Rightarrow> record_stream_state \<Rightarrow> bool" where
  "rss_terminal strict expected st \<longleftrightarrow> strict \<or>
     (\<not> rss_saw_record st \<and> 0 < expected \<and> expected \<le> card (rss_failed_sources st))"

text \<open>The item an event becomes; a record that fails its validation ends the stream.\<close>

fun event_item :: "libs \<Rightarrow> engine_event \<Rightarrow> (stream_record, stream_record) result" where
  "event_item L (Ev_Record r) =
     (case record_value L r of Ok v \<Rightarrow> Ok (SR_Chunk v) | Err message \<Rightarrow> Err (stream_error ''protocol'' message False 1))"
| "event_item L (Ev_Failed g) = Ok (SR_Chunk (source_error_value g))"

fun record_stream_from ::
  "libs \<Rightarrow> bool \<Rightarrow> nat \<Rightarrow> record_stream_state \<Rightarrow> engine_event list \<Rightarrow> stream_record list \<times> bool" where
  "record_stream_from L strict expected st [] = ([], False)"
| "record_stream_from L strict expected st (ev # evs) =
     (let st = rss_observe ev st; terminal = rss_terminal strict expected st
      in case event_item L ev of
           Err item \<Rightarrow> ([item], True)
         | Ok item \<Rightarrow>
             if terminal then ([item, source_failures_stream_error L (rss_diagnostics st) strict], True)
             else (case record_stream_from L strict expected st evs of (items, broken) \<Rightarrow> (item # items, broken)))"

definition search_record_stream :: "libs \<Rightarrow> bool \<Rightarrow> nat \<Rightarrow> engine_event list \<Rightarrow> stream_record list" where
  "search_record_stream L strict expected evs = fst (record_stream_from L strict expected rss_default evs)"

definition selected_source_count :: "comsat_app \<Rightarrow> source_id list \<Rightarrow> nat" where
  "selected_source_count app sources =
     (if sources = [] then length (app_sources app) else card (set sources))"

definition nonempty_text :: "string option \<Rightarrow> string option" where
  "nonempty_text t = (case t of Some s \<Rightarrow> if s = [] then None else Some s | None \<Rightarrow> None)"

definition parse_source_ids :: "string list \<Rightarrow> (source_id list, string) result" where
  "parse_source_ids raw = collect_results source_id_new raw"

record search_options =
  so_text :: "string option"
  so_limit :: "nat option"
  so_since :: "string option"
  so_until :: "string option"
  so_sources :: "string list"
  so_strict :: bool

definition search_query :: "string option \<Rightarrow> search_options \<Rightarrow> query" where
  "search_query args_text input =
     \<lparr>q_text = (case nonempty_text args_text of Some t \<Rightarrow> t
        | None \<Rightarrow> (case nonempty_text (so_text input) of Some t \<Rightarrow> t | None \<Rightarrow> [])),
      q_limit = so_limit input, q_since = so_since input, q_until = so_until input\<rparr>"

text \<open>\<open>args\<close> and \<open>options\<close> are the decoded arguments, or the decoder's message.\<close>

definition search_run ::
  "libs \<Rightarrow> comsat_app \<Rightarrow> (string option, string) result \<Rightarrow> (search_options, string) result \<Rightarrow> command_result" where
  "search_run L app args options =
     (case args of
        Err message \<Rightarrow> command_error ''invalid_query'' message False 2
      | Ok text \<Rightarrow>
     (case options of
        Err message \<Rightarrow> command_error ''invalid_query'' message False 2
      | Ok input \<Rightarrow>
     (case parse_source_ids (so_sources input) of
        Err message \<Rightarrow> command_error ''invalid_query'' message False 2
      | Ok sources \<Rightarrow>
          (let expected = selected_source_count app sources; q = search_query text input
           in case query_validate L q of
                Err message \<Rightarrow> command_error ''invalid_query'' message False 2
              | Ok _ \<Rightarrow>
                  (let evs = stream_spec L (app_limits app) (app_sources app)
                         (Plan_Search \<lparr>sr_query = q, sr_sources = sources, sr_strict = so_strict input\<rparr>)
                   in CR_Stream (search_record_stream L (so_strict input) expected evs))))))"

text \<open>The targets of standard input are read only by a local call without options.\<close>

definition native_targets :: "comsat_app \<Rightarrow> bool \<Rightarrow> arguments \<Rightarrow> (target, string) result list option" where
  "native_targets app served options = (if served \<or> options \<noteq> [] then None else app_targets app)"

text \<open>The streams over several targets; the engine's metrics are passed along.\<close>

fun fetch_targets_stream ::
  "libs \<Rightarrow> comsat_app \<Rightarrow> (target, string) result list \<Rightarrow> metrics \<Rightarrow> stream_record list" where
  "fetch_targets_stream L app [] m = []"
| "fetch_targets_stream L app (Err message # ts) m = [stream_error ''invalid_query'' message False 2]"
| "fetch_targets_stream L app (Ok t # ts) m =
     (case fetch L (app_sources app) t (app_limits app) m of
        (Err e, m) \<Rightarrow> [engine_error_record e]
      | (Ok r, m) \<Rightarrow>
          (case record_value L r of
             Err message \<Rightarrow> [stream_error ''protocol'' message False 1]
           | Ok v \<Rightarrow> SR_Chunk v # fetch_targets_stream L app ts m))"

fun follow_targets_stream :: "libs \<Rightarrow> comsat_app \<Rightarrow> (target, string) result list \<Rightarrow> stream_record list" where
  "follow_targets_stream L app [] = []"
| "follow_targets_stream L app (Err message # ts) = [stream_error ''invalid_query'' message False 2]"
| "follow_targets_stream L app (Ok t # ts) =
     (case record_stream_from L False 1 rss_default (stream_spec L (app_limits app) (app_sources app) (Plan_Follow t)) of
        (items, broken) \<Rightarrow> items @ (if broken then [] else follow_targets_stream L app ts))"

definition target_options :: "(json \<Rightarrow> string) \<Rightarrow> arguments \<Rightarrow> (target_options, string) result" where
  "target_options serde_text options = ok_or (serde_text (JObject options)) (decode_target_options options)"

definition fetch_run ::
  "libs \<Rightarrow> (json \<Rightarrow> string) \<Rightarrow> comsat_app \<Rightarrow> bool \<Rightarrow> arguments \<Rightarrow> metrics \<Rightarrow> command_result" where
  "fetch_run L serde_text app served options m =
     (case and_then (target_options serde_text options) (into_target L) of
        Err message \<Rightarrow>
          (case native_targets app served options of
             Some targets \<Rightarrow> CR_Stream (fetch_targets_stream L app targets m)
           | None \<Rightarrow> command_error ''invalid_query'' message False 2)
      | Ok t \<Rightarrow>
          (case fst (fetch L (app_sources app) t (app_limits app) m) of
             Ok r \<Rightarrow> record_result L r
           | Err e \<Rightarrow> engine_error_result e))"

definition follow_run :: "libs \<Rightarrow> (json \<Rightarrow> string) \<Rightarrow> comsat_app \<Rightarrow> bool \<Rightarrow> arguments \<Rightarrow> command_result" where
  "follow_run L serde_text app served options =
     (case target_options serde_text options of
        Err message \<Rightarrow>
          (case native_targets app served options of
             Some targets \<Rightarrow> CR_Stream (follow_targets_stream L app targets)
           | None \<Rightarrow> command_error ''invalid_query'' message False 2)
      | Ok input \<Rightarrow>
          (case into_target L input of
             Err message \<Rightarrow> command_error ''invalid_query'' message False 2
           | Ok t \<Rightarrow> CR_Stream (search_record_stream L (to_strict input) 1
               (stream_spec L (app_limits app) (app_sources app) (Plan_Follow t)))))"

section \<open>Watches (\<open>watch.rs\<close>)\<close>

record watch_add_options =
  wo_watch_id :: "string option"
  wo_query :: string
  wo_interval :: "nat option"
  wo_source :: "string list"
  wo_limit :: "nat option"

definition default_watch_interval_seconds :: nat where "default_watch_interval_seconds = 300"

definition slug_byte :: "char \<Rightarrow> char option" where
  "slug_byte b =
     (if is_ascii_lowercase b \<or> is_ascii_digit b then Some b
      else if is_ascii_uppercase b then Some (to_ascii_lower b)
      else if b = CHR '' '' \<or> b = CHR ''-'' \<or> b = CHR ''_'' then Some (CHR ''-'')
      else None)"

definition query_slug :: "string \<Rightarrow> string" where
  "query_slug q =
     join ''-'' (take 4 (filter (\<lambda>part. part \<noteq> []) (split_on CHR ''-'' (List.map_filter slug_byte q))))"

definition generated_watch_id :: "string \<Rightarrow> int \<Rightarrow> string" where
  "generated_watch_id q now =
     (let slug = query_slug q; slug = (if slug = [] then ''watch'' else slug) in slug @ ''-'' @ int_str now)"

definition saturating_sub :: "int \<Rightarrow> int \<Rightarrow> int" where "saturating_sub a b = clamp64 (a - b)"
definition saturating_mul :: "int \<Rightarrow> int \<Rightarrow> int" where "saturating_mul a b = clamp64 (a * b)"

definition parse_since :: "string \<Rightarrow> int \<Rightarrow> (int, string) result" where
  "parse_since value now =
     (case strip_suffix ''d'' value of
        Some days \<Rightarrow>
          (case parse_i64 days of
             None \<Rightarrow> Err ''since days must be a number like 30d''
           | Some days \<Rightarrow>
               if days < 0 then Err ''since days must be nonnegative''
               else Ok (saturating_sub now (saturating_mul days 86400)))
      | None \<Rightarrow> ok_or ''since must be an epoch second or a duration like 30d'' (parse_i64 value))"

definition watch_add_request :: "comsat_app \<Rightarrow> watch_add_options \<Rightarrow> source_id list \<Rightarrow> int \<Rightarrow> create_watch" where
  "watch_add_request app opts sources now =
     \<lparr>cw_tenant = app_tenant app,
      cw_watch = (case wo_watch_id opts of Some i \<Rightarrow> i | None \<Rightarrow> generated_watch_id (wo_query opts) now),
      cw_query = \<lparr>q_text = wo_query opts, q_limit = wo_limit opts, q_since = None, q_until = None\<rparr>,
      cw_sources = sources,
      cw_interval = (case wo_interval opts of Some n \<Rightarrow> n | None \<Rightarrow> default_watch_interval_seconds),
      cw_cursor = json_object [], cw_enabled = True, cw_created = now, cw_first_due = None\<rparr>"

definition watch_add :: "comsat_app \<Rightarrow> watch_add_options \<Rightarrow> int \<Rightarrow> db \<Rightarrow> (watch, app_error) result \<times> db" where
  "watch_add app opts now db =
     (case map_err (\<lambda>e. App_Store (Store_Validation e)) (parse_source_ids (wo_source opts)) of
        Err e \<Rightarrow> (Err e, db)
      | Ok sources \<Rightarrow>
     (case the_store app of
        Err e \<Rightarrow> (Err e, db)
      | Ok store \<Rightarrow>
          (case st_create_watch store (watch_add_request app opts sources now) db of
             (r, db) \<Rightarrow> (map_err App_Store r, db))))"

section \<open>The other commands (\<open>mod.rs\<close>)\<close>

definition typed_store_error :: "store_error \<Rightarrow> 'a typed_result" where
  "typed_store_error e = Typed_Error ''operational'' (store_error_text e)"

fun typed_app_error :: "app_error \<Rightarrow> 'a typed_result" where
  "typed_app_error Store_Unavailable = Typed_Error ''operational'' (app_error_text Store_Unavailable)"
| "typed_app_error (App_Store e) = typed_store_error e"

definition watch_add_command :: "comsat_app \<Rightarrow> watch_add_options \<Rightarrow> int \<Rightarrow> db \<Rightarrow> watch typed_result \<times> db" where
  "watch_add_command app opts now db =
     (case watch_add app opts now db of (Ok w, db) \<Rightarrow> (Typed_Ok w, db) | (Err e, db) \<Rightarrow> (typed_app_error e, db))"

definition watch_list_command :: "comsat_app \<Rightarrow> db \<Rightarrow> watch list typed_result" where
  "watch_list_command app db =
     (case the_store app of
        Err e \<Rightarrow> typed_app_error e
      | Ok store \<Rightarrow>
          (case st_list_watches store (app_tenant app) db of
             Ok ws \<Rightarrow> Typed_Ok ws | Err e \<Rightarrow> typed_store_error e))"

definition watch_delete_command :: "comsat_app \<Rightarrow> string \<Rightarrow> db \<Rightarrow> bool typed_result \<times> db" where
  "watch_delete_command app watch_id db =
     (case the_store app of
        Err e \<Rightarrow> (typed_app_error e, db)
      | Ok store \<Rightarrow>
          (case st_delete_watch store \<lparr>dw_tenant = app_tenant app, dw_watch = watch_id\<rparr> db of
             (Ok deleted, db) \<Rightarrow> (Typed_Ok deleted, db)
           | (Err e, db) \<Rightarrow> (typed_store_error e, db)))"

record history_options =
  ho_watch :: "string option"
  ho_since :: "string option"
  ho_limit :: "nat option"

definition parse_history_since :: "string option \<Rightarrow> int \<Rightarrow> (int option, command_failure) result" where
  "parse_history_since value now =
     (case value of
        None \<Rightarrow> Ok None
      | Some v \<Rightarrow> and_then (map_err (\<lambda>m. failure ''invalid_query'' m False 2) (parse_since v now)) (\<lambda>t. Ok (Some t)))"

definition history_records ::
  "comsat_app \<Rightarrow> history_options \<Rightarrow> int \<Rightarrow> db \<Rightarrow> (record_observation list, command_failure) result" where
  "history_records app opts now db =
     and_then (parse_history_since (ho_since opts) now) (\<lambda>since.
     and_then (map_err (\<lambda>e. failure ''operational'' (app_error_text e) False 1) (the_store app)) (\<lambda>store.
       map_err (\<lambda>e. failure ''operational'' (store_error_text e) False 1)
         (st_history store \<lparr>hr_tenant = app_tenant app, hr_watch = ho_watch opts, hr_since = since,
            hr_limit = (case ho_limit opts of Some n \<Rightarrow> n | None \<Rightarrow> 100)\<rparr> db)))"

definition history_run ::
  "comsat_app \<Rightarrow> (history_options, string) result \<Rightarrow> int \<Rightarrow> db \<Rightarrow> command_result" where
  "history_run app options now db =
     (case options of
        Err message \<Rightarrow> CR_Error (failure ''invalid_query'' message False 2)
      | Ok opts \<Rightarrow>
          (case history_records app opts now db of
             Err f \<Rightarrow> CR_Error f
           | Ok obs \<Rightarrow> CR_Stream (map (\<lambda>ob. SR_Chunk (record_to_json (ob_record ob))) obs)))"

record source_summary =
  ss_id :: string
  ss_display_name :: string
  ss_search :: bool
  ss_fetch :: bool
  ss_follow :: bool

definition source_summary :: "catalog_source \<Rightarrow> source_summary" where
  "source_summary source =
     (let d = cs_descriptor source
      in \<lparr>ss_id = sid_str (desc_id d), ss_display_name = desc_display_name d, ss_search = can_search (desc_profile d),
          ss_fetch = can_fetch (desc_profile d), ss_follow = can_follow (desc_profile d)\<rparr>)"

definition source_list_command :: "comsat_app \<Rightarrow> source_summary list typed_result" where
  "source_list_command app = Typed_Ok (map source_summary (app_sources app))"

text \<open>The output of \<open>inspect\<close>: the summary and the tools of search, fetch and follow.\<close>

definition source_inspect_command ::
  "comsat_app \<Rightarrow> string \<Rightarrow> (source_summary \<times> string option \<times> string option \<times> string option) typed_result" where
  "source_inspect_command app i =
     (case source_id_new i of
        Err _ \<Rightarrow> Typed_Error ''invalid_query'' ''invalid source id''
      | Ok s \<Rightarrow>
          (case catalog_source_find (app_sources app) s of
             None \<Rightarrow> Typed_Error ''not_found'' ''source was not found''
           | Some source \<Rightarrow>
               (let tool = tool_name (cs_descriptor source)
                in Typed_Ok (source_summary source, tool Op_Search, tool Op_Fetch, tool Op_Follow))))"

text \<open>What the tool catalog of Incurs registers for a source, and the outcome of the contract check.\<close>

record source_tools =
  tool_definitions :: "catalog_source \<Rightarrow> string list"
  contract_error :: "catalog_source \<Rightarrow> string option"

definition source_health :: "source_tools \<Rightarrow> catalog_source \<Rightarrow> string \<times> bool \<times> string" where
  "source_health T source =
     (sid_str (cs_id source),
      list_ex (\<lambda>name. tool_name (cs_descriptor source) Op_Search = Some name) (tool_definitions T source),
      ''source graph is registered'')"

definition source_doctor_command :: "source_tools \<Rightarrow> comsat_app \<Rightarrow> ((string \<times> bool \<times> string) list \<times> bool) typed_result" where
  "source_doctor_command T app =
     Typed_Ok (map (source_health T) (app_sources app), app_store app \<noteq> None)"

definition source_registration_failures :: "source_tools \<Rightarrow> comsat_app \<Rightarrow> string list" where
  "source_registration_failures T app =
     concat (map (\<lambda>source.
       concat (map (\<lambda>op. case tool_name (cs_descriptor source) op of
           None \<Rightarrow> []
         | Some tool \<Rightarrow> if tool \<in> set (tool_definitions T source) then []
             else [sid_str (cs_id source) @ '' missing '' @ tool]) [Op_Search, Op_Fetch, Op_Follow]) @
       (case contract_error T source of None \<Rightarrow> [] | Some e \<Rightarrow> [sid_str (cs_id source) @ '': '' @ e]))
     (app_sources app))"

definition source_test_command :: "source_tools \<Rightarrow> comsat_app \<Rightarrow> (nat \<times> string list) typed_result" where
  "source_test_command T app =
     (let errors = source_registration_failures T app; checked = length (app_sources app)
      in if errors = [] then Typed_Ok (checked, errors) else Typed_Ok_Exit (checked, errors) 1)"

end
