(* ===== verification/Commands_Laws.thy ===== *)
theory Commands_Laws
  imports Commands App_Laws
begin

text \<open>
  What the commands promise: a search shows every event of the engine's stream, a generated watch id
  is a valid one, a duration never leaves the range of the clock, and the error codes and target
  arguments are those the engine reads back.
\<close>

section \<open>The events of one source\<close>

fun event_source :: "worker_event \<Rightarrow> source_id" where
  "event_source (W_Record s r) = s"
| "event_source (W_Failed g) = diag_source g"

text \<open>The script of a source: its records, then at most one failure of it.\<close>

lemma script_shape:
  assumes "limits_ok lim"
  shows "\<exists>rs ds. script L lim p = map (W_Record (cs_id (ps_source p))) rs @ map W_Failed ds \<and>
    (ds = [] \<or> (\<exists>g. ds = [g] \<and> diag_source g = cs_id (ps_source p)))"
proof (cases "tool_name (cs_descriptor (ps_source p)) (ps_operation p)")
  case None
  then have "script L lim p = map (W_Record (cs_id (ps_source p))) [] @ map W_Failed []"
    by (simp add: script_def run_source_operation_def Let_def)
  then show ?thesis by blast
next
  case (Some tool)
  with run_shape [OF assms, of p L] obtain rs out ds where
    "run_source_operation L lim p = run_steps (cs_id (ps_source p)) (ps_operation p) rs out ds"
    "outcome_reported (cs_id (ps_source p)) out ds" by auto
  then show ?thesis by (auto simp: script_def sends_run_steps outcome_reported_def)
qed

lemma script_source:
  assumes "limits_ok lim" "e \<in> set (script L lim p)"
  shows "event_source e = cs_id (ps_source p)"
proof -
  obtain rs ds where "script L lim p = map (W_Record (cs_id (ps_source p))) rs @ map W_Failed ds"
      "ds = [] \<or> (\<exists>g. ds = [g] \<and> diag_source g = cs_id (ps_source p))"
    using script_shape [OF assms(1)] by blast
  with assms(2) show ?thesis by auto
qed

lemma failure_ends_script:
  assumes "limits_ok lim" "script L lim p = xs @ W_Failed g # ys"
  shows "ys = []"
proof -
  obtain rs ds where "script L lim p = map (W_Record (cs_id (ps_source p))) rs @ map W_Failed ds" "length ds \<le> 1"
    using script_shape [OF assms(1), of L p] by (metis One_nat_def length_Cons list.size(3) order.refl zero_le)
  with assms(2) show ?thesis
    by (cases ds) (auto simp: append_eq_append_conv2 append_eq_Cons_conv Cons_eq_append_conv map_eq_append_conv map_eq_Cons_conv)
qed

lemma scripts_of_source:
  assumes "limits_ok lim" "distinct (map (\<lambda>p. cs_id (ps_source p)) ps)" "p \<in> set ps"
  shows "filter (\<lambda>e. event_source e = cs_id (ps_source p)) (concat (map (script L lim) ps)) = script L lim p"
  using assms(2,3)
proof (induction ps)
  case Nil
  then show ?case by simp
next
  case (Cons q ps)
  let ?P = "\<lambda>e. event_source e = cs_id (ps_source p)"
  show ?case
  proof (cases "p = q")
    case True
    have "filter ?P (script L lim q) = script L lim q" using script_source [OF assms(1)] True by (auto simp: filter_id_conv)
    moreover have "filter ?P (concat (map (script L lim) ps)) = []"
      using Cons.prems(1) True script_source [OF assms(1)] by (fastforce simp: filter_empty_conv image_iff)
    ultimately show ?thesis using True by simp
  next
    case False
    then have p: "p \<in> set ps" using Cons.prems(2) by simp
    then have "cs_id (ps_source q) \<noteq> cs_id (ps_source p)" using Cons.prems(1) by (auto simp: image_iff)
    then have "filter ?P (script L lim q) = []" using script_source [OF assms(1)] by (auto simp: filter_empty_conv)
    with Cons.IH Cons.prems(1) p show ?thesis by simp
  qed
qed

text \<open>The merge keeps the events of each source as they are, so nothing of a source follows its failure.\<close>

lemma merged_of_source:
  assumes "limits_ok lim" "distinct (map (\<lambda>p. cs_id (ps_source p)) ps)" "p \<in> set ps"
  shows "filter (\<lambda>e. event_source e = cs_id (ps_source p)) (merged (max 1 n) (map (script L lim) ps)) = script L lim p"
proof -
  let ?P = "\<lambda>e. event_source e = cs_id (ps_source p)" and ?m = "merged (max 1 n) (map (script L lim) ps)"
  have "mset (filter ?P ?m) = mset (filter ?P (concat (map (script L lim) ps)))"
    using merged_mset [of "max 1 n" "map (script L lim) ps"] by simp
  then have len: "length (filter ?P ?m) = length (script L lim p)"
    using scripts_of_source [OF assms] by (metis size_mset)
  have "subseq (script L lim p) ?m" using assms(3) by (intro merged_order) auto
  then have "subseq (filter ?P (script L lim p)) (filter ?P ?m)" by (rule subseq_filter)
  moreover have "filter ?P (script L lim p) = script L lim p" using script_source [OF assms(1)] by (auto simp: filter_id_conv)
  ultimately show ?thesis using len by (metis subseq_same_length)
qed

lemma nothing_after_failure:
  assumes "limits_ok lim" "distinct (map (\<lambda>p. cs_id (ps_source p)) ps)"
    and "merged (max 1 n) (map (script L lim) ps) = xs @ W_Failed g # ys" "e \<in> set ys"
  shows "event_source e \<noteq> diag_source g"
proof
  assume same: "event_source e = diag_source g"
  have "set (merged (max 1 n) (map (script L lim) ps)) = set (concat (map (script L lim) ps))"
    by (simp add: merged_set)
  then have "W_Failed g \<in> set (concat (map (script L lim) ps))" unfolding assms(3) by auto
  then obtain p where p: "p \<in> set ps" "W_Failed g \<in> set (script L lim p)" by auto
  from script_source [OF assms(1) p(2)] have s: "diag_source g = cs_id (ps_source p)" by simp
  have "script L lim p = filter (\<lambda>e. event_source e = cs_id (ps_source p)) xs @
      W_Failed g # filter (\<lambda>e. event_source e = cs_id (ps_source p)) ys"
    using merged_of_source [OF assms(1,2) p(1), of n L] assms(3) s by simp
  from failure_ends_script [OF assms(1) this] assms(4) same s show False by (auto simp: filter_empty_conv)
qed

section \<open>A search shows every event\<close>

lemma delivered_split:
  "delivered False seen es = pre @ post \<Longrightarrow>
   \<exists>xs ys seen'. es = xs @ ys \<and> delivered False seen xs = pre \<and> delivered False seen' ys = post"
proof (induction es arbitrary: seen pre)
  case Nil
  then show ?case by simp
next
  case (Cons e es)
  show ?case
  proof (cases "pre = []")
    case True
    with Cons.prems show ?thesis by (intro exI [of _ "[]"] exI [of _ "e # es"] exI [of _ seen]) simp
  next
    case False
    then obtain v pre' where pre: "pre = v # pre'" by (cases pre) auto
    show ?thesis
    proof (cases e)
      case (W_Record s r)
      obtain new seen2 where i: "dedupe_insert seen r = (new, seen2)" by (cases "dedupe_insert seen r")
      show ?thesis
      proof (cases new)
        case True
        with Cons.prems W_Record i pre have v: "v = Ev_Record r" "delivered False seen2 es = pre' @ post" by auto
        from Cons.IH [OF v(2)] obtain xs ys seen' where
          "es = xs @ ys" "delivered False seen2 xs = pre'" "delivered False seen' ys = post" by blast
        with W_Record i True pre v(1) show ?thesis
          by (intro exI [of _ "e # xs"] exI [of _ ys] exI [of _ seen']) simp
      next
        case False
        with Cons.prems W_Record i have "delivered False seen2 es = pre @ post" by simp
        from Cons.IH [OF this] obtain xs ys seen' where
          "es = xs @ ys" "delivered False seen2 xs = pre" "delivered False seen' ys = post" by blast
        with W_Record i False show ?thesis
          by (intro exI [of _ "e # xs"] exI [of _ ys] exI [of _ seen']) simp
      qed
    next
      case (W_Failed g)
      with Cons.prems pre have v: "v = Ev_Failed g" "delivered False seen es = pre' @ post" by auto
      from Cons.IH [OF v(2)] obtain xs ys seen' where
        "es = xs @ ys" "delivered False seen xs = pre'" "delivered False seen' ys = post" by blast
      with W_Failed pre v(1) show ?thesis
        by (intro exI [of _ "e # xs"] exI [of _ ys] exI [of _ seen']) simp
    qed
  qed
qed

lemma script_failures_set: "g \<in> set (script_failures es) \<longleftrightarrow> W_Failed g \<in> set es"
  by (induction es rule: script_failures.induct) auto

text \<open>The sources a search may report on: the selected ones, or all of the catalog.\<close>

definition reporting :: "catalog_source list \<Rightarrow> source_id list \<Rightarrow> source_id set" where
  "reporting sources sel = (if sel = [] then cs_id ` set sources else set sel)"

lemma selected_source_count_card:
  "distinct (map cs_id (app_sources app)) \<Longrightarrow>
   selected_source_count app sel = card (reporting (app_sources app) sel)"
  using distinct_card [of "map cs_id (app_sources app)"] by (simp add: selected_source_count_def reporting_def)

lemma stream_failures_cover:
  assumes u: "validate_unique_sources sources = Ok ()" and lim: "limits_ok lim" and "\<not> sr_strict req"
    and evs: "stream_spec L lim sources (Plan_Search req) = pre @ post"
    and all: "diag_source ` set (event_failures pre) = reporting sources (sr_sources req)"
  shows "post = []"
proof (rule ccontr)
  assume post: "post \<noteq> []"
  obtain pending ds where plan: "plan_search sources req = (pending, ds, False)"
    using plan_search_strict [of sources req] assms(3) by auto
  note facts = plan_search_facts [OF u plan]
  define R where "R = reporting sources (sr_sources req)"
  let ?m = "merged (max 1 (max_active_sources lim)) (map (script L lim) pending)"
  have spec: "stream_spec L lim sources (Plan_Search req) = map Ev_Failed ds @ delivered False {} ?m"
    using plan by (simp add: stream_spec_def)
  have dist: "distinct (map (\<lambda>p. cs_id (ps_source p)) pending)" "distinct (map diag_source ds)"
    using facts by (simp_all add: strict_sorted_iff)
  have pend: "cs_id (ps_source p) \<in> R \<and> cs_id (ps_source p) \<in> cs_id ` set sources" if "p \<in> set pending" for p
    using facts that by (auto simp: R_def reporting_def)
  have miss: "diag_source d \<in> R \<and> diag_source d \<notin> cs_id ` set sources" if "d \<in> set ds" for d
    using facts that by (auto simp: R_def reporting_def source_not_found_def)
  have src: "event_source e \<in> cs_id ` ps_source ` set pending" if "e \<in> set ?m" for e
    using that script_source [OF lim] by (fastforce simp: merged_set)
  obtain us where us: "map Ev_Failed ds = pre @ us \<and> us @ delivered False {} ?m = post \<or>
      map Ev_Failed ds @ us = pre \<and> delivered False {} ?m = us @ post"
    using evs unfolding spec append_eq_append_conv2 by metis
  then show False
  proof
    assume a: "map Ev_Failed ds = pre @ us \<and> us @ delivered False {} ?m = post"
    then obtain d1 d2 where d: "ds = d1 @ d2" "pre = map Ev_Failed d1" "us = map Ev_Failed d2"
      by (auto simp: map_eq_append_conv)
    then have us': "us = map Ev_Failed (event_failures us)" "ds = event_failures pre @ event_failures us" by simp_all
    show False
    proof (cases "event_failures us")
      case Nil
      with us' a post obtain e where "e \<in> set ?m" by (cases ?m) auto
      from src [OF this] obtain p where "p \<in> set pending" by blast
      with pend all R_def obtain d where "d \<in> set ds" "diag_source d \<in> cs_id ` set sources"
        using us'(2) by (metis Nil append_Nil2 imageE)
      with miss show False by blast
    next
      case (Cons d gs)
      with us'(2) have "d \<in> set ds" by auto
      with miss all R_def have "diag_source d \<in> diag_source ` set (event_failures pre)" by blast
      with us'(2) Cons dist(2) show False by auto
    qed
  next
    assume b: "map Ev_Failed ds @ us = pre \<and> delivered False {} ?m = us @ post"
    then obtain xs ys seen' where m: "?m = xs @ ys" "delivered False {} xs = us" "delivered False seen' ys = post"
      using delivered_split by blast
    with post obtain e where e: "e \<in> set ys" by (cases ys) auto
    then have "event_source e \<in> cs_id ` ps_source ` set pending" using src m(1) by simp
    then have es: "event_source e \<in> R" "event_source e \<in> cs_id ` set sources" using pend by auto
    then obtain g where g: "g \<in> set (event_failures pre)" "diag_source g = event_source e"
      unfolding R_def all [symmetric] by (metis imageE)
    have "event_failures pre = ds @ script_failures xs" using b m(2) delivered_failures by (metis event_append(2) event_failed(2))
    moreover have "g \<notin> set ds" using miss [of g] g(2) es(2) by auto
    ultimately have "W_Failed g \<in> set xs" using g(1) by (simp add: script_failures_set)
    then obtain as bs where "xs = as @ W_Failed g # bs" by (meson split_list)
    with m(1) have split: "?m = as @ W_Failed g # (bs @ ys)" by simp
    from nothing_after_failure [OF lim dist(1) split] e g(2) show False by auto
  qed
qed

section \<open>The items of a stream\<close>

definition shown :: "engine_event \<Rightarrow> stream_record" where
  "shown ev = SR_Chunk (case ev of Ev_Record r \<Rightarrow> record_to_json r | Ev_Failed g \<Rightarrow> source_error_value g)"

definition event_valid :: "libs \<Rightarrow> engine_event \<Rightarrow> bool" where
  "event_valid L ev \<longleftrightarrow> (case ev of Ev_Record r \<Rightarrow> record_valid L r | Ev_Failed g \<Rightarrow> True)"

lemma event_item_valid: "event_valid L ev \<Longrightarrow> event_item L ev = Ok (shown ev)"
  by (cases ev) (auto simp: event_valid_def shown_def record_value_def record_valid_def is_ok_iff)

lemma rss_fold:
  "rss_saw_record (fold rss_observe evs st) = (rss_saw_record st \<or> event_records evs \<noteq> []) \<and>
   rss_failed_sources (fold rss_observe evs st) = rss_failed_sources st \<union> diag_source ` set (event_failures evs) \<and>
   rss_diagnostics (fold rss_observe evs st) = rss_diagnostics st @ event_failures evs"
proof (induction evs arbitrary: st)
  case Nil
  then show ?case by simp
next
  case (Cons ev evs)
  show ?case using Cons [of "rss_observe ev st"] by (cases ev) auto
qed

definition over :: "bool \<Rightarrow> nat \<Rightarrow> record_stream_state \<Rightarrow> engine_event list \<Rightarrow> bool" where
  "over strict expected st evs \<longleftrightarrow> evs \<noteq> [] \<and> rss_terminal strict expected (fold rss_observe evs st)"

lemma record_stream_uncut:
  assumes "list_all (event_valid L) evs"
    and "\<And>pre post. evs = pre @ post \<Longrightarrow> over strict expected st pre \<Longrightarrow> post = []"
  shows "record_stream_from L strict expected st evs =
    (map shown evs @ (if over strict expected st evs
       then [source_failures_stream_error L (rss_diagnostics (fold rss_observe evs st)) strict] else []),
     over strict expected st evs)"
  using assms
proof (induction evs arbitrary: st)
  case Nil
  then show ?case by (simp add: over_def)
next
  case (Cons ev evs)
  let ?st = "rss_observe ev st"
  have item: "event_item L ev = Ok (shown ev)" using Cons.prems(1) by (simp add: event_item_valid)
  show ?case
  proof (cases "rss_terminal strict expected ?st")
    case True
    then have "evs = []" using Cons.prems(2) [of "[ev]" evs] by (simp add: over_def)
    with True item show ?thesis by (simp add: over_def Let_def)
  next
    case False
    have "post = []" if "evs = pre @ post" "over strict expected ?st pre" for pre post
      using Cons.prems(2) [of "ev # pre" post] that by (simp add: over_def)
    from Cons.IH [OF _ this] Cons.prems(1) have "record_stream_from L strict expected ?st evs =
      (map shown evs @ (if over strict expected ?st evs
         then [source_failures_stream_error L (rss_diagnostics (fold rss_observe evs ?st)) strict] else []),
       over strict expected ?st evs)" by simp
    moreover have "over strict expected ?st evs = over strict expected st (ev # evs)"
      using False by (auto simp: over_def)
    ultimately show ?thesis using False item by (simp add: Let_def)
  qed
qed

lemma search_events_valid:
  fixes app :: comsat_app
  assumes "limits_ok (app_limits app)" "\<not> sr_strict req"
  shows "list_all (event_valid L) (stream_spec L (app_limits app) (app_sources app) (Plan_Search req))"
proof -
  have "r \<in> set (event_records evs)" if "Ev_Record r \<in> set evs" for r evs
    using that by (induction evs rule: event_records.induct) auto
  with search_records_valid [OF assms, of L] show ?thesis
    by (auto simp: list_all_iff event_valid_def collect_search_eq split: engine_event.split)
qed

lemma report_sources:
  assumes u: "validate_unique_sources sources = Ok ()" and "\<not> sr_strict req" and lim: "limits_ok lim"
  shows "diag_source ` set (event_failures (stream_spec L lim sources (Plan_Search req))) \<subseteq> reporting sources (sr_sources req)"
proof -
  obtain pending ds where plan: "plan_search sources req = (pending, ds, False)"
    using plan_search_strict [of sources req] assms(2) by auto
  note facts = plan_search_facts [OF u plan]
  let ?m = "merged (max 1 (max_active_sources lim)) (map (script L lim) pending)"
  have "diag_source g \<in> reporting sources (sr_sources req)" if g: "W_Failed g \<in> set ?m" for g
  proof -
    obtain p where p: "p \<in> set pending" "W_Failed g \<in> set (script L lim p)" using g by (auto simp: merged_set)
    have "ps_source p \<in> ps_source ` set pending" using p(1) by (rule imageI)
    then show ?thesis using script_source [OF lim p(2)] facts by (auto simp: reporting_def)
  qed
  moreover have "diag_source d \<in> reporting sources (sr_sources req)" if "d \<in> set ds" for d
    using facts that by (auto simp: reporting_def source_not_found_def)
  ultimately show ?thesis
    using plan by (auto simp: stream_spec_def delivered_failures script_failures_set)
qed

lemma search_stream_exact:
  fixes app :: comsat_app and req :: search_request
  assumes u: "validate_unique_sources (app_sources app) = Ok ()" and lim: "limits_ok (app_limits app)"
    and nonstrict: "\<not> sr_strict req"
    and evs: "evs = stream_spec L (app_limits app) (app_sources app) (Plan_Search req)"
    and expected: "expected = selected_source_count app (sr_sources req)"
  shows "search_record_stream L False expected evs = map shown evs @
    (if event_records evs = [] \<and> evs \<noteq> [] \<and>
        diag_source ` set (event_failures evs) = reporting (app_sources app) (sr_sources req)
     then [source_failures_stream_error L (event_failures evs) False] else [])"
proof -
  let ?R = "reporting (app_sources app) (sr_sources req)"
  have dist: "distinct (map cs_id (app_sources app))" using u by (simp add: validate_unique_sources_ok)
  have fin: "finite ?R" by (simp add: reporting_def)
  have card: "expected = card ?R" using expected selected_source_count_card [OF dist] by simp
  have sub: "diag_source ` set (event_failures pre) \<subseteq> ?R" if "evs = pre @ post" for pre post
    using report_sources [OF u nonstrict lim, of L] that evs by (metis Un_subset_iff event_append(2) image_Un set_append)
  have ends: "over False expected rss_default pre \<longleftrightarrow> event_records pre = [] \<and> pre \<noteq> [] \<and>
      diag_source ` set (event_failures pre) = ?R" if s: "evs = pre @ post" for pre post
  proof -
    have "card ?R \<le> card (diag_source ` set (event_failures pre)) \<longleftrightarrow> diag_source ` set (event_failures pre) = ?R"
      using sub [OF s] fin by (metis card_seteq order_refl)
    moreover have "0 < card ?R" if e: "event_records pre = []" "pre \<noteq> []"
    proof -
      obtain g where "g \<in> set (event_failures pre)" using e by (cases pre rule: event_records.cases) auto
      with sub [OF s] fin show ?thesis by (auto simp: card_gt_0_iff)
    qed
    ultimately show ?thesis
      unfolding over_def rss_terminal_def card using rss_fold [of pre rss_default] by (auto simp: rss_default_def)
  qed
  have "post = []" if "evs = pre @ post" "over False expected rss_default pre" for pre post
    using stream_failures_cover [OF u lim nonstrict] ends [OF that(1)] that evs by metis
  from record_stream_uncut [OF _ this] search_events_valid [OF lim nonstrict, of L] evs
  have "search_record_stream L False expected evs = map shown evs @ (if over False expected rss_default evs
      then [source_failures_stream_error L (rss_diagnostics (fold rss_observe evs rss_default)) False] else [])"
    by (simp add: search_record_stream_def)
  with ends [of evs "[]"] rss_fold [of evs rss_default] show ?thesis by (simp add: rss_default_def)
qed

text \<open>C16: A search that is not strict shows every event of the engine's stream, each record and each failure
  in order, and is never cut short: it ends with an error exactly when every selected source failed
  and none gave a record, and that error carries all the diagnostics.\<close>

theorem search_shows_every_event:
  fixes app :: comsat_app and req :: search_request
  assumes "validate_unique_sources (app_sources app) = Ok ()" "limits_ok (app_limits app)" "\<not> sr_strict req"
  shows "let evs = stream_spec L (app_limits app) (app_sources app) (Plan_Search req) in
    search_record_stream L False (selected_source_count app (sr_sources req)) evs = map shown evs @
    (if event_records evs = [] \<and> evs \<noteq> [] \<and>
        diag_source ` set (event_failures evs) = reporting (app_sources app) (sr_sources req)
     then [source_failures_stream_error L (event_failures evs) False] else [])"
  using search_stream_exact [OF assms refl refl] by (simp add: Let_def)

definition example_search_app :: comsat_app where
  "example_search_app = app_new [example_tool [Chunk (record_to_json (example_record ''web'' ''a'' ''https://x''))]
     (Tool_Error ''timeout'' ''slow'')] ''t''"

definition lenient_request :: search_request where
  "lenient_request = example_request\<lparr>sr_sources := [], sr_strict := False\<rparr>"

theorem search_shows_every_event_witness:
  "length (search_record_stream example_libs False 1
     (stream_spec example_libs default_limits (app_sources example_search_app) (Plan_Search lenient_request))) = 2"
proof -
  let ?evs = "stream_spec example_libs default_limits (app_sources example_search_app) (Plan_Search lenient_request)"
  have "validate_unique_sources (app_sources example_search_app) = Ok ()" "limits_ok (app_limits example_search_app)"
    "\<not> sr_strict lenient_request" "app_limits example_search_app = default_limits"
    by (simp_all add: example_search_app_def app_new_def default_limits_def limits_ok_def lenient_request_def
        validate_unique_sources_def)
  moreover have "length ?evs = 2" "event_records ?evs \<noteq> []" by code_simp+
  moreover have "selected_source_count example_search_app (sr_sources lenient_request) = 1" by code_simp
  ultimately show ?thesis
    using search_shows_every_event [of example_search_app lenient_request example_libs] by (simp add: Let_def)
qed

text \<open>A strict search ends with \<open>partial_failure\<close> after its first event, whatever it is: here both sources
  succeed, one record is shown of two and the error lists no diagnostic.\<close>

lemma strict_search_fails_without_failure:
  "let sources = [example_tool [Chunk (record_to_json (example_record ''web'' ''a'' ''https://x'')),
        Chunk (record_to_json (example_record ''web'' ''b'' ''https://y''\<lparr>rec_metadata := json_object []\<rparr>))] (Tool_Ok JNull)];
       evs = stream_spec example_libs default_limits sources (Plan_Search (lenient_request\<lparr>sr_strict := True\<rparr>))
   in event_failures evs = [] \<and> length (event_records evs) = 2 \<and>
      search_record_stream example_libs True 1 evs =
        [SR_Chunk (record_to_json (example_record ''web'' ''a'' ''https://x'')),
         source_failures_stream_error example_libs [] True]"
  by code_simp

section \<open>Codes, ids, durations and targets\<close>

text \<open>The code a command prints for an error class is the class's serialized name, and the engine reads
  that code back, in any ASCII case, as the same class.\<close>

lemma error_codes_roundtrip:
  "error_code c = class_name c \<and> error_class_of_code (error_code c) = c \<and>
   class_of_name (error_code c) = Some c"
proof -
  have "error_code c = class_name c" by (cases c) (simp_all add: error_code_def)
  moreover have "list_all (\<lambda>c. ascii_lowercase (class_name c) = class_name c) all_classes" by code_simp
  then have "ascii_lowercase (class_name c) = class_name c"
    using all_classes_complete [of c] by (simp add: list_all_iff)
  ultimately show ?thesis using error_class_of_code_name by simp
qed

lemma saturating_in_range: "in_i64 (saturating_sub a b)" "in_i64 (saturating_mul a b)"
  by (simp_all add: saturating_sub_def saturating_mul_def)

lemma parse_i64_range: "parse_i64 s = Some n \<Longrightarrow> in_i64 n"
  by (auto simp: parse_i64_def parse_digits_def parse_unsigned_def in_i64_def split: if_splits)

text \<open>A \<open>--since\<close> value never leaves the range of an \<open>i64\<close>: an epoch second is taken as it is, a number
  of days is taken from the present, saturating at the ends of the range, and never lies in the
  future of a clock within range.\<close>

lemma since_in_range:
  assumes "parse_since value now = Ok t" "in_i64 now"
  shows "in_i64 t \<and> (case strip_suffix ''d'' value of
     None \<Rightarrow> parse_i64 value = Some t
   | Some days \<Rightarrow> t \<le> now \<and> (\<exists>n. parse_i64 days = Some n \<and> 0 \<le> n \<and> t = max i64_min (now - min i64_max (n * 86400))))"
proof (cases "strip_suffix ''d'' value")
  case None
  with assms show ?thesis by (auto simp: parse_since_def parse_i64_range)
next
  case (Some days)
  with assms(1) obtain n where n: "parse_i64 days = Some n" "0 \<le> n" "t = saturating_sub now (saturating_mul n 86400)"
    by (auto simp: parse_since_def split: option.splits if_splits)
  have "saturating_mul n 86400 = min i64_max (n * 86400)"
    using n(2) by (simp add: saturating_mul_def clamp64_def i64_min_def i64_max_def)
  moreover have "min i64_max (now - x) = now - x" if "0 \<le> x" for x
    using that assms(2) by (simp add: in_i64_def i64_max_def)
  ultimately have "t = max i64_min (now - min i64_max (n * 86400))" "t \<le> now"
    using n(2,3) assms(2) by (simp_all add: saturating_sub_def clamp64_def in_i64_def i64_min_def i64_max_def)
  with Some n saturating_in_range show ?thesis by auto
qed

lemma length_join: "length (join [c] ws) = sum_list (map length ws) + (length ws - 1)"
  by (induction "[c]" ws rule: join.induct) auto

lemma subseq_length_sum:
  "subseq us ws \<Longrightarrow> sum_list (map length us) \<le> sum_list (map length ws) \<and> length us \<le> length ws"
  by (induction rule: list_emb.induct) auto

lemma length_join_subseq: "subseq us ws \<Longrightarrow> length (join [c] us) \<le> length (join [c] ws)"
  using subseq_length_sum [of us ws] by (simp add: length_join add_mono diff_le_mono)

lemma set_join: "set (join sep ws) \<subseteq> set sep \<union> \<Union> (set ` set ws)"
  by (induction sep ws rule: join.induct) auto

lemma slug_byte_token: "slug_byte b = Some c \<Longrightarrow> token_byte c"
  by (auto simp: slug_byte_def token_byte_def is_ascii_alphanumeric_def is_ascii_lowercase_def is_ascii_uppercase_def
      to_ascii_lower_def split: if_splits)

lemma query_slug_token: "list_all token_byte (query_slug q)"
proof -
  let ?s = "List.map_filter slug_byte q"
  have s: "c \<in> set ?s \<Longrightarrow> token_byte c" for c by (auto simp: set_map_filter_eq slug_byte_token)
  have "token_byte c" if "c \<in> set (query_slug q)" for c
  proof -
    from that set_join [of "''-''" "take 4 (filter (\<lambda>part. part \<noteq> []) (split_on CHR ''-'' ?s))"]
    have "c = CHR ''-'' \<or> (\<exists>w \<in> set (split_on CHR ''-'' ?s). c \<in> set w)"
      unfolding query_slug_def by (auto dest!: in_set_takeD)
    then have "c = CHR ''-'' \<or> c \<in> set ?s" using split_on_parts by blast
    then show ?thesis using s by (auto simp: token_byte_def)
  qed
  then show ?thesis by (simp add: list_all_iff)
qed

lemma query_slug_length: "length (query_slug q) \<le> length q"
proof -
  let ?s = "List.map_filter slug_byte q"
  have "subseq (take 4 (filter (\<lambda>part. part \<noteq> []) (split_on CHR ''-'' ?s))) (split_on CHR ''-'' ?s)"
    by (metis append_take_drop_id list_emb_append2 subseq_append' subseq_filter_left subseq_order.trans subseq_rev_drop_many prefix_imp_subseq take_is_prefix)
  from length_join_subseq [OF this, of "CHR ''-''"] have "length (query_slug q) \<le> length ?s"
    by (simp add: query_slug_def join_split_on)
  also have "\<dots> \<le> length q" by (induction q) (auto simp: List.map_filter_simps split: option.split)
  finally show ?thesis .
qed

lemma nat_str_length: "n < 10 ^ Suc k \<Longrightarrow> length (nat_str n) \<le> Suc k"
proof (induction k arbitrary: n)
  case 0
  then show ?case by (subst nat_str.simps) simp
next
  case (Suc k)
  show ?case
  proof (cases "n < 10")
    case True
    then show ?thesis by (subst nat_str.simps) simp
  next
    case False
    have "n div 10 < 10 ^ Suc k" using Suc.prems by (simp add: less_mult_imp_div_less mult.commute)
    with Suc.IH False show ?thesis by (subst nat_str.simps) simp
  qed
qed

lemma int_str_i64:
  assumes "in_i64 i"
  shows "length (int_str i) \<le> 20 \<and> list_all token_byte (int_str i) \<and> int_str i \<noteq> []"
proof -
  have digits: "list_all token_byte (nat_str n)" for n
    using nat_str_digits [of n] by (auto simp: list_all_iff token_byte_def is_ascii_alphanumeric_def)
  have "nat \<bar>i\<bar> < 10 ^ Suc 18" using assms by (auto simp: in_i64_def nat_less_iff abs_less_iff)
  from nat_str_length [OF this] have "length (nat_str (nat \<bar>i\<bar>)) \<le> 19" by simp
  then show ?thesis using digits by (auto simp: int_str_def token_byte_def)
qed

text \<open>The id generated for a watch without one is a valid storage id whenever the query has at most 139
  bytes, whatever they are: lower-case words, digits and hyphens, and the time.\<close>

lemma generated_watch_id_valid:
  assumes "length q \<le> 139" "in_i64 now"
  shows "validate_storage_id (generated_watch_id q now) ''watch_id'' = Ok ()"
proof -
  let ?slug = "if query_slug q = [] then ''watch'' else query_slug q"
  have id: "generated_watch_id q now = ?slug @ ''-'' @ int_str now" by (simp add: generated_watch_id_def)
  have "list_all token_byte ''watch-''" by code_simp
  then have "list_all token_byte (generated_watch_id q now)"
    unfolding id using query_slug_token [of q] int_str_i64 [OF assms(2)] by simp
  moreover have "length (generated_watch_id q now) \<le> 160"
    unfolding id using query_slug_length [of q] int_str_i64 [OF assms(2)] assms(1) by simp
  ultimately show ?thesis
    unfolding validate_storage_id_def validate_bounded_token_def Let_def by (simp add: id)
qed

text \<open>A longer word is not cut: the watch of a query that \<open>Query::validate\<close> accepts is refused.\<close>

lemma generated_watch_id_too_long:
  "validate_storage_id (generated_watch_id (replicate 150 CHR ''a'') 1700000000) ''watch_id'' \<noteq> Ok () \<and>
   query_validate example_libs \<lparr>q_text = replicate 150 CHR ''a'', q_limit = None, q_since = None, q_until = None\<rparr> = Ok ()"
  by code_simp

lemma map_of_filter_values:
  "distinct (map fst xs) \<Longrightarrow>
   map_of (filter (\<lambda>e. P (snd e)) xs) k = (case map_of xs k of None \<Rightarrow> None | Some v \<Rightarrow> if P v then Some v else None)"
  by (induction xs) (auto simp: map_of_eq_None_iff image_iff split: option.splits)

lemma map_of_object_arguments:
  "map_of (object_arguments (json_object kvs)) k =
     (case map_of (rev kvs) k of None \<Rightarrow> None | Some v \<Rightarrow> if is_null v then None else Some v)"
proof -
  have d: "distinct (map fst (bt_collect kvs))"
    using bt_collect_sorted [of kvs] by (simp add: bt_sorted_def strict_sorted_iff)
  let ?f = "filter (\<lambda>e. \<not> is_null (snd e)) (bt_collect kvs)"
  have df: "distinct (map fst ?f)" using d by (rule distinct_map_filter)
  have "map_of (object_arguments (json_object kvs)) k = map_of ?f k"
    by (simp add: object_arguments_def json_object_def map_of_bt_collect map_of_rev_distinct [OF df])
  also have "\<dots> = (case map_of (rev kvs) k of None \<Rightarrow> None | Some v \<Rightarrow> if is_null v then None else Some v)"
    using map_of_filter_values [OF d, of "\<lambda>v. \<not> is_null v" k] by (auto simp: map_of_bt_collect split: option.splits)
  finally show ?thesis .
qed

lemma record_to_json_object: "record_to_json r \<noteq> JNull" "\<not> is_null (record_to_json r)"
  by (simp_all add: record_to_json_def json_object_def)

lemma option_field_simps [simp]:
  "option_field f None = Some None" "v \<noteq> JNull \<Longrightarrow> option_field f (Some v) = map_option Some (f v)"
  by (simp_all add: option_field_def split: json.split)

definition target_ids_valid :: "target \<Rightarrow> bool" where
  "target_ids_valid t \<longleftrightarrow> (case t of Target_Record r \<Rightarrow> valid_ids r | Target_Url s u \<Rightarrow> valid_source_id s | Target_Native s i \<Rightarrow> valid_source_id s)"

text \<open>The arguments the engine calls a source's tool with for a target, read back as the options of a
  command, give the same target: a COMSAT command graph can serve as a source of another.\<close>

lemma target_arguments_roundtrip:
  assumes "target_validate L t = Ok ()" "target_ids_valid t"
  shows "\<exists>opts. decode_target_options (target_arguments t) = Some opts \<and> into_target L opts = Ok t \<and> \<not> to_strict opts"
proof (cases t)
  case (Target_Record r)
  then have "record_from_json (record_to_json r) = Some r" using assms(2) by (simp add: record_from_to_json target_ids_valid_def)
  then have "decode_target_options (target_arguments t) = Some \<lparr>to_type = ''record'', to_source = None, to_url = None,
      to_id = None, to_record = Some r, to_strict = False\<rparr>"
    using Target_Record record_to_json_object by (simp add: decode_target_options_def map_of_object_arguments)
  then show ?thesis using Target_Record assms(1) by (simp add: into_target_def)
next
  case (Target_Url s u)
  then have "source_id_new (sid_str s) = Ok s" using assms(2) by (simp add: source_id_new_ok target_ids_valid_def)
  then have "decode_target_options (target_arguments t) = Some \<lparr>to_type = ''url'', to_source = Some s, to_url = Some u,
      to_id = None, to_record = None, to_strict = False\<rparr>"
    using Target_Url by (simp add: decode_target_options_def map_of_object_arguments)
  then show ?thesis using Target_Url assms(1) by (simp add: into_target_def)
next
  case (Target_Native s i)
  then have "source_id_new (sid_str s) = Ok s" using assms(2) by (simp add: source_id_new_ok target_ids_valid_def)
  then have "decode_target_options (target_arguments t) = Some \<lparr>to_type = ''native'', to_source = Some s, to_url = None,
      to_id = Some i, to_record = None, to_strict = False\<rparr>"
    using Target_Native by (simp add: decode_target_options_def map_of_object_arguments)
  then show ?thesis using Target_Native assms(1) by (simp add: into_target_def)
qed

end
