(* ===== verification/Source_Command.thy ===== *)
theory Source_Command
  imports Commands_Laws
begin

text \<open>
  A source as a set of tools (\<open>comsat-source/src/command.rs\<close>): the commands that turn a runtime's
  records and errors into what the Incurs framework serves, and the engine at the other end. The
  framework is the function \<open>host\<close> from a command's result to the events and the outcome of a tool
  call. A runtime is what it answers to each call; a stream is the list of its items.
\<close>

type_synonym source_result = "(comsat_record, source_error) result"

record source_runtime =
  rt_search :: "query \<Rightarrow> source_result list"
  rt_fetch :: "target \<Rightarrow> source_result"
  rt_follow :: "target \<Rightarrow> source_result list"

section \<open>Options\<close>

text \<open>The derived decoding of a query and of a tagged target from an object; \<open>u32\<close> for the limit.\<close>

definition u32_field :: "json option \<Rightarrow> nat option option" where
  "u32_field v = (case v of None \<Rightarrow> Some None | Some JNull \<Rightarrow> Some None
     | Some (JInt i) \<Rightarrow> if 0 \<le> i \<and> i < 2 ^ 32 then Some (Some (nat i)) else None | _ \<Rightarrow> None)"

definition query_from_members :: "arguments \<Rightarrow> query option" where
  "query_from_members kvs =
     Option.bind (string_field (map_of kvs ''text'')) (\<lambda>text.
     Option.bind (u32_field (map_of kvs ''limit'')) (\<lambda>limit.
     Option.bind (opt_string_field (map_of kvs ''since'')) (\<lambda>since.
     Option.bind (opt_string_field (map_of kvs ''until'')) (\<lambda>until.
       Some \<lparr>q_text = text, q_limit = limit, q_since = since, q_until = until\<rparr>))))"

definition source_id_field :: "json option \<Rightarrow> source_id option" where
  "source_id_field v = Option.bind (string_field v) (\<lambda>s. ok_option (source_id_new s))"

definition target_from_members :: "arguments \<Rightarrow> target option" where
  "target_from_members kvs =
     Option.bind (string_field (map_of kvs ''type'')) (\<lambda>kind.
       if kind = ''record'' then
         map_option Target_Record (Option.bind (map_of kvs ''record'') record_from_json)
       else if kind = ''url'' then
         Option.bind (source_id_field (map_of kvs ''source'')) (\<lambda>s.
           map_option (Target_Url s) (string_field (map_of kvs ''url'')))
       else if kind = ''native'' then
         Option.bind (source_id_field (map_of kvs ''source'')) (\<lambda>s.
           map_option (Target_Native s) (string_field (map_of kvs ''id'')))
       else None)"

definition query_from_options :: "libs \<Rightarrow> arguments \<Rightarrow> (query, string) result" where
  "query_from_options L kvs =
     and_then (ok_or (decode_text L (JObject kvs)) (query_from_members kvs)) (\<lambda>q.
     and_then (query_validate L q) (\<lambda>_. Ok q))"

definition target_from_options :: "libs \<Rightarrow> arguments \<Rightarrow> (target, string) result" where
  "target_from_options L kvs =
     and_then (ok_or (decode_text L (JObject kvs)) (target_from_members kvs)) (\<lambda>t.
     and_then (target_validate L t) (\<lambda>_. Ok t))"

section \<open>Results\<close>

definition source_failure :: "source_error \<Rightarrow> command_failure" where
  "source_failure e = \<lparr>cf_code = class_name (err_class e), cf_message = err_message e,
     cf_retryable = (err_class e = RateLimit \<or> err_class e = Timeout), cf_exit = 1\<rparr>"

definition serialization_failure :: "string \<Rightarrow> command_failure" where
  "serialization_failure message =
     \<lparr>cf_code = ''serialization'', cf_message = message, cf_retryable = False, cf_exit = 1\<rparr>"

definition validate_and_serialize :: "libs \<Rightarrow> comsat_record \<Rightarrow> (json, string) result" where
  "validate_and_serialize L r = and_then (record_validate L r) (\<lambda>_. Ok (record_to_json r))"

definition source_result_to_record :: "libs \<Rightarrow> source_result \<Rightarrow> stream_record" where
  "source_result_to_record L res =
     (case res of
        Ok r \<Rightarrow> (case validate_and_serialize L r of
            Ok v \<Rightarrow> SR_Chunk v | Err m \<Rightarrow> SR_Error (serialization_failure m))
      | Err e \<Rightarrow> SR_Error (source_failure e))"

definition chunk_result :: "libs \<Rightarrow> comsat_record \<Rightarrow> command_result" where
  "chunk_result L r =
     (case validate_and_serialize L r of Ok v \<Rightarrow> CR_Ok v | Err m \<Rightarrow> CR_Error (serialization_failure m))"

section \<open>Commands\<close>

definition local_error :: "descriptor \<Rightarrow> string \<Rightarrow> source_error" where
  "local_error d message = source_error_new (desc_id d) InvalidQuery message"

definition validate_target_source :: "descriptor \<Rightarrow> target \<Rightarrow> (unit, source_error) result" where
  "validate_target_source d t =
     (if target_source t = desc_id d then Ok ()
      else Err (source_error_new (desc_id d) InvalidQuery ''target source does not match command source''))"

definition source_search :: "libs \<Rightarrow> descriptor \<Rightarrow> source_runtime \<Rightarrow> arguments \<Rightarrow> command_result" where
  "source_search L d rt options =
     (case query_from_options L options of
        Err m \<Rightarrow> CR_Error (source_failure (local_error d m))
      | Ok q \<Rightarrow> CR_Stream (map (source_result_to_record L) (rt_search rt q)))"

definition source_fetch :: "libs \<Rightarrow> descriptor \<Rightarrow> source_runtime \<Rightarrow> arguments \<Rightarrow> command_result" where
  "source_fetch L d rt options =
     (case target_from_options L options of
        Err m \<Rightarrow> CR_Error (source_failure (local_error d m))
      | Ok t \<Rightarrow>
          (case validate_target_source d t of
             Err e \<Rightarrow> CR_Error (source_failure e)
           | Ok _ \<Rightarrow>
               (case rt_fetch rt t of Ok r \<Rightarrow> chunk_result L r | Err e \<Rightarrow> CR_Error (source_failure e))))"

definition source_follow :: "libs \<Rightarrow> descriptor \<Rightarrow> source_runtime \<Rightarrow> arguments \<Rightarrow> command_result" where
  "source_follow L d rt options =
     (case target_from_options L options of
        Err m \<Rightarrow> CR_Error (source_failure (local_error d m))
      | Ok t \<Rightarrow>
          (case validate_target_source d t of
             Err e \<Rightarrow> CR_Error (source_failure e)
           | Ok _ \<Rightarrow> CR_Stream (map (source_result_to_record L) (rt_follow rt t))))"

fun source_command_run ::
  "libs \<Rightarrow> descriptor \<Rightarrow> operation \<Rightarrow> source_runtime \<Rightarrow> arguments \<Rightarrow> command_result" where
  "source_command_run L d Op_Search rt options = source_search L d rt options"
| "source_command_run L d Op_Fetch rt options = source_fetch L d rt options"
| "source_command_run L d Op_Follow rt options = source_follow L d rt options"

type_synonym source_tool = "string \<times> (arguments \<Rightarrow> command_result)"

text \<open>\<open>expect\<close>: a descriptor without search panics, the value \<open>None\<close>.\<close>

definition command_for :: "libs \<Rightarrow> descriptor \<Rightarrow> operation \<Rightarrow> source_runtime \<Rightarrow> source_tool option" where
  "command_for L d op rt = map_option (\<lambda>name. (name, source_command_run L d op rt)) (tool_name d op)"

definition source_commands :: "libs \<Rightarrow> descriptor \<Rightarrow> source_runtime \<Rightarrow> source_tool list option" where
  "source_commands L d rt =
     Option.bind (command_for L d Op_Search rt) (\<lambda>search.
     Option.bind (if supports d Op_Fetch then map_option (\<lambda>c. [c]) (command_for L d Op_Fetch rt) else Some []) (\<lambda>fetches.
     Option.bind (if supports d Op_Follow then map_option (\<lambda>c. [c]) (command_for L d Op_Follow rt) else Some []) (\<lambda>follows.
       Some ([search] @ fetches @ follows))))"

section \<open>The framework\<close>

text \<open>A catalog built from the commands: \<open>host\<close> serves a result, \<open>unknown\<close> answers any other tool.\<close>

definition served_source ::
  "(command_result \<Rightarrow> tool_run) \<Rightarrow> tool_run \<Rightarrow> libs \<Rightarrow> descriptor \<Rightarrow> source_runtime \<Rightarrow> catalog_source" where
  "served_source host unknown L d rt = \<lparr>cs_descriptor = d,
     cs_call = \<lambda>tool args. (case Option.bind (source_commands L d rt) (\<lambda>cmds. map_of cmds tool) of
       Some command \<Rightarrow> host (command args) | None \<Rightarrow> unknown)\<rparr>"

text \<open>What Incurs documents: a stream's chunks are its events and its data, up to the first error, which is
  the outcome; a result is the outcome.\<close>

definition incurs_serves :: "(command_result \<Rightarrow> tool_run) \<Rightarrow> bool" where
  "incurs_serves host \<longleftrightarrow>
     (\<forall>v. host (CR_Ok v) = \<lparr>run_events = [], run_outcome = Tool_Ok v\<rparr>) \<and>
     (\<forall>f. host (CR_Error f) = \<lparr>run_events = [], run_outcome = Tool_Error (cf_code f) (cf_message f)\<rparr>) \<and>
     (\<forall>vs. host (CR_Stream (map SR_Chunk vs)) = \<lparr>run_events = map Chunk vs, run_outcome = Tool_Ok (JArray vs)\<rparr>) \<and>
     (\<forall>vs f rest. host (CR_Stream (map SR_Chunk vs @ SR_Error f # rest)) =
        \<lparr>run_events = map Chunk vs, run_outcome = Tool_Error (cf_code f) (cf_message f)\<rparr>)"

end
