(* ===== verification/Source_Command_Laws.thy ===== *)
theory Source_Command_Laws
  imports Source_Command
begin

text \<open>
  From a source's runtime to the engine's stream: what crosses the tool boundary unchanged and what
  does not. The arguments the engine builds decode to the query or the target they were built
  from, a record survives its JSON, an error keeps its class and its message.
\<close>

section \<open>Arguments\<close>

lemma query_from_arguments:
  assumes "query_validate L q = Ok ()"
  shows "query_from_options L (query_arguments q) = Ok q"
proof -
  have "case q_limit q of None \<Rightarrow> True | Some n \<Rightarrow> int n < 2 ^ 32"
    using assms by (auto simp: query_validate_def split: option.splits if_splits)
  then have "query_from_members (query_arguments q) = Some q"
    by (cases q; cases "q_limit q"; cases "q_since q"; cases "q_until q")
      (simp_all add: query_from_members_def query_arguments_def query_to_json_def map_of_object_arguments
        string_field_def u32_field_def)
  with assms show ?thesis by (simp add: query_from_options_def)
qed

lemma target_from_arguments:
  assumes "target_validate L t = Ok ()" "target_ids_valid t"
  shows "target_from_options L (target_arguments t) = Ok t"
proof -
  have "target_from_members (target_arguments t) = Some t"
  proof (cases t)
    case (Target_Record r)
    then show ?thesis using assms(2) record_to_json_object [of r]
      by (simp add: target_from_members_def map_of_object_arguments string_field_def record_from_to_json target_ids_valid_def)
  next
    case (Target_Url s u)
    then show ?thesis using assms(2)
      by (simp add: target_from_members_def map_of_object_arguments string_field_def source_id_field_def source_id_new_ok
          target_ids_valid_def)
  next
    case (Target_Native s i)
    then show ?thesis using assms(2)
      by (simp add: target_from_members_def map_of_object_arguments string_field_def source_id_field_def source_id_new_ok
          target_ids_valid_def)
  qed
  with assms(1) show ?thesis by (simp add: target_from_options_def)
qed

section \<open>Tools\<close>

lemma served_call:
  assumes "can_search p" "tool_name (descriptor_new i n p) op = Some tool"
  shows "cs_call (served_source host unknown L (descriptor_new i n p) rt) tool args =
    host (source_command_run L (descriptor_new i n p) op rt args)"
  using assms
  by (cases op; cases "can_fetch p"; cases "can_follow p")
    (auto simp: served_source_def source_commands_def command_for_def tool_name_def descriptor_new_def commands_for_source_def Let_def)

section \<open>Answers\<close>

definition answer_failure :: "source_id \<Rightarrow> error_class \<Rightarrow> string \<Rightarrow> diagnostic" where
  "answer_failure s c m = diagnostic_of_error (source_error_new s c m)"

text \<open>The records of a runtime's stream up to the first that is invalid or the first error, and that failure:
  an invalid record is reported as an upstream failure; no failure carries a retry time.\<close>

fun source_answer :: "libs \<Rightarrow> source_id \<Rightarrow> source_result list \<Rightarrow> comsat_record list \<times> diagnostic list" where
  "source_answer L s [] = ([], [])"
| "source_answer L s (Inl e # xs) = ([], [answer_failure s (err_class e) (err_message e)])"
| "source_answer L s (Inr r # xs) =
     (case record_validate L r of
        Err m \<Rightarrow> ([], [answer_failure s Upstream m])
      | Ok _ \<Rightarrow> (case source_answer L s xs of (rs, ds) \<Rightarrow> (r # rs, ds)))"

lemma class_of_class_name: "error_class_of_code (class_name c) = c"
proof -
  have "list_all (\<lambda>c. error_class_of_code (class_name c) = c) all_classes" by code_simp
  then show ?thesis using all_classes_complete by (simp add: list_all_iff)
qed

lemma class_of_serialization: "error_class_of_code ''serialization'' = Upstream"
  by code_simp

lemma source_stream_cases:
  assumes "source_answer L s xs = (rs, ds)"
  obtains "ds = []" "map (source_result_to_record L) xs = map SR_Chunk (map record_to_json rs)"
  | f rest where "ds = [answer_failure s (error_class_of_code (cf_code f)) (cf_message f)]"
      "map (source_result_to_record L) xs = map SR_Chunk (map record_to_json rs) @ SR_Error f # rest"
proof -
  have "ds = [] \<and> map (source_result_to_record L) xs = map SR_Chunk (map record_to_json rs) \<or>
    (\<exists>f rest. ds = [answer_failure s (error_class_of_code (cf_code f)) (cf_message f)] \<and>
      map (source_result_to_record L) xs = map SR_Chunk (map record_to_json rs) @ SR_Error f # rest)"
    using assms
  proof (induction L s xs arbitrary: rs ds rule: source_answer.induct)
    case (1 L s)
    then show ?case by simp
  next
    case (2 L s e xs)
    then show ?case
      by (auto simp: source_result_to_record_def source_failure_def class_of_class_name intro!: exI [of _ "source_failure e"])
  next
    case (3 L s r xs)
    show ?case
    proof (cases "record_validate L r")
      case (Inl m)
      with 3 show ?thesis
        by (auto simp: source_result_to_record_def validate_and_serialize_def serialization_failure_def class_of_serialization
            intro!: exI [of _ "serialization_failure m"])
    next
      case (Inr u)
      obtain rs' ds' where a: "source_answer L s xs = (rs', ds')" by (cases "source_answer L s xs")
      have "source_result_to_record L (Ok r) = SR_Chunk (record_to_json r)"
        using Inr by (simp add: source_result_to_record_def validate_and_serialize_def)
      with 3(1) [OF Inr a] 3(2) Inr a show ?thesis by auto
    qed
  qed
  then show thesis using that by blast
qed

lemma source_answer_valid: "r \<in> set (fst (source_answer L s xs)) \<Longrightarrow> Ok r \<in> set xs \<and> is_ok (record_validate L r)"
  by (induction L s xs rule: source_answer.induct) (auto split: sum.splits prod.splits)

section \<open>Within the budgets\<close>

lemma emit_within:
  assumes inv: "sink_inv L lim seen st" and none: "sk_budget_error st = None" and lim: "limits_ok lim"
    and room: "within_budget L lim (seen @ [data])" and c: "carries L data r"
  obtains st' where "emit_record_value L s lim data st = ([W_Record s r], st')" "sink_inv L lim (seen @ [data]) st'"
    "sk_budget_error st' = None"
proof -
  obtain out st' where e: "emit_record_value L s lim data st = (out, st')" by (cases "emit_record_value L s lim data st")
  have n: "unat (sk_records st) = length seen" "unat (sk_bytes st) = sum_list (map (json_len L) seen)"
    using inv none by (simp_all add: sink_inv_def)
  have "\<not> fst (apply_budget L s lim data st)"
    using none room lim by (simp add: apply_budget_def Let_def unat_sat_add_word n within_budget_def limits_ok_def)
  with inv lim none e c show thesis
  proof (cases rule: emit_record_value_cases)
    case (1 r')
    with c e that show thesis by (simp add: carries_def)
  next
    case (2 e')
    with \<open>\<not> fst (apply_budget L s lim data st)\<close> e c show thesis
      by (auto simp: emit_record_value_def carries_def split: prod.splits)
  qed
qed

lemma emits_within:
  assumes "sink_inv L lim seen st" "sk_budget_error st = None" "limits_ok lim"
    and "within_budget L lim (seen @ datas)" "list_all2 (carries L) datas rs"
  shows "\<exists>st'. sink_emits L s lim (map Chunk datas) st = (map (W_Record s) rs, st') \<and> sink_inv L lim (seen @ datas) st' \<and>
    sk_budget_error st' = None"
  using assms
proof (induction datas arbitrary: seen st rs)
  case Nil
  then show ?case by simp
next
  case (Cons data datas)
  then obtain r rs' where r: "rs = r # rs'" "carries L data r" "list_all2 (carries L) datas rs'"
    by (auto simp: list_all2_Cons1)
  have "within_budget L lim (seen @ [data])" using Cons.prems(4) by (auto simp: within_budget_def)
  from emit_within [OF Cons.prems(1-3) this r(2)] obtain st1 where
    e: "emit_record_value L s lim data st = ([W_Record s r], st1)" "sink_inv L lim (seen @ [data]) st1" "sk_budget_error st1 = None"
    by blast
  from Cons.IH [OF e(2,3) Cons.prems(3) _ r(3)] Cons.prems(4) e(1) r(1) show ?case by auto
qed

section \<open>What the engine sees\<close>

lemma run_of_stream:
  assumes host: "incurs_serves host" and lim: "limits_ok lim" and tool: "tool_name (cs_descriptor (ps_source p)) (ps_operation p) = Some tool"
    and call: "cs_call (ps_source p) tool (input_arguments (ps_input p)) = host (CR_Stream (map (source_result_to_record L) xs))"
    and a: "source_answer L s xs = (rs, ds)" and s: "cs_id (ps_source p) = s"
    and ids: "list_all valid_ids rs" and room: "within_budget L lim (map record_to_json rs)"
  shows "run_source_operation L lim p = run_steps s (ps_operation p) rs
    (case ds of [] \<Rightarrow> Out_Success | d # _ \<Rightarrow> failure_outcome (diag_class d)) ds"
proof -
  let ?datas = "map record_to_json rs"
  have "carries L (record_to_json r) r" if "r \<in> set rs" for r
    using that ids source_answer_valid [of r L s xs] a by (simp add: carries_def record_from_to_json list_all_iff)
  then have c: "list_all2 (carries L) ?datas rs" by (auto simp: list_all2_conv_all_nth)
  have inv: "sink_inv L lim [] sink_default" "sk_budget_error sink_default = None"
    by (rule sink_inv_default) (simp add: sink_default_def)
  from emits_within [OF inv lim _ c] room obtain st where st:
    "sink_emits L s lim (map Chunk ?datas) sink_default = (map (W_Record s) rs, st)" "sink_inv L lim ?datas st" "sk_budget_error st = None"
    by auto
  have n: "has_records st \<longleftrightarrow> rs \<noteq> []"
    using st(2,3) by (cases rs) (auto simp: sink_inv_def has_records_def word_less_nat_alt)
  from a show ?thesis
  proof (cases rule: source_stream_cases)
    case 1
    have "host (CR_Stream (map (source_result_to_record L) xs)) = \<lparr>run_events = map Chunk ?datas, run_outcome = Tool_Ok (JArray ?datas)\<rparr>"
      using host by (simp only: 1(2) incurs_serves_def)
    with 1(1) tool call s st n show ?thesis
      by (cases rs) (simp_all add: run_source_operation_def finish_stream_outcome_def run_steps_def Let_def)
  next
    case (2 f rest)
    have "host (CR_Stream (map (source_result_to_record L) xs)) =
        \<lparr>run_events = map Chunk ?datas, run_outcome = Tool_Error (cf_code f) (cf_message f)\<rparr>"
      using host by (simp only: 2(2) incurs_serves_def)
    with 2(1) tool call s st n show ?thesis
      by (simp add: run_source_operation_def finish_stream_outcome_def run_steps_def Let_def failed_def answer_failure_def
          diagnostic_of_error_def source_error_new_def)
  qed
qed

fun input_ok :: "libs \<Rightarrow> source_id \<Rightarrow> operation \<Rightarrow> operation_input \<Rightarrow> bool" where
  "input_ok L s Op_Search (Input_Query q) \<longleftrightarrow> query_validate L q = Ok ()"
| "input_ok L s Op_Follow (Input_Target t) \<longleftrightarrow> target_validate L t = Ok () \<and> target_ids_valid t \<and> target_source t = s"
| "input_ok L s _ _ \<longleftrightarrow> False"

fun runtime_answers :: "source_runtime \<Rightarrow> operation_input \<Rightarrow> source_result list" where
  "runtime_answers rt (Input_Query q) = rt_search rt q"
| "runtime_answers rt (Input_Target t) = rt_follow rt t"

lemma command_run_stream:
  assumes "input_ok L (desc_id d) op i"
  shows "source_command_run L d op rt (input_arguments i) = CR_Stream (map (source_result_to_record L) (runtime_answers rt i))"
  using assms
  by (cases "(L, desc_id d, op, i)" rule: input_ok.cases)
    (simp_all add: source_search_def source_follow_def query_from_arguments target_from_arguments validate_target_source_def)

text \<open>C20: A source's records and failures reach the engine through its tools as the runtime gave them: when the
  framework serves results as documented, the engine's run of a search or a follow, within the budgets,
  carries exactly the records the runtime streamed up to its first error, in order, and ends as a
  success, or as a failure of the error's class with the error's message.\<close>

theorem source_tools_transparent:
  assumes "incurs_serves host" "limits_ok lim" "can_search p"
    and "ps_source planned = served_source host unknown L (descriptor_new i n p) rt"
    and "supports (descriptor_new i n p) (ps_operation planned)" "input_ok L i (ps_operation planned) (ps_input planned)"
    and "source_answer L i (runtime_answers rt (ps_input planned)) = (rs, ds)"
    and "list_all valid_ids rs" "within_budget L lim (map record_to_json rs)"
  shows "run_source_operation L lim planned = run_steps i (ps_operation planned) rs
    (case ds of [] \<Rightarrow> Out_Success | d # _ \<Rightarrow> failure_outcome (diag_class d)) ds"
proof -
  let ?d = "descriptor_new i n p"
  have d: "cs_descriptor (ps_source planned) = ?d" "desc_id ?d = i"
    using assms(4) by (simp_all add: served_source_def descriptor_new_def)
  obtain tool where tool: "tool_name ?d (ps_operation planned) = Some tool" using assms(5) by (auto simp: supports_tool_name)
  have "cs_call (ps_source planned) tool (input_arguments (ps_input planned)) =
      host (CR_Stream (map (source_result_to_record L) (runtime_answers rt (ps_input planned))))"
    using assms(4,6) d(2) by (simp add: served_call [OF assms(3) tool] command_run_stream)
  from run_of_stream [OF assms(1,2) _ this assms(7) _ assms(8,9)] tool d show ?thesis by simp
qed

text \<open>A fetch through the engine gives what the runtime gave: the record when it is valid and fits the
  budget, and otherwise a failure; an error of the runtime keeps its class and message, is reported as
  the source's own, and loses its retry time.\<close>

lemma source_fetch_transparent:
  assumes "incurs_serves host" "can_search p" "can_fetch p"
    and "target_validate L t = Ok ()" "target_ids_valid t" "target_source t = i"
  shows "fst (fetch L [served_source host unknown L (descriptor_new i n p) rt] t lim m) =
    (case rt_fetch rt t of
       Err e \<Rightarrow> Err (SourceFailure (source_error_new i (err_class e) (err_message e)))
     | Ok r \<Rightarrow>
         (case record_validate L r of
            Err e \<Rightarrow> Err (SourceFailure (source_error_new i Upstream e))
          | Ok _ \<Rightarrow>
              if max_bytes_per_source lim < json_len L (record_to_json r)
              then Err (SourceFailure (source_error_new i Unsupported ''fetch byte budget exceeded''))
              else if valid_ids r then Ok r
              else Err (SourceFailure (source_error_new i Protocol (decode_text L (record_to_json r))))))"
proof -
  let ?d = "descriptor_new i n p" and ?src = "served_source host unknown L (descriptor_new i n p) rt"
  have d: "desc_id ?d = i" "cs_descriptor ?src = ?d" by (simp_all add: descriptor_new_def served_source_def)
  have "tool_name ?d Op_Fetch \<noteq> None"
    unfolding supports_tool_name [symmetric] using assms(3) by (simp add: descriptor_new_def)
  then obtain tool where tool: "tool_name ?d Op_Fetch = Some tool" by auto
  have call: "cs_call ?src tool (target_arguments t) = host (source_fetch L ?d rt (target_arguments t))"
    using served_call [OF assms(2) tool] by simp
  have fetched: "source_fetch L ?d rt (target_arguments t) =
      (case rt_fetch rt t of Ok r \<Rightarrow> chunk_result L r | Err e \<Rightarrow> CR_Error (source_failure e))"
    using assms(4-6) d(1) by (simp add: source_fetch_def target_from_arguments validate_target_source_def)
  have host: "run_outcome (host (CR_Ok v)) = Tool_Ok v" "run_outcome (host (CR_Error f)) = Tool_Error (cf_code f) (cf_message f)" for v f
    using assms(1) by (simp_all add: incurs_serves_def)
  obtain m1 g where st: "start i Op_Fetch m = (m1, g)" by (cases "start i Op_Fetch m")
  have "fst (fetch L [?src] t lim m) = fst (finish_fetch_outcome L i (run_outcome (cs_call ?src tool (target_arguments t))) lim g m1)"
    using assms(6) d tool st by (simp add: fetch_def catalog_source_find_def Let_def)
  then show ?thesis
    unfolding call fetched
    by (cases "rt_fetch rt t")
      (auto simp: host chunk_result_def validate_and_serialize_def source_failure_def serialization_failure_def Let_def
        finish_fetch_record_def deserialize_record_def record_from_to_json class_of_class_name class_of_serialization
        split: sum.splits)
qed

section \<open>An example\<close>

fun chunks :: "stream_record list \<Rightarrow> json list" where
  "chunks [] = []"
| "chunks (SR_Chunk v # xs) = v # chunks xs"
| "chunks (SR_Error f # xs) = []"

fun stream_end :: "stream_record list \<Rightarrow> command_failure option" where
  "stream_end [] = None"
| "stream_end (SR_Chunk v # xs) = stream_end xs"
| "stream_end (SR_Error f # xs) = Some f"

fun example_serve :: "command_result \<Rightarrow> tool_run" where
  "example_serve (CR_Ok v) = \<lparr>run_events = [], run_outcome = Tool_Ok v\<rparr>"
| "example_serve (CR_Error f) = \<lparr>run_events = [], run_outcome = Tool_Error (cf_code f) (cf_message f)\<rparr>"
| "example_serve (CR_Stream xs) = \<lparr>run_events = map Chunk (chunks xs), run_outcome =
     (case stream_end xs of None \<Rightarrow> Tool_Ok (JArray (chunks xs)) | Some f \<Rightarrow> Tool_Error (cf_code f) (cf_message f))\<rparr>"

lemma example_serves: "incurs_serves example_serve"
proof -
  have "chunks (map SR_Chunk vs) = vs" "stream_end (map SR_Chunk vs) = None"
    "chunks (map SR_Chunk vs @ SR_Error f # rest) = vs" "stream_end (map SR_Chunk vs @ SR_Error f # rest) = Some f"
    for vs f rest by (induction vs) simp_all
  then show ?thesis by (simp add: incurs_serves_def)
qed

definition example_runtime :: source_runtime where
  "example_runtime = \<lparr>rt_search = \<lambda>q. [Ok (example_record ''web'' ''a'' ''https://x''),
       Err \<lparr>err_source = Source_Id ''web'', err_class = RateLimit, err_message = ''slow down'', err_retry_after = Some 9\<rparr>],
     rt_fetch = \<lambda>t. Ok (example_record ''web'' ''b'' ''https://y''), rt_follow = \<lambda>t. []\<rparr>"

definition example_profile :: profile where
  "example_profile = \<lparr>can_search = True, can_fetch = True, can_follow = True\<rparr>"

definition example_served :: catalog_source where
  "example_served = served_source example_serve \<lparr>run_events = [], run_outcome = Tool_Ok JNull\<rparr> example_libs
     (descriptor_new (Source_Id ''web'') ''Web'' example_profile) example_runtime"

definition example_query :: query where
  "example_query = \<lparr>q_text = ''rust'', q_limit = Some 5, q_since = None, q_until = None\<rparr>"

definition example_planned :: planned_source where
  "example_planned = \<lparr>ps_source = example_served, ps_operation = Op_Search, ps_input = Input_Query example_query\<rparr>"

theorem source_tools_transparent_witness:
  "run_source_operation example_libs default_limits example_planned =
     run_steps (Source_Id ''web'') Op_Search [example_record ''web'' ''a'' ''https://x''] (Out_Failure True)
       [\<lparr>diag_source = Source_Id ''web'', diag_class = RateLimit, diag_message = ''slow down'', diag_retry_after = None\<rparr>]"
proof -
  let ?rs = "[example_record ''web'' ''a'' ''https://x'']"
    and ?d = "\<lparr>diag_source = Source_Id ''web'', diag_class = RateLimit, diag_message = ''slow down'', diag_retry_after = None\<rparr>"
  have l: "limits_ok default_limits" by (simp add: limits_ok_def default_limits_def)
  have q: "query_validate example_libs example_query = Ok ()" by code_simp
  have a: "source_answer example_libs (Source_Id ''web'') (runtime_answers example_runtime (ps_input example_planned)) = (?rs, [?d])"
    by code_simp
  have v: "list_all valid_ids ?rs" "within_budget example_libs default_limits (map record_to_json ?rs)" by code_simp+
  have s: "ps_source example_planned = served_source example_serve \<lparr>run_events = [], run_outcome = Tool_Ok JNull\<rparr> example_libs
     (descriptor_new (Source_Id ''web'') ''Web'' example_profile) example_runtime"
    by (simp add: example_planned_def example_served_def)
  have sel: "ps_operation example_planned = Op_Search" "ps_input example_planned = Input_Query example_query"
    by (simp_all add: example_planned_def)
  have sup: "supports (descriptor_new (Source_Id ''web'') ''Web'' example_profile) (ps_operation example_planned)"
    "can_search example_profile" by (simp_all add: sel descriptor_new_def example_profile_def)
  have i: "input_ok example_libs (Source_Id ''web'') (ps_operation example_planned) (ps_input example_planned)"
    using q by (simp add: sel)
  from source_tools_transparent [OF example_serves l sup(2) s sup(1) i a v] show ?thesis
    by (simp add: sel failure_outcome_def)
qed

end
