(* ===== verification/Cloud_Auth.thy ===== *)
theory Cloud_Auth
  imports Store_Model
begin

text \<open>
  Who may call the cloud worker (\<open>comsat-cloud/src/auth.rs\<close>, \<open>tenant_rotation.rs\<close>,
  \<open>queue_policy.rs\<close>): the map of bearer tokens to tenants, the origin allowlist, and which tenants
  a scheduled event serves. The map is given as the JSON value its text parses to.
\<close>

section \<open>Tokens\<close>

datatype auth_error = MissingBearer | UnknownToken | InvalidTokenMap

type_synonym token_map = "(string \<times> string) list"

definition min_bearer_token_bytes :: nat where "min_bearer_token_bytes = 32"

definition valid_bearer_token :: "string \<Rightarrow> bool" where
  "valid_bearer_token value \<longleftrightarrow> min_bearer_token_bytes \<le> length value \<and> list_all is_ascii_graphic value"

definition valid_tenant_id :: "string \<Rightarrow> bool" where
  "valid_tenant_id value \<longleftrightarrow> value \<noteq> [] \<and> length value \<le> 128 \<and>
     list_all (\<lambda>b. is_ascii_alphanumeric b \<or> b = CHR ''-'' \<or> b = CHR ''_'' \<or> b = CHR ''.'' \<or> b = CHR '':'') value"

definition valid_mapping :: "string \<times> string \<Rightarrow> bool" where
  "valid_mapping e \<longleftrightarrow> valid_bearer_token (fst e) \<and> valid_tenant_id (snd e)"

definition string_map :: "json \<Rightarrow> token_map option" where
  "string_map v = (case as_object v of None \<Rightarrow> None
     | Some kvs \<Rightarrow> if list_all (\<lambda>e. as_str (snd e) \<noteq> None) kvs
         then Some (map (\<lambda>e. (fst e, the (as_str (snd e)))) kvs) else None)"

definition token_map_parse :: "json option \<Rightarrow> (token_map, auth_error) result" where
  "token_map_parse parsed =
     (case Option.bind parsed string_map of
        None \<Rightarrow> Err InvalidTokenMap
      | Some m \<Rightarrow> if m = [] \<or> \<not> list_all valid_mapping m then Err InvalidTokenMap else Ok m)"

definition bearer_token :: "string option \<Rightarrow> (string, auth_error) result" where
  "bearer_token authorization =
     (case authorization of
        None \<Rightarrow> Err MissingBearer
      | Some value \<Rightarrow>
          (case strip_prefix ''Bearer '' value of
             None \<Rightarrow> Err MissingBearer
           | Some token \<Rightarrow> if token = [] then Err MissingBearer else Ok token))"

definition resolve :: "token_map \<Rightarrow> string option \<Rightarrow> (string, auth_error) result" where
  "resolve m authorization =
     and_then (bearer_token authorization) (\<lambda>token.
       case map_of m token of
         None \<Rightarrow> Err UnknownToken
       | Some tenant \<Rightarrow> if valid_tenant_id tenant then Ok tenant else Err UnknownToken)"

definition tenant_ids :: "token_map \<Rightarrow> string list" where
  "tenant_ids m = remdups_adj (sort (filter valid_tenant_id (map snd m)))"

section \<open>Origins\<close>

definition origin_allowed :: "string option \<Rightarrow> string list \<Rightarrow> bool" where
  "origin_allowed origin allowed \<longleftrightarrow> (case origin of None \<Rightarrow> True | Some o' \<Rightarrow> list_ex (\<lambda>c. c = o') allowed)"

definition parse_origin_allowlist :: "string option \<Rightarrow> string list" where
  "parse_origin_allowlist value =
     filter (\<lambda>o'. o' \<noteq> []) (map trim (split_on CHR '','' (case value of None \<Rightarrow> [] | Some v \<Rightarrow> v)))"

section \<open>Scheduling\<close>

text \<open>\<open>iter().cycle().skip(window % len).take(limit.min(len))\<close>. The quotient fits \<open>usize\<close> of the 32-bit
  worker until the year 42800; past that \<open>unwrap_or_default\<close> makes it 0.\<close>

definition rotation_window :: "int \<Rightarrow> nat" where
  "rotation_window now = (let w = nat (max 0 now div 300) in if w < 2 ^ 32 then w else 0)"

definition scheduled_tenants :: "string list \<Rightarrow> int \<Rightarrow> nat \<Rightarrow> string list" where
  "scheduled_tenants tenants now limit =
     (if tenants = [] then []
      else map (\<lambda>i. tenants ! ((rotation_window now mod length tenants + i) mod length tenants))
             [0 ..< min limit (length tenants)])"

fun should_retry :: "store_error \<Rightarrow> bool" where
  "should_retry (Store_Backend _) = True"
| "should_retry (Store_Conflict _) = False"
| "should_retry (Store_NotFound _) = False"
| "should_retry (Store_Validation _) = False"

section \<open>What they promise\<close>

lemma strip_prefix_append: "strip_prefix p (p @ r) = Some r"
  by simp

lemma stripped_prefix:
  "(case strip_prefix p v of None \<Rightarrow> Err e | Some t \<Rightarrow> if t = [] then Err e else Ok t) = Ok tok \<longleftrightarrow> v = p @ tok \<and> tok \<noteq> []"
  by (auto simp: strip_prefix_append split: option.split)

lemma bearer_token_ok: "bearer_token a = Ok tok \<longleftrightarrow> a = Some (''Bearer '' @ tok) \<and> tok \<noteq> []"
  unfolding bearer_token_def by (cases a) (simp_all only: option.case stripped_prefix, simp_all)

lemma resolve_ok:
  "resolve m authorization = Ok t \<longleftrightarrow>
     (\<exists>token. authorization = Some (''Bearer '' @ token) \<and> token \<noteq> [] \<and> map_of m token = Some t \<and> valid_tenant_id t)"
  by (auto simp: resolve_def bearer_token_ok split: option.splits if_splits)

text \<open>C17: With a map that parsed, a request is let in exactly as the tenant its bearer token is mapped to;
  the tenant is one of those scheduled events serve, its id is valid in the store, and the token has
  at least 32 graphic characters.\<close>

theorem resolve_exact:
  assumes "token_map_parse parsed = Ok m"
  shows "(case resolve m authorization of
      Ok t \<Rightarrow> \<exists>token. authorization = Some (''Bearer '' @ token) \<and> (token, t) \<in> set m \<and> 32 \<le> length token \<and>
        list_all is_ascii_graphic token \<and> t \<in> set (tenant_ids m) \<and> validate_tenant_id t = Ok ()
    | Err e \<Rightarrow> e \<noteq> InvalidTokenMap \<and> (\<forall>token t. authorization = Some (''Bearer '' @ token) \<longrightarrow> map_of m token \<noteq> Some t))"
proof -
  have valid: "valid_mapping e" if "e \<in> set m" for e
    using assms that by (auto simp: token_map_parse_def list_all_iff split: option.splits if_splits)
  show ?thesis
  proof (cases "resolve m authorization")
    case (Inr t)
    then obtain token where t: "authorization = Some (''Bearer '' @ token)" "map_of m token = Some t" "valid_tenant_id t"
      by (auto simp: resolve_ok)
    have m: "(token, t) \<in> set m" using t(2) by (rule map_of_SomeD)
    with t(3) have "t \<in> set (tenant_ids m)" by (force simp: tenant_ids_def)
    moreover have "validate_tenant_id t = Ok ()"
      using t(3) unfolding validate_tenant_id_def validate_bounded_token_def valid_tenant_id_def token_byte_def [abs_def]
      by simp
    ultimately show ?thesis
      using Inr t m valid [OF m] by (auto simp: valid_mapping_def valid_bearer_token_def min_bearer_token_bytes_def)
  next
    case (Inl e)
    have "map_of m token \<noteq> Some t" if a: "authorization = Some (''Bearer '' @ token)" for token t
    proof
      assume s: "map_of m token = Some t"
      from valid [OF map_of_SomeD [OF s]] have "valid_tenant_id t" "token \<noteq> []"
        by (auto simp: valid_mapping_def valid_bearer_token_def min_bearer_token_bytes_def)
      with s a have "resolve m authorization = Ok t" unfolding resolve_ok by blast
      with Inl show False by simp
    qed
    moreover have "e \<noteq> InvalidTokenMap"
      using Inl by (auto simp: resolve_def bearer_token_def and_then_eq_Inl split: option.splits if_splits)
    ultimately show ?thesis using Inl by simp
  qed
qed

definition example_token :: string where "example_token = ''0123456789abcdef0123456789abcdef''"

definition example_tokens :: token_map where "example_tokens = [(example_token, ''tenant-a'')]"

lemma example_tokens_parse:
  "token_map_parse (Some (JObject [(example_token, JString ''tenant-a'')])) = Ok example_tokens"
  by code_simp

theorem resolve_exact_witness:
  "resolve example_tokens (Some (''Bearer '' @ example_token)) = Ok ''tenant-a'' \<and>
   validate_tenant_id ''tenant-a'' = Ok ()"
proof -
  have "resolve example_tokens (Some (''Bearer '' @ example_token)) = Ok ''tenant-a''" by code_simp
  with resolve_exact [OF example_tokens_parse, of "Some (''Bearer '' @ example_token)"] show ?thesis by simp
qed

lemma rotated_index:
  assumes "distinct tenants" "i < length tenants" "j < length tenants"
    and "tenants ! ((w + i) mod length tenants) = tenants ! ((w + j) mod length tenants)"
  shows "i = j"
proof -
  have "0 < length tenants" using assms(2) by linarith
  then have same: "(w + i) mod length tenants = (w + j) mod length tenants"
    using assms(1,4) nth_eq_iff_index_eq by (metis mod_less_divisor)
  have "y = x" if "(w + x) mod n = (w + y) mod n" "x \<le> y" "y < n" for x y n :: nat
  proof -
    have "n dvd (w + y) - (w + x)" using that mod_eq_dvd_iff_nat [of "w + x" "w + y" n] by simp
    with that show ?thesis by (auto dest!: dvd_imp_le)
  qed
  from this [OF same] this [OF same [symmetric]] assms(2,3) show ?thesis by (metis linorder_le_cases)
qed

lemma scheduled_distinct: "distinct tenants \<Longrightarrow> distinct (scheduled_tenants tenants now limit)"
  using rotated_index by (fastforce simp: scheduled_tenants_def distinct_map intro!: inj_onI)

lemma rotation_window_next:
  assumes "0 \<le> now" "now + 300 * int k < 300 * 2 ^ 32"
  shows "rotation_window (now + 300 * int k) = rotation_window now + k"
proof -
  have "int (nat (now div 300) + k) = now div 300 + int k" using assms(1) by simp
  moreover have "now div 300 + int k < 2 ^ 32" using assms(2) by linarith
  ultimately have "int (nat (now div 300) + k) < int (2 ^ 32)" by simp
  then have "nat (now div 300) + k < 2 ^ 32" by (simp only: of_nat_less_iff)
  moreover have "(now + 300 * int k) div 300 = now div 300 + int k" by simp
  ultimately show ?thesis using assms(1) by (simp add: rotation_window_def Let_def nat_add_distrib)
qed

text \<open>The rotation is fair and bounded: a scheduled event serves at most the limit of tenants, no tenant
  twice, all of them when the limit allows; and over as many five-minute windows as there are tenants,
  each tenant comes first exactly once.\<close>

lemma rotation_fair:
  assumes "distinct tenants" "tenants \<noteq> []" "0 < limit" "0 \<le> now"
    and "now + 300 * int (length tenants) < 300 * 2 ^ 32"
  shows "distinct (scheduled_tenants tenants now limit) \<and> set (scheduled_tenants tenants now limit) \<subseteq> set tenants \<and>
    length (scheduled_tenants tenants now limit) = min limit (length tenants) \<and>
    distinct (map (\<lambda>k. hd (scheduled_tenants tenants (now + 300 * int k) limit)) [0 ..< length tenants]) \<and>
    set (map (\<lambda>k. hd (scheduled_tenants tenants (now + 300 * int k) limit)) [0 ..< length tenants]) = set tenants"
proof -
  let ?n = "length tenants"
  have n: "0 < ?n" using assms(2) by simp
  have first: "hd (scheduled_tenants tenants (now + 300 * int k) limit) = tenants ! ((rotation_window now + k) mod ?n)"
    if "k < ?n" for k
  proof -
    have "now + 300 * int k < 300 * 2 ^ 32" using assms(5) that by linarith
    from rotation_window_next [OF assms(4) this] show ?thesis
      using assms(2,3) n by (simp add: scheduled_tenants_def hd_map upt_rec)
  qed
  let ?firsts = "map (\<lambda>k. hd (scheduled_tenants tenants (now + 300 * int k) limit)) [0 ..< ?n]"
  have "?firsts = map (\<lambda>k. tenants ! ((rotation_window now + k) mod ?n)) [0 ..< ?n]"
    by (rule map_cong) (simp_all add: first)
  moreover have "distinct (map (\<lambda>k. tenants ! ((rotation_window now + k) mod ?n)) [0 ..< ?n])"
    using rotated_index [OF assms(1)] by (auto simp: distinct_map intro!: inj_onI)
  ultimately have d: "distinct ?firsts" by (simp only:)
  have sub: "set ?firsts \<subseteq> set tenants" using first n by auto
  then have "set ?firsts = set tenants"
    using card_subset_eq [OF _ sub] distinct_card [OF d] distinct_card [OF assms(1)] by simp
  moreover have "set (scheduled_tenants tenants now limit) \<subseteq> set tenants" using n by (auto simp: scheduled_tenants_def)
  moreover have "length (scheduled_tenants tenants now limit) = min limit ?n" using assms(2) by (simp add: scheduled_tenants_def)
  ultimately show ?thesis using d scheduled_distinct [OF assms(1)] by blast
qed

end
