(* ===== verification/Cloud_Routes.thy ===== *)
theory Cloud_Routes
  imports Cloud_Auth Store_Db
begin

text \<open>
  The HTTP surface of the cloud worker (\<open>comsat-cloud/src/runtime.rs\<close>, \<open>runtime_http.rs\<close>,
  \<open>landing.rs\<close>): origin and token checks, the routes, the bounded body and the CORS headers. The tool
  catalog and the MCP handler of Incurs are functions of the tenant, the call and the database; a
  worker error is the value \<open>Err\<close>. The bindings are the environment's values.
\<close>

datatype response_body = Body_Empty | Body_Text string | Body_Json json | Body_Html

record response =
  rp_status :: nat
  rp_headers :: "(string \<times> string) list"
  rp_body :: response_body

text \<open>A body arrives in chunks; \<open>None\<close> is a chunk that failed.\<close>

record cloud_request =
  cq_method :: string
  cq_path :: string
  cq_headers :: "(string \<times> string) list"
  cq_query :: "(string \<times> string) list"
  cq_chunks :: "string option list"

record cloud_env =
  env_secret_tokens :: "string option"
  env_var_tokens :: "string option"
  env_origins :: "string option"

text \<open>An outcome's \<open>field_errors\<close> and \<open>cta\<close> are passed through as JSON.\<close>

datatype call_outcome = Call_Ok json | Call_Error string string bool json json json

record mcp_reply =
  mr_status :: nat
  mr_body :: "json option"
  mr_headers :: "(string \<times> string) list"

record tool_host =
  call_tool :: "string \<Rightarrow> string \<Rightarrow> (string \<times> json) list \<Rightarrow> db \<Rightarrow> call_outcome \<times> db"
  call_mcp :: "string \<Rightarrow> string list \<Rightarrow> cloud_request \<Rightarrow> string option \<Rightarrow> db \<Rightarrow> mcp_reply \<times> db"
  parse_json :: "string \<Rightarrow> json option"

section \<open>Headers\<close>

definition header_get :: "(string \<times> string) list \<Rightarrow> string \<Rightarrow> string option" where
  "header_get hs name = map_option snd (find (\<lambda>h. eq_ignore_ascii_case (fst h) name) hs)"

definition header_set :: "string \<Rightarrow> string \<Rightarrow> (string \<times> string) list \<Rightarrow> (string \<times> string) list" where
  "header_set name value hs = filter (\<lambda>h. \<not> eq_ignore_ascii_case (fst h) name) hs @ [(name, value)]"

definition has_origin_vary :: "string \<Rightarrow> bool" where
  "has_origin_vary value = list_ex (\<lambda>e. eq_ignore_ascii_case (trim e) ''origin'') (split_on CHR '','' value)"

definition apply_vary_origin :: "(string \<times> string) list \<Rightarrow> (string \<times> string) list" where
  "apply_vary_origin hs =
     (case header_get hs ''Vary'' of
        None \<Rightarrow> header_set ''Vary'' ''Origin'' hs
      | Some current \<Rightarrow> if has_origin_vary current then hs else header_set ''Vary'' (current @ '', Origin'') hs)"

definition apply_cors :: "string option \<Rightarrow> (string \<times> string) list \<Rightarrow> (string \<times> string) list" where
  "apply_cors origin hs =
     (let hs = (case origin of None \<Rightarrow> hs | Some o' \<Rightarrow> header_set ''Access-Control-Allow-Origin'' o' hs);
          hs = header_set ''Access-Control-Allow-Headers'' ''Authorization, Content-Type, Accept, MCP-Protocol-Version'' hs;
          hs = header_set ''Access-Control-Allow-Methods'' ''GET, POST, OPTIONS'' hs
      in apply_vary_origin hs)"

definition with_cors :: "string option \<Rightarrow> response \<Rightarrow> response" where
  "with_cors origin r = r\<lparr>rp_headers := apply_cors origin (rp_headers r)\<rparr>"

definition response_error :: "string \<Rightarrow> nat \<Rightarrow> response" where
  "response_error message status = \<lparr>rp_status = status, rp_headers = [], rp_body = Body_Text message\<rparr>"

definition response_from_json :: "json \<Rightarrow> response" where
  "response_from_json v = \<lparr>rp_status = 200, rp_headers = [(''Content-Type'', ''application/json'')], rp_body = Body_Json v\<rparr>"

definition preflight :: "string option \<Rightarrow> response" where
  "preflight origin = with_cors origin \<lparr>rp_status = 204, rp_headers = [], rp_body = Body_Empty\<rparr>"

definition landing_page :: response where
  "landing_page = \<lparr>rp_status = 200, rp_headers = header_set ''X-Content-Type-Options'' ''nosniff''
     (header_set ''Cache-Control'' ''public, max-age=60, must-revalidate'' [(''Content-Type'', ''text/html'')]),
     rp_body = Body_Html\<rparr>"

definition is_landing_request :: "string \<Rightarrow> string \<Rightarrow> bool" where
  "is_landing_request m path \<longleftrightarrow> (path = ''/'' \<or> path = ''/index.html'') \<and>
     (eq_ignore_ascii_case m ''GET'' \<or> eq_ignore_ascii_case m ''HEAD'')"

definition json_response :: "nat \<Rightarrow> json \<Rightarrow> (string \<times> string) list \<Rightarrow> response" where
  "json_response status body headers =
     (let r = response_from_json body
      in r\<lparr>rp_status := status, rp_headers := fold (\<lambda>(n, v). header_set n v) headers (rp_headers r)\<rparr>)"

section \<open>Bodies\<close>

datatype body_error = Too_Large | Worker_Error

definition max_http_body_bytes :: nat where "max_http_body_bytes = 1024 * 1024"

text \<open>The worker is a 32-bit program: \<open>usize\<close> has 32 bits.\<close>

abbreviation parse_usize :: "string \<Rightarrow> nat option" where "parse_usize \<equiv> parse_unsigned (2 ^ 32)"

definition content_length_exceeds :: "cloud_request \<Rightarrow> nat \<Rightarrow> bool" where
  "content_length_exceeds q max_bytes =
     (case Option.bind (header_get (cq_headers q) ''Content-Length'') parse_usize of
        None \<Rightarrow> False | Some n \<Rightarrow> max_bytes < n)"

fun read_chunks :: "nat \<Rightarrow> string \<Rightarrow> string option list \<Rightarrow> (string, body_error) result" where
  "read_chunks max_bytes body [] = Ok body"
| "read_chunks max_bytes body (None # cs) = Err Worker_Error"
| "read_chunks max_bytes body (Some c # cs) =
     (if max_bytes < sat_add (2 ^ 32) (length body) (length c) then Err Too_Large
      else read_chunks max_bytes (body @ c) cs)"

text \<open>\<open>String::from_utf8\<close>.\<close>

definition utf8_tail :: "char \<Rightarrow> bool" where "utf8_tail c \<longleftrightarrow> 128 \<le> byte c \<and> byte c \<le> 191"

fun utf8_valid :: "string \<Rightarrow> bool" where
  "utf8_valid [] = True"
| "utf8_valid (a # s) =
     (if byte a < 128 then utf8_valid s
      else case s of
        [] \<Rightarrow> False
      | b # s \<Rightarrow>
          if 194 \<le> byte a \<and> byte a \<le> 223 then utf8_tail b \<and> utf8_valid s
          else (case s of
            [] \<Rightarrow> False
          | c # s \<Rightarrow>
              if 224 \<le> byte a \<and> byte a \<le> 239
              then utf8_tail b \<and> utf8_tail c \<and> (byte a = 224 \<longrightarrow> 160 \<le> byte b) \<and> (byte a = 237 \<longrightarrow> byte b \<le> 159) \<and> utf8_valid s
              else (case s of
                [] \<Rightarrow> False
              | d # s \<Rightarrow>
                  240 \<le> byte a \<and> byte a \<le> 244 \<and> utf8_tail b \<and> utf8_tail c \<and> utf8_tail d \<and>
                  (byte a = 240 \<longrightarrow> 144 \<le> byte b) \<and> (byte a = 244 \<longrightarrow> byte b \<le> 143) \<and> utf8_valid s)))"

definition read_bounded_body :: "cloud_request \<Rightarrow> nat \<Rightarrow> (string, body_error) result" where
  "read_bounded_body q max_bytes =
     (if content_length_exceeds q max_bytes then Err Too_Large
      else and_then (read_chunks max_bytes [] (cq_chunks q)) (\<lambda>body.
        if utf8_valid body then Ok body else Err Worker_Error))"

section \<open>Routes\<close>

type_synonym routed = "(response, unit) result \<times> db"

definition tool_routes :: "(string \<times> string) list" where
  "tool_routes = [(''/search'', ''comsat_search''), (''/fetch'', ''comsat_fetch''), (''/follow'', ''comsat_follow''),
     (''/watch/add'', ''watch_add''), (''/watch/list'', ''watch_list''), (''/watch/delete'', ''watch_delete'')]"

definition tool_for_path :: "string \<Rightarrow> string option" where
  "tool_for_path path = map_option snd (find (\<lambda>r. path = fst r) tool_routes)"

definition invalid_arguments :: "string \<Rightarrow> response" where
  "invalid_arguments message =
     (response_from_json (json_object [(''error'', json_object [(''code'', JString ''invalid_query''), (''message'', JString message)])]))
       \<lparr>rp_status := 400\<rparr>"

definition tool_error_response :: "string \<Rightarrow> string \<Rightarrow> bool \<Rightarrow> json \<Rightarrow> json \<Rightarrow> json \<Rightarrow> response" where
  "tool_error_response code message retry field_errors cta exit_code =
     (let r = response_from_json (json_object [(''error'', json_object
          [(''code'', JString code), (''message'', JString message), (''retryable'', JBool retry),
           (''field_errors'', field_errors), (''cta'', cta), (''exit_code'', exit_code)])])
      in r\<lparr>rp_status := 400, rp_headers := header_set ''Content-Type'' ''application/json'' (rp_headers r)\<rparr>)"

fun tool_outcome_response :: "call_outcome \<Rightarrow> response" where
  "tool_outcome_response (Call_Ok data) = response_from_json data"
| "tool_outcome_response (Call_Error code message retry fe cta ex) = tool_error_response code message retry fe cta ex"

definition called :: "tool_host \<Rightarrow> string \<Rightarrow> string \<Rightarrow> (string \<times> json) list \<Rightarrow> db \<Rightarrow> routed" where
  "called H tenant tool args db =
     (case call_tool H tenant tool args db of (outcome, db) \<Rightarrow> (Ok (tool_outcome_response outcome), db))"

definition query_pair :: "cloud_request \<Rightarrow> string \<Rightarrow> string option" where
  "query_pair q name = map_option snd (find (\<lambda>p. fst p = name) (cq_query q))"

definition history_response :: "tool_host \<Rightarrow> string \<Rightarrow> cloud_request \<Rightarrow> db \<Rightarrow> routed" where
  "history_response H tenant q db =
     (if \<not> eq_ignore_ascii_case (cq_method q) ''GET'' then (Ok (response_error ''Method not allowed'' 405), db)
      else
        (let arguments = List.map_filter (\<lambda>name. map_option (\<lambda>v. (name, JString v)) (query_pair q name)) [''watch'', ''since'']
         in case query_pair q ''limit'' of
              None \<Rightarrow> called H tenant ''history'' (bt_collect arguments) db
            | Some value \<Rightarrow>
                (case parse_unsigned (2 ^ 32) value of
                   None \<Rightarrow> (Ok (invalid_arguments ''limit must be a nonnegative integer''), db)
                 | Some limit \<Rightarrow> called H tenant ''history'' (bt_collect (arguments @ [(''limit'', json_nat limit)])) db)))"

definition tool_response :: "tool_host \<Rightarrow> string \<Rightarrow> cloud_request \<Rightarrow> string \<Rightarrow> db \<Rightarrow> routed" where
  "tool_response H tenant q tool db =
     (if \<not> eq_ignore_ascii_case (cq_method q) ''POST'' then (Ok (response_error ''Method not allowed'' 405), db)
      else case read_bounded_body q max_http_body_bytes of
             Err Too_Large \<Rightarrow> (Ok (response_error ''Request body is too large'' 413), db)
           | Err Worker_Error \<Rightarrow> (Err (), db)
           | Ok body \<Rightarrow>
               (case Option.bind (parse_json H body) as_object of
                  None \<Rightarrow> (Ok (invalid_arguments ''tool arguments must be a JSON object''), db)
                | Some arguments \<Rightarrow> called H tenant tool arguments db))"

definition mcp_response :: "tool_host \<Rightarrow> string \<Rightarrow> cloud_request \<Rightarrow> db \<Rightarrow> routed" where
  "mcp_response H tenant q db =
     (let origins = (case header_get (cq_headers q) ''Origin'' of None \<Rightarrow> [] | Some o' \<Rightarrow> [o']);
          body = (if eq_ignore_ascii_case (cq_method q) ''POST''
                  then map_sum id Some (read_bounded_body q max_http_body_bytes) else Ok None)
      in case body of
           Err Too_Large \<Rightarrow> (Ok (response_error ''MCP request body is too large'' 413), db)
         | Err Worker_Error \<Rightarrow> (Err (), db)
         | Ok body \<Rightarrow>
             (case call_mcp H tenant origins q body db of (reply, db) \<Rightarrow>
                (Ok (json_response (mr_status reply) (case mr_body reply of Some v \<Rightarrow> v | None \<Rightarrow> json_object [])
                       (mr_headers reply)), db)))"

definition dispatch_tool :: "tool_host \<Rightarrow> string \<Rightarrow> cloud_request \<Rightarrow> db \<Rightarrow> routed" where
  "dispatch_tool H tenant q db =
     (case tool_for_path (cq_path q) of
        None \<Rightarrow> (Ok (response_error ''Not found'' 404), db)
      | Some tool \<Rightarrow> tool_response H tenant q tool db)"

definition dispatch_request :: "tool_host \<Rightarrow> string \<Rightarrow> cloud_request \<Rightarrow> db \<Rightarrow> routed" where
  "dispatch_request H tenant q db =
     (if cq_path q = ''/health'' then (Ok (response_from_json (json_object [(''ok'', JBool True)])), db)
      else if cq_path q = ''/mcp'' then mcp_response H tenant q db
      else if cq_path q = ''/history'' then history_response H tenant q db
      else dispatch_tool H tenant q db)"

text \<open>The secret wins over the variable when it parses.\<close>

definition tenant_token_map :: "tool_host \<Rightarrow> cloud_env \<Rightarrow> (token_map, unit) result" where
  "tenant_token_map H env =
     (let of_text = (\<lambda>t. token_map_parse (parse_json H t));
          secret = (case env_secret_tokens env of None \<Rightarrow> None | Some t \<Rightarrow> ok_option (of_text t))
      in case secret of
           Some m \<Rightarrow> Ok m
         | None \<Rightarrow> (case env_var_tokens env of None \<Rightarrow> Err () | Some t \<Rightarrow> map_err (\<lambda>_. ()) (of_text t)))"

definition authorized_tenant :: "tool_host \<Rightarrow> cloud_env \<Rightarrow> cloud_request \<Rightarrow> (string option, unit) result" where
  "authorized_tenant H env q =
     and_then (tenant_token_map H env) (\<lambda>m.
       case resolve m (header_get (cq_headers q) ''Authorization'') of
         Ok tenant \<Rightarrow> Ok (Some tenant)
       | Err InvalidTokenMap \<Rightarrow> Err ()
       | Err _ \<Rightarrow> Ok None)"

definition unauthorized :: response where
  "unauthorized = (let r = response_error ''Unauthorized'' 401
     in r\<lparr>rp_headers := header_set ''WWW-Authenticate'' ''Bearer'' (rp_headers r)\<rparr>)"

definition route_request :: "tool_host \<Rightarrow> cloud_env \<Rightarrow> cloud_request \<Rightarrow> db \<Rightarrow> routed" where
  "route_request H env q db =
     (if is_landing_request (cq_method q) (cq_path q) then (Ok landing_page, db)
      else
        (let origins = parse_origin_allowlist (env_origins env); origin = header_get (cq_headers q) ''Origin''
         in if \<not> origin_allowed origin origins then (Ok (response_error ''Origin is not allowed'' 403), db)
            else if cq_method q = ''OPTIONS'' then (Ok (preflight origin), db)
            else (case authorized_tenant H env q of
                Err e \<Rightarrow> (Err e, db)
              | Ok None \<Rightarrow> (Ok (with_cors origin unauthorized), db)
              | Ok (Some tenant) \<Rightarrow>
                  (case dispatch_request H tenant q db of
                     (Err e, db) \<Rightarrow> (Err e, db)
                   | (Ok r, db) \<Rightarrow> (Ok (with_cors origin r), db)))))"

section \<open>What they promise\<close>

lemma dispatch_cong:
  assumes "call_tool H' t = call_tool H t" "call_mcp H' t = call_mcp H t" "parse_json H' = parse_json H"
  shows "dispatch_request H' t q db = dispatch_request H t q db"
  unfolding dispatch_request_def mcp_response_def history_response_def dispatch_tool_def tool_response_def called_def assms
  by (rule refl)

definition let_in :: "tool_host \<Rightarrow> cloud_env \<Rightarrow> cloud_request \<Rightarrow> string \<Rightarrow> bool" where
  "let_in H env q t \<longleftrightarrow> origin_allowed (header_get (cq_headers q) ''Origin'') (parse_origin_allowlist (env_origins env)) \<and>
     authorized_tenant H env q = Ok (Some t)"

text \<open>C18: The worker keeps tenants apart. What a request is answered and does to the database depends on the
  tools of no tenant but the one its token resolves to, and only from an allowed origin; any other
  request leaves the database alone and gets the public page, a preflight answer, 401, 403 or a
  worker error.\<close>

theorem routes_isolate_tenants:
  assumes "parse_json H' = parse_json H"
    and "\<And>t. let_in H env q t \<Longrightarrow> call_tool H' t = call_tool H t \<and> call_mcp H' t = call_mcp H t"
  shows "route_request H' env q db = route_request H env q db \<and>
    ((\<exists>t. let_in H env q t) \<or>
      snd (route_request H env q db) = db \<and>
      (case fst (route_request H env q db) of
         Ok r \<Rightarrow> r = landing_page \<or> rp_status r = 204 \<or> rp_status r = 401 \<or> rp_status r = 403
       | Err _ \<Rightarrow> True))"
proof -
  have auth: "authorized_tenant H' env q = authorized_tenant H env q"
    using assms(1) by (simp add: authorized_tenant_def tenant_token_map_def)
  show ?thesis
  proof (cases "\<exists>t. let_in H env q t")
    case True
    then obtain t where t: "let_in H env q t" by blast
    from dispatch_cong [of H' t H q db] assms(1) assms(2) [OF t] t show ?thesis
      by (auto simp: route_request_def auth let_in_def Let_def)
  next
    case False
    then show ?thesis
      by (auto simp: route_request_def auth let_in_def Let_def response_error_def preflight_def with_cors_def
          unauthorized_def split: sum.splits option.splits)
  qed
qed

definition example_host :: tool_host where
  "example_host = \<lparr>call_tool = \<lambda>t tool args db. (Call_Ok (JString t), empty_db),
     call_mcp = \<lambda>t os q b db. (\<lparr>mr_status = 200, mr_body = None, mr_headers = []\<rparr>, db),
     parse_json = \<lambda>s. if s = ''tokens'' then Some (JObject [(example_token, JString ''tenant-a'')]) else Some (JObject [])\<rparr>"

definition example_cloud_env :: cloud_env where
  "example_cloud_env = \<lparr>env_secret_tokens = Some ''tokens'', env_var_tokens = None, env_origins = None\<rparr>"

definition example_call :: "string \<Rightarrow> cloud_request" where
  "example_call token = \<lparr>cq_method = ''POST'', cq_path = ''/search'', cq_headers = [(''authorization'', ''Bearer '' @ token)],
     cq_query = [], cq_chunks = [Some ''{}'']\<rparr>"

definition example_other :: tool_host where
  "example_other = example_host\<lparr>call_tool :=
     (\<lambda>t. if t = ''tenant-a'' then call_tool example_host t else (\<lambda>tool args db. (Call_Ok JNull, db)))\<rparr>"

theorem routes_isolate_tenants_witness:
  "case fst (route_request example_other example_cloud_env (example_call example_token) empty_db) of
     Ok r \<Rightarrow> rp_body r = Body_Json (JString ''tenant-a'')
   | Err _ \<Rightarrow> False"
proof -
  have a: "authorized_tenant example_host example_cloud_env (example_call example_token) = Ok (Some ''tenant-a'')"
    by code_simp
  have "parse_json example_other = parse_json example_host" by (simp add: example_other_def)
  moreover have "call_tool example_other t = call_tool example_host t \<and> call_mcp example_other t = call_mcp example_host t"
    if "let_in example_host example_cloud_env (example_call example_token) t" for t
    using that a by (simp add: let_in_def example_other_def)
  ultimately have e: "route_request example_other example_cloud_env (example_call example_token) empty_db =
      route_request example_host example_cloud_env (example_call example_token) empty_db"
    using routes_isolate_tenants by blast
  show ?thesis unfolding e by code_simp
qed

lemma read_chunks_ok:
  "max_bytes < 2 ^ 32 - 1 \<Longrightarrow> read_chunks max_bytes body cs = Ok b \<longleftrightarrow>
   None \<notin> set cs \<and> b = body @ concat (map the cs) \<and> (cs = [] \<or> length b \<le> max_bytes)"
proof (induction max_bytes body cs rule: read_chunks.induct)
  case (3 max_bytes body c cs)
  have "max_bytes < sat_add (2 ^ 32) (length body) (length c) \<longleftrightarrow> max_bytes < length body + length c"
    using 3(2) by (auto simp: sat_add_def)
  with 3 show ?case by (cases "cs = []") auto
qed auto

text \<open>A body is read whole or refused: what the worker reads is the chunks in order, at most the limit of
  bytes, valid UTF-8, and it reads nothing when the declared length already exceeds the limit.\<close>

lemma body_bounded:
  "read_bounded_body q max_http_body_bytes = Ok b \<longleftrightarrow>
     \<not> content_length_exceeds q max_http_body_bytes \<and> None \<notin> set (cq_chunks q) \<and>
     b = concat (map the (cq_chunks q)) \<and> length b \<le> max_http_body_bytes \<and> utf8_valid b"
  by (auto simp: read_bounded_body_def read_chunks_ok max_http_body_bytes_def)

end
