(* ===== verification/Cloud_Watch.thy ===== *)
theory Cloud_Watch
  imports Cloud_Routes App
begin

text \<open>
  Scheduled work of the cloud worker (\<open>comsat-cloud/src/runtime_watch.rs\<close>, \<open>cloud_notifications.rs\<close>,
  \<open>worker_entry.rs\<close>): the scheduled event leases due watches and sends one queue message each; the
  queue event runs a message's watch, delivers one notification of its tenant and settles the message.
  The queue is a function that accepts or refuses a message; random numbers and clock readings are
  arguments; logging is left out.
\<close>

section \<open>Leasing due watches\<close>

record watch_claim_message =
  wm_tenant :: string
  wm_watch :: string
  wm_query :: query
  wm_sources :: "source_id list"
  wm_cursor :: json
  wm_owner :: string
  wm_expires :: int

record watch_claim_config =
  wc_now :: int
  wc_limit :: nat
  wc_lease_seconds :: nat

type_synonym watch_queue = "watch_claim_message \<Rightarrow> (unit, string) result"

definition cloud_limits :: engine_limits where
  "cloud_limits = default_limits\<lparr>max_bytes_per_source := 240 * 1024\<rparr>"

definition cloud_lease_owner :: "int \<Rightarrow> nat \<Rightarrow> nat \<Rightarrow> string" where
  "cloud_lease_owner now nonce taken = ''cloud:'' @ int_str now @ '':'' @ hex_str nonce @ '':'' @ nat_str taken"

definition cloud_claim_request :: "string \<Rightarrow> watch_claim_config \<Rightarrow> nat \<Rightarrow> nat \<Rightarrow> claim_due_watch" where
  "cloud_claim_request tenant config nonce taken =
     \<lparr>cd_tenant = tenant, cd_now = wc_now config, cd_owner = cloud_lease_owner (wc_now config) nonce taken,
      cd_lease_seconds = wc_lease_seconds config\<rparr>"

definition claim_message :: "claimed_watch \<Rightarrow> watch_claim_message" where
  "claim_message c = \<lparr>wm_tenant = w_tenant (cl_watch c), wm_watch = w_id (cl_watch c), wm_query = w_query (cl_watch c),
     wm_sources = w_sources (cl_watch c), wm_cursor = w_cursor (cl_watch c), wm_owner = cl_owner c,
     wm_expires = cl_expires c\<rparr>"

text \<open>\<open>while count < claim_limit\<close>: the third argument is \<open>claim_limit - count\<close>.\<close>

fun enqueue_loop ::
  "store_ops \<Rightarrow> watch_queue \<Rightarrow> (nat \<Rightarrow> nat) \<Rightarrow> string \<Rightarrow> watch_claim_config \<Rightarrow> nat \<Rightarrow> nat \<Rightarrow> db \<Rightarrow>
   nat store_result \<times> watch_claim_message list \<times> db" where
  "enqueue_loop store queue nonce tenant config 0 taken db = (Ok taken, [], db)"
| "enqueue_loop store queue nonce tenant config (Suc left) taken db =
     (case st_claim_due_watch store (cloud_claim_request tenant config (nonce taken) taken) db of
        (Err e, db) \<Rightarrow> (Err e, [], db)
      | (Ok None, db) \<Rightarrow> (Ok taken, [], db)
      | (Ok (Some claimed), db) \<Rightarrow>
          (case queue (claim_message claimed) of
             Err e \<Rightarrow> (Err (Store_Backend e), [], db)
           | Ok _ \<Rightarrow>
               (case enqueue_loop store queue nonce tenant config left (taken + 1) db of
                  (r, ms, db) \<Rightarrow> (r, claim_message claimed # ms, db))))"

definition enqueue_due_watches ::
  "store_ops \<Rightarrow> watch_queue \<Rightarrow> (nat \<Rightarrow> nat) \<Rightarrow> string \<Rightarrow> watch_claim_config \<Rightarrow> db \<Rightarrow>
   nat store_result \<times> watch_claim_message list \<times> db" where
  "enqueue_due_watches store queue nonce tenant config db =
     enqueue_loop store queue nonce tenant config (wc_limit config) 0 db"

fun enqueue_tenants ::
  "store_ops \<Rightarrow> watch_queue \<Rightarrow> (string \<Rightarrow> nat \<Rightarrow> nat) \<Rightarrow> watch_claim_config \<Rightarrow> string list \<Rightarrow> nat \<Rightarrow> db \<Rightarrow>
   nat store_result \<times> watch_claim_message list \<times> db" where
  "enqueue_tenants store queue nonce config [] sent_before db = (Ok sent_before, [], db)"
| "enqueue_tenants store queue nonce config (t # ts) sent_before db =
     (if wc_limit config \<le> sent_before then (Ok sent_before, [], db)
      else
        (case enqueue_due_watches store queue (nonce t) t (config\<lparr>wc_limit := wc_limit config - sent_before\<rparr>) db of
           (Err e, ms, db) \<Rightarrow> (Err e, ms, db)
         | (Ok n, ms, db) \<Rightarrow>
             (case enqueue_tenants store queue nonce config ts (sent_before + n) db of
                (r, ms', db) \<Rightarrow> (r, ms @ ms', db))))"

definition enqueue_due_watches_for_tenants ::
  "store_ops \<Rightarrow> watch_queue \<Rightarrow> (string \<Rightarrow> nat \<Rightarrow> nat) \<Rightarrow> string list \<Rightarrow> watch_claim_config \<Rightarrow> db \<Rightarrow>
   nat store_result \<times> watch_claim_message list \<times> db" where
  "enqueue_due_watches_for_tenants store queue nonce tenants config db =
     enqueue_tenants store queue nonce config (scheduled_tenants tenants (wc_now config) (wc_limit config)) 0 db"

section \<open>Webhook configuration\<close>

type_synonym webhook_entry = "string \<times> string option"
type_synonym tenant_webhooks = "(string \<times> delivery_config) list"

definition json_opt_string :: "json \<Rightarrow> string option option" where
  "json_opt_string v = (if v = JNull then Some None else map_option Some (as_str v))"

text \<open>A struct is read from an object, where a missing option is \<open>None\<close>, or from an array of all its fields.\<close>

fun webhook_entry_of_json :: "json \<Rightarrow> webhook_entry option" where
  "webhook_entry_of_json (JObject kvs) =
     (case Option.bind (map_of kvs ''url'') as_str of
        None \<Rightarrow> None
      | Some url \<Rightarrow> (case map_of kvs ''token'' of
            None \<Rightarrow> Some (url, None)
          | Some v \<Rightarrow> map_option (Pair url) (json_opt_string v)))"
| "webhook_entry_of_json (JArray [u, t]) =
     (case as_str u of None \<Rightarrow> None | Some url \<Rightarrow> map_option (Pair url) (json_opt_string t))"
| "webhook_entry_of_json _ = None"

definition parse_entries :: "json option \<Rightarrow> (string \<times> webhook_entry) list store_result" where
  "parse_entries parsed =
     ok_or (Store_Validation ''webhook configuration is invalid'')
       (case Option.bind parsed as_object of
          None \<Rightarrow> None
        | Some kvs \<Rightarrow>
            if list_all (\<lambda>e. webhook_entry_of_json (snd e) \<noteq> None) kvs
            then Some (bt_collect (map (\<lambda>e. (fst e, the (webhook_entry_of_json (snd e)))) kvs)) else None)"

definition ensure_authorized :: "string \<Rightarrow> string list \<Rightarrow> unit store_result" where
  "ensure_authorized tenant authorized =
     (if list_ex (\<lambda>a. a = tenant) authorized then Ok ()
      else Err (Store_Validation ''webhook tenant is not authorized''))"

fun tenant_configs ::
  "net_libs \<Rightarrow> string list \<Rightarrow> (string \<times> webhook_entry) list \<Rightarrow> tenant_webhooks store_result" where
  "tenant_configs N authorized [] = Ok []"
| "tenant_configs N authorized ((tenant, url, token) # es) =
     and_then (ensure_authorized tenant authorized) (\<lambda>_.
     and_then (delivery_config_new N url (case token of None \<Rightarrow> None | Some t \<Rightarrow> if t = [] then None else Some t)) (\<lambda>c.
     and_then (tenant_configs N authorized es) (\<lambda>cs. Ok ((tenant, c) # cs))))"

definition webhook_secret :: "string option \<Rightarrow> string option \<Rightarrow> string option" where
  "webhook_secret secret var =
     (let given = (\<lambda>v. case v of None \<Rightarrow> None | Some s \<Rightarrow> if trim s = [] then None else Some s)
      in case given secret of Some s \<Rightarrow> Some s | None \<Rightarrow> given var)"

definition webhooks_from_env ::
  "net_libs \<Rightarrow> (string \<Rightarrow> json option) \<Rightarrow> string option \<Rightarrow> string option \<Rightarrow> string list \<Rightarrow> tenant_webhooks option store_result" where
  "webhooks_from_env N parse secret var authorized =
     (case webhook_secret secret var of
        None \<Rightarrow> Ok None
      | Some raw \<Rightarrow>
          and_then (parse_entries (parse raw)) (\<lambda>entries.
          and_then (tenant_configs N authorized entries) (\<lambda>configs.
            Ok (if configs = [] then None else Some configs))))"

section \<open>Running a message\<close>

definition catalog_collect_search ::
  "libs \<Rightarrow> catalog_source list \<Rightarrow> search_request \<Rightarrow> engine_limits \<Rightarrow> comsat_record list \<times> diagnostic list" where
  "catalog_collect_search L sources request limits =
     collect_events (stream_spec L limits sources (Plan_Search request)) ([], [])"

definition cloud_diagnostics_error :: "diagnostic list \<Rightarrow> string option" where
  "cloud_diagnostics_error ds =
     (if ds = [] then None
      else Some (join ''; '' (map (\<lambda>g. sid_str (diag_source g) @ '':'' @ class_debug (diag_class g) @ '':'' @ diag_message g) ds)))"

definition cloud_run_id :: "watch_claim_message \<Rightarrow> string" where
  "cloud_run_id m = wm_watch m @ '':'' @ wm_owner m"

definition cloud_start_request :: "watch_claim_message \<Rightarrow> int \<Rightarrow> start_watch_run" where
  "cloud_start_request m now =
     \<lparr>sr_tenant = wm_tenant m, sr_watch = wm_watch m, sr_run = cloud_run_id m, sr_key = wm_owner m,
      sr_owner = wm_owner m, sr_started = now\<rparr>"

definition cloud_search_request :: "watch_claim_message \<Rightarrow> search_request" where
  "cloud_search_request m = \<lparr>sr_query = wm_query m, sr_sources = wm_sources m, sr_strict = False\<rparr>"

definition cloud_delivery_for_run ::
  "net_libs \<Rightarrow> tenant_webhooks \<Rightarrow> string \<Rightarrow> string \<Rightarrow> string \<Rightarrow> watch_run_delivery option" where
  "cloud_delivery_for_run N configs tenant watch run =
     map_option (\<lambda>c. delivery_for_run N c tenant watch run) (map_of configs tenant)"

definition cloud_completion ::
  "net_libs \<Rightarrow> tenant_webhooks option \<Rightarrow> watch_claim_message \<Rightarrow> string \<Rightarrow> comsat_record list \<times> diagnostic list \<Rightarrow> int \<Rightarrow>
   complete_watch_run" where
  "cloud_completion N webhooks m run outcome done_at =
     \<lparr>cr_tenant = wm_tenant m, cr_watch = wm_watch m, cr_run = run, cr_owner = wm_owner m, cr_finished = done_at,
      cr_records = fst outcome, cr_cursor = wm_cursor m, cr_error = cloud_diagnostics_error (snd outcome),
      cr_delivery = Option.bind webhooks (\<lambda>configs. cloud_delivery_for_run N configs (wm_tenant m) (wm_watch m) run)\<rparr>"

definition run_claimed_watch ::
  "net_libs \<Rightarrow> store_ops \<Rightarrow> catalog_source list \<Rightarrow> tenant_webhooks option \<Rightarrow> watch_claim_message \<Rightarrow> int \<Rightarrow> int \<Rightarrow> db \<Rightarrow>
   unit store_result \<times> db" where
  "run_claimed_watch N store sources webhooks m now done_at db =
     (case st_start_watch_run store (cloud_start_request m now) db of
        (Err e, db) \<Rightarrow> (Err e, db)
      | (Ok run, db) \<Rightarrow>
          if run_status run \<noteq> ''running'' then (Ok (), db)
          else
            (let outcome = catalog_collect_search (base_libs N) sources (cloud_search_request m) cloud_limits
             in case st_complete_watch_run store (cloud_completion N webhooks m (run_id run) outcome done_at) db of
                  (Err e, db) \<Rightarrow> (Err e, db)
                | (Ok _, db) \<Rightarrow> (Ok (), db)))"

section \<open>Delivering notifications\<close>

definition delivery_lease_owner :: "int \<Rightarrow> nat \<Rightarrow> string" where
  "delivery_lease_owner now nonce = ''cloud-delivery:'' @ int_str now @ '':'' @ hex_str nonce"

definition deliver_one ::
  "net_libs \<Rightarrow> http_client \<Rightarrow> store_ops \<Rightarrow> tenant_webhooks \<Rightarrow> delivery_attempt \<Rightarrow> int \<Rightarrow> db \<Rightarrow>
   delivery option store_result \<times> http_request list \<times> db" where
  "deliver_one N client store configs attempt done_at db =
     (case map_of configs (da_tenant attempt) of
        None \<Rightarrow> (Ok None, [], db)
      | Some config \<Rightarrow>
          deliver_pending_webhook (st_claim_pending_delivery store) (st_complete_delivery store) N client config
            attempt done_at db)"

definition notification_tenant_limit :: nat where "notification_tenant_limit = 4"

record delivery_stats =
  ds_configured :: nat
  ds_attempted :: nat

text \<open>Each tenant has its random number and its reading of the clock at the end of the delivery.\<close>

fun deliver_tenants ::
  "net_libs \<Rightarrow> http_client \<Rightarrow> store_ops \<Rightarrow> tenant_webhooks \<Rightarrow> (string \<Rightarrow> nat) \<Rightarrow> (string \<Rightarrow> int) \<Rightarrow> int \<Rightarrow>
   string list \<Rightarrow> delivery_stats \<Rightarrow> db \<Rightarrow> delivery_stats store_result \<times> http_request list \<times> db" where
  "deliver_tenants N client store configs nonce clock now [] stats db = (Ok stats, [], db)"
| "deliver_tenants N client store configs nonce clock now (t # ts) stats db =
     (if map_of configs t = None then deliver_tenants N client store configs nonce clock now ts stats db
      else
        (case deliver_one N client store configs
            \<lparr>da_tenant = t, da_owner = delivery_lease_owner now (nonce t), da_now = now\<rparr> (clock t) db of
           (Err e, reqs, db) \<Rightarrow> (Err e, reqs, db)
         | (Ok d, reqs, db) \<Rightarrow>
             (case deliver_tenants N client store configs nonce clock now ts
                \<lparr>ds_configured = ds_configured stats + 1,
                 ds_attempted = (if d = None then ds_attempted stats else ds_attempted stats + 1)\<rparr> db of
                (r, reqs', db) \<Rightarrow> (r, reqs @ reqs', db))))"

definition deliver_scheduled ::
  "net_libs \<Rightarrow> http_client \<Rightarrow> store_ops \<Rightarrow> tenant_webhooks \<Rightarrow> (string \<Rightarrow> nat) \<Rightarrow> (string \<Rightarrow> int) \<Rightarrow> int \<Rightarrow> db \<Rightarrow>
   delivery_stats store_result \<times> http_request list \<times> db" where
  "deliver_scheduled N client store configs nonce clock now db =
     deliver_tenants N client store configs nonce clock now
       (scheduled_tenants (map fst configs) now notification_tenant_limit) \<lparr>ds_configured = 0, ds_attempted = 0\<rparr> db"

section \<open>The queue event\<close>

text \<open>A message the handler does not settle is acknowledged when the batch ends.\<close>

datatype settlement = Unsettled | Acked | Retried

record readings =
  rd_started :: int
  rd_done :: int
  rd_delivery :: int
  rd_delivered :: int
  rd_nonce :: nat

definition handle_watch_error :: "store_error \<Rightarrow> settlement" where
  "handle_watch_error e = (if should_retry e then Retried else Acked)"

definition handle_notification_error :: "store_error \<Rightarrow> settlement" where
  "handle_notification_error e = (if should_retry e then Retried else Unsettled)"

definition deliver_after_watch ::
  "net_libs \<Rightarrow> http_client \<Rightarrow> store_ops \<Rightarrow> tenant_webhooks option \<Rightarrow> string \<Rightarrow> readings \<Rightarrow> db \<Rightarrow>
   settlement \<times> http_request list \<times> db" where
  "deliver_after_watch N client store webhooks tenant at db =
     (case webhooks of
        None \<Rightarrow> (Unsettled, [], db)
      | Some configs \<Rightarrow>
          (case deliver_one N client store configs
              \<lparr>da_tenant = tenant, da_owner = delivery_lease_owner (rd_delivery at) (rd_nonce at),
               da_now = rd_delivery at\<rparr> (rd_delivered at) db of
             (Ok _, reqs, db) \<Rightarrow> (Unsettled, reqs, db)
           | (Err e, reqs, db) \<Rightarrow> (handle_notification_error e, reqs, db)))"

definition process_watch_message ::
  "net_libs \<Rightarrow> http_client \<Rightarrow> store_ops \<Rightarrow> catalog_source list \<Rightarrow> tenant_webhooks option \<Rightarrow> watch_claim_message \<Rightarrow>
   readings \<Rightarrow> db \<Rightarrow> settlement \<times> http_request list \<times> db" where
  "process_watch_message N client store sources webhooks m at db =
     (case run_claimed_watch N store sources webhooks m (rd_started at) (rd_done at) db of
        (Err e, db) \<Rightarrow> (handle_watch_error e, [], db)
      | (Ok _, db) \<Rightarrow> deliver_after_watch N client store webhooks (wm_tenant m) at db)"

fun process_messages ::
  "net_libs \<Rightarrow> http_client \<Rightarrow> store_ops \<Rightarrow> catalog_source list \<Rightarrow> tenant_webhooks option \<Rightarrow>
   (watch_claim_message \<times> readings) list \<Rightarrow> db \<Rightarrow> settlement list \<times> http_request list \<times> db" where
  "process_messages N client store sources webhooks [] db = ([], [], db)"
| "process_messages N client store sources webhooks ((m, at) # ms) db =
     (case process_watch_message N client store sources webhooks m at db of
        (s, reqs, db) \<Rightarrow>
          (case process_messages N client store sources webhooks ms db of
             (ss, reqs', db) \<Rightarrow> (s # ss, reqs @ reqs', db)))"

section \<open>The events\<close>

record worker_env =
  we_auth :: cloud_env
  we_secret_webhooks :: "string option"
  we_var_webhooks :: "string option"
  we_claim_limit :: "string option"
  we_lease_seconds :: "string option"

definition min_watch_lease_seconds :: nat where "min_watch_lease_seconds = 300"
definition max_watch_claim_limit :: nat where "max_watch_claim_limit = 12"

definition env_number :: "nat \<Rightarrow> string option \<Rightarrow> nat \<Rightarrow> nat" where
  "env_number width var fallback =
     (case Option.bind var (parse_unsigned width) of None \<Rightarrow> fallback | Some n \<Rightarrow> n)"

definition watch_claim_limit :: "worker_env \<Rightarrow> nat" where
  "watch_claim_limit env = min (env_number (2 ^ 32) (we_claim_limit env) max_watch_claim_limit) max_watch_claim_limit"

definition watch_lease_seconds :: "worker_env \<Rightarrow> nat" where
  "watch_lease_seconds env = max (env_number (2 ^ 64) (we_lease_seconds env) min_watch_lease_seconds) min_watch_lease_seconds"

definition tenant_ids_from_env :: "tool_host \<Rightarrow> cloud_env \<Rightarrow> (string list, unit) result" where
  "tenant_ids_from_env H env = and_then (tenant_token_map H env) (\<lambda>m. Ok (tenant_ids m))"

definition event_setup :: "net_libs \<Rightarrow> tool_host \<Rightarrow> worker_env \<Rightarrow> (string list \<times> tenant_webhooks option, unit) result" where
  "event_setup N H env =
     and_then (tenant_ids_from_env H (we_auth env)) (\<lambda>tenants.
     and_then (map_err (\<lambda>_. ()) (webhooks_from_env N (parse_json H) (we_secret_webhooks env) (we_var_webhooks env) tenants)) (\<lambda>webhooks.
       Ok (tenants, webhooks)))"

definition queue_event ::
  "net_libs \<Rightarrow> http_client \<Rightarrow> tool_host \<Rightarrow> worker_env \<Rightarrow> store_ops \<Rightarrow> catalog_source list \<Rightarrow>
   (watch_claim_message \<times> readings) list \<Rightarrow> db \<Rightarrow> (settlement list, unit) result \<times> http_request list \<times> db" where
  "queue_event N client H env store sources batch db =
     (case event_setup N H env of
        Err e \<Rightarrow> (Err e, [], db)
      | Ok (tenants, webhooks) \<Rightarrow>
          (case process_messages N client store sources webhooks batch db of
             (ss, reqs, db) \<Rightarrow> (Ok ss, reqs, db)))"

definition scheduled_event ::
  "net_libs \<Rightarrow> http_client \<Rightarrow> tool_host \<Rightarrow> worker_env \<Rightarrow> store_ops \<Rightarrow> watch_queue \<Rightarrow> (string \<Rightarrow> nat \<Rightarrow> nat) \<Rightarrow>
   (string \<Rightarrow> nat) \<Rightarrow> (string \<Rightarrow> int) \<Rightarrow> int \<Rightarrow> db \<Rightarrow>
   (unit, unit) result \<times> watch_claim_message list \<times> http_request list \<times> db" where
  "scheduled_event N client H env store queue nonce delivery_nonce clock now db =
     (case event_setup N H env of
        Err e \<Rightarrow> (Err e, [], [], db)
      | Ok (tenants, webhooks) \<Rightarrow>
          (case enqueue_due_watches_for_tenants store queue nonce tenants
              \<lparr>wc_now = now, wc_limit = watch_claim_limit env, wc_lease_seconds = watch_lease_seconds env\<rparr> db of
             (Err e, ms, db) \<Rightarrow> (Err (), ms, [], db)
           | (Ok _, ms, db) \<Rightarrow>
               (case webhooks of
                  None \<Rightarrow> (Ok (), ms, [], db)
                | Some configs \<Rightarrow>
                    (case deliver_scheduled N client store configs delivery_nonce clock now db of
                       (_, reqs, db) \<Rightarrow> (Ok (), ms, reqs, db)))))"

end
