(* ===== verification/Cloud_Laws.thy ===== *)
theory Cloud_Laws
  imports Cloud_Watch App_Laws Webhook_Laws
begin

text \<open>
  What the scheduled work of the worker promises over D1: a scheduled event leases each due watch it
  queues, once; a message that ran once does nothing when the queue delivers it again.
\<close>

section \<open>Leasing\<close>

definition message_key :: "watch_claim_message \<Rightarrow> string \<times> string" where
  "message_key m = (wm_tenant m, wm_watch m)"

definition leased_to :: "watch_claim_message \<Rightarrow> watch \<Rightarrow> bool" where
  "leased_to m v \<longleftrightarrow> watch_key v = message_key m \<and> w_lease_owner v = Some (wm_owner m) \<and>
     w_lease_expires v = Some (wm_expires m)"

definition unleased :: "db \<Rightarrow> db" where
  "unleased db = db\<lparr>db_watches := map (\<lambda>w. w\<lparr>w_lease_owner := None, w_lease_expires := None\<rparr>) (db_watches db)\<rparr>"

text \<open>From one database to another by leasing, for each message, the watch it names.\<close>

definition leases :: "int \<Rightarrow> string set \<Rightarrow> db \<Rightarrow> watch_claim_message list \<Rightarrow> db \<Rightarrow> bool" where
  "leases now ts db ms db' \<longleftrightarrow> db_ok db' \<and> unleased db' = unleased db \<and>
     (\<forall>v \<in> set (db_watches db). \<not> lease_free now v \<longrightarrow> v \<in> set (db_watches db')) \<and>
     (\<forall>v \<in> set (db_watches db'). lease_free now v \<longrightarrow> v \<in> set (db_watches db)) \<and>
     (\<forall>m \<in> set ms. wm_tenant m \<in> ts \<and>
        (\<exists>w \<in> set (db_watches db). watch_due (wm_tenant m) now w \<and> w_id w = wm_watch m) \<and>
        now < wm_expires m \<and> (\<exists>v \<in> set (db_watches db'). leased_to m v)) \<and>
     distinct (map message_key ms)"

lemma leased_not_free: "leased_to m v \<Longrightarrow> now < wm_expires m \<Longrightarrow> \<not> lease_free now v"
  by (simp add: leased_to_def lease_free_def expired_at_def)

lemma due_free: "watch_due t now w \<Longrightarrow> lease_free now w"
  by (simp add: watch_due_def)

lemma leases_none: "db_ok db \<Longrightarrow> leases now ts db [] db"
  by (simp add: leases_def)

lemma leases_mono: "leases now ts db ms db' \<Longrightarrow> ts \<subseteq> us \<Longrightarrow> leases now us db ms db'"
  by (auto simp: leases_def)

lemma leasesD:
  assumes "leases now ts db ms db'" "m \<in> set ms"
  obtains v w where "w \<in> set (db_watches db)" "watch_due (wm_tenant m) now w" "w_id w = wm_watch m"
    "v \<in> set (db_watches db')" "leased_to m v" "now < wm_expires m" "wm_tenant m \<in> ts"
  using assms by (simp add: leases_def) blast

lemma leases_parts:
  assumes "leases now ts db ms db'"
  shows "db_ok db'" "unleased db' = unleased db" "distinct (map message_key ms)"
    "v \<in> set (db_watches db) \<Longrightarrow> \<not> lease_free now v \<Longrightarrow> v \<in> set (db_watches db')"
    "v \<in> set (db_watches db') \<Longrightarrow> lease_free now v \<Longrightarrow> v \<in> set (db_watches db)"
  using assms by (simp_all only: leases_def) blast+

lemma leases_append:
  assumes "db_ok db" and a: "leases now ts db ms db1" and b: "leases now ts db1 ms' db2"
  shows "leases now ts db (ms @ ms') db2"
proof -
  have disjoint: "message_key m \<noteq> message_key m'" if m: "m \<in> set ms" "m' \<in> set ms'" for m m'
  proof
    assume k: "message_key m = message_key m'"
    obtain v where v: "v \<in> set (db_watches db1)" "leased_to m v" "now < wm_expires m" by (rule leasesD [OF a m(1)])
    obtain w where w: "w \<in> set (db_watches db1)" "watch_due (wm_tenant m') now w" "w_id w = wm_watch m'"
      by (rule leasesD [OF b m(2)])
    have "watch_key w = watch_key v"
      using v(2) w(2,3) k by (simp add: leased_to_def watch_due_def watch_key_def message_key_def)
    then have "w = v"
      using leases_parts(1) [OF a] v(1) w(1) by (intro unique_byD [of watch_key "db_watches db1"]) (auto simp: db_ok_def keys_ok_def)
    with v w show False using leased_not_free due_free by blast
  qed
  have each: "wm_tenant m \<in> ts \<and> (\<exists>w \<in> set (db_watches db). watch_due (wm_tenant m) now w \<and> w_id w = wm_watch m) \<and>
      now < wm_expires m \<and> (\<exists>v \<in> set (db_watches db2). leased_to m v)"
    if m: "m \<in> set (ms @ ms')" for m
  proof (cases "m \<in> set ms")
    case True
    obtain v w where v: "v \<in> set (db_watches db1)" "leased_to m v" "now < wm_expires m" "wm_tenant m \<in> ts"
      and w: "w \<in> set (db_watches db)" "watch_due (wm_tenant m) now w" "w_id w = wm_watch m" by (rule leasesD [OF a True])
    have "v \<in> set (db_watches db2)" using v(1) leased_not_free [OF v(2,3)] by (rule leases_parts(4) [OF b])
    with v(2-) w show ?thesis by blast
  next
    case False
    with m have "m \<in> set ms'" by simp
    then obtain v w where w: "w \<in> set (db_watches db1)" "watch_due (wm_tenant m) now w" "w_id w = wm_watch m"
      and v: "v \<in> set (db_watches db2)" "leased_to m v" "now < wm_expires m" "wm_tenant m \<in> ts" by (rule leasesD [OF b])
    have "w \<in> set (db_watches db)" using w(1) due_free [OF w(2)] by (rule leases_parts(5) [OF a])
    with w(2,3) v show ?thesis by blast
  qed
  then have each': "\<forall>m \<in> set (ms @ ms'). wm_tenant m \<in> ts \<and>
      (\<exists>w \<in> set (db_watches db). watch_due (wm_tenant m) now w \<and> w_id w = wm_watch m) \<and>
      now < wm_expires m \<and> (\<exists>v \<in> set (db_watches db2). leased_to m v)" by blast
  have "distinct (map message_key (ms @ ms'))"
    using leases_parts(3) [OF a] leases_parts(3) [OF b] disjoint by (fastforce simp: disjoint_iff)
  moreover have "\<forall>v \<in> set (db_watches db). \<not> lease_free now v \<longrightarrow> v \<in> set (db_watches db2)"
    using leases_parts(4) [OF a] leases_parts(4) [OF b] by blast
  moreover have "\<forall>v \<in> set (db_watches db2). lease_free now v \<longrightarrow> v \<in> set (db_watches db)"
    using leases_parts(5) [OF a] leases_parts(5) [OF b] by blast
  ultimately show ?thesis
    unfolding leases_def by (intro conjI trans [OF leases_parts(2) [OF b] leases_parts(2) [OF a]] leases_parts(1) [OF b] each')
qed

lemma leases_claim:
  assumes ok: "db_ok db" and w: "w \<in> set (db_watches db)" "watch_due t now w" and e: "now < e"
    and m: "message_key m = watch_key w" "wm_owner m = owner" "wm_expires m = e"
  shows "leases now {t} db [m] (leased_db w owner e db)"
proof -
  let ?db = "leased_db w owner e db"
  have "unleased ?db = unleased db"
    by (simp add: unleased_def leased_db_def lease_to_def)
  moreover have "lease_to owner e w \<in> set (db_watches ?db)" "leased_to m (lease_to owner e w)"
    using w(1) m by (auto simp: leased_db_def leased_to_def lease_to_def watch_key_def image_iff)
  moreover have "\<forall>v \<in> set (db_watches db). \<not> lease_free now v \<longrightarrow> v \<in> set (db_watches ?db)"
    using due_free [OF w(2)] by (auto simp: leased_db_def image_iff)
  moreover have "\<forall>v \<in> set (db_watches ?db). lease_free now v \<longrightarrow> v \<in> set (db_watches db)"
    using e by (auto simp: leased_db_def lease_to_def lease_free_def expired_at_def)
  moreover have "wm_tenant m = t" "w_id w = wm_watch m"
    using m(1) w(2) by (simp_all add: message_key_def watch_key_def watch_due_def)
  ultimately show ?thesis using leased_ok [OF ok] w e m unfolding leases_def by auto
qed

lemma d1_claim_leases:
  assumes ok: "db_ok db" and now: "clock_ok (cd_now r)" and c: "d1_claim_due_watch r db = (res, db')"
  obtains e where "res = Err e" "db' = db" | "res = Ok None" "db' = db"
  | claimed where "res = Ok (Some claimed)" "leases (cd_now r) {cd_tenant r} db [claim_message claimed] db'"
proof (cases "claim_due_watch_validate r")
  case (Inl e)
  with c have "res = Err e" "db' = db" by (simp_all add: d1_claim_due_watch_def)
  then show thesis by (rule that(1))
next
  case (Inr u)
  then have v: "claim_due_watch_validate r = Ok ()" by simp
  then have lease: "0 < cd_lease_seconds r" "cd_lease_seconds r \<le> 31536000"
    by (auto simp: claim_due_watch_validate_def validate_interval_def split: if_splits)
  show thesis
  proof (cases "select_due_watch r db")
    case None
    with c v have "res = Ok None" "db' = db" by (simp_all add: d1_claim_due_watch_same [OF ok] sq_claim_none)
    then show thesis by (rule that(2))
  next
    case (Some w)
    note w = select_due_watch_Some [OF Some]
    let ?got = "claimed_row \<lparr>cl_watch = w, cl_owner = cd_owner r, cl_expires = cd_now r + int (cd_lease_seconds r)\<rparr>"
    from c sq_claim_takes [OF ok v Some clock_ok_add [OF now lease(2)]] have
      "res = Ok (Some ?got)" "db' = leased_db w (cd_owner r) (cd_now r + int (cd_lease_seconds r)) db"
      by (simp_all add: d1_claim_due_watch_same [OF ok])
    moreover have "leases (cd_now r) {cd_tenant r} db [claim_message ?got] (leased_db w (cd_owner r) (cd_now r + int (cd_lease_seconds r)) db)"
      using w lease(1) by (intro leases_claim [OF ok]) (auto simp: claim_message_def claimed_row_def message_key_def watch_key_def)
    ultimately show thesis by (intro that(3)) simp_all
  qed
qed

text \<open>A message the queue refuses leaves its watch leased: the lease has to expire. The ghost list of all
  claims holds it, the list of messages sent does not.\<close>

lemma enqueue_loop_leases:
  assumes "db_ok db" "clock_ok (wc_now config)"
    and "enqueue_loop (d1_store L) queue nonce tenant config left taken db = (r, ms, db')"
  shows "\<exists>lost. leases (wc_now config) {tenant} db (ms @ lost) db' \<and> length ms \<le> left \<and>
    (case r of Ok n \<Rightarrow> lost = [] \<and> n = taken + length ms | Err _ \<Rightarrow> length lost \<le> 1 \<and> length (ms @ lost) \<le> left)"
  using assms
proof (induction left arbitrary: taken db r ms db')
  case 0
  then show ?case by (auto simp: leases_none)
next
  case (Suc left)
  let ?c = "cloud_claim_request tenant config (nonce taken) taken"
  have c: "cd_now ?c = wc_now config" "cd_tenant ?c = tenant" by (simp_all add: cloud_claim_request_def)
  obtain res db1 where claim: "d1_claim_due_watch ?c db = (res, db1)" by (cases "d1_claim_due_watch ?c db")
  have now: "clock_ok (cd_now ?c)" using Suc.prems(2) c by simp
  from Suc.prems(1) now claim show ?case
  proof (cases rule: d1_claim_leases)
    case (1 e)
    with Suc.prems claim show ?thesis by (auto simp: d1_store_def leases_none intro!: exI [of _ "[]"])
  next
    case 2
    with Suc.prems claim show ?thesis by (auto simp: d1_store_def leases_none)
  next
    case (3 claimed)
    then have one: "leases (wc_now config) {tenant} db [claim_message claimed] db1" using c by simp
    then have ok1: "db_ok db1" by (simp add: leases_def)
    show ?thesis
    proof (cases "queue (claim_message claimed)")
      case (Inl e)
      with Suc.prems(3) claim 3(1) one show ?thesis
        by (auto simp: d1_store_def intro!: exI [of _ "[claim_message claimed]"])
    next
      case (Inr u)
      obtain r2 ms2 db2 where rest: "enqueue_loop (d1_store L) queue nonce tenant config left (taken + 1) db1 = (r2, ms2, db2)"
        by (metis prod_cases3)
      from Suc.IH [OF ok1 Suc.prems(2) rest] obtain lost where
        ih: "leases (wc_now config) {tenant} db1 (ms2 @ lost) db2" "length ms2 \<le> left"
          "case r2 of Ok n \<Rightarrow> lost = [] \<and> n = taken + 1 + length ms2 | Err _ \<Rightarrow> length lost \<le> 1 \<and> length (ms2 @ lost) \<le> left"
        by blast
      have "r = r2" "ms = claim_message claimed # ms2" "db' = db2"
        using Suc.prems(3) claim 3(1) Inr rest by (simp_all add: d1_store_def)
      with leases_append [OF Suc.prems(1) one ih(1)] ih(2,3) show ?thesis
        by (intro exI [of _ lost]) (auto split: sum.splits)
    qed
  qed
qed

lemma enqueue_tenants_leases:
  assumes "db_ok db" "clock_ok (wc_now config)" "before \<le> wc_limit config"
    and "enqueue_tenants (d1_store L) queue nonce config ts before db = (r, ms, db')"
  shows "\<exists>lost. leases (wc_now config) (set ts) db (ms @ lost) db' \<and> before + length ms \<le> wc_limit config \<and>
    (case r of Ok n \<Rightarrow> lost = [] \<and> n = before + length ms | Err _ \<Rightarrow> length lost \<le> 1)"
  using assms
proof (induction ts arbitrary: before db r ms db')
  case Nil
  then show ?case by (auto simp: leases_none)
next
  case (Cons t ts)
  show ?case
  proof (cases "wc_limit config \<le> before")
    case True
    with Cons.prems show ?thesis by (auto simp: leases_none)
  next
    case False
    let ?config = "config\<lparr>wc_limit := wc_limit config - before\<rparr>"
    obtain r1 ms1 db1 where first: "enqueue_due_watches (d1_store L) queue (nonce t) t ?config db = (r1, ms1, db1)"
      by (metis prod_cases3)
    have now: "clock_ok (wc_now ?config)" using Cons.prems(2) by simp
    from enqueue_loop_leases [OF Cons.prems(1) now first [unfolded enqueue_due_watches_def]] obtain lost1 where
      l1: "leases (wc_now config) {t} db (ms1 @ lost1) db1" "length ms1 \<le> wc_limit config - before"
        "case r1 of Ok n \<Rightarrow> lost1 = [] \<and> n = length ms1 | Err _ \<Rightarrow> length lost1 \<le> 1"
      by (cases r1) auto
    note one = leases_mono [OF l1(1), of "set (t # ts)", simplified]
    show ?thesis
    proof (cases r1)
      case (Inl e)
      with Cons.prems(4) False first have "r = Err e" "ms = ms1" "db' = db1" by simp_all
      with one l1(2,3) Inl False show ?thesis by (intro exI [of _ lost1]) auto
    next
      case (Inr n)
      then have n: "lost1 = []" "n = length ms1" using l1(3) by simp_all
      obtain r2 ms2 db2 where rest: "enqueue_tenants (d1_store L) queue nonce config ts (before + n) db1 = (r2, ms2, db2)"
        by (metis prod_cases3)
      have ok1: "db_ok db1" and room: "before + n \<le> wc_limit config" using l1 n False by (simp_all add: leases_def)
      from Cons.IH [OF ok1 Cons.prems(2) room rest] obtain lost where
        l2: "leases (wc_now config) (set ts) db1 (ms2 @ lost) db2" "before + n + length ms2 \<le> wc_limit config"
          "case r2 of Ok k \<Rightarrow> lost = [] \<and> k = before + n + length ms2 | Err _ \<Rightarrow> length lost \<le> 1" by blast
      have "r = r2" "ms = ms1 @ ms2" "db' = db2" using Cons.prems(4) False first Inr rest by simp_all
      with leases_append [OF Cons.prems(1) one [unfolded n, simplified] leases_mono [OF l2(1), of "set (t # ts)", simplified]]
        l2(2,3) n show ?thesis
        by (intro exI [of _ lost]) (auto split: sum.splits)
    qed
  qed
qed


definition example_config :: watch_claim_config where
  "example_config = \<lparr>wc_now = 110, wc_limit = 12, wc_lease_seconds = 300\<rparr>"


section \<open>Redelivery\<close>

definition ran_once :: "watch_claim_message \<Rightarrow> db \<Rightarrow> bool" where
  "ran_once m db \<longleftrightarrow> start_watch_run_validate (cloud_start_request m 0) = Ok () \<and>
     (\<exists>x \<in> set (db_runs db). run_idem x = (wm_tenant m, wm_watch m, wm_owner m) \<and> run_status x \<noteq> ''running'')"

lemma start_validate_time: "start_watch_run_validate (cloud_start_request m now) = start_watch_run_validate (cloud_start_request m 0)"
  by (simp add: start_watch_run_validate_def cloud_start_request_def)

lemma idem_unique: "db_ok db \<Longrightarrow> x \<in> set (db_runs db) \<Longrightarrow> y \<in> set (db_runs db) \<Longrightarrow> run_idem x = run_idem y \<Longrightarrow> x = y"
  by (intro unique_byD [of run_idem "db_runs db"]) (auto simp: db_ok_def keys_ok_def)

lemma start_again:
  assumes "db_ok db" "start_watch_run_validate r = Ok ()" "x \<in> set (db_runs db)" "run_idem x = (sr_tenant r, sr_watch r, sr_key r)"
  shows "d1_start_watch_run r db = (Ok x, db)"
proof -
  have "select_first (\<lambda>y. run_idem y = (sr_tenant r, sr_watch r, sr_key r)) (db_runs db) = Some x"
    using assms(1,3,4) by (intro select_first_unique [of run_idem]) (auto simp: db_ok_def keys_ok_def)
  moreover have "exists_where (\<lambda>y. run_idem y = run_idem x) (db_runs db)" using assms(3) by (auto simp: exists_where_def)
  ultimately show ?thesis
    using assms(2,4) by (simp add: d1_start_watch_run_def load_run_def run_idem_def)
qed

lemma ran_once_again:
  "db_ok db \<Longrightarrow> ran_once m db \<Longrightarrow> run_claimed_watch N (d1_store L) sources webhooks m now done_at db = (Ok (), db)"
  using start_again [of db "cloud_start_request m now"] start_validate_time [of m now]
  by (auto simp: ran_once_def run_claimed_watch_def d1_store_def) (auto simp: cloud_start_request_def)

lemma d1_completes_run:
  assumes ok: "db_ok db" and c: "d1_complete_watch_run L r db = (Ok out, db')" and x: "x \<in> set (db_runs db)" "run_pk x = run_of r"
  shows "completed_run r x \<in> set (db_runs db')"
  using ok c
proof (cases rule: d1_complete_cases)
  case (2 db1)
  then obtain run where run: "run \<in> set (db_runs db)" "gate_run r run" and w: "exists_where (gate_watch r) (db_watches db1)"
    by (auto simp: gate_open_def exists_where_def)
  have "x = run"
    using ok x run by (intro unique_byD [of run_pk "db_runs db"]) (auto simp: db_ok_def keys_ok_def gate_run_def run_of_def)
  then show ?thesis
    using update_where_image [OF run(1), of "gate_run r" "completed_run r"] run(2) w
    by (simp add: 2(3,5) complete_watch_sql_watches complete_run_sql_set)
qed simp

lemma run_claimed_ran_once:
  assumes ok: "db_ok db" and r: "run_claimed_watch N (d1_store L) sources webhooks m now done_at db = (Ok (), db')"
  shows "db_ok db' \<and> ran_once m db'"
proof -
  let ?s = "cloud_start_request m now"
  obtain started db1 where s: "d1_start_watch_run ?s db = (started, db1)" by (cases "d1_start_watch_run ?s db")
  with r obtain run where run: "started = Ok run" by (cases started) (simp_all add: run_claimed_watch_def d1_store_def)
  have ok1: "db_ok db1" using start_watch_run_ok [OF ok, of ?s] s by (simp add: d1_same)
  have v: "start_watch_run_validate ?s = Ok ()"
    using s run by (cases "start_watch_run_validate ?s") (simp_all add: d1_start_watch_run_def)
  have "load_run ?s db1 = Ok run" using s run v by (auto simp: d1_start_watch_run_def Let_def split: if_splits)
  then have x: "run \<in> set (db_runs db1)" "run_idem run = (wm_tenant m, wm_watch m, wm_owner m)"
    by (auto simp: load_run_def cloud_start_request_def split: option.splits dest!: select_first_SomeD)
  show ?thesis
  proof (cases "run_status run = ''running''")
    case False
    with r s run have "db' = db1" by (simp add: run_claimed_watch_def d1_store_def)
    with False x ok1 v show ?thesis by (auto simp: ran_once_def start_validate_time [of m now])
  next
    case True
    let ?c = "cloud_completion N webhooks m (run_id run) (catalog_collect_search (base_libs N) sources (cloud_search_request m) cloud_limits) done_at"
    have e: "run_claimed_watch N (d1_store L) sources webhooks m now done_at db =
        (case d1_complete_watch_run L ?c db1 of (Err e, db) \<Rightarrow> (Err e, db) | (Ok _, db) \<Rightarrow> (Ok (), db))"
      using s run True by (simp add: run_claimed_watch_def d1_store_def Let_def)
    obtain res db2 where c2: "d1_complete_watch_run L ?c db1 = (res, db2)" by (cases "d1_complete_watch_run L ?c db1")
    obtain out where c: "d1_complete_watch_run L ?c db1 = (Ok out, db')"
      using r c2 unfolding e by (cases res) simp_all
    have "run_pk run = run_of ?c" using x(2) by (simp add: run_pk_def run_idem_def run_of_def cloud_completion_def)
    from d1_completes_run [OF ok1 c x(1) this] x(2) have "ran_once m db'"
      using v run_status_of_cases [of "cr_error ?c"]
      by (auto simp: ran_once_def start_validate_time [of m now] intro!: bexI [of _ "completed_run ?c run"])
    moreover have "db_ok db'" using d1_complete_watch_run_ok [OF ok1, of L ?c] c by simp
    ultimately show ?thesis by simp
  qed
qed

text \<open>The queue delivers at least once, and a message whose watch ran is harmless the second time: whatever
  the sources, the configuration and the clock then are, running it again over D1 succeeds and leaves
  the database as the first run left it.\<close>

lemma redelivered_message_changes_nothing:
  assumes "db_ok db" "run_claimed_watch N (d1_store L) sources webhooks m now done_at db = (Ok (), db')"
  shows "run_claimed_watch N' (d1_store L') sources' webhooks' m later done_later db' = (Ok (), db')"
  using run_claimed_ran_once [OF assms] ran_once_again by blast

definition example_message :: watch_claim_message where
  "example_message = \<lparr>wm_tenant = ''t'', wm_watch = ''w2'',
     wm_query = \<lparr>q_text = ''rust'', q_limit = None, q_since = None, q_until = None\<rparr>, wm_sources = [Source_Id ''web''],
     wm_cursor = json_object [], wm_owner = ''cloud:110:ff:0'', wm_expires = 410\<rparr>"

definition example_leased :: db where
  "example_leased = leased_db (example_watch ''w2'' 5 (Some ''a'') (Some 100)) ''cloud:110:ff:0'' 410 example_db"

definition example_sources :: "catalog_source list" where
  "example_sources = [example_tool [Chunk (record_to_json (example_record ''web'' ''a'' ''https://x''))] (Tool_Ok JNull)]"

lemma example_cloud_search:
  "catalog_collect_search example_libs example_sources (cloud_search_request example_message) cloud_limits =
     ([example_record ''web'' ''a'' ''https://x''], [])"
  by code_simp

lemma example_cloud_start:
  "d1_start_watch_run (cloud_start_request example_message 120) example_leased =
     (Ok (new_run (cloud_start_request example_message 120)), snd (d1_start_watch_run (cloud_start_request example_message 120) example_leased))"
  by code_simp

lemma example_cloud_completes:
  "case d1_complete_watch_run example_libs (cloud_completion example_net None example_message ''w2:cloud:110:ff:0''
        ([example_record ''web'' ''a'' ''https://x''], []) 130)
      (snd (d1_start_watch_run (cloud_start_request example_message 120) example_leased)) of
     (Ok _, db') \<Rightarrow> map w_next_due (db_watches db') = [10, 190] | _ \<Rightarrow> False"
  by code_simp

end
