(* ===== verification/Source_Http.thy ===== *)
theory Source_Http
  imports Source_Command
begin

text \<open>
  What the source plugins share: HTTP as the plugins use it (\<open>comsat-source/src/http.rs\<close>), the state
  of a plugin's operation, and the readers of derived JSON structs. An operation is a function of its
  state, the requests sent so far and the cooldowns; the client and the clock may answer differently
  after every request. The parsers of the libraries are the fields of \<open>plugin_libs\<close>.
\<close>

record http_response =
  hr_status :: nat
  hr_headers :: "(string \<times> string) list"
  hr_body :: string

record plugin_state =
  pst_sent :: "http_request list"
  pst_until :: "string \<rightharpoonup> int"

text \<open>Time is in nanoseconds.\<close>

record plugin_env =
  pe_client :: "http_request list \<Rightarrow> http_request \<Rightarrow> (http_response, source_error) result"
  pe_clock :: "http_request list \<Rightarrow> int"

text \<open>\<open>pl_parse\<close> answers the tree of a JSON text, with the members of an object in the order of the text.\<close>

record plugin_libs =
  pl_libs :: libs
  pl_parse :: "string \<Rightarrow> (json, string) result"
  pl_request_error :: "http_request \<Rightarrow> string option"
  pl_unix :: "string \<Rightarrow> (int, string) result"
  pl_format :: "int \<Rightarrow> string option"
  pl_lossy :: "string \<Rightarrow> string"
  pl_status_text :: "nat \<Rightarrow> string"

section \<open>Actions\<close>

type_synonym 'a action = "plugin_state \<Rightarrow> ('a, source_error) result \<times> plugin_state"

definition act_of :: "('a, source_error) result \<Rightarrow> 'a action" where
  "act_of r st = (r, st)"

definition act_bind :: "'a action \<Rightarrow> ('a \<Rightarrow> 'b action) \<Rightarrow> 'b action" where
  "act_bind m f st = (case m st of (Inl e, st) \<Rightarrow> (Inl e, st) | (Inr a, st) \<Rightarrow> f a st)"

definition act_map :: "('a \<Rightarrow> ('b, source_error) result) \<Rightarrow> 'a action \<Rightarrow> 'b action" where
  "act_map f m = act_bind m (\<lambda>a. act_of (f a))"

text \<open>\<open>iter().map(f).collect()\<close>: the first error wins.\<close>

fun collect_ok :: "('a \<Rightarrow> ('b, 'e) result) \<Rightarrow> 'a list \<Rightarrow> ('b list, 'e) result" where
  "collect_ok f [] = Ok []"
| "collect_ok f (x # xs) = and_then (f x) (\<lambda>y. and_then (collect_ok f xs) (\<lambda>ys. Ok (y # ys)))"

definition build_request ::
  "plugin_libs \<Rightarrow> source_id \<Rightarrow> string \<Rightarrow> string \<Rightarrow> (string \<times> string) list \<Rightarrow> string \<Rightarrow> (http_request, source_error) result" where
  "build_request P s m uri headers body =
     (let rq = \<lparr>rq_method = m, rq_uri = uri, rq_headers = headers, rq_body = body\<rparr>
      in case pl_request_error P rq of None \<Rightarrow> Ok rq | Some text \<Rightarrow> Err (source_error_new s Protocol text))"

definition send_request :: "plugin_env \<Rightarrow> http_request \<Rightarrow> http_response action" where
  "send_request E rq st = (pe_client E (pst_sent st) rq, st\<lparr>pst_sent := pst_sent st @ [rq]\<rparr>)"

definition is_success :: "nat \<Rightarrow> bool" where
  "is_success status \<longleftrightarrow> 200 \<le> status \<and> status < 300"

text \<open>A header is text when its bytes are visible ASCII, spaces or tabs.\<close>

definition retry_after :: "http_response \<Rightarrow> nat option" where
  "retry_after r = Option.bind (find (\<lambda>h. fst h = ''retry-after'') (hr_headers r)) (\<lambda>h.
     if list_all (\<lambda>c. c = CHR '' '' \<or> c = char_of (9::nat) \<or> is_ascii_graphic c) (snd h) then parse_u64 (snd h) else None)"

section \<open>Text\<close>

text \<open>\<open>str::find\<close> and \<open>str::replace\<close>.\<close>

fun find_str :: "string \<Rightarrow> string \<Rightarrow> nat option" where
  "find_str needle s =
     (if take (length needle) s = needle then Some 0
      else case s of [] \<Rightarrow> None | _ # cs \<Rightarrow> map_option Suc (find_str needle cs))"

declare find_str.simps [simp del]

function replace_str :: "string \<Rightarrow> string \<Rightarrow> string \<Rightarrow> string" where
  "replace_str a b s =
     (case s of
        [] \<Rightarrow> []
      | c # cs \<Rightarrow>
          if a \<noteq> [] \<and> take (length a) s = a then b @ replace_str a b (drop (length a) s) else c # replace_str a b cs)"
  by pat_completeness auto
termination by (relation "measure (\<lambda>(a, b, s). length s)") auto

declare replace_str.simps [simp del]

section \<open>Reading JSON\<close>

definition parse_body :: "plugin_libs \<Rightarrow> source_id \<Rightarrow> (json \<Rightarrow> 'a option) \<Rightarrow> string \<Rightarrow> ('a, source_error) result" where
  "parse_body P s decode body =
     (case pl_parse P body of
        Err text \<Rightarrow> Err (source_error_new s Protocol text)
      | Ok v \<Rightarrow> ok_or (source_error_new s Protocol (decode_text (pl_libs P) v)) (decode v))"

definition record_of_json :: "plugin_libs \<Rightarrow> source_id \<Rightarrow> json \<Rightarrow> source_result" where
  "record_of_json P s v = ok_or (source_error_new s Protocol (decode_text (pl_libs P) v)) (record_from_json v)"

definition need :: "(json \<Rightarrow> 'a option) \<Rightarrow> arguments \<Rightarrow> string \<Rightarrow> 'a option" where
  "need f kvs k = Option.bind (map_of kvs k) f"

definition maybe :: "(json \<Rightarrow> 'a option) \<Rightarrow> arguments \<Rightarrow> string \<Rightarrow> 'a option option" where
  "maybe f kvs k = option_field f (map_of kvs k)"

fun as_i64 :: "json \<Rightarrow> int option" where
  "as_i64 (JInt i) = (if in_i64 i then Some i else None)"
| "as_i64 _ = None"

fun as_list :: "(json \<Rightarrow> 'a option) \<Rightarrow> json \<Rightarrow> 'a list option" where
  "as_list f (JArray vs) = (if list_all (\<lambda>v. f v \<noteq> None) vs then Some (map (\<lambda>v. the (f v)) vs) else None)"
| "as_list f _ = None"

abbreviation json_opt_nat :: "nat option \<Rightarrow> json" where "json_opt_nat \<equiv> json_opt json_nat"

abbreviation json_opt_int :: "int option \<Rightarrow> json" where "json_opt_int \<equiv> json_opt JInt"

abbreviation json_opt_bool :: "bool option \<Rightarrow> json" where "json_opt_bool \<equiv> json_opt JBool"

text \<open>\<open>Value::pointer\<close> with names that are not array indices.\<close>

fun json_pointer :: "json \<Rightarrow> string list \<Rightarrow> json option" where
  "json_pointer v [] = Some v"
| "json_pointer v (k # ks) = Option.bind (json_get v k) (\<lambda>w. json_pointer w ks)"

text \<open>A derived struct read from text refuses a repeated member of its own.\<close>

definition read_struct :: "string list \<Rightarrow> (arguments \<Rightarrow> 'a option) \<Rightarrow> json \<Rightarrow> 'a option" where
  "read_struct names f v =
     Option.bind (struct_members names v) (\<lambda>kvs.
       if distinct (filter (\<lambda>k. k \<in> set names) (map fst kvs)) then f kvs else None)"

text \<open>A \<open>Value\<close> keeps the last of repeated members.\<close>

fun to_value :: "json \<Rightarrow> json" where
  "to_value (JArray vs) = JArray (map to_value vs)"
| "to_value (JObject kvs) = json_object (map (\<lambda>(k, v). (k, to_value v)) kvs)"
| "to_value v = v"

definition any_value :: "json \<Rightarrow> json option" where "any_value v = Some (to_value v)"

text \<open>A stream: the records, or the error alone.\<close>

definition stream_of :: "(comsat_record list, source_error) result \<Rightarrow> source_result list" where
  "stream_of r = (case r of Ok rs \<Rightarrow> map Ok rs | Err e \<Rightarrow> [Err e])"

text \<open>Timestamps (\<open>timeutil.rs\<close>, \<open>query.rs\<close>).\<close>

definition rfc3339_to_unix :: "plugin_libs \<Rightarrow> source_id \<Rightarrow> string \<Rightarrow> (int, source_error) result" where
  "rfc3339_to_unix P s value = map_err (source_error_new s Protocol) (pl_unix P value)"

text \<open>\<open>pl_format\<close> answers nothing for a second no \<open>OffsetDateTime\<close> holds.\<close>

definition unix_to_rfc3339 :: "plugin_libs \<Rightarrow> nat \<Rightarrow> string option" where
  "unix_to_rfc3339 P value = (if in_i64 (int value) then pl_format P (int value) else None)"

end
