(* ===== verification/Source_Cooldown.thy ===== *)
theory Source_Cooldown
  imports Source_Http
begin

text \<open>
  The cooldowns of the GitHub and Stack Exchange sources (\<open>cooldown.rs\<close> of either plugin): per operation
  the instant before which it sends nothing. Instants are nanoseconds.
\<close>

definition nanos :: int where "nanos = 1000000000"

text \<open>The refusal names the whole seconds left, at least one.\<close>

definition cooling_error :: "source_id \<Rightarrow> string \<Rightarrow> string \<Rightarrow> string \<Rightarrow> int \<Rightarrow> source_error" where
  "cooling_error s before after operation left =
     (source_error_new s RateLimit (before @ operation @ after))
       \<lparr>err_retry_after := Some (max (nat (left div nanos)) 1)\<rparr>"

definition check_cooldown :: "source_id \<Rightarrow> string \<Rightarrow> string \<Rightarrow> plugin_env \<Rightarrow> string \<Rightarrow> unit action" where
  "check_cooldown s before after E operation st =
     (case pst_until st operation of
        None \<Rightarrow> (Ok (), st)
      | Some until \<Rightarrow>
          (let now = pe_clock E (pst_sent st)
           in if until \<le> now then (Ok (), st) else (Err (cooling_error s before after operation (until - now)), st)))"

definition set_cooldown :: "plugin_env \<Rightarrow> string \<Rightarrow> nat \<Rightarrow> plugin_state \<Rightarrow> plugin_state" where
  "set_cooldown E operation seconds st =
     st\<lparr>pst_until := (pst_until st)(operation \<mapsto> pe_clock E (pst_sent st) + int (max seconds 1) * nanos)\<rparr>"

end
