(* ===== verification/GitHub.thy ===== *)
theory GitHub
  imports Source_Cooldown
begin

text \<open>
  The GitHub source (\<open>plugins/github/src\<close>): the cooldowns, the addresses it accepts, the queries it
  sends, the payloads it reads and the records it makes of them. Instants are nanoseconds; the type
  of a request body is the text of its JSON.
\<close>

definition github :: source_id where "github = Source_Id ''github''"

definition gh_error :: "error_class \<Rightarrow> string \<Rightarrow> source_error" where
  "gh_error c m = source_error_new github c m"

definition gh_protocol :: "string \<Rightarrow> source_error" where
  "gh_protocol m = gh_error Protocol m"

section \<open>Cooldowns (\<open>cooldown.rs\<close>)\<close>

definition gh_check :: "plugin_env \<Rightarrow> string \<Rightarrow> unit action" where
  "gh_check = check_cooldown github ''GitHub '' '' is cooling down after a rate limit''"

definition gh_observe_error :: "plugin_env \<Rightarrow> string \<Rightarrow> source_error \<Rightarrow> plugin_state \<Rightarrow> plugin_state" where
  "gh_observe_error E operation e st =
     (if err_class e = RateLimit
      then set_cooldown E operation (case err_retry_after e of None \<Rightarrow> 60 | Some n \<Rightarrow> n) st else st)"

section \<open>Queries (\<open>query.rs\<close>)\<close>

definition gh_max_limit :: nat where "gh_max_limit = 50"
definition gh_default_limit :: nat where "gh_default_limit = 10"

datatype search_kind = Search_Issues | Search_Repositories | Search_Discussions

definition limit_or :: "nat \<Rightarrow> nat option \<Rightarrow> nat" where
  "limit_or n limit = (case limit of None \<Rightarrow> n | Some l \<Rightarrow> l)"

definition gh_ensure_limit :: "nat option \<Rightarrow> (unit, source_error) result" where
  "gh_ensure_limit limit =
     (if gh_max_limit < limit_or gh_default_limit limit
      then Err (gh_error InvalidQuery ''GitHub source supports at most 50 results per search'') else Ok ())"

definition selected_kind :: "string \<Rightarrow> search_kind option" where
  "selected_kind term =
     (case strip_prefix ''type:'' term of
        None \<Rightarrow> None
      | Some k \<Rightarrow>
          if k = ''repo'' \<or> k = ''repository'' \<or> k = ''repositories'' then Some Search_Repositories
          else if k = ''discussion'' \<or> k = ''discussions'' then Some Search_Discussions else None)"

fun select_terms :: "search_kind \<Rightarrow> string list \<Rightarrow> search_kind \<times> string list" where
  "select_terms kind [] = (kind, [])"
| "select_terms kind (t # ts) =
     (case selected_kind t of
        Some k \<Rightarrow> select_terms k ts
      | None \<Rightarrow> (case select_terms kind ts of (k, us) \<Rightarrow> (k, t # us)))"

definition gh_date :: "string \<Rightarrow> string" where
  "gh_date value = takeWhile (\<lambda>c. c \<noteq> CHR ''T'') value"

definition date_bounds :: "query \<Rightarrow> string list" where
  "date_bounds q =
     (case q_since q of None \<Rightarrow> [] | Some s \<Rightarrow> [''created:>='' @ gh_date s]) @
     (case q_until q of None \<Rightarrow> [] | Some s \<Rightarrow> [''created:<='' @ gh_date s])"

definition github_search :: "query \<Rightarrow> search_kind \<times> string" where
  "github_search q =
     (case select_terms Search_Issues (split_whitespace (q_text q)) of
        (kind, terms) \<Rightarrow> (kind, join '' '' (terms @ date_bounds q)))"

section \<open>Targets (\<open>target.rs\<close>)\<close>

record repository_ref =
  ref_owner :: string
  ref_repo :: string

datatype github_target =
    GT_Repository repository_ref
  | GT_Issue repository_ref nat "bool option"
  | GT_Discussion repository_ref nat

definition name_with_owner :: "repository_ref \<Rightarrow> string" where
  "name_with_owner r = ref_owner r @ ''/'' @ ref_repo r"

definition gh_invalid :: "string \<Rightarrow> source_error" where
  "gh_invalid m = gh_error InvalidQuery m"

definition segment_safe :: "string \<Rightarrow> bool" where
  "segment_safe v \<longleftrightarrow> v \<noteq> [] \<and> v \<noteq> ''.'' \<and> v \<noteq> ''..'' \<and>
     list_all (\<lambda>b. is_ascii_alphanumeric b \<or> b = CHR ''-'' \<or> b = CHR ''_'' \<or> b = CHR ''.'') v"

definition validate_segment :: "string \<Rightarrow> (unit, source_error) result" where
  "validate_segment v =
     (if segment_safe v then Ok () else Err (gh_invalid ''GitHub target path segment is invalid''))"

definition named_repository :: "string \<Rightarrow> string \<Rightarrow> (repository_ref, source_error) result" where
  "named_repository owner repo =
     and_then (validate_segment owner) (\<lambda>_.
     and_then (validate_segment repo) (\<lambda>_. Ok \<lparr>ref_owner = owner, ref_repo = repo\<rparr>))"

definition parse_number :: "string \<Rightarrow> (nat, source_error) result" where
  "parse_number v =
     (case parse_u64 v of
        None \<Rightarrow> Err (gh_invalid ''GitHub target number is invalid'')
      | Some n \<Rightarrow> if n = 0 then Err (gh_invalid ''GitHub target number is invalid'') else Ok n)"

definition repository_ref_of :: "string \<Rightarrow> (repository_ref, source_error) result" where
  "repository_ref_of v =
     (case split_once CHR ''/'' v of
        None \<Rightarrow> Err (gh_invalid ''GitHub native id must name owner/repo'')
      | Some (owner, repo) \<Rightarrow> named_repository owner repo)"

definition gh_discussion_target :: "string \<Rightarrow> string \<Rightarrow> string \<Rightarrow> (github_target, source_error) result" where
  "gh_discussion_target owner repo number =
     and_then (named_repository owner repo) (\<lambda>r. and_then (parse_number number) (\<lambda>n. Ok (GT_Discussion r n)))"

definition parse_native :: "string \<Rightarrow> (github_target, source_error) result" where
  "parse_native v =
     (case rsplit_once CHR ''#'' v of
        Some (repository, number) \<Rightarrow>
          and_then (repository_ref_of repository) (\<lambda>r.
          and_then (parse_number number) (\<lambda>n. Ok (GT_Issue r n None)))
      | None \<Rightarrow>
          (case split_on CHR ''/'' v of
             [owner, repo] \<Rightarrow> and_then (named_repository owner repo) (\<lambda>r. Ok (GT_Repository r))
           | [owner, repo, kind, number] \<Rightarrow>
               if kind = ''discussions'' then gh_discussion_target owner repo number
               else Err (gh_invalid ''GitHub native id must be owner/repo, owner/repo#number, or owner/repo/discussions/number'')
           | _ \<Rightarrow> Err (gh_invalid ''GitHub native id must be owner/repo, owner/repo#number, or owner/repo/discussions/number'')))"

definition gh_unsupported_url :: "(github_target, source_error) result" where
  "gh_unsupported_url = Err (gh_error Unsupported ''target URL is not a GitHub repository, issue, pull request, or discussion'')"

definition parse_github_url :: "libs \<Rightarrow> string \<Rightarrow> (github_target, source_error) result" where
  "parse_github_url L v =
     (case parse_url L v of
        None \<Rightarrow> Err (gh_protocol (url_error_text L v))
      | Some u \<Rightarrow>
          if url_domain u \<noteq> Some ''github.com'' then Err (gh_error Unsupported ''target is not a github.com URL'')
          else (case (case url_segments u of None \<Rightarrow> [] | Some ss \<Rightarrow> ss) of
             [owner, repo] \<Rightarrow> and_then (named_repository owner repo) (\<lambda>r. Ok (GT_Repository r))
           | [owner, repo, kind, number] \<Rightarrow>
               if kind = ''issues'' \<or> kind = ''pull'' then
                 and_then (named_repository owner repo) (\<lambda>r.
                 and_then (parse_number number) (\<lambda>n. Ok (GT_Issue r n (Some (kind = ''pull'')))))
               else if kind = ''discussions'' then gh_discussion_target owner repo number
               else gh_unsupported_url
           | _ \<Rightarrow> gh_unsupported_url))"

definition gh_ensure_source :: "source_id \<Rightarrow> (unit, source_error) result" where
  "gh_ensure_source s = (if s = github then Ok () else Err (gh_invalid ''target source does not match github''))"

fun from_target :: "libs \<Rightarrow> target \<Rightarrow> (github_target, source_error) result" where
  "from_target L (Target_Record r) = and_then (gh_ensure_source (rec_source r)) (\<lambda>_. parse_github_url L (rec_url r))"
| "from_target L (Target_Url s u) = and_then (gh_ensure_source s) (\<lambda>_. parse_github_url L u)"
| "from_target L (Target_Native s i) = and_then (gh_ensure_source s) (\<lambda>_. parse_native i)"

end
