(* ===== verification/GitHub_Records.thy ===== *)
theory GitHub_Records
  imports GitHub
begin

text \<open>
  The payloads of the GitHub APIs and the records made of them (\<open>plugins/github/src/normalize.rs\<close>,
  \<open>discussions.rs\<close>). A payload is read as its derived struct: an object by member names, an array
  by position. A record is made as JSON and decoded.
\<close>

definition gh_record :: "plugin_libs \<Rightarrow> json \<Rightarrow> source_result" where
  "gh_record P v = record_of_json P github v"

definition read_login :: "json \<Rightarrow> string option" where
  "read_login = read_struct [''login''] (\<lambda>k. need as_str k ''login'')"

section \<open>REST payloads\<close>

record gh_issue =
  gi_id :: nat
  gi_node :: "string option"
  gi_url :: string
  gi_title :: string
  gi_body :: "string option"
  gi_user :: "string option"
  gi_created :: "string option"
  gi_updated :: "string option"
  gi_number :: nat
  gi_state :: "string option"
  gi_comments :: "nat option"
  gi_repository_url :: "string option"
  gi_pull_request :: "json option"

definition read_issue :: "json \<Rightarrow> gh_issue option" where
  "read_issue = read_struct [''id'', ''node_id'', ''html_url'', ''title'', ''body'', ''user'', ''created_at'',
       ''updated_at'', ''number'', ''state'', ''comments'', ''repository_url'', ''pull_request''] (\<lambda>k.
     Option.bind (need as_u64 k ''id'') (\<lambda>i. Option.bind (maybe as_str k ''node_id'') (\<lambda>node.
     Option.bind (need as_str k ''html_url'') (\<lambda>u. Option.bind (need as_str k ''title'') (\<lambda>title.
     Option.bind (maybe as_str k ''body'') (\<lambda>body. Option.bind (maybe read_login k ''user'') (\<lambda>user.
     Option.bind (maybe as_str k ''created_at'') (\<lambda>created. Option.bind (maybe as_str k ''updated_at'') (\<lambda>updated.
     Option.bind (need as_u64 k ''number'') (\<lambda>number. Option.bind (maybe as_str k ''state'') (\<lambda>st.
     Option.bind (maybe as_u64 k ''comments'') (\<lambda>comments. Option.bind (maybe as_str k ''repository_url'') (\<lambda>repo.
     Option.bind (maybe any_value k ''pull_request'') (\<lambda>pr.
       Some \<lparr>gi_id = i, gi_node = node, gi_url = u, gi_title = title, gi_body = body, gi_user = user,
         gi_created = created, gi_updated = updated, gi_number = number, gi_state = st, gi_comments = comments,
         gi_repository_url = repo, gi_pull_request = pr\<rparr>))))))))))))))"

record gh_comment =
  gc_id :: nat
  gc_node :: "string option"
  gc_url :: string
  gc_body :: "string option"
  gc_user :: "string option"
  gc_created :: "string option"
  gc_updated :: "string option"
  gc_reactions :: "json option"

definition read_issue_comment :: "json \<Rightarrow> gh_comment option" where
  "read_issue_comment = read_struct [''id'', ''node_id'', ''html_url'', ''body'', ''user'', ''created_at'',
       ''updated_at'', ''reactions''] (\<lambda>k.
     Option.bind (need as_u64 k ''id'') (\<lambda>i. Option.bind (maybe as_str k ''node_id'') (\<lambda>node.
     Option.bind (need as_str k ''html_url'') (\<lambda>u. Option.bind (maybe as_str k ''body'') (\<lambda>body.
     Option.bind (maybe read_login k ''user'') (\<lambda>user. Option.bind (maybe as_str k ''created_at'') (\<lambda>created.
     Option.bind (maybe as_str k ''updated_at'') (\<lambda>updated. Option.bind (maybe any_value k ''reactions'') (\<lambda>reactions.
       Some \<lparr>gc_id = i, gc_node = node, gc_url = u, gc_body = body, gc_user = user, gc_created = created,
         gc_updated = updated, gc_reactions = reactions\<rparr>)))))))))"

record gh_repository =
  gr_id :: nat
  gr_node :: "string option"
  gr_url :: string
  gr_full_name :: string
  gr_description :: "string option"
  gr_owner :: "string option"
  gr_created :: "string option"
  gr_updated :: "string option"
  gr_stars :: "nat option"
  gr_forks :: "nat option"
  gr_open_issues :: "nat option"
  gr_language :: "string option"
  gr_default_branch :: "string option"
  gr_topics :: "string list option"
  gr_archived :: "bool option"

definition read_repository :: "json \<Rightarrow> gh_repository option" where
  "read_repository = read_struct [''id'', ''node_id'', ''html_url'', ''full_name'', ''description'', ''owner'',
       ''created_at'', ''updated_at'', ''stargazers_count'', ''forks_count'', ''open_issues_count'', ''language'',
       ''default_branch'', ''topics'', ''archived''] (\<lambda>k.
     Option.bind (need as_u64 k ''id'') (\<lambda>i. Option.bind (maybe as_str k ''node_id'') (\<lambda>node.
     Option.bind (need as_str k ''html_url'') (\<lambda>u. Option.bind (need as_str k ''full_name'') (\<lambda>name.
     Option.bind (maybe as_str k ''description'') (\<lambda>description. Option.bind (maybe read_login k ''owner'') (\<lambda>owner.
     Option.bind (maybe as_str k ''created_at'') (\<lambda>created. Option.bind (maybe as_str k ''updated_at'') (\<lambda>updated.
     Option.bind (maybe as_u64 k ''stargazers_count'') (\<lambda>stars. Option.bind (maybe as_u64 k ''forks_count'') (\<lambda>forks.
     Option.bind (maybe as_u64 k ''open_issues_count'') (\<lambda>issues. Option.bind (maybe as_str k ''language'') (\<lambda>language.
     Option.bind (maybe as_str k ''default_branch'') (\<lambda>branch. Option.bind (maybe (as_list as_str) k ''topics'') (\<lambda>topics.
     Option.bind (maybe as_bool k ''archived'') (\<lambda>archived.
       Some \<lparr>gr_id = i, gr_node = node, gr_url = u, gr_full_name = name, gr_description = description, gr_owner = owner,
         gr_created = created, gr_updated = updated, gr_stars = stars, gr_forks = forks, gr_open_issues = issues,
         gr_language = language, gr_default_branch = branch, gr_topics = topics, gr_archived = archived\<rparr>))))))))))))))))"

record gh_review_comment =
  gv_id :: nat
  gv_node :: "string option"
  gv_url :: string
  gv_body :: "string option"
  gv_user :: "string option"
  gv_created :: "string option"
  gv_updated :: "string option"
  gv_path :: "string option"
  gv_line :: "nat option"
  gv_in_reply_to :: "nat option"
  gv_review :: "nat option"

definition read_review_comment :: "json \<Rightarrow> gh_review_comment option" where
  "read_review_comment = read_struct [''id'', ''node_id'', ''html_url'', ''body'', ''user'', ''created_at'', ''updated_at'',
       ''path'', ''line'', ''in_reply_to_id'', ''pull_request_review_id''] (\<lambda>k.
     Option.bind (need as_u64 k ''id'') (\<lambda>i. Option.bind (maybe as_str k ''node_id'') (\<lambda>node.
     Option.bind (need as_str k ''html_url'') (\<lambda>u. Option.bind (maybe as_str k ''body'') (\<lambda>body.
     Option.bind (maybe read_login k ''user'') (\<lambda>user. Option.bind (maybe as_str k ''created_at'') (\<lambda>created.
     Option.bind (maybe as_str k ''updated_at'') (\<lambda>updated. Option.bind (maybe as_str k ''path'') (\<lambda>path.
     Option.bind (maybe as_u64 k ''line'') (\<lambda>line. Option.bind (maybe as_u64 k ''in_reply_to_id'') (\<lambda>parent.
     Option.bind (maybe as_u64 k ''pull_request_review_id'') (\<lambda>review.
       Some \<lparr>gv_id = i, gv_node = node, gv_url = u, gv_body = body, gv_user = user, gv_created = created,
         gv_updated = updated, gv_path = path, gv_line = line, gv_in_reply_to = parent, gv_review = review\<rparr>))))))))))))"

record gh_review =
  gw_id :: nat
  gw_node :: "string option"
  gw_url :: string
  gw_body :: "string option"
  gw_user :: "string option"
  gw_state :: "string option"
  gw_submitted :: "string option"

definition read_review :: "json \<Rightarrow> gh_review option" where
  "read_review = read_struct [''id'', ''node_id'', ''html_url'', ''body'', ''user'', ''state'', ''submitted_at''] (\<lambda>k.
     Option.bind (need as_u64 k ''id'') (\<lambda>i. Option.bind (maybe as_str k ''node_id'') (\<lambda>node.
     Option.bind (need as_str k ''html_url'') (\<lambda>u. Option.bind (maybe as_str k ''body'') (\<lambda>body.
     Option.bind (maybe read_login k ''user'') (\<lambda>user. Option.bind (maybe as_str k ''state'') (\<lambda>st.
     Option.bind (maybe as_str k ''submitted_at'') (\<lambda>submitted.
       Some \<lparr>gw_id = i, gw_node = node, gw_url = u, gw_body = body, gw_user = user, gw_state = st,
         gw_submitted = submitted\<rparr>))))))))"

definition read_items :: "(json \<Rightarrow> 'a option) \<Rightarrow> json \<Rightarrow> 'a list option" where
  "read_items f = read_struct [''items''] (\<lambda>k. need (as_list f) k ''items'')"

section \<open>Records of the REST payloads\<close>

definition node_or :: "string option \<Rightarrow> string \<Rightarrow> nat \<Rightarrow> string" where
  "node_or node base n = (case node of Some i \<Rightarrow> i | None \<Rightarrow> base @ nat_str n)"

definition github_json ::
  "string \<Rightarrow> string \<Rightarrow> string \<Rightarrow> string option \<Rightarrow> string option \<Rightarrow> string option \<Rightarrow> string option \<Rightarrow> string option \<Rightarrow>
   (string \<times> json) list \<Rightarrow> json" where
  "github_json i kind u title text author created updated metadata = json_object
     [(''id'', JString i), (''source'', JString ''github''), (''kind'', JString kind), (''url'', JString u),
      (''title'', json_opt_str title), (''text'', json_opt_str text), (''author'', json_opt_str author),
      (''created_at'', json_opt_str created), (''updated_at'', json_opt_str updated), (''metadata'', json_object metadata)]"

definition issue_record :: "plugin_libs \<Rightarrow> gh_issue \<Rightarrow> source_result" where
  "issue_record P i = gh_record P (github_json (node_or (gi_node i) ''github:issue:'' (gi_id i))
     (if gi_pull_request i \<noteq> None then ''pull-request'' else ''issue'') (gi_url i) (Some (gi_title i)) (gi_body i) (gi_user i)
     (gi_created i) (gi_updated i)
     [(''github_id'', json_nat (gi_id i)), (''node_id'', json_opt_str (gi_node i)),
      (''repository'', json_opt_str (Option.bind (gi_repository_url i) (strip_prefix ''https://api.github.com/repos/''))),
      (''number'', json_nat (gi_number i)), (''state'', json_opt_str (gi_state i)), (''comments'', json_opt_nat (gi_comments i))])"

definition issue_comment_record :: "plugin_libs \<Rightarrow> repository_ref \<Rightarrow> nat \<Rightarrow> gh_comment \<Rightarrow> source_result" where
  "issue_comment_record P r n c = gh_record P (github_json (node_or (gc_node c) ''github:comment:'' (gc_id c)) ''issue-comment''
     (gc_url c) None (gc_body c) (gc_user c) (gc_created c) (gc_updated c)
     [(''github_id'', json_nat (gc_id c)), (''node_id'', json_opt_str (gc_node c)), (''repository'', JString (name_with_owner r)),
      (''number'', json_nat n), (''reactions'', json_opt id (gc_reactions c))])"

definition repository_record :: "plugin_libs \<Rightarrow> gh_repository \<Rightarrow> source_result" where
  "repository_record P r = gh_record P (github_json (node_or (gr_node r) ''github:repository:'' (gr_id r)) ''repository''
     (gr_url r) (Some (gr_full_name r)) (gr_description r) (gr_owner r) (gr_created r) (gr_updated r)
     [(''github_id'', json_nat (gr_id r)), (''node_id'', json_opt_str (gr_node r)), (''repository'', JString (gr_full_name r)),
      (''stars'', json_opt_nat (gr_stars r)), (''forks'', json_opt_nat (gr_forks r)),
      (''open_issues'', json_opt_nat (gr_open_issues r)), (''language'', json_opt_str (gr_language r)),
      (''default_branch'', json_opt_str (gr_default_branch r)),
      (''topics'', json_opt (\<lambda>ts. JArray (map JString ts)) (gr_topics r)), (''archived'', json_opt_bool (gr_archived r))])"

definition review_comment_record :: "plugin_libs \<Rightarrow> repository_ref \<Rightarrow> nat \<Rightarrow> gh_review_comment \<Rightarrow> source_result" where
  "review_comment_record P r n c = gh_record P (github_json (node_or (gv_node c) ''github:review-comment:'' (gv_id c)) ''review-comment''
     (gv_url c) None (gv_body c) (gv_user c) (gv_created c) (gv_updated c)
     [(''github_id'', json_nat (gv_id c)), (''node_id'', json_opt_str (gv_node c)), (''repository'', JString (name_with_owner r)),
      (''number'', json_nat n), (''path'', json_opt_str (gv_path c)), (''line'', json_opt_nat (gv_line c)),
      (''in_reply_to'', json_opt_nat (gv_in_reply_to c)), (''review_id'', json_opt_nat (gv_review c))])"

definition review_record :: "plugin_libs \<Rightarrow> repository_ref \<Rightarrow> nat \<Rightarrow> gh_review \<Rightarrow> source_result" where
  "review_record P r n w = gh_record P (github_json (node_or (gw_node w) ''github:review:'' (gw_id w)) ''review''
     (gw_url w) (gw_state w) (gw_body w) (gw_user w) (gw_submitted w) (gw_submitted w)
     [(''github_id'', json_nat (gw_id w)), (''node_id'', json_opt_str (gw_node w)), (''repository'', JString (name_with_owner r)),
      (''number'', json_nat n), (''state'', json_opt_str (gw_state w))])"

section \<open>Discussions (\<open>discussions.rs\<close>)\<close>

definition graphql_url :: string where "graphql_url = ''https://api.github.com/graphql''"

definition discussion_fields :: string where
  "discussion_fields = ''id number title url createdAt updatedAt bodyText author { login } category { name } comments { totalCount } repository { nameWithOwner }''"

definition search_discussions_request :: "string \<Rightarrow> nat \<Rightarrow> json" where
  "search_discussions_request text limit = json_object
     [(''query'', JString (''query($q: String!, $n: Int!) { search(query: $q, type: DISCUSSION, first: $n) { nodes { ... on Discussion { ''
         @ discussion_fields @ '' } } } }'')),
      (''variables'', json_object [(''q'', JString text), (''n'', json_nat limit)])]"

definition fetch_discussion_request :: "repository_ref \<Rightarrow> nat \<Rightarrow> json" where
  "fetch_discussion_request r number = json_object
     [(''query'', JString (''query($owner: String!, $name: String!, $number: Int!) { repository(owner: $owner, name: $name) { discussion(number: $number) { ''
         @ discussion_fields @ '' } } }'')),
      (''variables'', json_object [(''owner'', JString (ref_owner r)), (''name'', JString (ref_repo r)), (''number'', json_nat number)])]"

definition repository_discussions_request :: "repository_ref \<Rightarrow> nat \<Rightarrow> json" where
  "repository_discussions_request r limit = json_object
     [(''query'', JString (''query($owner: String!, $name: String!, $n: Int!) { repository(owner: $owner, name: $name) { discussions(first: $n, orderBy: {field: UPDATED_AT, direction: DESC}) { nodes { ''
         @ discussion_fields @ '' } } } }'')),
      (''variables'', json_object [(''owner'', JString (ref_owner r)), (''name'', JString (ref_repo r)), (''n'', json_nat limit)])]"

definition comments_request :: "repository_ref \<Rightarrow> nat \<Rightarrow> nat \<Rightarrow> json" where
  "comments_request r number limit = json_object
     [(''query'', JString ''query($owner: String!, $name: String!, $number: Int!, $n: Int!) { repository(owner: $owner, name: $name) { discussion(number: $number) { comments(first: $n) { nodes { id url bodyText createdAt updatedAt author { login } } } } } }''),
      (''variables'', json_object [(''owner'', JString (ref_owner r)), (''name'', JString (ref_repo r)), (''number'', json_nat number),
         (''n'', json_nat limit)])]"

definition graphql_class :: "string \<Rightarrow> error_class" where
  "graphql_class message =
     (let lowered = ascii_lowercase message
      in if contains_str ''could not resolve'' lowered \<or> contains_str ''not exist'' lowered then NotFound
         else if contains_str ''rate limit'' lowered then RateLimit
         else if contains_str ''credential'' lowered \<or> contains_str ''permission'' lowered then Authentication
         else Upstream)"

definition first_error :: "json \<Rightarrow> string option" where
  "first_error envelope =
     (case Option.bind (json_get envelope ''errors'') as_array of
        Some (e # _) \<Rightarrow> Some (case Option.bind (json_get e ''message'') as_str of
            Some m \<Rightarrow> m | None \<Rightarrow> ''GitHub GraphQL request failed'')
      | _ \<Rightarrow> None)"

definition graphql_payload :: "plugin_libs \<Rightarrow> string \<Rightarrow> (json, source_error) result" where
  "graphql_payload P body =
     (case pl_parse P body of
        Err text \<Rightarrow> Err (gh_protocol text)
      | Ok text \<Rightarrow>
          (let envelope = to_value text
           in case first_error envelope of
                Some m \<Rightarrow> Err (gh_error (graphql_class m) (''GitHub GraphQL: '' @ m))
              | None \<Rightarrow> ok_or (gh_protocol ''GitHub GraphQL response has no data'') (json_get envelope ''data'')))"

record gh_discussion =
  gd_id :: string
  gd_number :: nat
  gd_title :: string
  gd_url :: string
  gd_created :: "string option"
  gd_updated :: "string option"
  gd_body :: "string option"
  gd_author :: "string option"
  gd_category :: "string option"
  gd_comments :: "nat option"
  gd_repository :: "string option"

definition read_discussion :: "json \<Rightarrow> gh_discussion option" where
  "read_discussion = read_struct [''id'', ''number'', ''title'', ''url'', ''createdAt'', ''updatedAt'', ''bodyText'', ''author'',
       ''category'', ''comments'', ''repository''] (\<lambda>k.
     Option.bind (need as_str k ''id'') (\<lambda>i. Option.bind (need as_u64 k ''number'') (\<lambda>number.
     Option.bind (need as_str k ''title'') (\<lambda>title. Option.bind (need as_str k ''url'') (\<lambda>u.
     Option.bind (maybe as_str k ''createdAt'') (\<lambda>created. Option.bind (maybe as_str k ''updatedAt'') (\<lambda>updated.
     Option.bind (maybe as_str k ''bodyText'') (\<lambda>body. Option.bind (maybe read_login k ''author'') (\<lambda>author.
     Option.bind (maybe (read_struct [''name''] (\<lambda>k. need as_str k ''name'')) k ''category'') (\<lambda>category.
     Option.bind (maybe (read_struct [''totalCount''] (\<lambda>k. need as_u64 k ''totalCount'')) k ''comments'') (\<lambda>comments.
     Option.bind (maybe (read_struct [''nameWithOwner''] (\<lambda>k. need as_str k ''nameWithOwner'')) k ''repository'') (\<lambda>repo.
       Some \<lparr>gd_id = i, gd_number = number, gd_title = title, gd_url = u, gd_created = created, gd_updated = updated,
         gd_body = body, gd_author = author, gd_category = category, gd_comments = comments, gd_repository = repo\<rparr>))))))))))))"

record gh_discussion_comment =
  gk_id :: string
  gk_url :: string
  gk_created :: "string option"
  gk_updated :: "string option"
  gk_body :: "string option"
  gk_author :: "string option"

definition read_discussion_comment :: "json \<Rightarrow> gh_discussion_comment option" where
  "read_discussion_comment = read_struct [''id'', ''url'', ''createdAt'', ''updatedAt'', ''bodyText'', ''author''] (\<lambda>k.
     Option.bind (need as_str k ''id'') (\<lambda>i. Option.bind (need as_str k ''url'') (\<lambda>u.
     Option.bind (maybe as_str k ''createdAt'') (\<lambda>created. Option.bind (maybe as_str k ''updatedAt'') (\<lambda>updated.
     Option.bind (maybe as_str k ''bodyText'') (\<lambda>body. Option.bind (maybe read_login k ''author'') (\<lambda>author.
       Some \<lparr>gk_id = i, gk_url = u, gk_created = created, gk_updated = updated, gk_body = body, gk_author = author\<rparr>)))))))"

text \<open>A pointer is the list of its names.\<close>

definition pointer_text :: "string list \<Rightarrow> string" where
  "pointer_text ks = concat (map (\<lambda>k. CHR ''/'' # k) ks)"

definition graphql_nodes :: "plugin_libs \<Rightarrow> (json \<Rightarrow> 'a option) \<Rightarrow> json \<Rightarrow> string list \<Rightarrow> ('a list, source_error) result" where
  "graphql_nodes P decode data pointer =
     (case json_pointer data pointer of
        None \<Rightarrow> Err (gh_protocol (''GitHub GraphQL response is missing '' @ pointer_text pointer))
      | Some v \<Rightarrow> ok_or (gh_protocol (decode_text (pl_libs P) v)) (as_list decode v))"

definition graphql_node :: "plugin_libs \<Rightarrow> (json \<Rightarrow> 'a option) \<Rightarrow> json \<Rightarrow> string list \<Rightarrow> ('a, source_error) result" where
  "graphql_node P decode data pointer =
     (case json_pointer data pointer of
        None \<Rightarrow> Err (gh_error NotFound ''GitHub discussion was not found'')
      | Some v \<Rightarrow> if is_null v then Err (gh_error NotFound ''GitHub discussion was not found'')
          else ok_or (gh_protocol (decode_text (pl_libs P) v)) (decode v))"

definition discussion_record :: "plugin_libs \<Rightarrow> repository_ref \<Rightarrow> gh_discussion \<Rightarrow> source_result" where
  "discussion_record P r d = gh_record P (github_json (gd_id d) ''discussion'' (gd_url d) (Some (gd_title d)) (gd_body d)
     (gd_author d) (gd_created d) (gd_updated d)
     [(''node_id'', JString (gd_id d)),
      (''repository'', JString (case gd_repository d of Some n \<Rightarrow> n | None \<Rightarrow> name_with_owner r)),
      (''number'', json_nat (gd_number d)), (''category'', json_opt_str (gd_category d)),
      (''comments'', json_opt_nat (gd_comments d))])"

definition discussion_comment_record :: "plugin_libs \<Rightarrow> repository_ref \<Rightarrow> nat \<Rightarrow> gh_discussion_comment \<Rightarrow> source_result" where
  "discussion_comment_record P r n c = gh_record P (github_json (gk_id c) ''discussion-comment'' (gk_url c) None (gk_body c)
     (gk_author c) (gk_created c) (gk_updated c)
     [(''node_id'', JString (gk_id c)), (''repository'', JString (name_with_owner r)), (''number'', json_nat n)])"

end
