(* ===== verification/GitHub_Runtime.thy ===== *)
theory GitHub_Runtime
  imports GitHub_Records
begin

text \<open>
  The operations of the GitHub source (\<open>plugins/github/src/lib.rs\<close>, \<open>search.rs\<close>, \<open>follow.rs\<close>): the
  requests they send and what they answer.
\<close>

section \<open>Requests\<close>

definition gh_headers :: "string option \<Rightarrow> (string \<times> string) list" where
  "gh_headers token =
     [(''accept'', ''application/vnd.github+json''), (''content-type'', ''application/json''), (''user-agent'', ''comsat''),
      (''x-github-api-version'', ''2022-11-28'')] @
     (case token of None \<Rightarrow> [] | Some t \<Rightarrow> [(''authorization'', ''Bearer '' @ t)])"

definition gh_request ::
  "plugin_libs \<Rightarrow> string option \<Rightarrow> string \<Rightarrow> string \<Rightarrow> string \<Rightarrow> (http_request, source_error) result" where
  "gh_request P token m url body = build_request P github m url (gh_headers token) body"

definition gh_response_body :: "plugin_libs \<Rightarrow> http_response \<Rightarrow> (string, source_error) result" where
  "gh_response_body P r =
     (let status = hr_status r
      in if is_success status then Ok (hr_body r)
         else if status = 401 then Err (gh_error Authentication ''GitHub authentication failed'')
         else if status = 403 \<or> status = 429 then
           Err ((gh_error RateLimit ''GitHub request was rate limited'')\<lparr>err_retry_after := retry_after r\<rparr>)
         else if status = 404 then Err (gh_error NotFound ''GitHub target was not found'')
         else Err (gh_error Upstream (''GitHub returned HTTP '' @ pl_status_text P status)))"

definition gh_checked_body :: "plugin_libs \<Rightarrow> plugin_env \<Rightarrow> string \<Rightarrow> http_response \<Rightarrow> string action" where
  "gh_checked_body P E operation r st =
     (case gh_response_body P r of
        Ok body \<Rightarrow> (Ok body, st)
      | Err e \<Rightarrow> (Err e, gh_observe_error E operation e st))"

definition gh_exchange :: "plugin_libs \<Rightarrow> plugin_env \<Rightarrow> string \<Rightarrow> http_request \<Rightarrow> string action" where
  "gh_exchange P E operation rq = act_bind (send_request E rq) (gh_checked_body P E operation)"

definition gh_rest ::
  "plugin_libs \<Rightarrow> plugin_env \<Rightarrow> string option \<Rightarrow> string \<Rightarrow> (json \<Rightarrow> 'a option) \<Rightarrow> string \<Rightarrow> 'a action" where
  "gh_rest P E token operation decode url =
     act_bind (act_of (gh_request P token ''GET'' url [])) (\<lambda>rq.
     act_bind (gh_exchange P E operation rq) (\<lambda>body. act_of (parse_body P github decode body)))"

definition gh_graphql ::
  "plugin_libs \<Rightarrow> plugin_env \<Rightarrow> string option \<Rightarrow> string \<Rightarrow> json \<Rightarrow> json action" where
  "gh_graphql P E token operation request =
     (if token = None
      then act_of (Err (gh_error Authentication ''GitHub Discussions require COMSAT_GITHUB_TOKEN or GITHUB_TOKEN''))
      else
        act_bind (act_of (gh_request P token ''POST'' graphql_url (json_text (pl_libs P) request))) (\<lambda>rq.
        act_bind (gh_exchange P E operation rq) (\<lambda>body. act_of (graphql_payload P body))))"

section \<open>Addresses of the API\<close>

definition api :: string where "api = ''https://api.github.com/''"

definition repo_url :: "libs \<Rightarrow> repository_ref \<Rightarrow> string" where
  "repo_url L r = api @ ''repos/'' @ percent_encode L (ref_owner r) @ ''/'' @ percent_encode L (ref_repo r)"

definition issue_url :: "libs \<Rightarrow> repository_ref \<Rightarrow> nat \<Rightarrow> string" where
  "issue_url L r n = repo_url L r @ ''/issues/'' @ nat_str n"

definition pull_url :: "libs \<Rightarrow> repository_ref \<Rightarrow> nat \<Rightarrow> string" where
  "pull_url L r n = repo_url L r @ ''/pulls/'' @ nat_str n"

definition search_url :: "libs \<Rightarrow> string \<Rightarrow> string \<Rightarrow> nat \<Rightarrow> string" where
  "search_url L resource text limit =
     api @ ''search/'' @ resource @ ''?q='' @ percent_encode L text @ ''&per_page='' @ nat_str limit @
     ''&sort=updated&order=desc''"

definition page :: string where "page = ''?per_page='' @ nat_str gh_max_limit"

section \<open>Search\<close>

definition repository_of :: "gh_discussion \<Rightarrow> repository_ref" where
  "repository_of d =
     (case split_once CHR ''/'' (case gd_repository d of None \<Rightarrow> [] | Some n \<Rightarrow> n) of
        None \<Rightarrow> \<lparr>ref_owner = [], ref_repo = []\<rparr>
      | Some (owner, repo) \<Rightarrow> \<lparr>ref_owner = owner, ref_repo = repo\<rparr>)"

definition search_issues ::
  "plugin_libs \<Rightarrow> plugin_env \<Rightarrow> string option \<Rightarrow> string \<Rightarrow> nat \<Rightarrow> comsat_record list action" where
  "search_issues P E token text limit =
     act_map (collect_ok (issue_record P))
       (gh_rest P E token ''search'' (read_items read_issue) (search_url (pl_libs P) ''issues'' text limit))"

definition search_repositories ::
  "plugin_libs \<Rightarrow> plugin_env \<Rightarrow> string option \<Rightarrow> string \<Rightarrow> nat \<Rightarrow> comsat_record list action" where
  "search_repositories P E token text limit =
     act_map (collect_ok (repository_record P))
       (gh_rest P E token ''search'' (read_items read_repository) (search_url (pl_libs P) ''repositories'' text limit))"

definition search_discussions ::
  "plugin_libs \<Rightarrow> plugin_env \<Rightarrow> string option \<Rightarrow> string \<Rightarrow> nat \<Rightarrow> comsat_record list action" where
  "search_discussions P E token text limit =
     act_map (\<lambda>data. and_then (graphql_nodes P read_discussion data [''search'', ''nodes''])
         (collect_ok (\<lambda>d. discussion_record P (repository_of d) d)))
       (gh_graphql P E token ''search'' (search_discussions_request text limit))"

definition gh_search_records ::
  "plugin_libs \<Rightarrow> plugin_env \<Rightarrow> string option \<Rightarrow> query \<Rightarrow> comsat_record list action" where
  "gh_search_records P E token q =
     act_bind (act_of (gh_ensure_limit (q_limit q))) (\<lambda>_.
     act_bind (gh_check E ''search'') (\<lambda>_.
       (let limit = limit_or gh_default_limit (q_limit q)
        in case github_search q of
             (Search_Issues, text) \<Rightarrow> search_issues P E token text limit
           | (Search_Repositories, text) \<Rightarrow> search_repositories P E token text limit
           | (Search_Discussions, text) \<Rightarrow> search_discussions P E token text limit)))"

section \<open>Fetch\<close>

definition gh_fetch_record ::
  "plugin_libs \<Rightarrow> plugin_env \<Rightarrow> string option \<Rightarrow> target \<Rightarrow> comsat_record action" where
  "gh_fetch_record P E token t =
     act_bind (gh_check E ''fetch'') (\<lambda>_.
     act_bind (act_of (from_target (pl_libs P) t)) (\<lambda>g.
       case g of
         GT_Repository r \<Rightarrow>
           act_map (repository_record P) (gh_rest P E token ''fetch'' read_repository (repo_url (pl_libs P) r))
       | GT_Issue r n _ \<Rightarrow>
           act_map (issue_record P) (gh_rest P E token ''fetch'' read_issue (issue_url (pl_libs P) r n))
       | GT_Discussion r n \<Rightarrow>
           act_map (\<lambda>data. and_then (graphql_node P read_discussion data [''repository'', ''discussion'']) (discussion_record P r))
             (gh_graphql P E token ''fetch'' (fetch_discussion_request r n))))"

section \<open>Follow\<close>

definition is_pull_request ::
  "plugin_libs \<Rightarrow> plugin_env \<Rightarrow> string option \<Rightarrow> repository_ref \<Rightarrow> nat \<Rightarrow> bool action" where
  "is_pull_request P E token r n =
     act_map (\<lambda>i. Ok (gi_pull_request i \<noteq> None)) (gh_rest P E token ''follow'' read_issue (issue_url (pl_libs P) r n))"

definition issue_comments ::
  "plugin_libs \<Rightarrow> plugin_env \<Rightarrow> string option \<Rightarrow> repository_ref \<Rightarrow> nat \<Rightarrow> comsat_record list action" where
  "issue_comments P E token r n =
     act_map (collect_ok (issue_comment_record P r n))
       (gh_rest P E token ''follow'' (as_list read_issue_comment) (issue_url (pl_libs P) r n @ ''/comments'' @ page))"

definition reviews ::
  "plugin_libs \<Rightarrow> plugin_env \<Rightarrow> string option \<Rightarrow> repository_ref \<Rightarrow> nat \<Rightarrow> comsat_record list action" where
  "reviews P E token r n =
     act_map (collect_ok (review_record P r n))
       (gh_rest P E token ''follow'' (as_list read_review) (pull_url (pl_libs P) r n @ ''/reviews'' @ page))"

definition review_comments ::
  "plugin_libs \<Rightarrow> plugin_env \<Rightarrow> string option \<Rightarrow> repository_ref \<Rightarrow> nat \<Rightarrow> comsat_record list action" where
  "review_comments P E token r n =
     act_map (collect_ok (review_comment_record P r n))
       (gh_rest P E token ''follow'' (as_list read_review_comment) (pull_url (pl_libs P) r n @ ''/comments'' @ page))"

definition issue_discussion ::
  "plugin_libs \<Rightarrow> plugin_env \<Rightarrow> string option \<Rightarrow> repository_ref \<Rightarrow> nat \<Rightarrow> bool option \<Rightarrow> comsat_record list action" where
  "issue_discussion P E token r n pull_request =
     act_bind (case pull_request of Some known \<Rightarrow> act_of (Ok known) | None \<Rightarrow> is_pull_request P E token r n) (\<lambda>pr.
     act_bind (issue_comments P E token r n) (\<lambda>records.
       if pr then
         act_bind (reviews P E token r n) (\<lambda>ws.
         act_bind (review_comments P E token r n) (\<lambda>vs. act_of (Ok (records @ ws @ vs))))
       else act_of (Ok records)))"

definition repository_discussions ::
  "plugin_libs \<Rightarrow> plugin_env \<Rightarrow> string option \<Rightarrow> repository_ref \<Rightarrow> comsat_record list action" where
  "repository_discussions P E token r =
     act_map (\<lambda>data. and_then (graphql_nodes P read_discussion data [''repository'', ''discussions'', ''nodes''])
         (collect_ok (discussion_record P r)))
       (gh_graphql P E token ''follow'' (repository_discussions_request r gh_max_limit))"

definition discussion_comments ::
  "plugin_libs \<Rightarrow> plugin_env \<Rightarrow> string option \<Rightarrow> repository_ref \<Rightarrow> nat \<Rightarrow> comsat_record list action" where
  "discussion_comments P E token r n =
     act_map (\<lambda>data. and_then (graphql_nodes P read_discussion_comment data
           [''repository'', ''discussion'', ''comments'', ''nodes''])
         (collect_ok (discussion_comment_record P r n)))
       (gh_graphql P E token ''follow'' (comments_request r n gh_max_limit))"

definition gh_follow_records ::
  "plugin_libs \<Rightarrow> plugin_env \<Rightarrow> string option \<Rightarrow> target \<Rightarrow> comsat_record list action" where
  "gh_follow_records P E token t =
     act_bind (gh_check E ''follow'') (\<lambda>_.
     act_bind (act_of (from_target (pl_libs P) t)) (\<lambda>g.
       case g of
         GT_Repository r \<Rightarrow> repository_discussions P E token r
       | GT_Issue r n pr \<Rightarrow> issue_discussion P E token r n pr
       | GT_Discussion r n \<Rightarrow> discussion_comments P E token r n))"

definition gh_descriptor :: descriptor where
  "gh_descriptor = descriptor_new github ''GitHub'' \<lparr>can_search = True, can_fetch = True, can_follow = True\<rparr>"

text \<open>The runtime as it answers a call from one state.\<close>

definition gh_runtime :: "plugin_libs \<Rightarrow> plugin_env \<Rightarrow> string option \<Rightarrow> plugin_state \<Rightarrow> source_runtime" where
  "gh_runtime P E token st = \<lparr>rt_search = \<lambda>q. stream_of (fst (gh_search_records P E token q st)),
     rt_fetch = \<lambda>t. fst (gh_fetch_record P E token t st),
     rt_follow = \<lambda>t. stream_of (fst (gh_follow_records P E token t st))\<rparr>"

end
