(* ===== verification/Source_Laws.thy ===== *)
theory Source_Laws
  imports Source_Cooldown
begin

text \<open>
  Laws of the actions of a plugin, stated once for every source: which requests an action sends
  (\<open>sends_only\<close>), and how the responses move the cooldown of its operation (\<open>cools\<close>). Both compose
  along binds. The locale \<open>cooled_source\<close> is the contract of a source with cooldowns.
\<close>

section \<open>Laws of actions\<close>

definition sends_only :: "nat \<Rightarrow> (http_request \<Rightarrow> bool) \<Rightarrow> 'a action \<Rightarrow> bool" where
  "sends_only n Q m \<longleftrightarrow> (\<forall>st. \<exists>new. pst_sent (snd (m st)) = pst_sent st @ new \<and> length new \<le> n \<and> list_all Q new)"

lemma sends_only_act_of [simp]: "sends_only n Q (act_of r)"
  by (simp add: sends_only_def act_of_def)

lemma sends_only_bind:
  assumes m: "sends_only k Q m" and f: "\<And>a. sends_only l Q (f a)" and n: "k + l \<le> n"
  shows "sends_only n Q (act_bind m f)"
  unfolding sends_only_def
proof
  fix st
  obtain r st1 where r: "m st = (r, st1)" by (cases "m st")
  from m r obtain new where new: "pst_sent st1 = pst_sent st @ new" "length new \<le> k" "list_all Q new"
    unfolding sends_only_def by (metis snd_conv)
  show "\<exists>new. pst_sent (snd (act_bind m f st)) = pst_sent st @ new \<and> length new \<le> n \<and> list_all Q new"
  proof (cases r)
    case (Inl e)
    with r new n show ?thesis by (auto simp: act_bind_def)
  next
    case (Inr a)
    from f [of a] obtain new2 where "pst_sent (snd (f a st1)) = pst_sent st1 @ new2" "length new2 \<le> l" "list_all Q new2"
      unfolding sends_only_def by blast
    with Inr r new n show ?thesis by (intro exI [of _ "new @ new2"]) (simp add: act_bind_def)
  qed
qed

lemma sends_only_map: "sends_only n Q m \<Longrightarrow> sends_only n Q (act_map f m)"
  unfolding act_map_def by (rule sends_only_bind [where k = n and l = 0]) simp_all

lemma sends_only_send: "Q rq \<Longrightarrow> sends_only (Suc 0) Q (send_request E rq)"
  by (simp add: sends_only_def send_request_def)

lemma sends_only_mono: "sends_only k Q m \<Longrightarrow> k \<le> n \<Longrightarrow> sends_only n Q m"
  unfolding sends_only_def by (meson order_trans)

lemma sends_only_built:
  assumes "\<And>rq. r = Ok rq \<Longrightarrow> sends_only n Q (f rq)"
  shows "sends_only n Q (act_bind (act_of r) f)"
  using assms by (cases r) (simp_all add: act_bind_def act_of_def sends_only_def)

lemma sends_only_check [simp]: "sends_only n Q (check_cooldown s before after E op)"
  by (simp add: sends_only_def check_cooldown_def Let_def split: option.split)

lemma sends_onlyD:
  assumes "sends_only n Q m"
  shows "list_all Q (drop (length (pst_sent st)) (pst_sent (snd (m st))))"
    and "length (drop (length (pst_sent st)) (pst_sent (snd (m st)))) \<le> n"
proof -
  from assms obtain new where "pst_sent (snd (m st)) = pst_sent st @ new" "length new \<le> n" "list_all Q new"
    unfolding sends_only_def by blast
  then show "list_all Q (drop (length (pst_sent st)) (pst_sent (snd (m st))))"
    "length (drop (length (pst_sent st)) (pst_sent (snd (m st)))) \<le> n" by simp_all
qed

lemma build_request_Inr:
  "build_request P s m u hs b = Ok rq \<Longrightarrow> rq = \<lparr>rq_method = m, rq_uri = u, rq_headers = hs, rq_body = b\<rparr>"
  by (simp add: build_request_def Let_def split: option.splits)

lemmas sends_only_rules = sends_only_bind sends_only_map sends_only_act_of

section \<open>Cooldowns\<close>

text \<open>The cooldowns after new requests, when a response asks for the wait \<open>W\<close>.\<close>

fun observed :: "plugin_env \<Rightarrow> (http_response \<Rightarrow> int option) \<Rightarrow> string \<Rightarrow> http_request list \<Rightarrow>
    http_request list \<Rightarrow> (string \<rightharpoonup> int) \<Rightarrow> (string \<rightharpoonup> int)" where
  "observed E W op hist [] u = u"
| "observed E W op hist (rq # rqs) u = observed E W op (hist @ [rq]) rqs
     (case pe_client E hist rq of
        Err _ \<Rightarrow> u
      | Ok r \<Rightarrow> (case W r of None \<Rightarrow> u | Some w \<Rightarrow> u(op \<mapsto> pe_clock E (hist @ [rq]) + w)))"

definition last_wait :: "plugin_env \<Rightarrow> (http_response \<Rightarrow> int option) \<Rightarrow> http_request list \<Rightarrow> http_request list \<Rightarrow> int option" where
  "last_wait E W hist new =
     (if new = [] then None
      else case pe_client E (hist @ butlast new) (last new) of Ok r \<Rightarrow> W r | Err _ \<Rightarrow> None)"

lemma observed_append: "observed E W op hist (xs @ ys) u = observed E W op (hist @ xs) ys (observed E W op hist xs u)"
  by (induction xs arbitrary: hist u) simp_all

lemma observed_other: "op \<noteq> op' \<Longrightarrow> observed E W op hist new u op' = u op'"
  by (induction new arbitrary: hist u) (simp_all split: sum.split option.split)

lemma observed_last:
  assumes "last_wait E W hist new = Some w"
  shows "observed E W op hist new u op = Some (pe_clock E (hist @ new) + w)"
proof -
  from assms have "new \<noteq> []" by (auto simp: last_wait_def)
  then have new: "new = butlast new @ [last new]" by simp
  from assms obtain r where "pe_client E (hist @ butlast new) (last new) = Ok r" "W r = Some w"
    by (auto simp: last_wait_def split: if_splits sum.splits)
  then show ?thesis
    by (subst new, subst (3) new) (simp add: observed_append del: append_butlast_last_id)
qed

definition cools :: "plugin_env \<Rightarrow> (http_response \<Rightarrow> int option) \<Rightarrow> string \<Rightarrow> 'a action \<Rightarrow> bool" where
  "cools E W op m \<longleftrightarrow> (\<forall>st. \<exists>new. pst_sent (snd (m st)) = pst_sent st @ new \<and>
     pst_until (snd (m st)) = observed E W op (pst_sent st) new (pst_until st))"

lemma cools_quiet: "(\<And>st. snd (m st) = st) \<Longrightarrow> cools E W op m"
  by (simp add: cools_def)

lemma cools_act_of [simp]: "cools E W op (act_of r)"
  by (rule cools_quiet) (simp add: act_of_def)

lemma cools_check [simp]: "cools E W op (check_cooldown s before after E' op')"
  by (rule cools_quiet) (simp add: check_cooldown_def Let_def split: option.split)

lemma cools_bind:
  assumes m: "cools E W op m" and f: "\<And>a. cools E W op (f a)"
  shows "cools E W op (act_bind m f)"
  unfolding cools_def
proof
  fix st
  obtain r st1 where r: "m st = (r, st1)" by (cases "m st")
  from m r obtain new where new: "pst_sent st1 = pst_sent st @ new"
      "pst_until st1 = observed E W op (pst_sent st) new (pst_until st)"
    unfolding cools_def by (metis snd_conv)
  let ?goal = "\<lambda>new. pst_sent (snd (act_bind m f st)) = pst_sent st @ new \<and>
     pst_until (snd (act_bind m f st)) = observed E W op (pst_sent st) new (pst_until st)"
  show "\<exists>new. ?goal new"
  proof (cases r)
    case (Inl e)
    then have "?goal new" using r new by (simp add: act_bind_def)
    then show ?thesis ..
  next
    case (Inr a)
    from f [of a] obtain new2 where "pst_sent (snd (f a st1)) = pst_sent st1 @ new2"
        "pst_until (snd (f a st1)) = observed E W op (pst_sent st1) new2 (pst_until st1)"
      unfolding cools_def by blast
    then have "?goal (new @ new2)" using r Inr new by (simp add: act_bind_def observed_append)
    then show ?thesis ..
  qed
qed

lemma cools_map: "cools E W op m \<Longrightarrow> cools E W op (act_map f m)"
  unfolding act_map_def by (rule cools_bind) simp_all

lemmas cools_rules = cools_bind cools_map cools_act_of

section \<open>Sources with cooldowns\<close>

text \<open>A call answers an error or not, and leaves a state.\<close>

type_synonym 'c runner = "'c \<Rightarrow> plugin_state \<Rightarrow> source_error option \<times> plugin_state"

definition error_of :: "('a, 'e) result \<Rightarrow> 'e option" where
  "error_of r = (case r of Ok _ \<Rightarrow> None | Err e \<Rightarrow> Some e)"

definition answered :: "'a action \<Rightarrow> plugin_state \<Rightarrow> source_error option \<times> plugin_state" where
  "answered m st = map_prod error_of (\<lambda>st. st) (m st)"

definition new_requests :: "'c runner \<Rightarrow> 'c \<Rightarrow> plugin_state \<Rightarrow> http_request list" where
  "new_requests run c st = drop (length (pst_sent st)) (pst_sent (snd (run c st)))"

definition after_calls :: "'c runner \<Rightarrow> 'c list \<Rightarrow> plugin_state \<Rightarrow> plugin_state" where
  "after_calls run cs st = fold (\<lambda>c st. snd (run c st)) cs st"

lemma snd_answered [simp]: "snd (answered m st) = snd (m st)"
  by (simp add: answered_def)

lemma cools_answered: "cools E W op m \<Longrightarrow> cools E W op (\<lambda>st. (Ok (), snd (answered m st)))"
  by (simp add: cools_def)

locale cooled_source =
  fixes run :: "'c runner" and operation :: "'c \<Rightarrow> string" and E :: plugin_env
    and wait :: "'c \<Rightarrow> http_response \<Rightarrow> int option" and checked :: "'c \<Rightarrow> bool"
    and refusal :: "string \<Rightarrow> int \<Rightarrow> source_error"
  assumes calls_cool: "cools E (wait c) (operation c) (\<lambda>st. (Ok (), snd (run c st)))"
    and cooling_refused: "checked c \<Longrightarrow> pst_until st (operation c) = Some until \<Longrightarrow> pe_clock E (pst_sent st) < until \<Longrightarrow>
      run c st = (Some (refusal (operation c) (until - pe_clock E (pst_sent st))), st)"
begin

lemma run_observed:
  "pst_until (snd (run c st)) = observed E (wait c) (operation c) (pst_sent st) (new_requests run c st) (pst_until st)"
  "pst_sent (snd (run c st)) = pst_sent st @ new_requests run c st"
proof -
  obtain new where "pst_sent (snd (run c st)) = pst_sent st @ new"
      "pst_until (snd (run c st)) = observed E (wait c) (operation c) (pst_sent st) new (pst_until st)"
    using calls_cool [of c] unfolding cools_def by auto
  then show "pst_until (snd (run c st)) = observed E (wait c) (operation c) (pst_sent st) (new_requests run c st) (pst_until st)"
    "pst_sent (snd (run c st)) = pst_sent st @ new_requests run c st"
    by (simp_all add: new_requests_def)
qed

lemma others_keep_cooldown:
  "list_all (\<lambda>d. operation d \<noteq> op) cs \<Longrightarrow> pst_until (after_calls run cs st) op = pst_until st op"
proof (induction cs arbitrary: st)
  case (Cons c cs)
  then have "pst_until (snd (run c st)) op = pst_until st op"
    by (simp add: run_observed(1) observed_other)
  with Cons show ?case by (simp add: after_calls_def)
qed (simp add: after_calls_def)

text \<open>Between the end of a wait and the next call of the operation nothing is refused; before it every
  call is, without a request.\<close>

lemma backs_off:
  assumes "last_wait E (wait c) (pst_sent st) (new_requests run c st) = Some w"
    and "list_all (\<lambda>d. operation d \<noteq> operation c) between"
    and "operation c' = operation c" "checked c'"
  defines "limited \<equiv> snd (run c st)"
  defines "later \<equiv> after_calls run between limited"
  defines "left \<equiv> pe_clock E (pst_sent limited) + w - pe_clock E (pst_sent later)"
  shows "if 0 < left then run c' later = (Some (refusal (operation c) left), later)
    else check_cooldown s before after E (operation c) later = (Ok (), later)"
proof -
  have u: "pst_until later (operation c) = Some (pe_clock E (pst_sent limited) + w)"
    using observed_last [OF assms(1), of "operation c" "pst_until st"] others_keep_cooldown [OF assms(2)]
    by (simp add: later_def limited_def run_observed)
  then show ?thesis
    using cooling_refused [of c' later "pe_clock E (pst_sent limited) + w"] assms(3, 4)
    by (simp add: left_def check_cooldown_def Let_def algebra_simps)
qed

end

text \<open>Concrete libraries and a plugin that sent nothing yet, for the examples.\<close>

definition example_plugin_libs :: plugin_libs where
  "example_plugin_libs = \<lparr>pl_libs = example_libs, pl_parse = (\<lambda>_. Ok JNull), pl_request_error = (\<lambda>_. None),
     pl_unix = (\<lambda>_. Ok 0), pl_format = (\<lambda>_. None), pl_lossy = (\<lambda>s. s), pl_status_text = (\<lambda>_. ''500'')\<rparr>"

definition idle_plugin :: plugin_state where
  "idle_plugin = \<lparr>pst_sent = [], pst_until = (\<lambda>_. None)\<rparr>"

end
