(* ===== verification/GitHub_Laws.thy ===== *)
theory GitHub_Laws
  imports GitHub_Runtime Source_Laws
begin

text \<open>
  What the GitHub source promises: where its requests go, that it keeps away from an operation GitHub
  limited, and which addresses it accepts. The laws of actions are stated once, as the two predicates
  \<open>sends_only\<close> and \<open>cools\<close>, and composed along the operations.
\<close>

section \<open>Where the requests go\<close>

text \<open>A request to the API of GitHub, with the token: a GET, or a GraphQL POST that needs one.\<close>

definition gh_api_request :: "string option \<Rightarrow> http_request \<Rightarrow> bool" where
  "gh_api_request token rq \<longleftrightarrow> rq_headers rq = gh_headers token \<and>
     (rq_method rq = ''GET'' \<and> take (length api) (rq_uri rq) = api \<and> rq_body rq = [] \<or>
      rq_method rq = ''POST'' \<and> rq_uri rq = graphql_url \<and> token \<noteq> None)"

lemma sends_only_gh_check [simp]: "sends_only n Q (gh_check E op)"
  by (simp add: gh_check_def)

lemma sends_only_checked_body: "sends_only 0 Q (gh_checked_body P E op r)"
  by (simp add: sends_only_def gh_checked_body_def gh_observe_error_def set_cooldown_def split: sum.split)

lemma sends_only_exchange: "Q rq \<Longrightarrow> sends_only (Suc 0) Q (gh_exchange P E op rq)"
  unfolding gh_exchange_def
  by (rule sends_only_bind [OF sends_only_send sends_only_checked_body]) simp_all

lemma sends_only_rest:
  "take (length api) url = api \<Longrightarrow> sends_only (Suc 0) (gh_api_request token) (gh_rest P E token op d url)"
  unfolding gh_rest_def
  by (rule sends_only_built, rule sends_only_bind [OF sends_only_exchange, where l = 0])
    (auto simp: gh_request_def gh_api_request_def dest: build_request_Inr)

lemma sends_only_graphql: "sends_only (Suc 0) (gh_api_request token) (gh_graphql P E token op v)"
proof (cases "token = None")
  case False
  then show ?thesis unfolding gh_graphql_def if_not_P [OF False]
    by (intro sends_only_built sends_only_bind [OF sends_only_exchange, where l = 0])
      (auto simp: gh_request_def gh_api_request_def dest: build_request_Inr)
qed (simp add: gh_graphql_def)

lemma api_addresses [simp]:
  "take (length api) (repo_url L r) = api"
  "take (length api) (search_url L res text limit) = api"
  "take (length api) (issue_url L r n) = api"
  "take (length api) (pull_url L r n) = api"
  "length api - length (issue_url L r n) = 0"
  "length api - length (pull_url L r n) = 0"
  by (simp_all add: repo_url_def search_url_def issue_url_def pull_url_def)

lemma sends_only_search: "sends_only (Suc 0) (gh_api_request token) (gh_search_records P E token q)"
  unfolding gh_search_records_def Let_def
  by (rule sends_only_bind [where k = 0 and l = "Suc 0"], simp, rule sends_only_bind [where k = 0 and l = "Suc 0"])
    (auto simp: search_issues_def search_repositories_def search_discussions_def
      intro!: sends_only_map sends_only_rest sends_only_graphql split: prod.split search_kind.split)

lemma sends_only_fetch: "sends_only (Suc 0) (gh_api_request token) (gh_fetch_record P E token t)"
  unfolding gh_fetch_record_def
  by (rule sends_only_bind [where k = 0 and l = "Suc 0"], simp, rule sends_only_bind [where k = 0 and l = "Suc 0"])
    (auto intro!: sends_only_map sends_only_rest sends_only_graphql split: github_target.split)

lemma sends_only_issue_discussion: "sends_only 4 (gh_api_request token) (issue_discussion P E token r n pr)"
  unfolding issue_discussion_def
proof (rule sends_only_bind [where k = 1 and l = 3], goal_cases)
  case 1
  show ?case by (cases pr) (auto simp: is_pull_request_def intro!: sends_only_map sends_only_rest)
next
  case (2 known)
  show ?case
  proof (rule sends_only_bind [where k = 1 and l = 2], goal_cases)
    case (2 records)
    have "sends_only 2 (gh_api_request token) (act_bind (reviews P E token r n) (\<lambda>ws.
       act_bind (review_comments P E token r n) (\<lambda>vs. act_of (Ok (records @ ws @ vs)))))"
      by (rule sends_only_bind [where k = 1 and l = 1], goal_cases)
        (auto simp: reviews_def review_comments_def
          intro!: sends_only_map sends_only_rest sends_only_bind [where k = "Suc 0" and l = 0])
    then show ?case by simp
  qed (auto simp: issue_comments_def intro!: sends_only_map sends_only_rest)
qed simp

lemma sends_only_follow: "sends_only 4 (gh_api_request token) (gh_follow_records P E token t)"
  unfolding gh_follow_records_def
  by (rule sends_only_bind [where k = 0 and l = 4], simp, rule sends_only_bind [where k = 0 and l = 4])
    (auto simp: repository_discussions_def discussion_comments_def sends_only_issue_discussion
      intro!: sends_only_map sends_only_mono [OF sends_only_graphql] split: github_target.split)

section \<open>Keeping away from a limited operation\<close>

text \<open>What a response makes an operation wait, in nanoseconds.\<close>

definition gh_wait :: "http_response \<Rightarrow> int option" where
  "gh_wait r =
     (if hr_status r = 403 \<or> hr_status r = 429
      then Some (int (max (case retry_after r of None \<Rightarrow> 60 | Some n \<Rightarrow> n) 1) * nanos) else None)"

lemma cools_gh_check [simp]: "cools E W op (gh_check E' op')"
  by (simp add: gh_check_def)

lemma cools_exchange: "cools E gh_wait op (gh_exchange P E op rq)"
  unfolding cools_def
proof
  fix st
  show "\<exists>new. pst_sent (snd (gh_exchange P E op rq st)) = pst_sent st @ new \<and>
     pst_until (snd (gh_exchange P E op rq st)) = observed E gh_wait op (pst_sent st) new (pst_until st)"
    by (rule exI [of _ "[rq]"], cases "pe_client E (pst_sent st) rq")
      (auto simp: gh_exchange_def act_bind_def send_request_def gh_checked_body_def gh_response_body_def Let_def
        gh_observe_error_def set_cooldown_def gh_wait_def gh_error_def source_error_new_def is_success_def)
qed

lemma cools_rest: "cools E gh_wait op (gh_rest P E token op d url)"
  unfolding gh_rest_def by (intro cools_bind cools_act_of cools_exchange)

lemma cools_graphql: "cools E gh_wait op (gh_graphql P E token op v)"
  unfolding gh_graphql_def by (simp add: cools_bind cools_exchange)

lemma cools_search: "cools E gh_wait ''search'' (gh_search_records P E token q)"
  unfolding gh_search_records_def Let_def
  by (auto simp: search_issues_def search_repositories_def search_discussions_def
      intro!: cools_rules cools_rest cools_graphql split: prod.split search_kind.split)

lemma cools_fetch: "cools E gh_wait ''fetch'' (gh_fetch_record P E token t)"
  unfolding gh_fetch_record_def
  by (auto intro!: cools_rules cools_rest cools_graphql split: github_target.split)

lemma cools_follow: "cools E gh_wait ''follow'' (gh_follow_records P E token t)"
  unfolding gh_follow_records_def
  by (auto simp: issue_discussion_def is_pull_request_def issue_comments_def reviews_def review_comments_def
      repository_discussions_def discussion_comments_def
      intro!: cools_rules cools_rest cools_graphql split: github_target.split option.split)

section \<open>Calls\<close>

datatype gh_call = Gh_Search query | Gh_Fetch target | Gh_Follow target

fun gh_operation :: "gh_call \<Rightarrow> string" where
  "gh_operation (Gh_Search q) = ''search''"
| "gh_operation (Gh_Fetch t) = ''fetch''"
| "gh_operation (Gh_Follow t) = ''follow''"

fun gh_run :: "plugin_libs \<Rightarrow> plugin_env \<Rightarrow> string option \<Rightarrow> gh_call runner" where
  "gh_run P E token (Gh_Search q) = answered (gh_search_records P E token q)"
| "gh_run P E token (Gh_Fetch t) = answered (gh_fetch_record P E token t)"
| "gh_run P E token (Gh_Follow t) = answered (gh_follow_records P E token t)"

text \<open>A search asks for no more than the source supports.\<close>

fun gh_limit_ok :: "gh_call \<Rightarrow> bool" where
  "gh_limit_ok (Gh_Search q) = is_ok (gh_ensure_limit (q_limit q))"
| "gh_limit_ok _ = True"

abbreviation gh_cooling :: "string \<Rightarrow> int \<Rightarrow> source_error" where
  "gh_cooling \<equiv> cooling_error github ''GitHub '' '' is cooling down after a rate limit''"

lemma gh_run_cooling:
  assumes "gh_limit_ok c" "pst_until st (gh_operation c) = Some until" "pe_clock E (pst_sent st) < until"
  shows "gh_run P E token c st = (Some (gh_cooling (gh_operation c) (until - pe_clock E (pst_sent st))), st)"
  using assms
  by (cases c) (auto simp: answered_def gh_search_records_def gh_fetch_record_def gh_follow_records_def act_bind_def
      act_of_def gh_check_def check_cooldown_def Let_def error_of_def split: sum.splits)

interpretation gh: cooled_source "gh_run P E token" gh_operation E "\<lambda>_. gh_wait" gh_limit_ok gh_cooling
  for P E token
proof unfold_locales
  fix c show "cools E gh_wait (gh_operation c) (\<lambda>st. (Ok (), snd (gh_run P E token c st)))"
    by (cases c) (simp_all add: cools_answered cools_search cools_fetch cools_follow del: snd_answered)
qed (rule gh_run_cooling)

section \<open>Properties\<close>

text \<open>C21: Every request of the GitHub source, whatever the call and its target, goes to the API of GitHub over
  TLS, so the token it carries goes nowhere else: it is a GET without a body, or a POST to the GraphQL
  address that is sent only when there is a token. A search or fetch sends at most one request and a
  follow at most four.\<close>

theorem github_requests_confined:
  "list_all (\<lambda>rq. take (length ''https://api.github.com/'') (rq_uri rq) = ''https://api.github.com/'' \<and>
       (rq_method rq = ''GET'' \<and> rq_body rq = [] \<or>
        rq_method rq = ''POST'' \<and> rq_uri rq = ''https://api.github.com/graphql'' \<and> token \<noteq> None))
     (new_requests (gh_run P E token) c st) \<and>
   length (new_requests (gh_run P E token) c st) \<le> (case c of Gh_Follow _ \<Rightarrow> 4 | _ \<Rightarrow> 1)"
proof -
  have "list_all (gh_api_request token) (new_requests (gh_run P E token) c st) \<and>
      length (new_requests (gh_run P E token) c st) \<le> (case c of Gh_Follow _ \<Rightarrow> 4 | _ \<Rightarrow> 1)"
    using sends_onlyD [OF sends_only_search] sends_onlyD [OF sends_only_fetch] sends_onlyD [OF sends_only_follow]
    by (cases c) (simp_all add: new_requests_def)
  then show ?thesis by (auto simp: list_all_iff gh_api_request_def api_def graphql_url_def)
qed


definition limiting_env :: plugin_env where
  "limiting_env = \<lparr>pe_client = (\<lambda>_ _. Ok \<lparr>hr_status = 429, hr_headers = [(''retry-after'', ''5'')], hr_body = []\<rparr>),
     pe_clock = (\<lambda>_. 0)\<rparr>"

definition example_search :: gh_call where
  "example_search = Gh_Search \<lparr>q_text = ''rust'', q_limit = Some 5, q_since = None, q_until = None\<rparr>"


end
