(* ===== verification/Stack_Exchange.thy ===== *)
theory Stack_Exchange
  imports Source_Cooldown
begin

text \<open>
  The Stack Exchange source (\<open>plugins/stack-exchange/src\<close>): queries, targets, payloads, records and the
  three operations. The API asks for a wait in the \<open>backoff\<close> member of any answer.
\<close>

definition stack_exchange :: source_id where "stack_exchange = Source_Id ''stack-exchange''"

definition se_error :: "error_class \<Rightarrow> string \<Rightarrow> source_error" where
  "se_error c m = source_error_new stack_exchange c m"

record se_config =
  se_site :: string
  se_key :: "string option"

definition se_new :: "string option \<Rightarrow> string option \<Rightarrow> se_config" where
  "se_new site key = \<lparr>se_site = (case site of None \<Rightarrow> ''stackoverflow'' | Some s \<Rightarrow> s), se_key = key\<rparr>"

definition se_descriptor :: descriptor where
  "se_descriptor = descriptor_new stack_exchange ''Stack Exchange'' \<lparr>can_search = True, can_fetch = True, can_follow = True\<rparr>"

section \<open>Cooldowns (\<open>cooldown.rs\<close>)\<close>

definition se_check :: "plugin_env \<Rightarrow> string \<Rightarrow> unit action" where
  "se_check = check_cooldown stack_exchange ''Stack Exchange '' '' is cooling down after API backoff''"

definition observe_backoff :: "plugin_env \<Rightarrow> string \<Rightarrow> nat option \<Rightarrow> plugin_state \<Rightarrow> plugin_state" where
  "observe_backoff E operation seconds st =
     (case seconds of None \<Rightarrow> st | Some n \<Rightarrow> set_cooldown E operation n st)"

section \<open>Queries (\<open>query.rs\<close>)\<close>

definition se_max_limit :: nat where "se_max_limit = 50"

definition se_ensure_limit :: "nat option \<Rightarrow> (unit, source_error) result" where
  "se_ensure_limit limit =
     (if se_max_limit < (case limit of None \<Rightarrow> 10 | Some l \<Rightarrow> l)
      then Err (se_error InvalidQuery ''Stack Exchange source supports at most 50 results per search'') else Ok ())"

definition bound_text :: "plugin_libs \<Rightarrow> source_id \<Rightarrow> string \<Rightarrow> string option \<Rightarrow> (string list, source_error) result" where
  "bound_text P s name value =
     (case value of
        None \<Rightarrow> Ok []
      | Some v \<Rightarrow> and_then (rfc3339_to_unix P s v) (\<lambda>n. Ok [name @ int_str n]))"

definition se_date_query :: "plugin_libs \<Rightarrow> query \<Rightarrow> (string, source_error) result" where
  "se_date_query P q =
     and_then (bound_text P stack_exchange ''&fromdate='' (q_since q)) (\<lambda>since.
     and_then (bound_text P stack_exchange ''&todate='' (q_until q)) (\<lambda>until. Ok (concat (since @ until))))"

section \<open>Targets (\<open>target.rs\<close>)\<close>

definition se_invalid :: "string \<Rightarrow> source_error" where
  "se_invalid m = se_error InvalidQuery m"

definition se_ensure_source :: "source_id \<Rightarrow> (unit, source_error) result" where
  "se_ensure_source s =
     (if s = stack_exchange then Ok () else Err (se_invalid ''target source does not match stack-exchange''))"

definition host_matches_site :: "string \<Rightarrow> string \<Rightarrow> bool" where
  "host_matches_site site host =
     (if site = ''stackoverflow'' then host = ''stackoverflow.com''
      else if site = ''serverfault'' then host = ''serverfault.com''
      else if site = ''superuser'' then host = ''superuser.com''
      else host = site @ ''.stackexchange.com'')"

definition question_id_from_url :: "string \<Rightarrow> url \<Rightarrow> nat option" where
  "question_id_from_url site u =
     Option.bind (url_domain u) (\<lambda>host.
       if \<not> host_matches_site site host then None
       else Option.bind (url_segments u) (\<lambda>segments.
         case dropWhile (\<lambda>s. s \<noteq> ''questions'' \<and> s \<noteq> ''q'') segments of
           _ # v # _ \<Rightarrow> parse_u64 v
         | _ \<Rightarrow> None))"

fun question_id :: "libs \<Rightarrow> string \<Rightarrow> target \<Rightarrow> (nat, source_error) result" where
  "question_id L site (Target_Record r) =
     and_then (se_ensure_source (rec_source r)) (\<lambda>_.
       ok_or (se_invalid ''Stack Exchange record target does not contain a question id'')
         (case Option.bind (json_get (rec_metadata r) ''question_id'') as_u64 of
            Some n \<Rightarrow> Some n
          | None \<Rightarrow> Option.bind (parse_url L (rec_url r)) (question_id_from_url site)))"
| "question_id L site (Target_Url s u) =
     and_then (se_ensure_source s) (\<lambda>_.
       ok_or (se_invalid ''Stack Exchange URL target must include a question id'')
         (Option.bind (parse_url L u) (question_id_from_url site)))"
| "question_id L site (Target_Native s i) =
     and_then (se_ensure_source s) (\<lambda>_.
       ok_or (se_invalid ''Stack Exchange native id must be a numeric question id'') (parse_u64 i))"

section \<open>Payloads (\<open>normalize.rs\<close>)\<close>

record se_owner =
  own_name :: "string option"
  own_user :: "nat option"

definition read_owner :: "json \<Rightarrow> se_owner option" where
  "read_owner = read_struct [''display_name'', ''user_id''] (\<lambda>k.
     Option.bind (maybe as_str k ''display_name'') (\<lambda>name. Option.bind (maybe as_u64 k ''user_id'') (\<lambda>user.
       Some \<lparr>own_name = name, own_user = user\<rparr>)))"

record se_question =
  sq_id :: nat
  sq_link :: string
  sq_title :: string
  sq_body :: "string option"
  sq_owner :: "se_owner option"
  sq_created :: "nat option"
  sq_active :: "nat option"
  sq_score :: "int option"
  sq_answers :: "int option"
  sq_answered :: "bool option"
  sq_tags :: "string list option"

definition read_question :: "json \<Rightarrow> se_question option" where
  "read_question = read_struct [''question_id'', ''link'', ''title'', ''body'', ''owner'', ''creation_date'',
       ''last_activity_date'', ''score'', ''answer_count'', ''is_answered'', ''tags''] (\<lambda>k.
     Option.bind (need as_u64 k ''question_id'') (\<lambda>i. Option.bind (need as_str k ''link'') (\<lambda>link.
     Option.bind (need as_str k ''title'') (\<lambda>title. Option.bind (maybe as_str k ''body'') (\<lambda>body.
     Option.bind (maybe read_owner k ''owner'') (\<lambda>owner. Option.bind (maybe as_u64 k ''creation_date'') (\<lambda>created.
     Option.bind (maybe as_u64 k ''last_activity_date'') (\<lambda>active. Option.bind (maybe as_i64 k ''score'') (\<lambda>score.
     Option.bind (maybe as_i64 k ''answer_count'') (\<lambda>answers. Option.bind (maybe as_bool k ''is_answered'') (\<lambda>answered.
     Option.bind (maybe (as_list as_str) k ''tags'') (\<lambda>tags.
       Some \<lparr>sq_id = i, sq_link = link, sq_title = title, sq_body = body, sq_owner = owner, sq_created = created,
         sq_active = active, sq_score = score, sq_answers = answers, sq_answered = answered, sq_tags = tags\<rparr>))))))))))))"

record se_answer =
  sa_id :: nat
  sa_question :: "nat option"
  sa_link :: "string option"
  sa_body :: "string option"
  sa_owner :: "se_owner option"
  sa_created :: "nat option"
  sa_active :: "nat option"
  sa_score :: "int option"
  sa_accepted :: "bool option"

definition read_answer :: "json \<Rightarrow> se_answer option" where
  "read_answer = read_struct [''answer_id'', ''question_id'', ''link'', ''body'', ''owner'', ''creation_date'',
       ''last_activity_date'', ''score'', ''is_accepted''] (\<lambda>k.
     Option.bind (need as_u64 k ''answer_id'') (\<lambda>i. Option.bind (maybe as_u64 k ''question_id'') (\<lambda>question.
     Option.bind (maybe as_str k ''link'') (\<lambda>link. Option.bind (maybe as_str k ''body'') (\<lambda>body.
     Option.bind (maybe read_owner k ''owner'') (\<lambda>owner. Option.bind (maybe as_u64 k ''creation_date'') (\<lambda>created.
     Option.bind (maybe as_u64 k ''last_activity_date'') (\<lambda>active. Option.bind (maybe as_i64 k ''score'') (\<lambda>score.
     Option.bind (maybe as_bool k ''is_accepted'') (\<lambda>accepted.
       Some \<lparr>sa_id = i, sa_question = question, sa_link = link, sa_body = body, sa_owner = owner, sa_created = created,
         sa_active = active, sa_score = score, sa_accepted = accepted\<rparr>))))))))))"

record 'a stack_response =
  resp_items :: "'a list"
  resp_backoff :: "nat option"
  resp_error_id :: "nat option"
  resp_error_name :: "string option"
  resp_error_message :: "string option"

text \<open>\<open>items\<close> may be missing from an object, not null.\<close>

definition read_response :: "(json \<Rightarrow> 'a option) \<Rightarrow> json \<Rightarrow> 'a stack_response option" where
  "read_response decode = read_struct [''items'', ''backoff'', ''error_id'', ''error_name'', ''error_message''] (\<lambda>k.
     Option.bind (case map_of k ''items'' of None \<Rightarrow> Some [] | Some v \<Rightarrow> as_list decode v) (\<lambda>xs.
     Option.bind (maybe as_u64 k ''backoff'') (\<lambda>wait. Option.bind (maybe as_u64 k ''error_id'') (\<lambda>i.
     Option.bind (maybe as_str k ''error_name'') (\<lambda>name. Option.bind (maybe as_str k ''error_message'') (\<lambda>message.
       Some \<lparr>resp_items = xs, resp_backoff = wait, resp_error_id = i, resp_error_name = name,
         resp_error_message = message\<rparr>))))))"

definition stack_error_patterns :: "(string \<times> error_class) list" where
  "stack_error_patterns =
     [(''throttle'', RateLimit), (''access_token'', Authentication), (''auth'', Authentication),
      (''access_denied'', Authorization), (''bad_parameter'', InvalidQuery), (''invalid'', InvalidQuery),
      (''no_method'', InvalidQuery)]"

definition stack_error_class :: "string option \<Rightarrow> error_class" where
  "stack_error_class name =
     (let n = (case name of None \<Rightarrow> [] | Some n \<Rightarrow> n)
      in if n = ''key_required'' then Authentication
         else case find (\<lambda>p. contains_str (fst p) n) stack_error_patterns of
                None \<Rightarrow> Upstream | Some p \<Rightarrow> snd p)"

definition parse_stack_response ::
  "plugin_libs \<Rightarrow> (json \<Rightarrow> 'a option) \<Rightarrow> string \<Rightarrow> ('a stack_response, source_error) result" where
  "parse_stack_response P decode body =
     and_then (parse_body P stack_exchange (read_response decode) body) (\<lambda>r.
       if resp_error_id r \<noteq> None then
         Err ((se_error (stack_error_class (resp_error_name r))
             ((case resp_error_name r of None \<Rightarrow> ''stack_exchange_error'' | Some n \<Rightarrow> n) @ '': '' @
              (case resp_error_message r of None \<Rightarrow> ''unknown error'' | Some m \<Rightarrow> m)))
           \<lparr>err_retry_after := resp_backoff r\<rparr>)
       else Ok r)"

definition owner_name :: "se_owner option \<Rightarrow> string option" where
  "owner_name owner = Option.bind owner own_name"

definition owner_user :: "se_owner option \<Rightarrow> nat option" where
  "owner_user owner = Option.bind owner own_user"

definition normalize_question :: "plugin_libs \<Rightarrow> string \<Rightarrow> se_question \<Rightarrow> source_result" where
  "normalize_question P site q = record_of_json P stack_exchange (json_object
     [(''id'', JString (''stack-exchange:'' @ site @ '':question:'' @ nat_str (sq_id q))),
      (''source'', JString ''stack-exchange''), (''kind'', JString ''question''), (''url'', JString (sq_link q)),
      (''title'', JString (sq_title q)), (''text'', json_opt_str (sq_body q)),
      (''author'', json_opt_str (owner_name (sq_owner q))),
      (''created_at'', json_opt_str (Option.bind (sq_created q) (unix_to_rfc3339 P))),
      (''updated_at'', json_opt_str (Option.bind (sq_active q) (unix_to_rfc3339 P))),
      (''metadata'', json_object
        [(''site'', JString site), (''question_id'', json_nat (sq_id q)), (''score'', json_opt_int (sq_score q)),
         (''answer_count'', json_opt_int (sq_answers q)), (''is_answered'', json_opt_bool (sq_answered q)),
         (''tags'', json_opt (\<lambda>ts. JArray (map JString ts)) (sq_tags q)),
         (''owner_user_id'', json_opt_nat (owner_user (sq_owner q)))])])"

definition normalize_answer :: "plugin_libs \<Rightarrow> string \<Rightarrow> nat \<Rightarrow> se_answer \<Rightarrow> source_result" where
  "normalize_answer P site fallback_question_id a = record_of_json P stack_exchange (json_object
     [(''id'', JString (''stack-exchange:'' @ site @ '':answer:'' @ nat_str (sa_id a))),
      (''source'', JString ''stack-exchange''), (''kind'', JString ''answer''),
      (''url'', JString (case sa_link a of Some u \<Rightarrow> u | None \<Rightarrow> ''https://stackoverflow.com/a/'' @ nat_str (sa_id a))),
      (''title'', JNull), (''text'', json_opt_str (sa_body a)),
      (''author'', json_opt_str (owner_name (sa_owner a))),
      (''created_at'', json_opt_str (Option.bind (sa_created a) (unix_to_rfc3339 P))),
      (''updated_at'', json_opt_str (Option.bind (sa_active a) (unix_to_rfc3339 P))),
      (''metadata'', json_object
        [(''site'', JString site), (''answer_id'', json_nat (sa_id a)),
         (''question_id'', json_nat (case sa_question a of None \<Rightarrow> fallback_question_id | Some n \<Rightarrow> n)),
         (''score'', json_opt_int (sa_score a)), (''is_accepted'', json_opt_bool (sa_accepted a)),
         (''owner_user_id'', json_opt_nat (owner_user (sa_owner a)))])])"

section \<open>Requests and answers (\<open>lib.rs\<close>)\<close>

definition se_get :: "plugin_libs \<Rightarrow> string \<Rightarrow> (http_request, source_error) result" where
  "se_get P u = build_request P stack_exchange ''GET'' u
     [(''accept'', ''application/json''), (''user-agent'', ''comsat'')] []"

definition se_api_url :: "libs \<Rightarrow> se_config \<Rightarrow> string \<Rightarrow> string" where
  "se_api_url L c path_and_query =
     ''https://api.stackexchange.com'' @ path_and_query @
     (case se_key c of None \<Rightarrow> [] | Some k \<Rightarrow> ''&key='' @ percent_encode L k)"

definition encoded_site :: "libs \<Rightarrow> se_config \<Rightarrow> string" where
  "encoded_site L c = percent_encode L (se_site c)"

definition se_http_error :: "plugin_libs \<Rightarrow> nat \<Rightarrow> nat option \<Rightarrow> source_error" where
  "se_http_error P status retry =
     (let e =
        (if status = 401 then se_error Authentication ''Stack Exchange authentication failed''
         else if status = 403 then se_error Authorization ''Stack Exchange access denied''
         else if status = 429 then se_error RateLimit ''Stack Exchange request was rate limited''
         else if status = 404 then se_error NotFound ''Stack Exchange target was not found''
         else se_error Upstream (''Stack Exchange returned HTTP '' @ pl_status_text P status))
      in if err_class e = RateLimit then e\<lparr>err_retry_after := retry\<rparr> else e)"

definition se_parse_response ::
  "plugin_libs \<Rightarrow> plugin_env \<Rightarrow> string \<Rightarrow> (json \<Rightarrow> 'a option) \<Rightarrow> string \<Rightarrow> 'a stack_response action" where
  "se_parse_response P E operation decode body st =
     (case parse_stack_response P decode body of
        Ok r \<Rightarrow> (Ok r, st)
      | Err e \<Rightarrow> (Err e, observe_backoff E operation (err_retry_after e) st))"

definition se_parse_http_response ::
  "plugin_libs \<Rightarrow> plugin_env \<Rightarrow> string \<Rightarrow> (json \<Rightarrow> 'a option) \<Rightarrow> http_response \<Rightarrow> 'a stack_response action" where
  "se_parse_http_response P E operation decode r st =
     (if is_success (hr_status r) then se_parse_response P E operation decode (hr_body r) st
      else
        let http_failure = (\<lambda>st. let e = se_http_error P (hr_status r) (retry_after r)
              in (Err e, observe_backoff E operation (err_retry_after e) st))
        in case se_parse_response P E operation decode (hr_body r) st of
             (Err e, st) \<Rightarrow> if err_class e \<noteq> Protocol then (Err e, st) else http_failure st
           | (Ok _, st) \<Rightarrow> http_failure st)"

text \<open>A GET, its answer, and the wait a good answer asks for.\<close>

definition se_exchange ::
  "plugin_libs \<Rightarrow> plugin_env \<Rightarrow> string \<Rightarrow> (json \<Rightarrow> 'a option) \<Rightarrow> string \<Rightarrow> 'a stack_response action" where
  "se_exchange P E operation decode u =
     act_bind (act_of (se_get P u)) (\<lambda>rq.
     act_bind (send_request E rq) (\<lambda>r.
     act_bind (se_parse_http_response P E operation decode r) (\<lambda>response st.
       (Ok response, observe_backoff E operation (resp_backoff response) st))))"

section \<open>Operations\<close>

definition se_search_records ::
  "plugin_libs \<Rightarrow> plugin_env \<Rightarrow> se_config \<Rightarrow> query \<Rightarrow> comsat_record list action" where
  "se_search_records P E c q =
     act_bind (act_of (se_ensure_limit (q_limit q))) (\<lambda>_.
     act_bind (se_check E ''search'') (\<lambda>_.
     act_bind (act_of (se_date_query P q)) (\<lambda>dates.
     act_map (\<lambda>r. collect_ok (normalize_question P (se_site c)) (resp_items r))
       (se_exchange P E ''search'' read_question (se_api_url (pl_libs P) c
         (''/2.3/search/advanced?order=desc&sort=relevance&q='' @ percent_encode (pl_libs P) (q_text q) @ ''&site='' @
          encoded_site (pl_libs P) c @ ''&pagesize='' @ nat_str (case q_limit q of None \<Rightarrow> 10 | Some l \<Rightarrow> l) @ dates))))))"

definition se_fetch_record ::
  "plugin_libs \<Rightarrow> plugin_env \<Rightarrow> se_config \<Rightarrow> target \<Rightarrow> comsat_record action" where
  "se_fetch_record P E c t =
     act_bind (se_check E ''fetch'') (\<lambda>_.
     act_bind (act_of (question_id (pl_libs P) (se_site c) t)) (\<lambda>i.
     act_map (\<lambda>r. case resp_items r of
           [] \<Rightarrow> Err (se_error NotFound ''Stack Exchange question was not found'')
         | q # _ \<Rightarrow> normalize_question P (se_site c) q)
       (se_exchange P E ''fetch'' read_question (se_api_url (pl_libs P) c
         (''/2.3/questions/'' @ nat_str i @ ''?order=desc&sort=activity&site='' @ encoded_site (pl_libs P) c @ ''&filter=withbody'')))))"

definition se_follow_records ::
  "plugin_libs \<Rightarrow> plugin_env \<Rightarrow> se_config \<Rightarrow> target \<Rightarrow> comsat_record list action" where
  "se_follow_records P E c t =
     act_bind (se_check E ''follow'') (\<lambda>_.
     act_bind (act_of (question_id (pl_libs P) (se_site c) t)) (\<lambda>i.
     act_map (\<lambda>r. collect_ok (normalize_answer P (se_site c) i) (resp_items r))
       (se_exchange P E ''follow'' read_answer (se_api_url (pl_libs P) c
         (''/2.3/questions/'' @ nat_str i @ ''/answers?order=desc&sort=activity&site='' @ encoded_site (pl_libs P) c @
          ''&filter=withbody&pagesize='' @ nat_str se_max_limit)))))"

definition se_runtime :: "plugin_libs \<Rightarrow> plugin_env \<Rightarrow> se_config \<Rightarrow> plugin_state \<Rightarrow> source_runtime" where
  "se_runtime P E c st = \<lparr>rt_search = \<lambda>q. stream_of (fst (se_search_records P E c q st)),
     rt_fetch = \<lambda>t. fst (se_fetch_record P E c t st),
     rt_follow = \<lambda>t. stream_of (fst (se_follow_records P E c t st))\<rparr>"

end
