(* ===== verification/Stack_Exchange_Laws.thy ===== *)
theory Stack_Exchange_Laws
  imports Stack_Exchange Source_Laws
begin

text \<open>
  What the Stack Exchange source promises: it sends at most one request per call, to its API, and keeps
  the waits the API asks for. It is the second instance of \<open>cooled_source\<close>.
\<close>

section \<open>Requests\<close>

definition se_api_request :: "http_request \<Rightarrow> bool" where
  "se_api_request rq \<longleftrightarrow> rq_method rq = ''GET'' \<and> rq_body rq = [] \<and>
     take (length ''https://api.stackexchange.com/2.3/'') (rq_uri rq) = ''https://api.stackexchange.com/2.3/''"

lemma sends_only_se_check [simp]: "sends_only n Q (se_check E op)"
  by (simp add: se_check_def)

lemma sends_only_se_parse: "sends_only 0 Q (se_parse_http_response P E op decode r)"
  by (simp add: sends_only_def se_parse_http_response_def se_parse_response_def observe_backoff_def set_cooldown_def
      Let_def split: sum.split option.split)

lemma sends_only_se_observe: "sends_only 0 Q (\<lambda>st. (Ok x, observe_backoff E op n st))"
  by (simp add: sends_only_def observe_backoff_def set_cooldown_def split: option.split)

lemma sends_only_se_exchange:
  assumes "take (length ''https://api.stackexchange.com/2.3/'') u = ''https://api.stackexchange.com/2.3/''"
  shows "sends_only (Suc 0) se_api_request (se_exchange P E op decode u)"
  unfolding se_exchange_def
proof (rule sends_only_built)
  fix rq assume "se_get P u = Ok rq"
  then have q: "se_api_request rq"
    using assms by (auto simp: se_get_def se_api_request_def dest: build_request_Inr)
  show "sends_only (Suc 0) se_api_request (act_bind (send_request E rq) (\<lambda>r.
      act_bind (se_parse_http_response P E op decode r)
        (\<lambda>response st. (Ok response, observe_backoff E op (resp_backoff response) st))))"
    by (rule sends_only_bind [OF sends_only_send [where Q = se_api_request, OF q] sends_only_bind [OF sends_only_se_parse sends_only_se_observe]])
      simp_all
qed

lemma sends_only_se_search: "sends_only (Suc 0) se_api_request (se_search_records P E c q)"
  unfolding se_search_records_def
  by (intro sends_only_bind [where k = 0 and l = "Suc 0"] sends_only_map sends_only_se_exchange)
    (simp_all add: se_api_url_def)

lemma sends_only_se_fetch: "sends_only (Suc 0) se_api_request (se_fetch_record P E c t)"
  unfolding se_fetch_record_def
  by (intro sends_only_bind [where k = 0 and l = "Suc 0"] sends_only_map sends_only_se_exchange)
    (simp_all add: se_api_url_def)

lemma sends_only_se_follow: "sends_only (Suc 0) se_api_request (se_follow_records P E c t)"
  unfolding se_follow_records_def
  by (intro sends_only_bind [where k = 0 and l = "Suc 0"] sends_only_map sends_only_se_exchange)
    (simp_all add: se_api_url_def)

section \<open>Waits\<close>

text \<open>The seconds an answer asks for: its \<open>backoff\<close> member, or the Retry-After header of a 429 whose body says
  nothing of its own.\<close>

definition se_backoff :: "plugin_libs \<Rightarrow> (json \<Rightarrow> 'a option) \<Rightarrow> http_response \<Rightarrow> nat option" where
  "se_backoff P decode r =
     (case parse_stack_response P decode (hr_body r) of
        Ok response \<Rightarrow> if is_success (hr_status r) then resp_backoff response
          else if hr_status r = 429 then retry_after r else None
      | Err e \<Rightarrow> if is_success (hr_status r) \<or> err_class e \<noteq> Protocol then err_retry_after e
          else if hr_status r = 429 then retry_after r else None)"

definition se_wait :: "plugin_libs \<Rightarrow> (json \<Rightarrow> 'a option) \<Rightarrow> http_response \<Rightarrow> int option" where
  "se_wait P decode r = map_option (\<lambda>n. int (max n 1) * nanos) (se_backoff P decode r)"

lemma stack_error_class_not_protocol: "stack_error_class name \<noteq> Protocol"
  by (auto simp: stack_error_class_def stack_error_patterns_def Let_def split: option.splits if_splits)

lemma protocol_error_no_retry:
  "parse_stack_response P decode body = Err e \<Longrightarrow> err_class e = Protocol \<Longrightarrow> err_retry_after e = None"
  by (auto simp: parse_stack_response_def parse_body_def se_error_def source_error_new_def
      stack_error_class_not_protocol split: sum.splits if_splits option.splits elim!: and_then.elims)

lemma se_http_error_retry: "err_retry_after (se_http_error P status retry) = (if status = 429 then retry else None)"
  by (simp add: se_http_error_def Let_def se_error_def source_error_new_def)

lemma cools_se_check [simp]: "cools E W op (se_check E' op')"
  by (simp add: se_check_def)

lemma cools_se_exchange: "cools E (se_wait P decode) op (se_exchange P E op decode u)"
  unfolding se_exchange_def
proof (rule cools_bind [OF cools_act_of])
  fix rq
  show "cools E (se_wait P decode) op (act_bind (send_request E rq) (\<lambda>r.
      act_bind (se_parse_http_response P E op decode r)
        (\<lambda>response st. (Ok response, observe_backoff E op (resp_backoff response) st))))"
    (is "cools E ?W op ?m")
    unfolding cools_def
  proof
    fix st
    show "\<exists>new. pst_sent (snd (?m st)) = pst_sent st @ new \<and>
        pst_until (snd (?m st)) = observed E ?W op (pst_sent st) new (pst_until st)"
    proof (rule exI [of _ "[rq]"], cases "pe_client E (pst_sent st) rq")
      case (Inl e)
      then show "pst_sent (snd (?m st)) = pst_sent st @ [rq] \<and>
          pst_until (snd (?m st)) = observed E ?W op (pst_sent st) [rq] (pst_until st)"
        by (simp add: act_bind_def send_request_def)
    next
      case (Inr r)
      then show "pst_sent (snd (?m st)) = pst_sent st @ [rq] \<and>
          pst_until (snd (?m st)) = observed E ?W op (pst_sent st) [rq] (pst_until st)"
        by (cases "parse_stack_response P decode (hr_body r)")
          (auto simp: act_bind_def send_request_def se_parse_http_response_def se_parse_response_def se_wait_def
            se_backoff_def observe_backoff_def set_cooldown_def se_http_error_retry Let_def
            dest: protocol_error_no_retry split: option.splits)
    qed
  qed
qed

section \<open>Calls\<close>

datatype se_call = Se_Search query | Se_Fetch target | Se_Follow target

fun se_operation :: "se_call \<Rightarrow> string" where
  "se_operation (Se_Search q) = ''search''"
| "se_operation (Se_Fetch t) = ''fetch''"
| "se_operation (Se_Follow t) = ''follow''"

fun se_run :: "plugin_libs \<Rightarrow> plugin_env \<Rightarrow> se_config \<Rightarrow> se_call runner" where
  "se_run P E c (Se_Search q) = answered (se_search_records P E c q)"
| "se_run P E c (Se_Fetch t) = answered (se_fetch_record P E c t)"
| "se_run P E c (Se_Follow t) = answered (se_follow_records P E c t)"

fun se_limit_ok :: "se_call \<Rightarrow> bool" where
  "se_limit_ok (Se_Search q) = is_ok (se_ensure_limit (q_limit q))"
| "se_limit_ok _ = True"

text \<open>An answer to a follow is read as answers, any other as questions.\<close>

fun se_call_wait :: "plugin_libs \<Rightarrow> se_call \<Rightarrow> http_response \<Rightarrow> int option" where
  "se_call_wait P (Se_Follow t) = se_wait P read_answer"
| "se_call_wait P _ = se_wait P read_question"

abbreviation se_cooling :: "string \<Rightarrow> int \<Rightarrow> source_error" where
  "se_cooling \<equiv> cooling_error stack_exchange ''Stack Exchange '' '' is cooling down after API backoff''"

lemma se_run_cooling:
  assumes "se_limit_ok d" "pst_until st (se_operation d) = Some until" "pe_clock E (pst_sent st) < until"
  shows "se_run P E c d st = (Some (se_cooling (se_operation d) (until - pe_clock E (pst_sent st))), st)"
  using assms
  by (cases d) (auto simp: answered_def se_search_records_def se_fetch_record_def se_follow_records_def act_bind_def
      act_of_def se_check_def check_cooldown_def Let_def error_of_def split: sum.splits)

lemma cools_se_call:
  "cools E (se_wait P read_question) ''search'' (se_search_records P E c q)"
  "cools E (se_wait P read_question) ''fetch'' (se_fetch_record P E c t)"
  "cools E (se_wait P read_answer) ''follow'' (se_follow_records P E c t)"
  by (auto simp: se_search_records_def se_fetch_record_def se_follow_records_def intro!: cools_rules cools_se_exchange)

interpretation se: cooled_source "se_run P E c" se_operation E "se_call_wait P" se_limit_ok se_cooling
  for P E c
proof unfold_locales
  fix d show "cools E (se_call_wait P d) (se_operation d) (\<lambda>st. (Ok (), snd (se_run P E c d st)))"
    by (cases d) (simp_all add: cools_answered cools_se_call del: snd_answered)
qed (rule se_run_cooling)

section \<open>Properties\<close>


definition backoff_libs :: plugin_libs where
  "backoff_libs = example_plugin_libs
     \<lparr>pl_parse := (\<lambda>_. Ok (JObject [(''items'', JArray []), (''backoff'', JInt 10)]))\<rparr>"

definition answering_env :: plugin_env where
  "answering_env = \<lparr>pe_client = (\<lambda>_ _. Ok \<lparr>hr_status = 200, hr_headers = [], hr_body = ''{}''\<rparr>), pe_clock = (\<lambda>_. 0)\<rparr>"


end
