(* ===== verification/Hacker_News.thy ===== *)
theory Hacker_News
  imports Source_Laws
begin

text \<open>
  The Hacker News source (\<open>plugins/hacker-news/src\<close>): search through Algolia, items and their comments
  through Firebase, and what a follow promises. It keeps no cooldowns. A follow yields each comment as
  it arrives, so it is a function from the state to the events and the next state.
\<close>

definition hacker_news :: source_id where "hacker_news = Source_Id ''hacker-news''"

definition hn_error :: "error_class \<Rightarrow> string \<Rightarrow> source_error" where
  "hn_error c m = source_error_new hacker_news c m"

definition hn_max_limit :: nat where "hn_max_limit = 50"

definition hn_descriptor :: descriptor where
  "hn_descriptor = descriptor_new hacker_news ''Hacker News'' \<lparr>can_search = True, can_fetch = True, can_follow = True\<rparr>"

section \<open>Targets (\<open>target.rs\<close>)\<close>

definition hn_invalid :: "string \<Rightarrow> source_error" where
  "hn_invalid m = hn_error InvalidQuery m"

definition hn_ensure_source :: "source_id \<Rightarrow> (unit, source_error) result" where
  "hn_ensure_source s =
     (if s = hacker_news then Ok () else Err (hn_invalid ''target source does not match hacker-news''))"

definition id_from_url :: "url \<Rightarrow> nat option" where
  "id_from_url u =
     (if url_domain u \<noteq> Some ''news.ycombinator.com'' then None
      else Option.bind (find (\<lambda>p. fst p = ''id'') (url_query_pairs u)) (\<lambda>p. parse_u64 (snd p)))"

fun target_id :: "libs \<Rightarrow> target \<Rightarrow> (nat, source_error) result" where
  "target_id L (Target_Record r) =
     and_then (hn_ensure_source (rec_source r)) (\<lambda>_.
       ok_or (hn_invalid ''Hacker News record target does not contain an item id'')
         (case Option.bind (strip_prefix ''hacker-news:'' (rid_str (rec_id r))) parse_u64 of
            Some n \<Rightarrow> Some n
          | None \<Rightarrow> Option.bind (parse_url L (rec_url r)) id_from_url))"
| "target_id L (Target_Url s u) =
     and_then (hn_ensure_source s) (\<lambda>_.
       ok_or (hn_invalid ''Hacker News URL target must include item id'')
         (Option.bind (parse_url L u) id_from_url))"
| "target_id L (Target_Native s i) =
     and_then (hn_ensure_source s) (\<lambda>_.
       ok_or (hn_invalid ''Hacker News native id must be a numeric item id'') (parse_u64 i))"

section \<open>Payloads\<close>

record algolia_hit =
  hit_object :: string
  hit_title :: "string option"
  hit_story_title :: "string option"
  hit_url :: "string option"
  hit_story_url :: "string option"
  hit_author :: "string option"
  hit_comment :: "string option"
  hit_story :: "string option"
  hit_created :: "string option"
  hit_points :: "int option"
  hit_comments :: "int option"
  hit_story_id :: "nat option"
  hit_parent :: "nat option"

definition read_hit :: "json \<Rightarrow> algolia_hit option" where
  "read_hit = read_struct [''objectID'', ''title'', ''story_title'', ''url'', ''story_url'', ''author'', ''comment_text'',
       ''story_text'', ''created_at'', ''points'', ''num_comments'', ''story_id'', ''parent_id''] (\<lambda>k.
     Option.bind (need as_str k ''objectID'') (\<lambda>i. Option.bind (maybe as_str k ''title'') (\<lambda>title.
     Option.bind (maybe as_str k ''story_title'') (\<lambda>story_title. Option.bind (maybe as_str k ''url'') (\<lambda>u.
     Option.bind (maybe as_str k ''story_url'') (\<lambda>story_url. Option.bind (maybe as_str k ''author'') (\<lambda>author.
     Option.bind (maybe as_str k ''comment_text'') (\<lambda>comment. Option.bind (maybe as_str k ''story_text'') (\<lambda>story.
     Option.bind (maybe as_str k ''created_at'') (\<lambda>created. Option.bind (maybe as_i64 k ''points'') (\<lambda>points.
     Option.bind (maybe as_i64 k ''num_comments'') (\<lambda>comments. Option.bind (maybe as_u64 k ''story_id'') (\<lambda>story_id.
     Option.bind (maybe as_u64 k ''parent_id'') (\<lambda>parent.
       Some \<lparr>hit_object = i, hit_title = title, hit_story_title = story_title, hit_url = u, hit_story_url = story_url,
         hit_author = author, hit_comment = comment, hit_story = story, hit_created = created, hit_points = points,
         hit_comments = comments, hit_story_id = story_id, hit_parent = parent\<rparr>))))))))))))))"

definition read_hits :: "json \<Rightarrow> algolia_hit list option" where
  "read_hits = read_struct [''hits''] (\<lambda>k. need (as_list read_hit) k ''hits'')"

record hn_item =
  it_id :: nat
  it_kind :: string
  it_by :: "string option"
  it_time :: "nat option"
  it_title :: "string option"
  it_text :: "string option"
  it_url :: "string option"
  it_score :: "int option"
  it_descendants :: "int option"
  it_parent :: "nat option"
  it_kids :: "nat list option"

definition read_item :: "json \<Rightarrow> hn_item option" where
  "read_item = read_struct [''id'', ''type'', ''by'', ''time'', ''title'', ''text'', ''url'', ''score'', ''descendants'',
       ''parent'', ''kids''] (\<lambda>k.
     Option.bind (need as_u64 k ''id'') (\<lambda>i. Option.bind (need as_str k ''type'') (\<lambda>kind.
     Option.bind (maybe as_str k ''by'') (\<lambda>by_name. Option.bind (maybe as_u64 k ''time'') (\<lambda>time.
     Option.bind (maybe as_str k ''title'') (\<lambda>title. Option.bind (maybe as_str k ''text'') (\<lambda>text.
     Option.bind (maybe as_str k ''url'') (\<lambda>u. Option.bind (maybe as_i64 k ''score'') (\<lambda>score.
     Option.bind (maybe as_i64 k ''descendants'') (\<lambda>descendants. Option.bind (maybe as_u64 k ''parent'') (\<lambda>parent.
     Option.bind (maybe (as_list as_u64) k ''kids'') (\<lambda>kids.
       Some \<lparr>it_id = i, it_kind = kind, it_by = by_name, it_time = time, it_title = title, it_text = text, it_url = u,
         it_score = score, it_descendants = descendants, it_parent = parent, it_kids = kids\<rparr>))))))))))))"

definition or_else :: "'a option \<Rightarrow> 'a option \<Rightarrow> 'a option" where
  "or_else a b = (case a of None \<Rightarrow> b | Some _ \<Rightarrow> a)"

definition hn_page :: "string \<Rightarrow> string" where
  "hn_page i = ''https://news.ycombinator.com/item?id='' @ i"

definition normalize_hit :: "plugin_libs \<Rightarrow> algolia_hit \<Rightarrow> source_result" where
  "normalize_hit P h = record_of_json P hacker_news (json_object
     [(''id'', JString (''hacker-news:'' @ hit_object h)), (''source'', JString ''hacker-news''),
      (''kind'', JString (if hit_comment h \<noteq> None then ''comment'' else ''story'')),
      (''url'', JString (hn_page (hit_object h))),
      (''title'', json_opt_str (or_else (hit_title h) (hit_story_title h))),
      (''text'', json_opt_str (or_else (hit_comment h) (hit_story h))),
      (''author'', json_opt_str (hit_author h)), (''created_at'', json_opt_str (hit_created h)), (''updated_at'', JNull),
      (''metadata'', json_object
        [(''object_id'', JString (hit_object h)), (''story_id'', json_opt_nat (hit_story_id h)),
         (''parent_id'', json_opt_nat (hit_parent h)), (''points'', json_opt_int (hit_points h)),
         (''num_comments'', json_opt_int (hit_comments h)),
         (''outbound_url'', json_opt_str (or_else (hit_url h) (hit_story_url h))),
         (''search_provider'', JString ''hn.algolia.com'')])])"

definition normalize_item :: "plugin_libs \<Rightarrow> hn_item \<Rightarrow> source_result" where
  "normalize_item P x = record_of_json P hacker_news (json_object
     [(''id'', JString (''hacker-news:'' @ nat_str (it_id x))), (''source'', JString ''hacker-news''),
      (''kind'', JString (it_kind x)), (''url'', JString (hn_page (nat_str (it_id x)))),
      (''title'', json_opt_str (it_title x)), (''text'', json_opt_str (it_text x)), (''author'', json_opt_str (it_by x)),
      (''created_at'', json_opt_str (Option.bind (it_time x) (unix_to_rfc3339 P))), (''updated_at'', JNull),
      (''metadata'', json_object
        [(''story_id'', json_opt_nat (if it_kind x = ''story'' then Some (it_id x) else None)),
         (''parent_id'', json_opt_nat (it_parent x)), (''points'', json_opt_int (it_score x)),
         (''descendants'', json_opt_int (it_descendants x)), (''kid_count'', json_opt_nat (map_option length (it_kids x))),
         (''outbound_url'', json_opt_str (it_url x))])])"

section \<open>Requests\<close>

definition hn_get :: "plugin_libs \<Rightarrow> string \<Rightarrow> (http_request, source_error) result" where
  "hn_get P u = build_request P hacker_news ''GET'' u [(''user-agent'', ''comsat'')] []"

definition hn_checked_body :: "plugin_libs \<Rightarrow> http_response \<Rightarrow> (string, source_error) result" where
  "hn_checked_body P r =
     (if is_success (hr_status r) then Ok (hr_body r)
      else if hr_status r = 404 then Err (hn_error NotFound ''Hacker News item was not found'')
      else Err (hn_error Upstream (''Hacker News returned HTTP '' @ pl_status_text P (hr_status r))))"

definition parse_item :: "plugin_libs \<Rightarrow> string \<Rightarrow> (hn_item, source_error) result" where
  "parse_item P body =
     and_then (parse_body P hacker_news any_value body) (\<lambda>v.
       if is_null v then Err (hn_error NotFound ''Hacker News item was not found'')
       else ok_or (hn_error Protocol (decode_text (pl_libs P) v)) (read_item v))"

definition hn_exchange :: "plugin_libs \<Rightarrow> plugin_env \<Rightarrow> (string \<Rightarrow> ('a, source_error) result) \<Rightarrow> string \<Rightarrow> 'a action" where
  "hn_exchange P E read u =
     act_bind (act_of (hn_get P u)) (\<lambda>rq.
     act_map (\<lambda>r. and_then (hn_checked_body P r) read) (send_request E rq))"

definition item_url :: "nat \<Rightarrow> string" where
  "item_url n = ''https://hacker-news.firebaseio.com/v0/item/'' @ nat_str n @ ''.json''"

definition fetch_item :: "plugin_libs \<Rightarrow> plugin_env \<Rightarrow> nat \<Rightarrow> hn_item action" where
  "fetch_item P E n = hn_exchange P E (parse_item P) (item_url n)"

section \<open>Operations\<close>

definition hn_ensure_limit :: "nat option \<Rightarrow> (unit, source_error) result" where
  "hn_ensure_limit limit =
     (if hn_max_limit < (case limit of None \<Rightarrow> 10 | Some l \<Rightarrow> l)
      then Err (hn_error InvalidQuery ''Hacker News source supports at most 50 results per search'') else Ok ())"

definition filter_text :: "plugin_libs \<Rightarrow> string \<Rightarrow> string option \<Rightarrow> (string list, source_error) result" where
  "filter_text P name value =
     (case value of
        None \<Rightarrow> Ok []
      | Some v \<Rightarrow> and_then (rfc3339_to_unix P hacker_news v) (\<lambda>n. Ok [name @ int_str n]))"

definition algolia_filters :: "plugin_libs \<Rightarrow> query \<Rightarrow> (string, source_error) result" where
  "algolia_filters P q =
     and_then (filter_text P ''created_at_i>='' (q_since q)) (\<lambda>since.
     and_then (filter_text P ''created_at_i<='' (q_until q)) (\<lambda>until.
       Ok (if since @ until = [] then []
           else ''&numericFilters='' @ percent_encode (pl_libs P) (join '','' (since @ until)))))"

definition hn_search_records :: "plugin_libs \<Rightarrow> plugin_env \<Rightarrow> query \<Rightarrow> comsat_record list action" where
  "hn_search_records P E q =
     act_bind (act_of (hn_ensure_limit (q_limit q))) (\<lambda>_.
     act_bind (act_of (algolia_filters P q)) (\<lambda>filters.
     act_map (collect_ok (normalize_hit P))
       (hn_exchange P E (parse_body P hacker_news read_hits)
         (''https://hn.algolia.com/api/v1/search?query='' @ percent_encode (pl_libs P) (q_text q) @ ''&tags='' @
          percent_encode (pl_libs P) ''(story,comment)'' @ ''&hitsPerPage='' @
          nat_str (case q_limit q of None \<Rightarrow> 10 | Some l \<Rightarrow> l) @ ''&advancedSyntax=true'' @ filters))))"

definition fetch_item_record :: "plugin_libs \<Rightarrow> plugin_env \<Rightarrow> target \<Rightarrow> comsat_record action" where
  "fetch_item_record P E t =
     act_bind (act_of (target_id (pl_libs P) t)) (\<lambda>n. act_map (normalize_item P) (fetch_item P E n))"

text \<open>The events of a stream, and the state at its end.\<close>

fun follow_kids :: "plugin_libs \<Rightarrow> plugin_env \<Rightarrow> nat list \<Rightarrow> plugin_state \<Rightarrow> source_result list \<times> plugin_state" where
  "follow_kids P E [] st = ([], st)"
| "follow_kids P E (n # ns) st =
     (case fetch_item P E n st of (r, st) \<Rightarrow>
        (case follow_kids P E ns st of (rs, st) \<Rightarrow> (and_then r (normalize_item P) # rs, st)))"

definition hn_follow :: "plugin_libs \<Rightarrow> plugin_env \<Rightarrow> target \<Rightarrow> plugin_state \<Rightarrow> source_result list \<times> plugin_state" where
  "hn_follow P E t st =
     (case act_bind (act_of (target_id (pl_libs P) t)) (fetch_item P E) st of
        (Err e, st) \<Rightarrow> ([Err e], st)
      | (Ok x, st) \<Rightarrow> follow_kids P E (take hn_max_limit (case it_kids x of None \<Rightarrow> [] | Some ns \<Rightarrow> ns)) st)"

definition hn_runtime :: "plugin_libs \<Rightarrow> plugin_env \<Rightarrow> plugin_state \<Rightarrow> source_runtime" where
  "hn_runtime P E st = \<lparr>rt_search = \<lambda>q. stream_of (fst (hn_search_records P E q st)),
     rt_fetch = \<lambda>t. fst (fetch_item_record P E t st), rt_follow = \<lambda>t. fst (hn_follow P E t st)\<rparr>"

section \<open>What a follow answers\<close>

text \<open>The request for an item, and what an answer to it says.\<close>

definition item_request :: "nat \<Rightarrow> http_request" where
  "item_request n = \<lparr>rq_method = ''GET'', rq_uri = item_url n, rq_headers = [(''user-agent'', ''comsat'')], rq_body = []\<rparr>"

definition item_answer :: "plugin_libs \<Rightarrow> plugin_env \<Rightarrow> http_request list \<Rightarrow> nat \<Rightarrow> (hn_item, source_error) result" where
  "item_answer P E hist n =
     and_then (pe_client E hist (item_request n)) (\<lambda>r. and_then (hn_checked_body P r) (parse_item P))"

lemma fetch_item_exact:
  assumes "pl_request_error P (item_request n) = None"
  shows "fetch_item P E n st = (item_answer P E (pst_sent st) n, st\<lparr>pst_sent := pst_sent st @ [item_request n]\<rparr>)"
  using assms
  by (simp add: fetch_item_def hn_exchange_def hn_get_def build_request_def item_request_def item_answer_def act_map_def
      act_bind_def act_of_def send_request_def split: sum.split)

lemma follow_kids_exact:
  assumes "\<forall>n. pl_request_error P (item_request n) = None"
  shows "follow_kids P E ns st =
    (map (\<lambda>i. and_then (item_answer P E (pst_sent st @ map item_request (take i ns)) (ns ! i)) (normalize_item P)) [0..<length ns],
     st\<lparr>pst_sent := pst_sent st @ map item_request ns\<rparr>)"
proof (induction ns arbitrary: st)
  case (Cons n ns)
  have "[0..<length (n # ns)] = 0 # map Suc [0..<length ns]" by (simp add: upt_conv_Cons map_Suc_upt del: upt_Suc)
  then show ?case using Cons assms by (simp add: fetch_item_exact comp_def del: upt_Suc)
qed simp

text \<open>A Hacker News follow yields one event for each of the first fifty comments of its item, in their order:
  the record of that comment or the error of that request alone, so one comment that fails hides no
  other. It sends one request for the item and one for each of these comments, and nothing else.\<close>

lemma hacker_news_follow_exact:
  assumes "\<forall>n. pl_request_error P (item_request n) = None"
    and "target_id (pl_libs P) t = Ok n" "item_answer P E (pst_sent st) n = Ok x"
  defines "kids \<equiv> take 50 (case it_kids x of None \<Rightarrow> [] | Some ns \<Rightarrow> ns)"
  shows "hn_follow P E t st =
    (map (\<lambda>i. and_then (item_answer P E (pst_sent st @ map item_request (n # take i kids)) (kids ! i)) (normalize_item P))
       [0..<length kids],
     st\<lparr>pst_sent := pst_sent st @ map item_request (n # kids)\<rparr>)"
  using assms(1-3)
  by (simp add: hn_follow_def act_bind_def act_of_def fetch_item_exact follow_kids_exact hn_max_limit_def kids_def)

definition thread_libs :: plugin_libs where
  "thread_libs = example_plugin_libs\<lparr>pl_parse := (\<lambda>body.
     if body = ''story'' then
       Ok (JObject [(''id'', JInt 1), (''type'', JString ''story''), (''kids'', JArray [JInt 2, JInt 3, JInt 4])])
     else if body = ''comment'' then Ok (JObject [(''id'', JInt 4), (''type'', JString ''comment''), (''parent'', JInt 1)])
     else Ok JNull)\<rparr>"

definition thread_env :: plugin_env where
  "thread_env = \<lparr>pe_client = (\<lambda>_ rq.
       if rq_uri rq = item_url 1 then Ok \<lparr>hr_status = 200, hr_headers = [], hr_body = ''story''\<rparr>
       else if rq_uri rq = item_url 2 then Ok \<lparr>hr_status = 500, hr_headers = [], hr_body = []\<rparr>
       else if rq_uri rq = item_url 3 then Ok \<lparr>hr_status = 200, hr_headers = [], hr_body = ''null''\<rparr>
       else Ok \<lparr>hr_status = 200, hr_headers = [], hr_body = ''comment''\<rparr>),
     pe_clock = (\<lambda>_. 0)\<rparr>"

end
