(* ===== verification/Web_Source.thy ===== *)
theory Web_Source
  imports Source_Laws
begin

text \<open>
  The web source (\<open>plugins/web/src\<close>): search through Brave and the fetch of a public page, with the guard
  that keeps a fetch away from private addresses, and what the guard is worth.
\<close>

definition web :: source_id where "web = Source_Id ''web''"

definition web_error :: "error_class \<Rightarrow> string \<Rightarrow> source_error" where
  "web_error c m = source_error_new web c m"

definition web_max_limit :: nat where "web_max_limit = 20"
definition max_fetch_bytes :: nat where "max_fetch_bytes = 256000"

definition web_descriptor :: descriptor where
  "web_descriptor = descriptor_new web ''Web Search'' \<lparr>can_search = True, can_fetch = True, can_follow = False\<rparr>"

section \<open>The guard (\<open>guard.rs\<close>)\<close>

definition web_invalid :: "string \<Rightarrow> source_error" where
  "web_invalid m = web_error InvalidQuery m"

definition web_ensure_source :: "source_id \<Rightarrow> (unit, source_error) result" where
  "web_ensure_source s = (if s = web then Ok () else Err (web_invalid ''target source does not match web''))"

definition parsed_url :: "libs \<Rightarrow> source_error \<Rightarrow> string \<Rightarrow> (url, source_error) result" where
  "parsed_url L e u = ok_or e (parse_url L u)"

fun web_target_url :: "libs \<Rightarrow> target \<Rightarrow> (url, source_error) result" where
  "web_target_url L (Target_Record r) =
     and_then (web_ensure_source (rec_source r)) (\<lambda>_.
       parsed_url L (web_error Protocol (url_error_text L (rec_url r))) (rec_url r))"
| "web_target_url L (Target_Url s u) =
     and_then (web_ensure_source s) (\<lambda>_. parsed_url L (web_error Protocol (url_error_text L u)) u)"
| "web_target_url L (Target_Native s i) =
     and_then (web_ensure_source s) (\<lambda>_. parsed_url L (web_invalid ''web native id must be an absolute URL'') i)"

text \<open>The octets of an \<open>Ipv4Addr\<close> and the segments of an \<open>Ipv6Addr\<close>.\<close>

definition octets_of :: "32 word \<Rightarrow> ipv4" where
  "octets_of w = (let n = unat w in (n div 16777216, n div 65536 mod 256, n div 256 mod 256, n mod 256))"

definition segments_of :: "128 word \<Rightarrow> ipv6" where
  "segments_of w = map (\<lambda>i. unat w div 2 ^ (112 - 16 * i) mod 65536) [0..<8]"

definition is_rejected_ipv4 :: "ipv4 \<Rightarrow> bool" where
  "is_rejected_ipv4 ip \<longleftrightarrow> is_private ip \<or> is_loopback ip \<or> is_link_local ip \<or> is_broadcast ip \<or>
     is_documentation ip \<or> is_unspecified ip"

definition is_rejected_ipv6 :: "ipv6 \<Rightarrow> bool" where
  "is_rejected_ipv6 ip =
     (case to_ipv4_mapped ip of
        Some mapped \<Rightarrow> is_rejected_ipv4 mapped
      | None \<Rightarrow> ipv6_loopback ip \<or> ipv6_unspecified ip \<or> ipv6_unique_local ip \<or> ipv6_link_local ip)"

definition web_reject_private_ip :: "bool \<Rightarrow> (unit, source_error) result" where
  "web_reject_private_ip rejected =
     (if rejected then Err (web_error Authorization ''web fetch rejects non-public IP targets'') else Ok ())"

definition validate_public_domain :: "string \<Rightarrow> (unit, source_error) result" where
  "validate_public_domain host =
     (if eq_ignore_ascii_case host ''localhost'' \<or> ends_with ''.localhost'' host
      then Err (web_error Authorization ''web fetch rejects local targets'') else Ok ())"

fun validate_host :: "host \<Rightarrow> (unit, source_error) result" where
  "validate_host (Domain d) = validate_public_domain d"
| "validate_host (Host_Ipv4 w) = web_reject_private_ip (is_rejected_ipv4 (octets_of w))"
| "validate_host (Host_Ipv6 w) = web_reject_private_ip (is_rejected_ipv6 (segments_of w))"

definition validate_fetch_url :: "url \<Rightarrow> (unit, source_error) result" where
  "validate_fetch_url u =
     (if url_username u \<noteq> [] \<or> url_password u \<noteq> None
      then Err (web_invalid ''web fetch URL must not contain credentials'')
      else if url_scheme u \<noteq> ''http'' \<and> url_scheme u \<noteq> ''https''
      then Err (web_error Unsupported ''web fetch only supports http and https'')
      else case url_host u of
             None \<Rightarrow> Err (web_invalid ''web fetch URL has no host'')
           | Some host \<Rightarrow> validate_host host)"

definition public_get :: "plugin_libs \<Rightarrow> url \<Rightarrow> (http_request, source_error) result" where
  "public_get P u = build_request P web ''GET'' (url_text u)
     [(''accept'', ''text/html,application/xhtml+xml,text/plain;q=0.9,*/*;q=0.1''), (''user-agent'', ''comsat'')] []"

section \<open>Pages\<close>

definition decode_entities :: "string \<Rightarrow> string" where
  "decode_entities value =
     fold (\<lambda>(a, b). replace_str a b)
       [(''&lt;'', ''<''), (''&gt;'', ''>''), (''&quot;'', [CHR 0x22]), (''&#39;'', [CHR 0x27]), (''&apos;'', [CHR 0x27]),
        (''&nbsp;'', '' ''), (''&amp;'', ''&'')] value"

definition html_title :: "string \<Rightarrow> string option" where
  "html_title body =
     (let lowered = ascii_lowercase body
      in Option.bind (find_str ''<title'' lowered) (\<lambda>open_at.
         Option.bind (find_str ''>'' (drop open_at lowered)) (\<lambda>gt.
         (let from = open_at + gt + 1
          in Option.bind (find_str ''</title>'' (drop from lowered)) (\<lambda>len.
             (let title = decode_entities (trim (take len (drop from body)))
              in if title = [] then None else Some title))))))"

section \<open>Operations (\<open>lib.rs\<close>)\<close>

definition reject_time_bounds :: "query \<Rightarrow> (unit, source_error) result" where
  "reject_time_bounds q =
     (if q_since q \<noteq> None \<or> q_until q \<noteq> None
      then Err (web_error Unsupported ''web source does not support since or until bounds'') else Ok ())"

definition web_ensure_limit :: "nat option \<Rightarrow> (unit, source_error) result" where
  "web_ensure_limit limit =
     (if web_max_limit < (case limit of None \<Rightarrow> 10 | Some l \<Rightarrow> l)
      then Err (web_error InvalidQuery ''web source supports at most 20 results per search'') else Ok ())"

definition web_checked_body :: "plugin_libs \<Rightarrow> string \<Rightarrow> http_response \<Rightarrow> (string, source_error) result" where
  "web_checked_body P what r =
     (let status = hr_status r
      in if is_success status then Ok (hr_body r)
         else if status = 401 then Err (web_error Authentication (what @ '' authentication failed''))
         else if status = 403 then Err (web_error Authorization (what @ '' access denied''))
         else if status = 429 then
           Err ((web_error RateLimit (what @ '' was rate limited''))\<lparr>err_retry_after := retry_after r\<rparr>)
         else if status = 404 then Err (web_error NotFound (what @ '' target was not found''))
         else Err (web_error Upstream (what @ '' returned HTTP '' @ pl_status_text P status)))"

definition brave_get :: "plugin_libs \<Rightarrow> string \<Rightarrow> string \<Rightarrow> (http_request, source_error) result" where
  "brave_get P key u = build_request P web ''GET'' u
     [(''accept'', ''application/json''), (''user-agent'', ''comsat''), (''x-subscription-token'', key)] []"

record brave_result =
  br_url :: string
  br_title :: "string option"
  br_description :: "string option"
  br_age :: "string option"
  br_language :: "string option"
  br_family :: "bool option"

definition read_brave_result :: "json \<Rightarrow> brave_result option" where
  "read_brave_result = read_struct [''url'', ''title'', ''description'', ''age'', ''language'', ''family_friendly''] (\<lambda>k.
     Option.bind (need as_str k ''url'') (\<lambda>u. Option.bind (maybe as_str k ''title'') (\<lambda>title.
     Option.bind (maybe as_str k ''description'') (\<lambda>description. Option.bind (maybe as_str k ''age'') (\<lambda>age.
     Option.bind (maybe as_str k ''language'') (\<lambda>language. Option.bind (maybe as_bool k ''family_friendly'') (\<lambda>family.
       Some \<lparr>br_url = u, br_title = title, br_description = description, br_age = age, br_language = language,
         br_family = family\<rparr>)))))))"

text \<open>No web results are none.\<close>

definition read_brave :: "json \<Rightarrow> brave_result list option" where
  "read_brave = read_struct [''web''] (\<lambda>k.
     Option.bind (maybe (read_struct [''results''] (\<lambda>k. need (as_list read_brave_result) k ''results'')) k ''web'') (\<lambda>found.
       Some (case found of None \<Rightarrow> [] | Some rs \<Rightarrow> rs)))"

definition valid_rfc3339 :: "libs \<Rightarrow> string \<Rightarrow> string option" where
  "valid_rfc3339 L value = (if parse_rfc3339 L value = None then None else Some value)"

definition normalize_result :: "plugin_libs \<Rightarrow> brave_result \<Rightarrow> source_result" where
  "normalize_result P r =
     and_then (parsed_url (pl_libs P) (web_error Protocol (url_error_text (pl_libs P) (br_url r))) (br_url r)) (\<lambda>u.
     record_of_json P web (json_object
       [(''id'', JString (''web:'' @ url_without_fragment u)), (''source'', JString ''web''),
        (''kind'', JString ''search-result''), (''url'', JString (url_without_fragment u)),
        (''title'', json_opt_str (br_title r)), (''text'', json_opt_str (br_description r)), (''author'', JNull),
        (''created_at'', json_opt_str (Option.bind (br_age r) (valid_rfc3339 (pl_libs P)))), (''updated_at'', JNull),
        (''metadata'', json_object
          [(''provider'', JString ''brave''), (''provider_age'', json_opt_str (br_age r)),
           (''language'', json_opt_str (br_language r)), (''family_friendly'', json_opt_bool (br_family r))])]))"

definition web_search_records :: "plugin_libs \<Rightarrow> plugin_env \<Rightarrow> string \<Rightarrow> query \<Rightarrow> comsat_record list action" where
  "web_search_records P E key q =
     act_bind (act_of (reject_time_bounds q)) (\<lambda>_.
     act_bind (act_of (web_ensure_limit (q_limit q))) (\<lambda>_.
     if key = [] then act_of (Err (web_error Authentication ''web search API key is not configured''))
     else act_bind (act_of (brave_get P key
         (''https://api.search.brave.com/res/v1/web/search?q='' @ percent_encode (pl_libs P) (q_text q) @ ''&count='' @
          nat_str (case q_limit q of None \<Rightarrow> 10 | Some l \<Rightarrow> l)))) (\<lambda>rq.
       act_map (\<lambda>r. and_then (web_checked_body P ''Brave web search'' r) (\<lambda>body.
           and_then (parse_body P web read_brave body) (collect_ok (normalize_result P))))
         (send_request E rq))))"

definition page_record :: "plugin_libs \<Rightarrow> url \<Rightarrow> string \<Rightarrow> source_result" where
  "page_record P u body =
     (let text = pl_lossy P (take max_fetch_bytes body)
      in record_of_json P web (json_object
        [(''id'', JString (''web:'' @ url_without_fragment u)), (''source'', JString ''web''), (''kind'', JString ''page''),
         (''url'', JString (url_without_fragment u)), (''title'', json_opt_str (html_title text)), (''text'', JString text),
         (''author'', JNull), (''created_at'', JNull), (''updated_at'', JNull),
         (''metadata'', json_object
           [(''fetched_bytes'', json_nat (min (length body) max_fetch_bytes)),
            (''truncated'', JBool (max_fetch_bytes < length body))])]))"

definition web_fetch_record :: "plugin_libs \<Rightarrow> plugin_env \<Rightarrow> target \<Rightarrow> comsat_record action" where
  "web_fetch_record P E t =
     act_bind (act_of (web_target_url (pl_libs P) t)) (\<lambda>u.
     act_bind (act_of (validate_fetch_url u)) (\<lambda>_.
     act_bind (act_of (public_get P u)) (\<lambda>rq.
     act_map (\<lambda>r. and_then (web_checked_body P ''web fetch'' r) (page_record P u)) (send_request E rq))))"

definition web_runtime :: "plugin_libs \<Rightarrow> plugin_env \<Rightarrow> string \<Rightarrow> plugin_state \<Rightarrow> source_runtime" where
  "web_runtime P E key st = \<lparr>rt_search = \<lambda>q. stream_of (fst (web_search_records P E key q st)),
     rt_fetch = \<lambda>t. fst (web_fetch_record P E t st),
     rt_follow = \<lambda>t. [Err (web_error Unsupported ''web source does not advertise follow'')]\<rparr>"

end
