(* ===== verification/Web_Laws.thy ===== *)
theory Web_Laws
  imports Web_Source
begin

text \<open>
  What the guard of the web source is worth: its classes of addresses are blocks of CIDR notation, and a
  fetch sends a request only for a URL outside them.
\<close>

section \<open>Blocks of addresses\<close>

text \<open>A block of \<open>bits\<close>-bit addresses: its base and the length of its prefix.\<close>

definition in_block :: "nat \<Rightarrow> nat \<Rightarrow> nat \<times> nat \<Rightarrow> bool" where
  "in_block bits n b \<longleftrightarrow> n div 2 ^ (bits - snd b) = fst b div 2 ^ (bits - snd b)"

text \<open>\<open>10/8\<close>, \<open>172.16/12\<close>, \<open>192.168/16\<close>, \<open>127/8\<close>, \<open>169.254/16\<close>, \<open>255.255.255.255\<close>, the three blocks for
  documentation and \<open>0.0.0.0\<close>.\<close>

definition closed_ipv4 :: "(nat \<times> nat) list" where
  "closed_ipv4 = [(0x0A000000, 8), (0xAC100000, 12), (0xC0A80000, 16), (0x7F000000, 8), (0xA9FE0000, 16),
     (0xFFFFFFFF, 32), (0xC0000200, 24), (0xC6336400, 24), (0xCB007100, 24), (0, 32)]"

text \<open>\<open>::1\<close>, \<open>::\<close>, \<open>fc00::/7\<close> and \<open>fe80::/10\<close>.\<close>

definition closed_ipv6 :: "(nat \<times> nat) list" where
  "closed_ipv6 = [(1, 128), (0, 128), (0xFC000000000000000000000000000000, 7), (0xFE800000000000000000000000000000, 10)]"

definition public_ipv4 :: "nat \<Rightarrow> bool" where
  "public_ipv4 n \<longleftrightarrow> \<not> list_ex (in_block 32 n) closed_ipv4"

text \<open>An address in \<open>::ffff:0:0/96\<close> stands for an IPv4 address.\<close>

definition public_ipv6 :: "nat \<Rightarrow> bool" where
  "public_ipv6 n \<longleftrightarrow> (if in_block 128 n (0xFFFF00000000, 96) then public_ipv4 (n mod 2 ^ 32)
     else \<not> list_ex (in_block 128 n) closed_ipv6)"

definition nat_octets :: "nat \<Rightarrow> ipv4" where
  "nat_octets n = (n div 16777216, n div 65536 mod 256, n div 256 mod 256, n mod 256)"

text \<open>The digits of a number, one at a time.\<close>

lemma last_digit:
  fixes x :: nat
  assumes "c < b"
  shows "x = y * b + c \<longleftrightarrow> x div b = y \<and> x mod b = c"
proof
  assume "x div b = y \<and> x mod b = c"
  then show "x = y * b + c" using div_mult_mod_eq [of x b] by simp
qed (use assms in simp)

lemma octet_block16:
  fixes n :: nat
  assumes "b < 256"
  shows "n div 16777216 = a \<and> n div 65536 mod 256 = b \<longleftrightarrow> n div 65536 = a * 256 + b"
  unfolding last_digit [OF assms] by (simp flip: div_mult2_eq)

lemma octet_block24:
  fixes n :: nat
  assumes "b < 256" "c < 256"
  shows "n div 16777216 = a \<and> n div 65536 mod 256 = b \<and> n div 256 mod 256 = c \<longleftrightarrow> n div 256 = (a * 256 + b) * 256 + c"
  unfolding last_digit [OF assms(2)] conj_assoc [symmetric] octet_block16 [OF assms(1)] by (simp flip: div_mult2_eq)

lemma octet_block32:
  fixes n :: nat
  assumes "b < 256" "c < 256" "d < 256"
  shows "nat_octets n = (a, b, c, d) \<longleftrightarrow> n = ((a * 256 + b) * 256 + c) * 256 + d"
  unfolding last_digit [OF assms(3)] octet_block24 [OF assms(1,2), symmetric] by (simp add: nat_octets_def)

lemma private_172: "n div 16777216 = 172 \<and> 16 \<le> n div 65536 mod 256 \<and> n div 65536 mod 256 \<le> 31 \<longleftrightarrow>
    n div 1048576 = (2753 :: nat)"
proof -
  let ?q = "n div 1048576" and ?m = "n div 65536"
  have "n div 16777216 = ?q div 16" "?m div 16 = ?q" by (simp_all flip: div_mult2_eq)
  moreover have "?m mod 256 = 16 * (?m div 16 mod 16) + ?m mod 16"
    using mod_mult2_eq [of ?m 16 16] by simp
  moreover have "16 \<le> 16 * k + r \<and> 16 * k + r \<le> 31 \<longleftrightarrow> k = 1" if "r < 16" for k r :: nat
    using that by linarith
  then have "16 \<le> 16 * (?q mod 16) + ?m mod 16 \<and> 16 * (?q mod 16) + ?m mod 16 \<le> 31 \<longleftrightarrow> ?q mod 16 = 1" by simp
  moreover have "?q = 2753 \<longleftrightarrow> ?q div 16 = 172 \<and> ?q mod 16 = 1" using last_digit [of 1 16 ?q 172] by simp
  ultimately show ?thesis by simp
qed

lemma rejected_ipv4_blocks: "is_rejected_ipv4 (nat_octets n) \<longleftrightarrow> \<not> public_ipv4 n"
proof -
  let ?o = "nat_octets n"
  have "is_private ?o \<longleftrightarrow> in_block 32 n (0x0A000000, 8) \<or> in_block 32 n (0xAC100000, 12) \<or> in_block 32 n (0xC0A80000, 16)"
    using private_172 [of n] octet_block16 [of 168 n 192] by (auto simp: nat_octets_def in_block_def)
  moreover have "is_loopback ?o \<longleftrightarrow> in_block 32 n (0x7F000000, 8)" by (simp add: nat_octets_def in_block_def)
  moreover have "is_link_local ?o \<longleftrightarrow> in_block 32 n (0xA9FE0000, 16)"
    using octet_block16 [of 254 n 169] by (auto simp: nat_octets_def in_block_def)
  moreover have "is_broadcast ?o \<longleftrightarrow> in_block 32 n (0xFFFFFFFF, 32)"
    using octet_block32 [of 255 255 255 n 255] by (simp add: in_block_def)
  moreover have "is_documentation ?o \<longleftrightarrow>
      in_block 32 n (0xC0000200, 24) \<or> in_block 32 n (0xC6336400, 24) \<or> in_block 32 n (0xCB007100, 24)"
    using octet_block24 [of 0 2 n 192] octet_block24 [of 51 100 n 198] octet_block24 [of 0 113 n 203]
    by (auto simp: nat_octets_def in_block_def)
  moreover have "is_unspecified ?o \<longleftrightarrow> in_block 32 n (0, 32)"
    using octet_block32 [of 0 0 0 n 0] by (simp add: in_block_def)
  ultimately show ?thesis by (auto simp: is_rejected_ipv4_def public_ipv4_def closed_ipv4_def)
qed

text \<open>What is left of a number after its last \<open>k\<close> segments.\<close>

definition high :: "nat \<Rightarrow> nat \<Rightarrow> nat" where
  "high n k = n div 65536 ^ k"

definition nat_segments :: "nat \<Rightarrow> ipv6" where
  "nat_segments n = map (\<lambda>k. high n k mod 65536) [7, 6, 5, 4, 3, 2, 1, 0]"

lemma high_step: "c < 65536 \<Longrightarrow> j = Suc k \<Longrightarrow> high n k = y * 65536 + c \<longleftrightarrow> high n j = y \<and> high n k mod 65536 = c"
  by (subst last_digit) (simp_all add: high_def mult.commute flip: div_mult2_eq)

lemma high_zero: "j = Suc k \<Longrightarrow> high n k = 0 \<longleftrightarrow> high n j = 0 \<and> high n k mod 65536 = 0"
  using high_step [of 0 j k n 0] by simp

lemma high_top:
  assumes "n < 2 ^ 128"
  shows "high n 8 = 0" "high n 7 mod 65536 = high n 7"
proof -
  have "high n 7 < 65536" using assms by (simp add: high_def less_mult_imp_div_less)
  then show "high n 8 = 0" "high n 7 mod 65536 = high n 7" using high_zero [of 8 7 n] assms by (simp_all add: high_def)
qed

lemma high_all_zero:
  assumes "n < 2 ^ 128"
  shows "high n 3 = 0 \<longleftrightarrow> high n 7 = 0 \<and> high n 6 mod 65536 = 0 \<and> high n 5 mod 65536 = 0 \<and>
     high n 4 mod 65536 = 0 \<and> high n 3 mod 65536 = 0"
  using high_zero [of 4 3 n] high_zero [of 5 4 n] high_zero [of 6 5 n] high_zero [of 7 6 n] by simp

lemma mapped_segments:
  "to_ipv4_mapped [a, b, c, d, e, f, g, h] =
     (if a = 0 \<and> b = 0 \<and> c = 0 \<and> d = 0 \<and> e = 0 \<and> f = 65535 then Some (g div 256, g mod 256, h div 256, h mod 256) else None)"
  by (cases a; cases b; cases c; cases d; cases e; simp add: to_ipv4_mapped_def)

lemma low_octets: "(high n 1 mod 65536 div 256, high n 1 mod 65536 mod 256, high n 0 mod 65536 div 256, high n 0 mod 65536 mod 256) =
    nat_octets (n mod 2 ^ 32)"
proof -
  let ?m = "n mod 4294967296"
  have "?m div 65536 = n div 65536 mod 65536" "?m mod 65536 = n mod 65536"
    using mod_mult2_eq [of n 65536 65536] by simp_all
  moreover have "?m div 16777216 = ?m div 65536 div 256" by (simp flip: div_mult2_eq)
  moreover have "?m div 256 mod 256 = ?m mod 65536 div 256" using mod_mult2_eq [of ?m 256 256] by simp
  moreover have "?m mod 256 = ?m mod 65536 mod 256" by (simp add: mod_mod_cancel)
  ultimately show ?thesis by (simp add: nat_octets_def high_def)
qed

lemma rejected_ipv6_blocks:
  assumes "n < 2 ^ 128"
  shows "is_rejected_ipv6 (nat_segments n) \<longleftrightarrow> \<not> public_ipv6 n"
proof -
  note top = high_top [OF assms] and zero = high_all_zero [OF assms]
  let ?g = "nat_segments n"
  have g: "?g = [high n 7, high n 6 mod 65536, high n 5 mod 65536, high n 4 mod 65536, high n 3 mod 65536,
      high n 2 mod 65536, high n 1 mod 65536, high n 0 mod 65536]"
    by (simp add: nat_segments_def top)
  have h0: "high n 0 = n" by (simp add: high_def)
  have mapped: "to_ipv4_mapped ?g = (if in_block 128 n (0xFFFF00000000, 96) then Some (nat_octets (n mod 2 ^ 32)) else None)"
  proof -
    have "in_block 128 n (0xFFFF00000000, 96) \<longleftrightarrow> high n 2 = 0 * 65536 + 65535" by (simp add: in_block_def high_def)
    also have "\<dots> \<longleftrightarrow> high n 3 = 0 \<and> high n 2 mod 65536 = 65535"
      by (rule high_step) simp_all
    finally show ?thesis unfolding g mapped_segments low_octets by (simp add: zero)
  qed
  have small: "n = c \<longleftrightarrow> high n 3 = 0 \<and> high n 2 mod 65536 = 0 \<and> high n 1 mod 65536 = 0 \<and> high n 0 mod 65536 = c"
    if "c < 65536" for c
    using high_step [OF that, of 1 0 n 0] high_zero [of 2 1 n] high_zero [of 3 2 n] h0 by simp
  have "ipv6_loopback ?g \<longleftrightarrow> in_block 128 n (1, 128)" "ipv6_unspecified ?g \<longleftrightarrow> in_block 128 n (0, 128)"
    using small [of 1] small [of 0] by (auto simp: ipv6_loopback_def ipv6_unspecified_def g in_block_def zero)
  moreover have "ipv6_unique_local ?g \<longleftrightarrow> in_block 128 n (0xFC000000000000000000000000000000, 7)"
    "ipv6_link_local ?g \<longleftrightarrow> in_block 128 n (0xFE800000000000000000000000000000, 10)"
    by (simp_all add: ipv6_unique_local_def ipv6_link_local_def g in_block_def high_def flip: div_mult2_eq)
  ultimately show ?thesis
    by (simp add: is_rejected_ipv6_def mapped rejected_ipv4_blocks public_ipv6_def closed_ipv6_def)
qed

lemma rejected_words:
  "is_rejected_ipv4 (octets_of w) \<longleftrightarrow> \<not> public_ipv4 (unat w)"
  "is_rejected_ipv6 (segments_of v) \<longleftrightarrow> \<not> public_ipv6 (unat v)"
proof -
  have "octets_of w = nat_octets (unat w)" by (simp add: octets_of_def nat_octets_def Let_def)
  moreover have "segments_of v = nat_segments (unat v)" by (simp add: segments_of_def nat_segments_def high_def upt_rec)
  moreover have "unat v < 2 ^ 128" using unsigned_less [of v] by simp
  ultimately show "is_rejected_ipv4 (octets_of w) \<longleftrightarrow> \<not> public_ipv4 (unat w)"
    "is_rejected_ipv6 (segments_of v) \<longleftrightarrow> \<not> public_ipv6 (unat v)"
    by (simp_all add: rejected_ipv4_blocks rejected_ipv6_blocks)
qed

section \<open>Properties\<close>

fun public_host :: "host \<Rightarrow> bool" where
  "public_host (Domain d) \<longleftrightarrow> \<not> eq_ignore_ascii_case d ''localhost'' \<and> \<not> ends_with ''.localhost'' d"
| "public_host (Host_Ipv4 w) \<longleftrightarrow> public_ipv4 (unat w)"
| "public_host (Host_Ipv6 w) \<longleftrightarrow> public_ipv6 (unat w)"

definition public_url :: "url \<Rightarrow> bool" where
  "public_url u \<longleftrightarrow> (url_scheme u = ''http'' \<or> url_scheme u = ''https'') \<and> url_username u = [] \<and> url_password u = None \<and>
     (case url_host u of None \<Rightarrow> False | Some h \<Rightarrow> public_host h)"

definition page_request :: "url \<Rightarrow> http_request" where
  "page_request u = \<lparr>rq_method = ''GET'', rq_uri = url_text u,
     rq_headers = [(''accept'', ''text/html,application/xhtml+xml,text/plain;q=0.9,*/*;q=0.1''), (''user-agent'', ''comsat'')],
     rq_body = []\<rparr>"

lemma validate_fetch_url_exact: "validate_fetch_url u = Ok () \<longleftrightarrow> public_url u"
proof -
  have "validate_host h = Ok () \<longleftrightarrow> public_host h" for h
    by (cases h) (simp_all add: validate_public_domain_def web_reject_private_ip_def rejected_words)
  then show ?thesis by (auto simp: validate_fetch_url_def public_url_def split: option.splits)
qed

lemma web_fetch_sends:
  "sends_only (Suc 0) (\<lambda>rq. \<exists>u. web_target_url (pl_libs P) t = Ok u \<and> public_url u \<and> rq = page_request u)
     (web_fetch_record P E t)"
  unfolding web_fetch_record_def
proof (rule sends_only_built, rule sends_only_built, rule sends_only_built)
  fix u v rq
  assume "web_target_url (pl_libs P) t = Ok u" "validate_fetch_url u = Ok v" "public_get P u = Ok rq"
  then have "\<exists>u. web_target_url (pl_libs P) t = Ok u \<and> public_url u \<and> rq = page_request u"
    by (auto simp: validate_fetch_url_exact public_get_def page_request_def dest: build_request_Inr)
  then show "sends_only (Suc 0) (\<lambda>rq. \<exists>u. web_target_url (pl_libs P) t = Ok u \<and> public_url u \<and> rq = page_request u)
      (act_map (\<lambda>r. and_then (web_checked_body P ''web fetch'' r) (page_record P u)) (send_request E rq))"
    by (intro sends_only_map sends_only_send)
qed

lemma web_search_sends:
  "sends_only (Suc 0) (\<lambda>rq. key \<noteq> [] \<and> take (length ''https://api.search.brave.com/'') (rq_uri rq) = ''https://api.search.brave.com/'')
     (web_search_records P E key q)"
proof (cases "key = []")
  case True
  then show ?thesis unfolding web_search_records_def
    by (auto intro!: sends_only_built)
next
  case False
  then show ?thesis unfolding web_search_records_def if_not_P [OF False]
    by (intro sends_only_built sends_only_map sends_only_send) (auto simp: brave_get_def dest!: build_request_Inr)
qed

text \<open>C24: Whatever target a caller gives, a web fetch sends at most one request: a GET without the search key for
  the very URL of the target, over http or https, without credentials, to a host that is neither
  \<open>localhost\<close> or under \<open>.localhost\<close> nor an address in the closed blocks, written as IPv4, as IPv6 or as
  an IPv4 address within IPv6; for any other URL it sends nothing. A search sends its key to the Brave
  API alone.\<close>

theorem web_fetch_stays_public:
  "list_all (\<lambda>rq. \<exists>u. web_target_url (pl_libs P) t = Ok u \<and> public_url u \<and> rq = page_request u)
     (new_requests (\<lambda>t. answered (web_fetch_record P E t)) t st) \<and>
   length (new_requests (\<lambda>t. answered (web_fetch_record P E t)) t st) \<le> 1 \<and>
   list_all (\<lambda>rq. key \<noteq> [] \<and> take (length ''https://api.search.brave.com/'') (rq_uri rq) = ''https://api.search.brave.com/'')
     (new_requests (\<lambda>q. answered (web_search_records P E key q)) q st) \<and>
   length (new_requests (\<lambda>q. answered (web_search_records P E key q)) q st) \<le> 1"
  using sends_onlyD [OF web_fetch_sends] sends_onlyD [OF web_search_sends]
  by (simp add: new_requests_def)

text \<open>The blocks leave open some addresses that are not public: the shared network \<open>100.64/10\<close> and the rest
  of \<open>0/8\<close>; and \<open>localhost.\<close>, with the dot of the root, is no \<open>localhost\<close>.\<close>

lemma guard_gaps: "public_ipv4 0x64400001" "public_ipv4 1" "public_host (Domain ''localhost.'')"
  by code_simp+

section \<open>Titles\<close>

text \<open>What \<open>str::find\<close> finds is the first place the needle stands at.\<close>

lemma find_str_Some:
  "find_str needle s = Some i \<Longrightarrow> take (length needle) (drop i s) = needle \<and> (\<forall>j < i. take (length needle) (drop j s) \<noteq> needle)"
proof (induction s arbitrary: i)
  case Nil
  then show ?case by (auto simp: find_str.simps [of needle "[]"] split: if_splits)
next
  case (Cons c s)
  show ?case
  proof (cases "take (length needle) (c # s) = needle")
    case True
    with Cons.prems have "i = 0" by (simp add: find_str.simps [of needle "c # s"])
    with True show ?thesis by simp
  next
    case False
    with Cons.prems obtain k where k: "i = Suc k" "find_str needle s = Some k"
      by (auto simp: find_str.simps [of needle "c # s"])
    have "take (length needle) (drop j (c # s)) \<noteq> needle" if "j < i" for j
      using that False Cons.IH [OF k(2)] k(1) by (cases j) auto
    with Cons.IH [OF k(2)] k(1) show ?thesis by auto
  qed
qed

text \<open>Without an ampersand nothing is decoded.\<close>

lemma replace_str_absent: "hd a \<notin> set s \<Longrightarrow> a \<noteq> [] \<Longrightarrow> replace_str a b s = s"
proof (induction s)
  case (Cons c s)
  then show ?case by (cases a) (auto simp: replace_str.simps [of _ b "c # s"])
qed (simp add: replace_str.simps)

lemma decode_entities_plain: "CHR ''&'' \<notin> set s \<Longrightarrow> decode_entities s = s"
  by (simp add: decode_entities_def replace_str_absent)

lemma html_title_example: "html_title ''<HTML><Title lang=en> A &amp; B </TITLE>'' = Some ''A & B''"
  by code_simp

end
