(* ===== verification/Http_Clients.thy ===== *)
theory Http_Clients
  imports Web_Laws
begin

text \<open>
  The two HTTP clients behind the sources: \<open>SecureHttpClient\<close> of the native command
  (\<open>comsat-cli/src/http_client.rs\<close>) and \<open>CloudflareHttpClient\<close> of the worker
  (\<open>comsat-cloud/src/cloud_http.rs\<close>). Sockets, name resolution and the fetch of the platform are fields of
  a record of libraries. A native send also answers the connections it opens, a cloud send whether it
  aborted its fetch.
\<close>

section \<open>Bodies\<close>

text \<open>The chunks of a body are read while they fit.\<close>

fun read_limited :: "nat \<Rightarrow> 'e \<Rightarrow> string \<Rightarrow> (string, 'e) result list \<Rightarrow> (string, 'e) result" where
  "read_limited limit too_large body [] = Ok body"
| "read_limited limit too_large body (Err e # chunks) = Err e"
| "read_limited limit too_large body (Ok c # chunks) =
     (if limit < length body + length c then Err too_large else read_limited limit too_large (body @ c) chunks)"

lemma read_limited_Ok:
  "read_limited limit too_large body chunks = Ok b \<Longrightarrow> length body \<le> limit \<Longrightarrow>
   \<exists>cs. chunks = map Ok cs \<and> b = body @ concat cs \<and> length b \<le> limit"
proof (induction limit too_large body chunks rule: read_limited.induct)
  case (3 limit too_large body c chunks)
  then obtain cs where "chunks = map Ok cs" "b = (body @ c) @ concat cs" "length b \<le> limit"
    by (auto split: if_splits)
  then show ?case by (intro exI [of _ "c # cs"]) simp
qed auto

lemma read_limited_fits:
  "length (body @ concat cs) \<le> limit \<Longrightarrow> read_limited limit too_large body (map Ok cs) = Ok (body @ concat cs)"
  by (induction cs arbitrary: body) simp_all

section \<open>The native client\<close>

datatype ip_addr = Ip4 "32 word" | Ip6 "128 word"

record native_response =
  nr_status :: nat
  nr_headers :: "(string \<times> string) list"
  nr_length :: "nat option"
  nr_chunks :: "(string, string) result list"

text \<open>\<open>reqwest\<close> fails with a text; a client is pinned to a host and its addresses.\<close>

record native_libs =
  nl_libs :: libs
  nl_uri_host :: "string \<Rightarrow> string option"
  nl_host_str :: "host \<Rightarrow> string"
  nl_port :: "url \<Rightarrow> nat option"
  nl_resolve :: "string \<Rightarrow> nat \<Rightarrow> ((ip_addr \<times> nat) list, string) result"
  nl_client_error :: "string \<Rightarrow> (ip_addr \<times> nat) list \<Rightarrow> string option"
  nl_transmit :: "string \<Rightarrow> (ip_addr \<times> nat) list \<Rightarrow> http_request \<Rightarrow> (native_response, string) result"
  nl_response_error :: "http_response \<Rightarrow> string option"

record connection =
  cn_host :: string
  cn_addresses :: "(ip_addr \<times> nat) list"
  cn_request :: http_request

definition response_limit_bytes :: nat where "response_limit_bytes = 2 * 1024 * 1024"

definition source_for_host :: "string \<Rightarrow> source_id" where
  "source_for_host host =
     Source_Id (if host = ''api.github.com'' then ''github''
       else if host = ''hn.algolia.com'' \<or> host = ''hacker-news.firebaseio.com'' then ''hacker-news''
       else if host = ''api.stackexchange.com'' then ''stack-exchange'' else ''web'')"

definition source_for_request :: "native_libs \<Rightarrow> http_request \<Rightarrow> source_id" where
  "source_for_request N rq = (case nl_uri_host N (rq_uri rq) of None \<Rightarrow> Source_Id ''web'' | Some h \<Rightarrow> source_for_host h)"

definition native_rejected_ipv4 :: "ipv4 \<Rightarrow> bool" where
  "native_rejected_ipv4 ip \<longleftrightarrow> is_private ip \<or> is_loopback ip \<or> is_link_local ip \<or> is_broadcast ip \<or>
     is_documentation ip \<or> is_unspecified ip"

definition native_rejected_ipv6 :: "ipv6 \<Rightarrow> bool" where
  "native_rejected_ipv6 ip =
     (case to_ipv4_mapped ip of
        Some mapped \<Rightarrow> native_rejected_ipv4 mapped
      | None \<Rightarrow> ipv6_loopback ip \<or> ipv6_unspecified ip \<or> ipv6_unique_local ip \<or> ipv6_link_local ip)"

fun validate_public_ip :: "source_id \<Rightarrow> ip_addr \<Rightarrow> (unit, source_error) result" where
  "validate_public_ip s ip =
     (if (case ip of Ip4 w \<Rightarrow> native_rejected_ipv4 (octets_of w) | Ip6 w \<Rightarrow> native_rejected_ipv6 (segments_of w))
      then Err (source_error_new s Authorization ''request resolved to a private or local address'') else Ok ())"

fun validate_addresses :: "source_id \<Rightarrow> (ip_addr \<times> nat) list \<Rightarrow> (unit, source_error) result" where
  "validate_addresses s [] = Ok ()"
| "validate_addresses s (a # as) = and_then (validate_public_ip s (fst a)) (\<lambda>_. validate_addresses s as)"

definition validate_url_target :: "native_libs \<Rightarrow> source_id \<Rightarrow> url \<Rightarrow> ((ip_addr \<times> nat) list, source_error) result" where
  "validate_url_target N s u =
     (if url_scheme u \<noteq> ''http'' \<and> url_scheme u \<noteq> ''https''
      then Err (source_error_new s InvalidQuery ''only HTTP(S) requests are allowed'')
      else case url_host u of
             None \<Rightarrow> Err (source_error_new s InvalidQuery ''request URL has no host'')
           | Some h \<Rightarrow>
               and_then (map_err (source_error_new s Upstream)
                   (nl_resolve N (nl_host_str N h) (case nl_port N u of None \<Rightarrow> 443 | Some p \<Rightarrow> p))) (\<lambda>addresses.
                 if addresses = [] then Err (source_error_new s Upstream ''request host did not resolve'')
                 else and_then (validate_addresses s addresses) (\<lambda>_. Ok addresses)))"

definition response_limit_error :: "source_id \<Rightarrow> source_error" where
  "response_limit_error s = source_error_new s Protocol ''response exceeded 2 MiB limit''"

definition check_response_length :: "source_id \<Rightarrow> native_response \<Rightarrow> (unit, source_error) result" where
  "check_response_length s r =
     (if response_limit_bytes < (case nr_length r of None \<Rightarrow> 0 | Some n \<Rightarrow> n) then Err (response_limit_error s) else Ok ())"

definition read_response_body :: "source_id \<Rightarrow> native_response \<Rightarrow> (string, source_error) result" where
  "read_response_body s r =
     read_limited response_limit_bytes (response_limit_error s) [] (map (map_err (source_error_new s Upstream)) (nr_chunks r))"

definition response_from_reqwest :: "native_libs \<Rightarrow> source_id \<Rightarrow> native_response \<Rightarrow> (http_response, source_error) result" where
  "response_from_reqwest N s r =
     and_then (read_response_body s r) (\<lambda>body.
       let out = \<lparr>hr_status = nr_status r, hr_headers = nr_headers r, hr_body = body\<rparr>
       in case nl_response_error N out of None \<Rightarrow> Ok out | Some e \<Rightarrow> Err (source_error_new s Protocol e))"

definition native_send :: "native_libs \<Rightarrow> http_request \<Rightarrow> (http_response, source_error) result \<times> connection list" where
  "native_send N rq =
     (let s = source_for_request N rq
      in case and_then (ok_or (source_error_new s InvalidQuery (url_error_text (nl_libs N) (rq_uri rq)))
             (parse_url (nl_libs N) (rq_uri rq))) (\<lambda>u.
           and_then (validate_url_target N s u) (\<lambda>addresses.
           and_then (ok_or (source_error_new s InvalidQuery ''request URL has no host'') (url_host u)) (\<lambda>h.
             case nl_client_error N (nl_host_str N h) addresses of
               Some e \<Rightarrow> Err (source_error_new s Internal e)
             | None \<Rightarrow> Ok (nl_host_str N h, addresses)))) of
           Err e \<Rightarrow> (Err e, [])
         | Ok (host, addresses) \<Rightarrow>
             (and_then (map_err (source_error_new s Upstream) (nl_transmit N host addresses rq)) (\<lambda>r.
                and_then (check_response_length s r) (\<lambda>_. response_from_reqwest N s r)),
              [\<lparr>cn_host = host, cn_addresses = addresses, cn_request = rq\<rparr>]))"

section \<open>What the native client promises\<close>

fun public_ip :: "ip_addr \<Rightarrow> bool" where
  "public_ip (Ip4 w) \<longleftrightarrow> public_ipv4 (unat w)"
| "public_ip (Ip6 w) \<longleftrightarrow> public_ipv6 (unat w)"

lemma validate_public_ip_exact: "validate_public_ip s ip = Ok () \<longleftrightarrow> public_ip ip"
proof -
  have "native_rejected_ipv4 = is_rejected_ipv4" by (intro ext) (simp add: native_rejected_ipv4_def is_rejected_ipv4_def)
  moreover from this have "native_rejected_ipv6 = is_rejected_ipv6"
    by (intro ext) (simp add: native_rejected_ipv6_def is_rejected_ipv6_def cong: option.case_cong)
  ultimately show ?thesis by (cases ip) (simp_all add: rejected_words)
qed

lemma validate_addresses_exact: "validate_addresses s as = Ok () \<longleftrightarrow> list_all (\<lambda>a. public_ip (fst a)) as"
proof (induction as)
  case (Cons a as)
  then show ?case using validate_public_ip_exact [of s "fst a"]
    by (cases "validate_public_ip s (fst a)") (auto simp del: validate_public_ip.simps)
qed simp

lemma validate_url_target_Ok:
  assumes "validate_url_target N s u = Ok as"
  shows "as \<noteq> []" "list_all (\<lambda>a. public_ip (fst a)) as" "url_scheme u = ''http'' \<or> url_scheme u = ''https''"
    "\<exists>h. url_host u = Some h \<and> nl_resolve N (nl_host_str N h) (case nl_port N u of None \<Rightarrow> 443 | Some p \<Rightarrow> p) = Ok as"
proof -
  from assms obtain h where *: "url_host u = Some h" "url_scheme u = ''http'' \<or> url_scheme u = ''https''"
    by (auto simp: validate_url_target_def split: if_splits option.splits)
  with assms obtain xs where **: "nl_resolve N (nl_host_str N h) (case nl_port N u of None \<Rightarrow> 443 | Some p \<Rightarrow> p) = Ok xs"
    by (cases "nl_resolve N (nl_host_str N h) (case nl_port N u of None \<Rightarrow> 443 | Some p \<Rightarrow> p)")
      (auto simp: validate_url_target_def)
  with assms * have "xs \<noteq> []" "and_then (validate_addresses s xs) (\<lambda>_. Ok xs) = Ok as"
    by (auto simp: validate_url_target_def split: if_splits)
  moreover from this(2) have "validate_addresses s xs = Ok ()" "as = xs" by (cases "validate_addresses s xs"; simp)+
  ultimately show "as \<noteq> []" "list_all (\<lambda>a. public_ip (fst a)) as" "url_scheme u = ''http'' \<or> url_scheme u = ''https''"
    "\<exists>h. url_host u = Some h \<and> nl_resolve N (nl_host_str N h) (case nl_port N u of None \<Rightarrow> 443 | Some p \<Rightarrow> p) = Ok as"
    using * ** by (simp_all add: validate_addresses_exact)
qed

lemma response_from_reqwest_Ok:
  assumes "response_from_reqwest N s r = Ok out"
  shows "\<exists>cs. nr_chunks r = map Ok cs \<and> out = \<lparr>hr_status = nr_status r, hr_headers = nr_headers r, hr_body = concat cs\<rparr> \<and>
    length (concat cs) \<le> response_limit_bytes"
proof -
  from assms obtain body where body: "read_response_body s r = Ok body"
      and out: "out = \<lparr>hr_status = nr_status r, hr_headers = nr_headers r, hr_body = body\<rparr>"
    by (cases "read_response_body s r") (auto simp: response_from_reqwest_def Let_def split: option.splits)
  from read_limited_Ok [OF body [unfolded read_response_body_def]] obtain cs
    where cs: "map (map_err (source_error_new s Upstream)) (nr_chunks r) = map Ok cs" "body = concat cs"
      "length body \<le> response_limit_bytes"
    by auto
  have "nr_chunks r = map Ok cs"
  proof (rule nth_equalityI)
    show "length (nr_chunks r) = length (map Ok cs)" using map_eq_imp_length_eq [OF cs(1)] by simp
    fix i assume i: "i < length (nr_chunks r)"
    then have "map_err (source_error_new s Upstream) (nr_chunks r ! i) = Ok (cs ! i)"
      using arg_cong [OF cs(1), of "\<lambda>xs. xs ! i"] map_eq_imp_length_eq [OF cs(1)] by simp
    then show "nr_chunks r ! i = map Ok cs ! i"
      using i map_eq_imp_length_eq [OF cs(1)] by (cases "nr_chunks r ! i") simp_all
  qed
  with cs out show ?thesis by auto
qed

text \<open>C25: The native client answers a request over at most one connection, and never to a private network: the
  URL is http or https, the addresses it connects to are exactly those its host resolved to, each of
  them public, so a public name with a private address is refused before anything is sent. An answer is
  the response of that connection with its whole body, of at most 2 MiB.\<close>

theorem native_requests_public:
  "case native_send N rq of (r, cs) \<Rightarrow> length cs \<le> 1 \<and>
     list_all (\<lambda>c. cn_request c = rq \<and> cn_addresses c \<noteq> [] \<and> list_all (\<lambda>a. public_ip (fst a)) (cn_addresses c) \<and>
       (\<exists>u h. parse_url (nl_libs N) (rq_uri rq) = Some u \<and> (url_scheme u = ''http'' \<or> url_scheme u = ''https'') \<and>
          url_host u = Some h \<and> cn_host c = nl_host_str N h \<and>
          nl_resolve N (cn_host c) (case nl_port N u of None \<Rightarrow> 443 | Some p \<Rightarrow> p) = Ok (cn_addresses c))) cs \<and>
     (case r of Err e \<Rightarrow> True
      | Ok out \<Rightarrow> length (hr_body out) \<le> 2 * 1024 * 1024 \<and>
          (\<exists>c x bs. cs = [c] \<and> nl_transmit N (cn_host c) (cn_addresses c) rq = Ok x \<and> nr_chunks x = map Ok bs \<and>
             out = \<lparr>hr_status = nr_status x, hr_headers = nr_headers x, hr_body = concat bs\<rparr>))"
proof -
  let ?s = "source_for_request N rq"
  show ?thesis
  proof (cases "parse_url (nl_libs N) (rq_uri rq)")
    case None
    then show ?thesis by (simp add: native_send_def Let_def)
  next
    case u: (Some u)
    show ?thesis
    proof (cases "validate_url_target N ?s u")
      case (Inl e)
      then show ?thesis using u by (simp add: native_send_def Let_def)
    next
      case as: (Inr as)
      note * = validate_url_target_Ok [OF as]
      from *(4) obtain h where h: "url_host u = Some h"
          "nl_resolve N (nl_host_str N h) (case nl_port N u of None \<Rightarrow> 443 | Some p \<Rightarrow> p) = Ok as" by blast
      show ?thesis
      proof (cases "nl_client_error N (nl_host_str N h) as")
        case (Some e)
        then show ?thesis using u as h(1) by (simp add: native_send_def Let_def)
      next
        case client: None
        let ?c = "\<lparr>cn_host = nl_host_str N h, cn_addresses = as, cn_request = rq\<rparr>"
        have send: "native_send N rq = (and_then (map_err (source_error_new ?s Upstream) (nl_transmit N (nl_host_str N h) as rq))
            (\<lambda>r. and_then (check_response_length ?s r) (\<lambda>_. response_from_reqwest N ?s r)), [?c])"
          using u as h(1) client by (simp add: native_send_def Let_def)
        have "length (hr_body out) \<le> 2 * 1024 * 1024 \<and>
            (\<exists>x bs. nl_transmit N (nl_host_str N h) as rq = Ok x \<and> nr_chunks x = map Ok bs \<and>
               out = \<lparr>hr_status = nr_status x, hr_headers = nr_headers x, hr_body = concat bs\<rparr>)"
          if "fst (native_send N rq) = Ok out" for out
        proof -
          from that obtain x where x: "nl_transmit N (nl_host_str N h) as rq = Ok x"
              and "and_then (check_response_length ?s x) (\<lambda>_. response_from_reqwest N ?s x) = Ok out"
            unfolding send by (cases "nl_transmit N (nl_host_str N h) as rq") auto
          then have "response_from_reqwest N ?s x = Ok out" by (cases "check_response_length ?s x") auto
          from response_from_reqwest_Ok [OF this] x show ?thesis by (auto simp: response_limit_bytes_def)
        qed
        then show ?thesis using u * h unfolding send by (auto split: sum.split)
      qed
    qed
  qed
qed

section \<open>The worker's client\<close>

datatype fetched_body = Body_Empty | Body_Bytes string | Body_Stream "((string, unit) result list) option"

record worker_request =
  wr_method :: string
  wr_uri :: string
  wr_follow_redirects :: bool
  wr_headers :: "(string \<times> string) list"
  wr_body :: "string option"

record worker_response =
  wrs_status :: nat
  wrs_headers :: "(string \<times> string) list"
  wrs_body :: fetched_body

record worker_libs =
  wl_header_error :: "string \<Rightarrow> string \<Rightarrow> bool"
  wl_request_error :: "worker_request \<Rightarrow> bool"
  wl_fetch :: "worker_request \<Rightarrow> worker_response option"
  wl_response_error :: "http_response \<Rightarrow> bool"

definition max_source_response_bytes :: nat where "max_source_response_bytes = 8 * 1024 * 1024"

definition adapter_error :: "source_id \<Rightarrow> string \<Rightarrow> source_error" where
  "adapter_error s m = source_error_new s Protocol m"

definition known_method :: "string \<Rightarrow> string option" where
  "known_method value = find (\<lambda>m. m = value) [''GET'', ''POST'', ''PUT'', ''PATCH'', ''DELETE'', ''HEAD'', ''OPTIONS'']"

definition worker_method :: "source_id \<Rightarrow> string \<Rightarrow> (string, source_error) result" where
  "worker_method s value = ok_or (adapter_error s ''unsupported HTTP method for Worker fetch'') (known_method value)"

text \<open>\<open>Headers::set\<close> replaces a header of the same name.\<close>

definition set_header :: "string \<Rightarrow> string \<Rightarrow> (string \<times> string) list \<Rightarrow> (string \<times> string) list" where
  "set_header name value hs = filter (\<lambda>h. fst h \<noteq> name) hs @ [(name, value)]"

fun worker_headers ::
  "worker_libs \<Rightarrow> source_id \<Rightarrow> (string \<times> string) list \<Rightarrow> (string \<times> string) list \<Rightarrow> ((string \<times> string) list, source_error) result" where
  "worker_headers W s out [] = Ok out"
| "worker_headers W s out ((name, value) # hs) =
     (if \<not> list_all (\<lambda>c. c = CHR '' '' \<or> c = char_of (9::nat) \<or> is_ascii_graphic c) value
      then Err (adapter_error s ''source request header is invalid'')
      else if wl_header_error W name value then Err (adapter_error s ''source request header failed'')
      else worker_headers W s (set_header name value out) hs)"

definition worker_request_of :: "worker_libs \<Rightarrow> source_id \<Rightarrow> http_request \<Rightarrow> (worker_request, source_error) result" where
  "worker_request_of W s rq =
     and_then (worker_method s (rq_method rq)) (\<lambda>m.
     and_then (worker_headers W s [] (rq_headers rq)) (\<lambda>hs.
       let w = \<lparr>wr_method = m, wr_uri = rq_uri rq, wr_follow_redirects = False, wr_headers = hs,
         wr_body = (if rq_body rq = [] then None else Some (rq_body rq))\<rparr>
       in if wl_request_error W w then Err (adapter_error s ''source request conversion failed'') else Ok w))"

definition body_too_large :: "source_id \<Rightarrow> source_error" where
  "body_too_large s = adapter_error s ''source response body exceeds Cloudflare adapter limit''"

definition checked_bytes :: "source_id \<Rightarrow> string \<Rightarrow> (string, source_error) result" where
  "checked_bytes s bytes = (if max_source_response_bytes < length bytes then Err (body_too_large s) else Ok bytes)"

definition stream_failed :: "source_id \<Rightarrow> source_error" where
  "stream_failed s = adapter_error s ''source response body stream failed''"

fun read_limited_body :: "source_id \<Rightarrow> fetched_body \<Rightarrow> (string, source_error) result" where
  "read_limited_body s Body_Empty = Ok []"
| "read_limited_body s (Body_Bytes b) = checked_bytes s b"
| "read_limited_body s (Body_Stream None) = Err (stream_failed s)"
| "read_limited_body s (Body_Stream (Some chunks)) =
     read_limited max_source_response_bytes (body_too_large s) [] (map (map_err (\<lambda>_. stream_failed s)) chunks)"

definition response_from_parts :: "worker_libs \<Rightarrow> source_id \<Rightarrow> http_response \<Rightarrow> (http_response, source_error) result" where
  "response_from_parts W s out =
     (if wl_response_error W out then Err (adapter_error s ''source response conversion failed'') else Ok out)"

text \<open>The flag tells that the guard was dropped armed, which aborts the fetch.\<close>

definition worker_send :: "worker_libs \<Rightarrow> source_id \<Rightarrow> http_request \<Rightarrow> (http_response, source_error) result \<times> bool" where
  "worker_send W s rq =
     (case and_then (worker_request_of W s rq) (\<lambda>w.
           and_then (ok_or (source_error_new s Timeout ''source fetch failed'') (wl_fetch W w)) (\<lambda>r.
           and_then (read_limited_body s (wrs_body r)) (\<lambda>body.
             Ok \<lparr>hr_status = wrs_status r, hr_headers = wrs_headers r, hr_body = body\<rparr>))) of
        Err e \<Rightarrow> (Err e, True)
      | Ok out \<Rightarrow> (response_from_parts W s out, False))"

section \<open>What the worker's client promises\<close>

lemma known_method_same: "known_method value = Some m \<Longrightarrow> m = value"
  unfolding known_method_def find_Some_iff by metis

lemma worker_request_of_Ok:
  assumes "worker_request_of W s rq = Ok w"
  shows "wr_uri w = rq_uri rq \<and> wr_method w = rq_method rq \<and> \<not> wr_follow_redirects w \<and>
     wr_body w = (if rq_body rq = [] then None else Some (rq_body rq))"
proof (cases "known_method (rq_method rq)")
  case (Some m)
  with assms known_method_same [OF Some] show ?thesis
    by (cases "worker_headers W s [] (rq_headers rq)") (auto simp: worker_request_of_def worker_method_def Let_def split: if_splits)
qed (use assms in \<open>simp add: worker_request_of_def worker_method_def\<close>)

lemma read_limited_body_bounded:
  assumes "read_limited_body s b = Ok body"
  shows "length body \<le> max_source_response_bytes"
proof (cases b)
  case (Body_Stream x)
  with assms obtain chunks where "x = Some chunks" by (cases x) simp_all
  with Body_Stream assms have
      "read_limited max_source_response_bytes (body_too_large s) [] (map (map_err (\<lambda>_. stream_failed s)) chunks) = Ok body"
    by simp
  from read_limited_Ok [OF this] show ?thesis by auto
qed (use assms in \<open>auto simp: checked_bytes_def split: if_splits\<close>)

text \<open>An answer of the worker's client comes from one fetch of the request, with its method, address and
  body, that follows no redirect, and holds at most 8 MiB; a fetch whose answer is not read to the end
  is aborted, one that is read to the end is not.\<close>

lemma worker_fetch_bounded:
  "case worker_send W s rq of (r, aborted) \<Rightarrow>
     (case r of Err e \<Rightarrow> True
      | Ok out \<Rightarrow> \<not> aborted \<and> length (hr_body out) \<le> 8 * 1024 * 1024 \<and>
          (\<exists>w x. wl_fetch W w = Some x \<and> wr_uri w = rq_uri rq \<and> wr_method w = rq_method rq \<and>
             wr_body w = (if rq_body rq = [] then None else Some (rq_body rq)) \<and> \<not> wr_follow_redirects w \<and>
             hr_status out = wrs_status x \<and> hr_headers out = wrs_headers x \<and> read_limited_body s (wrs_body x) = Ok (hr_body out))) \<and>
     (aborted \<longleftrightarrow> \<not> (\<exists>w x. worker_request_of W s rq = Ok w \<and> wl_fetch W w = Some x \<and> is_ok (read_limited_body s (wrs_body x))))"
proof (cases "worker_request_of W s rq")
  case (Inl e)
  then show ?thesis by (simp add: worker_send_def)
next
  case w: (Inr w)
  show ?thesis
  proof (cases "wl_fetch W w")
    case None
    then show ?thesis using w by (simp add: worker_send_def)
  next
    case x: (Some x)
    show ?thesis
    proof (cases "read_limited_body s (wrs_body x)")
      case (Inl e)
      then show ?thesis using w x by (simp add: worker_send_def)
    next
      case (Inr body)
      have "\<exists>w x'. wl_fetch W w = Some x' \<and> wr_uri w = rq_uri rq \<and> wr_method w = rq_method rq \<and>
             wr_body w = (if rq_body rq = [] then None else Some (rq_body rq)) \<and> \<not> wr_follow_redirects w \<and>
             wrs_status x = wrs_status x' \<and> wrs_headers x = wrs_headers x' \<and> read_limited_body s (wrs_body x') = Ok body"
        using x worker_request_of_Ok [OF w] Inr by blast
      then show ?thesis
        using w x Inr read_limited_body_bounded [OF Inr]
        by (simp add: worker_send_def response_from_parts_def max_source_response_bytes_def)
    qed
  qed
qed

end
