(* ===== verification/Unix_Output.thy ===== *)
theory Unix_Output
  imports Stored_Values
begin

text \<open>
  The output of the native command (\<open>comsat-cli/src/output.rs\<close>): the framework writes envelopes in
  fragments of any size; \<open>UnixOutput\<close> cuts them into lines, prints data on stdout and diagnostics on
  stderr. The two writers take all they are given; the JSON parser tells whether an error is the end of
  the text.
\<close>

record output_libs =
  ol_parse :: "string \<Rightarrow> (json, bool) result"
  ol_text :: "json \<Rightarrow> string"

record unix_output =
  uo_stdout :: string
  uo_stderr :: string
  uo_pending :: string
  uo_invalid :: bool

datatype io_error = Line_Too_Long | Incomplete_Json

definition max_line_bytes :: nat where "max_line_bytes = 8 * 1024 * 1024"

definition uo_new :: unix_output where
  "uo_new = \<lparr>uo_stdout = [], uo_stderr = [], uo_pending = [], uo_invalid = False\<rparr>"

definition newline :: char where "newline = char_of (10::nat)"

definition is_ascii_whitespace :: "char \<Rightarrow> bool" where
  "is_ascii_whitespace c \<longleftrightarrow> byte c \<in> {9, 10, 12, 13, 32}"

text \<open>Indexing a \<open>Value\<close> by a missing name gives null.\<close>

definition json_index :: "json \<Rightarrow> string \<Rightarrow> json" where
  "json_index v k = (case json_get v k of None \<Rightarrow> JNull | Some w \<Rightarrow> w)"

definition write_json_line :: "output_libs \<Rightarrow> json \<Rightarrow> string" where
  "write_json_line L v = ol_text L v @ [newline]"

definition to_stdout :: "output_libs \<Rightarrow> json \<Rightarrow> unix_output \<Rightarrow> unix_output" where
  "to_stdout L v w = w\<lparr>uo_stdout := uo_stdout w @ write_json_line L v\<rparr>"

definition to_stderr :: "output_libs \<Rightarrow> json \<Rightarrow> unix_output \<Rightarrow> unix_output" where
  "to_stderr L v w = w\<lparr>uo_stderr := uo_stderr w @ write_json_line L v\<rparr>"

definition emit_data :: "output_libs \<Rightarrow> json \<Rightarrow> unix_output \<Rightarrow> unix_output" where
  "emit_data L v w =
     (if Option.bind (json_get v ''type'') as_str = Some ''source_error'' then to_stderr L (json_index v ''diagnostic'') w
      else to_stdout L v w)"

definition invocation_codes :: "string list" where
  "invocation_codes = [''VALIDATION_ERROR'', ''UNKNOWN_COMMAND'', ''COMMAND_NOT_FOUND'', ''UNKNOWN_OPTION'', ''PARSE_ERROR'']"

definition emit_error :: "output_libs \<Rightarrow> json \<Rightarrow> unix_output \<Rightarrow> bool \<times> unix_output" where
  "emit_error L v w =
     (let e = (case json_get v ''error'' of None \<Rightarrow> v | Some e \<Rightarrow> e)
      in case Option.bind (json_get e ''code'') as_str of
           None \<Rightarrow> (False, w)
         | Some code \<Rightarrow>
             (let w = w\<lparr>uo_invalid := (uo_invalid w \<or> code \<in> set invocation_codes)\<rparr>
              in if json_get e ''message'' = None \<or> json_get v ''id'' \<noteq> None then (False, w)
                 else (True, to_stderr L v w)))"

definition emit_value :: "output_libs \<Rightarrow> json \<Rightarrow> unix_output \<Rightarrow> unix_output" where
  "emit_value L v w =
     (case emit_error L v w of
        (True, w) \<Rightarrow> w
      | (False, w) \<Rightarrow>
          (let t = Option.bind (json_get v ''type'') as_str
           in if t = Some ''chunk'' then emit_data L (json_index v ''data'') w
              else if t = Some ''error'' then to_stderr L v w
              else if t = Some ''done'' then w
              else if json_get v ''ok'' = Some (JBool False) then to_stderr L v w
              else emit_data L v w))"

definition emit_unparsed :: "string \<Rightarrow> bool \<Rightarrow> unix_output \<Rightarrow> unix_output" where
  "emit_unparsed line eof w =
     (if eof \<and> (case find (\<lambda>b. \<not> is_ascii_whitespace b) line of None \<Rightarrow> False | Some b \<Rightarrow> b = CHR ''{'' \<or> b = CHR ''['')
      then w\<lparr>uo_pending := line @ [newline]\<rparr>
      else w\<lparr>uo_stdout := uo_stdout w @ line @ [newline]\<rparr>)"

definition emit_line :: "output_libs \<Rightarrow> unix_output \<Rightarrow> unix_output" where
  "emit_line L w =
     (let line = uo_pending w; w = w\<lparr>uo_pending := []\<rparr>
      in case ol_parse L line of Ok v \<Rightarrow> emit_value L v w | Err eof \<Rightarrow> emit_unparsed line eof w)"

fun uo_write :: "output_libs \<Rightarrow> string \<Rightarrow> unix_output \<Rightarrow> (unit, io_error) result \<times> unix_output" where
  "uo_write L [] w = (Ok (), w)"
| "uo_write L (b # bs) w =
     (if b = newline then uo_write L bs (emit_line L w)
      else if max_line_bytes \<le> length (uo_pending w) then (Err Line_Too_Long, w)
      else uo_write L bs (w\<lparr>uo_pending := uo_pending w @ [b]\<rparr>))"

text \<open>Writing fragments one after the other, up to the first error.\<close>

fun uo_write_all :: "output_libs \<Rightarrow> string list \<Rightarrow> unix_output \<Rightarrow> (unit, io_error) result \<times> unix_output" where
  "uo_write_all L [] w = (Ok (), w)"
| "uo_write_all L (bs # fragments) w =
     (case uo_write L bs w of (Ok _, w) \<Rightarrow> uo_write_all L fragments w | (Err e, w) \<Rightarrow> (Err e, w))"

definition uo_finish :: "output_libs \<Rightarrow> unix_output \<Rightarrow> (unit, io_error) result \<times> unix_output" where
  "uo_finish L w =
     (let w = (if uo_pending w \<noteq> [] then emit_line L w else w)
      in if uo_pending w \<noteq> [] then (Err Incomplete_Json, w) else (Ok (), w))"

section \<open>Fragments\<close>

lemma uo_write_append:
  "uo_write L (xs @ ys) w = (case uo_write L xs w of (Ok _, w) \<Rightarrow> uo_write L ys w | (Err e, w) \<Rightarrow> (Err e, w))"
  by (induction L xs w rule: uo_write.induct) simp_all

lemma uo_write_all_concat: "uo_write_all L fragments w = uo_write L (concat fragments) w"
  by (induction fragments arbitrary: w) (simp_all add: uo_write_append split: prod.split sum.split)

lemma uo_write_line:
  assumes "newline \<notin> set line" "length (uo_pending w) + length line \<le> max_line_bytes"
  shows "uo_write L line w = (Ok (), w\<lparr>uo_pending := uo_pending w @ line\<rparr>)"
  using assms by (induction line arbitrary: w) auto

lemma emit_data_pending [simp]: "uo_pending (emit_data L v w) = uo_pending w"
  by (simp add: emit_data_def to_stdout_def to_stderr_def)

lemma emit_value_pending [simp]: "uo_pending (emit_value L v w) = uo_pending w"
  by (simp add: emit_value_def emit_error_def to_stderr_def Let_def split: option.split)

section \<open>Where a line goes\<close>

datatype route = Data_Line json | Diagnostic_Line json | No_Line

definition data_route :: "json \<Rightarrow> route" where
  "data_route v =
     (if Option.bind (json_get v ''type'') as_str = Some ''source_error'' then Diagnostic_Line (json_index v ''diagnostic'')
      else Data_Line v)"

definition error_part :: "json \<Rightarrow> json" where
  "error_part v = (case json_get v ''error'' of None \<Rightarrow> v | Some e \<Rightarrow> e)"

definition error_code_of :: "json \<Rightarrow> string option" where
  "error_code_of v = Option.bind (json_get (error_part v) ''code'') as_str"

definition is_error_line :: "json \<Rightarrow> bool" where
  "is_error_line v \<longleftrightarrow> error_code_of v \<noteq> None \<and> json_get (error_part v) ''message'' \<noteq> None \<and> json_get v ''id'' = None"

text \<open>An envelope is a diagnostic when it holds an error with a code and a message and is not a record, when
  it is of type error, or when it says it is not ok; a chunk is its data; the end is silent; anything else
  is data.\<close>

definition route_of :: "json \<Rightarrow> route" where
  "route_of v =
     (if is_error_line v then Diagnostic_Line v
      else case Option.bind (json_get v ''type'') as_str of
             Some t \<Rightarrow>
               if t = ''chunk'' then data_route (json_index v ''data'')
               else if t = ''error'' then Diagnostic_Line v
               else if t = ''done'' then No_Line
               else if json_get v ''ok'' = Some (JBool False) then Diagnostic_Line v else data_route v
           | None \<Rightarrow> if json_get v ''ok'' = Some (JBool False) then Diagnostic_Line v else data_route v)"

definition blames_invocation :: "json \<Rightarrow> bool" where
  "blames_invocation v \<longleftrightarrow> (case error_code_of v of None \<Rightarrow> False | Some c \<Rightarrow> c \<in> set invocation_codes)"

definition stdout_lines :: "output_libs \<Rightarrow> json list \<Rightarrow> string" where
  "stdout_lines L vs = concat (map (\<lambda>v. case route_of v of Data_Line d \<Rightarrow> write_json_line L d | _ \<Rightarrow> []) vs)"

definition stderr_lines :: "output_libs \<Rightarrow> json list \<Rightarrow> string" where
  "stderr_lines L vs = concat (map (\<lambda>v. case route_of v of Diagnostic_Line d \<Rightarrow> write_json_line L d | _ \<Rightarrow> []) vs)"

fun put_route :: "output_libs \<Rightarrow> route \<Rightarrow> unix_output \<Rightarrow> unix_output" where
  "put_route L (Data_Line d) w = to_stdout L d w"
| "put_route L (Diagnostic_Line d) w = to_stderr L d w"
| "put_route L No_Line w = w"

definition blame :: "json \<Rightarrow> unix_output \<Rightarrow> unix_output" where
  "blame v w = w\<lparr>uo_invalid := (uo_invalid w \<or> blames_invocation v)\<rparr>"

lemma emit_error_routes: "emit_error L v w = (is_error_line v, if is_error_line v then to_stderr L v (blame v w) else blame v w)"
  by (auto simp: emit_error_def Let_def is_error_line_def error_code_of_def error_part_def [symmetric] blame_def
      blames_invocation_def split: option.splits)

lemma emit_data_routes: "emit_data L v w = put_route L (data_route v) w"
  by (simp add: emit_data_def data_route_def)

lemma emit_value_routes: "emit_value L v w = put_route L (route_of v) (blame v w)"
  by (simp add: emit_value_def emit_error_routes Let_def emit_data_routes route_of_def split: option.split)

lemma put_route_lines:
  "put_route L (route_of v) w = w\<lparr>uo_stdout := uo_stdout w @ stdout_lines L [v], uo_stderr := uo_stderr w @ stderr_lines L [v]\<rparr>"
  by (cases "route_of v"; cases w) (simp_all add: to_stdout_def to_stderr_def stdout_lines_def stderr_lines_def)

lemma uo_write_values:
  assumes "\<forall>v \<in> set vs. ol_parse L (ol_text L v) = Ok v \<and> newline \<notin> set (ol_text L v) \<and> length (ol_text L v) \<le> max_line_bytes"
    and "uo_pending w = []"
  shows "uo_write L (concat (map (write_json_line L) vs)) w =
    (Ok (), w\<lparr>uo_stdout := uo_stdout w @ stdout_lines L vs, uo_stderr := uo_stderr w @ stderr_lines L vs,
       uo_invalid := (uo_invalid w \<or> list_ex blames_invocation vs)\<rparr>)"
  using assms
proof (induction vs arbitrary: w)
  case Nil
  then show ?case by (simp add: stdout_lines_def stderr_lines_def)
next
  case (Cons v vs)
  let ?w = "emit_value L v w"
  have line: "uo_write L (write_json_line L v) w = (Ok (), ?w)"
  proof -
    have same: "w\<lparr>uo_pending := []\<rparr> = w" using Cons.prems(2) by (cases w) simp
    then show ?thesis
      using Cons.prems by (simp add: write_json_line_def uo_write_append uo_write_line emit_line_def Let_def same)
  qed
  have w: "?w = w\<lparr>uo_stdout := uo_stdout w @ stdout_lines L [v], uo_stderr := uo_stderr w @ stderr_lines L [v],
      uo_invalid := (uo_invalid w \<or> blames_invocation v)\<rparr>"
    unfolding emit_value_routes put_route_lines by (simp add: blame_def)
  have "uo_pending ?w = []" using Cons.prems(2) by simp
  with Cons.IH [of ?w] Cons.prems(1) have "uo_write L (concat (map (write_json_line L) vs)) ?w =
    (Ok (), ?w\<lparr>uo_stdout := uo_stdout ?w @ stdout_lines L vs, uo_stderr := uo_stderr ?w @ stderr_lines L vs,
       uo_invalid := (uo_invalid ?w \<or> list_ex blames_invocation vs)\<rparr>)" by simp
  then show ?case
    using line by (simp add: uo_write_append w stdout_lines_def stderr_lines_def disj_assoc)
qed


definition example_chunk :: json where
  "example_chunk = json_object [(''type'', JString ''chunk''), (''data'', json_object [(''id'', JString ''a'')])]"

definition example_failure :: json where
  "example_failure = json_object [(''code'', JString ''VALIDATION_ERROR''), (''message'', JString ''missing text'')]"

definition example_output_libs :: output_libs where
  "example_output_libs = \<lparr>ol_parse = (\<lambda>s. if s = ''chunk'' then Ok example_chunk else if s = ''failure'' then Ok example_failure else Err False),
     ol_text = (\<lambda>v. if v = example_chunk then ''chunk'' else if v = example_failure then ''failure'' else ''data'')\<rparr>"


end
