(* ===== verification/Native_Cli.thy ===== *)
theory Native_Cli
  imports Source_Http
begin

text \<open>
  The decisions of the native command (\<open>comsat-cli/src/main.rs\<close>, \<open>plugins.rs\<close>): the targets it reads from
  stdin, the descriptor of an Agent Plugin from its manifest and its tools, and the exit code. Reading a
  line, loading a package and connecting to its tools are parameters.
\<close>

unbundle bit_operations_syntax

section \<open>Targets on stdin (\<open>main.rs\<close>)\<close>

text \<open>A record and a tagged target from the tree of a text; a tag leads its array.\<close>

definition record_of_tree :: "json \<Rightarrow> comsat_record option" where
  "record_of_tree v = map_option (\<lambda>r. r\<lparr>rec_metadata := to_value (rec_metadata r)\<rparr>) (read_struct record_fields record_of_members v)"

definition target_variant :: "string \<Rightarrow> (string list \<times> (arguments \<Rightarrow> target option)) option" where
  "target_variant kind =
     (if kind = ''record'' then Some ([''record''], \<lambda>k. map_option Target_Record (need record_of_tree k ''record''))
      else if kind = ''url'' then Some ([''source'', ''url''], \<lambda>k. Option.bind (source_id_field (map_of k ''source'')) (\<lambda>s.
        map_option (Target_Url s) (need as_str k ''url'')))
      else if kind = ''native'' then Some ([''source'', ''id''], \<lambda>k. Option.bind (source_id_field (map_of k ''source'')) (\<lambda>s.
        map_option (Target_Native s) (need as_str k ''id'')))
      else None)"

fun target_of_tree :: "json \<Rightarrow> target option" where
  "target_of_tree (JObject kvs) =
     (if 1 < length (filter (\<lambda>kv. fst kv = ''type'') kvs) then None
      else Option.bind (need as_str kvs ''type'') (\<lambda>kind. Option.bind (target_variant kind) (\<lambda>(names, f).
        read_struct names f (JObject (filter (\<lambda>kv. fst kv \<noteq> ''type'') kvs)))))"
| "target_of_tree (JArray (JString kind # vs)) =
     Option.bind (target_variant kind) (\<lambda>(names, f). read_struct names f (JArray vs))"
| "target_of_tree _ = None"

definition stdin_limit_bytes :: nat where "stdin_limit_bytes = 2 * 1024 * 1024"

definition stdin_error :: "nat \<Rightarrow> string \<Rightarrow> string" where
  "stdin_error n m = ''stdin line '' @ nat_str n @ '': '' @ m"

definition parse_stdin_target :: "plugin_libs \<Rightarrow> string \<Rightarrow> nat \<Rightarrow> (target, string) result" where
  "parse_stdin_target P line n =
     and_then (case pl_parse P line of
         Err e \<Rightarrow> Err (stdin_error n e)
       | Ok v \<Rightarrow>
           (case target_of_tree v of
              Some t \<Rightarrow> Ok t
            | None \<Rightarrow> ok_or (stdin_error n (decode_text (pl_libs P) v)) (map_option Target_Record (record_of_tree v)))) (\<lambda>t.
     and_then (map_err (stdin_error n) (target_validate (pl_libs P) t)) (\<lambda>_. Ok t))"

datatype stdin_line = Line_Target target | Line_Skip | Line_Error string

definition parse_stdin_line :: "plugin_libs \<Rightarrow> string \<Rightarrow> nat \<Rightarrow> stdin_line" where
  "parse_stdin_line P line n =
     (if stdin_limit_bytes < length line then Line_Error (stdin_error n ''target JSONL line exceeded 2 MiB'')
      else let trimmed = trim line
        in if trimmed = [] then Line_Skip
           else case parse_stdin_target P trimmed n of Err e \<Rightarrow> Line_Error e | Ok t \<Rightarrow> Line_Target t)"

text \<open>The lines of the reader, each with its newline, or the error of a read; the list ends at the end of
  the input.\<close>

definition read_stdin_line :: "plugin_libs \<Rightarrow> (string, string) result \<Rightarrow> nat \<Rightarrow> stdin_line" where
  "read_stdin_line P line n = (case line of Err e \<Rightarrow> Line_Error e | Ok l \<Rightarrow> parse_stdin_line P l n)"

fun stdin_loop :: "plugin_libs \<Rightarrow> (string, string) result list \<Rightarrow> nat \<Rightarrow> bool \<Rightarrow> (target, string) result list" where
  "stdin_loop P [] n emitted = (if emitted then [] else [Err ''stdin JSONL target stream was empty''])"
| "stdin_loop P (line # input) n emitted =
     (case read_stdin_line P line (n + 1) of
        Line_Target t \<Rightarrow> Ok t # stdin_loop P input (n + 1) True
      | Line_Skip \<Rightarrow> stdin_loop P input (n + 1) emitted
      | Line_Error e \<Rightarrow> [Err e])"

definition read_stdin_targets :: "plugin_libs \<Rightarrow> (string, string) result list \<Rightarrow> (target, string) result list" where
  "read_stdin_targets P input = stdin_loop P input 0 False"

section \<open>Agent Plugins (\<open>plugins.rs\<close>)\<close>

datatype plugin_error =
    Invalid_Plugin "string list"
  | Missing_Extension
  | Unsupported_Version
  | Invalid_Source_Id string
  | Missing_Display_Name
  | Connect_Failed string
  | Missing_Tool source_id operation
  | Ambiguous_Tool source_id operation "string list"

record source_extension =
  ext_id :: source_id
  ext_display_name :: string
  ext_fetch :: bool
  ext_follow :: bool

definition extension_flag :: "json \<Rightarrow> string \<Rightarrow> bool" where
  "extension_flag v k = (case Option.bind (json_get v k) as_bool of None \<Rightarrow> False | Some b \<Rightarrow> b)"

text \<open>The extension of the manifest under \<open>io.comsat.source\<close>.\<close>

definition from_plugin :: "json option \<Rightarrow> (source_extension, plugin_error) result" where
  "from_plugin extension =
     and_then (ok_or Missing_Extension extension) (\<lambda>v.
       if \<not> is_object v then Err Missing_Extension
       else if Option.bind (json_get v ''version'') as_u64 \<noteq> Some 1 then Err Unsupported_Version
       else and_then (ok_or Missing_Display_Name (Option.bind (json_get v ''displayName'') as_str)) (\<lambda>name.
            and_then (map_err Invalid_Source_Id
                (source_id_new (case Option.bind (json_get v ''id'') as_str of None \<Rightarrow> [] | Some i \<Rightarrow> i))) (\<lambda>i.
              Ok \<lparr>ext_id = i, ext_display_name = name, ext_fetch = extension_flag v ''supportsFetch'',
                ext_follow = extension_flag v ''supportsFollow''\<rparr>)))"

definition find_tool :: "string list \<Rightarrow> source_id \<Rightarrow> operation \<Rightarrow> (string option, plugin_error) result" where
  "find_tool names s op =
     (let comsat_name = ''comsat_'' @ replace_char CHR ''-'' CHR ''_'' (sid_str s) @ ''_'' @ op_str op
      in case find (\<lambda>c. c \<in> set names) [op_str op, comsat_name] of
           Some c \<Rightarrow> Ok (Some c)
         | None \<Rightarrow>
             (case filter (\<lambda>n. ends_with (CHR ''_'' # op_str op) n \<or> ends_with (CHR ''_'' # comsat_name) n) names of
                [] \<Rightarrow> Ok None
              | [tool] \<Rightarrow> Ok (Some tool)
              | tools \<Rightarrow> Err (Ambiguous_Tool s op tools)))"

definition optional_tool :: "string list \<Rightarrow> source_id \<Rightarrow> operation \<Rightarrow> bool \<Rightarrow> (string option, plugin_error) result" where
  "optional_tool names s op advertised =
     (if \<not> advertised then Ok None
      else and_then (find_tool names s op) (\<lambda>t. ok_or (Missing_Tool s op) (map_option Some t)))"

definition extension_descriptor :: "source_extension \<Rightarrow> string list \<Rightarrow> (descriptor, plugin_error) result" where
  "extension_descriptor x names =
     and_then (find_tool names (ext_id x) Op_Search) (\<lambda>t.
     and_then (ok_or (Missing_Tool (ext_id x) Op_Search) t) (\<lambda>search.
     and_then (optional_tool names (ext_id x) Op_Fetch (ext_fetch x)) (\<lambda>fetch_tool.
     and_then (optional_tool names (ext_id x) Op_Follow (ext_follow x)) (\<lambda>follow_tool.
       Ok \<lparr>desc_id = ext_id x, desc_display_name = ext_display_name x,
         desc_profile = \<lparr>can_search = True, can_fetch = fetch_tool \<noteq> None, can_follow = follow_tool \<noteq> None\<rparr>,
         desc_commands = \<lparr>search_name = search, fetch_name = (case fetch_tool of None \<Rightarrow> [] | Some n \<Rightarrow> n),
           follow_name = (case follow_tool of None \<Rightarrow> [] | Some n \<Rightarrow> n)\<rparr>\<rparr>))))"

text \<open>A package: its extension, and the names and the calls of its tools once connected.\<close>

record agent_plugins =
  ap_load :: "string \<Rightarrow> (json option, string list) result"
  ap_connect :: "string \<Rightarrow> (string list \<times> (string \<Rightarrow> arguments \<Rightarrow> tool_run), string) result"

definition load_source :: "agent_plugins \<Rightarrow> string \<Rightarrow> (catalog_source, plugin_error) result" where
  "load_source A root =
     and_then (map_err Invalid_Plugin (ap_load A root)) (\<lambda>extension.
     and_then (from_plugin extension) (\<lambda>x.
     and_then (map_err Connect_Failed (ap_connect A root)) (\<lambda>(names, call).
     and_then (extension_descriptor x names) (\<lambda>d. Ok \<lparr>cs_descriptor = d, cs_call = call\<rparr>))))"

fun load_sources :: "agent_plugins \<Rightarrow> string list \<Rightarrow> catalog_source list \<times> (string \<times> plugin_error) list" where
  "load_sources A [] = ([], [])"
| "load_sources A (root # roots) =
     (case load_sources A roots of (sources, diagnostics) \<Rightarrow>
        (case load_source A root of
           Ok s \<Rightarrow> (s # sources, diagnostics)
         | Err e \<Rightarrow> (sources, (root, e) # diagnostics)))"

text \<open>The directory of a plugin's data: its name and the FNV digest of its path, in sixteen hex digits.\<close>

definition stable_path_digest :: "string \<Rightarrow> 64 word" where
  "stable_path_digest path = foldl (\<lambda>hash b. (hash * 0x100000001b3) XOR of_nat (byte b)) 0xcbf29ce484222325 path"

definition hex_digit :: "nat \<Rightarrow> char" where
  "hex_digit n = char_of (if n < 10 then 48 + n else 87 + n)"

definition digest_hex :: "64 word \<Rightarrow> string" where
  "digest_hex w = map (\<lambda>i. hex_digit (unat w div 16 ^ i mod 16)) (rev [0..<16])"

definition plugin_data_name :: "string option \<Rightarrow> string \<Rightarrow> string" where
  "plugin_data_name file_name root =
     (case file_name of None \<Rightarrow> ''plugin'' | Some n \<Rightarrow> if n = [] then ''plugin'' else n) @ ''-'' @ digest_hex (stable_path_digest root)"

section \<open>Exit code\<close>

definition native_exit_code :: "int \<Rightarrow> bool \<Rightarrow> int" where
  "native_exit_code code invalid_invocation = (if code = 1 \<and> invalid_invocation then 2 else code)"

section \<open>What stdin gives\<close>

text \<open>The lines as they are read, each with its number.\<close>

definition stdin_lines :: "plugin_libs \<Rightarrow> (string, string) result list \<Rightarrow> stdin_line list" where
  "stdin_lines P input = map2 (read_stdin_line P) input [1..<length input + 1]"

fun line_failed :: "stdin_line \<Rightarrow> bool" where
  "line_failed (Line_Error _) = True"
| "line_failed _ = False"

fun line_targets :: "stdin_line \<Rightarrow> target list" where
  "line_targets (Line_Target t) = [t]"
| "line_targets _ = []"

definition good_targets :: "stdin_line list \<Rightarrow> target list" where
  "good_targets lines = concat (map line_targets (takeWhile (\<lambda>l. \<not> line_failed l) lines))"

definition stdin_end :: "stdin_line list \<Rightarrow> bool \<Rightarrow> (target, string) result list" where
  "stdin_end lines emitted =
     (case dropWhile (\<lambda>l. \<not> line_failed l) lines of
        Line_Error e # _ \<Rightarrow> [Err e]
      | _ \<Rightarrow> if emitted then [] else [Err ''stdin JSONL target stream was empty''])"

lemma good_targets_Cons:
  "good_targets [] = []"
  "good_targets (l # ls) = (if line_failed l then [] else line_targets l @ good_targets ls)"
  by (simp_all add: good_targets_def)

lemma stdin_end_Cons:
  "stdin_end [] emitted = (if emitted then [] else [Err ''stdin JSONL target stream was empty''])"
  "stdin_end (l # ls) emitted = (case l of Line_Error e \<Rightarrow> [Err e] | _ \<Rightarrow> stdin_end ls emitted)"
  by (simp_all add: stdin_end_def split: stdin_line.split)

lemma stdin_loop_exact:
  "stdin_loop P input n emitted =
     (let lines = map2 (read_stdin_line P) input [n + 1..<n + 1 + length input]
      in map Ok (good_targets lines) @ stdin_end lines (emitted \<or> good_targets lines \<noteq> []))"
proof (induction input arbitrary: n emitted)
  case (Cons line input)
  have "[n + 1..<n + 1 + length (line # input)] = (n + 1) # [n + 1 + 1..<n + 1 + 1 + length input]"
    by (subst upt_conv_Cons) simp_all
  then show ?case
    using Cons [of "n + 1"]
    by (cases "read_stdin_line P line (n + 1)") (simp_all add: Let_def good_targets_Cons stdin_end_Cons del: upt_Suc)
qed (simp add: good_targets_Cons stdin_end_Cons)

lemma parse_stdin_target_valid:
  "parse_stdin_target P line n = Ok t \<Longrightarrow> target_validate (pl_libs P) t = Ok ()"
  by (auto simp: parse_stdin_target_def elim!: and_then.elims split: sum.splits option.splits)


section \<open>What an Agent Plugin is loaded as\<close>

lemma find_tool_named:
  assumes "command_name (commands_for_source s) op \<in> set names" "op_str op \<notin> set names"
  shows "find_tool names s op = Ok (Some (command_name (commands_for_source s) op))"
  using assms by (cases op) (simp_all add: find_tool_def commands_for_source_def Let_def)

lemma find_tool_sound: "find_tool names s op = Ok (Some n) \<Longrightarrow> n \<in> set names"
  by (auto simp: find_tool_def Let_def filter_eq_Cons_iff split: if_splits list.splits)

lemma optional_tool_sound:
  "optional_tool names s op advertised = Ok t \<Longrightarrow> (t \<noteq> None) = advertised \<and> (case t of None \<Rightarrow> True | Some n \<Rightarrow> n \<in> set names)"
proof (cases "find_tool names s op")
  case (Inr u)
  then show "optional_tool names s op advertised = Ok t \<Longrightarrow> ?thesis"
    using find_tool_sound [of names s op] by (cases u) (auto simp: optional_tool_def split: if_splits)
qed (auto simp: optional_tool_def split: if_splits)

definition extension_of :: "descriptor \<Rightarrow> source_extension" where
  "extension_of d = \<lparr>ext_id = desc_id d, ext_display_name = desc_display_name d,
     ext_fetch = can_fetch (desc_profile d), ext_follow = can_follow (desc_profile d)\<rparr>"

text \<open>An Agent Plugin that offers the tools comsat-source makes for a source is loaded as that source: the
  descriptor keeps the id, the name, the profile and the tools of the one it was made from. Whatever tools
  a plugin offers, a loaded descriptor supports exactly what its manifest announces and names only tools
  the plugin has.\<close>

lemma plugin_descriptor_faithful:
  assumes "can_search p" "source_commands L (descriptor_new s name p) rt = Some tools"
  shows "(case extension_descriptor (extension_of (descriptor_new s name p)) (map fst tools) of
      Err e \<Rightarrow> False
    | Ok d \<Rightarrow> desc_id d = s \<and> desc_display_name d = name \<and> desc_profile d = p \<and>
        (\<forall>op. tool_name d op = tool_name (descriptor_new s name p) op)) \<and>
    (case extension_descriptor x names of
       Err e \<Rightarrow> True
     | Ok d \<Rightarrow> desc_profile d = \<lparr>can_search = True, can_fetch = ext_fetch x, can_follow = ext_follow x\<rparr> \<and>
         (\<forall>op n. tool_name d op = Some n \<longrightarrow> n \<in> set names))"
proof
  let ?d = "descriptor_new s name p" and ?n = "command_name (commands_for_source s)"
  have names: "map fst tools = ?n Op_Search # (if can_fetch p then [?n Op_Fetch] else []) @ (if can_follow p then [?n Op_Follow] else [])"
    using assms by (auto simp: source_commands_def command_for_def tool_name_def descriptor_new_def split: if_splits)
  have bare: "op_str op \<notin> set (map fst tools)" for op
    unfolding names by (cases op) (auto simp: commands_for_source_def Let_def)
  have found: "find_tool (map fst tools) s op = Ok (Some (?n op))" if "?n op \<in> set (map fst tools)" for op
    using find_tool_named [OF that bare] .
  have search: "find_tool (map fst tools) s Op_Search = Ok (Some (?n Op_Search))"
    by (rule found) (simp add: names)
  have others: "optional_tool (map fst tools) s Op_Fetch (can_fetch p) = Ok (if can_fetch p then Some (?n Op_Fetch) else None)"
    "optional_tool (map fst tools) s Op_Follow (can_follow p) = Ok (if can_follow p then Some (?n Op_Follow) else None)"
  proof -
    have f: "?n Op_Fetch \<in> set (map fst tools)" if "can_fetch p" unfolding names using that by simp
    have g: "?n Op_Follow \<in> set (map fst tools)" if "can_follow p" unfolding names using that by simp
    show "optional_tool (map fst tools) s Op_Fetch (can_fetch p) = Ok (if can_fetch p then Some (?n Op_Fetch) else None)"
      by (cases "can_fetch p") (simp_all add: optional_tool_def found [OF f] del: command_name.simps set_map)
    show "optional_tool (map fst tools) s Op_Follow (can_follow p) = Ok (if can_follow p then Some (?n Op_Follow) else None)"
      by (cases "can_follow p") (simp_all add: optional_tool_def found [OF g] del: command_name.simps set_map)
  qed
  show "case extension_descriptor (extension_of ?d) (map fst tools) of
      Err e \<Rightarrow> False
    | Ok d \<Rightarrow> desc_id d = s \<and> desc_display_name d = name \<and> desc_profile d = p \<and>
        (\<forall>op. tool_name d op = tool_name (descriptor_new s name p) op)"
  proof -
    have "tool_name \<lparr>desc_id = s, desc_display_name = name,
        desc_profile = \<lparr>can_search = True, can_fetch = can_fetch p, can_follow = can_follow p\<rparr>,
        desc_commands = \<lparr>search_name = ?n Op_Search, fetch_name = (if can_fetch p then ?n Op_Fetch else []),
          follow_name = (if can_follow p then ?n Op_Follow else [])\<rparr>\<rparr> op = tool_name ?d op" for op
      using assms(1) by (cases op) (simp_all add: tool_name_def descriptor_new_def)
    then show ?thesis
      using assms(1) search others
      by (cases p) (auto simp: extension_descriptor_def extension_of_def descriptor_new_def)
  qed
  show "case extension_descriptor x names of
       Err e \<Rightarrow> True
     | Ok d \<Rightarrow> desc_profile d = \<lparr>can_search = True, can_fetch = ext_fetch x, can_follow = ext_follow x\<rparr> \<and>
         (\<forall>op n. tool_name d op = Some n \<longrightarrow> n \<in> set names)"
  proof (cases "extension_descriptor x names")
    case (Inr d)
    then obtain n f g where t: "find_tool names (ext_id x) Op_Search = Ok (Some n)"
        "optional_tool names (ext_id x) Op_Fetch (ext_fetch x) = Ok f"
        "optional_tool names (ext_id x) Op_Follow (ext_follow x) = Ok g"
      and d: "desc_profile d = \<lparr>can_search = True, can_fetch = f \<noteq> None, can_follow = g \<noteq> None\<rparr>"
        "desc_commands d = \<lparr>search_name = n, fetch_name = (case f of None \<Rightarrow> [] | Some n \<Rightarrow> n),
           follow_name = (case g of None \<Rightarrow> [] | Some n \<Rightarrow> n)\<rparr>"
      by (auto simp: extension_descriptor_def elim!: and_then.elims ok_or.elims)
    have "m \<in> set names" if "tool_name d op = Some m" for op m
      using that d find_tool_sound [OF t(1)] optional_tool_sound [OF t(2)] optional_tool_sound [OF t(3)]
      by (cases op) (auto simp: tool_name_def split: if_splits option.splits)
    then show ?thesis using Inr d optional_tool_sound [OF t(2)] optional_tool_sound [OF t(3)] by simp
  qed simp
qed

definition silent_runtime :: source_runtime where
  "silent_runtime = \<lparr>rt_search = \<lambda>_. [], rt_fetch = \<lambda>_. Err (source_error_new (Source_Id ''web'') NotFound []), rt_follow = \<lambda>_. []\<rparr>"

end
