(* ===== verification/Schema_Check.thy ===== *)
theory Schema_Check
  imports Source_Http
begin

text \<open>
  The check of a tool's JSON schema (\<open>comsat-source/src/conformance/schema.rs\<close>): a walk of the positions
  that hold a schema, each resource with the anchors its references may name. Documents are values of
  \<open>serde_json\<close>: objects with distinct members.
\<close>

definition single_keywords :: "string list" where
  "single_keywords = [''additionalItems'', ''additionalProperties'', ''contains'', ''contentSchema'', ''else'', ''if'',
     ''items'', ''not'', ''propertyNames'', ''then'', ''unevaluatedItems'', ''unevaluatedProperties'']"

definition array_keywords :: "string list" where
  "array_keywords = [''allOf'', ''anyOf'', ''oneOf'', ''prefixItems'']"

definition map_keywords :: "string list" where
  "map_keywords = [''$defs'', ''definitions'', ''dependentSchemas'', ''patternProperties'', ''properties'']"

definition reference_keywords :: "string list" where
  "reference_keywords = [''$ref'', ''$dynamicRef'']"

definition anchor_keywords :: "string list" where
  "anchor_keywords = [''$anchor'', ''$dynamicAnchor'']"

datatype schema_position = Single_Position | Array_Position | Map_Position

definition position_of :: "string \<Rightarrow> schema_position option" where
  "position_of keyword =
     (if keyword \<in> set single_keywords then Some Single_Position
      else if keyword \<in> set array_keywords then Some Array_Position
      else if keyword \<in> set map_keywords then Some Map_Position else None)"

fun children :: "schema_position \<Rightarrow> json \<Rightarrow> (json list, string) result" where
  "children Map_Position v = (case v of JObject kvs \<Rightarrow> Ok (map snd kvs) | _ \<Rightarrow> Err ''schema map position must hold an object'')"
| "children Array_Position v = (case v of JArray vs \<Rightarrow> Ok vs | _ \<Rightarrow> Err ''schema array position must hold an array'')"
| "children Single_Position v = (case v of JArray vs \<Rightarrow> Ok vs | _ \<Rightarrow> Ok [v])"

text \<open>The schemas below a member; \<open>unwrap_or_default\<close>.\<close>

definition member_children :: "string \<Rightarrow> json \<Rightarrow> json list" where
  "member_children keyword v =
     (case position_of keyword of None \<Rightarrow> [] | Some p \<Rightarrow> (case children p v of Ok cs \<Rightarrow> cs | Err _ \<Rightarrow> []))"

definition has_key :: "(string \<times> json) list \<Rightarrow> string \<Rightarrow> bool" where
  "has_key kvs k \<longleftrightarrow> map_of kvs k \<noteq> None"

lemma size_member: "(k, v) \<in> set kvs \<Longrightarrow> size v < size_list (size_prod (\<lambda>_. 0) size) kvs"
  by (induction kvs) auto

lemma size_element: "v \<in> set vs \<Longrightarrow> size v < size_list size vs"
  by (induction vs) auto

lemma size_children:
  assumes "children p v = Ok cs" and "c \<in> set cs"
  shows "size c \<le> size v"
proof (cases v)
  case (JArray vs)
  then show ?thesis using assms size_element [of c vs] by (cases p) auto
next
  case (JObject kvs)
  then show ?thesis using assms by (cases p) (auto dest!: size_member)
qed (use assms in \<open>cases p; auto\<close>)+

lemma size_member_children: "c \<in> set (member_children k v) \<Longrightarrow> size c \<le> size v"
  by (auto simp: member_children_def intro: size_children [OF sym] split: option.splits sum.splits)

lemma size_below:
  "(k, v) \<in> set kvs \<Longrightarrow> c \<in> set (member_children k v) \<Longrightarrow> size c < Suc (size_list (size_prod (\<lambda>_. 0) size) kvs)"
  "(k, v) \<in> set kvs \<Longrightarrow> children p v = Ok cs \<Longrightarrow> c \<in> set cs \<Longrightarrow> size c < Suc (size_list (size_prod (\<lambda>_. 0) size) kvs)"
  by (auto dest!: size_member size_member_children size_children)

section \<open>Failures\<close>

datatype conformance_error =
    Missing_Search
  | Missing_Tool string
  | Invalid_Tool_Schema string string
  | Invalid_Fixture string
  | Empty_Search
  | Unstable_Record_Ids
  | Unstructured_Source_Error string
  | Unexpected_Error_Class error_class error_class
  | Cancellation_Finished_Early
  | Cancellation_Not_Propagated
  | Cancellation_Not_Observed
  | Cancellation_Leaked_Request nat
  | Conformance_Source source_error
  | Conformance_Tool string

section \<open>Resources\<close>

definition own_anchors :: "(string \<times> json) list \<Rightarrow> string list" where
  "own_anchors kvs = List.map_filter (\<lambda>k. Option.bind (map_of kvs k) as_str) anchor_keywords"

function collect_anchors :: "bool \<Rightarrow> json \<Rightarrow> string list" where
  "collect_anchors root (JObject kvs) =
     (if \<not> root \<and> has_key kvs ''$id'' then []
      else own_anchors kvs @ concat (map (\<lambda>(k, v). concat (map (collect_anchors False) (member_children k v))) kvs))"
| "collect_anchors root JNull = []"
| "collect_anchors root (JBool b) = []"
| "collect_anchors root (JInt i) = []"
| "collect_anchors root (JFloat x) = []"
| "collect_anchors root (JString s) = []"
| "collect_anchors root (JArray vs) = []"
  by pat_completeness auto
termination
  by (relation "measure (\<lambda>(root, v). size v)") (auto intro: size_below)

record resource =
  rs_root :: json
  rs_anchors :: "string list"

definition resource_new :: "json \<Rightarrow> resource" where
  "resource_new root = \<lparr>rs_root = root, rs_anchors = collect_anchors True root\<rparr>"

text \<open>\<open>Value::pointer\<close>.\<close>

definition parse_index :: "string \<Rightarrow> nat option" where
  "parse_index s =
     (if take 1 s = ''+'' \<or> (take 1 s = ''0'' \<and> length s \<noteq> 1) then None else parse_u64 s)"

definition pointer_token :: "string \<Rightarrow> string" where
  "pointer_token s = replace_str ''~0'' ''~'' (replace_str ''~1'' ''/'' s)"

fun pointer_step :: "json \<Rightarrow> string \<Rightarrow> json option" where
  "pointer_step (JObject kvs) token = map_of kvs token"
| "pointer_step (JArray vs) token =
     Option.bind (parse_index token) (\<lambda>i. if i < length vs then Some (vs ! i) else None)"
| "pointer_step _ _ = None"

fun follow_tokens :: "json \<Rightarrow> string list \<Rightarrow> json option" where
  "follow_tokens v [] = Some v"
| "follow_tokens v (t # ts) = Option.bind (pointer_step v t) (\<lambda>w. follow_tokens w ts)"

definition value_pointer :: "json \<Rightarrow> string \<Rightarrow> json option" where
  "value_pointer v p =
     (case p of [] \<Rightarrow> Some v
      | c # cs \<Rightarrow> if c \<noteq> CHR ''/'' then None else follow_tokens v (map pointer_token (split_on (CHR ''/'') cs)))"

definition resolves :: "resource \<Rightarrow> string \<Rightarrow> bool" where
  "resolves r reference =
     (case strip_prefix ''#'' reference of
        None \<Rightarrow> True
      | Some fragment \<Rightarrow>
          if fragment = [] then True
          else if hd fragment = CHR ''/'' then value_pointer (rs_root r) fragment \<noteq> None
          else fragment \<in> set (rs_anchors r))"

section \<open>The walk\<close>

fun try_each :: "('a \<Rightarrow> (unit, 'e) result) \<Rightarrow> 'a list \<Rightarrow> (unit, 'e) result" where
  "try_each f [] = Ok ()"
| "try_each f (x # xs) = and_then (f x) (\<lambda>_. try_each f xs)"

lemma try_each_cong [fundef_cong]:
  "xs = ys \<Longrightarrow> (\<And>x. x \<in> set ys \<Longrightarrow> f x = g x) \<Longrightarrow> try_each f xs = try_each g ys"
  by (induction xs arbitrary: ys) auto

lemma try_each_Ok [simp]: "try_each f xs = Ok () \<longleftrightarrow> (\<forall>x \<in> set xs. f x = Ok ())"
proof (induction xs)
  case (Cons x xs)
  then show ?case by (cases "f x") auto
qed simp

definition check_references :: "resource \<Rightarrow> (string \<times> json) list \<Rightarrow> (unit, string) result" where
  "check_references r kvs =
     try_each (\<lambda>keyword.
       case map_of kvs keyword of
         None \<Rightarrow> Ok ()
       | Some v \<Rightarrow>
           (case as_str v of
              None \<Rightarrow> Err (keyword @ '' must be a string'')
            | Some reference \<Rightarrow>
                if resolves r reference then Ok () else Err (''unresolved local ref '' @ reference))) reference_keywords"

function walk :: "resource \<Rightarrow> bool \<Rightarrow> json \<Rightarrow> (unit, string) result" where
  "walk r root (JBool b) = Ok ()"
| "walk r root (JObject kvs) =
     (let own = (if \<not> root \<and> has_key kvs ''$id'' then resource_new (JObject kvs) else r)
      in if \<not> root \<and> \<not> has_key kvs ''$id'' \<and> has_key kvs ''$schema'' then Err ''nested $schema outside a resource root''
         else case check_references own kvs of
                Err e \<Rightarrow> Err e
              | Ok _ \<Rightarrow> try_each (\<lambda>(keyword, v).
                  case position_of keyword of
                    None \<Rightarrow> Ok ()
                  | Some p \<Rightarrow>
                      (case children p v of
                         Err reason \<Rightarrow> Err reason
                       | Ok cs \<Rightarrow> try_each (walk own False) cs)) kvs)"
| "walk r root JNull = Err ''schema position must be an object or boolean''"
| "walk r root (JInt i) = Err ''schema position must be an object or boolean''"
| "walk r root (JFloat x) = Err ''schema position must be an object or boolean''"
| "walk r root (JString s) = Err ''schema position must be an object or boolean''"
| "walk r root (JArray vs) = Err ''schema position must be an object or boolean''"
  by pat_completeness auto
termination
  by (relation "measure (\<lambda>(r, root, v). size v)") (auto intro: size_below)

definition validate_schema_document :: "string \<Rightarrow> json \<Rightarrow> (unit, conformance_error) result" where
  "validate_schema_document tool document =
     map_err (Invalid_Tool_Schema tool) (walk (resource_new document) True document)"

section \<open>What an accepted schema is\<close>

text \<open>The schema positions of a document: the root of their resource, the schema, and whether it is the
  document itself.\<close>

inductive schema_at :: "json \<times> json \<times> bool \<Rightarrow> json \<times> json \<times> bool \<Rightarrow> bool" where
  here: "schema_at x x"
| below: "schema_at x (res, JObject kvs, outer) \<Longrightarrow> (k, v) \<in> set kvs \<Longrightarrow> c \<in> set (member_children k v) \<Longrightarrow>
    schema_at x (if \<not> outer \<and> has_key kvs ''$id'' then JObject kvs else res, c, False)"

text \<open>A schema is a boolean or an object whose keywords hold schemas, whose references are texts that name a
  part of their resource, and that names its dialect only at the root of a resource.\<close>

fun schema_ok :: "json \<times> json \<times> bool \<Rightarrow> bool" where
  "schema_ok (res, JBool b, outer) = True"
| "schema_ok (res, JObject kvs, outer) \<longleftrightarrow>
     (outer \<or> has_key kvs ''$id'' \<or> \<not> has_key kvs ''$schema'') \<and>
     list_all (\<lambda>keyword. case map_of kvs keyword of None \<Rightarrow> True
       | Some v \<Rightarrow> (case as_str v of None \<Rightarrow> False
           | Some reference \<Rightarrow> resolves (resource_new (if \<not> outer \<and> has_key kvs ''$id'' then JObject kvs else res)) reference))
       reference_keywords \<and>
     list_all (\<lambda>(k, v). case position_of k of None \<Rightarrow> True | Some p \<Rightarrow> is_ok (children p v)) kvs"
| "schema_ok (res, v, outer) = False"

lemma check_references_Ok:
  "check_references r kvs = Ok () \<longleftrightarrow>
     list_all (\<lambda>keyword. case map_of kvs keyword of None \<Rightarrow> True
       | Some v \<Rightarrow> (case as_str v of None \<Rightarrow> False | Some reference \<Rightarrow> resolves r reference)) reference_keywords"
  unfolding check_references_def list_all_iff try_each_Ok by (rule ball_cong) (auto split: option.split)

text \<open>One step of the walk.\<close>

lemma walk_step:
  "walk (resource_new res) outer v = Ok () \<longleftrightarrow> schema_ok (res, v, outer) \<and>
     (case v of JObject kvs \<Rightarrow>
        \<forall>(k, w) \<in> set kvs. \<forall>c \<in> set (member_children k w).
          walk (resource_new (if \<not> outer \<and> has_key kvs ''$id'' then v else res)) False c = Ok ()
      | _ \<Rightarrow> True)"
proof (cases v)
  case (JObject kvs)
  let ?own = "if \<not> outer \<and> has_key kvs ''$id'' then JObject kvs else res"
  have member: "(case position_of k of None \<Rightarrow> Ok () | Some p \<Rightarrow>
        (case children p w of Err reason \<Rightarrow> Err reason | Ok cs \<Rightarrow> try_each (walk (resource_new ?own) False) cs)) = Ok () \<longleftrightarrow>
      (case position_of k of None \<Rightarrow> True | Some p \<Rightarrow> is_ok (children p w)) \<and>
      (\<forall>c \<in> set (member_children k w). walk (resource_new ?own) False c = Ok ())" for k w
    by (auto simp: member_children_def split: option.split sum.split)
  have own: "(if \<not> outer \<and> has_key kvs ''$id'' then resource_new (JObject kvs) else resource_new res) = resource_new ?own"
    by simp
  have refs: "check_references (resource_new ?own) kvs = Ok () \<longleftrightarrow> (\<exists>u. check_references (resource_new ?own) kvs = Ok u)"
    by auto
  show ?thesis
    unfolding JObject walk.simps Let_def own schema_ok.simps check_references_Ok [symmetric]
    by (cases "check_references (resource_new ?own) kvs") (auto simp: case_prod_beta member list_all_iff)
qed simp_all

abbreviation walks :: "json \<times> json \<times> bool \<Rightarrow> bool" where
  "walks x \<equiv> (case x of (res, v, outer) \<Rightarrow> walk (resource_new res) outer v = Ok ())"

lemma schema_at_walks: "schema_at x y \<Longrightarrow> walks x \<Longrightarrow> walks y"
proof (induction rule: schema_at.induct)
  case (below x res kvs outer k v c)
  then have "walk (resource_new res) outer (JObject kvs) = Ok ()" by simp
  then show ?case using below.hyps(2, 3) unfolding walk_step [of res] by fastforce
qed

lemma schema_at_trans: "schema_at y z \<Longrightarrow> schema_at x y \<Longrightarrow> schema_at x z"
  by (induction rule: schema_at.induct) (blast intro: schema_at.below)+

lemma schema_at_child:
  "(k, u) \<in> set kvs \<Longrightarrow> c \<in> set (member_children k u) \<Longrightarrow>
    schema_at (res, JObject kvs, outer) (if \<not> outer \<and> has_key kvs ''$id'' then JObject kvs else res, c, False)"
  by (rule schema_at.below [OF schema_at.here])

lemma walks_if_ok:
  "(\<And>x. schema_at (res, v, outer) x \<Longrightarrow> schema_ok x) \<Longrightarrow> walk (resource_new res) outer v = Ok ()"
proof (induction v arbitrary: res outer rule: measure_induct_rule [where f = size])
  case (less v)
  have own: "schema_ok (res, v, outer)" using less.prems schema_at.here by blast
  show ?case
  proof (cases v)
    case (JObject kvs)
    have "walk (resource_new (if \<not> outer \<and> has_key kvs ''$id'' then v else res)) False c = Ok ()"
      if "(k, w) \<in> set kvs" "c \<in> set (member_children k w)" for k w c
    proof (rule less.IH)
      show "size c < size v" using size_below(1) [OF that] JObject by simp
      have "schema_at (res, v, outer) (if \<not> outer \<and> has_key kvs ''$id'' then v else res, c, False)"
        using schema_at_child [OF that, of res outer] unfolding JObject .
      then show "schema_ok x" if "schema_at (if \<not> outer \<and> has_key kvs ''$id'' then v else res, c, False) x" for x
        using less.prems schema_at_trans [OF that] by blast
    qed
    then show ?thesis unfolding walk_step [of res] using own JObject by auto
  qed (use own in auto)
qed

lemma walk_iff:
  "walk (resource_new document) True document = Ok () \<longleftrightarrow> Ball (Collect (schema_at (document, document, True))) schema_ok"
  using walks_if_ok [of document document True] schema_at_walks [of "(document, document, True)"]
  by (force dest: walk_step [THEN iffD1])


text \<open>A schema with a definition, a reference to it and an anchor.\<close>

definition example_schema :: json where
  "example_schema = JObject
     [(''$defs'', JObject [(''limit'', JObject [(''$anchor'', JString ''limit''), (''type'', JString ''integer'')])]),
      (''properties'', JObject [(''limit'', JObject [(''$ref'', JString ''#/$defs/limit'')]),
        (''offset'', JObject [(''$ref'', JString ''#limit'')]), (''any'', JBool True)])]"

lemma example_schema_accepted: "validate_schema_document ''search'' example_schema = Ok ()"
  by code_simp

lemma dangling_refused:
  "validate_schema_document ''search'' (JObject [(''items'', JObject [(''$ref'', JString ''#/nowhere'')])]) =
     Err (Invalid_Tool_Schema ''search'' ''unresolved local ref #/nowhere'')"
  by code_simp

end
