(* ===== verification/Conformance.thy ===== *)
theory Conformance
  imports Schema_Check Source_Command_Laws
begin

text \<open>
  The conformance suite of a source (\<open>comsat-source/src/conformance.rs\<close> and \<open>conformance/cancellation.rs\<close>).
  The catalog is the framework's, so it is a parameter: the definition of each tool and, from the state of
  the world, what a call answers, which requests of the observed runtime it opened and dropped, and the
  world after it. Every operation of the suite passes the world and the request ledger on.
\<close>

section \<open>The ledger of requests\<close>

record ledger =
  lg_opened :: "64 word"
  lg_live :: "64 word"

datatype ledger_event = Request_Opened | Request_Dropped

fun observe :: "ledger_event \<Rightarrow> ledger \<Rightarrow> ledger" where
  "observe Request_Opened l = l\<lparr>lg_opened := lg_opened l + 1, lg_live := lg_live l + 1\<rparr>"
| "observe Request_Dropped l = l\<lparr>lg_live := lg_live l - 1\<rparr>"

definition observe_all :: "ledger_event list \<Rightarrow> ledger \<Rightarrow> ledger" where
  "observe_all events l = fold observe events l"

section \<open>The catalog\<close>

record tool_schema =
  ts_input :: json
  ts_output :: "json option"

type_synonym ('a, 'w) served_call = "'a \<times> ledger_event list \<times> 'w"

record 'w suite_catalog =
  su_get :: "string \<Rightarrow> tool_schema option"
  su_call :: "string \<Rightarrow> arguments \<Rightarrow> 'w \<Rightarrow> (tool_outcome, 'w) served_call"
  su_poll :: "string \<Rightarrow> arguments \<Rightarrow> 'w \<Rightarrow> (tool_outcome option, 'w) served_call"
  su_cancel :: "string \<Rightarrow> arguments \<Rightarrow> 'w \<Rightarrow> (tool_outcome, 'w) served_call"

record 'w suite_state =
  ss_world :: 'w
  ss_ledger :: ledger

type_synonym ('a, 'w) suite = "'w suite_state \<Rightarrow> ('a, conformance_error) result \<times> 'w suite_state"

definition suite_return :: "('a, conformance_error) result \<Rightarrow> ('a, 'w) suite" where
  "suite_return r st = (r, st)"

definition suite_then :: "('a, 'w) suite \<Rightarrow> ('a \<Rightarrow> ('b, 'w) suite) \<Rightarrow> ('b, 'w) suite" where
  "suite_then m f st = (case m st of (Err e, st') \<Rightarrow> (Err e, st') | (Ok a, st') \<Rightarrow> f a st')"

definition serve_step :: "('w \<Rightarrow> ('a, 'w) served_call) \<Rightarrow> ('a, 'w) suite" where
  "serve_step call st =
     (case call (ss_world st) of (a, events, w) \<Rightarrow>
        (Ok a, \<lparr>ss_world = w, ss_ledger = observe_all events (ss_ledger st)\<rparr>))"

section \<open>Calls\<close>

definition checked_record :: "libs \<Rightarrow> comsat_record \<Rightarrow> (comsat_record, conformance_error) result" where
  "checked_record L r = and_then (map_err Invalid_Fixture (record_validate L r)) (\<lambda>_. Ok r)"

fun records_of_outcome :: "libs \<Rightarrow> tool_outcome \<Rightarrow> (comsat_record list, conformance_error) result" where
  "records_of_outcome L (Tool_Ok data) =
     and_then (ok_or (Conformance_Tool (decode_text L data)) (as_list record_from_json data)) (collect_results (checked_record L))"
| "records_of_outcome L (Tool_Error code message) = Err (Conformance_Tool message)"

fun record_of_outcome :: "libs \<Rightarrow> tool_outcome \<Rightarrow> (comsat_record, conformance_error) result" where
  "record_of_outcome L (Tool_Ok data) = ok_or (Conformance_Tool (decode_text L data)) (record_from_json data)"
| "record_of_outcome L (Tool_Error code message) = Err (Conformance_Tool message)"

fun expected_error :: "error_class \<Rightarrow> tool_outcome \<Rightarrow> (unit, conformance_error) result" where
  "expected_error expected (Tool_Error code message) =
     and_then (ok_or (Unstructured_Source_Error code) (class_of_name code)) (\<lambda>actual.
       if actual = expected then Ok () else Err (Unexpected_Error_Class expected actual))"
| "expected_error expected (Tool_Ok data) = Err (Conformance_Tool ''expected source error fixture to fail'')"

definition call_records :: "libs \<Rightarrow> 'w suite_catalog \<Rightarrow> string \<Rightarrow> arguments \<Rightarrow> (comsat_record list, 'w) suite" where
  "call_records L C tool args = suite_then (serve_step (su_call C tool args)) (\<lambda>out. suite_return (records_of_outcome L out))"

definition call_record :: "libs \<Rightarrow> 'w suite_catalog \<Rightarrow> string \<Rightarrow> arguments \<Rightarrow> (comsat_record, 'w) suite" where
  "call_record L C tool args = suite_then (serve_step (su_call C tool args)) (\<lambda>out. suite_return (record_of_outcome L out))"

definition call_expected_error :: "'w suite_catalog \<Rightarrow> string \<Rightarrow> arguments \<Rightarrow> error_class \<Rightarrow> (unit, 'w) suite" where
  "call_expected_error C tool args expected =
     suite_then (serve_step (su_call C tool args)) (\<lambda>out. suite_return (expected_error expected out))"

fun cancelled_outcome :: "tool_outcome \<Rightarrow> (unit, conformance_error) result" where
  "cancelled_outcome (Tool_Error code message) = (if code = ''CANCELLED'' then Ok () else Err Cancellation_Not_Propagated)"
| "cancelled_outcome (Tool_Ok data) = Err Cancellation_Not_Propagated"

definition call_and_cancel :: "'w suite_catalog \<Rightarrow> string \<Rightarrow> arguments \<Rightarrow> (unit, 'w) suite" where
  "call_and_cancel C tool args =
     suite_then (serve_step (su_poll C tool args)) (\<lambda>first.
       if first \<noteq> None then suite_return (Err Cancellation_Finished_Early)
       else suite_then (serve_step (su_cancel C tool args)) (\<lambda>out. suite_return (cancelled_outcome out)))"

section \<open>Checks\<close>

definition tool_of :: "descriptor \<Rightarrow> operation \<Rightarrow> (string, conformance_error) result" where
  "tool_of d op = ok_or (Missing_Tool (op_str op)) (tool_name d op)"

definition undeclared :: "string \<Rightarrow> string \<Rightarrow> conformance_error" where
  "undeclared tool position = Invalid_Tool_Schema tool (''tool advertises no '' @ position @ '' schema'')"

definition require_tool :: "descriptor \<Rightarrow> 'w suite_catalog \<Rightarrow> operation \<Rightarrow> (unit, conformance_error) result" where
  "require_tool d C op =
     and_then (tool_of d op) (\<lambda>name.
     and_then (ok_or (Missing_Tool name) (su_get C name)) (\<lambda>schema.
       if is_null (ts_input schema) then Err (undeclared name ''input'')
       else and_then (ok_or (undeclared name ''output'') (ts_output schema)) (\<lambda>output.
         and_then (validate_schema_document name (ts_input schema)) (\<lambda>_.
           validate_schema_document name output))))"

definition check_contracts :: "descriptor \<Rightarrow> 'w suite_catalog \<Rightarrow> (unit, conformance_error) result" where
  "check_contracts d C =
     (if \<not> can_search (desc_profile d) then Err Missing_Search
      else and_then (require_tool d C Op_Search) (\<lambda>_.
        and_then (if can_fetch (desc_profile d) then require_tool d C Op_Fetch else Ok ()) (\<lambda>_.
          if can_follow (desc_profile d) then require_tool d C Op_Follow else Ok ())))"

definition suite_search :: "libs \<Rightarrow> descriptor \<Rightarrow> 'w suite_catalog \<Rightarrow> query \<Rightarrow> (comsat_record list, 'w) suite" where
  "suite_search L d C q =
     suite_then (suite_return (tool_of d Op_Search)) (\<lambda>tool. call_records L C tool (query_arguments q))"

definition check_fetch :: "libs \<Rightarrow> descriptor \<Rightarrow> 'w suite_catalog \<Rightarrow> target \<Rightarrow> (bool, 'w) suite" where
  "check_fetch L d C t =
     (if \<not> can_fetch (desc_profile d) then suite_return (Ok False)
      else suite_then (suite_return (require_tool d C Op_Fetch)) (\<lambda>_.
        suite_then (suite_return (tool_of d Op_Fetch)) (\<lambda>tool.
        suite_then (call_record L C tool (target_arguments t)) (\<lambda>r.
        suite_then (suite_return (checked_record L r)) (\<lambda>_. suite_return (Ok True))))))"

definition check_follow :: "libs \<Rightarrow> descriptor \<Rightarrow> 'w suite_catalog \<Rightarrow> target \<Rightarrow> (bool, 'w) suite" where
  "check_follow L d C t =
     (if \<not> can_follow (desc_profile d) then suite_return (Ok False)
      else suite_then (suite_return (require_tool d C Op_Follow)) (\<lambda>_.
        suite_then (suite_return (tool_of d Op_Follow)) (\<lambda>tool.
        suite_then (call_records L C tool (target_arguments t)) (\<lambda>rs.
        suite_then (suite_return (collect_results (checked_record L) rs)) (\<lambda>_. suite_return (Ok True))))))"

definition check_target_operations :: "libs \<Rightarrow> descriptor \<Rightarrow> 'w suite_catalog \<Rightarrow> target option \<Rightarrow> (bool \<times> bool, 'w) suite" where
  "check_target_operations L d C target =
     (case target of
        None \<Rightarrow> suite_return (Ok (False, False))
      | Some t \<Rightarrow>
          suite_then (check_fetch L d C t) (\<lambda>fetched.
          suite_then (check_follow L d C t) (\<lambda>followed. suite_return (Ok (fetched, followed)))))"

record error_fixture =
  ef_query :: query
  ef_class :: error_class

record fixtures =
  fx_query :: query
  fx_target :: "target option"
  fx_error :: "error_fixture option"
  fx_cancellation :: "query option"

definition check_error :: "descriptor \<Rightarrow> 'w suite_catalog \<Rightarrow> error_fixture option \<Rightarrow> (bool, 'w) suite" where
  "check_error d C fixture =
     (case fixture of
        None \<Rightarrow> suite_return (Ok False)
      | Some f \<Rightarrow>
          suite_then (suite_return (tool_of d Op_Search)) (\<lambda>tool.
          suite_then (call_expected_error C tool (query_arguments (ef_query f)) (ef_class f)) (\<lambda>_. suite_return (Ok True))))"

text \<open>\<open>saturating_sub\<close> of the two readings of the ledger.\<close>

definition leaked_requests :: "ledger \<Rightarrow> ledger \<Rightarrow> nat" where
  "leaked_requests earlier later = unat (lg_live later) - unat (lg_live earlier)"

definition ledger_verdict :: "ledger \<Rightarrow> ledger \<Rightarrow> (bool, conformance_error) result" where
  "ledger_verdict earlier later =
     (if lg_opened later = lg_opened earlier then Err Cancellation_Not_Observed
      else if 0 < leaked_requests earlier later then Err (Cancellation_Leaked_Request (leaked_requests earlier later))
      else Ok True)"

definition check_cancellation :: "descriptor \<Rightarrow> 'w suite_catalog \<Rightarrow> query option \<Rightarrow> (bool, 'w) suite" where
  "check_cancellation d C fixture st =
     (case fixture of
        None \<Rightarrow> (Ok False, st)
      | Some q \<Rightarrow>
          (case tool_of d Op_Search of
             Err e \<Rightarrow> (Err e, st)
           | Ok tool \<Rightarrow>
               (case call_and_cancel C tool (query_arguments q) st of
                  (Err e, st') \<Rightarrow> (Err e, st')
                | (Ok _, st') \<Rightarrow> (ledger_verdict (ss_ledger st) (ss_ledger st'), st'))))"

section \<open>The suite\<close>

definition validate_fixtures :: "libs \<Rightarrow> fixtures \<Rightarrow> (unit, conformance_error) result" where
  "validate_fixtures L fx = map_err Invalid_Fixture
     (and_then (query_validate L (fx_query fx)) (\<lambda>_.
      and_then (case fx_target fx of None \<Rightarrow> Ok () | Some t \<Rightarrow> target_validate L t) (\<lambda>_.
      and_then (case fx_error fx of None \<Rightarrow> Ok () | Some f \<Rightarrow> query_validate L (ef_query f)) (\<lambda>_.
        case fx_cancellation fx of None \<Rightarrow> Ok () | Some q \<Rightarrow> query_validate L q))))"

record report =
  rp_source :: string
  rp_search :: bool
  rp_fetch :: bool
  rp_follow :: bool
  rp_error :: bool
  rp_cancellation :: bool

definition record_ids :: "comsat_record list \<Rightarrow> record_id list" where
  "record_ids rs = map rec_id rs"

definition same_ids :: "comsat_record list \<Rightarrow> comsat_record list \<Rightarrow> (unit, conformance_error) result" where
  "same_ids first again =
     (if first = [] then Err Empty_Search
      else if record_ids first \<noteq> record_ids again then Err Unstable_Record_Ids else Ok ())"

text \<open>The catalog is built from the source's commands; the framework may refuse them.\<close>

definition suite_catalog_of :: "('w suite_catalog, string) result \<Rightarrow> ('w suite_catalog, conformance_error) result" where
  "suite_catalog_of built = map_err Conformance_Tool built"

definition run_with_fixtures ::
  "libs \<Rightarrow> descriptor \<Rightarrow> ('w suite_catalog, string) result \<Rightarrow> fixtures \<Rightarrow> (report, 'w) suite" where
  "run_with_fixtures L d built fx =
     (if \<not> can_search (desc_profile d) then suite_return (Err Missing_Search)
      else suite_then (suite_return (validate_fixtures L fx)) (\<lambda>_.
        suite_then (suite_return (suite_catalog_of built)) (\<lambda>C.
        suite_then (suite_return (require_tool d C Op_Search)) (\<lambda>_.
        suite_then (suite_search L d C (fx_query fx)) (\<lambda>first.
        suite_then (suite_search L d C (fx_query fx)) (\<lambda>again.
        suite_then (suite_return (same_ids first again)) (\<lambda>_.
        suite_then (check_target_operations L d C (fx_target fx)) (\<lambda>(fetched, followed).
        suite_then (check_error d C (fx_error fx)) (\<lambda>failed.
        suite_then (check_cancellation d C (fx_cancellation fx)) (\<lambda>cancelled.
          suite_return (Ok \<lparr>rp_source = sid_str (desc_id d), rp_search = True, rp_fetch = fetched,
            rp_follow = followed, rp_error = failed, rp_cancellation = cancelled\<rparr>)))))))))))"

definition suite_run ::
  "libs \<Rightarrow> descriptor \<Rightarrow> ('w suite_catalog, string) result \<Rightarrow> query \<Rightarrow> target option \<Rightarrow> (report, 'w) suite" where
  "suite_run L d built q t =
     run_with_fixtures L d built \<lparr>fx_query = q, fx_target = t, fx_error = None, fx_cancellation = None\<rparr>"

end
