(* ===== verification/Conformance_Laws.thy ===== *)
theory Conformance_Laws
  imports Conformance
begin

text \<open>
  What a passing run of the conformance suite says of a source, and when a source passes.
\<close>

named_theorems suite_simps \<open>when a step of the suite succeeds\<close>

lemma suite_then_Ok [suite_simps]:
  "suite_then m f st = (Ok b, st'') \<longleftrightarrow> (\<exists>a st'. m st = (Ok a, st') \<and> f a st' = (Ok b, st''))"
  by (auto simp: suite_then_def split: prod.split sum.split)

lemma suite_return_eq [suite_simps]: "suite_return r st = (r', st') \<longleftrightarrow> r = r' \<and> st' = st"
  by (auto simp: suite_return_def)

lemma serve_step_Ok [suite_simps]:
  "serve_step call st = (Ok a, st') \<longleftrightarrow>
     a = fst (call (ss_world st)) \<and>
     st' = \<lparr>ss_world = snd (snd (call (ss_world st))),
            ss_ledger = observe_all (fst (snd (call (ss_world st)))) (ss_ledger st)\<rparr>"
  by (auto simp: serve_step_def split: prod.split)

lemma prod_eq_Ok: "(\<exists>a. fst x = Ok a) \<longleftrightarrow> (\<exists>a b. x = (Ok a, b))"
  by (cases x) auto

section \<open>What the suite looks at\<close>

text \<open>A tool of the catalog with both of its schemas well formed.\<close>

definition schema_document :: "json \<Rightarrow> bool" where
  "schema_document document \<longleftrightarrow> Ball (Collect (schema_at (document, document, True))) schema_ok"

definition declares :: "descriptor \<Rightarrow> 'w suite_catalog \<Rightarrow> operation \<Rightarrow> bool" where
  "declares d C op \<longleftrightarrow> (\<exists>tool schema output. tool_name d op = Some tool \<and> su_get C tool = Some schema \<and>
     ts_input schema \<noteq> JNull \<and> ts_output schema = Some output \<and>
     schema_document (ts_input schema) \<and> schema_document output)"

lemma schema_document_iff: "validate_schema_document tool v = Ok () \<longleftrightarrow> schema_document v"
  unfolding validate_schema_document_def map_err_eq_Inr schema_document_def by (rule walk_iff)

lemma require_tool_Ok: "require_tool d C op = Ok () \<longleftrightarrow> declares d C op"
  by (auto simp: require_tool_def declares_def tool_of_def schema_document_iff is_null_iff split: if_splits)

text \<open>A successful answer of a tool whose data are valid records, and one that is a valid record.\<close>

definition gives_records :: "libs \<Rightarrow> tool_outcome \<Rightarrow> comsat_record list \<Rightarrow> bool" where
  "gives_records L out rs \<longleftrightarrow> (\<exists>data. out = Tool_Ok data \<and> as_list record_from_json data = Some rs) \<and>
     list_all (\<lambda>r. record_validate L r = Ok ()) rs"

definition gives_record :: "libs \<Rightarrow> tool_outcome \<Rightarrow> comsat_record \<Rightarrow> bool" where
  "gives_record L out r \<longleftrightarrow> (\<exists>data. out = Tool_Ok data \<and> record_from_json data = Some r) \<and> record_validate L r = Ok ()"

lemma checked_record_Ok [simp]: "checked_record L r = Ok r' \<longleftrightarrow> r' = r \<and> record_validate L r = Ok ()"
  by (auto simp: checked_record_def)

lemma checked_records_Ok:
  "collect_results (checked_record L) rs = Ok rs' \<longleftrightarrow> rs' = rs \<and> list_all (\<lambda>r. record_validate L r = Ok ()) rs"
  by (induction rs arbitrary: rs') auto

lemma records_of_outcome_Ok: "records_of_outcome L out = Ok rs \<longleftrightarrow> gives_records L out rs"
  by (cases out) (auto simp: gives_records_def checked_records_Ok)

lemma record_of_outcome_Ok:
  "(\<exists>r. record_of_outcome L out = Ok r \<and> checked_record L r = Ok r') \<longleftrightarrow> gives_record L out r'"
  by (cases out) (auto simp: gives_record_def)

lemma expected_error_Ok:
  "expected_error expected out = Ok () \<longleftrightarrow> (\<exists>code message. out = Tool_Error code message \<and> class_of_name code = Some expected)"
  by (cases out) (auto split: if_splits)

lemma cancelled_outcome_Ok: "cancelled_outcome out = Ok () \<longleftrightarrow> (\<exists>message. out = Tool_Error ''CANCELLED'' message)"
  by (cases out) auto

section \<open>The steps of a run\<close>

definition served_by :: "('w \<Rightarrow> ('a, 'w) served_call) \<Rightarrow> 'w suite_state \<Rightarrow> 'w suite_state" where
  "served_by call st = \<lparr>ss_world = snd (snd (call (ss_world st))),
     ss_ledger = observe_all (fst (snd (call (ss_world st)))) (ss_ledger st)\<rparr>"

lemma ss_world_served [simp]: "ss_world (served_by call st) = snd (snd (call (ss_world st)))"
  by (simp add: served_by_def)

abbreviation tool_answer :: "'w suite_catalog \<Rightarrow> string \<Rightarrow> arguments \<Rightarrow> 'w \<Rightarrow> tool_outcome" where
  "tool_answer C tool args w \<equiv> fst (su_call C tool args w)"

lemma suite_search_Ok [suite_simps]:
  "suite_search L d C q st = (Ok rs, st') \<longleftrightarrow> (\<exists>tool. tool_name d Op_Search = Some tool \<and>
     gives_records L (tool_answer C tool (query_arguments q) (ss_world st)) rs \<and>
     st' = served_by (su_call C tool (query_arguments q)) st)"
  by (auto simp: suite_search_def call_records_def tool_of_def records_of_outcome_Ok served_by_def suite_simps)

lemma check_fetch_Ok [suite_simps]:
  "check_fetch L d C t st = (Ok b, st') \<longleftrightarrow>
     (if supports d Op_Fetch then b \<and> declares d C Op_Fetch \<and> (\<exists>tool r. tool_name d Op_Fetch = Some tool \<and>
          gives_record L (tool_answer C tool (target_arguments t) (ss_world st)) r \<and>
          st' = served_by (su_call C tool (target_arguments t)) st)
      else \<not> b \<and> st' = st)"
proof (cases "supports d Op_Fetch")
  case True
  then show ?thesis
    by (auto simp: check_fetch_def call_record_def tool_of_def require_tool_Ok served_by_def suite_simps
        record_of_outcome_Ok [symmetric])
qed (auto simp: check_fetch_def suite_simps)

lemma check_follow_Ok [suite_simps]:
  "check_follow L d C t st = (Ok b, st') \<longleftrightarrow>
     (if supports d Op_Follow then b \<and> declares d C Op_Follow \<and> (\<exists>tool rs. tool_name d Op_Follow = Some tool \<and>
          gives_records L (tool_answer C tool (target_arguments t) (ss_world st)) rs \<and>
          st' = served_by (su_call C tool (target_arguments t)) st)
      else \<not> b \<and> st' = st)"
proof (cases "supports d Op_Follow")
  case True
  then show ?thesis
    by (auto simp: check_follow_def call_records_def tool_of_def require_tool_Ok served_by_def suite_simps
        records_of_outcome_Ok checked_records_Ok) (auto simp: gives_records_def)
qed (auto simp: check_follow_def suite_simps)

lemma check_error_Ok [suite_simps]:
  "check_error d C fixture st = (Ok b, st') \<longleftrightarrow>
     (case fixture of
        None \<Rightarrow> \<not> b \<and> st' = st
      | Some f \<Rightarrow> b \<and> (\<exists>tool code message. tool_name d Op_Search = Some tool \<and>
          tool_answer C tool (query_arguments (ef_query f)) (ss_world st) = Tool_Error code message \<and>
          class_of_name code = Some (ef_class f) \<and> st' = served_by (su_call C tool (query_arguments (ef_query f))) st))"
  by (cases fixture) (auto simp: check_error_def call_expected_error_def tool_of_def expected_error_Ok served_by_def suite_simps)

lemma ledger_verdict_Ok:
  "ledger_verdict earlier later = Ok b \<longleftrightarrow>
     b \<and> lg_opened later \<noteq> lg_opened earlier \<and> unat (lg_live later) \<le> unat (lg_live earlier)"
  by (auto simp: ledger_verdict_def leaked_requests_def)

lemma call_and_cancel_Ok:
  "call_and_cancel C tool args st = (Ok (), st') \<longleftrightarrow>
     fst (su_poll C tool args (ss_world st)) = None \<and>
     (\<exists>message. fst (su_cancel C tool args (snd (snd (su_poll C tool args (ss_world st))))) = Tool_Error ''CANCELLED'' message) \<and>
     st' = served_by (su_cancel C tool args) (served_by (su_poll C tool args) st)"
  by (auto simp: call_and_cancel_def served_by_def cancelled_outcome_Ok suite_simps split: if_splits)

text \<open>A call that is pending at its first poll, answers \<open>CANCELLED\<close> once cancelled, has opened a request of the
  source and leaves no more of them open than before.\<close>

definition cancels :: "'w suite_catalog \<Rightarrow> string \<Rightarrow> arguments \<Rightarrow> 'w suite_state \<Rightarrow> 'w suite_state \<Rightarrow> bool" where
  "cancels C tool args st st' \<longleftrightarrow>
     fst (su_poll C tool args (ss_world st)) = None \<and>
     (\<exists>message. fst (su_cancel C tool args (ss_world (served_by (su_poll C tool args) st))) = Tool_Error ''CANCELLED'' message) \<and>
     st' = served_by (su_cancel C tool args) (served_by (su_poll C tool args) st) \<and>
     lg_opened (ss_ledger st') \<noteq> lg_opened (ss_ledger st) \<and>
     unat (lg_live (ss_ledger st')) \<le> unat (lg_live (ss_ledger st))"

lemma check_cancellation_Ok [suite_simps]:
  "check_cancellation d C fixture st = (Ok b, st') \<longleftrightarrow>
     (case fixture of
        None \<Rightarrow> \<not> b \<and> st' = st
      | Some q \<Rightarrow> b \<and> (\<exists>tool. tool_name d Op_Search = Some tool \<and> cancels C tool (query_arguments q) st st'))"
proof (cases fixture)
  case (Some q)
  show ?thesis
  proof (cases "tool_name d Op_Search")
    case (Some tool)
    let ?args = "query_arguments q" and ?later = "\<lambda>st. served_by (su_cancel C tool (query_arguments q)) (served_by (su_poll C tool (query_arguments q)) st)"
    let ?cancelled = "fst (su_poll C tool ?args (ss_world st)) = None \<and>
      (\<exists>message. fst (su_cancel C tool ?args (snd (snd (su_poll C tool ?args (ss_world st))))) = Tool_Error ''CANCELLED'' message)"
    obtain r st1 where c: "call_and_cancel C tool ?args st = (r, st1)" by fastforce
    show ?thesis
    proof (cases r)
      case (Inl e)
      then have "\<not> ?cancelled" using c call_and_cancel_Ok [of C tool ?args st "?later st"] by auto
      then show ?thesis using \<open>fixture = Some q\<close> Some Inl c by (auto simp: check_cancellation_def tool_of_def cancels_def)
    next
      case (Inr u)
      then have "?cancelled" "st1 = ?later st" using c call_and_cancel_Ok [of C tool ?args st st1] by auto
      then show ?thesis
        using \<open>fixture = Some q\<close> Some Inr c by (auto simp: check_cancellation_def tool_of_def cancels_def ledger_verdict_Ok)
    qed
  qed (use Some in \<open>simp add: check_cancellation_def tool_of_def\<close>)
qed (auto simp: check_cancellation_def)

lemma same_ids_Ok: "same_ids first again = Ok () \<longleftrightarrow> first \<noteq> [] \<and> map rec_id first = map rec_id again"
  by (auto simp: same_ids_def record_ids_def)

lemma check_target_operations_Ok [suite_simps]:
  "check_target_operations L d C target st = (Ok (b, b'), st') \<longleftrightarrow>
     (case target of
        None \<Rightarrow> \<not> b \<and> \<not> b' \<and> st' = st
      | Some t \<Rightarrow> \<exists>st1. check_fetch L d C t st = (Ok b, st1) \<and> check_follow L d C t st1 = (Ok b', st'))"
  by (cases target) (auto simp: check_target_operations_def suite_then_Ok suite_return_eq)

lemma run_with_fixtures_Ok:
  "run_with_fixtures L d (Ok C) fx st = (Ok rp, st') \<longleftrightarrow>
     can_search (desc_profile d) \<and> validate_fixtures L fx = Ok () \<and> declares d C Op_Search \<and>
     (\<exists>rs rs' b b' b2 b3 st1 st2 st3 st4.
        suite_search L d C (fx_query fx) st = (Ok rs, st1) \<and> suite_search L d C (fx_query fx) st1 = (Ok rs', st2) \<and>
        rs \<noteq> [] \<and> map rec_id rs = map rec_id rs' \<and>
        check_target_operations L d C (fx_target fx) st2 = (Ok (b, b'), st3) \<and>
        check_error d C (fx_error fx) st3 = (Ok b2, st4) \<and> check_cancellation d C (fx_cancellation fx) st4 = (Ok b3, st') \<and>
        rp = \<lparr>rp_source = sid_str (desc_id d), rp_search = True, rp_fetch = b, rp_follow = b',
              rp_error = b2, rp_cancellation = b3\<rparr>)"
proof -
  have unit: "(\<exists>u. r = Ok u) \<longleftrightarrow> r = Ok ()" for r :: "(unit, conformance_error) result" by auto
  show ?thesis
  proof (cases "can_search (desc_profile d)")
    case True
    then show ?thesis
      by (simp add: run_with_fixtures_def suite_then_Ok suite_return_eq suite_catalog_of_def require_tool_Ok same_ids_Ok)
        blast
  qed (simp add: run_with_fixtures_def suite_return_eq)
qed

section \<open>A passing report\<close>

text \<open>C34: a passing conformance report means what it says: the source advertises search, the schemas of every tool
  that was checked are well formed, two searches in a row gave valid records, at least one, with the same
  ids in the same order; the fetch and follow flags are set exactly when a target was given and the source
  advertises the operation, and then its tool gave valid records; the error flag, when the error fixture was
  given, and then the tool failed with the class expected; and the cancellation flag, when its fixture was
  given, and then the pending call answered \<open>CANCELLED\<close>, had reached the source, and left no more requests
  open than before.
\<close>

theorem conformance_report_means:
  assumes "run_with_fixtures L d (Ok C) fx st = (Ok rp, st')"
  shows "\<exists>tool. tool_name d Op_Search = Some tool \<and> declares d C Op_Search \<and>
     (\<exists>rs rs'. let args = query_arguments (fx_query fx); w = snd (snd (su_call C tool args (ss_world st))) in
        gives_records L (tool_answer C tool args (ss_world st)) rs \<and> gives_records L (tool_answer C tool args w) rs' \<and>
        rs \<noteq> [] \<and> map rec_id rs = map rec_id rs') \<and>
     rp_fetch rp = (fx_target fx \<noteq> None \<and> supports d Op_Fetch) \<and>
     (rp_fetch rp \<longrightarrow> declares d C Op_Fetch \<and> (\<exists>name t w r. tool_name d Op_Fetch = Some name \<and> fx_target fx = Some t \<and>
        gives_record L (tool_answer C name (target_arguments t) w) r)) \<and>
     rp_follow rp = (fx_target fx \<noteq> None \<and> supports d Op_Follow) \<and>
     (rp_follow rp \<longrightarrow> declares d C Op_Follow \<and> (\<exists>name t w rs. tool_name d Op_Follow = Some name \<and> fx_target fx = Some t \<and>
        gives_records L (tool_answer C name (target_arguments t) w) rs)) \<and>
     rp_error rp = (fx_error fx \<noteq> None) \<and>
     (\<forall>f. fx_error fx = Some f \<longrightarrow> (\<exists>w code message.
        tool_answer C tool (query_arguments (ef_query f)) w = Tool_Error code message \<and> class_of_name code = Some (ef_class f))) \<and>
     rp_cancellation rp = (fx_cancellation fx \<noteq> None) \<and>
     (\<forall>q. fx_cancellation fx = Some q \<longrightarrow> (\<exists>earlier. cancels C tool (query_arguments q) earlier st'))"
proof -
  obtain rs rs' b b' b2 b3 st1 st2 st3 st4 where
    declared: "declares d C Op_Search" and
    searches: "suite_search L d C (fx_query fx) st = (Ok rs, st1)" "suite_search L d C (fx_query fx) st1 = (Ok rs', st2)" and
    ids: "rs \<noteq> []" "map rec_id rs = map rec_id rs'" and
    targets: "check_target_operations L d C (fx_target fx) st2 = (Ok (b, b'), st3)" and
    failed: "check_error d C (fx_error fx) st3 = (Ok b2, st4)" and
    cancelled: "check_cancellation d C (fx_cancellation fx) st4 = (Ok b3, st')" and
    rp: "rp = \<lparr>rp_source = sid_str (desc_id d), rp_search = True, rp_fetch = b, rp_follow = b', rp_error = b2, rp_cancellation = b3\<rparr>"
    using assms unfolding run_with_fixtures_Ok by blast
  from searches(1) obtain tool where tool: "tool_name d Op_Search = Some tool" by (auto simp: suite_search_Ok)
  have "rp_fetch rp = (fx_target fx \<noteq> None \<and> supports d Op_Fetch)" "rp_follow rp = (fx_target fx \<noteq> None \<and> supports d Op_Follow)"
    using targets by (cases "fx_target fx"; auto simp: rp suite_simps split: if_splits)+
  moreover have "rp_fetch rp \<longrightarrow> declares d C Op_Fetch \<and> (\<exists>name t w r. tool_name d Op_Fetch = Some name \<and> fx_target fx = Some t \<and>
        gives_record L (tool_answer C name (target_arguments t) w) r)"
    using targets by (cases "fx_target fx") (auto simp: rp suite_simps split: if_splits)
  moreover have "rp_follow rp \<longrightarrow> declares d C Op_Follow \<and> (\<exists>name t w rs. tool_name d Op_Follow = Some name \<and> fx_target fx = Some t \<and>
        gives_records L (tool_answer C name (target_arguments t) w) rs)"
    using targets by (cases "fx_target fx") (auto simp: rp suite_simps split: if_splits)
  moreover have "rp_error rp = (fx_error fx \<noteq> None)"
    "\<forall>f. fx_error fx = Some f \<longrightarrow> (\<exists>w code message.
        tool_answer C tool (query_arguments (ef_query f)) w = Tool_Error code message \<and> class_of_name code = Some (ef_class f))"
    using failed tool by (cases "fx_error fx"; auto simp: rp suite_simps)+
  moreover have "rp_cancellation rp = (fx_cancellation fx \<noteq> None)"
    using cancelled by (cases "fx_cancellation fx") (auto simp: rp check_cancellation_Ok)
  moreover have "\<forall>q. fx_cancellation fx = Some q \<longrightarrow> (\<exists>earlier. cancels C tool (query_arguments q) earlier st')"
    using cancelled tool by (auto simp: check_cancellation_Ok)
  moreover have "\<exists>rs rs'. let args = query_arguments (fx_query fx); w = snd (snd (su_call C tool args (ss_world st))) in
        gives_records L (tool_answer C tool args (ss_world st)) rs \<and> gives_records L (tool_answer C tool args w) rs' \<and>
        rs \<noteq> [] \<and> map rec_id rs = map rec_id rs'"
    using searches ids tool by (intro exI [where x = rs] exI [where x = rs']) (simp add: Let_def suite_search_Ok)
  ultimately show ?thesis using declared tool by (intro exI [of _ tool] conjI)
qed

section \<open>When a source passes\<close>

text \<open>An answer of a runtime that survives its way through the tool: a valid record whose identities its JSON
  decodes to again.\<close>

definition delivers :: "libs \<Rightarrow> source_result \<Rightarrow> bool" where
  "delivers L answer \<longleftrightarrow> (case answer of Err e \<Rightarrow> False | Ok r \<Rightarrow> record_validate L r = Ok () \<and> valid_ids r)"

lemma source_answer_complete:
  "list_all (\<lambda>x. case x of Err e \<Rightarrow> False | Ok r \<Rightarrow> record_validate L r = Ok ()) xs \<longleftrightarrow> snd (source_answer L s xs) = []"
  by (induction L s xs rule: source_answer.induct) (auto split: sum.splits prod.splits)

lemma source_answer_records: "snd (source_answer L s xs) = [] \<Longrightarrow> xs = map Ok (fst (source_answer L s xs))"
  by (induction L s xs rule: source_answer.induct) (auto split: sum.splits prod.splits)

lemma as_list_records:
  "as_list record_from_json (JArray (map record_to_json rs)) = (if list_all valid_ids rs then Some rs else None)"
  by (auto simp: list_all_iff record_from_to_json intro: map_idI)

lemma stream_delivers:
  assumes "incurs_serves host"
  shows "gives_records L (run_outcome (host (CR_Stream (map (source_result_to_record L) xs)))) rs \<longleftrightarrow>
    xs = map Ok rs \<and> list_all (delivers L) xs"
proof -
  fix s
  obtain rs0 ds where a: "source_answer L s xs = (rs0, ds)" by fastforce
  from a show ?thesis
  proof (cases rule: source_stream_cases)
    case 1
    then have "run_outcome (host (CR_Stream (map (source_result_to_record L) xs))) = Tool_Ok (JArray (map record_to_json rs0))"
      using assms by (simp only: 1(2) incurs_serves_def) simp
    moreover have "xs = map Ok rs0" "list_all (\<lambda>r. record_validate L r = Ok ()) rs0"
      using source_answer_records [of L s xs] source_answer_complete [of L xs s] a 1(1) by (auto simp: list_all_iff)
    ultimately show ?thesis
      by (auto simp: gives_records_def as_list_records delivers_def list_all_iff simp del: as_list.simps split: if_splits)
  next
    case (2 f rest)
    then have "run_outcome (host (CR_Stream (map (source_result_to_record L) xs))) = Tool_Error (cf_code f) (cf_message f)"
      using assms by (simp only: 2(2) incurs_serves_def) simp
    moreover have "\<not> list_all (delivers L) xs"
      using source_answer_complete [of L xs s] a 2(1) by (auto simp: list_all_iff delivers_def split: sum.splits)
    ultimately show ?thesis by (simp add: gives_records_def)
  qed
qed

text \<open>A catalog that serves a runtime's commands; requests and cancellation are its own.\<close>

definition serves_source ::
  "(command_result \<Rightarrow> tool_run) \<Rightarrow> libs \<Rightarrow> descriptor \<Rightarrow> source_runtime \<Rightarrow> 'w suite_catalog \<Rightarrow> bool" where
  "serves_source host L d rt C \<longleftrightarrow> incurs_serves host \<and>
     (\<forall>op tool args w. tool_name d op = Some tool \<longrightarrow>
        tool_answer C tool args w = run_outcome (host (source_command_run L d op rt args)))"

definition target_fits :: "libs \<Rightarrow> source_id \<Rightarrow> target \<Rightarrow> bool" where
  "target_fits L i t \<longleftrightarrow> target_validate L t = Ok () \<and> target_ids_valid t \<and> target_source t = i"

lemma search_delivers:
  assumes "serves_source host L d rt C" "query_validate L q = Ok ()" "tool_name d Op_Search = Some tool"
  shows "gives_records L (tool_answer C tool (query_arguments q) w) rs \<longleftrightarrow>
    rt_search rt q = map Ok rs \<and> list_all (delivers L) (rt_search rt q)"
  using assms stream_delivers [of host L "rt_search rt q" rs]
  by (simp add: serves_source_def source_search_def query_from_arguments)

lemma follow_delivers:
  assumes "serves_source host L d rt C" "target_fits L (desc_id d) t" "tool_name d Op_Follow = Some tool"
  shows "gives_records L (tool_answer C tool (target_arguments t) w) rs \<longleftrightarrow>
    rt_follow rt t = map Ok rs \<and> list_all (delivers L) (rt_follow rt t)"
  using assms stream_delivers [of host L "rt_follow rt t" rs]
  by (simp add: serves_source_def source_follow_def target_from_arguments target_fits_def validate_target_source_def)

lemma fetch_delivers:
  assumes "serves_source host L d rt C" "target_fits L (desc_id d) t" "tool_name d Op_Fetch = Some tool"
  shows "gives_record L (tool_answer C tool (target_arguments t) w) r \<longleftrightarrow> rt_fetch rt t = Ok r \<and> delivers L (rt_fetch rt t)"
proof -
  have host: "run_outcome (host (CR_Ok v)) = Tool_Ok v" "run_outcome (host (CR_Error f)) = Tool_Error (cf_code f) (cf_message f)" for v f
    using assms(1) by (simp_all add: serves_source_def incurs_serves_def)
  have "tool_answer C tool (target_arguments t) w = run_outcome (host (source_fetch L d rt (target_arguments t)))"
    using assms(1, 3) by (simp add: serves_source_def)
  also have "\<dots> = (case rt_fetch rt t of Ok r \<Rightarrow> run_outcome (host (chunk_result L r)) | Err e \<Rightarrow> run_outcome (host (CR_Error (source_failure e))))"
    using assms(2) by (simp add: source_fetch_def target_from_arguments target_fits_def validate_target_source_def split: sum.split)
  finally show ?thesis
    by (cases "rt_fetch rt t")
      (auto simp: host gives_record_def delivers_def chunk_result_def validate_and_serialize_def record_from_to_json
        split: sum.splits if_splits)
qed

lemma delivers_list: "list_all (delivers L) xs \<Longrightarrow> \<exists>rs. xs = map Ok rs"
  by (induction xs) (auto simp: delivers_def Cons_eq_map_conv split: sum.splits)

lemma delivers_Ok: "delivers L x \<Longrightarrow> \<exists>r. x = Ok r"
  by (auto simp: delivers_def split: sum.splits)

lemma search_passes:
  assumes "serves_source host L d rt C" "query_validate L q = Ok ()"
  shows "(\<exists>st'. suite_search L d C q st = (Ok rs, st')) \<longleftrightarrow>
    supports d Op_Search \<and> rt_search rt q = map Ok rs \<and> list_all (delivers L) (rt_search rt q)"
  using search_delivers [OF assms] supports_tool_name [of d Op_Search] unfolding suite_search_Ok by auto

lemma fetch_passes:
  assumes "serves_source host L d rt C" "target_fits L (desc_id d) t"
  shows "(\<exists>b st'. check_fetch L d C t st = (Ok b, st')) \<longleftrightarrow>
    (supports d Op_Fetch \<longrightarrow> declares d C Op_Fetch \<and> delivers L (rt_fetch rt t))"
proof (cases "supports d Op_Fetch")
  case True
  then obtain tool where tool: "tool_name d Op_Fetch = Some tool" by (auto simp: supports_tool_name)
  have "Ex (gives_record L (tool_answer C tool (target_arguments t) (ss_world st))) \<longleftrightarrow> delivers L (rt_fetch rt t)"
    using fetch_delivers [OF assms tool] delivers_Ok by metis
  then show ?thesis using True tool by (simp add: check_fetch_Ok ex_bool_eq)
qed (simp add: check_fetch_Ok ex_bool_eq)

lemma follow_passes:
  assumes "serves_source host L d rt C" "target_fits L (desc_id d) t"
  shows "(\<exists>b st'. check_follow L d C t st = (Ok b, st')) \<longleftrightarrow>
    (supports d Op_Follow \<longrightarrow> declares d C Op_Follow \<and> list_all (delivers L) (rt_follow rt t))"
proof (cases "supports d Op_Follow")
  case True
  then obtain tool where tool: "tool_name d Op_Follow = Some tool" by (auto simp: supports_tool_name)
  have "Ex (gives_records L (tool_answer C tool (target_arguments t) (ss_world st))) \<longleftrightarrow> list_all (delivers L) (rt_follow rt t)"
    using follow_delivers [OF assms tool] delivers_list by metis
  then show ?thesis using True tool by (simp add: check_follow_Ok ex_bool_eq)
qed (simp add: check_follow_Ok ex_bool_eq)

lemma targets_pass:
  assumes "serves_source host L d rt C" "pred_option (target_fits L (desc_id d)) target"
  shows "(\<exists>b st'. check_target_operations L d C target st = (Ok b, st')) \<longleftrightarrow>
    pred_option (\<lambda>t. (supports d Op_Fetch \<longrightarrow> declares d C Op_Fetch \<and> delivers L (rt_fetch rt t)) \<and>
      (supports d Op_Follow \<longrightarrow> declares d C Op_Follow \<and> list_all (delivers L) (rt_follow rt t))) target"
proof (cases target)
  case (Some t)
  then have fits: "target_fits L (desc_id d) t" using assms(2) by simp
  have "(\<exists>b st'. check_target_operations L d C target st = (Ok b, st')) \<longleftrightarrow>
      (\<exists>b st1. check_fetch L d C t st = (Ok b, st1) \<and> (\<exists>b' st'. check_follow L d C t st1 = (Ok b', st')))"
    unfolding split_paired_Ex check_target_operations_Ok Some option.case by blast
  then show ?thesis
    using fetch_passes [OF assms(1) fits, of st] follow_passes [OF assms(1) fits] Some by simp
qed (simp add: check_target_operations_Ok ex_bool_eq)


section \<open>An example\<close>

definition steady_runtime :: source_runtime where
  "steady_runtime = \<lparr>rt_search = \<lambda>q. if q_text q = ''fail''
       then [Err (source_error_new (Source_Id ''web'') RateLimit ''slow down'')] else [Ok (example_record ''web'' ''a'' ''https://x'')],
     rt_fetch = \<lambda>t. Ok (example_record ''web'' ''b'' ''https://y''),
     rt_follow = \<lambda>t. [Ok (example_record ''web'' ''c'' ''https://z'')]\<rparr>"

definition steady_source :: descriptor where
  "steady_source = descriptor_new (Source_Id ''web'') ''Web'' example_profile"

definition steady_catalog :: "unit suite_catalog" where
  "steady_catalog = \<lparr>su_get = \<lambda>name. Some \<lparr>ts_input = example_schema, ts_output = Some (JBool True)\<rparr>,
     su_call = \<lambda>tool args w.
       (run_outcome (cs_call (served_source example_serve \<lparr>run_events = [], run_outcome = Tool_Ok JNull\<rparr> example_libs
          steady_source steady_runtime) tool args), [Request_Opened, Request_Dropped], ()),
     su_poll = \<lambda>tool args w. (None, [Request_Opened], ()),
     su_cancel = \<lambda>tool args w. (Tool_Error ''CANCELLED'' ''cancelled'', [Request_Dropped], ())\<rparr>"

definition fresh_state :: "unit suite_state" where
  "fresh_state = \<lparr>ss_world = (), ss_ledger = \<lparr>lg_opened = 0, lg_live = 0\<rparr>\<rparr>"

definition steady_target :: target where
  "steady_target = Target_Url (Source_Id ''web'') ''https://x''"

definition steady_fixtures :: fixtures where
  "steady_fixtures = \<lparr>fx_query = example_query, fx_target = Some steady_target,
     fx_error = Some \<lparr>ef_query = example_query\<lparr>q_text := ''fail''\<rparr>, ef_class = RateLimit\<rparr>,
     fx_cancellation = Some example_query\<rparr>"

definition steady_report :: "(report, conformance_error) result \<times> unit suite_state" where
  "steady_report = run_with_fixtures example_libs steady_source (Ok steady_catalog) steady_fixtures fresh_state"

abbreviation steady_state :: "64 word \<Rightarrow> unit suite_state" where
  "steady_state n \<equiv> \<lparr>ss_world = (), ss_ledger = \<lparr>lg_opened = n, lg_live = 0\<rparr>\<rparr>"

lemma steady_steps:
  "suite_search example_libs steady_source steady_catalog example_query fresh_state =
     (Ok [example_record ''web'' ''a'' ''https://x''], steady_state 1)"
  "suite_search example_libs steady_source steady_catalog example_query (steady_state 1) =
     (Ok [example_record ''web'' ''a'' ''https://x''], steady_state 2)"
  "check_fetch example_libs steady_source steady_catalog steady_target (steady_state 2) = (Ok True, steady_state 3)"
  "check_follow example_libs steady_source steady_catalog steady_target (steady_state 3) = (Ok True, steady_state 4)"
  "check_error steady_source steady_catalog (fx_error steady_fixtures) (steady_state 4) = (Ok True, steady_state 5)"
  "check_cancellation steady_source steady_catalog (fx_cancellation steady_fixtures) (steady_state 5) = (Ok True, steady_state 6)"
  "require_tool steady_source steady_catalog Op_Search = Ok ()"
  "require_tool steady_source steady_catalog Op_Fetch = Ok ()"
  "validate_fixtures example_libs steady_fixtures = Ok ()"
  by code_simp+

lemma steady_report_ok:
  "steady_report = (Ok \<lparr>rp_source = ''web'', rp_search = True, rp_fetch = True, rp_follow = True, rp_error = True, rp_cancellation = True\<rparr>,
     steady_state 6)"
  using steady_steps
  unfolding steady_report_def run_with_fixtures_Ok require_tool_Ok check_target_operations_Ok
  by (simp add: steady_fixtures_def) (auto simp: steady_source_def descriptor_new_def example_profile_def)

theorem conformance_report_means_witness:
  "\<exists>tool earlier. tool_name steady_source Op_Search = Some tool \<and> declares steady_source steady_catalog Op_Follow \<and>
     cancels steady_catalog tool (query_arguments example_query) earlier (snd steady_report)"
proof -
  from steady_report_ok have run: "run_with_fixtures example_libs steady_source (Ok steady_catalog) steady_fixtures fresh_state =
     (Ok \<lparr>rp_source = ''web'', rp_search = True, rp_fetch = True, rp_follow = True, rp_error = True, rp_cancellation = True\<rparr>, snd steady_report)"
    by (simp add: steady_report_def)
  from conformance_report_means [OF this] show ?thesis by (auto simp: steady_fixtures_def)
qed

lemma steady_serves: "serves_source example_serve example_libs steady_source steady_runtime steady_catalog"
proof -
  have "cs_call (served_source example_serve \<lparr>run_events = [], run_outcome = Tool_Ok JNull\<rparr> example_libs steady_source steady_runtime) tool args =
      example_serve (source_command_run example_libs steady_source op steady_runtime args)"
    if "tool_name steady_source op = Some tool" for op tool args
    using that unfolding steady_source_def by (intro served_call) (simp_all add: example_profile_def)
  then show ?thesis by (simp add: serves_source_def example_serves steady_catalog_def)
qed


end
