(* ===== verification/Row_Codec.thy ===== *)
theory Row_Codec
  imports Source_Http Stored_Values
begin

text \<open>
  The rows of the two databases (\<open>comsat-store-sqlite/src/codec.rs\<close>, \<open>comsat-cloud/src/d1_rows.rs\<close> and
  \<open>d1_values.rs\<close>): the parameters a statement binds, the columns a row has, and what is read back from
  them. The stores of this development keep typed rows; this theory is why they may. The texts of the
  drivers' errors and the JSON parser are parameters.
\<close>

datatype cell = Cell_Null | Cell_Int int | Cell_Text string

record row_libs =
  rl_libs :: libs
  rl_parse :: "string \<Rightarrow> (json, string) result"
  rl_column :: "nat \<Rightarrow> string"
  rl_conversion :: "string \<Rightarrow> string"

section \<open>Bound values\<close>

definition bool_int :: "bool \<Rightarrow> int" where
  "bool_int b = (if b then 1 else 0)"

definition int_bool :: "int \<Rightarrow> bool" where
  "int_bool n \<longleftrightarrow> n \<noteq> 0"

definition json_column_text :: "row_libs \<Rightarrow> json \<Rightarrow> string" where
  "json_column_text R v = json_text (rl_libs R) v"

definition source_ids_json :: "source_id list \<Rightarrow> json" where
  "source_ids_json ids = JArray (map (\<lambda>s. JString (sid_str s)) ids)"

definition source_ids_text :: "row_libs \<Rightarrow> source_id list \<Rightarrow> string" where
  "source_ids_text R ids = json_column_text R (source_ids_json ids)"

fun opt_cell :: "('a \<Rightarrow> cell) \<Rightarrow> 'a option \<Rightarrow> cell" where
  "opt_cell f None = Cell_Null"
| "opt_cell f (Some a) = f a"

text \<open>The columns of a row, in the order of the statements: as inserted, with the leases as claims set them.\<close>

definition watch_cells :: "row_libs \<Rightarrow> watch \<Rightarrow> cell list" where
  "watch_cells R w =
     [Cell_Text (w_tenant w), Cell_Text (w_id w), Cell_Text (json_column_text R (query_to_json (w_query w))),
      Cell_Text (source_ids_text R (w_sources w)), Cell_Int (int (w_interval w)), Cell_Text (json_column_text R (w_cursor w)),
      Cell_Int (bool_int (w_enabled w)), Cell_Int (w_created w), Cell_Int (w_next_due w),
      opt_cell Cell_Text (w_lease_owner w), opt_cell Cell_Int (w_lease_expires w)]"

definition watch_run_cells :: "watch_run \<Rightarrow> cell list" where
  "watch_run_cells r =
     [Cell_Text (run_tenant r), Cell_Text (run_watch r), Cell_Text (run_id r), Cell_Text (run_key r), Cell_Text (run_owner r),
      Cell_Text (run_status r), Cell_Int (run_started r), opt_cell Cell_Int (run_finished r), opt_cell Cell_Text (run_error r)]"

definition observation_cells :: "row_libs \<Rightarrow> record_observation \<Rightarrow> cell list" where
  "observation_cells R b =
     (let r = ob_record b
      in [Cell_Text (sid_str (rec_source r)), Cell_Text (rid_str (rec_id r)), Cell_Text (rec_kind r), Cell_Text (rec_url r),
          opt_cell Cell_Text (rec_title r), opt_cell Cell_Text (rec_text r), opt_cell Cell_Text (rec_author r),
          opt_cell Cell_Text (rec_created_at r), opt_cell Cell_Text (rec_updated_at r),
          Cell_Text (json_column_text R (rec_metadata r)), Cell_Int (ob_first b), Cell_Int (ob_last b)])"

definition delivery_cells :: "row_libs \<Rightarrow> delivery \<Rightarrow> cell list" where
  "delivery_cells R d =
     [Cell_Text (d_tenant d), Cell_Text (d_id d), Cell_Text (d_watch d), opt_cell Cell_Text (d_run d), Cell_Text (d_status d),
      Cell_Text (json_column_text R (d_target d)), Cell_Text (json_column_text R (d_payload d)), Cell_Int (d_created d),
      Cell_Int (d_next_attempt d), Cell_Int (int (d_attempts d)), opt_cell Cell_Text (d_lease_owner d),
      opt_cell Cell_Int (d_lease_expires d), opt_cell Cell_Int (d_delivered d), opt_cell Cell_Text (d_error d)]"

section \<open>Reading a row of SQLite\<close>

fun cell_text :: "cell \<Rightarrow> string option" where
  "cell_text (Cell_Text s) = Some s"
| "cell_text _ = None"

fun cell_i64 :: "cell \<Rightarrow> int option" where
  "cell_i64 (Cell_Int n) = Some n"
| "cell_i64 _ = None"

fun cell_nat :: "nat \<Rightarrow> cell \<Rightarrow> nat option" where
  "cell_nat w (Cell_Int n) = (if 0 \<le> n \<and> n < 2 ^ w then Some (nat n) else None)"
| "cell_nat w _ = None"

fun cell_opt :: "(cell \<Rightarrow> 'a option) \<Rightarrow> cell \<Rightarrow> 'a option option" where
  "cell_opt f Cell_Null = Some None"
| "cell_opt f c = map_option Some (f c)"

text \<open>\<open>row.get(i)\<close>; a JSON column, through \<open>json_err\<close>.\<close>

definition column :: "row_libs \<Rightarrow> (cell \<Rightarrow> 'a option) \<Rightarrow> cell list \<Rightarrow> nat \<Rightarrow> ('a, string) result" where
  "column R f row i = (if i < length row then ok_or (rl_column R i) (f (row ! i)) else Err (rl_column R i))"

definition from_text :: "row_libs \<Rightarrow> (json \<Rightarrow> 'a option) \<Rightarrow> string \<Rightarrow> ('a, string) result" where
  "from_text R decode s = and_then (rl_parse R s) (\<lambda>v. ok_or (decode_text (rl_libs R) v) (decode v))"

definition json_column :: "row_libs \<Rightarrow> (json \<Rightarrow> 'a option) \<Rightarrow> cell list \<Rightarrow> nat \<Rightarrow> ('a, string) result" where
  "json_column R decode row i =
     and_then (column R cell_text row i) (\<lambda>s. map_err (rl_conversion R) (from_text R decode s))"

definition query_of_text :: "json \<Rightarrow> query option" where
  "query_of_text v = read_struct [''text'', ''limit'', ''since'', ''until''] query_from_members v"

definition source_ids_from_text :: "row_libs \<Rightarrow> cell list \<Rightarrow> nat \<Rightarrow> (source_id list, string) result" where
  "source_ids_from_text R row i =
     and_then (json_column R (as_list as_str) row i) (\<lambda>raw.
       collect_results (\<lambda>s. map_err (rl_conversion R) (source_id_new s)) raw)"

definition watch_from_row :: "row_libs \<Rightarrow> cell list \<Rightarrow> (watch, string) result" where
  "watch_from_row R row =
     and_then (column R cell_text row 0) (\<lambda>tenant.
     and_then (column R cell_text row 1) (\<lambda>watch.
     and_then (json_column R query_of_text row 2) (\<lambda>query.
     and_then (source_ids_from_text R row 3) (\<lambda>ids.
     and_then (column R (cell_nat 64) row 4) (\<lambda>interval.
     and_then (json_column R any_value row 5) (\<lambda>cursor.
     and_then (column R cell_i64 row 6) (\<lambda>enabled.
     and_then (column R cell_i64 row 7) (\<lambda>created.
     and_then (column R cell_i64 row 8) (\<lambda>next_due.
     and_then (column R (cell_opt cell_text) row 9) (\<lambda>owner.
     and_then (column R (cell_opt cell_i64) row 10) (\<lambda>expires.
       Ok \<lparr>w_tenant = tenant, w_id = watch, w_query = query, w_sources = ids, w_interval = interval, w_cursor = cursor,
           w_enabled = int_bool enabled, w_created = created, w_next_due = next_due, w_lease_owner = owner,
           w_lease_expires = expires\<rparr>)))))))))))"

definition watch_run_from_row :: "row_libs \<Rightarrow> cell list \<Rightarrow> (watch_run, string) result" where
  "watch_run_from_row R row =
     and_then (column R cell_text row 0) (\<lambda>tenant.
     and_then (column R cell_text row 1) (\<lambda>watch.
     and_then (column R cell_text row 2) (\<lambda>run.
     and_then (column R cell_text row 3) (\<lambda>key.
     and_then (column R cell_text row 4) (\<lambda>owner.
     and_then (column R cell_text row 5) (\<lambda>status.
     and_then (column R cell_i64 row 6) (\<lambda>started.
     and_then (column R (cell_opt cell_i64) row 7) (\<lambda>finished.
     and_then (column R (cell_opt cell_text) row 8) (\<lambda>error.
       Ok \<lparr>run_tenant = tenant, run_watch = watch, run_id = run, run_key = key, run_owner = owner, run_status = status,
           run_started = started, run_finished = finished, run_error = error\<rparr>)))))))))"

definition observation_from_row :: "row_libs \<Rightarrow> cell list \<Rightarrow> string option \<Rightarrow> (record_observation, string) result" where
  "observation_from_row R row watch =
     and_then (json_column R any_value row 9) (\<lambda>metadata.
     and_then (and_then (column R cell_text row 0) (\<lambda>s. map_err (rl_conversion R) (source_id_new s))) (\<lambda>source.
     and_then (and_then (column R cell_text row 1) (\<lambda>s. map_err (rl_conversion R) (record_id_new s))) (\<lambda>i.
     and_then (column R cell_text row 2) (\<lambda>kind.
     and_then (column R cell_text row 3) (\<lambda>url.
     and_then (column R (cell_opt cell_text) row 4) (\<lambda>title.
     and_then (column R (cell_opt cell_text) row 5) (\<lambda>text.
     and_then (column R (cell_opt cell_text) row 6) (\<lambda>author.
     and_then (column R (cell_opt cell_text) row 7) (\<lambda>created.
     and_then (column R (cell_opt cell_text) row 8) (\<lambda>updated.
     and_then (column R cell_i64 row 10) (\<lambda>first.
     and_then (column R cell_i64 row 11) (\<lambda>final.
       Ok \<lparr>ob_record = \<lparr>rec_id = i, rec_source = source, rec_kind = kind, rec_url = url, rec_title = title, rec_text = text,
             rec_author = author, rec_created_at = created, rec_updated_at = updated, rec_metadata = metadata\<rparr>,
           ob_watch = watch, ob_first = first, ob_last = final\<rparr>))))))))))))"

definition delivery_from_row :: "row_libs \<Rightarrow> cell list \<Rightarrow> (delivery, string) result" where
  "delivery_from_row R row =
     and_then (column R cell_text row 0) (\<lambda>tenant.
     and_then (column R cell_text row 1) (\<lambda>delivery.
     and_then (column R cell_text row 2) (\<lambda>watch.
     and_then (column R (cell_opt cell_text) row 3) (\<lambda>run.
     and_then (column R cell_text row 4) (\<lambda>status.
     and_then (json_column R any_value row 5) (\<lambda>target.
     and_then (json_column R any_value row 6) (\<lambda>payload.
     and_then (column R cell_i64 row 7) (\<lambda>created.
     and_then (column R cell_i64 row 8) (\<lambda>next_attempt.
     and_then (column R (cell_nat 32) row 9) (\<lambda>attempts.
     and_then (column R (cell_opt cell_text) row 10) (\<lambda>owner.
     and_then (column R (cell_opt cell_i64) row 11) (\<lambda>expires.
     and_then (column R (cell_opt cell_i64) row 12) (\<lambda>delivered.
     and_then (column R (cell_opt cell_text) row 13) (\<lambda>error.
       Ok \<lparr>d_tenant = tenant, d_id = delivery, d_watch = watch, d_run = run, d_status = status, d_target = target,
           d_payload = payload, d_created = created, d_next_attempt = next_attempt, d_attempts = attempts,
           d_lease_owner = owner, d_lease_expires = expires, d_delivered = delivered, d_error = error\<rparr>))))))))))))))"

section \<open>D1\<close>

text \<open>A bound value of D1 is a JavaScript value; an \<open>i64\<close> becomes a number through \<open>as f64\<close>, which rounds to the
  nearest of the numbers with 53 significant bits, to the even one of two.\<close>

datatype js_value = Js_Null | Js_Bool bool | Js_Number int | Js_String string

definition round_to :: "nat \<Rightarrow> nat \<Rightarrow> nat" where
  "round_to unit n =
     (let q = n div unit; r = n mod unit
      in (if 2 * r < unit \<or> (2 * r = unit \<and> even q) then q else q + 1) * unit)"

fun f64_unit :: "nat \<Rightarrow> nat \<Rightarrow> nat" where
  "f64_unit 0 n = 1"
| "f64_unit (Suc k) n = (if n < 2 ^ 53 then 1 else 2 * f64_unit k (n div 2))"

definition f64_of_i64 :: "int \<Rightarrow> int" where
  "f64_of_i64 n =
     (let m = nat \<bar>n\<bar>; r = int (round_to (f64_unit 11 m) m) in if n < 0 then - r else r)"

definition js_int :: "int \<Rightarrow> js_value" where
  "js_int n = Js_Number (f64_of_i64 n)"

fun js_opt :: "('a \<Rightarrow> js_value) \<Rightarrow> 'a option \<Rightarrow> js_value" where
  "js_opt f None = Js_Null"
| "js_opt f (Some a) = f a"

definition watch_values :: "row_libs \<Rightarrow> watch \<Rightarrow> js_value list store_result" where
  "watch_values R w =
     and_then (i64_from_u64 (w_interval w) ''interval_seconds'') (\<lambda>interval.
       Ok [Js_String (w_tenant w), Js_String (w_id w), Js_String (json_column_text R (query_to_json (w_query w))),
           Js_String (source_ids_text R (w_sources w)), js_int interval, Js_String (json_column_text R (w_cursor w)),
           Js_Bool (w_enabled w), js_int (w_created w), js_int (w_next_due w)])"

section \<open>Reading a row of D1\<close>

record d1_watch_row =
  xw_tenant :: string
  xw_watch :: string
  xw_query :: string
  xw_sources :: string
  xw_interval :: nat
  xw_cursor :: string
  xw_enabled :: int
  xw_created :: int
  xw_next_due :: int
  xw_owner :: "string option"
  xw_expires :: "int option"

definition d1_watch_row_of :: "arguments \<Rightarrow> d1_watch_row option" where
  "d1_watch_row_of k =
     Option.bind (need as_str k ''tenant_id'') (\<lambda>tenant. Option.bind (need as_str k ''watch_id'') (\<lambda>watch.
     Option.bind (need as_str k ''query_json'') (\<lambda>query. Option.bind (need as_str k ''source_ids_json'') (\<lambda>ids.
     Option.bind (need as_u64 k ''interval_seconds'') (\<lambda>interval. Option.bind (need as_str k ''cursor_json'') (\<lambda>cursor.
     Option.bind (need as_i64 k ''enabled'') (\<lambda>enabled. Option.bind (need as_i64 k ''created_at_epoch_seconds'') (\<lambda>created.
     Option.bind (need as_i64 k ''next_due_epoch_seconds'') (\<lambda>next_due. Option.bind (maybe as_str k ''lease_owner'') (\<lambda>owner.
     Option.bind (maybe as_i64 k ''lease_expires_epoch_seconds'') (\<lambda>expires.
       Some \<lparr>xw_tenant = tenant, xw_watch = watch, xw_query = query, xw_sources = ids, xw_interval = interval, xw_cursor = cursor,
         xw_enabled = enabled, xw_created = created, xw_next_due = next_due, xw_owner = owner, xw_expires = expires\<rparr>)))))))))))"

definition d1_json :: "row_libs \<Rightarrow> (json \<Rightarrow> 'a option) \<Rightarrow> string \<Rightarrow> 'a store_result" where
  "d1_json R decode s = map_err Store_Backend (from_text R decode s)"

definition into_d1_watch :: "row_libs \<Rightarrow> d1_watch_row \<Rightarrow> watch store_result" where
  "into_d1_watch R x =
     and_then (d1_json R query_of_text (xw_query x)) (\<lambda>query.
     and_then (d1_json R (as_list (\<lambda>v. source_id_field (Some v))) (xw_sources x)) (\<lambda>ids.
     and_then (d1_json R any_value (xw_cursor x)) (\<lambda>cursor.
       Ok \<lparr>w_tenant = xw_tenant x, w_id = xw_watch x, w_query = query, w_sources = ids, w_interval = xw_interval x,
           w_cursor = cursor, w_enabled = xw_enabled x \<noteq> 0, w_created = xw_created x, w_next_due = xw_next_due x,
           w_lease_owner = xw_owner x, w_lease_expires = xw_expires x\<rparr>)))"

definition d1_run_of :: "arguments \<Rightarrow> watch_run option" where
  "d1_run_of k =
     Option.bind (need as_str k ''tenant_id'') (\<lambda>tenant. Option.bind (need as_str k ''watch_id'') (\<lambda>watch.
     Option.bind (need as_str k ''run_id'') (\<lambda>run. Option.bind (need as_str k ''idempotency_key'') (\<lambda>key.
     Option.bind (need as_str k ''lease_owner'') (\<lambda>owner. Option.bind (need as_str k ''status'') (\<lambda>status.
     Option.bind (need as_i64 k ''started_at_epoch_seconds'') (\<lambda>started.
     Option.bind (maybe as_i64 k ''finished_at_epoch_seconds'') (\<lambda>finished. Option.bind (maybe as_str k ''error'') (\<lambda>error.
       Some \<lparr>run_tenant = tenant, run_watch = watch, run_id = run, run_key = key, run_owner = owner, run_status = status,
         run_started = started, run_finished = finished, run_error = error\<rparr>)))))))))"

record d1_history_row =
  xh_source :: string
  xh_record :: string
  xh_kind :: string
  xh_url :: string
  xh_title :: "string option"
  xh_text :: "string option"
  xh_author :: "string option"
  xh_created :: "string option"
  xh_updated :: "string option"
  xh_metadata :: string
  xh_watch :: "string option"
  xh_first :: int
  xh_last :: int

definition d1_history_row_of :: "arguments \<Rightarrow> d1_history_row option" where
  "d1_history_row_of k =
     Option.bind (need as_str k ''source_id'') (\<lambda>source. Option.bind (need as_str k ''record_id'') (\<lambda>rid.
     Option.bind (need as_str k ''kind'') (\<lambda>kind. Option.bind (need as_str k ''url'') (\<lambda>url.
     Option.bind (maybe as_str k ''title'') (\<lambda>title. Option.bind (maybe as_str k ''text'') (\<lambda>text.
     Option.bind (maybe as_str k ''author'') (\<lambda>author. Option.bind (maybe as_str k ''created_at'') (\<lambda>created.
     Option.bind (maybe as_str k ''updated_at'') (\<lambda>updated. Option.bind (need as_str k ''metadata_json'') (\<lambda>metadata.
     Option.bind (maybe as_str k ''watch_id'') (\<lambda>watch. Option.bind (need as_i64 k ''first_observed_epoch_seconds'') (\<lambda>first.
     Option.bind (need as_i64 k ''last_observed_epoch_seconds'') (\<lambda>final.
       Some \<lparr>xh_source = source, xh_record = rid, xh_kind = kind, xh_url = url, xh_title = title, xh_text = text, xh_author = author,
         xh_created = created, xh_updated = updated, xh_metadata = metadata, xh_watch = watch, xh_first = first,
         xh_last = final\<rparr>)))))))))))))"

definition d1_record_from_row :: "d1_history_row \<Rightarrow> json \<Rightarrow> comsat_record store_result" where
  "d1_record_from_row x metadata =
     map_err Store_Validation (and_then (record_id_new (xh_record x)) (\<lambda>i. and_then (source_id_new (xh_source x)) (\<lambda>s.
       Ok \<lparr>rec_id = i, rec_source = s, rec_kind = xh_kind x, rec_url = xh_url x, rec_title = xh_title x, rec_text = xh_text x,
         rec_author = xh_author x, rec_created_at = xh_created x, rec_updated_at = xh_updated x, rec_metadata = metadata\<rparr>)))"

definition into_d1_observation :: "row_libs \<Rightarrow> d1_history_row \<Rightarrow> record_observation store_result" where
  "into_d1_observation R x =
     and_then (d1_json R any_value (xh_metadata x)) (\<lambda>metadata. and_then (d1_record_from_row x metadata) (\<lambda>r.
       Ok \<lparr>ob_record = r, ob_watch = xh_watch x, ob_first = xh_first x, ob_last = xh_last x\<rparr>))"

record d1_delivery_row =
  xd_tenant :: string
  xd_delivery :: string
  xd_watch :: string
  xd_run :: "string option"
  xd_status :: string
  xd_target :: string
  xd_payload :: string
  xd_created :: int
  xd_next_attempt :: int
  xd_attempts :: nat
  xd_owner :: "string option"
  xd_expires :: "int option"
  xd_delivered :: "int option"
  xd_error :: "string option"

fun as_u32 :: "json \<Rightarrow> nat option" where
  "as_u32 (JInt i) = (if 0 \<le> i \<and> i < 2 ^ 32 then Some (nat i) else None)"
| "as_u32 _ = None"

definition d1_delivery_row_of :: "arguments \<Rightarrow> d1_delivery_row option" where
  "d1_delivery_row_of k =
     Option.bind (need as_str k ''tenant_id'') (\<lambda>tenant. Option.bind (need as_str k ''delivery_id'') (\<lambda>delivery.
     Option.bind (need as_str k ''watch_id'') (\<lambda>watch. Option.bind (maybe as_str k ''run_id'') (\<lambda>run.
     Option.bind (need as_str k ''status'') (\<lambda>status. Option.bind (need as_str k ''target_json'') (\<lambda>target.
     Option.bind (need as_str k ''payload_json'') (\<lambda>payload. Option.bind (need as_i64 k ''created_at_epoch_seconds'') (\<lambda>created.
     Option.bind (need as_i64 k ''next_attempt_epoch_seconds'') (\<lambda>next_attempt. Option.bind (need as_u32 k ''attempts'') (\<lambda>attempts.
     Option.bind (maybe as_str k ''lease_owner'') (\<lambda>owner. Option.bind (maybe as_i64 k ''lease_expires_epoch_seconds'') (\<lambda>expires.
     Option.bind (maybe as_i64 k ''delivered_at_epoch_seconds'') (\<lambda>delivered. Option.bind (maybe as_str k ''error'') (\<lambda>error.
       Some \<lparr>xd_tenant = tenant, xd_delivery = delivery, xd_watch = watch, xd_run = run, xd_status = status, xd_target = target,
         xd_payload = payload, xd_created = created, xd_next_attempt = next_attempt, xd_attempts = attempts, xd_owner = owner,
         xd_expires = expires, xd_delivered = delivered, xd_error = error\<rparr>))))))))))))))"

definition into_d1_delivery :: "row_libs \<Rightarrow> d1_delivery_row \<Rightarrow> delivery store_result" where
  "into_d1_delivery R x =
     and_then (d1_json R any_value (xd_target x)) (\<lambda>target. and_then (d1_json R any_value (xd_payload x)) (\<lambda>payload.
       Ok \<lparr>d_tenant = xd_tenant x, d_id = xd_delivery x, d_watch = xd_watch x, d_run = xd_run x, d_status = xd_status x,
           d_target = target, d_payload = payload, d_created = xd_created x, d_next_attempt = xd_next_attempt x,
           d_attempts = xd_attempts x, d_lease_owner = xd_owner x, d_lease_expires = xd_expires x,
           d_delivered = xd_delivered x, d_error = xd_error x\<rparr>))"

end
