(* ===== verification/Row_Laws.thy ===== *)
theory Row_Laws
  imports Row_Codec
begin

text \<open>
  The columns of a row decode to the row: of either database, when the JSON texts in it read back and, in
  D1, its numbers are safe integers of JavaScript.
\<close>

definition reads_back :: "row_libs \<Rightarrow> json \<Rightarrow> bool" where
  "reads_back R v \<longleftrightarrow> rl_parse R (json_text (rl_libs R) v) = Ok v \<and> to_value v = v"

lemma from_text_back: "reads_back R v \<Longrightarrow> from_text R decode (json_column_text R v) = ok_or (decode_text (rl_libs R) v) (decode v)"
  by (simp add: reads_back_def from_text_def json_column_text_def)

lemma any_value_back: "reads_back R v \<Longrightarrow> any_value v = Some v"
  by (simp add: reads_back_def any_value_def)

lemma query_of_text_back:
  assumes "case q_limit q of None \<Rightarrow> True | Some n \<Rightarrow> n < 2 ^ 32"
  shows "query_of_text (query_to_json q) = Some q"
  using assms
  by (cases q; cases "q_limit q"; cases "q_since q"; cases "q_until q")
    (simp_all add: query_of_text_def read_struct_def query_to_json_def json_object_def query_from_members_def
      string_field_def u32_field_def bt_collect_def)

lemma source_ids_back:
  "list_all valid_source_id ids \<Longrightarrow> collect_results (\<lambda>s. map_err f (source_id_new s)) (map sid_str ids) = Ok ids"
  by (induction ids) (auto simp: valid_source_id_def is_ok_iff source_id_new_def split: if_splits)

lemma as_list_strings: "as_list as_str (source_ids_json ids) = Some (map sid_str ids)"
  by (simp add: source_ids_json_def list_all_iff)

lemma as_list_ids:
  "list_all valid_source_id ids \<Longrightarrow> as_list (\<lambda>v. source_id_field (Some v)) (source_ids_json ids) = Some ids"
  by (induction ids) (auto simp: source_ids_json_def list_all_iff source_id_field_def string_field_def valid_source_id_def
      is_ok_iff source_id_new_def split: if_splits)

lemma cell_opt_opt_cell [simp]:
  "cell_opt cell_text (opt_cell Cell_Text s) = Some s"
  "cell_opt cell_i64 (opt_cell Cell_Int n) = Some n"
  by (cases s; simp) (cases n; simp)

lemma int_bool_int [simp]: "int_bool (bool_int b) = b"
  by (simp add: int_bool_def bool_int_def)

section \<open>What a row must meet\<close>

definition watch_reads :: "row_libs \<Rightarrow> watch \<Rightarrow> bool" where
  "watch_reads R w \<longleftrightarrow> reads_back R (query_to_json (w_query w)) \<and> reads_back R (source_ids_json (w_sources w)) \<and>
     reads_back R (w_cursor w) \<and> w_interval w < 2 ^ 63 \<and> is_ok (query_validate (rl_libs R) (w_query w)) \<and>
     list_all valid_source_id (w_sources w)"

definition observation_reads :: "row_libs \<Rightarrow> record_observation \<Rightarrow> bool" where
  "observation_reads R b \<longleftrightarrow> reads_back R (rec_metadata (ob_record b)) \<and> valid_ids (ob_record b)"

definition delivery_reads :: "row_libs \<Rightarrow> delivery \<Rightarrow> bool" where
  "delivery_reads R d \<longleftrightarrow> reads_back R (d_target d) \<and> reads_back R (d_payload d) \<and> d_attempts d < 2 ^ 32"

lemma watch_reads_limit: "watch_reads R w \<Longrightarrow> case q_limit (w_query w) of None \<Rightarrow> True | Some n \<Rightarrow> n < 2 ^ 32"
  by (auto simp: watch_reads_def is_ok_iff query_validate_def split: option.splits if_splits)

section \<open>SQLite\<close>

lemma watch_row_back:
  assumes "watch_reads R w"
  shows "watch_from_row R (watch_cells R w) = Ok w"
  using assms query_of_text_back [OF watch_reads_limit [OF assms]]
  by (cases w) (auto simp: watch_reads_def watch_from_row_def watch_cells_def column_def json_column_def from_text_back any_value_back
      source_ids_from_text_def source_ids_text_def as_list_strings source_ids_back)

lemma run_row_back: "watch_run_from_row R (watch_run_cells r) = Ok r"
  by (simp add: watch_run_from_row_def watch_run_cells_def column_def)

lemma observation_row_back:
  assumes "observation_reads R b"
  shows "observation_from_row R (observation_cells R b) (ob_watch b) = Ok b"
  using assms
  by (cases b; cases "ob_record b")
    (auto simp: observation_reads_def valid_ids_def observation_from_row_def observation_cells_def Let_def column_def
      json_column_def from_text_back any_value_back valid_source_id_def is_ok_iff source_id_new_def record_id_new_def
      split: if_splits)

lemma delivery_row_back:
  assumes "delivery_reads R d"
  shows "delivery_from_row R (delivery_cells R d) = Ok d"
  using assms
  by (cases d) (auto simp: delivery_reads_def delivery_from_row_def delivery_cells_def column_def json_column_def from_text_back any_value_back)

section \<open>D1\<close>

text \<open>The numbers JavaScript holds without loss, and what D1 documents of a value bound and read back.\<close>

definition safe_int :: "int \<Rightarrow> bool" where
  "safe_int n \<longleftrightarrow> \<bar>n\<bar> < 2 ^ 53"

definition d1_keeps :: "(js_value \<Rightarrow> json) \<Rightarrow> bool" where
  "d1_keeps B \<longleftrightarrow> B Js_Null = JNull \<and> (\<forall>s. B (Js_String s) = JString s) \<and> (\<forall>b. B (Js_Bool b) = JInt (bool_int b)) \<and>
     (\<forall>n. safe_int n \<longrightarrow> B (Js_Number n) = JInt n)"

lemma f64_unit_small: "n < 2 ^ 53 \<Longrightarrow> f64_unit k n = 1"
  by (cases k) simp_all

lemma f64_of_safe: "safe_int n \<Longrightarrow> f64_of_i64 n = n"
proof -
  assume "safe_int n"
  then have "nat \<bar>n\<bar> < 2 ^ 53" by (simp add: safe_int_def nat_less_iff)
  then have unit: "f64_unit 11 (nat \<bar>n\<bar>) = 1" by (rule f64_unit_small)
  have "round_to 1 m = m" for m by (simp add: round_to_def Let_def)
  then show ?thesis unfolding f64_of_i64_def Let_def unit by simp
qed

lemma d1_int: "d1_keeps B \<Longrightarrow> safe_int n \<Longrightarrow> B (js_int n) = JInt n"
  by (simp add: js_int_def f64_of_safe d1_keeps_def)

lemma safe_in_i64: "safe_int n \<Longrightarrow> in_i64 n"
  by (auto simp: safe_int_def in_i64_def)

lemma d1_opt_int:
  "d1_keeps B \<Longrightarrow> pred_option safe_int n \<Longrightarrow> option_field as_i64 (Some (B (js_opt js_int n))) = Some n"
  by (cases n) (auto simp: d1_int option_field_def safe_in_i64, auto simp: d1_keeps_def)

lemma d1_opt_text: "d1_keeps B \<Longrightarrow> option_field as_str (Some (B (js_opt Js_String s))) = Some s"
  by (cases s) (simp_all add: d1_keeps_def option_field_def)

text \<open>The objects D1 answers: the columns of the statements, by name.\<close>

definition watch_object :: "(js_value \<Rightarrow> json) \<Rightarrow> watch \<Rightarrow> js_value list \<Rightarrow> arguments" where
  "watch_object B w bound = zip
     [''tenant_id'', ''watch_id'', ''query_json'', ''source_ids_json'', ''interval_seconds'', ''cursor_json'', ''enabled'',
      ''created_at_epoch_seconds'', ''next_due_epoch_seconds'', ''lease_owner'', ''lease_expires_epoch_seconds'']
     (map B (bound @ [js_opt Js_String (w_lease_owner w), js_opt js_int (w_lease_expires w)]))"

definition run_object :: "(js_value \<Rightarrow> json) \<Rightarrow> watch_run \<Rightarrow> arguments" where
  "run_object B r =
     [(''tenant_id'', B (Js_String (run_tenant r))), (''watch_id'', B (Js_String (run_watch r))),
      (''run_id'', B (Js_String (run_id r))), (''idempotency_key'', B (Js_String (run_key r))),
      (''lease_owner'', B (Js_String (run_owner r))), (''status'', B (Js_String (run_status r))),
      (''started_at_epoch_seconds'', B (js_int (run_started r))),
      (''finished_at_epoch_seconds'', B (js_opt js_int (run_finished r))), (''error'', B (js_opt Js_String (run_error r)))]"

definition history_object :: "(js_value \<Rightarrow> json) \<Rightarrow> row_libs \<Rightarrow> record_observation \<Rightarrow> arguments" where
  "history_object B R b =
     (let r = ob_record b
      in [(''source_id'', B (Js_String (sid_str (rec_source r)))), (''record_id'', B (Js_String (rid_str (rec_id r)))),
          (''kind'', B (Js_String (rec_kind r))), (''url'', B (Js_String (rec_url r))),
          (''title'', B (js_opt Js_String (rec_title r))), (''text'', B (js_opt Js_String (rec_text r))),
          (''author'', B (js_opt Js_String (rec_author r))), (''created_at'', B (js_opt Js_String (rec_created_at r))),
          (''updated_at'', B (js_opt Js_String (rec_updated_at r))),
          (''metadata_json'', B (Js_String (json_column_text R (rec_metadata r)))),
          (''watch_id'', B (js_opt Js_String (ob_watch b))),
          (''first_observed_epoch_seconds'', B (js_int (ob_first b))), (''last_observed_epoch_seconds'', B (js_int (ob_last b)))])"

definition delivery_object :: "(js_value \<Rightarrow> json) \<Rightarrow> row_libs \<Rightarrow> delivery \<Rightarrow> arguments" where
  "delivery_object B R d =
     [(''tenant_id'', B (Js_String (d_tenant d))), (''delivery_id'', B (Js_String (d_id d))),
      (''watch_id'', B (Js_String (d_watch d))), (''run_id'', B (js_opt Js_String (d_run d))),
      (''status'', B (Js_String (d_status d))), (''target_json'', B (Js_String (json_column_text R (d_target d)))),
      (''payload_json'', B (Js_String (json_column_text R (d_payload d)))),
      (''created_at_epoch_seconds'', B (js_int (d_created d))),
      (''next_attempt_epoch_seconds'', B (js_int (d_next_attempt d))), (''attempts'', B (js_int (int (d_attempts d)))),
      (''lease_owner'', B (js_opt Js_String (d_lease_owner d))),
      (''lease_expires_epoch_seconds'', B (js_opt js_int (d_lease_expires d))),
      (''delivered_at_epoch_seconds'', B (js_opt js_int (d_delivered d))), (''error'', B (js_opt Js_String (d_error d)))]"

definition watch_safe :: "watch \<Rightarrow> bool" where
  "watch_safe w \<longleftrightarrow> safe_int (int (w_interval w)) \<and> safe_int (w_created w) \<and> safe_int (w_next_due w) \<and>
     pred_option safe_int (w_lease_expires w)"

definition run_safe :: "watch_run \<Rightarrow> bool" where
  "run_safe r \<longleftrightarrow> safe_int (run_started r) \<and> pred_option safe_int (run_finished r)"

definition observation_safe :: "record_observation \<Rightarrow> bool" where
  "observation_safe b \<longleftrightarrow> safe_int (ob_first b) \<and> safe_int (ob_last b)"

definition delivery_safe :: "delivery \<Rightarrow> bool" where
  "delivery_safe d \<longleftrightarrow> safe_int (d_created d) \<and> safe_int (d_next_attempt d) \<and> pred_option safe_int (d_lease_expires d) \<and>
     pred_option safe_int (d_delivered d)"

lemma d1_text: "d1_keeps B \<Longrightarrow> B (Js_String s) = JString s"
  by (simp add: d1_keeps_def)

lemma d1_bool: "d1_keeps B \<Longrightarrow> B (Js_Bool b) = JInt (bool_int b)"
  by (simp add: d1_keeps_def)

lemmas d1_values = d1_text d1_bool d1_int d1_opt_int d1_opt_text need_def maybe_def safe_in_i64

lemma watch_object_back:
  assumes "d1_keeps B" "watch_reads R w" "watch_safe w"
  shows "\<exists>bound. watch_values R w = Ok bound \<and> map_option (into_d1_watch R) (d1_watch_row_of (watch_object B w bound)) = Some (Ok w)"
proof -
  have "i64_from_u64 (w_interval w) ''interval_seconds'' = Ok (int (w_interval w))"
    using assms(2) by (simp add: watch_reads_def i64_from_u64_def)
  then show ?thesis
    using assms query_of_text_back [OF watch_reads_limit [OF assms(2)]]
    by (cases w) (auto simp: watch_values_def watch_object_def d1_watch_row_of_def d1_values watch_safe_def watch_reads_def
        into_d1_watch_def d1_json_def from_text_back any_value_back source_ids_text_def as_list_ids bool_int_def in_i64_def [of 0] in_i64_def [of 1])
qed

lemma run_object_back: "d1_keeps B \<Longrightarrow> run_safe r \<Longrightarrow> d1_run_of (run_object B r) = Some r"
  by (cases r) (simp add: d1_run_of_def run_object_def d1_values run_safe_def)

lemma history_object_back:
  assumes "d1_keeps B" "observation_reads R b" "observation_safe b"
  shows "map_option (into_d1_observation R) (d1_history_row_of (history_object B R b)) = Some (Ok b)"
  using assms
  by (cases b; cases "ob_record b")
    (auto simp: d1_history_row_of_def history_object_def d1_values observation_safe_def observation_reads_def
      into_d1_observation_def d1_json_def from_text_back any_value_back d1_record_from_row_def
      valid_ids_def valid_source_id_def is_ok_iff source_id_new_def record_id_new_def split: if_splits)

lemma delivery_object_back:
  assumes "d1_keeps B" "delivery_reads R d" "delivery_safe d"
  shows "map_option (into_d1_delivery R) (d1_delivery_row_of (delivery_object B R d)) = Some (Ok d)"
proof -
  have "safe_int (int (d_attempts d))" using assms(2) by (simp add: delivery_reads_def safe_int_def)
  with assms show ?thesis
    by (cases d) (auto simp: d1_delivery_row_of_def delivery_object_def d1_values delivery_safe_def delivery_reads_def
      into_d1_delivery_def d1_json_def from_text_back any_value_back)
qed

section \<open>The databases\<close>

text \<open>C29: what SQLite stores is what it reads: the columns of every row of watches, runs, observed records and
  deliveries decode to that row, when the JSON texts in it read back as written, its ids are ones the
  constructors accept, and its counters fit their columns.\<close>

theorem sqlite_rows_decode:
  "(if list_all (watch_reads R) ws then collect_results (watch_from_row R) (map (watch_cells R) ws) = Ok ws else True) \<and>
   collect_results (watch_run_from_row R) (map watch_run_cells rs) = Ok rs \<and>
   (if list_all (observation_reads R) bs
    then collect_results (\<lambda>(row, watch). observation_from_row R row watch) (map (\<lambda>b. (observation_cells R b, ob_watch b)) bs) = Ok bs
    else True) \<and>
   (if list_all (delivery_reads R) ds then collect_results (delivery_from_row R) (map (delivery_cells R) ds) = Ok ds else True)"
  by (simp add: collect_results_ok list_all2_map1 list_all2_same watch_row_back run_row_back observation_row_back
      delivery_row_back list_all_iff)

text \<open>C30: and what D1 stores is what it reads, by way of JavaScript values: the same rows decode to themselves when
  moreover their times and intervals are integers a JavaScript number holds without loss, below 2 to the
  53rd.\<close>

theorem d1_rows_decode:
  assumes "d1_keeps B"
  shows "(if watch_reads R w \<and> watch_safe w
      then \<exists>bound. watch_values R w = Ok bound \<and>
        map_option (into_d1_watch R) (d1_watch_row_of (watch_object B w bound)) = Some (Ok w) else True) \<and>
    (if run_safe r then d1_run_of (run_object B r) = Some r else True) \<and>
    (if observation_reads R b \<and> observation_safe b
     then map_option (into_d1_observation R) (d1_history_row_of (history_object B R b)) = Some (Ok b) else True) \<and>
    (if delivery_reads R d \<and> delivery_safe d
     then map_option (into_d1_delivery R) (d1_delivery_row_of (delivery_object B R d)) = Some (Ok d) else True)"
  using assms watch_object_back run_object_back history_object_back delivery_object_back by simp

section \<open>An example\<close>

text \<open>Past that bound D1 stores another number; validation does not keep times below it, the clock does.\<close>

definition plain_query :: query where
  "plain_query = \<lparr>q_text = ''rust'', q_limit = Some 5, q_since = None, q_until = None\<rparr>"

definition late_watch :: create_watch where
  "late_watch = \<lparr>cw_tenant = ''t'', cw_watch = ''w1'', cw_query = plain_query, cw_sources = [Source_Id ''web''], cw_interval = 60,
     cw_cursor = JObject [], cw_enabled = True, cw_created = 9007199254740993, cw_first_due = Some 0\<rparr>"

definition example_rows :: row_libs where
  "example_rows = \<lparr>rl_libs = example_libs\<lparr>json_text := \<lambda>v. if v = JObject [] then ''c'' else if v = source_ids_json [Source_Id ''web''] then ''i'' else ''q''\<rparr>,
     rl_parse = \<lambda>s. if s = ''c'' then Ok (JObject []) else if s = ''i'' then Ok (source_ids_json [Source_Id ''web''])
       else Ok (query_to_json plain_query),
     rl_column = \<lambda>i. ''column'', rl_conversion = \<lambda>e. e\<rparr>"

lemma d1_rounds_late_times:
  "create_watch_validate (rl_libs example_rows) late_watch = Ok ()"
  "map_sum id (\<lambda>vs. vs ! 7) (watch_values example_rows (into_watch late_watch)) = Ok (Js_Number 9007199254740992)"
  by code_simp+

fun plain_values :: "js_value \<Rightarrow> json" where
  "plain_values Js_Null = JNull"
| "plain_values (Js_String s) = JString s"
| "plain_values (Js_Bool b) = JInt (bool_int b)"
| "plain_values (Js_Number n) = JInt n"

theorem d1_rows_decode_witness:
  "let w = (into_watch late_watch)\<lparr>w_created := 7\<rparr>
   in \<exists>bound. watch_values example_rows w = Ok bound \<and>
     map_option (into_d1_watch example_rows) (d1_watch_row_of (watch_object plain_values w bound)) = Some (Ok w)"
proof -
  let ?w = "(into_watch late_watch)\<lparr>w_created := 7\<rparr>"
  have reads: "watch_reads example_rows ?w"
    unfolding watch_reads_def reads_back_def by code_simp
  have safe: "watch_safe ?w" by (simp add: watch_safe_def safe_int_def into_watch_def late_watch_def)
  have "d1_keeps plain_values" by (simp add: d1_keeps_def)
  from d1_rows_decode [OF this, of example_rows ?w] reads safe show ?thesis by (simp add: Let_def)
qed

end
