(* ===== verification/Serve.thy ===== *)
theory Serve
  imports Commands
begin

text \<open>
  The service (\<open>comsat-app/src/serve.rs\<close>): its listen address, its options, the scheduler that runs a due
  watch and then the host's hook at every tick, and the line it reports. The HTTP server of the framework
  is the outcome it ends with, the hook a function of the database; a tick is the clock at its claim and
  at its completion. \<open>SocketAddr\<close> is parsed as the standard library parses it.
\<close>

datatype socket_addr = Socket_V4 ipv4 nat | Socket_V6 ipv6 nat nat

definition default_address :: string where
  "default_address = ''127.0.0.1:8737''"

definition read_port :: "string \<Rightarrow> (nat \<times> string) option" where
  "read_port s = Option.bind (read_char (CHR '':'') s) (\<lambda>rest. read_number 10 (length rest) True (2 ^ 16) rest)"

definition read_scope :: "string \<Rightarrow> nat \<times> string" where
  "read_scope s =
     (case Option.bind (read_char (CHR ''%'') s) (\<lambda>rest. read_number 10 (length rest) True (2 ^ 32) rest) of
        Some r \<Rightarrow> r | None \<Rightarrow> (0, s))"

definition read_socket_v4 :: "string \<Rightarrow> (socket_addr \<times> string) option" where
  "read_socket_v4 s = Option.bind (read_ipv4 s) (\<lambda>(ip, rest).
     map_option (\<lambda>(port, rest). (Socket_V4 ip port, rest)) (read_port rest))"

definition read_socket_v6 :: "string \<Rightarrow> (socket_addr \<times> string) option" where
  "read_socket_v6 s =
     Option.bind (read_char (CHR ''['') s) (\<lambda>rest.
     Option.bind (read_ipv6 rest) (\<lambda>(ip, rest).
     (case read_scope rest of (scope, rest) \<Rightarrow>
     Option.bind (read_char (CHR '']'') rest) (\<lambda>rest.
       map_option (\<lambda>(port, rest). (Socket_V6 ip scope port, rest)) (read_port rest)))))"

definition parse_socket :: "string \<Rightarrow> socket_addr option" where
  "parse_socket s =
     (case (case read_socket_v4 s of Some r \<Rightarrow> Some r | None \<Rightarrow> read_socket_v6 s) of
        Some (a, []) \<Rightarrow> Some a | _ \<Rightarrow> None)"

definition parse_address :: "string option \<Rightarrow> (socket_addr, string) result" where
  "parse_address address =
     ok_or ''invalid socket address syntax'' (parse_socket (case address of None \<Rightarrow> default_address | Some a \<Rightarrow> a))"

section \<open>The scheduler\<close>

text \<open>\<open>report_watch_tick\<close>: the line on standard error, if any.\<close>

definition report_watch_tick :: "(watch_run_outcome option, app_error) result \<Rightarrow> json option" where
  "report_watch_tick outcome =
     (case outcome of
        Ok None \<Rightarrow> None
      | Ok (Some out) \<Rightarrow> Some (json_object
          [(''event'', JString ''watch_scheduler_run''), (''status'', JString (out_status out)), (''run_id'', JString (out_run out)),
           (''records_seen'', json_nat (out_seen out)), (''records_inserted'', json_nat (out_inserted out)),
           (''watch_records_inserted'', json_nat (out_watch_inserted out))])
      | Err e \<Rightarrow> Some (json_object
          [(''event'', JString ''watch_scheduler_run''), (''status'', JString ''failed''),
           (''message'', JString (app_error_text e))]))"

type_synonym tick = "int \<times> int"

definition watch_tick :: "net_libs \<Rightarrow> comsat_app \<Rightarrow> (tick \<Rightarrow> db \<Rightarrow> db) \<Rightarrow> tick \<Rightarrow> db \<Rightarrow> json option \<times> db" where
  "watch_tick N app hook t db =
     (case run_due_watch_once N app (fst t) (snd t) db of (outcome, db) \<Rightarrow> (report_watch_tick outcome, hook t db))"

fun run_scheduler :: "net_libs \<Rightarrow> comsat_app \<Rightarrow> (tick \<Rightarrow> db \<Rightarrow> db) \<Rightarrow> tick list \<Rightarrow> db \<Rightarrow> json list \<times> db" where
  "run_scheduler N app hook [] db = ([], db)"
| "run_scheduler N app hook (t # ts) db =
     (case watch_tick N app hook t db of (line, db) \<Rightarrow>
        (case run_scheduler N app hook ts db of (lines, db) \<Rightarrow> ((case line of None \<Rightarrow> [] | Some l \<Rightarrow> [l]) @ lines, db)))"

section \<open>The command\<close>

definition serve_options :: "libs \<Rightarrow> json \<Rightarrow> (string option, string) result" where
  "serve_options L v =
     ok_or (decode_text L v) (Option.bind (struct_members [''addr''] v) (\<lambda>k. opt_string_field (map_of k ''addr'')))"

definition serve_error :: "string \<Rightarrow> string \<Rightarrow> bool \<Rightarrow> nat \<Rightarrow> command_result" where
  "serve_error code message again status =
     CR_Error \<lparr>cf_code = code, cf_message = message, cf_retryable = again, cf_exit = status\<rparr>"

text \<open>The service ends when the HTTP server does: the scheduler loops, so its result is never the one selected.\<close>

definition serve_run :: "libs \<Rightarrow> (socket_addr \<Rightarrow> string) \<Rightarrow> (socket_addr \<Rightarrow> (unit, string) result) \<Rightarrow> json \<Rightarrow> command_result" where
  "serve_run L text serve_http options =
     (case serve_options L options of
        Err e \<Rightarrow> serve_error ''invalid_query'' e False 2
      | Ok addr \<Rightarrow>
     (case parse_address addr of
        Err e \<Rightarrow> serve_error ''invalid_query'' e False 2
      | Ok address \<Rightarrow>
     (case serve_http address of
        Ok _ \<Rightarrow> CR_Ok (json_object [(''listening'', JString (text address))])
      | Err e \<Rightarrow> serve_error ''operational'' e True 1)))"

lemma default_address_parses: "parse_address None = Ok (Socket_V4 (127, 0, 0, 1) 8737)"
  by code_simp

lemma malformed_address_refused: "parse_address (Some ''not-an-address'') = Err ''invalid socket address syntax''"
  by code_simp

lemma ipv6_address_parses: "parse_address (Some ''[::1]:80'') = Ok (Socket_V6 [0, 0, 0, 0, 0, 0, 0, 1] 0 80)"
  by code_simp

end
