(* ===== verification/Serve_Laws.thy ===== *)
theory Serve_Laws
  imports Serve App_Properties
begin

text \<open>
  No due watch starves: what the scheduler of the service promises over any store that keeps the laws of a
  due watch and the constraints of its tables.
\<close>

definition consistent :: "libs \<Rightarrow> db \<Rightarrow> bool" where
  "consistent L db \<longleftrightarrow> db_ok db \<and> values_ok L db"

locale scheduled_store = due_watch_store +
  assumes claim_keeps: "consistent L db \<Longrightarrow> consistent L (snd (st_claim_due_watch store c db))"
    and start_keeps: "consistent L db \<Longrightarrow> consistent L (snd (st_start_watch_run store r db))"
    and complete_keeps: "consistent L db \<Longrightarrow> consistent L (snd (st_complete_watch_run store q db))"

lemma consistent_sq: "consistent L db \<Longrightarrow> consistent L (sq_apply L q db)"
  by (simp add: consistent_def sq_apply_ok sq_values)

lemma consistent_d1: "consistent L db \<Longrightarrow> consistent L (d1_apply L q db)"
  by (simp add: consistent_def d1_apply_ok d1_values)

interpretation sqlite_scheduled: scheduled_store L "sqlite_store L" for L
  by unfold_locales (auto simp: sqlite_store_def dest: consistent_sq [of _ _ "Req_Claim _"] consistent_sq [of _ _ "Req_Start _"]
    consistent_sq [of _ _ "Req_Complete _"])

interpretation d1_scheduled: scheduled_store L "d1_store L" for L
  by unfold_locales (auto simp: d1_store_def dest: consistent_d1 [of _ _ "Req_Claim _"] consistent_d1 [of _ _ "Req_Start _"]
    consistent_d1 [of _ _ "Req_Complete _"])

section \<open>The watches before one\<close>

definition behind :: "watch \<Rightarrow> watch \<Rightarrow> bool" where
  "behind w v \<longleftrightarrow> w_tenant v = w_tenant w \<and> due_order v \<le> due_order w"

definition waiting :: "watch \<Rightarrow> db \<Rightarrow> watch set" where
  "waiting w db = {v \<in> set (db_watches db). behind w v}"

definition run_done_at :: "comsat_app \<Rightarrow> watch \<Rightarrow> int \<Rightarrow> db \<Rightarrow> bool" where
  "run_done_at app w done_at db \<longleftrightarrow>
     (\<exists>x \<in> set (db_runs db). run_pk x = (w_tenant w, w_id w, run_id_of app w) \<and> run_finished x = Some done_at)"

lemma later_due: "watch_due t earlier w \<Longrightarrow> earlier \<le> now \<Longrightarrow> watch_due t now w"
  by (auto simp: watch_due_def lease_free_def expired_at_def split: option.splits)

lemma startable_time: "startable (start_of app w now) db \<longleftrightarrow> startable (start_of app w now') db"
  by (simp add: startable_def run_open_def)

text \<open>A hook that minds the deliveries only.\<close>

definition hook_ok :: "libs \<Rightarrow> (tick \<Rightarrow> db \<Rightarrow> db) \<Rightarrow> bool" where
  "hook_ok L hook \<longleftrightarrow> (\<forall>t db. consistent L db \<longrightarrow>
     consistent L (hook t db) \<and> db_watches (hook t db) = db_watches db \<and> db_runs (hook t db) = db_runs db)"

lemma hook_same:
  "db_watches db' = db_watches db \<Longrightarrow> db_runs db' = db_runs db \<Longrightarrow>
    waiting w db' = waiting w db \<and> run_done_at app w d db' = run_done_at app w d db \<and> startable q db' = startable q db"
  by (simp add: waiting_def run_done_at_def startable_def)

context scheduled_store
begin

lemma tick_consistent:
  assumes "consistent L db" "app_store app = Some store" "base_libs N = L"
  shows "consistent L (snd (run_due_watch_once N app now done_at db))"
proof -
  have claim: "consistent L db'" if "app_claim_due_watch app store now db = (r, db')" "consistent L db" for r db db'
    using claim_keeps [OF that(2), of "claim_request app now"] that(1) by (auto simp: app_claim_due_watch_def split: prod.splits)
  have start: "consistent L db'" if "app_start_watch_run app store claim run now db = (r, db')" "consistent L db" for claim run r db db'
    using start_keeps [OF that(2), of "start_request app claim run now"] that(1)
    by (auto simp: app_start_watch_run_def split: prod.splits)
  have complete: "consistent L (snd (app_complete_watch_run N app store claim run out done_at db))" if "consistent L db" for claim run out db
    using complete_keeps [OF that, of "completion_request N app claim run out done_at"]
    by (auto simp: app_complete_watch_run_def split: prod.splits)
  obtain rc db1 where c: "app_claim_due_watch app store now db = (rc, db1)" by fastforce
  note ok1 = claim [OF c assms(1)]
  show ?thesis
  proof (cases "\<exists>got. rc = Ok (Some got)")
    case True
    then obtain got where got: "rc = Ok (Some got)" by blast
    obtain rs db2 where s: "app_start_watch_run app store got (watch_run_id app got) now db1 = (rs, db2)" by fastforce
    show ?thesis
      using complete [OF start [OF s ok1]] start [OF s ok1] c s got assms(2)
      by (cases rs) (simp_all add: run_due_watch_once_def Let_def)
  next
    case False
    then have "snd (run_due_watch_once N app now done_at db) = db1"
      using c assms(2) by (auto simp: run_due_watch_once_def split: sum.split option.split)
    then show ?thesis using ok1 by simp
  qed
qed

text \<open>A tick that finds a watch due runs it, or one that is due before it; what was waiting before the watch is
  one less, and what is still waiting can still be run.\<close>

lemma tick_progress:
  assumes ok: "consistent L db" and store: "app_store app = Some store" and N: "base_libs N = L"
    and w: "w \<in> set (db_watches db)" "watch_due (app_tenant app) now w" and clock: "now \<le> done_at"
    and ready: "\<And>v. v \<in> waiting w db \<Longrightarrow> tick_ready N app v now done_at \<and> startable (start_of app v now) db \<and>
      records_json_check L (completion_of N app v done_at) = Ok ()"
    and tick: "run_due_watch_once N app now done_at db = (outcome, db')"
  shows "run_done_at app w done_at db' \<or>
    (w \<in> set (db_watches db') \<and> waiting w db' \<subset> waiting w db \<and>
     (\<forall>v \<in> waiting w db'. startable (start_of app v now) db'))"
proof -
  have dbok: "db_ok db" "values_ok L db" using ok by (simp_all add: consistent_def)
  have tenant: "cd_tenant (claim_request app now) = app_tenant app" "cd_now (claim_request app now) = now"
    by (simp_all add: claim_request_def)
  have "select_due_watch (claim_request app now) db \<noteq> None"
  proof -
    have "w \<in> set (select_ordered (watch_due (app_tenant app) now) due_order (db_watches db))"
      using w by (simp add: set_select_ordered)
    then show ?thesis
      by (cases "select_ordered (watch_due (app_tenant app) now) due_order (db_watches db)") (simp_all add: select_due_watch_def tenant)
  qed
  then obtain x where x: "select_due_watch (claim_request app now) db = Some x" by blast
  from select_due_watch_Some [OF x] w have xw: "x \<in> set (db_watches db)" "watch_due (app_tenant app) now x" "x \<in> waiting w db"
    by (auto simp: waiting_def behind_def tenant watch_due_def)
  note r = ready [OF xw(3)]
  from tick_runs [OF dbok conjunct1 [OF r] N store x] r
  obtain out db1 db2 where run: "run_due_watch_once N app now done_at db = (Ok (Some out), db2)"
      "completion_effect (completion_of N app x done_at) db1 out db2"
      "db_watches db1 = db_watches (leased_db x (app_owner app) (now + 60) db)"
      "db_runs db1 = db_runs db \<or> db_runs db1 = db_runs db @ [new_run (start_of app x now)]"
      "exists_where (run_open (start_of app x now)) (db_runs db1)" by metis
  have db2: "db2 = db'" using run(1) tick by simp
  let ?closed = "x\<lparr>w_next_due := done_at + int (w_interval x), w_lease_owner := None, w_lease_expires := None\<rparr>"
  have ws: "set (db_watches db') = (\<lambda>v. if v = x then ?closed else v) ` set (db_watches db)"
    using completion_watches [OF dbok(1) xw(1) run(2, 3)] unfolding db2 by auto
  show ?thesis
  proof (cases "x = w")
    case True
    obtain y where y: "y \<in> set (db_runs db1)" "run_pk y = (w_tenant x, w_id x, run_id_of app x)"
      using run(5) by (auto simp: exists_where_def run_open_def)
    have "closed_run (completion_of N app x done_at) y \<in> set (db_runs db')"
      using run(2) y unfolding db2 by (auto simp: completion_effect_def update_where_def)
    moreover have "run_pk (closed_run (completion_of N app x done_at) y) = run_pk y"
      "run_finished (closed_run (completion_of N app x done_at) y) = Some done_at"
      by (simp_all add: closed_run_def run_pk_def)
    ultimately show ?thesis using y(2) True by (auto simp: run_done_at_def)
  next
    case False
    have "1 \<le> w_interval x" using dbok(1) xw(1) by (auto simp: db_ok_def rows_ok_def list_all_iff watch_ok_def)
    then have "w_next_due w < w_next_due ?closed" using w(2) clock by (simp add: watch_due_def)
    then have gone: "\<not> behind w ?closed" by (auto simp: behind_def due_order_def)
    have "waiting w db' = waiting w db - {x}"
    proof -
      have "v \<in> waiting w db' \<longleftrightarrow> v \<in> waiting w db - {x}" for v
        unfolding waiting_def ws using gone by (auto split: if_splits) (metis+)?
      then show ?thesis by blast
    qed
    moreover have "startable (start_of app v now) db'" if v: "v \<in> waiting w db" "v \<noteq> x" for v
    proof -
      have "watch_key v \<noteq> watch_key x"
        using v unique_byD [of watch_key "db_watches db" v x] dbok(1) xw(1) by (auto simp: db_ok_def keys_ok_def waiting_def)
      then have other: "(w_tenant v, w_id v) \<noteq> (w_tenant x, w_id x)" by (simp add: watch_key_def)
      have "y \<in> set (db_runs db)" if y: "y \<in> set (db_runs db')" "(run_tenant y, run_watch y) = (w_tenant v, w_id v)" for y
      proof -
        from y(1) run(2) obtain z where z: "z \<in> set (db_runs db1)"
          "y = z \<or> y = closed_run (completion_of N app x done_at) z \<and> run_pk z = (w_tenant x, w_id x, run_id_of app x)"
          unfolding db2 by (auto simp: completion_effect_def update_where_def split: if_splits)
        with y(2) other have "y = z" by (auto simp: closed_run_def run_pk_def)
        with z(1) run(4) y(2) other show ?thesis by (auto simp: new_run_def)
      qed
      moreover have "startable (start_of app v now) db" using ready [OF v(1)] by blast
      ultimately show ?thesis unfolding startable_def by (auto simp: run_pk_def run_idem_def)
    qed
    moreover have "w \<in> set (db_watches db')" unfolding ws using w(1) False by auto
    ultimately show ?thesis using xw(3) by auto
  qed
qed

lemma scheduler_reaches:
  assumes "consistent L db" "app_store app = Some store" "base_libs N = L" "hook_ok L hook"
    and "w \<in> set (db_watches db)" "watch_due (app_tenant app) earlier w"
    and "\<forall>t \<in> set ts. earlier \<le> fst t \<and> fst t \<le> snd t"
    and "\<forall>v \<in> waiting w db. startable (start_of app v earlier) db \<and>
      (\<forall>t \<in> set ts. tick_ready N app v (fst t) (snd t) \<and> records_json_check L (completion_of N app v (snd t)) = Ok ())"
    and "card (waiting w db) \<le> length ts"
  shows "\<exists>k < length ts. run_done_at app w (snd (ts ! k)) (snd (run_scheduler N app hook (take (Suc k) ts) db))"
  using assms(1, 5, 7-9)
proof (induction ts arbitrary: db)
  case Nil
  have "finite (waiting w db)" by (simp add: waiting_def)
  moreover have "w \<in> waiting w db" using Nil.prems(2) by (simp add: waiting_def behind_def)
  ultimately show ?case using Nil.prems(5) by auto
next
  case (Cons t ts)
  obtain outcome db1 where tick: "run_due_watch_once N app (fst t) (snd t) db = (outcome, db1)" by fastforce
  have c1: "consistent L db1" using tick_consistent [OF Cons.prems(1) assms(2, 3), of "fst t" "snd t"] tick by simp
  let ?db = "hook t db1"
  have hook: "consistent L ?db" "db_watches ?db = db_watches db1" "db_runs ?db = db_runs db1"
    using assms(4) c1 unfolding hook_ok_def by blast+
  note same = hook_same [OF hook(2, 3)]
  have time: "startable (start_of app v (fst t)) d = startable (start_of app v earlier) d" for v d by (rule startable_time)
  have first: "snd (run_scheduler N app hook (t # rest) db) = snd (run_scheduler N app hook rest ?db)" for rest
    using tick by (simp add: watch_tick_def split: prod.split)
  have "run_done_at app w (snd t) db1 \<or> (w \<in> set (db_watches db1) \<and> waiting w db1 \<subset> waiting w db \<and>
      (\<forall>v \<in> waiting w db1. startable (start_of app v (fst t)) db1))"
    using Cons.prems(3, 4)
    by (intro tick_progress [OF Cons.prems(1) assms(2, 3) Cons.prems(2) later_due [OF assms(6)] _ _ tick])
      (simp_all add: time)
  then show ?case
  proof
    assume "run_done_at app w (snd t) db1"
    then show ?thesis using first [of "[]"] same by (intro exI [of _ 0]) simp
  next
    assume left: "w \<in> set (db_watches db1) \<and> waiting w db1 \<subset> waiting w db \<and>
      (\<forall>v \<in> waiting w db1. startable (start_of app v (fst t)) db1)"
    have "card (waiting w db1) < card (waiting w db)"
      using left by (intro psubset_card_mono) (simp_all add: waiting_def)
    then have "card (waiting w ?db) \<le> length ts" using Cons.prems(5) same by simp
    moreover have "\<forall>v \<in> waiting w ?db. startable (start_of app v earlier) ?db \<and>
        (\<forall>t \<in> set ts. tick_ready N app v (fst t) (snd t) \<and> records_json_check L (completion_of N app v (snd t)) = Ok ())"
      using left Cons.prems(4) unfolding time by (auto simp: same psubset_eq subset_eq)
    ultimately obtain k where "k < length ts"
      "run_done_at app w (snd (ts ! k)) (snd (run_scheduler N app hook (take (Suc k) ts) ?db))"
      using Cons.IH [OF hook(1)] left hook(2) Cons.prems(3) by auto
    then show ?thesis using first [of "take (Suc k) ts"] by (intro exI [of _ "Suc k"]) simp
  qed
qed

end

section \<open>The hook of the native service\<close>

definition native_hook :: "net_libs \<Rightarrow> http_client \<Rightarrow> comsat_app \<Rightarrow> (tick \<Rightarrow> int \<times> int \<times> int) \<Rightarrow> tick \<Rightarrow> db \<Rightarrow> db" where
  "native_hook N client app clock t db =
     (case clock t of (named, now, done_at) \<Rightarrow> snd (snd (deliver_pending_once N client app named now done_at db)))"

definition deliveries_only :: "libs \<Rightarrow> (db \<Rightarrow> db) \<Rightarrow> bool" where
  "deliveries_only L f \<longleftrightarrow> (\<forall>db. consistent L db \<longrightarrow>
     consistent L (f db) \<and> db_watches (f db) = db_watches db \<and> db_runs (f db) = db_runs db)"

lemma sq_delivery_tables:
  "db_watches (snd (sq_claim_pending_delivery c db)) = db_watches db" "db_runs (snd (sq_claim_pending_delivery c db)) = db_runs db"
  "db_watches (snd (sq_complete_delivery q db)) = db_watches db" "db_runs (snd (sq_complete_delivery q db)) = db_runs db"
  by (simp_all add: sq_claim_pending_delivery_def claim_delivery_rows_def sq_complete_delivery_def Let_def split: sum.split option.split)

lemma sq_deliveries_only:
  "deliveries_only L (\<lambda>db. snd (sq_claim_pending_delivery c db))" "deliveries_only L (\<lambda>db. snd (sq_complete_delivery q db))"
  using consistent_sq [of L _ "Req_Claim_Delivery c"] consistent_sq [of L _ "Req_Complete_Delivery q"]
  by (simp_all add: deliveries_only_def sq_delivery_tables)

lemma d1_deliveries_only:
  "deliveries_only L (\<lambda>db. snd (d1_claim_pending_delivery c db))" "deliveries_only L (\<lambda>db. snd (d1_complete_delivery q db))"
  using sq_deliveries_only(1) [of L c] sq_deliveries_only(2) [of L q] by (simp_all add: deliveries_only_def consistent_def d1_claim_pending_delivery_snd d1_complete_delivery_same)

lemma deliver_webhook_only:
  assumes "\<And>c. deliveries_only L (\<lambda>db. snd (claim c db))" "\<And>q. deliveries_only L (\<lambda>db. snd (complete q db))"
  shows "deliveries_only L (\<lambda>db. snd (snd (deliver_pending_webhook claim complete N client config attempt finished_at db)))"
proof -
  have claim: "consistent L db1 \<and> db_watches db1 = db_watches db \<and> db_runs db1 = db_runs db"
    if "claim c db = (r, db1)" "consistent L db" for c r db db1
    using assms(1) [of c, unfolded deliveries_only_def, rule_format, OF that(2)] that(1) by simp
  have complete: "consistent L db1 \<and> db_watches db1 = db_watches db \<and> db_runs db1 = db_runs db"
    if "complete c db = (r, db1)" "consistent L db" for c r db db1
    using assms(2) [of c, unfolded deliveries_only_def, rule_format, OF that(2)] that(1) by simp
  have send: "consistent L db1 \<and> db_watches db1 = db_watches db \<and> db_runs db1 = db_runs db"
    if "claim_and_send claim N client config attempt db = (r, requests, db1)" "consistent L db" for r requests db db1
    using that claim by (auto simp: claim_and_send_def split: prod.splits sum.splits option.splits)
  show ?thesis
    unfolding deliveries_only_def
  proof (intro allI impI)
    fix db assume c: "consistent L db"
    obtain r requests db1 where s: "claim_and_send claim N client config attempt db = (r, requests, db1)" by (metis prod.exhaust)
    note s1 = send [OF s c]
    show "consistent L (snd (snd (deliver_pending_webhook claim complete N client config attempt finished_at db))) \<and>
        db_watches (snd (snd (deliver_pending_webhook claim complete N client config attempt finished_at db))) = db_watches db \<and>
        db_runs (snd (snd (deliver_pending_webhook claim complete N client config attempt finished_at db))) = db_runs db"
      using s s1 complete by (auto simp: deliver_pending_webhook_def split: prod.split sum.split option.split)
  qed
qed

lemma native_hook_ok:
  assumes "app_store app = Some (sqlite_store L) \<or> app_store app = Some (d1_store L)"
  shows "hook_ok L (native_hook N client app clock)"
proof -
  have sq: "deliveries_only L (\<lambda>db. snd (snd (deliver_pending_webhook sq_claim_pending_delivery sq_complete_delivery N client config attempt done_at db)))"
    and d1: "deliveries_only L (\<lambda>db. snd (snd (deliver_pending_webhook d1_claim_pending_delivery d1_complete_delivery N client config attempt done_at db)))"
    for config attempt done_at
    by (rule deliver_webhook_only; rule sq_deliveries_only d1_deliveries_only)+
  have once: "snd (snd (deliver_pending_once N client app named now done_at db)) =
      (case app_delivery app of None \<Rightarrow> db
       | Some config \<Rightarrow> snd (snd (deliver_pending_webhook (st_claim_pending_delivery store) (st_complete_delivery store) N client config
          \<lparr>da_tenant = app_tenant app, da_owner = app_owner app @ '':'' @ int_str named, da_now = now\<rparr> done_at db)))"
    if "app_store app = Some store" for store named now done_at db
    using that by (simp add: deliver_pending_once_def the_store_def split: option.split prod.split)
  have "deliveries_only L (\<lambda>db. snd (snd (deliver_pending_once N client app named now done_at db)))" for named now done_at
    using assms
  proof
    assume "app_store app = Some (sqlite_store L)"
    from once [OF this] show ?thesis using sq by (cases "app_delivery app") (simp_all add: deliveries_only_def sqlite_store_def)
  next
    assume "app_store app = Some (d1_store L)"
    from once [OF this] show ?thesis using d1 by (cases "app_delivery app") (simp_all add: deliveries_only_def d1_store_def)
  qed
  then show ?thesis
    by (auto simp: hook_ok_def native_hook_def deliveries_only_def split: prod.split)
qed

section \<open>No due watch starves\<close>

text \<open>C28: A due watch is not starved by the others, over SQLite or D1: when a watch is due at some time, the
  scheduler of the service finishes a run of it within as many ticks from then on as there are watches
  of the tenant due no later than it, itself included, whatever else comes due in the meantime and whatever
  the hook after each tick does to the deliveries; provided that each of those watches can be run, as its
  ticks need, and no run of it stands in the way.\<close>

theorem due_watch_never_starves:
  assumes "consistent (base_libs N) db" "app_store app = Some store"
    and "store = sqlite_store (base_libs N) \<or> store = d1_store (base_libs N)" "hook_ok (base_libs N) hook"
    and "w \<in> set (db_watches db)" "watch_due (app_tenant app) earlier w"
    and "\<forall>t \<in> set ts. earlier \<le> fst t \<and> fst t \<le> snd t"
    and "\<forall>v \<in> waiting w db. startable (start_of app v earlier) db \<and>
      (\<forall>t \<in> set ts. tick_ready N app v (fst t) (snd t) \<and>
        records_json_check (base_libs N) (completion_of N app v (snd t)) = Ok ())"
    and "card (waiting w db) \<le> length ts"
  shows "\<exists>k < length ts. run_done_at app w (snd (ts ! k)) (snd (run_scheduler N app hook (take (Suc k) ts) db))"
  using assms(3)
proof
  assume "store = sqlite_store (base_libs N)"
  with assms(2) show ?thesis by (intro sqlite_scheduled.scheduler_reaches [OF assms(1) _ refl assms(4-9)]) simp
next
  assume "store = d1_store (base_libs N)"
  with assms(2) show ?thesis by (intro d1_scheduled.scheduler_reaches [OF assms(1) _ refl assms(4-9)]) simp
qed

lemma example_watch_runs:
  assumes "v = example_watch ''w1'' 10 None None \<or> v = example_watch ''w2'' 5 (Some ''a'') (Some 100)"
    and "clock_ok now" "clock_ok done_at" "done_at < now + 60"
  shows "startable (start_of (example_app d1_store) v now) example_db" "tick_ready example_tick_net (example_app d1_store) v now done_at"
    "records_json_check (base_libs example_tick_net) (completion_of example_tick_net (example_app d1_store) v done_at) = Ok ()"
proof -
  show "startable (start_of (example_app d1_store) v now) example_db"
    using assms(1) by (auto simp: startable_def example_db_def example_run_def run_pk_def run_idem_def run_id_of_def watch_run_id_def
        claim_of_def example_watch_def)
  have "validate_storage_id (''w1:comsat-native:'' @ int_str 10) ''run_id'' = Ok ()" by code_simp
  then have "validate_storage_id (run_id_of (example_app d1_store) v) ''run_id'' = Ok ()"
    using assms(1) example_app_facts(7) [of d1_store]
    by (auto simp: run_id_of_def watch_run_id_def claim_of_def example_watch_def)
  moreover have "claim_request (example_app d1_store) now = (claim_request (example_app d1_store) 110)\<lparr>cd_now := now\<rparr>"
    by (simp add: claim_request_def)
  then have "claim_due_watch_validate (claim_request (example_app d1_store) now) = claim_due_watch_validate (claim_request (example_app d1_store) 110)"
    by (simp add: claim_due_watch_validate_def)
  ultimately show "tick_ready example_tick_net (example_app d1_store) v now done_at"
    using assms(2-4) example_app_facts(3, 5, 6) by (simp add: tick_ready_def)
  have "watch_search v = watch_search (example_watch ''w2'' 5 (Some ''a'') (Some 100))"
    using assms(1) by (auto simp: watch_search_def example_watch_def)
  then have "cr_records (completion_of example_tick_net (example_app d1_store) v done_at) = [example_record ''web'' ''a'' ''https://x'']"
    using example_app_facts(2) example_search by simp
  moreover have "json_len example_libs (JArray (map (bulk_record_json example_libs) [example_record ''web'' ''a'' ''https://x''])) \<le> max_records_json_bytes"
    by code_simp
  ultimately show "records_json_check (base_libs example_tick_net) (completion_of example_tick_net (example_app d1_store) v done_at) = Ok ()"
    using example_app_facts(2) by (simp add: records_json_check_def)
qed

theorem due_watch_never_starves_witness:
  "\<exists>k < 2. run_done_at (example_app d1_store) (example_watch ''w1'' 10 None None) ([120, 150] ! k)
     (snd (run_scheduler example_tick_net (example_app d1_store)
        (native_hook example_tick_net (\<lambda>rq. Ok 200) (example_app d1_store) (\<lambda>t. (0, 125, 126)))
        (take (Suc k) [(110, 120), (140, 150)]) example_db))"
proof -
  let ?w = "example_watch ''w1'' 10 None None" and ?app = "example_app d1_store" and ?ts = "[(110, 120), (140, 150)] :: tick list"
  have sub: "waiting ?w example_db \<subseteq> set [?w, example_watch ''w2'' 5 (Some ''a'') (Some 100)]"
    by (auto simp: waiting_def example_db_def)
  then have n: "card (waiting ?w example_db) \<le> length ?ts"
    using card_mono [OF _ sub] card_length [of "[?w, example_watch ''w2'' 5 (Some ''a'') (Some 100)]"] by simp
  have store: "app_store ?app = Some (d1_store (base_libs example_tick_net))" using example_app_facts(2) by simp
  have c: "consistent (base_libs example_tick_net) example_db"
    using example_app_facts(1, 2) example_db_ok by (simp add: consistent_def)
  have w: "?w \<in> set (db_watches example_db)" "watch_due (app_tenant ?app) 110 ?w"
    by (simp_all add: example_db_def watch_due_def example_watch_def lease_free_def)
  have ticks: "\<forall>t \<in> set ?ts. 110 \<le> fst t \<and> fst t \<le> snd t" by simp
  have ready: "\<forall>v \<in> waiting ?w example_db. startable (start_of ?app v 110) example_db \<and>
      (\<forall>t \<in> set ?ts. tick_ready example_tick_net ?app v (fst t) (snd t) \<and>
        records_json_check (base_libs example_tick_net) (completion_of example_tick_net ?app v (snd t)) = Ok ())"
    using sub example_watch_runs [of _ 110 120] example_watch_runs [of _ 140 150] by (auto simp: clock_ok_def)
  have hook: "hook_ok (base_libs example_tick_net) (native_hook example_tick_net (\<lambda>rq. Ok 200) ?app (\<lambda>t. (0, 125, 126)))"
    by (rule native_hook_ok [OF disjI2 [OF store]])
  obtain k where k: "k < length ?ts" "run_done_at ?app ?w (snd (?ts ! k)) (snd (run_scheduler example_tick_net ?app
      (native_hook example_tick_net (\<lambda>rq. Ok 200) ?app (\<lambda>t. (0, 125, 126))) (take (Suc k) ?ts) example_db))"
    using due_watch_never_starves [OF c store disjI2 [OF refl] hook w ticks ready n] by blast
  have "length ?ts = 2" "snd (?ts ! k) = [120, 150] ! k" using k(1) by (auto simp: less_Suc_eq)
  with k show ?thesis by metis
qed

end
