(* ===== verification/Native_Store.thy ===== *)
theory Native_Store
  imports Store_Properties
begin

text \<open>
  The store of the native command (\<open>comsat-cli/src/native_store.rs\<close>): a SQLite store behind a path. A
  database that is not there is read as an empty one and never created by a read; the first write creates
  it. The file is an optional database; the outcomes of creating the directory and of opening are
  parameters.
\<close>

record file_system =
  fs_create_dir :: "string option"
  fs_open :: "string option"

type_synonym database_file = "db option"

definition fs_step :: "string option \<Rightarrow> unit store_result" where
  "fs_step failure = (case failure of None \<Rightarrow> Ok () | Some e \<Rightarrow> Err (Store_Backend e))"

text \<open>A new file is an empty database with the tables.\<close>

definition opened_db :: "database_file \<Rightarrow> db" where
  "opened_db disk = (case disk of None \<Rightarrow> empty_db | Some db \<Rightarrow> db)"

definition open_read :: "file_system \<Rightarrow> database_file \<Rightarrow> db option store_result" where
  "open_read F disk = (case disk of None \<Rightarrow> Ok None | Some db \<Rightarrow> and_then (fs_step (fs_open F)) (\<lambda>_. Ok (Some db)))"

definition open_write :: "file_system \<Rightarrow> database_file \<Rightarrow> db store_result" where
  "open_write F disk =
     and_then (fs_step (fs_create_dir F)) (\<lambda>_. and_then (fs_step (fs_open F)) (\<lambda>_. Ok (opened_db disk)))"

definition lazy_write ::
  "file_system \<Rightarrow> (db \<Rightarrow> 'a store_result \<times> db) \<Rightarrow> database_file \<Rightarrow> 'a store_result \<times> database_file" where
  "lazy_write F f disk =
     (case open_write F disk of
        Err e \<Rightarrow> (Err e, disk)
      | Ok db \<Rightarrow> (case f db of (r, db) \<Rightarrow> (r, Some db)))"

definition lazy_read ::
  "file_system \<Rightarrow> 'a \<Rightarrow> (db \<Rightarrow> 'a store_result \<times> db) \<Rightarrow> database_file \<Rightarrow> 'a store_result \<times> database_file" where
  "lazy_read F missing f disk =
     (case open_read F disk of
        Err e \<Rightarrow> (Err e, disk)
      | Ok None \<Rightarrow> (Ok missing, disk)
      | Ok (Some db) \<Rightarrow> (case f db of (r, db) \<Rightarrow> (r, Some db)))"

definition query_only :: "(db \<Rightarrow> 'a store_result) \<Rightarrow> db \<Rightarrow> 'a store_result \<times> db" where
  "query_only f db = (f db, db)"

definition lz_upsert_source where "lz_upsert_source F r = lazy_write F (sq_upsert_source r)"
definition lz_create_watch where "lz_create_watch F L r = lazy_write F (sq_create_watch L r)"
definition lz_list_watches where "lz_list_watches F t = lazy_read F [] (query_only (sq_list_watches t))"
definition lz_delete_watch where "lz_delete_watch F r = lazy_read F False (sq_delete_watch r)"
definition lz_claim_due_watch where "lz_claim_due_watch F r = lazy_read F None (sq_claim_due_watch r)"
definition lz_start_watch_run where "lz_start_watch_run F r = lazy_write F (sq_start_watch_run r)"
definition lz_complete_watch_run where "lz_complete_watch_run F L r = lazy_write F (sq_complete_watch_run L r)"
definition lz_history where "lz_history F r = lazy_read F [] (query_only (sq_history r))"
definition lz_claim_pending_delivery where "lz_claim_pending_delivery F r = lazy_read F None (sq_claim_pending_delivery r)"
definition lz_complete_delivery where "lz_complete_delivery F r = lazy_write F (sq_complete_delivery r)"
definition lz_list_deliveries where "lz_list_deliveries F r = lazy_read F [] (query_only (sq_list_deliveries r))"

section \<open>The path\<close>

text \<open>\<open>database_path\<close>: the environment, and how paths are joined.\<close>

definition database_path ::
  "(string \<Rightarrow> string \<Rightarrow> string) \<Rightarrow> (string \<Rightarrow> string option) \<Rightarrow> string \<Rightarrow> string" where
  "database_path push env temp_dir =
     push (case env ''COMSAT_DATA_DIR'' of Some d \<Rightarrow> d
       | None \<Rightarrow> (case env ''XDG_DATA_HOME'' of Some root \<Rightarrow> push root ''comsat''
       | None \<Rightarrow> (case env ''HOME'' of Some home \<Rightarrow> push home ''.local/share/comsat''
       | None \<Rightarrow> push temp_dir ''comsat''))) ''comsat.sqlite3''"

section \<open>A file refines a database\<close>

definition fs_works :: "file_system \<Rightarrow> bool" where
  "fs_works F \<longleftrightarrow> fs_create_dir F = None \<and> fs_open F = None"

fun lz_apply :: "file_system \<Rightarrow> libs \<Rightarrow> store_request \<Rightarrow> database_file \<Rightarrow> database_file" where
  "lz_apply F L (Req_Upsert r) disk = snd (lz_upsert_source F r disk)"
| "lz_apply F L (Req_Create r) disk = snd (lz_create_watch F L r disk)"
| "lz_apply F L (Req_Delete r) disk = snd (lz_delete_watch F r disk)"
| "lz_apply F L (Req_Claim r) disk = snd (lz_claim_due_watch F r disk)"
| "lz_apply F L (Req_Start r) disk = snd (lz_start_watch_run F r disk)"
| "lz_apply F L (Req_Complete r) disk = snd (lz_complete_watch_run F L r disk)"
| "lz_apply F L (Req_Claim_Delivery r) disk = snd (lz_claim_pending_delivery F r disk)"
| "lz_apply F L (Req_Complete_Delivery r) disk = snd (lz_complete_delivery F r disk)"

lemma lazy_write_refines:
  "fs_works F \<Longrightarrow> lazy_write F f disk = (fst (f (opened_db disk)), Some (snd (f (opened_db disk))))"
  by (simp add: lazy_write_def open_write_def fs_works_def fs_step_def split: prod.split)

text \<open>What an operation does on an empty database: nothing, and the answer for a missing file unless it
  refuses the request.\<close>

definition idle_on_empty :: "'a \<Rightarrow> (db \<Rightarrow> 'a store_result \<times> db) \<Rightarrow> bool" where
  "idle_on_empty missing f \<longleftrightarrow> snd (f empty_db) = empty_db \<and>
     (case fst (f empty_db) of Err e \<Rightarrow> True | Ok x \<Rightarrow> x = missing)"

definition lenient :: "'a \<Rightarrow> database_file \<Rightarrow> 'a store_result \<Rightarrow> 'a store_result" where
  "lenient missing disk answer = (if disk = None then Ok missing else answer)"

lemma lazy_read_refines:
  "fs_works F \<Longrightarrow> lazy_read F missing f disk =
    (lenient missing disk (fst (f (opened_db disk))), map_option (\<lambda>db. snd (f db)) disk)"
  by (cases disk)
    (simp_all add: lazy_read_def open_read_def fs_works_def fs_step_def opened_db_def lenient_def split: prod.split)

lemma lenient_empty:
  "idle_on_empty missing f \<Longrightarrow> is_ok (fst (f (opened_db disk))) \<Longrightarrow>
    lenient missing disk (fst (f (opened_db disk))) = fst (f (opened_db disk))"
  by (auto simp: idle_on_empty_def lenient_def opened_db_def is_ok_iff split: option.splits)

lemma idle_snd: "idle_on_empty missing f \<Longrightarrow> opened_db (map_option (\<lambda>db. snd (f db)) disk) = snd (f (opened_db disk))"
  by (cases disk) (simp_all add: idle_on_empty_def opened_db_def)

lemmas empty_table_simps = empty_db_def select_ordered_def order_by_def update_where_def
  count_where_def delete_where_def exists_where_def idle_on_empty_def query_only_def

lemma idle_list_watches: "idle_on_empty [] (query_only (sq_list_watches t))"
  by (auto simp: sq_list_watches_def empty_table_simps split: sum.splits)

lemma idle_history: "idle_on_empty [] (query_only (sq_history r))"
  by (auto simp: sq_history_def history_for_watch_def history_for_tenant_def watch_record_join_def 
      empty_table_simps split: sum.splits)

lemma idle_list_deliveries: "idle_on_empty [] (query_only (sq_list_deliveries r))"
  by (auto simp: sq_list_deliveries_def empty_table_simps split: sum.splits)

lemma idle_delete: "idle_on_empty False (sq_delete_watch r)"
  by (auto simp: sq_delete_watch_def delete_watch_rows_def Let_def empty_table_simps split: sum.splits)

lemma idle_claim: "idle_on_empty None (sq_claim_due_watch r)"
  by (auto simp: sq_claim_due_watch_def select_due_watch_def empty_table_simps split: sum.splits)

lemma idle_claim_delivery: "idle_on_empty None (sq_claim_pending_delivery r)"
  by (auto simp: sq_claim_pending_delivery_def claim_delivery_rows_def next_delivery_def empty_table_simps
      split: sum.splits)

lemmas idle_ops = idle_list_watches idle_history idle_list_deliveries idle_delete idle_claim idle_claim_delivery

lemmas lazy_ops = lz_upsert_source_def lz_create_watch_def lz_list_watches_def lz_delete_watch_def
  lz_claim_due_watch_def lz_start_watch_run_def lz_complete_watch_run_def lz_history_def
  lz_claim_pending_delivery_def lz_complete_delivery_def lz_list_deliveries_def

lemma opened_Some [simp]: "opened_db (Some db) = db"
  by (simp add: opened_db_def)

lemma lz_apply_refines: "fs_works F \<Longrightarrow> opened_db (lz_apply F L q disk) = sq_apply L q (opened_db disk)"
  by (cases q) (simp_all add: lazy_ops lazy_write_refines lazy_read_refines idle_snd [OF idle_delete]
      idle_snd [OF idle_claim] idle_snd [OF idle_claim_delivery])

lemma lz_applies_refine:
  "fs_works F \<Longrightarrow> opened_db (fold (lz_apply F L) qs disk) = fold (sq_apply L) qs (opened_db disk)"
  by (induction qs arbitrary: disk) (simp_all add: lz_apply_refines)

text \<open>A missing file answers each read as an empty one does, but for a request the store would refuse.\<close>

lemma lz_reads_refine:
  assumes "fs_works F"
  shows "is_ok (sq_list_watches t (opened_db disk)) \<Longrightarrow> fst (lz_list_watches F t disk) = sq_list_watches t (opened_db disk)"
    and "is_ok (fst (sq_delete_watch d (opened_db disk))) \<Longrightarrow> fst (lz_delete_watch F d disk) = fst (sq_delete_watch d (opened_db disk))"
    and "is_ok (fst (sq_claim_due_watch c (opened_db disk))) \<Longrightarrow> fst (lz_claim_due_watch F c disk) = fst (sq_claim_due_watch c (opened_db disk))"
    and "is_ok (sq_history h (opened_db disk)) \<Longrightarrow> fst (lz_history F h disk) = sq_history h (opened_db disk)"
    and "is_ok (fst (sq_claim_pending_delivery p (opened_db disk))) \<Longrightarrow>
      fst (lz_claim_pending_delivery F p disk) = fst (sq_claim_pending_delivery p (opened_db disk))"
    and "is_ok (sq_list_deliveries l (opened_db disk)) \<Longrightarrow> fst (lz_list_deliveries F l disk) = sq_list_deliveries l (opened_db disk)"
  using assms lenient_empty [OF idle_list_watches] lenient_empty [OF idle_delete] lenient_empty [OF idle_claim]
    lenient_empty [OF idle_history] lenient_empty [OF idle_claim_delivery] lenient_empty [OF idle_list_deliveries]
  by (simp_all add: lazy_ops lazy_read_refines query_only_def)

text \<open>A read leaves no file behind, whatever the file system does.\<close>

lemma lazy_read_no_file: "lazy_read F missing f None = (Ok missing, None)"
  by (simp add: lazy_read_def open_read_def)

section \<open>What a file promises\<close>

text \<open>The native store is the SQLite store on the database in its file: where the directory and the
  file can be opened, any sequence of requests leaves the database SQLite would have, starting from an
  empty one when there is no file; writes answer as SQLite does, and reads do once the file is there. A
  read of a missing file answers nothing, also to a request SQLite would refuse, and creates no file.\<close>

theorem lazy_store_refines:
  assumes "fs_works F"
  shows "opened_db (fold (lz_apply F L) qs disk) = fold (sq_apply L) qs (opened_db disk) \<and>
    fst (lz_create_watch F L w disk) = fst (sq_create_watch L w (opened_db disk)) \<and>
    fst (lz_start_watch_run F s disk) = fst (sq_start_watch_run s (opened_db disk)) \<and>
    fst (lz_complete_watch_run F L r disk) = fst (sq_complete_watch_run L r (opened_db disk)) \<and>
    lz_claim_due_watch F c None = (Ok None, None) \<and>
    lz_history F h None = (Ok [], None) \<and>
    fst (lz_claim_due_watch F c (Some db)) = fst (sq_claim_due_watch c db) \<and>
    fst (lz_history F h (Some db)) = sq_history h db"
  by (simp add: assms lz_applies_refine lazy_ops lazy_write_refines lazy_read_refines lazy_read_no_file
      lenient_def query_only_def)

definition example_fs :: file_system where
  "example_fs = \<lparr>fs_create_dir = None, fs_open = None\<rparr>"

theorem lazy_store_refines_witness:
  "opened_db (fold (lz_apply example_fs example_libs) [Req_Complete example_complete] (Some example_db)) =
     fold (sq_apply example_libs) [Req_Complete example_complete] example_db \<and>
   is_ok (fst (lz_complete_watch_run example_fs example_libs example_complete (Some example_db)))"
proof -
  have "fs_works example_fs" by code_simp
  from lazy_store_refines [OF this, where L = example_libs and disk = "Some example_db" and r = example_complete]
  show ?thesis using example_completes by (metis fst_conv is_ok.simps(2) opened_Some)
qed

end
