(* ===== verification/Codemode_Store.thy ===== *)
theory Codemode_Store
  imports Cloud_Routes
begin

text \<open>
  What the Code Mode runtime keeps (\<open>comsat-store-sqlite/src/codemode.rs\<close>, the tables of
  \<open>migrations/0003_codemode_executions.sql\<close>): executions, snippets and artifacts. The runtime is a library:
  its execution and snippet types are type variables, with the members the store reads and their JSON
  texts as parameters, and so are the JSON text of a value and the SHA-256 digest.
\<close>

record 'v codec =
  cd_encode :: "'v \<Rightarrow> (string, string) result"
  cd_decode :: "string \<Rightarrow> ('v, string) result"

record ('e, 's) runtime_types =
  execution_codec :: "'e codec"
  execution_id_of :: "'e \<Rightarrow> string"
  execution_updated :: "'e \<Rightarrow> nat"
  snippet_codec :: "'s codec"
  snippet_name_of :: "'s \<Rightarrow> string"
  snippet_saved :: "'s \<Rightarrow> nat"
  value_codec :: "json codec"
  sha256_hex :: "string \<Rightarrow> string"

section \<open>The tables\<close>

record execution_row =
  xr_id :: string
  xr_updated :: int
  xr_state :: string

record artifact_row =
  ar_execution :: string
  ar_artifact :: string
  ar_value :: string

record snippet_row =
  sn_name :: string
  sn_saved :: int
  sn_text :: string

record codemode_db =
  cm_executions :: "execution_row list"
  cm_artifacts :: "artifact_row list"
  cm_snippets :: "snippet_row list"

record artifact_ref =
  ref_id :: string
  ref_execution :: string
  ref_bytes :: nat
  ref_preview :: string

definition empty_codemode_db :: codemode_db where
  "empty_codemode_db = \<lparr>cm_executions = [], cm_artifacts = [], cm_snippets = []\<rparr>"

text \<open>\<open>i64::try_from(n).unwrap_or(i64::MAX)\<close>.\<close>

definition i64_or_max :: "nat \<Rightarrow> int" where
  "i64_or_max n = (if int n \<le> i64_max then int n else i64_max)"

text \<open>\<open>Option<Result<T, E>>::transpose\<close> after decoding.\<close>

definition decode_row :: "'v codec \<Rightarrow> string option \<Rightarrow> ('v option, string) result" where
  "decode_row c text = (case text of None \<Rightarrow> Ok None | Some t \<Rightarrow> and_then (cd_decode c t) (\<lambda>v. Ok (Some v)))"

section \<open>Executions\<close>

definition cm_get_execution ::
  "('e, 's) runtime_types \<Rightarrow> string \<Rightarrow> codemode_db \<Rightarrow> ('e option, string) result" where
  "cm_get_execution T i db =
     decode_row (execution_codec T) (map_option xr_state (select_first (\<lambda>x. xr_id x = i) (cm_executions db)))"

definition cm_put_execution ::
  "('e, 's) runtime_types \<Rightarrow> 'e \<Rightarrow> codemode_db \<Rightarrow> (unit, string) result \<times> codemode_db" where
  "cm_put_execution T e db =
     (case cd_encode (execution_codec T) e of
        Err m \<Rightarrow> (Err m, db)
      | Ok text \<Rightarrow>
          (let updated = i64_or_max (execution_updated T e) in
           (Ok (), db\<lparr>cm_executions := upsert_by xr_id
              \<lparr>xr_id = execution_id_of T e, xr_updated = updated, xr_state = text\<rparr>
              (\<lambda>x. x\<lparr>xr_updated := updated, xr_state := text\<rparr>) (cm_executions db)\<rparr>)))"

definition cm_list_executions ::
  "('e, 's) runtime_types \<Rightarrow> codemode_db \<Rightarrow> ('e list, string) result" where
  "cm_list_executions T db =
     collect_results (cd_decode (execution_codec T))
       (map xr_state (select_ordered (\<lambda>_. True) (\<lambda>x. - xr_updated x) (cm_executions db)))"

definition cm_delete_execution :: "string \<Rightarrow> codemode_db \<Rightarrow> (unit, string) result \<times> codemode_db" where
  "cm_delete_execution i db =
     (Ok (), db\<lparr>cm_artifacts := delete_where (\<lambda>a. ar_execution a = i) (cm_artifacts db),
                cm_executions := delete_where (\<lambda>x. xr_id x = i) (cm_executions db)\<rparr>)"

section \<open>Snippets\<close>

definition cm_get_snippet ::
  "('e, 's) runtime_types \<Rightarrow> string \<Rightarrow> codemode_db \<Rightarrow> ('s option, string) result" where
  "cm_get_snippet T n db =
     decode_row (snippet_codec T) (map_option sn_text (select_first (\<lambda>x. sn_name x = n) (cm_snippets db)))"

definition cm_put_snippet ::
  "('e, 's) runtime_types \<Rightarrow> 's \<Rightarrow> codemode_db \<Rightarrow> (unit, string) result \<times> codemode_db" where
  "cm_put_snippet T s db =
     (case cd_encode (snippet_codec T) s of
        Err m \<Rightarrow> (Err m, db)
      | Ok text \<Rightarrow>
          (let saved = i64_or_max (snippet_saved T s) in
           (Ok (), db\<lparr>cm_snippets := upsert_by sn_name
              \<lparr>sn_name = snippet_name_of T s, sn_saved = saved, sn_text = text\<rparr>
              (\<lambda>x. x\<lparr>sn_saved := saved, sn_text := text\<rparr>) (cm_snippets db)\<rparr>)))"

definition cm_list_snippets ::
  "('e, 's) runtime_types \<Rightarrow> codemode_db \<Rightarrow> ('s list, string) result" where
  "cm_list_snippets T db =
     collect_results (cd_decode (snippet_codec T))
       (map sn_text (select_ordered (\<lambda>_. True) sn_name (cm_snippets db)))"

definition cm_delete_snippet :: "string \<Rightarrow> codemode_db \<Rightarrow> (bool, string) result \<times> codemode_db" where
  "cm_delete_snippet n db =
     (let deleted = count_where (\<lambda>x. sn_name x = n) (cm_snippets db) in
      (Ok (0 < deleted), db\<lparr>cm_snippets := delete_where (\<lambda>x. sn_name x = n) (cm_snippets db)\<rparr>))"

section \<open>Artifacts\<close>

definition preview_bytes :: nat where "preview_bytes = 512"

text \<open>\<open>str::is_char_boundary\<close>.\<close>

definition is_char_boundary :: "string \<Rightarrow> nat \<Rightarrow> bool" where
  "is_char_boundary s i \<longleftrightarrow> i = 0 \<or> i = length s \<or> i < length s \<and> \<not> utf8_tail (s ! i)"

fun preview_end :: "string \<Rightarrow> nat \<Rightarrow> nat" where
  "preview_end s n = (if 0 < n \<and> \<not> is_char_boundary s n then preview_end s (n - 1) else n)"

declare preview_end.simps [simp del]

definition preview :: "string \<Rightarrow> string" where
  "preview s = (if length s \<le> preview_bytes then s else take (preview_end s preview_bytes) s)"

definition cm_put_artifact ::
  "('e, 's) runtime_types \<Rightarrow> string \<Rightarrow> json \<Rightarrow> codemode_db \<Rightarrow> (artifact_ref, string) result \<times> codemode_db" where
  "cm_put_artifact T execution v db =
     (case cd_encode (value_codec T) v of
        Err m \<Rightarrow> (Err m, db)
      | Ok text \<Rightarrow>
          (let i = sha256_hex T (execution @ text) in
           (Ok \<lparr>ref_id = i, ref_execution = execution, ref_bytes = length text, ref_preview = preview text\<rparr>,
            db\<lparr>cm_artifacts := upsert_by (\<lambda>a. (ar_execution a, ar_artifact a))
              \<lparr>ar_execution = execution, ar_artifact = i, ar_value = text\<rparr>
              (\<lambda>a. a\<lparr>ar_value := text\<rparr>) (cm_artifacts db)\<rparr>)))"

definition cm_get_artifact ::
  "('e, 's) runtime_types \<Rightarrow> string \<Rightarrow> string \<Rightarrow> codemode_db \<Rightarrow> (json option, string) result" where
  "cm_get_artifact T execution artifact db =
     decode_row (value_codec T) (map_option ar_value
       (select_first (\<lambda>a. ar_execution a = execution \<and> ar_artifact a = artifact) (cm_artifacts db)))"

definition cm_delete_artifacts :: "string \<Rightarrow> codemode_db \<Rightarrow> (unit, string) result \<times> codemode_db" where
  "cm_delete_artifacts execution db =
     (Ok (), db\<lparr>cm_artifacts := delete_where (\<lambda>a. ar_execution a = execution) (cm_artifacts db)\<rparr>)"

end
