(* ===== verification/Codemode_Laws.thy ===== *)
theory Codemode_Laws
  imports Codemode_Store
begin

text \<open>
  The Code Mode store is three maps from names to texts: each request changes them as it should and the
  reads are lookups. An artifact is read back as it was put, and its preview is a bounded prefix that is
  text again.
\<close>

section \<open>Tables as maps\<close>

lemma select_update_where:
  assumes "\<And>r. Q (f r) = Q r"
  shows "select_first Q (update_where P f rows) = map_option (\<lambda>r. if P r then f r else r) (select_first Q rows)"
  using assms by (induction rows) (auto simp: select_first_def update_where_def)

lemma select_append:
  "select_first P (xs @ ys) = (case select_first P xs of None \<Rightarrow> select_first P ys | Some x \<Rightarrow> Some x)"
  by (induction xs) (auto simp: select_first_def)

lemma select_single: "select_first P [x] = (if P x then Some x else None)"
  by (simp add: select_first_def)

lemma select_upsert:
  assumes "\<And>r. key (f r) = key r"
  shows "select_first (\<lambda>r. key r = k) (upsert_by key row f rows) =
    (if key row = k then Some (case select_first (\<lambda>r. key r = k) rows of None \<Rightarrow> row | Some r \<Rightarrow> f r)
     else select_first (\<lambda>r. key r = k) rows)"
proof (cases "exists_where (\<lambda>r. key r = key row) rows")
  case True
  have e: "select_first (\<lambda>r. key r = k) (update_where (\<lambda>r. key r = key row) f rows) =
      map_option (\<lambda>r. if key r = key row then f r else r) (select_first (\<lambda>r. key r = k) rows)"
    by (rule select_update_where) (simp add: assms)
  show ?thesis
  proof (cases "select_first (\<lambda>r. key r = k) rows")
    case None
    with True e show ?thesis by (auto simp: upsert_by_def exists_where_select)
  next
    case (Some r)
    then have "key r = k" by (auto dest: select_first_SomeD)
    with Some True e show ?thesis by (auto simp: upsert_by_def)
  qed
next
  case False
  then show ?thesis
    by (auto simp: upsert_by_def exists_where_select select_append select_single split: option.splits)
qed

lemma select_delete_where:
  "select_first Q (delete_where P rows) = select_first (\<lambda>r. Q r \<and> \<not> P r) rows"
  by (induction rows) (auto simp: select_first_def delete_where_def)

lemma select_first_cong: "(\<And>r. r \<in> set rows \<Longrightarrow> P r = Q r) \<Longrightarrow> select_first P rows = select_first Q rows"
  by (induction rows) (auto simp: select_first_def)

lemma select_other: "(\<And>r. \<not> P r) \<Longrightarrow> select_first P rows = None"
  by (auto simp: table_simps)


section \<open>The store refines three maps\<close>

text \<open>The specification: the texts of the executions, the snippets and the artifacts.\<close>

type_synonym codemode_spec = "(string \<rightharpoonup> string) \<times> (string \<rightharpoonup> string) \<times> (string \<times> string \<rightharpoonup> string)"

definition codemode_maps :: "codemode_db \<Rightarrow> codemode_spec" where
  "codemode_maps db =
     (\<lambda>i. map_option xr_state (select_first (\<lambda>x. xr_id x = i) (cm_executions db)),
      \<lambda>n. map_option sn_text (select_first (\<lambda>x. sn_name x = n) (cm_snippets db)),
      \<lambda>(e, a). map_option ar_value
        (select_first (\<lambda>r. ar_execution r = e \<and> ar_artifact r = a) (cm_artifacts db)))"

datatype ('e, 's) codemode_request =
    Cm_Put_Execution 'e
  | Cm_Delete_Execution string
  | Cm_Put_Snippet 's
  | Cm_Delete_Snippet string
  | Cm_Put_Artifact string json
  | Cm_Delete_Artifacts string

fun cm_apply :: "('e, 's) runtime_types \<Rightarrow> ('e, 's) codemode_request \<Rightarrow> codemode_db \<Rightarrow> codemode_db" where
  "cm_apply T (Cm_Put_Execution e) db = snd (cm_put_execution T e db)"
| "cm_apply T (Cm_Delete_Execution i) db = snd (cm_delete_execution i db)"
| "cm_apply T (Cm_Put_Snippet s) db = snd (cm_put_snippet T s db)"
| "cm_apply T (Cm_Delete_Snippet n) db = snd (cm_delete_snippet n db)"
| "cm_apply T (Cm_Put_Artifact e v) db = snd (cm_put_artifact T e v db)"
| "cm_apply T (Cm_Delete_Artifacts e) db = snd (cm_delete_artifacts e db)"

definition put_text :: "'k \<Rightarrow> (string, string) result \<Rightarrow> ('k \<rightharpoonup> string) \<Rightarrow> ('k \<rightharpoonup> string)" where
  "put_text k text m = (case text of Err e \<Rightarrow> m | Ok t \<Rightarrow> m(k \<mapsto> t))"

definition artifact_key :: "('e, 's) runtime_types \<Rightarrow> string \<Rightarrow> json \<Rightarrow> string \<times> string" where
  "artifact_key T e v =
     (e, case cd_encode (value_codec T) v of Err m \<Rightarrow> [] | Ok text \<Rightarrow> sha256_hex T (e @ text))"

fun cm_spec :: "('e, 's) runtime_types \<Rightarrow> ('e, 's) codemode_request \<Rightarrow> codemode_spec \<Rightarrow> codemode_spec" where
  "cm_spec T (Cm_Put_Execution e) (X, S, A) =
     (put_text (execution_id_of T e) (cd_encode (execution_codec T) e) X, S, A)"
| "cm_spec T (Cm_Delete_Execution i) (X, S, A) = (X(i := None), S, \<lambda>(e, a). if e = i then None else A (e, a))"
| "cm_spec T (Cm_Put_Snippet s) (X, S, A) =
     (X, put_text (snippet_name_of T s) (cd_encode (snippet_codec T) s) S, A)"
| "cm_spec T (Cm_Delete_Snippet n) (X, S, A) = (X, S(n := None), A)"
| "cm_spec T (Cm_Put_Artifact e v) (X, S, A) =
     (X, S, put_text (artifact_key T e v) (cd_encode (value_codec T) v) A)"
| "cm_spec T (Cm_Delete_Artifacts i) (X, S, A) = (X, S, \<lambda>(e, a). if e = i then None else A (e, a))"

lemmas cm_ops = cm_put_execution_def cm_delete_execution_def cm_put_snippet_def cm_delete_snippet_def
  cm_put_artifact_def cm_delete_artifacts_def

lemma select_executions: "select_first (\<lambda>x. xr_id x = i) (upsert_by xr_id row (\<lambda>x. x\<lparr>xr_updated := u, xr_state := t\<rparr>) rows) =
    (if xr_id row = i then Some (case select_first (\<lambda>x. xr_id x = i) rows of None \<Rightarrow> row | Some r \<Rightarrow> r\<lparr>xr_updated := u, xr_state := t\<rparr>)
     else select_first (\<lambda>x. xr_id x = i) rows)"
  by (rule select_upsert) simp

lemma select_snippets: "select_first (\<lambda>x. sn_name x = i) (upsert_by sn_name row (\<lambda>x. x\<lparr>sn_saved := u, sn_text := t\<rparr>) rows) =
    (if sn_name row = i then Some (case select_first (\<lambda>x. sn_name x = i) rows of None \<Rightarrow> row | Some r \<Rightarrow> r\<lparr>sn_saved := u, sn_text := t\<rparr>)
     else select_first (\<lambda>x. sn_name x = i) rows)"
  by (rule select_upsert) simp

lemma select_artifacts: "select_first (\<lambda>r. ar_execution r = e \<and> ar_artifact r = a)
      (upsert_by (\<lambda>a. (ar_execution a, ar_artifact a)) row (\<lambda>a. a\<lparr>ar_value := t\<rparr>) rows) =
    (if ar_execution row = e \<and> ar_artifact row = a
     then Some (case select_first (\<lambda>r. ar_execution r = e \<and> ar_artifact r = a) rows of None \<Rightarrow> row | Some r \<Rightarrow> r\<lparr>ar_value := t\<rparr>)
     else select_first (\<lambda>r. ar_execution r = e \<and> ar_artifact r = a) rows)"
  using select_upsert [of "\<lambda>a. (ar_execution a, ar_artifact a)" "\<lambda>a. a\<lparr>ar_value := t\<rparr>" "(e, a)" row rows]
  by simp

lemma select_deleted:
  "select_first (\<lambda>r. key r = k) (delete_where (\<lambda>r. key r = j) rows) =
    (if k = j then None else select_first (\<lambda>r. key r = k) rows)"
  by (auto simp: select_delete_where select_other intro: select_first_cong)

lemma select_deleted_artifacts:
  "select_first (\<lambda>r. ar_execution r = e \<and> ar_artifact r = a) (delete_where (\<lambda>r. ar_execution r = i) rows) =
    (if e = i then None else select_first (\<lambda>r. ar_execution r = e \<and> ar_artifact r = a) rows)"
  by (auto simp: select_delete_where select_other intro: select_first_cong)

lemma cm_apply_refines: "codemode_maps (cm_apply T q db) = cm_spec T q (codemode_maps db)"
proof (cases q)
  case (Cm_Put_Execution e)
  then show ?thesis
    by (auto simp: cm_ops codemode_maps_def Let_def put_text_def select_executions fun_eq_iff split: sum.splits option.splits)
next
  case (Cm_Put_Snippet s)
  then show ?thesis
    by (auto simp: cm_ops codemode_maps_def Let_def put_text_def select_snippets fun_eq_iff split: sum.splits option.splits)
next
  case (Cm_Put_Artifact e v)
  then show ?thesis
    by (auto simp: cm_ops codemode_maps_def Let_def put_text_def select_artifacts artifact_key_def fun_eq_iff split: sum.splits option.splits)
next
  case (Cm_Delete_Execution i)
  then show ?thesis
    by (auto simp: cm_ops codemode_maps_def select_deleted select_deleted_artifacts fun_eq_iff)
next
  case (Cm_Delete_Snippet n)
  then show ?thesis by (auto simp: cm_ops codemode_maps_def Let_def select_deleted fun_eq_iff)
next
  case (Cm_Delete_Artifacts e)
  then show ?thesis by (auto simp: cm_ops codemode_maps_def select_deleted_artifacts fun_eq_iff)
qed

lemma cm_applies_refine: "codemode_maps (fold (cm_apply T) qs db) = fold (cm_spec T) qs (codemode_maps db)"
  by (induction qs arbitrary: db) (simp_all add: cm_apply_refines)

text \<open>C36: The Code Mode store is three maps: whatever requests it gets, its tables hold the texts the
  specification says (a put replaces the text of its name, a deleted execution takes its artifacts with
  it, nothing else changes), and each read decodes what the map holds.\<close>

theorem codemode_store_refines:
  "codemode_maps (fold (cm_apply T) qs db) = fold (cm_spec T) qs (codemode_maps db) \<and>
   cm_get_execution T i db = decode_row (execution_codec T) (fst (codemode_maps db) i) \<and>
   cm_get_snippet T n db = decode_row (snippet_codec T) (fst (snd (codemode_maps db)) n) \<and>
   cm_get_artifact T e a db = decode_row (value_codec T) (snd (snd (codemode_maps db)) (e, a))"
  by (intro conjI cm_applies_refine)
    (simp_all add: codemode_maps_def cm_get_execution_def cm_get_snippet_def cm_get_artifact_def)

section \<open>Previews\<close>

lemma preview_end_step: "0 < n \<Longrightarrow> \<not> is_char_boundary s n \<Longrightarrow> preview_end s n = preview_end s (n - 1)"
  by (subst preview_end.simps) simp

lemma preview_end_stop: "\<not> (0 < n \<and> \<not> is_char_boundary s n) \<Longrightarrow> preview_end s n = n"
  by (subst preview_end.simps) argo

lemma preview_end_facts: "preview_end s n \<le> n \<and> is_char_boundary s (preview_end s n)"
proof (induction s n rule: preview_end.induct)
  case (1 s n)
  show ?case
  proof (cases "0 < n \<and> \<not> is_char_boundary s n")
    case True
    with 1 show ?thesis by (auto simp: preview_end_step)
  next
    case False
    then show ?thesis by (auto simp: preview_end_stop is_char_boundary_def)
  qed
qed

lemma preview_end_longest: "preview_end s n < m \<Longrightarrow> m \<le> n \<Longrightarrow> \<not> is_char_boundary s m"
proof (induction s n rule: preview_end.induct)
  case (1 s n)
  show ?case
  proof (cases "0 < n \<and> \<not> is_char_boundary s n")
    case True
    then have "preview_end s n = preview_end s (n - 1)" by (simp add: preview_end_step)
    with 1 True show ?thesis by (cases "m = n") auto
  next
    case False
    then have "preview_end s n = n" by (rule preview_end_stop)
    with 1(2,3) show ?thesis by simp
  qed
qed

lemma boundary_Suc: "is_char_boundary (a # s) (Suc j) \<Longrightarrow> is_char_boundary s j"
  by (auto simp: is_char_boundary_def)

lemma boundary_tail: "is_char_boundary (a # b # s) (Suc j) \<Longrightarrow> utf8_tail b \<Longrightarrow> \<exists>k. j = Suc k"
  by (cases j) (auto simp: is_char_boundary_def)

lemma utf8_take: "utf8_valid s \<Longrightarrow> is_char_boundary s i \<Longrightarrow> utf8_valid (take i s)"
proof (induction s arbitrary: i rule: utf8_valid.induct)
  case 1
  then show ?case by simp
next
  case (2 a s)
  show ?case
  proof (cases i)
    case 0
    then show ?thesis by simp
  next
    case (Suc j)
    note j = this boundary_Suc [of a s j]
    show ?thesis
    proof (cases "byte a < 128")
      case True
      with 2 j show ?thesis by simp
    next
      case a: False
      then obtain b s1 where s: "s = b # s1" using 2(5) by (cases s) auto
      then have b: "utf8_tail b" using 2(5) a by (auto split: if_splits list.splits)
      with 2(6) s Suc obtain k where k: "j = Suc k" using boundary_tail by blast
      show ?thesis
      proof (cases "194 \<le> byte a \<and> byte a \<le> 223")
        case True
        have "is_char_boundary s1 k" using 2(6) Suc s k by (auto dest: boundary_Suc)
        with 2(2) [OF a s True] 2(5) a True s k Suc show ?thesis by simp
      next
        case b2: False
        then obtain c s2 where s1: "s1 = c # s2" using 2(5) a s by (cases s1) auto
        then have "utf8_tail c" using 2(5) a b2 s by (auto split: if_splits list.splits)
        moreover have "is_char_boundary (b # c # s2) (Suc k)" using 2(6) Suc s s1 k by (auto dest: boundary_Suc)
        ultimately obtain l where l: "k = Suc l" using boundary_tail by blast
        show ?thesis
        proof (cases "224 \<le> byte a \<and> byte a \<le> 239")
          case True
          have "is_char_boundary s2 l" using 2(6) Suc s s1 k l by (auto dest: boundary_Suc)
          with 2(3) [OF a s b2 s1 True] 2(5) a b2 True s s1 k l Suc show ?thesis by simp
        next
          case b3: False
          then obtain d s3 where s2: "s2 = d # s3" using 2(5) a b2 s s1 by (cases s2) auto
          then have "utf8_tail d" using 2(5) a b2 b3 s s1 by simp
          moreover have "is_char_boundary (c # d # s3) (Suc l)" using 2(6) Suc s s1 s2 k l by (auto dest: boundary_Suc)
          ultimately obtain m where m: "l = Suc m" using boundary_tail by blast
          have "is_char_boundary s3 m" using 2(6) Suc s s1 s2 k l m by (auto dest: boundary_Suc)
          with 2(4) [OF a s b2 s1 b3 s2] 2(5) a b2 b3 s s1 s2 k l m Suc show ?thesis by simp
        qed
      qed
    qed
  qed
qed

lemma preview_facts:
  "prefix (preview s) s \<and> length (preview s) \<le> preview_bytes \<and> (if utf8_valid s then utf8_valid (preview s) else True)"
proof -
  have "utf8_valid s \<Longrightarrow> utf8_valid (take (preview_end s preview_bytes) s)"
    using preview_end_facts by (intro utf8_take) auto
  then show ?thesis
    using preview_end_facts [of s preview_bytes] by (auto simp: preview_def take_is_prefix)
qed

section \<open>Artifacts\<close>

text \<open>What leaves an artifact in place: anything but the deletion of its execution, or the put of a different
  text with the same digest.\<close>

fun keeps_artifact :: "('e, 's) runtime_types \<Rightarrow> string \<Rightarrow> json \<Rightarrow> ('e, 's) codemode_request \<Rightarrow> bool" where
  "keeps_artifact T e v (Cm_Delete_Execution i) \<longleftrightarrow> i \<noteq> e"
| "keeps_artifact T e v (Cm_Delete_Artifacts i) \<longleftrightarrow> i \<noteq> e"
| "keeps_artifact T e v (Cm_Put_Artifact e2 v2) \<longleftrightarrow> is_ok (cd_encode (value_codec T) v2) \<longrightarrow>
     artifact_key T e2 v2 = artifact_key T e v \<longrightarrow> cd_encode (value_codec T) v2 = cd_encode (value_codec T) v"
| "keeps_artifact T e v _ \<longleftrightarrow> True"

lemma keeps_artifact_step:
  assumes "keeps_artifact T e v q" "snd (snd m) (artifact_key T e v) = Some text" "cd_encode (value_codec T) v = Ok text"
  shows "snd (snd (cm_spec T q m)) (artifact_key T e v) = Some text"
proof (cases m)
  case (fields X S A)
  then show ?thesis using assms
    by (cases q) (auto simp: put_text_def artifact_key_def split: sum.splits)
qed

lemma keeps_artifact_steps:
  assumes "list_all (keeps_artifact T e v) qs" "snd (snd m) (artifact_key T e v) = Some text"
    and "cd_encode (value_codec T) v = Ok text"
  shows "snd (snd (fold (cm_spec T) qs m)) (artifact_key T e v) = Some text"
  using assms(1,2)
proof (induction qs arbitrary: m)
  case (Cons q qs)
  then show ?case by (simp add: keeps_artifact_step [OF _ _ assms(3)])
qed simp

text \<open>C37: An artifact is kept: the reference of a put value reads that value back, whatever else is stored or
  deleted afterwards but its execution, as long as no other text has the same digest and the JSON text of
  the value parses to it; the preview of the reference is a prefix of that text, of at most 512 bytes, and
  UTF-8 where the text is.\<close>

theorem artifact_read_back:
  assumes "cm_put_artifact T e v db = (Ok ref, db')"
    and "cd_encode (value_codec T) v = Ok text" "cd_decode (value_codec T) text = Ok v"
    and "list_all (keeps_artifact T e v) qs"
  shows "cm_get_artifact T (ref_execution ref) (ref_id ref) (fold (cm_apply T) qs db') = Ok (Some v) \<and>
    prefix (ref_preview ref) text \<and> length (ref_preview ref) \<le> 512 \<and>
    (if utf8_valid text then utf8_valid (ref_preview ref) else True)"
proof -
  have r: "(ref_execution ref, ref_id ref) = artifact_key T e v" "ref_preview ref = preview text"
    and db': "db' = cm_apply T (Cm_Put_Artifact e v) db"
    using assms(1,2) by (auto simp: cm_put_artifact_def Let_def artifact_key_def)
  have "codemode_maps db' = cm_spec T (Cm_Put_Artifact e v) (codemode_maps db)"
    by (simp only: db' cm_apply_refines)
  then have "snd (snd (codemode_maps db')) (artifact_key T e v) = Some text"
    by (cases "codemode_maps db") (simp add: put_text_def assms(2))
  then have "snd (snd (fold (cm_spec T) qs (codemode_maps db'))) (artifact_key T e v) = Some text"
    by (rule keeps_artifact_steps [OF assms(4) _ assms(2)])
  then have "snd (snd (codemode_maps (fold (cm_apply T) qs db'))) (ref_execution ref, ref_id ref) = Some text"
    by (simp add: r(1) cm_applies_refine)
  then have "cm_get_artifact T (ref_execution ref) (ref_id ref) (fold (cm_apply T) qs db') = Ok (Some v)"
    using assms(3) by (auto simp: cm_get_artifact_def codemode_maps_def decode_row_def)
  then show ?thesis using preview_facts [of "text"] by (simp add: r(2) preview_bytes_def)
qed

definition example_runtime :: "(nat, nat) runtime_types" where
  "example_runtime = \<lparr>
     execution_codec = \<lparr>cd_encode = \<lambda>n. Ok (replicate n CHR ''1''), cd_decode = \<lambda>t. Ok (length t)\<rparr>,
     execution_id_of = \<lambda>n. ''x'', execution_updated = \<lambda>n. n,
     snippet_codec = \<lparr>cd_encode = \<lambda>n. Ok (replicate n CHR ''1''), cd_decode = \<lambda>t. Ok (length t)\<rparr>,
     snippet_name_of = \<lambda>n. ''s'', snippet_saved = \<lambda>n. n,
     value_codec = \<lparr>cd_encode = \<lambda>v. (case v of JString s \<Rightarrow> Ok s | _ \<Rightarrow> Err ''text''), cd_decode = \<lambda>t. Ok (JString t)\<rparr>,
     sha256_hex = \<lambda>s. s\<rparr>"

theorem artifact_read_back_witness:
  "cm_get_artifact example_runtime ''x'' ''xone''
     (fold (cm_apply example_runtime) [Cm_Put_Artifact ''x'' (JString ''two''), Cm_Put_Execution 3, Cm_Delete_Execution ''y'']
       (snd (cm_put_artifact example_runtime ''x'' (JString ''one'') empty_codemode_db))) = Ok (Some (JString ''one''))"
proof -
  let ?ref = "\<lparr>ref_id = ''xone'', ref_execution = ''x'', ref_bytes = 3, ref_preview = ''one''\<rparr>"
  have 1: "fst (cm_put_artifact example_runtime ''x'' (JString ''one'') empty_codemode_db) = Ok ?ref" by code_simp
  have 2: "list_all (keeps_artifact example_runtime ''x'' (JString ''one''))
      [Cm_Put_Artifact ''x'' (JString ''two''), Cm_Put_Execution 3, Cm_Delete_Execution ''y'']" by code_simp
  have "cm_put_artifact example_runtime ''x'' (JString ''one'') empty_codemode_db =
      (Ok ?ref, snd (cm_put_artifact example_runtime ''x'' (JString ''one'') empty_codemode_db))"
    by (simp add: prod_eq_iff 1)
  from artifact_read_back [OF this _ _ 2, of "''one''"] show ?thesis
    by (simp add: example_runtime_def)
qed

end
