(* ===== verification/Codemode_Cli.thy ===== *)
theory Codemode_Cli
  imports Native_Store Codemode_Laws Commands_Laws App_Properties
begin

text \<open>
  Code Mode in the native command (\<open>comsat-cli/src/codemode.rs\<close>, \<open>codemode/connector.rs\<close>,
  \<open>codemode/lifecycle.rs\<close>, \<open>codemode_store.rs\<close>): the lazily opened store, the policy of the tools, how a
  result is reported, and how an applied action is compensated. The runtime, the executor and the
  connector that finds a tool by its name are a library, parameters here.
\<close>

section \<open>The lazily opened store\<close>

text \<open>The file, and whether this process has a connection to it, which it keeps.\<close>

record codemode_file =
  cf_disk :: "codemode_db option"
  cf_opened :: bool

definition codemode_contents :: "codemode_file \<Rightarrow> codemode_db" where
  "codemode_contents st = (case cf_disk st of None \<Rightarrow> empty_codemode_db | Some db \<Rightarrow> db)"

definition lcm_open :: "file_system \<Rightarrow> codemode_file \<Rightarrow> (codemode_db, string) result \<times> codemode_file" where
  "lcm_open F st =
     (if cf_opened st then (Ok (codemode_contents st), st)
      else case fs_open F of
        Some e \<Rightarrow> (Err e, st)
      | None \<Rightarrow> (Ok (codemode_contents st), \<lparr>cf_disk = Some (codemode_contents st), cf_opened = True\<rparr>))"

definition lcm_read ::
  "file_system \<Rightarrow> 'a \<Rightarrow> (codemode_db \<Rightarrow> ('a, string) result \<times> codemode_db) \<Rightarrow> codemode_file \<Rightarrow>
    ('a, string) result \<times> codemode_file" where
  "lcm_read F missing f st =
     (if cf_disk st = None then (Ok missing, st)
      else case lcm_open F st of
        (Err e, st) \<Rightarrow> (Err e, st)
      | (Ok db, st) \<Rightarrow> (case f db of (r, db) \<Rightarrow> (r, st\<lparr>cf_disk := Some db\<rparr>)))"

definition lcm_write ::
  "file_system \<Rightarrow> (codemode_db \<Rightarrow> ('a, string) result \<times> codemode_db) \<Rightarrow> codemode_file \<Rightarrow>
    ('a, string) result \<times> codemode_file" where
  "lcm_write F f st =
     (case fs_create_dir F of
        Some e \<Rightarrow> (Err e, st)
      | None \<Rightarrow>
          (case lcm_open F st of
             (Err e, st) \<Rightarrow> (Err e, st)
           | (Ok db, st) \<Rightarrow> (case f db of (r, db) \<Rightarrow> (r, st\<lparr>cf_disk := Some db\<rparr>))))"

definition cm_query :: "(codemode_db \<Rightarrow> ('a, string) result) \<Rightarrow> codemode_db \<Rightarrow> ('a, string) result \<times> codemode_db" where
  "cm_query f db = (f db, db)"

definition lcm_get_execution where "lcm_get_execution F T i = lcm_read F None (cm_query (cm_get_execution T i))"
definition lcm_put_execution where "lcm_put_execution F T e = lcm_write F (cm_put_execution T e)"
definition lcm_list_executions where "lcm_list_executions F T = lcm_read F [] (cm_query (cm_list_executions T))"
definition lcm_delete_execution where "lcm_delete_execution F i = lcm_read F () (cm_delete_execution i)"
definition lcm_get_snippet where "lcm_get_snippet F T n = lcm_read F None (cm_query (cm_get_snippet T n))"
definition lcm_put_snippet where "lcm_put_snippet F T s = lcm_write F (cm_put_snippet T s)"
definition lcm_list_snippets where "lcm_list_snippets F T = lcm_read F [] (cm_query (cm_list_snippets T))"
definition lcm_delete_snippet where "lcm_delete_snippet F n = lcm_read F False (cm_delete_snippet n)"
definition lcm_put_artifact where "lcm_put_artifact F T e v = lcm_write F (cm_put_artifact T e v)"
definition lcm_get_artifact where "lcm_get_artifact F T e a = lcm_read F None (cm_query (cm_get_artifact T e a))"
definition lcm_delete_artifacts where "lcm_delete_artifacts F e = lcm_read F () (cm_delete_artifacts e)"

text \<open>Where the file system works, a lazy operation is the operation on the contents of the file.\<close>

lemma lcm_write_refines:
  assumes "fs_works F"
  shows "fst (lcm_write F f st) = fst (f (codemode_contents st)) \<and>
    codemode_contents (snd (lcm_write F f st)) = snd (f (codemode_contents st))"
  using assms by (simp add: lcm_write_def lcm_open_def fs_works_def codemode_contents_def split: prod.split option.split)

definition cm_idle :: "'a \<Rightarrow> (codemode_db \<Rightarrow> ('a, string) result \<times> codemode_db) \<Rightarrow> bool" where
  "cm_idle missing f \<longleftrightarrow> f empty_codemode_db = (Ok missing, empty_codemode_db)"

lemma lcm_read_refines:
  assumes "fs_works F" "cm_idle missing f"
  shows "fst (lcm_read F missing f st) = fst (f (codemode_contents st)) \<and>
    codemode_contents (snd (lcm_read F missing f st)) = snd (f (codemode_contents st)) \<and>
    (if cf_disk st = None then snd (lcm_read F missing f st) = st else True)"
  using assms by (simp add: lcm_read_def lcm_open_def fs_works_def cm_idle_def codemode_contents_def split: prod.split option.split)

lemma cm_empty_reads:
  "cm_idle None (cm_query (cm_get_execution T i))"
  "cm_idle [] (cm_query (cm_list_executions T))"
  "cm_idle () (cm_delete_execution i)"
  "cm_idle None (cm_query (cm_get_snippet T n))"
  "cm_idle [] (cm_query (cm_list_snippets T))"
  "cm_idle False (cm_delete_snippet n)"
  "cm_idle None (cm_query (cm_get_artifact T e a))"
  "cm_idle () (cm_delete_artifacts e)"
  by (simp_all add: cm_idle_def cm_query_def cm_get_execution_def cm_list_executions_def cm_delete_execution_def
      cm_get_snippet_def cm_list_snippets_def cm_delete_snippet_def cm_get_artifact_def cm_delete_artifacts_def
      empty_codemode_db_def decode_row_def select_first_def select_ordered_def order_by_def delete_where_def
      count_where_def)

lemmas lcm_reads = cm_empty_reads [THEN lcm_read_refines [rotated 1]]

section \<open>Results and policies\<close>

text \<open>\<open>execution_result\<close>: whether the execution completed, and its JSON.\<close>

definition execution_result :: "bool \<Rightarrow> (json, string) result \<Rightarrow> json typed_result" where
  "execution_result completed v =
     (case v of
        Ok v \<Rightarrow> if completed then Typed_Ok v else Typed_Ok_Exit v 1
      | Err e \<Rightarrow> Typed_Error ''codemode_error'' e)"

definition json_result :: "(json, string) result \<Rightarrow> json typed_result" where
  "json_result v = (case v of Ok v \<Rightarrow> Typed_Ok v | Err e \<Rightarrow> Typed_Error ''codemode_error'' e)"

text \<open>\<open>run_local\<close>, \<open>run_execution\<close>: the runtime may fail to start; then the work runs.\<close>

definition run_local :: "string option \<Rightarrow> (json, string) result \<Rightarrow> (json typed_result, string) result" where
  "run_local broken job =
     (case broken of Some e \<Rightarrow> Err e | None \<Rightarrow> and_then job (\<lambda>v. Ok (json_result (Ok v))))"

definition run_execution ::
  "string option \<Rightarrow> (bool \<times> (json, string) result, string) result \<Rightarrow> (json typed_result, string) result" where
  "run_execution broken job =
     (case broken of Some e \<Rightarrow> Err e | None \<Rightarrow> and_then job (\<lambda>(completed, v). Ok (execution_result completed v)))"

definition codemode_answer :: "(json typed_result, string) result \<Rightarrow> json typed_result" where
  "codemode_answer r = (case r of Ok v \<Rightarrow> v | Err e \<Rightarrow> Typed_Error ''codemode_error'' e)"

text \<open>The outcome of \<open>prune\<close>.\<close>

definition prune_value :: "nat \<Rightarrow> (nat, string) result \<Rightarrow> (json, string) result" where
  "prune_value keep removed =
     and_then removed (\<lambda>n. Ok (json_object [(''removed'', JInt (int n)), (''kept'', JInt (int keep))]))"

datatype replay_policy = Reexecute | Log_Result

record tool_annotations =
  an_read_only :: "bool option"
  an_destructive :: "bool option"

record tool_policy =
  requires_approval :: bool
  replay :: replay_policy

definition comsat_retrieval_policy :: "bool \<Rightarrow> tool_annotations \<Rightarrow> tool_policy" where
  "comsat_retrieval_policy local_origin annotations =
     (let read_only_local = local_origin \<and> an_read_only annotations = Some True \<and> an_destructive annotations \<noteq> Some True
      in \<lparr>requires_approval = \<not> read_only_local,
          replay = (if read_only_local then Reexecute else Log_Result)\<rparr>)"

section \<open>Compensation\<close>

definition created_watch_id :: "json \<Rightarrow> json \<Rightarrow> string option" where
  "created_watch_id arguments result =
     (case json_get result ''watch_id'' of
        Some (JString i) \<Rightarrow> Some i
      | _ \<Rightarrow> (case json_get arguments ''watch_id'' of Some (JString i) \<Rightarrow> Some i | _ \<Rightarrow> None))"

text \<open>\<open>revert\<close>, over the state the tools change.\<close>

definition connector_revert ::
  "(string \<Rightarrow> json \<Rightarrow> 'w \<Rightarrow> (json, string) result \<times> 'w) \<Rightarrow> string \<Rightarrow> json \<Rightarrow> json \<Rightarrow> 'w \<Rightarrow> (bool, string) result \<times> 'w" where
  "connector_revert run_tool tool arguments result w =
     (if tool \<noteq> ''watch_add'' then (Ok False, w)
      else case created_watch_id arguments result of
        None \<Rightarrow> (Ok False, w)
      | Some i \<Rightarrow>
          (case run_tool ''watch_delete'' (json_object [(''watch'', JString i)]) w of
             (Err e, w) \<Rightarrow> (Err e, w)
           | (Ok _, w) \<Rightarrow> (Ok True, w)))"

section \<open>Undoing a watch\<close>

text \<open>A watch as the tool answers it; the parts besides its name do not matter to the compensation.\<close>

lemma delete_after_create:
  assumes "db_ok db" "sq_create_watch L r db = (Ok w, db')"
  shows "w_tenant w = cw_tenant r \<and> w_id w = cw_watch r \<and>
    sq_delete_watch \<lparr>dw_tenant = cw_tenant r, dw_watch = cw_watch r\<rparr> db' = (Ok True, db)"
proof -
  let ?k = "(cw_tenant r, cw_watch r)"
  have v: "delete_watch_validate \<lparr>dw_tenant = cw_tenant r, dw_watch = cw_watch r\<rparr> = Ok ()"
    and w: "w = into_watch r" and fresh: "\<not> exists_where (\<lambda>x. watch_key x = ?k) (db_watches db)"
    and db': "db' = db\<lparr>db_watches := db_watches db @ [w]\<rparr>"
    using assms(2)
    by (auto simp: sq_create_watch_def Let_def create_watch_validate_def delete_watch_validate_def into_watch_def
        watch_key_def split: sum.splits if_splits)
  have k: "watch_key w = ?k" by (simp add: w into_watch_def watch_key_def)
  have no: "?k \<notin> watch_key ` set (db_watches db)" using fresh by (auto simp: exists_key)
  have gone: "delete_where (\<lambda>x. watch_key x = ?k) (db_watches db @ [w]) = db_watches db"
    using fresh k by (auto simp: delete_where_def exists_where_def filter_id_conv)
  have rest: "delete_where (\<lambda>x. (run_tenant x, run_watch x) = ?k) (db_runs db) = db_runs db"
    "delete_where (\<lambda>x. (wr_tenant x, wr_watch x) = ?k) (db_watch_records db) = db_watch_records db"
    "delete_where (\<lambda>x. (d_tenant x, d_watch x) = ?k) (db_deliveries db) = db_deliveries db"
    using assms(1) no by (auto simp: db_ok_def refs_ok_def delete_where_def filter_id_conv)
  have "exists_where (\<lambda>x. watch_key x = ?k) (db_watches db')" "0 < count_where (\<lambda>x. watch_key x = ?k) (db_watches db')"
    using k by (auto simp: db' exists_where_def count_where_def)
  then have "delete_watch_rows ?k db' = db"
    using gone rest by (simp add: delete_watch_rows_def db')
  then show ?thesis
    using v k \<open>0 < count_where _ _\<close> by (simp add: sq_delete_watch_def Let_def watch_key_def)
qed

lemma errors_not_ok [simp]: "typed_store_error e \<noteq> Typed_Ok v" "typed_app_error a \<noteq> Typed_Ok v"
  by (cases a; simp add: typed_store_error_def)+

lemma delete_command_after_add:
  assumes "db_ok db" "app_store app = Some (sqlite_store L) \<or> app_store app = Some (d1_store L)"
    and "watch_add_command app opts now db = (Typed_Ok w, db')"
  shows "watch_delete_command app (w_id w) db' = (Typed_Ok True, db)"
proof -
  obtain sources where "sq_create_watch L (watch_add_request app opts sources now) db = (Ok w, db')"
    using assms(2,3)
    by (auto simp: watch_add_command_def watch_add_def the_store_def sqlite_store_def d1_store_def
        d1_create_watch_same split: sum.splits prod.splits)
  from delete_after_create [OF assms(1) this] show ?thesis
    using assms(2)
    by (auto simp: watch_delete_command_def the_store_def sqlite_store_def d1_store_def d1_delete_watch_same
        watch_add_request_def)
qed

text \<open>C38: Rolling back a \<open>watch_add\<close> undoes it: when the tool's answer names the watch it stored and
  \<open>watch_delete\<close> runs the command of that name, the compensation reports success and leaves the database as
  it was before the watch was added, on SQLite and D1; no other tool is compensated, or said to be.\<close>

theorem rollback_undoes_watch_add:
  assumes "db_ok db" "app_store app = Some (sqlite_store L) \<or> app_store app = Some (d1_store L)"
    and "watch_add_command app opts now db = (Typed_Ok w, db')"
    and "json_get result ''watch_id'' = Some (JString (w_id w))"
    and "\<And>i s. case watch_delete_command app i s of (Typed_Ok deleted, s') \<Rightarrow>
        run_tool ''watch_delete'' (json_object [(''watch'', JString i)]) s = (Ok (json_object [(''deleted'', JBool deleted)]), s')
      | (_, s') \<Rightarrow> \<not> is_ok (fst (run_tool ''watch_delete'' (json_object [(''watch'', JString i)]) s))"
  shows "connector_revert run_tool tool arguments result db' =
    (if tool = ''watch_add'' then (Ok True, db) else (Ok False, db'))"
proof -
  have "run_tool ''watch_delete'' (json_object [(''watch'', JString (w_id w))]) db' =
      (Ok (json_object [(''deleted'', JBool True)]), db)"
    using assms(5) [of "w_id w" db'] delete_command_after_add [OF assms(1-3)] by simp
  then show ?thesis
    by (simp add: connector_revert_def created_watch_id_def assms(4))
qed

definition example_run_tool :: "comsat_app \<Rightarrow> string \<Rightarrow> json \<Rightarrow> db \<Rightarrow> (json, string) result \<times> db" where
  "example_run_tool app tool v s =
     (case json_get v ''watch'' of
        Some (JString i) \<Rightarrow>
          (case watch_delete_command app i s of
             (Typed_Ok deleted, s) \<Rightarrow> (Ok (json_object [(''deleted'', JBool deleted)]), s)
           | (_, s) \<Rightarrow> (Err ''operational'', s))
      | _ \<Rightarrow> (Err ''watch'', s))"

definition example_add :: watch_add_options where
  "example_add = \<lparr>wo_watch_id = None, wo_query = ''Rust news'', wo_interval = None, wo_source = [''web''], wo_limit = None\<rparr>"

lemma example_adds:
  "case fst (watch_add_command (example_app sqlite_store) example_add 9 example_db) of
     Typed_Ok w \<Rightarrow> w_id w = ''rust-news-9'' | _ \<Rightarrow> False"
  by code_simp

theorem rollback_undoes_watch_add_witness:
  "connector_revert (example_run_tool (example_app sqlite_store)) ''watch_add'' JNull
     (json_object [(''watch_id'', JString ''rust-news-9'')])
     (snd (watch_add_command (example_app sqlite_store) example_add 9 example_db)) = (Ok True, example_db)"
proof -
  obtain w where w: "fst (watch_add_command (example_app sqlite_store) example_add 9 example_db) = Typed_Ok w"
      "w_id w = ''rust-news-9''"
    using example_adds by (auto split: typed_result.splits)
  have "app_store (example_app sqlite_store) = Some (sqlite_store example_libs)" by (simp add: example_app_def)
  from rollback_undoes_watch_add [OF example_db_ok disjI1 [OF this], of example_add 9 w, where tool = "''watch_add''"]
  show ?thesis
    by (simp add: prod_eq_iff w example_run_tool_def json_get_object split: typed_result.split prod.split)
qed

end
