(* ===== verification/Migrations.thy ===== *)
theory Migrations
  imports Store_Model
begin

text \<open>
  The schema migrations of the SQLite store (\<open>comsat-store-sqlite/src/migrations.rs\<close>, \<open>migrations/*.sql\<close>). A
  schema is its tables, with the columns and the rows of each, its indexes and the versions recorded. The
  keys and references of the tables are the constraints of \<open>Store_Db\<close>.
\<close>

section \<open>Statements\<close>

text \<open>A row is its values by column; a missing value is \<open>NULL\<close>.\<close>

type_synonym table_row = "(string \<times> string option) list"

record table =
  tb_columns :: "string list"
  tb_rows :: "table_row list"

record schema =
  sc_tables :: "(string \<times> table) list"
  sc_indexes :: "string list"
  sc_versions :: "nat list option"

datatype statement =
    Pragma_Foreign_Keys
  | Create_Table string "string list"
  | Create_Index string string "string list"
  | Add_Column string string "string option"

definition with_tables :: "(string \<times> table) list \<Rightarrow> schema \<Rightarrow> schema" where
  "with_tables ts s = s\<lparr>sc_tables := ts\<rparr>"

text \<open>\<open>CREATE ... IF NOT EXISTS\<close>, \<open>ALTER TABLE ... ADD COLUMN\<close>, as SQLite runs them.\<close>

fun exec_statement :: "statement \<Rightarrow> schema \<Rightarrow> schema store_result" where
  "exec_statement Pragma_Foreign_Keys s = Ok s"
| "exec_statement (Create_Table n cs) s =
     (if n \<in> set (map fst (sc_tables s)) then Ok s
      else Ok (s\<lparr>sc_tables := sc_tables s @ [(n, \<lparr>tb_columns = cs, tb_rows = []\<rparr>)]\<rparr>))"
| "exec_statement (Create_Index i n cs) s =
     (if i \<in> set (sc_indexes s) then Ok s
      else case map_of (sc_tables s) n of
        None \<Rightarrow> Err (Store_Backend (''no such table: '' @ n))
      | Some t \<Rightarrow>
          (case find (\<lambda>c. c \<notin> set (tb_columns t)) cs of
             Some c \<Rightarrow> Err (Store_Backend (''no such column: '' @ c))
           | None \<Rightarrow> Ok (s\<lparr>sc_indexes := sc_indexes s @ [i]\<rparr>)))"
| "exec_statement (Add_Column n c v) s =
     (case map_of (sc_tables s) n of
        None \<Rightarrow> Err (Store_Backend (''no such table: '' @ n))
      | Some t \<Rightarrow>
          if c \<in> set (tb_columns t) then Err (Store_Backend (''duplicate column name: '' @ c))
          else Ok (s\<lparr>sc_tables := map (\<lambda>(m, t). (m, if m = n
            then \<lparr>tb_columns = tb_columns t @ [c], tb_rows = map (\<lambda>r. r @ [(c, v)]) (tb_rows t)\<rparr> else t)) (sc_tables s)\<rparr>))"

fun execute_batch :: "statement list \<Rightarrow> schema \<Rightarrow> schema store_result" where
  "execute_batch [] s = Ok s"
| "execute_batch (q # qs) s = and_then (exec_statement q s) (execute_batch qs)"

section \<open>The migrations\<close>

definition initial_sql :: "statement list" where
  "initial_sql =
     [Pragma_Foreign_Keys,
      Create_Table ''sources'' [''tenant_id'', ''source_id'', ''enabled'', ''observed_at_epoch_seconds''],
      Create_Table ''watches'' [''tenant_id'', ''watch_id'', ''query_json'', ''source_ids_json'', ''interval_seconds'',
        ''cursor_json'', ''enabled'', ''created_at_epoch_seconds'', ''next_due_epoch_seconds'', ''lease_owner'',
        ''lease_expires_epoch_seconds''],
      Create_Index ''watches_due_idx'' ''watches'' [''tenant_id'', ''enabled'', ''next_due_epoch_seconds'',
        ''lease_expires_epoch_seconds''],
      Create_Table ''watch_runs'' [''tenant_id'', ''watch_id'', ''run_id'', ''idempotency_key'', ''lease_owner'',
        ''status'', ''started_at_epoch_seconds'', ''finished_at_epoch_seconds'', ''error''],
      Create_Table ''records'' [''tenant_id'', ''source_id'', ''record_id'', ''kind'', ''url'', ''title'', ''text'',
        ''author'', ''created_at'', ''updated_at'', ''metadata_json'', ''first_observed_epoch_seconds'',
        ''last_observed_epoch_seconds''],
      Create_Index ''records_history_idx'' ''records'' [''tenant_id'', ''last_observed_epoch_seconds''],
      Create_Table ''watch_records'' [''tenant_id'', ''watch_id'', ''source_id'', ''record_id'',
        ''first_observed_epoch_seconds'', ''last_observed_epoch_seconds''],
      Create_Index ''watch_records_history_idx'' ''watch_records'' [''tenant_id'', ''watch_id'',
        ''last_observed_epoch_seconds''],
      Create_Table ''deliveries'' [''tenant_id'', ''delivery_id'', ''watch_id'', ''run_id'', ''status'',
        ''target_json'', ''created_at_epoch_seconds'', ''delivered_at_epoch_seconds'', ''error'']]"

definition deliveries_sql :: "statement list" where
  "deliveries_sql =
     [Add_Column ''deliveries'' ''payload_json'' (Some ''{}''),
      Add_Column ''deliveries'' ''next_attempt_epoch_seconds'' (Some ''0''),
      Add_Column ''deliveries'' ''attempts'' (Some ''0''),
      Add_Column ''deliveries'' ''lease_owner'' None,
      Add_Column ''deliveries'' ''lease_expires_epoch_seconds'' None,
      Create_Index ''deliveries_pending_idx'' ''deliveries'' [''tenant_id'', ''status'',
        ''next_attempt_epoch_seconds'', ''created_at_epoch_seconds'']]"

definition codemode_sql :: "statement list" where
  "codemode_sql =
     [Create_Table ''codemode_executions'' [''id'', ''updated_at'', ''state''],
      Create_Index ''codemode_executions_updated_at'' ''codemode_executions'' [''updated_at''],
      Create_Table ''codemode_artifacts'' [''execution_id'', ''artifact_id'', ''value''],
      Create_Table ''codemode_snippets'' [''name'', ''saved_at'', ''snippet'']]"

definition create_versions :: "schema \<Rightarrow> schema" where
  "create_versions s = s\<lparr>sc_versions := Some (case sc_versions s of None \<Rightarrow> [] | Some vs \<Rightarrow> vs)\<rparr>"

definition version_applied :: "nat \<Rightarrow> schema \<Rightarrow> bool" where
  "version_applied v s = (case sc_versions s of None \<Rightarrow> False | Some vs \<Rightarrow> v \<in> set vs)"

definition record_version :: "nat \<Rightarrow> schema \<Rightarrow> schema" where
  "record_version v s = s\<lparr>sc_versions := map_option (\<lambda>vs. vs @ [v]) (sc_versions s)\<rparr>"

definition apply_version :: "nat \<Rightarrow> statement list \<Rightarrow> schema \<Rightarrow> schema store_result" where
  "apply_version v sql s =
     (if version_applied v s then Ok s
      else and_then (execute_batch sql s) (\<lambda>s. Ok (record_version v s)))"

definition migrate :: "schema \<Rightarrow> unit store_result \<times> schema" where
  "migrate s =
     (case and_then (execute_batch initial_sql s) (\<lambda>s.
           and_then (apply_version 2 deliveries_sql (create_versions s)) (apply_version 3 codemode_sql)) of
        Err e \<Rightarrow> (Err e, s)
      | Ok s' \<Rightarrow> (Ok (), s'))"

section \<open>What a statement keeps\<close>

text \<open>A statement only adds: tables, indexes, columns at the end of each row.\<close>

definition table_extends :: "table \<Rightarrow> table \<Rightarrow> bool" where
  "table_extends t t' \<longleftrightarrow> prefix (tb_columns t) (tb_columns t') \<and> list_all2 prefix (tb_rows t) (tb_rows t')"

definition schema_extends :: "schema \<Rightarrow> schema \<Rightarrow> bool" where
  "schema_extends s s' \<longleftrightarrow>
     (\<forall>n t. map_of (sc_tables s) n = Some t \<longrightarrow> (\<exists>t'. map_of (sc_tables s') n = Some t' \<and> table_extends t t')) \<and>
     set (sc_indexes s) \<subseteq> set (sc_indexes s') \<and>
     (\<forall>v. version_applied v s \<longrightarrow> version_applied v s')"

lemma table_extends_refl [simp]: "table_extends t t"
  by (simp add: table_extends_def list_all2_refl)

lemma table_extends_trans: "table_extends t u \<Longrightarrow> table_extends u v \<Longrightarrow> table_extends t v"
  unfolding table_extends_def
  by (blast intro: prefix_order.trans list_all2_trans [where ?P1.0 = prefix and ?P2.0 = prefix and ?P3.0 = prefix])

lemma schema_extends_refl [simp]: "schema_extends s s"
  by (simp add: schema_extends_def)

lemma schema_extends_trans: "schema_extends s t \<Longrightarrow> schema_extends t u \<Longrightarrow> schema_extends s u"
  unfolding schema_extends_def by (meson table_extends_trans order_trans)

lemma map_of_changed: "map_of (map (\<lambda>(m, t). (m, if m = n then f t else t)) ts) k =
    map_option (\<lambda>t. if k = n then f t else t) (map_of ts k)"
  by (induction ts) auto

lemma exec_extends: "exec_statement q s = Ok s' \<Longrightarrow> schema_extends s s'"
proof (cases q)
  case (Add_Column n c v)
  assume "exec_statement q s = Ok s'"
  with Add_Column obtain t where t: "map_of (sc_tables s) n = Some t"
    and s': "s' = s\<lparr>sc_tables := map (\<lambda>(m, t). (m, if m = n
        then \<lparr>tb_columns = tb_columns t @ [c], tb_rows = map (\<lambda>r. r @ [(c, v)]) (tb_rows t)\<rparr> else t)) (sc_tables s)\<rparr>"
    by (auto split: option.splits if_splits)
  have "table_extends t \<lparr>tb_columns = tb_columns t @ [c], tb_rows = map (\<lambda>r. r @ [(c, v)]) (tb_rows t)\<rparr>" for t
    by (simp add: table_extends_def list_all2_conv_all_nth)
  then show ?thesis by (auto simp: schema_extends_def s' map_of_changed version_applied_def)
qed (auto simp: schema_extends_def version_applied_def map_add_def map_of_append
    split: if_splits option.splits dest: map_of_SomeD)

lemma batch_extends: "execute_batch qs s = Ok s' \<Longrightarrow> schema_extends s s'"
  by (induction qs arbitrary: s) (auto intro: schema_extends_trans exec_extends)

section \<open>Running the migrations again\<close>

text \<open>What a statement wanted is there.\<close>

fun created :: "statement \<Rightarrow> schema \<Rightarrow> bool" where
  "created Pragma_Foreign_Keys s \<longleftrightarrow> True"
| "created (Create_Table n cs) s \<longleftrightarrow> n \<in> set (map fst (sc_tables s))"
| "created (Create_Index i n cs) s \<longleftrightarrow> i \<in> set (sc_indexes s)"
| "created (Add_Column n c v) s \<longleftrightarrow> False"

fun creates :: "statement \<Rightarrow> bool" where
  "creates (Add_Column n c v) = False"
| "creates _ = True"

lemma created_again: "created q s \<Longrightarrow> exec_statement q s = Ok s"
  by (cases q) auto

lemma exec_created: "exec_statement q s = Ok s' \<Longrightarrow> creates q \<Longrightarrow> created q s'"
  by (cases q) (auto split: if_splits option.splits)

lemma in_tables: "n \<in> set (map fst ts) \<longleftrightarrow> map_of ts n \<noteq> None"
  by (induction ts) auto

lemma created_extends: "created q s \<Longrightarrow> schema_extends s s' \<Longrightarrow> created q s'"
  by (cases q) (auto simp: schema_extends_def in_tables simp del: set_map, blast)

lemma batch_created: "execute_batch qs s = Ok s' \<Longrightarrow> list_all creates qs \<Longrightarrow> list_all (\<lambda>q. created q s') qs"
  by (induction qs arbitrary: s) (auto intro: created_extends [OF exec_created batch_extends])

lemma batch_again: "list_all (\<lambda>q. created q s) qs \<Longrightarrow> execute_batch qs s = Ok s"
  by (induction qs) (auto simp: created_again)

lemma create_versions_extends: "schema_extends s (create_versions s)"
  by (auto simp: schema_extends_def create_versions_def version_applied_def split: option.splits)

lemma create_versions_again: "version_applied v s \<Longrightarrow> create_versions s = s"
  by (auto simp: create_versions_def version_applied_def split: option.splits)

lemma record_version_extends: "schema_extends s (record_version v s)"
  by (auto simp: schema_extends_def record_version_def version_applied_def split: option.splits)

lemma batch_versions: "execute_batch qs s = Ok s' \<Longrightarrow> sc_versions s' = sc_versions s"
proof (induction qs arbitrary: s)
  case (Cons q qs)
  have "sc_versions t = sc_versions s" if "exec_statement q s = Ok t" for t
    using that by (cases q) (auto split: if_splits option.splits)
  with Cons show ?case by auto
qed simp

lemma apply_version_result:
  assumes "apply_version v sql s = Ok s'" "sc_versions s \<noteq> None"
  shows "schema_extends s s' \<and> version_applied v s' \<and> sc_versions s' \<noteq> None"
proof (cases "version_applied v s")
  case True
  with assms show ?thesis by (simp add: apply_version_def)
next
  case False
  then obtain t where t: "execute_batch sql s = Ok t" "s' = record_version v t"
    using assms(1) by (auto simp: apply_version_def)
  then show ?thesis
    using assms(2) batch_versions [OF t(1)] schema_extends_trans [OF batch_extends [OF t(1)] record_version_extends]
    by (auto simp: record_version_def version_applied_def)
qed

lemma migrate_result:
  assumes "migrate s = (Ok (), s')"
  shows "schema_extends s s' \<and> version_applied 2 s' \<and> version_applied 3 s' \<and>
    list_all (\<lambda>q. created q s') initial_sql"
proof -
  from assms obtain a b where a: "execute_batch initial_sql s = Ok a"
    and b: "apply_version 2 deliveries_sql (create_versions a) = Ok b"
    and c: "apply_version 3 codemode_sql b = Ok s'"
    by (auto simp: migrate_def split: sum.splits)
  have v: "sc_versions (create_versions a) \<noteq> None" by (simp add: create_versions_def)
  note b' = apply_version_result [OF b v]
  then have c': "schema_extends b s' \<and> version_applied 3 s'"
    using apply_version_result [OF c] by blast
  have "list_all (\<lambda>q. created q a) initial_sql"
    using a by (rule batch_created) (simp add: initial_sql_def)
  moreover have e: "schema_extends a s'"
    using b' c' create_versions_extends schema_extends_trans by blast
  ultimately have "list_all (\<lambda>q. created q s') initial_sql"
    by (auto simp: list_all_iff intro: created_extends)
  moreover have "version_applied 2 s'" using b' c' by (auto simp: schema_extends_def)
  ultimately show ?thesis using c' schema_extends_trans [OF batch_extends [OF a] e] by blast
qed

text \<open>A new database, and what a release before the migrations left: the tables of \<open>0001_initial.sql\<close>, with
  deliveries.\<close>

definition empty_schema :: schema where
  "empty_schema = \<lparr>sc_tables = [], sc_indexes = [], sc_versions = None\<rparr>"

definition schema_columns :: "schema \<Rightarrow> (string \<times> string list) list" where
  "schema_columns s = map (\<lambda>(n, t). (n, tb_columns t)) (sc_tables s)"

definition released_schema :: "table_row list \<Rightarrow> schema" where
  "released_schema rows =
     (case execute_batch initial_sql empty_schema of
        Err e \<Rightarrow> empty_schema
      | Ok s \<Rightarrow> with_tables (map (\<lambda>(n, t). (n, if n = ''deliveries'' then t\<lparr>tb_rows := rows\<rparr> else t)) (sc_tables s)) s)"

lemma released_schema_migrates:
  "is_ok (fst (migrate (released_schema rows)))"
  "schema_columns (snd (migrate (released_schema rows))) = schema_columns (snd (migrate empty_schema))"
  by code_simp+

text \<open>C39: Opening a database migrates it once: a run of the migrations that fails changes nothing; one that
  succeeds keeps every row, adding columns only at its end, records both versions, and running the
  migrations again, as every later opening does, changes nothing. A new database and one of a release
  before the migrations, with deliveries, are migrated, to the same columns.\<close>

theorem migrations_run_once:
  "(case migrate s of
      (Err e, s') \<Rightarrow> s' = s
    | (Ok _, s') \<Rightarrow> schema_extends s s' \<and> version_applied 2 s' \<and> version_applied 3 s' \<and> migrate s' = (Ok (), s')) \<and>
   is_ok (fst (migrate empty_schema)) \<and> is_ok (fst (migrate (released_schema rows))) \<and>
   schema_columns (snd (migrate (released_schema rows))) = schema_columns (snd (migrate empty_schema))"
proof (intro conjI released_schema_migrates)
  show "is_ok (fst (migrate empty_schema))" by code_simp
  show "case migrate s of
      (Err e, s') \<Rightarrow> s' = s
    | (Ok _, s') \<Rightarrow> schema_extends s s' \<and> version_applied 2 s' \<and> version_applied 3 s' \<and> migrate s' = (Ok (), s')"
  proof (cases "migrate s")
    case (Pair r s')
    show ?thesis
    proof (cases r)
      case (Inl e)
      with Pair show ?thesis by (auto simp: migrate_def split: sum.splits)
    next
      case (Inr u)
      note m = migrate_result [of s s']
      have "migrate s' = (Ok (), s')"
        using m Pair Inr by (simp add: migrate_def batch_again create_versions_again [of 2] apply_version_def)
      with m Pair Inr show ?thesis by simp
    qed
  qed
qed

end
