(* ===== verification/Architecture.thy ===== *)
theory Architecture
  imports Prelude "HOL-Library.Sublist"
begin

text \<open>
  The dependency policy of the workspace as the repository checks it (\<open>xtask/src/architecture.rs\<close>,
  \<open>xtask/src/manifest.rs\<close>). The file system and the TOML parser are parameters; a path is its components.
  A dependency that a workspace entry refers back to the workspace is looked up forever: the lookups are
  partial, and \<open>None\<close> is a check that does not return.
\<close>

section \<open>Manifests\<close>

type_synonym path = "string list"
type_synonym 'a checked = "('a, string) result"

datatype dependency_kind = Normal | Build | Dev

record dependency_table =
  dt_package :: "string option"
  dt_path :: "string option"
  dt_workspace :: "bool option"

datatype dependency = Dep_Version string | Dep_Table dependency_table

record dependency_edge =
  de_name :: string
  de_dependency :: dependency
  de_kind :: dependency_kind

record package =
  pk_name :: string
  pk_root :: path
  pk_dependencies :: "dependency_edge list"

record workspace =
  ws_packages :: "package list"
  ws_rust_version :: "string option"
  ws_dependencies :: "(string \<times> dependency) list"

record root_manifest =
  rm_rust_version :: "string option"
  rm_dependencies :: "(string \<times> dependency) list"

record package_manifest =
  pm_name :: string
  pm_dependencies :: "(string \<times> dependency) list"
  pm_dev_dependencies :: "(string \<times> dependency) list"
  pm_build_dependencies :: "(string \<times> dependency) list"

record repository =
  fs_read :: "path \<Rightarrow> string checked"
  fs_exists :: "path \<Rightarrow> bool"
  fs_is_dir :: "path \<Rightarrow> bool"
  fs_list :: "path \<Rightarrow> string checked list checked"
  toml_root :: "string \<Rightarrow> root_manifest checked"
  toml_package :: "string \<Rightarrow> package_manifest checked"

definition push_edges :: "dependency_edge list \<Rightarrow> (string \<times> dependency) list \<Rightarrow> dependency_kind \<Rightarrow> dependency_edge list" where
  "push_edges edges deps kind = edges @ map (\<lambda>(n, d). \<lparr>de_name = n, de_dependency = d, de_kind = kind\<rparr>) deps"

definition dependency_edges :: "package_manifest \<Rightarrow> dependency_edge list" where
  "dependency_edges m =
     push_edges (push_edges (push_edges [] (pm_dependencies m) Normal) (pm_build_dependencies m) Build)
       (pm_dev_dependencies m) Dev"

definition read_root_manifest :: "repository \<Rightarrow> path \<Rightarrow> root_manifest checked" where
  "read_root_manifest R root = and_then (fs_read R (root @ [''Cargo.toml''])) (toml_root R)"

definition read_package_manifest :: "repository \<Rightarrow> path \<Rightarrow> package_manifest checked" where
  "read_package_manifest R p = and_then (fs_read R p) (toml_package R)"

fun manifest_entries :: "repository \<Rightarrow> path \<Rightarrow> string checked list \<Rightarrow> path list \<Rightarrow> path list checked" where
  "manifest_entries R dir [] found = Ok found"
| "manifest_entries R dir (Err e # es) found = Err e"
| "manifest_entries R dir (Ok n # es) found =
     (let p = dir @ [n]; m = p @ [''Cargo.toml''] in
      manifest_entries R dir es (if fs_is_dir R p \<and> fs_exists R m then found @ [m] else found))"

definition collect_manifest_paths :: "repository \<Rightarrow> path \<Rightarrow> path list \<Rightarrow> path list checked" where
  "collect_manifest_paths R dir found =
     (if \<not> fs_exists R dir then Ok found
      else and_then (fs_list R dir) (\<lambda>es. manifest_entries R dir es found))"

definition package_manifests :: "repository \<Rightarrow> path \<Rightarrow> path list checked" where
  "package_manifests R root =
     and_then (collect_manifest_paths R (root @ [''crates'']) []) (\<lambda>found.
     and_then (collect_manifest_paths R (root @ [''plugins'']) found) (\<lambda>found.
     and_then (collect_manifest_paths R (root @ [''xtask'']) found) (\<lambda>found. Ok (sort found))))"

definition read_package :: "repository \<Rightarrow> path \<Rightarrow> package checked" where
  "read_package R p =
     and_then (read_package_manifest R p) (\<lambda>m.
       if p = [] then Err ''manifest has no parent: ''
       else Ok \<lparr>pk_name = pm_name m, pk_root = butlast p, pk_dependencies = dependency_edges m\<rparr>)"

definition read_workspace :: "repository \<Rightarrow> path \<Rightarrow> workspace checked" where
  "read_workspace R root =
     and_then (read_root_manifest R root) (\<lambda>m.
     and_then (package_manifests R root) (\<lambda>ps.
     and_then (collect_results (read_package R) ps) (\<lambda>packages.
       Ok \<lparr>ws_packages = sort_key pk_name packages, ws_rust_version = rm_rust_version m,
           ws_dependencies = rm_dependencies m\<rparr>)))"

definition package_names :: "workspace \<Rightarrow> string set" where
  "package_names w = set (map pk_name (ws_packages w))"

partial_function (option) dependency_package_name :: "workspace \<Rightarrow> string \<Rightarrow> dependency \<Rightarrow> string option" where
  "dependency_package_name w n d =
     (case d of
        Dep_Version v \<Rightarrow> Some n
      | Dep_Table t \<Rightarrow>
          if dt_workspace t = Some True
          then (case map_of (ws_dependencies w) n of
              None \<Rightarrow> Some n
            | Some d \<Rightarrow> dependency_package_name w n d)
          else Some (case dt_package t of None \<Rightarrow> n | Some p \<Rightarrow> p))"

partial_function (option) dependency_path :: "workspace \<Rightarrow> string \<Rightarrow> dependency \<Rightarrow> string option option" where
  "dependency_path w n d =
     (case d of
        Dep_Version v \<Rightarrow> Some None
      | Dep_Table t \<Rightarrow>
          if dt_workspace t = Some True
          then (case map_of (ws_dependencies w) n of
              None \<Rightarrow> Some None
            | Some d \<Rightarrow> dependency_path w n d)
          else Some (dt_path t))"

section \<open>Paths\<close>

definition path_components :: "string \<Rightarrow> path" where
  "path_components s = filter (\<lambda>c. c \<noteq> [] \<and> c \<noteq> ''.'') (split_on CHR ''/'' s)"

definition path_join :: "path \<Rightarrow> string \<Rightarrow> path" where
  "path_join p s = (case s of CHR ''/'' # _ \<Rightarrow> path_components s | _ \<Rightarrow> p @ path_components s)"

definition file_name :: "path \<Rightarrow> string option" where
  "file_name p = (if p = [] \<or> last p = ''..'' then None else Some (last p))"

definition parent :: "path \<Rightarrow> path option" where
  "parent p = (if p = [] then None else Some (butlast p))"

section \<open>The checks\<close>

definition check_rust_version :: "repository \<Rightarrow> path \<Rightarrow> workspace \<Rightarrow> string list" where
  "check_rust_version R root w =
     (if ws_rust_version w \<noteq> Some ''1.98''
      then [''workspace rust-version must be `1.98`, found `'' @
        (case ws_rust_version w of None \<Rightarrow> ''<missing>'' | Some v \<Rightarrow> v) @ ''`''] else []) @
     (case fs_read R (root @ [''rust-toolchain.toml'']) of
        Ok source \<Rightarrow> if sublist ''channel = \"1.98.1\"'' source then []
          else [''rust-toolchain.toml must pin channel `1.98.1`'']
      | Err e \<Rightarrow> [''failed to read rust-toolchain.toml: '' @ e])"

fun check_declared_paths :: "repository \<Rightarrow> path \<Rightarrow> workspace \<Rightarrow> (string \<times> dependency) list \<Rightarrow> string list option" where
  "check_declared_paths R root w [] = Some []"
| "check_declared_paths R root w ((n, d) # ds) =
     Option.bind (dependency_path w n d) (\<lambda>p.
     Option.bind (check_declared_paths R root w ds) (\<lambda>rest.
       Some ((case p of None \<Rightarrow> []
         | Some p \<Rightarrow> if fs_exists R (path_join root p) then []
             else [''workspace dependency `'' @ n @ ''` points at missing path `'' @ p @ ''`'']) @ rest)))"

definition is_plugin_package :: "package \<Rightarrow> bool" where
  "is_plugin_package p = (Option.bind (parent (pk_root p)) file_name = Some ''plugins'')"

definition allowed_dev_dependency :: "package \<Rightarrow> dependency_edge \<Rightarrow> string \<Rightarrow> bool" where
  "allowed_dev_dependency p e dep \<longleftrightarrow> pk_name p = ''comsat-cloud'' \<and> de_kind e = Dev \<and> dep = ''rusqlite''"

definition forbidden_dependencies :: "string \<Rightarrow> string list option" where
  "forbidden_dependencies n =
     (if n = ''comsat-types'' then Some [''incurs'', ''worker'', ''rusqlite'', ''reqwest'', ''http'']
      else if n = ''comsat-source'' then Some [''comsat-engine'', ''comsat-app'', ''comsat-cloud'', ''worker'', ''rusqlite'', ''reqwest'']
      else if n = ''comsat-app'' then Some [''comsat-cli'', ''comsat-cloud'', ''comsat-store-sqlite'', ''worker'', ''rusqlite'']
      else if n = ''comsat-store'' then Some [''incurs'', ''worker'', ''rusqlite'', ''reqwest'', ''comsat-engine'', ''comsat-app'']
      else if n = ''comsat-store-sqlite'' then Some [''comsat-engine'', ''comsat-app'', ''comsat-cloud'', ''worker'']
      else if n = ''comsat-cloud'' then Some [''rusqlite'', ''comsat-store-sqlite'']
      else None)"

definition boundary_violation :: "package \<Rightarrow> string \<Rightarrow> string" where
  "boundary_violation p dep = ''`'' @ pk_name p @ ''` has forbidden dependency `'' @ dep @ ''`''"

definition forbid_engine_dependency :: "package \<Rightarrow> string \<Rightarrow> string list" where
  "forbid_engine_dependency p dep =
     (if dep = ''reqwest'' \<or> dep = ''worker'' \<or> dep = ''rusqlite'' \<or> prefix ''comsat-github'' dep \<or>
         prefix ''comsat-hacker-news'' dep \<or> prefix ''comsat-web'' dep \<or> prefix ''comsat-stack-exchange'' dep
      then [boundary_violation p dep] else [])"

definition forbid_plugin_dependency :: "package \<Rightarrow> string \<Rightarrow> string set \<Rightarrow> string list" where
  "forbid_plugin_dependency p dep names =
     (if dep \<in> {''comsat-engine'', ''comsat-app'', ''comsat-cloud'', ''comsat-cli'', ''comsat-store'', ''comsat-store-sqlite''}
      then [boundary_violation p dep] else []) @
     (if prefix ''comsat-'' dep \<and> dep \<in> names \<and> dep \<notin> {''comsat-types'', ''comsat-source''}
      then [''`'' @ pk_name p @ ''` must not depend on local COMSAT crate `'' @ dep @ ''`''] else [])"

definition forbid_any :: "package \<Rightarrow> string \<Rightarrow> string list \<Rightarrow> string list" where
  "forbid_any p dep forbidden = (if dep \<in> set forbidden then [boundary_violation p dep] else [])"

definition core_forbids_source_crates :: "string \<Rightarrow> bool" where
  "core_forbids_source_crates n \<longleftrightarrow>
     n \<in> {''comsat-types'', ''comsat-source'', ''comsat-app'', ''comsat-store'', ''comsat-store-sqlite''}"

definition is_plugin_crate :: "string \<Rightarrow> string set \<Rightarrow> bool" where
  "is_plugin_crate dep names \<longleftrightarrow>
     dep \<in> names \<and> dep \<in> {''comsat-github'', ''comsat-hacker-news'', ''comsat-web'', ''comsat-stack-exchange''}"

definition check_package_dependency :: "package \<Rightarrow> dependency_edge \<Rightarrow> string \<Rightarrow> string set \<Rightarrow> string list" where
  "check_package_dependency p e dep names =
     (if pk_name p = dep \<or> allowed_dev_dependency p e dep then []
      else if is_plugin_package p then forbid_plugin_dependency p dep names
      else if pk_name p = ''comsat-engine'' then forbid_engine_dependency p dep
      else (case forbidden_dependencies (pk_name p) of None \<Rightarrow> [] | Some f \<Rightarrow> forbid_any p dep f) @
        (if core_forbids_source_crates (pk_name p) \<and> is_plugin_crate dep names
         then [boundary_violation p dep] else []))"

fun check_edges :: "workspace \<Rightarrow> package \<Rightarrow> dependency_edge list \<Rightarrow> string list option" where
  "check_edges w p [] = Some []"
| "check_edges w p (e # es) =
     Option.bind (dependency_package_name w (de_name e) (de_dependency e)) (\<lambda>dep.
     Option.bind (check_edges w p es) (\<lambda>rest. Some (check_package_dependency p e dep (package_names w) @ rest)))"

fun check_packages :: "workspace \<Rightarrow> package list \<Rightarrow> string list option" where
  "check_packages w [] = Some []"
| "check_packages w (p # ps) =
     Option.bind (check_edges w p (pk_dependencies p)) (\<lambda>vs.
     Option.bind (check_packages w ps) (\<lambda>rest. Some (vs @ rest)))"

definition check_dependency_boundaries :: "workspace \<Rightarrow> string list option" where
  "check_dependency_boundaries w = check_packages w (ws_packages w)"

definition check_plugin_name :: "package \<Rightarrow> string list" where
  "check_plugin_name p =
     (if is_plugin_package p then
        (case file_name (pk_root p) of
           None \<Rightarrow> []
         | Some s \<Rightarrow> if pk_name p \<noteq> ''comsat-'' @ s
             then [''plugin `'' @ s @ ''` package name must be `'' @ (''comsat-'' @ s) @ ''`, found `'' @ pk_name p @ ''`'']
             else [])
      else [])"

definition check_plugin_names :: "workspace \<Rightarrow> string list" where
  "check_plugin_names w = concat (map check_plugin_name (ws_packages w))"

definition crate_root_files :: "package \<Rightarrow> path list" where
  "crate_root_files p = [pk_root p @ [''src'', ''lib.rs''], pk_root p @ [''src'', ''main.rs'']]"

definition display_path :: "path \<Rightarrow> path \<Rightarrow> string" where
  "display_path root p = join ''/'' (if prefix root p then drop (length root) p else p)"

definition check_unsafe_file :: "repository \<Rightarrow> path \<Rightarrow> path \<Rightarrow> string list checked" where
  "check_unsafe_file R root f =
     (if \<not> fs_exists R f then Ok []
      else and_then (fs_read R f) (\<lambda>source.
        Ok (if sublist ''#![forbid(unsafe_code)]'' source then []
            else [display_path root f @ '' must contain `#![forbid(unsafe_code)]`''])))"

definition check_unsafe_policy :: "repository \<Rightarrow> path \<Rightarrow> string list checked" where
  "check_unsafe_policy R root =
     and_then (read_workspace R root) (\<lambda>w.
     and_then (collect_results (check_unsafe_file R root) (concat (map crate_root_files (ws_packages w)))) (\<lambda>vs.
       Ok (concat vs)))"

text \<open>\<open>run\<close>: \<open>None\<close> where a lookup does not return.\<close>

definition architecture_run :: "repository \<Rightarrow> path \<Rightarrow> unit checked option" where
  "architecture_run R root =
     (case read_workspace R root of
        Err e \<Rightarrow> Some (Err e)
      | Ok w \<Rightarrow>
          Option.bind (check_declared_paths R root w (ws_dependencies w)) (\<lambda>paths.
          Option.bind (check_dependency_boundaries w) (\<lambda>edges.
            Some (case check_unsafe_policy R root of
                Err e \<Rightarrow> Err e
              | Ok unsafe \<Rightarrow>
                  (let violations = check_rust_version R root w @ paths @ edges @ check_plugin_names w @ unsafe in
                   if violations = [] then Ok ()
                   else Err (''architecture check failed:\<newline>'' @ join ''\<newline>'' violations))))))"

end
