(* ===== verification/Architecture_Laws.thy ===== *)
theory Architecture_Laws
  imports Architecture
begin

text \<open>
  What a passing check means, as a policy on the edges between packages, and when its lookups return.
\<close>

section \<open>Lookups\<close>

text \<open>A dependency leads back to the workspace when the entry it inherits is itself inherited.\<close>

definition inherited :: "dependency \<Rightarrow> bool" where
  "inherited d = (case d of Dep_Version v \<Rightarrow> False | Dep_Table t \<Rightarrow> dt_workspace t = Some True)"

definition looks_forever :: "workspace \<Rightarrow> string \<Rightarrow> dependency \<Rightarrow> bool" where
  "looks_forever w n d \<longleftrightarrow> inherited d \<and> (case map_of (ws_dependencies w) n of None \<Rightarrow> False | Some d \<Rightarrow> inherited d)"

lemma not_inherited:
  "\<not> inherited d \<Longrightarrow> dependency_package_name w n d \<noteq> None \<and> dependency_path w n d \<noteq> None"
  by (subst dependency_package_name.simps, subst dependency_path.simps)
    (auto simp: inherited_def split: dependency.splits)

lemma lookups_return:
  "\<not> looks_forever w n d \<Longrightarrow> dependency_package_name w n d \<noteq> None \<and> dependency_path w n d \<noteq> None"
  using not_inherited [of _ w n]
  by (subst dependency_package_name.simps, subst dependency_path.simps)
    (auto simp: looks_forever_def inherited_def split: dependency.splits option.splits)

lemma package_name_returns: "dependency_package_name w n d = Some r \<Longrightarrow> \<not> looks_forever w n d"
  by (erule dependency_package_name.raw_induct [where P = "\<lambda>w n d r. \<not> looks_forever w n d", rotated 1])
    (fastforce simp: looks_forever_def inherited_def split: dependency.splits option.splits if_splits)

lemma path_returns: "dependency_path w n d = Some r \<Longrightarrow> \<not> looks_forever w n d"
  by (erule dependency_path.raw_induct [where P = "\<lambda>w n d r. \<not> looks_forever w n d", rotated 1])
    (fastforce simp: looks_forever_def inherited_def split: dependency.splits option.splits if_splits)

lemma lookups_exact:
  "(dependency_package_name w n d = None \<longleftrightarrow> looks_forever w n d) \<and>
   (dependency_path w n d = None \<longleftrightarrow> looks_forever w n d)"
  using lookups_return [of w n d] package_name_returns [of w n d] path_returns [of w n d]
  by (cases "dependency_package_name w n d"; cases "dependency_path w n d") auto

section \<open>The policy\<close>

text \<open>The packages a package must not depend on, itself and the test database of the cloud crate apart.\<close>

definition banned :: "workspace \<Rightarrow> package \<Rightarrow> string set" where
  "banned w p =
     (if is_plugin_package p then
        {''comsat-engine'', ''comsat-app'', ''comsat-cloud'', ''comsat-cli'', ''comsat-store'', ''comsat-store-sqlite''} \<union>
        ({d \<in> package_names w. prefix ''comsat-'' d} - {''comsat-types'', ''comsat-source''})
      else if pk_name p = ''comsat-engine'' then
        {''reqwest'', ''worker'', ''rusqlite''} \<union> {d. prefix ''comsat-github'' d \<or> prefix ''comsat-hacker-news'' d \<or>
          prefix ''comsat-web'' d \<or> prefix ''comsat-stack-exchange'' d}
      else (case forbidden_dependencies (pk_name p) of None \<Rightarrow> {} | Some f \<Rightarrow> set f) \<union>
        (if core_forbids_source_crates (pk_name p)
         then package_names w \<inter> {''comsat-github'', ''comsat-hacker-news'', ''comsat-web'', ''comsat-stack-exchange''}
         else {}))"

definition edge_accepted :: "workspace \<Rightarrow> package \<Rightarrow> dependency_edge \<Rightarrow> bool" where
  "edge_accepted w p e =
     (case dependency_package_name w (de_name e) (de_dependency e) of
        None \<Rightarrow> False
      | Some d \<Rightarrow> d = pk_name p \<or> pk_name p = ''comsat-cloud'' \<and> de_kind e = Dev \<and> d = ''rusqlite'' \<or> d \<notin> banned w p)"

definition path_accepted :: "repository \<Rightarrow> path \<Rightarrow> workspace \<Rightarrow> string \<times> dependency \<Rightarrow> bool" where
  "path_accepted R root w nd =
     (case dependency_path w (fst nd) (snd nd) of
        None \<Rightarrow> False | Some None \<Rightarrow> True | Some (Some p) \<Rightarrow> fs_exists R (path_join root p))"

definition contains_text :: "repository \<Rightarrow> path \<Rightarrow> string \<Rightarrow> bool" where
  "contains_text R p s = (case fs_read R p of Err e \<Rightarrow> False | Ok source \<Rightarrow> sublist s source)"

definition package_accepted :: "repository \<Rightarrow> workspace \<Rightarrow> package \<Rightarrow> bool" where
  "package_accepted R w p \<longleftrightarrow>
     list_all (edge_accepted w p) (pk_dependencies p) \<and>
     (is_plugin_package p \<longrightarrow> (case file_name (pk_root p) of None \<Rightarrow> True | Some s \<Rightarrow> pk_name p = ''comsat-'' @ s)) \<and>
     list_all (\<lambda>f. fs_exists R f \<longrightarrow> contains_text R f ''#![forbid(unsafe_code)]'') (crate_root_files p)"

lemma if_singleton_empty: "(if P then [x] else []) = [] \<longleftrightarrow> \<not> P"
  by simp

lemma check_package_dependency_empty:
  "check_package_dependency p e dep (package_names w) = [] \<longleftrightarrow>
    pk_name p = dep \<or> allowed_dev_dependency p e dep \<or> dep \<notin> banned w p"
proof -
  have "forbid_plugin_dependency p dep (package_names w) = [] \<longleftrightarrow> dep \<notin> banned w p" if "is_plugin_package p"
    unfolding forbid_plugin_dependency_def banned_def append_is_Nil_conv if_singleton_empty if_P [OF that]
    by (simp only: Un_iff Diff_iff mem_Collect_eq de_Morgan_disj de_Morgan_conj) argo
  moreover have "forbid_engine_dependency p dep = [] \<longleftrightarrow> dep \<notin> banned w p"
    if "\<not> is_plugin_package p" "pk_name p = ''comsat-engine''"
    unfolding forbid_engine_dependency_def banned_def if_singleton_empty if_not_P [OF that(1)] if_P [OF that(2)]
    by (simp only: Un_iff insert_iff empty_iff mem_Collect_eq de_Morgan_disj simp_thms) argo
  moreover have "(case forbidden_dependencies (pk_name p) of None \<Rightarrow> [] | Some f \<Rightarrow> forbid_any p dep f) @
      (if core_forbids_source_crates (pk_name p) \<and> is_plugin_crate dep (package_names w)
       then [boundary_violation p dep] else []) = [] \<longleftrightarrow> dep \<notin> banned w p"
    if "\<not> is_plugin_package p" "pk_name p \<noteq> ''comsat-engine''"
    unfolding banned_def append_is_Nil_conv if_singleton_empty if_not_P [OF that(1)] if_not_P [OF that(2)]
      forbid_any_def is_plugin_crate_def Un_iff
    by (cases "forbidden_dependencies (pk_name p)"; cases "core_forbids_source_crates (pk_name p)")
      (simp_all only: option.case if_singleton_empty simp_thms if_True if_False empty_iff Int_iff de_Morgan_disj
        de_Morgan_conj)
  ultimately show ?thesis
    unfolding check_package_dependency_def by presburger
qed

lemma check_edges_empty: "check_edges w p es = Some [] \<longleftrightarrow> list_all (edge_accepted w p) es"
proof (induction es)
  case (Cons e es)
  show ?case
    using Cons
    by (cases "dependency_package_name w (de_name e) (de_dependency e)"; cases "check_edges w p es")
      (auto simp: edge_accepted_def check_package_dependency_empty allowed_dev_dependency_def)
qed simp

lemma check_packages_empty:
  "check_packages w ps = Some [] \<longleftrightarrow> list_all (\<lambda>p. list_all (edge_accepted w p) (pk_dependencies p)) ps"
proof (induction ps)
  case (Cons p ps)
  then show ?case
    using check_edges_empty [of w p "pk_dependencies p"]
    by (cases "check_edges w p (pk_dependencies p)"; cases "check_packages w ps") auto
qed simp

lemma check_declared_paths_empty:
  "check_declared_paths R root w ds = Some [] \<longleftrightarrow> list_all (path_accepted R root w) ds"
proof (induction ds)
  case (Cons nd ds)
  obtain n d where nd: "nd = (n, d)" by (cases nd)
  show ?case
    using Cons
    by (cases "dependency_path w n d"; cases "check_declared_paths R root w ds")
      (auto simp: nd path_accepted_def split: option.splits if_splits)
qed simp

lemma check_unsafe_files:
  "(\<exists>vs. collect_results (check_unsafe_file R root) fs = Ok vs \<and> concat vs = []) \<longleftrightarrow>
    list_all (\<lambda>f. fs_exists R f \<longrightarrow> contains_text R f ''#![forbid(unsafe_code)]'') fs"
proof (induction fs)
  case (Cons f fs)
  then show ?case
    by (cases "fs_read R f"; cases "collect_results (check_unsafe_file R root) fs")
      (auto simp: check_unsafe_file_def contains_text_def)
qed simp

lemma check_plugin_names_empty:
  "check_plugin_names w = [] \<longleftrightarrow> list_all (\<lambda>p. is_plugin_package p \<longrightarrow>
     (case file_name (pk_root p) of None \<Rightarrow> True | Some s \<Rightarrow> pk_name p = ''comsat-'' @ s)) (ws_packages w)"
proof -
  have "check_plugin_name p = [] \<longleftrightarrow> (is_plugin_package p \<longrightarrow>
     (case file_name (pk_root p) of None \<Rightarrow> True | Some s \<Rightarrow> pk_name p = ''comsat-'' @ s))" for p
    by (simp add: check_plugin_name_def split: option.split)
  then show ?thesis by (simp add: check_plugin_names_def list_all_iff)
qed

lemma check_rust_version_empty:
  "check_rust_version R root w = [] \<longleftrightarrow> ws_rust_version w = Some ''1.98'' \<and>
    contains_text R (root @ [''rust-toolchain.toml'']) ''channel = \"1.98.1\"''"
  by (auto simp: check_rust_version_def contains_text_def split: sum.splits)

lemma packages_accepted:
  "list_all (package_accepted R w) ps \<longleftrightarrow>
    list_all (\<lambda>p. list_all (edge_accepted w p) (pk_dependencies p)) ps \<and>
    list_all (\<lambda>p. is_plugin_package p \<longrightarrow>
      (case file_name (pk_root p) of None \<Rightarrow> True | Some s \<Rightarrow> pk_name p = ''comsat-'' @ s)) ps \<and>
    list_all (\<lambda>f. fs_exists R f \<longrightarrow> contains_text R f ''#![forbid(unsafe_code)]'') (concat (map crate_root_files ps))"
  by (induction ps) (simp_all add: package_accepted_def, blast)


end
