(* ===== verification/Complexity.thy ===== *)
theory Complexity
  imports Architecture
begin

text \<open>
  The complexity limits of the repository (\<open>xtask/src/complexity.rs\<close>). The syntax tree is the parser's: a
  node is what the visitors tell apart, with its children in the order they are visited.
\<close>

section \<open>Syntax\<close>

text \<open>An attribute is its path and the text of its tokens.\<close>

type_synonym attributes = "(string \<times> string) list"

record fn_info =
  fi_name :: string
  fi_args :: nat
  fi_attrs :: attributes
  fi_line :: nat
  fi_body_loc :: nat

text \<open>A function has the children of its signature and those of its block.\<close>

datatype node =
    Mod_Item attributes "node list"
  | Impl_Item attributes "node list"
  | Item_Fn fn_info "node list" "node list"
  | Impl_Fn fn_info "node list" "node list"
  | If_Expr "node list"
  | While_Expr "node list"
  | Loop_Expr "node list"
  | Match_Expr nat "node list"
  | Logical_Expr "node list"
  | Other_Node "node list"

section \<open>Metrics of a function\<close>

record metric_counter =
  mc_cyclomatic :: nat
  mc_cognitive :: nat
  mc_max_nesting :: nat
  mc_nesting :: nat

definition nest :: "metric_counter \<Rightarrow> metric_counter" where
  "nest m = m\<lparr>mc_nesting := mc_nesting m + 1, mc_max_nesting := max (mc_max_nesting m) (mc_nesting m + 1)\<rparr>"

definition unnest :: "metric_counter \<Rightarrow> metric_counter" where
  "unnest m = m\<lparr>mc_nesting := mc_nesting m - 1\<rparr>"

definition enter_control :: "metric_counter \<Rightarrow> metric_counter" where
  "enter_control m =
     nest (m\<lparr>mc_cyclomatic := mc_cyclomatic m + 1, mc_cognitive := mc_cognitive m + (1 + mc_nesting m)\<rparr>)"

definition enter_match :: "nat \<Rightarrow> metric_counter \<Rightarrow> metric_counter" where
  "enter_match arms m =
     nest (if 0 < arms then m\<lparr>mc_cyclomatic := mc_cyclomatic m + arms,
         mc_cognitive := mc_cognitive m + (arms + mc_nesting m)\<rparr> else m)"

fun count_node :: "node \<Rightarrow> metric_counter \<Rightarrow> metric_counter" and
    count_nodes :: "node list \<Rightarrow> metric_counter \<Rightarrow> metric_counter" where
  "count_node (Mod_Item t cs) m = count_nodes cs m"
| "count_node (Impl_Item t cs) m = count_nodes cs m"
| "count_node (Item_Fn f sig block) m = count_nodes block (count_nodes sig m)"
| "count_node (Impl_Fn f sig block) m = count_nodes block (count_nodes sig m)"
| "count_node (If_Expr cs) m = unnest (count_nodes cs (enter_control m))"
| "count_node (While_Expr cs) m = unnest (count_nodes cs (enter_control m))"
| "count_node (Loop_Expr cs) m = unnest (count_nodes cs (enter_control m))"
| "count_node (Match_Expr arms cs) m = unnest (count_nodes cs (enter_match arms m))"
| "count_node (Logical_Expr cs) m = count_nodes cs (m\<lparr>mc_cyclomatic := mc_cyclomatic m + 1\<rparr>)"
| "count_node (Other_Node cs) m = count_nodes cs m"
| "count_nodes [] m = m"
| "count_nodes (c # cs) m = count_nodes cs (count_node c m)"

record function_metrics =
  fm_body_loc :: nat
  fm_cyclomatic :: nat
  fm_cognitive :: nat
  fm_max_nesting :: nat

definition measure_function :: "nat \<Rightarrow> node list \<Rightarrow> function_metrics" where
  "measure_function loc block =
     (let m = count_nodes block \<lparr>mc_cyclomatic = 1, mc_cognitive = 0, mc_max_nesting = 0, mc_nesting = 0\<rparr>
      in \<lparr>fm_body_loc = loc, fm_cyclomatic = mc_cyclomatic m, fm_cognitive = mc_cognitive m,
          fm_max_nesting = mc_max_nesting m\<rparr>)"

section \<open>Limits\<close>

definition function_body_loc_limit :: nat where "function_body_loc_limit = 50"
definition cyclomatic_limit :: nat where "cyclomatic_limit = 8"
definition cognitive_limit :: nat where "cognitive_limit = 10"
definition nesting_limit :: nat where "nesting_limit = 3"
definition argument_limit :: nat where "argument_limit = 5"
definition file_warning_loc :: nat where "file_warning_loc = 300"
definition file_hard_loc :: nat where "file_hard_loc = 500"

record metric_check =
  ck_metric :: string
  ck_value :: nat
  ck_limit :: nat

definition exception_covers :: "string \<Rightarrow> string \<Rightarrow> bool" where
  "exception_covers line metric \<longleftrightarrow>
     sublist ''comsat-allow-complexity'' line \<and> sublist metric line \<and> sublist ''reason:'' line"

text \<open>The lines of the file are a list; line numbers count from one.\<close>

definition has_exception :: "string list \<Rightarrow> string \<Rightarrow> nat \<Rightarrow> bool" where
  "has_exception source metric line =
     (let first = line - 4 in list_ex (\<lambda>l. exception_covers l metric) (take (line - first) (drop first source)))"

definition check_metric :: "string \<Rightarrow> string list \<Rightarrow> string \<Rightarrow> nat \<Rightarrow> metric_check \<Rightarrow> string list" where
  "check_metric file source name line c =
     (if ck_value c \<le> ck_limit c \<or> has_exception source (ck_metric c) line then []
      else [file @ '':'' @ nat_str line @ '' `'' @ name @ ''` '' @ ck_metric c @ '' is '' @ nat_str (ck_value c) @
        '', limit is '' @ nat_str (ck_limit c)])"

definition function_checks :: "fn_info \<Rightarrow> node list \<Rightarrow> metric_check list" where
  "function_checks f block =
     (let m = measure_function (fi_body_loc f) block in
      [\<lparr>ck_metric = ''body LOC'', ck_value = fm_body_loc m, ck_limit = function_body_loc_limit\<rparr>,
       \<lparr>ck_metric = ''cyclomatic complexity'', ck_value = fm_cyclomatic m, ck_limit = cyclomatic_limit\<rparr>,
       \<lparr>ck_metric = ''cognitive complexity'', ck_value = fm_cognitive m, ck_limit = cognitive_limit\<rparr>,
       \<lparr>ck_metric = ''nesting depth'', ck_value = fm_max_nesting m, ck_limit = nesting_limit\<rparr>,
       \<lparr>ck_metric = ''arguments'', ck_value = fi_args f, ck_limit = argument_limit\<rparr>])"

definition check_function :: "string \<Rightarrow> string list \<Rightarrow> fn_info \<Rightarrow> node list \<Rightarrow> string list" where
  "check_function file source f block =
     concat (map (check_metric file source (fi_name f) (fi_line f)) (function_checks f block))"

definition has_cfg_test :: "attributes \<Rightarrow> bool" where
  "has_cfg_test attrs \<longleftrightarrow> list_ex (\<lambda>(p, tokens). p = ''cfg'' \<and> sublist ''test'' tokens) attrs"

text \<open>The functions of a file: not those of a test module, and of an implementation only its methods.\<close>

fun visit_node :: "string \<Rightarrow> string list \<Rightarrow> node \<Rightarrow> string list" and
    visit_nodes :: "string \<Rightarrow> string list \<Rightarrow> node list \<Rightarrow> string list" and
    visit_methods :: "string \<Rightarrow> string list \<Rightarrow> node list \<Rightarrow> string list" where
  "visit_node file source (Mod_Item t cs) = (if has_cfg_test t then [] else visit_nodes file source cs)"
| "visit_node file source (Impl_Item t cs) = (if has_cfg_test t then [] else visit_methods file source cs)"
| "visit_node file source (Item_Fn f sig block) =
     (if has_cfg_test (fi_attrs f) then []
      else check_function file source f block @ visit_nodes file source sig @ visit_nodes file source block)"
| "visit_node file source (Impl_Fn f sig block) =
     (if has_cfg_test (fi_attrs f) then []
      else check_function file source f block @ visit_nodes file source sig @ visit_nodes file source block)"
| "visit_node file source (If_Expr cs) = visit_nodes file source cs"
| "visit_node file source (While_Expr cs) = visit_nodes file source cs"
| "visit_node file source (Loop_Expr cs) = visit_nodes file source cs"
| "visit_node file source (Match_Expr arms cs) = visit_nodes file source cs"
| "visit_node file source (Logical_Expr cs) = visit_nodes file source cs"
| "visit_node file source (Other_Node cs) = visit_nodes file source cs"
| "visit_nodes file source [] = []"
| "visit_nodes file source (c # cs) = visit_node file source c @ visit_nodes file source cs"
| "visit_methods file source [] = []"
| "visit_methods file source (c # cs) =
     (case c of Impl_Fn f sig block \<Rightarrow> visit_node file source c | _ \<Rightarrow> []) @ visit_methods file source cs"

text \<open>One file: its violations and its warnings.\<close>

definition check_file_loc :: "string \<Rightarrow> nat \<Rightarrow> string list \<times> string list" where
  "check_file_loc file count =
     (if file_hard_loc < count
      then ([file @ '' has '' @ nat_str count @ '' lines, limit is '' @ nat_str file_hard_loc], [])
      else if file_warning_loc < count
      then ([], [file @ '' has '' @ nat_str count @ '' lines, warning threshold is '' @ nat_str file_warning_loc])
      else ([], []))"

definition check_file ::
  "(string \<Rightarrow> node list checked) \<Rightarrow> (string \<Rightarrow> string list) \<Rightarrow> repository \<Rightarrow> path \<Rightarrow> path \<Rightarrow> (string list \<times> string list) checked" where
  "check_file parse text_lines R root p =
     and_then (fs_read R p) (\<lambda>source.
       (let file = display_path root p in
        case check_file_loc file (length (text_lines source)) of (vs, ws) \<Rightarrow>
          and_then (parse source) (\<lambda>syntax. Ok (vs @ visit_nodes file (text_lines source) syntax, ws))))"

text \<open>\<open>production_rs_files\<close>: the directories still to be listed are a stack of entries, so that the walk meets
  the files in the order of the recursion of \<open>collect_rs_files\<close>; on a cyclic tree it does not return.\<close>

definition is_excluded_dir :: "path \<Rightarrow> bool" where
  "is_excluded_dir p \<longleftrightarrow>
     (case file_name p of None \<Rightarrow> False | Some n \<Rightarrow> n \<in> {''tests'', ''fixtures'', ''testdata'', ''snapshots''})"

text \<open>\<open>Path::extension\<close>.\<close>

definition path_extension :: "path \<Rightarrow> string option" where
  "path_extension p =
     (case Option.bind (file_name p) (rsplit_once CHR ''.'') of
        None \<Rightarrow> None | Some (stem, e) \<Rightarrow> if stem = [] then None else Some e)"

partial_function (option) walk_rs_files ::
  "repository \<Rightarrow> (path \<times> string checked) list \<Rightarrow> path list \<Rightarrow> path list checked option" where
  "walk_rs_files R todo found =
     (case todo of
        [] \<Rightarrow> Some (Ok found)
      | (dir, entry) # todo \<Rightarrow>
          (case entry of
             Err e \<Rightarrow> Some (Err e)
           | Ok n \<Rightarrow>
               (let p = dir @ [n] in
                if fs_is_dir R p then
                  if is_excluded_dir p \<or> \<not> fs_exists R p then walk_rs_files R todo found
                  else (case fs_list R p of
                      Err e \<Rightarrow> Some (Err e)
                    | Ok es \<Rightarrow> walk_rs_files R (map (Pair p) es @ todo) found)
                else walk_rs_files R todo (if path_extension p = Some ''rs'' then found @ [p] else found))))"

definition collect_rs_files :: "repository \<Rightarrow> path \<Rightarrow> path list \<Rightarrow> path list checked option" where
  "collect_rs_files R dir found =
     (if \<not> fs_exists R dir then Some (Ok found)
      else case fs_list R dir of
        Err e \<Rightarrow> Some (Err e)
      | Ok es \<Rightarrow> walk_rs_files R (map (Pair dir) es) found)"

fun collect_rs_roots :: "repository \<Rightarrow> path list \<Rightarrow> path list \<Rightarrow> path list checked option" where
  "collect_rs_roots R [] found = Some (Ok found)"
| "collect_rs_roots R (d # ds) found =
     (case collect_rs_files R d found of
        None \<Rightarrow> None
      | Some (Err e) \<Rightarrow> Some (Err e)
      | Some (Ok found) \<Rightarrow> collect_rs_roots R ds found)"

definition production_rs_files :: "repository \<Rightarrow> path \<Rightarrow> path list checked option" where
  "production_rs_files R root =
     map_option (\<lambda>r. and_then r (\<lambda>found. Ok (sort found)))
       (collect_rs_roots R (map (\<lambda>d. root @ [d]) [''crates'', ''plugins'', ''xtask'']) [])"

definition complexity_run ::
  "(string \<Rightarrow> node list checked) \<Rightarrow> (string \<Rightarrow> string list) \<Rightarrow> repository \<Rightarrow> path \<Rightarrow> unit checked option" where
  "complexity_run parse text_lines R root =
     map_option (\<lambda>files.
       and_then files (\<lambda>fs.
       and_then (collect_results (check_file parse text_lines R root) fs) (\<lambda>rs.
         (let violations = concat (map fst rs) in
          if violations = [] then Ok ()
          else Err (''complexity check failed:\<newline>'' @ join ''\<newline>'' violations)))))
       (production_rs_files R root)"

section \<open>What the counter counts\<close>

text \<open>The branches of a tree, its cognitive weight at a nesting depth, and its depth.\<close>

fun branches :: "node \<Rightarrow> nat" and branches_all :: "node list \<Rightarrow> nat" where
  "branches (Mod_Item t cs) = branches_all cs"
| "branches (Impl_Item t cs) = branches_all cs"
| "branches (Item_Fn f sig block) = branches_all sig + branches_all block"
| "branches (Impl_Fn f sig block) = branches_all sig + branches_all block"
| "branches (If_Expr cs) = 1 + branches_all cs"
| "branches (While_Expr cs) = 1 + branches_all cs"
| "branches (Loop_Expr cs) = 1 + branches_all cs"
| "branches (Match_Expr arms cs) = arms + branches_all cs"
| "branches (Logical_Expr cs) = 1 + branches_all cs"
| "branches (Other_Node cs) = branches_all cs"
| "branches_all [] = 0"
| "branches_all (c # cs) = branches c + branches_all cs"

fun cognitive :: "nat \<Rightarrow> node \<Rightarrow> nat" and cognitive_all :: "nat \<Rightarrow> node list \<Rightarrow> nat" where
  "cognitive d (Mod_Item t cs) = cognitive_all d cs"
| "cognitive d (Impl_Item t cs) = cognitive_all d cs"
| "cognitive d (Item_Fn f sig block) = cognitive_all d sig + cognitive_all d block"
| "cognitive d (Impl_Fn f sig block) = cognitive_all d sig + cognitive_all d block"
| "cognitive d (If_Expr cs) = 1 + d + cognitive_all (d + 1) cs"
| "cognitive d (While_Expr cs) = 1 + d + cognitive_all (d + 1) cs"
| "cognitive d (Loop_Expr cs) = 1 + d + cognitive_all (d + 1) cs"
| "cognitive d (Match_Expr arms cs) = (if arms = 0 then 0 else arms + d) + cognitive_all (d + 1) cs"
| "cognitive d (Logical_Expr cs) = cognitive_all d cs"
| "cognitive d (Other_Node cs) = cognitive_all d cs"
| "cognitive_all d [] = 0"
| "cognitive_all d (c # cs) = cognitive d c + cognitive_all d cs"

fun control_depth :: "node \<Rightarrow> nat" and control_depth_all :: "node list \<Rightarrow> nat" where
  "control_depth (Mod_Item t cs) = control_depth_all cs"
| "control_depth (Impl_Item t cs) = control_depth_all cs"
| "control_depth (Item_Fn f sig block) = max (control_depth_all sig) (control_depth_all block)"
| "control_depth (Impl_Fn f sig block) = max (control_depth_all sig) (control_depth_all block)"
| "control_depth (If_Expr cs) = 1 + control_depth_all cs"
| "control_depth (While_Expr cs) = 1 + control_depth_all cs"
| "control_depth (Loop_Expr cs) = 1 + control_depth_all cs"
| "control_depth (Match_Expr arms cs) = 1 + control_depth_all cs"
| "control_depth (Logical_Expr cs) = control_depth_all cs"
| "control_depth (Other_Node cs) = control_depth_all cs"
| "control_depth_all [] = 0"
| "control_depth_all (c # cs) = max (control_depth c) (control_depth_all cs)"

definition counted :: "nat \<Rightarrow> nat \<Rightarrow> nat \<Rightarrow> metric_counter \<Rightarrow> metric_counter" where
  "counted b c d m = \<lparr>mc_cyclomatic = mc_cyclomatic m + b, mc_cognitive = mc_cognitive m + c,
     mc_max_nesting = max (mc_max_nesting m) (mc_nesting m + d), mc_nesting = mc_nesting m\<rparr>"

lemma counted_counts:
  "mc_nesting m \<le> mc_max_nesting m \<Longrightarrow>
    count_node n m = counted (branches n) (cognitive (mc_nesting m) n) (control_depth n) m"
  "mc_nesting m \<le> mc_max_nesting m \<Longrightarrow>
    count_nodes ns m = counted (branches_all ns) (cognitive_all (mc_nesting m) ns) (control_depth_all ns) m"
proof (induction n m and ns m rule: count_node_count_nodes.induct)
qed (auto simp: counted_def nest_def unnest_def enter_control_def enter_match_def max_def)

text \<open>The metrics of a function are those of its tree: one more than its branches, the weight of each branch by
  how deeply it is nested, and the depth of its nesting.\<close>

lemma measure_function_exact:
  "measure_function loc block = \<lparr>fm_body_loc = loc, fm_cyclomatic = 1 + branches_all block,
     fm_cognitive = cognitive_all 0 block, fm_max_nesting = control_depth_all block\<rparr>"
  by (simp add: measure_function_def counted_counts counted_def)

section \<open>What the check accepts\<close>

text \<open>The functions that are checked, each with its block.\<close>

fun checked_functions :: "node \<Rightarrow> (fn_info \<times> node list) list" and
    checked_all :: "node list \<Rightarrow> (fn_info \<times> node list) list" and
    checked_methods :: "node list \<Rightarrow> (fn_info \<times> node list) list" where
  "checked_functions (Mod_Item t cs) = (if has_cfg_test t then [] else checked_all cs)"
| "checked_functions (Impl_Item t cs) = (if has_cfg_test t then [] else checked_methods cs)"
| "checked_functions (Item_Fn f sig block) =
     (if has_cfg_test (fi_attrs f) then [] else (f, block) # checked_all sig @ checked_all block)"
| "checked_functions (Impl_Fn f sig block) =
     (if has_cfg_test (fi_attrs f) then [] else (f, block) # checked_all sig @ checked_all block)"
| "checked_functions (If_Expr cs) = checked_all cs"
| "checked_functions (While_Expr cs) = checked_all cs"
| "checked_functions (Loop_Expr cs) = checked_all cs"
| "checked_functions (Match_Expr arms cs) = checked_all cs"
| "checked_functions (Logical_Expr cs) = checked_all cs"
| "checked_functions (Other_Node cs) = checked_all cs"
| "checked_all [] = []"
| "checked_all (c # cs) = checked_functions c @ checked_all cs"
| "checked_methods [] = []"
| "checked_methods (c # cs) =
     (case c of Impl_Fn f sig block \<Rightarrow> checked_functions c | _ \<Rightarrow> []) @ checked_methods cs"

lemma visits_are_checks:
  "visit_node file source n = concat (map (\<lambda>(f, b). check_function file source f b) (checked_functions n))"
  "visit_nodes file source ns = concat (map (\<lambda>(f, b). check_function file source f b) (checked_all ns))"
  "visit_methods file source ms = concat (map (\<lambda>(f, b). check_function file source f b) (checked_methods ms))"
  by (induction n and ns and ms rule: checked_functions_checked_all_checked_methods.induct)
    (auto split: node.split)

definition within :: "string list \<Rightarrow> fn_info \<Rightarrow> string \<Rightarrow> nat \<Rightarrow> nat \<Rightarrow> bool" where
  "within source f metric value limit \<longleftrightarrow> value \<le> limit \<or> has_exception source metric (fi_line f)"

definition function_accepted :: "string list \<Rightarrow> fn_info \<times> node list \<Rightarrow> bool" where
  "function_accepted source = (\<lambda>(f, block).
     within source f ''body LOC'' (fi_body_loc f) 50 \<and>
     within source f ''cyclomatic complexity'' (1 + branches_all block) 8 \<and>
     within source f ''cognitive complexity'' (cognitive_all 0 block) 10 \<and>
     within source f ''nesting depth'' (control_depth_all block) 3 \<and>
     within source f ''arguments'' (fi_args f) 5)"

lemma check_metric_empty: "check_metric file source name line c = [] \<longleftrightarrow>
    ck_value c \<le> ck_limit c \<or> has_exception source (ck_metric c) line"
  by (simp add: check_metric_def)

lemma check_function_empty: "check_function file source f block = [] \<longleftrightarrow> function_accepted source (f, block)"
  by (simp add: check_function_def function_checks_def measure_function_exact function_accepted_def within_def
      check_metric_empty function_body_loc_limit_def cyclomatic_limit_def cognitive_limit_def nesting_limit_def
      argument_limit_def)

lemma visit_nodes_empty: "visit_nodes file source ns = [] \<longleftrightarrow> list_all (function_accepted source) (checked_all ns)"
  by (auto simp: visits_are_checks list_all_iff check_function_empty)

definition file_accepted ::
  "(string \<Rightarrow> node list checked) \<Rightarrow> (string \<Rightarrow> string list) \<Rightarrow> repository \<Rightarrow> path \<Rightarrow> bool" where
  "file_accepted parse text_lines R p =
     (case fs_read R p of
        Err e \<Rightarrow> False
      | Ok source \<Rightarrow> length (text_lines source) \<le> 500 \<and>
          (case parse source of
             Err e \<Rightarrow> False
           | Ok ns \<Rightarrow> list_all (function_accepted (text_lines source)) (checked_all ns)))"

lemma check_file_clean:
  "(\<exists>ws. check_file parse text_lines R root p = Ok ([], ws)) \<longleftrightarrow> file_accepted parse text_lines R p"
  by (cases "fs_read R p"; cases "parse (projr (fs_read R p))")
    (auto simp: check_file_def file_accepted_def check_file_loc_def file_hard_loc_def visit_nodes_empty Let_def
      split: prod.splits)

lemma check_files_clean:
  "(\<exists>rs. collect_results (check_file parse text_lines R root) ps = Ok rs \<and> concat (map fst rs) = []) \<longleftrightarrow>
    list_all (file_accepted parse text_lines R) ps"
proof (induction ps)
  case (Cons p ps)
  show ?case
    using Cons check_file_clean [of parse text_lines R root p]
    by (cases "check_file parse text_lines R root p"; cases "collect_results (check_file parse text_lines R root) ps") auto
qed simp

text \<open>The check passes exactly when the walk ends and every file it finds can be read and parsed, has at most 500
  lines, and each of its functions is within the limits, counted on its tree, or has an exception above it.\<close>

theorem complexity_passes:
  "complexity_run parse text_lines R root = Some (Ok ()) \<longleftrightarrow>
   (case production_rs_files R root of
      Some (Ok files) \<Rightarrow> list_all (file_accepted parse text_lines R) files
    | _ \<Rightarrow> False)"
proof (cases "production_rs_files R root")
  case None
  then show ?thesis by (simp add: complexity_run_def)
next
  case (Some r)
  show ?thesis
  proof (cases r)
    case (Inl e)
    with Some show ?thesis by (simp add: complexity_run_def)
  next
    case (Inr ps)
    with Some show ?thesis
      using check_files_clean [of parse text_lines R root ps]
      by (cases "collect_results (check_file parse text_lines R root) ps") (auto simp: complexity_run_def Let_def)
  qed
qed

end
