(* ===== verification/Engine_Catalog.thy ===== *)
theory Engine_Catalog
  imports Engine_Outcome App
begin

text \<open>
  The catalog a host holds (\<open>comsat-engine/src/catalog.rs\<close>): the registered sources and their counters,
  behind which the engine runs; and the notifications the native command configures on its application
  (\<open>comsat-cli/src/notifications.rs\<close>).
\<close>

section \<open>The catalog\<close>

record source_catalog =
  sca_sources :: "catalog_source list"
  sca_metrics :: metrics

definition catalog_try_new :: "catalog_source list \<Rightarrow> (source_catalog, engine_error) result" where
  "catalog_try_new sources =
     and_then (validate_unique_sources sources) (\<lambda>_.
       Ok \<lparr>sca_sources = sources, sca_metrics = metrics_new (map cs_id sources)\<rparr>)"

text \<open>\<open>new\<close> panics on a duplicate: \<open>None\<close>.\<close>

definition catalog_new :: "catalog_source list \<Rightarrow> source_catalog option" where
  "catalog_new sources = ok_option (catalog_try_new sources)"

definition catalog_metrics :: "source_catalog \<Rightarrow> (string \<times> source_metrics) list" where
  "catalog_metrics c = metrics_snapshot (sca_metrics c)"

text \<open>A stream starts as a driver over the sources and the shared counters.\<close>

definition catalog_search_stream :: "source_catalog \<Rightarrow> search_request \<Rightarrow> engine_limits \<Rightarrow> driver" where
  "catalog_search_stream c request limits = driver_new (sca_sources c) (Plan_Search request) limits (sca_metrics c)"

definition catalog_follow_stream :: "source_catalog \<Rightarrow> target \<Rightarrow> engine_limits \<Rightarrow> driver" where
  "catalog_follow_stream c t limits = driver_new (sca_sources c) (Plan_Follow t) limits (sca_metrics c)"

text \<open>The collected outcome of a stream that is polled until it is over; \<open>None\<close> where the schedule stops first.\<close>

definition collect_stream ::
  "libs \<Rightarrow> nat list list list \<Rightarrow> driver \<Rightarrow> (comsat_record list \<times> diagnostic list) option" where
  "collect_stream L scheds d =
     (case drive L scheds d of (evs, d, over) \<Rightarrow> if over then Some (collect_events evs ([], [])) else None)"

definition catalog_collect_follow ::
  "libs \<Rightarrow> nat list list list \<Rightarrow> source_catalog \<Rightarrow> target \<Rightarrow> engine_limits \<Rightarrow> (comsat_record list \<times> diagnostic list) option" where
  "catalog_collect_follow L scheds c t limits = collect_stream L scheds (catalog_follow_stream c t limits)"

definition catalog_fetch ::
  "libs \<Rightarrow> source_catalog \<Rightarrow> target \<Rightarrow> engine_limits \<Rightarrow> (comsat_record, engine_error) result \<times> source_catalog" where
  "catalog_fetch L c t limits =
     (case fetch L (sca_sources c) t limits (sca_metrics c) of (r, m) \<Rightarrow> (r, c\<lparr>sca_metrics := m\<rparr>))"

section \<open>Notifications\<close>

text \<open>\<open>configure\<close>: the values of \<open>COMSAT_WEBHOOK_URL\<close> and \<open>COMSAT_WEBHOOK_TOKEN\<close>.\<close>

definition configure_notifications ::
  "net_libs \<Rightarrow> (string \<Rightarrow> string option) \<Rightarrow> comsat_app \<Rightarrow> comsat_app store_result" where
  "configure_notifications N env app =
     (case env ''COMSAT_WEBHOOK_URL'' of
        None \<Rightarrow> Ok app
      | Some u \<Rightarrow> and_then (delivery_config_new N u (env ''COMSAT_WEBHOOK_TOKEN'')) (\<lambda>config.
          Ok (app\<lparr>app_delivery := Some config\<rparr>)))"

text \<open>The line on standard error after a tick.\<close>

definition delivery_report :: "(delivery option, app_error) result \<Rightarrow> json option" where
  "delivery_report r =
     (case r of
        Ok (Some d) \<Rightarrow> Some (json_object [(''event'', JString ''notification_delivery''), (''delivery_id'', JString (d_id d)),
          (''status'', JString (d_status d)), (''attempts'', JInt (int (d_attempts d)))])
      | Ok None \<Rightarrow> None
      | Err e \<Rightarrow> Some (json_object [(''event'', JString ''notification_storage_failure'')]))"

section \<open>Laws\<close>

lemma catalog_new_iff: "catalog_new sources \<noteq> None \<longleftrightarrow> distinct (map cs_id sources)"
  by (cases "validate_unique_sources sources")
    (auto simp: catalog_new_def catalog_try_new_def validate_unique_sources_ok [symmetric])

lemma drive_spec:
  assumes r: "drive L scheds (driver_new sources plan lim m) = (evs, d, True)"
  shows "evs = stream_spec L lim sources plan"
  using delivery.drives [OF r] driver_new_ok [of sources plan lim m] complete_delivers [OF drive_over [OF r]]
  by (simp add: delivers_def driver_new_delivers)

text \<open>What is collected does not depend on the schedule.\<close>

lemma collected_is_spec:
  "case collect_stream L scheds (driver_new sources plan lim m) of
     None \<Rightarrow> True | Some out \<Rightarrow> out = collect_events (stream_spec L lim sources plan) ([], [])"
  by (auto simp: collect_stream_def dest: drive_spec split: prod.splits)

text \<open>A configured application sends only to a URL that passed the check of the webhook targets.\<close>

lemma configured_url_checked:
  assumes "configure_notifications N env app = Ok app'" "env ''COMSAT_WEBHOOK_URL'' = Some u"
  shows "validate_webhook_url N u = Ok () \<and> map_option dcf_url (app_delivery app') = Some u"
  using assms by (auto simp: configure_notifications_def delivery_config_new_def)

end
