(* ===== verification/Command_Schema.thy ===== *)
theory Command_Schema
  imports Schema_Check Codemode_Cli
begin

text \<open>
  What the commands advertise (\<open>comsat-app/src/commands/schema.rs\<close>, \<open>mod.rs\<close>, the field tables of
  \<open>comsat-source/src/command.rs\<close>): the fields of their input, the schema of the failures among their output and
  their annotations, which decide what a Code Mode program may run without approval. The schemas derived from
  the types are the library's.
\<close>

section \<open>Fields\<close>

datatype field_type = FT_String | FT_Number | FT_Boolean | FT_Array field_type | FT_Value

record field_meta =
  fld_name :: string
  fld_cli_name :: string
  fld_type :: field_type
  fld_required :: bool

definition field :: "string \<Rightarrow> string \<Rightarrow> field_type \<Rightarrow> bool \<Rightarrow> field_meta" where
  "field name cli_name t required =
     \<lparr>fld_name = name, fld_cli_name = cli_name, fld_type = t, fld_required = required\<rparr>"

definition search_args_fields :: "field_meta list" where
  "search_args_fields = [field ''text'' ''text'' FT_String False]"

definition search_fields :: "field_meta list" where
  "search_fields =
     [field ''text'' ''text'' FT_String False, field ''limit'' ''limit'' FT_Number False,
      field ''since'' ''since'' FT_String False, field ''until'' ''until'' FT_String False,
      field ''source'' ''source'' (FT_Array FT_String) False, field ''strict'' ''strict'' FT_Boolean False]"

definition target_fields :: "field_meta list" where
  "target_fields =
     [field ''type'' ''type'' FT_String False, field ''source'' ''source'' FT_String False,
      field ''url'' ''url'' FT_String False, field ''id'' ''id'' FT_String False,
      field ''record'' ''record'' FT_Value False, field ''strict'' ''strict'' FT_Boolean False]"

definition source_search_fields :: "field_meta list" where
  "source_search_fields =
     [field ''text'' ''text'' FT_String True, field ''limit'' ''limit'' FT_Number False,
      field ''since'' ''since'' FT_String False, field ''until'' ''until'' FT_String False]"

definition source_target_fields :: "field_meta list" where
  "source_target_fields =
     [field ''type'' ''type'' FT_String True, field ''source'' ''source'' FT_String False,
      field ''url'' ''url'' FT_String False, field ''id'' ''id'' FT_String False,
      field ''record'' ''record'' FT_Value False]"

definition input_fields :: "operation \<Rightarrow> field_meta list" where
  "input_fields op = (case op of Op_Search \<Rightarrow> source_search_fields | _ \<Rightarrow> source_target_fields)"

section \<open>Annotations\<close>

record mcp_annotations =
  ma_title :: "string option"
  ma_read_only :: "bool option"
  ma_destructive :: "bool option"
  ma_idempotent :: "bool option"
  ma_open_world :: "bool option"

record mcp_options =
  mo_name :: "string option"
  mo_description :: "string option"
  mo_annotations :: "mcp_annotations option"

definition read_only_mcp :: "string \<Rightarrow> string \<Rightarrow> mcp_options" where
  "read_only_mcp name description =
     \<lparr>mo_name = Some name, mo_description = Some description,
      mo_annotations = Some \<lparr>ma_title = Some description, ma_read_only = Some True, ma_destructive = Some False,
        ma_idempotent = Some True, ma_open_world = Some True\<rparr>\<rparr>"

text \<open>The commands of the application, by group and name, with the options of their tools.\<close>

definition command_tools :: "(string \<times> mcp_options option) list" where
  "command_tools =
     [(''search'', Some (read_only_mcp ''comsat_search'' ''Search enabled COMSAT sources'')),
      (''fetch'', Some (read_only_mcp ''comsat_fetch'' ''Fetch one COMSAT source record'')),
      (''follow'', Some (read_only_mcp ''comsat_follow'' ''Follow one COMSAT source record for related records'')),
      (''source list'', Some (read_only_mcp ''source_list'' ''List enabled COMSAT sources'')),
      (''source inspect'', Some (read_only_mcp ''source_inspect'' ''Inspect one COMSAT source'')),
      (''source doctor'', Some (read_only_mcp ''source_doctor'' ''Validate COMSAT source registration'')),
      (''source test'', Some (read_only_mcp ''source_test'' ''Check source command graph consistency'')),
      (''watch add'', None),
      (''watch list'', Some (read_only_mcp ''watch_list'' ''List COMSAT watches'')),
      (''watch delete'', None),
      (''history'', Some (read_only_mcp ''history'' ''List observed COMSAT records''))]"

text \<open>The annotations the policy of Code Mode is given for a tool.\<close>

definition policy_annotations :: "mcp_options option \<Rightarrow> tool_annotations" where
  "policy_annotations opts =
     (case Option.bind opts mo_annotations of
        None \<Rightarrow> \<lparr>an_read_only = None, an_destructive = None\<rparr>
      | Some a \<Rightarrow> \<lparr>an_read_only = ma_read_only a, an_destructive = ma_destructive a\<rparr>)"

section \<open>The schema of a failure\<close>

definition strings :: "string list \<Rightarrow> json" where "strings ss = JArray (map JString ss)"

definition class_names :: "string list" where
  "class_names = [''authentication'', ''authorization'', ''rate_limit'', ''invalid_query'', ''not_found'', ''unsupported'',
     ''upstream'', ''timeout'', ''cancelled'', ''protocol'', ''internal'']"

definition diagnostic_schema :: json where
  "diagnostic_schema = json_object
     [(''type'', JString ''object''),
      (''required'', strings [''source'', ''class'', ''message'']),
      (''properties'', json_object
        [(''source'', json_object [(''type'', JString ''string'')]),
         (''class'', json_object [(''type'', JString ''string''), (''enum'', strings class_names)]),
         (''message'', json_object [(''type'', JString ''string'')]),
         (''retry_after_seconds'', json_object
           [(''type'', strings [''integer'', ''null'']), (''minimum'', JInt 0)])])]"

definition source_error_schema :: json where
  "source_error_schema = json_object
     [(''type'', JString ''object''),
      (''required'', strings [''type'', ''diagnostic'']),
      (''properties'', json_object
        [(''type'', json_object [(''const'', JString ''source_error'')]), (''diagnostic'', diagnostic_schema)])]"

text \<open>The schema of the output items replaces that of the records; indexing what is not an object panics.\<close>

definition record_or_source_error_array_schema :: "json \<Rightarrow> json option" where
  "record_or_source_error_array_schema record_array =
     (case record_array of
        JObject kvs \<Rightarrow>
          (let item = (case map_of kvs ''items'' of None \<Rightarrow> JNull | Some i \<Rightarrow> i) in
           Some (JObject (bt_insert ''items'' (json_object [(''anyOf'', JArray [item, source_error_schema])]) kvs)))
      | _ \<Rightarrow> None)"

section \<open>Conformance of a value\<close>

text \<open>The keywords of JSON Schema these schemas use; any other keyword is not met. The number bounds the nesting
  of the schema.\<close>

fun has_json_type :: "string \<Rightarrow> json \<Rightarrow> bool" where
  "has_json_type t v =
     (case v of
        JNull \<Rightarrow> t = ''null'' | JBool _ \<Rightarrow> t = ''boolean'' | JInt _ \<Rightarrow> t = ''integer'' \<or> t = ''number''
      | JFloat _ \<Rightarrow> t = ''number'' | JString _ \<Rightarrow> t = ''string'' | JArray _ \<Rightarrow> t = ''array'' | JObject _ \<Rightarrow> t = ''object'')"

definition type_keyword :: "json \<Rightarrow> json \<Rightarrow> bool" where
  "type_keyword x v =
     (case x of
        JString t \<Rightarrow> has_json_type t v
      | JArray ts \<Rightarrow> list_ex (\<lambda>t. case t of JString t \<Rightarrow> has_json_type t v | _ \<Rightarrow> False) ts
      | _ \<Rightarrow> False)"

definition required_keyword :: "json \<Rightarrow> json \<Rightarrow> bool" where
  "required_keyword x v =
     (case (x, v) of
        (JArray ks, JObject _) \<Rightarrow> list_all (\<lambda>k. case k of JString k \<Rightarrow> json_get v k \<noteq> None | _ \<Rightarrow> False) ks
      | (JArray ks, _) \<Rightarrow> True
      | _ \<Rightarrow> False)"

fun conforms :: "nat \<Rightarrow> json \<Rightarrow> json \<Rightarrow> bool" where
  "conforms 0 s v = False"
| "conforms (Suc n) s v =
     (case s of
        JObject kvs \<Rightarrow> list_all (\<lambda>(k, x).
          if k = ''type'' then type_keyword x v
          else if k = ''const'' then v = x
          else if k = ''enum'' then (case x of JArray xs \<Rightarrow> v \<in> set xs | _ \<Rightarrow> False)
          else if k = ''required'' then required_keyword x v
          else if k = ''minimum'' then (case (x, v) of (JInt m, JInt i) \<Rightarrow> m \<le> i | _ \<Rightarrow> True)
          else if k = ''properties'' then
            (case x of
               JObject ps \<Rightarrow> list_all (\<lambda>(p, q). case json_get v p of None \<Rightarrow> True | Some w \<Rightarrow> conforms n q w) ps
             | _ \<Rightarrow> False)
          else if k = ''anyOf'' then (case x of JArray ss \<Rightarrow> list_ex (\<lambda>q. conforms n q v) ss | _ \<Rightarrow> False)
          else False) kvs
      | _ \<Rightarrow> False)"

section \<open>Laws\<close>

text \<open>Every failure a search or a follow emits is what the commands advertise.\<close>

lemma class_name_listed: "class_name c \<in> set class_names"
  by (cases c) (simp_all add: class_names_def)

declare has_json_type.simps [simp del]

lemma diagnostic_members:
  "json_get (diagnostic_value g) ''source'' = Some (JString (sid_str (diag_source g)))"
  "json_get (diagnostic_value g) ''class'' = Some (JString (class_name (diag_class g)))"
  "json_get (diagnostic_value g) ''message'' = Some (JString (diag_message g))"
  "json_get (diagnostic_value g) ''retry_after_seconds'' = Some (json_opt json_nat (diag_retry_after g))"
  by (simp_all add: diagnostic_value_def json_get_object)

lemma source_error_members:
  "json_get (source_error_value g) ''type'' = Some (JString ''source_error'')"
  "json_get (source_error_value g) ''diagnostic'' = Some (diagnostic_value g)"
  by (simp_all add: source_error_value_def json_get_object)

lemma objects_conform:
  "has_json_type t (diagnostic_value g) \<longleftrightarrow> t = ''object''" "has_json_type t (source_error_value g) \<longleftrightarrow> t = ''object''"
  by (simp_all add: diagnostic_value_def source_error_value_def json_object_def has_json_type.simps)

lemma json_types:
  "has_json_type t JNull \<longleftrightarrow> t = ''null''" "has_json_type t (JInt i) \<longleftrightarrow> t = ''integer'' \<or> t = ''number''"
  "has_json_type t (JString s) \<longleftrightarrow> t = ''string''"
  by (simp_all add: has_json_type.simps)

lemma diagnostic_schema_eq:
  "diagnostic_schema = JObject
     [(''properties'', JObject
        [(''class'', JObject [(''enum'', strings class_names), (''type'', JString ''string'')]),
         (''message'', JObject [(''type'', JString ''string'')]),
         (''retry_after_seconds'', JObject [(''minimum'', JInt 0), (''type'', strings [''integer'', ''null''])]),
         (''source'', JObject [(''type'', JString ''string'')])]),
      (''required'', strings [''source'', ''class'', ''message'']), (''type'', JString ''object'')]"
  by code_simp

lemma source_error_schema_eq:
  "source_error_schema = JObject
     [(''properties'', JObject
        [(''diagnostic'', diagnostic_schema), (''type'', JObject [(''const'', JString ''source_error'')])]),
      (''required'', strings [''type'', ''diagnostic'']), (''type'', JString ''object'')]"
  by code_simp

lemma required_strings:
  "is_object v \<Longrightarrow> required_keyword (strings ks) v \<longleftrightarrow> list_all (\<lambda>k. json_get v k \<noteq> None) ks"
  by (auto simp: required_keyword_def strings_def is_object_iff list_all_iff)

lemma values_are_objects: "is_object (diagnostic_value g)" "is_object (source_error_value g)"
  by (simp_all add: diagnostic_value_def source_error_value_def json_object_def)

lemma diagnostic_conforms: "conforms (Suc (Suc 0)) diagnostic_schema (diagnostic_value g)"
  using class_name_listed [of "diag_class g"]
  by (cases "diag_retry_after g")
    (simp_all add: diagnostic_schema_eq diagnostic_members required_strings values_are_objects type_keyword_def
      objects_conform json_types strings_def [of class_names] strings_def [of "[''integer'', ''null'']"])

lemma failures_conform: "conforms (Suc (Suc (Suc 0))) source_error_schema (source_error_value g)"
  using diagnostic_conforms [of g]
  by (simp add: source_error_schema_eq source_error_members required_strings values_are_objects type_keyword_def objects_conform
      del: conforms.simps add: conforms.simps(2) [of "Suc (Suc 0)"] conforms.simps(2) [of "Suc 0" "JObject [(''const'', JString ''source_error'')]"])

text \<open>The schema of the failures passes the check that sources must pass.\<close>

lemma source_error_schema_valid: "validate_schema_document tool source_error_schema = Ok ()"
  by code_simp

text \<open>A Code Mode program runs without approval exactly the local commands that change nothing.\<close>

lemma changes_need_approval:
  "list_all (\<lambda>(name, opts). requires_approval (comsat_retrieval_policy local_origin (policy_annotations opts)) \<longleftrightarrow>
     \<not> local_origin \<or> name \<in> {''watch add'', ''watch delete''}) command_tools"
  by (simp add: command_tools_def comsat_retrieval_policy_def policy_annotations_def read_only_mcp_def)

end
