(* ===== verification/D1_Binding.thy ===== *)
theory D1_Binding
  imports D1_Store Row_Laws
begin

text \<open>
  The statements of D1 as the store prepares them: the values it binds, in order
  (\<open>comsat-cloud/src/d1_values.rs\<close>), the statements that read them by position
  (\<open>comsat-cloud/src/d1_sql.rs\<close>), and the results a batch answers, which the completion reads by index
  (\<open>d1_store.rs\<close>). \<open>D1_Store\<close> states the statements over the fields of the requests; the laws are in
  \<open>D1_Binding_Laws\<close>. A statement that D1 refuses (a value of the wrong type, JSON text that does not
  parse, a null in a column that has none) is None, and fails its batch. The store binds no text where a
  statement compares a number, so that comparison is left false.
\<close>

section \<open>Values\<close>

definition json_text_value :: "row_libs \<Rightarrow> json \<Rightarrow> js_value" where
  "json_text_value R v = Js_String (json_column_text R v)"

definition completion_gate_values :: "complete_watch_run \<Rightarrow> js_value list" where
  "completion_gate_values r =
     [Js_String (cr_tenant r), Js_String (cr_watch r), Js_String (cr_run r), Js_String (cr_owner r), js_int (cr_finished r)]"

definition records_json :: "row_libs \<Rightarrow> complete_watch_run \<Rightarrow> string store_result" where
  "records_json R r =
     (let text = json_text (rl_libs R) (JArray (map (bulk_record_json (rl_libs R)) (cr_records r)))
      in if length text \<le> max_records_json_bytes then Ok text
         else Err (Store_Validation ''serialized D1 completion records exceed 1048576 bytes''))"

definition bulk_record_values :: "complete_watch_run \<Rightarrow> string \<Rightarrow> js_value list" where
  "bulk_record_values r records =
     [Js_String records, Js_String (cr_tenant r), Js_String (cr_watch r), Js_String (cr_run r), Js_String (cr_owner r),
      js_int (cr_finished r)]"

definition complete_run_values :: "complete_watch_run \<Rightarrow> js_value list" where
  "complete_run_values r =
     [Js_String (run_status_of (cr_error r)), js_int (cr_finished r), js_opt Js_String (cr_error r), Js_String (cr_tenant r),
      Js_String (cr_watch r), Js_String (cr_run r), Js_String (cr_owner r)]"

definition complete_watch_values :: "row_libs \<Rightarrow> complete_watch_run \<Rightarrow> js_value list" where
  "complete_watch_values R r =
     [json_text_value R (cr_cursor r), js_int (cr_finished r), Js_String (cr_tenant r), Js_String (cr_watch r),
      Js_String (cr_owner r), js_int (cr_finished r), Js_String (cr_run r)]"

definition run_delivery_values :: "row_libs \<Rightarrow> complete_watch_run \<Rightarrow> string \<Rightarrow> js_value list option" where
  "run_delivery_values R r records =
     (case cr_delivery r of
        None \<Rightarrow> None
      | Some d \<Rightarrow> Some [Js_String records, Js_String (cr_tenant r), Js_String (cr_watch r), Js_String (cr_run r),
          Js_String (cr_owner r), js_int (cr_finished r), Js_String (rd_id d), json_text_value R (rd_target d)])"

definition claim_watch_values :: "claim_due_watch \<Rightarrow> int \<Rightarrow> js_value list" where
  "claim_watch_values r lease_expires =
     [Js_String (cd_owner r), js_int lease_expires, Js_String (cd_tenant r), js_int (cd_now r)]"

definition start_run_values :: "start_watch_run \<Rightarrow> js_value list" where
  "start_run_values r =
     [Js_String (sr_tenant r), Js_String (sr_watch r), Js_String (sr_run r), Js_String (sr_key r), Js_String (sr_owner r),
      js_int (sr_started r)]"

definition claim_delivery_values :: "claim_pending_delivery \<Rightarrow> int \<Rightarrow> js_value list" where
  "claim_delivery_values r lease_expires =
     [Js_String (cp_owner r), js_int lease_expires, Js_String (cp_tenant r), js_int (cp_now r)]"

definition complete_delivery_values :: "complete_delivery \<Rightarrow> js_value list" where
  "complete_delivery_values r =
     [Js_Bool (dc_success r), js_int (int max_delivery_attempts), js_int (next_attempt_epoch_seconds r),
      js_opt js_int (if dc_success r then Some (dc_finished r) else None), js_opt Js_String (dc_error r),
      Js_String (dc_tenant r), Js_String (dc_delivery r), Js_String (dc_owner r), js_int (dc_finished r)]"

section \<open>What a statement reads\<close>

text \<open>The parameter \<open>?n\<close>; one that is not bound is null. A boolean is bound as 0 or 1.\<close>

definition par :: "js_value list \<Rightarrow> nat \<Rightarrow> js_value" where
  "par ps n = (if 1 \<le> n \<and> n \<le> length ps then ps ! (n - 1) else Js_Null)"

fun sql_int :: "js_value \<Rightarrow> int option" where
  "sql_int (Js_Number n) = Some n"
| "sql_int (Js_Bool b) = Some (bool_int b)"
| "sql_int _ = None"

fun sql_text :: "js_value \<Rightarrow> string option" where
  "sql_text (Js_String s) = Some s"
| "sql_text _ = None"

fun sql_nullable :: "(js_value \<Rightarrow> 'a option) \<Rightarrow> js_value \<Rightarrow> 'a option option" where
  "sql_nullable f Js_Null = Some None"
| "sql_nullable f v = map_option Some (f v)"

definition sql_json :: "row_libs \<Rightarrow> js_value \<Rightarrow> json option" where
  "sql_json R v = Option.bind (sql_text v) (\<lambda>s. case rl_parse R s of Ok j \<Rightarrow> Some j | Err _ \<Rightarrow> None)"

text \<open>Comparisons of a column with a parameter: not true when either is null.\<close>

definition text_is :: "string option \<Rightarrow> js_value \<Rightarrow> bool" where
  "text_is c v \<longleftrightarrow> (case c of None \<Rightarrow> False | Some s \<Rightarrow> v = Js_String s)"

definition int_is :: "int option \<Rightarrow> js_value \<Rightarrow> bool" where
  "int_is c v \<longleftrightarrow> (case (c, sql_int v) of (Some m, Some n) \<Rightarrow> m = n | _ \<Rightarrow> False)"

definition int_above :: "int option \<Rightarrow> js_value \<Rightarrow> bool" where
  "int_above c v \<longleftrightarrow> (case (c, sql_int v) of (Some m, Some n) \<Rightarrow> n < m | _ \<Rightarrow> False)"

definition int_from :: "int option \<Rightarrow> js_value \<Rightarrow> bool" where
  "int_from c v \<longleftrightarrow> (case (c, sql_int v) of (Some m, Some n) \<Rightarrow> n \<le> m | _ \<Rightarrow> False)"

definition int_up_to :: "int option \<Rightarrow> js_value \<Rightarrow> bool" where
  "int_up_to c v \<longleftrightarrow> (case (c, sql_int v) of (Some m, Some n) \<Rightarrow> m \<le> n | _ \<Rightarrow> False)"

lemmas comparison_defs = text_is_def int_is_def int_above_def int_from_def int_up_to_def

section \<open>Statements of a completion\<close>

text \<open>The join of the guard; the statements number its parameters differently.\<close>

definition guard_rows ::
  "js_value \<Rightarrow> js_value \<Rightarrow> js_value \<Rightarrow> js_value \<Rightarrow> js_value \<Rightarrow> db \<Rightarrow> (watch \<times> watch_run) list" where
  "guard_rows tenant watch_id run owner now db =
     filter (\<lambda>(w, x). run_tenant x = w_tenant w \<and> run_watch x = w_id w \<and>
         text_is (Some (w_tenant w)) tenant \<and> text_is (Some (w_id w)) watch_id \<and> text_is (Some (run_id x)) run \<and>
         text_is (w_lease_owner w) owner \<and> text_is (Some (run_owner x)) owner \<and>
         int_above (w_lease_expires w) now \<and> run_status x = ''running'')
       (List.product (db_watches db) (db_runs db))"

definition complete_gate_stmt :: "js_value list \<Rightarrow> db \<Rightarrow> nat list" where
  "complete_gate_stmt ps db =
     map (\<lambda>(w, x). w_interval w) (guard_rows (par ps 1) (par ps 2) (par ps 3) (par ps 4) (par ps 5) db)"

text \<open>The bulk statements share the first six parameters.\<close>

definition bulk_guard :: "js_value list \<Rightarrow> db \<Rightarrow> bool" where
  "bulk_guard ps db \<longleftrightarrow> guard_rows (par ps 2) (par ps 3) (par ps 4) (par ps 5) (par ps 6) db \<noteq> []"

fun bulk_row :: "row_libs \<Rightarrow> json \<Rightarrow> comsat_record option" where
  "bulk_row R (JObject k) =
     Option.bind (need as_str k ''source_id'') (\<lambda>source. Option.bind (need as_str k ''record_id'') (\<lambda>rid.
     Option.bind (need as_str k ''kind'') (\<lambda>kind. Option.bind (need as_str k ''url'') (\<lambda>url.
     Option.bind (maybe as_str k ''title'') (\<lambda>title. Option.bind (maybe as_str k ''text'') (\<lambda>body.
     Option.bind (maybe as_str k ''author'') (\<lambda>author. Option.bind (maybe as_str k ''created_at'') (\<lambda>created.
     Option.bind (maybe as_str k ''updated_at'') (\<lambda>updated. Option.bind (need as_str k ''metadata_json'') (\<lambda>metadata.
     Option.bind (sql_json R (Js_String metadata)) (\<lambda>m.
       Some \<lparr>rec_id = Record_Id rid, rec_source = Source_Id source, rec_kind = kind, rec_url = url, rec_title = title,
         rec_text = body, rec_author = author, rec_created_at = created, rec_updated_at = updated,
         rec_metadata = m\<rparr>)))))))))))"
| "bulk_row R _ = None"

definition incoming :: "row_libs \<Rightarrow> js_value list \<Rightarrow> comsat_record list option" where
  "incoming R ps =
     Option.bind (sql_json R (par ps 1)) (\<lambda>v. case v of JArray xs \<Rightarrow> those (map (bulk_row R) xs) | _ \<Rightarrow> None)"

definition insert_records_stmt :: "row_libs \<Rightarrow> js_value list \<Rightarrow> db \<Rightarrow> (nat \<times> db) option" where
  "insert_records_stmt R ps db =
     Option.bind (incoming R ps) (\<lambda>xs.
       if bulk_guard ps db then
         Option.bind (sql_text (par ps 2)) (\<lambda>tenant. Option.bind (sql_int (par ps 6)) (\<lambda>now.
           case insert_new record_row_key
             (map (\<lambda>x. \<lparr>rw_tenant = tenant, rw_record = x, rw_first = now, rw_last = now\<rparr>) xs) (db_records db) of
             (n, rows) \<Rightarrow> Some (n, db\<lparr>db_records := rows\<rparr>)))
       else Some (0, db))"

definition incoming_row :: "comsat_record list \<Rightarrow> source_id \<times> record_id \<Rightarrow> comsat_record option" where
  "incoming_row xs k = select_first (\<lambda>x. record_key x = k) xs"

definition update_records_stmt :: "row_libs \<Rightarrow> js_value list \<Rightarrow> db \<Rightarrow> (nat \<times> db) option" where
  "update_records_stmt R ps db =
     Option.bind (incoming R ps) (\<lambda>xs.
       if bulk_guard ps db then
         Option.bind (sql_int (par ps 6)) (\<lambda>now.
           let P = (\<lambda>y. text_is (Some (rw_tenant y)) (par ps 2) \<and> incoming_row xs (record_key (rw_record y)) \<noteq> None)
           in Some (count_where P (db_records db), db\<lparr>db_records := update_where P
             (\<lambda>y. case incoming_row xs (record_key (rw_record y)) of
                    None \<Rightarrow> y | Some x \<Rightarrow> y\<lparr>rw_record := x, rw_last := now\<rparr>) (db_records db)\<rparr>))
       else Some (0, db))"

definition record_groups :: "comsat_record list \<Rightarrow> comsat_record list" where
  "record_groups xs = map snd (bt_collect (rev (map (\<lambda>x. (record_key x, x)) xs)))"

definition insert_run_delivery_stmt :: "row_libs \<Rightarrow> js_value list \<Rightarrow> db \<Rightarrow> (nat \<times> db) option" where
  "insert_run_delivery_stmt R ps db =
     Option.bind (incoming R ps) (\<lambda>xs.
       let new_records = filter (\<lambda>x. \<not> exists_where (\<lambda>y. text_is (Some (wr_tenant y)) (par ps 2) \<and>
             text_is (Some (wr_watch y)) (par ps 3) \<and> wr_source y = rec_source x \<and> wr_id y = rec_id x)
             (db_watch_records db)) (record_groups xs)
       in if bulk_guard ps db \<and> new_records \<noteq> [] then
         Option.bind (sql_text (par ps 2)) (\<lambda>tenant. Option.bind (sql_text (par ps 3)) (\<lambda>watch_id.
         Option.bind (sql_text (par ps 4)) (\<lambda>run. Option.bind (sql_int (par ps 6)) (\<lambda>now.
         Option.bind (sql_text (par ps 7)) (\<lambda>delivery_id. Option.bind (sql_json R (par ps 8)) (\<lambda>target.
           if exists_where (\<lambda>d. delivery_key d = (tenant, delivery_id)) (db_deliveries db) then Some (0, db)
           else Some (1, db\<lparr>db_deliveries := db_deliveries db @
             [\<lparr>d_tenant = tenant, d_id = delivery_id, d_watch = watch_id, d_run = Some run, d_status = ''pending'',
               d_target = target,
               d_payload = json_object [(''type'', JString ''comsat.watch.records_observed''),
                 (''tenant_id'', JString tenant), (''watch_id'', JString watch_id), (''run_id'', JString run),
                 (''observed_at_epoch_seconds'', JInt now), (''records'', JArray (map record_to_json new_records))],
               d_created = now, d_next_attempt = now, d_attempts = 0, d_lease_owner = None, d_lease_expires = None,
               d_delivered = None, d_error = None\<rparr>]\<rparr>)))))))
       else Some (0, db))"

definition insert_watch_records_stmt :: "row_libs \<Rightarrow> js_value list \<Rightarrow> db \<Rightarrow> (nat \<times> db) option" where
  "insert_watch_records_stmt R ps db =
     Option.bind (incoming R ps) (\<lambda>xs.
       if bulk_guard ps db then
         Option.bind (sql_text (par ps 2)) (\<lambda>tenant. Option.bind (sql_text (par ps 3)) (\<lambda>watch_id.
         Option.bind (sql_int (par ps 6)) (\<lambda>now.
           case insert_new watch_record_key
             (map (\<lambda>x. \<lparr>wr_tenant = tenant, wr_watch = watch_id, wr_source = rec_source x, wr_id = rec_id x,
                wr_first = now, wr_last = now\<rparr>) xs) (db_watch_records db) of
             (n, rows) \<Rightarrow> Some (n, db\<lparr>db_watch_records := rows\<rparr>))))
       else Some (0, db))"

definition update_watch_records_stmt :: "row_libs \<Rightarrow> js_value list \<Rightarrow> db \<Rightarrow> (nat \<times> db) option" where
  "update_watch_records_stmt R ps db =
     Option.bind (incoming R ps) (\<lambda>xs.
       if bulk_guard ps db then
         Option.bind (sql_int (par ps 6)) (\<lambda>now.
           let P = (\<lambda>y. text_is (Some (wr_tenant y)) (par ps 2) \<and> text_is (Some (wr_watch y)) (par ps 3) \<and>
                 incoming_row xs (wr_source y, wr_id y) \<noteq> None)
           in Some (count_where P (db_watch_records db),
                db\<lparr>db_watch_records := update_where P (\<lambda>y. y\<lparr>wr_last := now\<rparr>) (db_watch_records db)\<rparr>))
       else Some (0, db))"

definition complete_run_stmt :: "js_value list \<Rightarrow> db \<Rightarrow> (nat \<times> db) option" where
  "complete_run_stmt ps db =
     Option.bind (sql_text (par ps 1)) (\<lambda>status. Option.bind (sql_nullable sql_int (par ps 2)) (\<lambda>now.
     Option.bind (sql_nullable sql_text (par ps 3)) (\<lambda>error.
       let P = (\<lambda>x. text_is (Some (run_tenant x)) (par ps 4) \<and> text_is (Some (run_watch x)) (par ps 5) \<and>
             text_is (Some (run_id x)) (par ps 6) \<and> text_is (Some (run_owner x)) (par ps 7) \<and>
             run_status x = ''running'' \<and>
             exists_where (\<lambda>w. text_is (Some (w_tenant w)) (par ps 4) \<and> text_is (Some (w_id w)) (par ps 5) \<and>
               text_is (w_lease_owner w) (par ps 7) \<and> int_above (w_lease_expires w) (par ps 2)) (db_watches db))
       in Some (count_where P (db_runs db), db\<lparr>db_runs := update_where P
            (\<lambda>x. x\<lparr>run_status := status, run_finished := now, run_error := error\<rparr>) (db_runs db)\<rparr>))))"

definition complete_watch_stmt :: "row_libs \<Rightarrow> js_value list \<Rightarrow> db \<Rightarrow> (nat \<times> db) option" where
  "complete_watch_stmt R ps db =
     Option.bind (sql_json R (par ps 1)) (\<lambda>cursor. Option.bind (sql_int (par ps 2)) (\<lambda>now.
       let P = (\<lambda>w. text_is (Some (w_tenant w)) (par ps 3) \<and> text_is (Some (w_id w)) (par ps 4) \<and>
             text_is (w_lease_owner w) (par ps 5) \<and> int_above (w_lease_expires w) (par ps 6) \<and>
             exists_where (\<lambda>x. text_is (Some (run_tenant x)) (par ps 3) \<and> text_is (Some (run_watch x)) (par ps 4) \<and>
               text_is (Some (run_id x)) (par ps 7) \<and> text_is (Some (run_owner x)) (par ps 5) \<and>
               (run_status x = ''succeeded'' \<or> run_status x = ''failed'') \<and> int_is (run_finished x) (par ps 2))
               (db_runs db))
       in Some (count_where P (db_watches db), db\<lparr>db_watches := update_where P
            (\<lambda>w. w\<lparr>w_cursor := cursor, w_next_due := now + int (w_interval w), w_lease_owner := None,
              w_lease_expires := None\<rparr>) (db_watches db)\<rparr>)))"

section \<open>Statements of a claim and of a delivery\<close>

definition claim_due_watch_stmt :: "js_value list \<Rightarrow> db \<Rightarrow> (watch option \<times> db) option" where
  "claim_due_watch_stmt ps db =
     Option.bind (sql_nullable sql_text (par ps 1)) (\<lambda>owner. Option.bind (sql_nullable sql_int (par ps 2)) (\<lambda>expires.
       let due = (\<lambda>w. text_is (Some (w_tenant w)) (par ps 3) \<and> w_enabled w \<and> int_up_to (Some (w_next_due w)) (par ps 4) \<and>
             (w_lease_expires w = None \<or> int_up_to (w_lease_expires w) (par ps 4)));
           lease = (\<lambda>w. w\<lparr>w_lease_owner := owner, w_lease_expires := expires\<rparr>)
       in Some (case head_option (select_ordered due (\<lambda>w. (w_next_due w, w_created w, w_id w)) (db_watches db)) of
            None \<Rightarrow> (None, db)
          | Some selected \<Rightarrow>
              (let P = (\<lambda>w. due w \<and> w_id w = w_id selected)
               in (map_option lease (select_first P (db_watches db)),
                   db\<lparr>db_watches := update_where P lease (db_watches db)\<rparr>)))))"

definition start_run_stmt :: "js_value list \<Rightarrow> db \<Rightarrow> db option" where
  "start_run_stmt ps db =
     (if exists_where (\<lambda>w. text_is (Some (w_tenant w)) (par ps 1) \<and> text_is (Some (w_id w)) (par ps 2) \<and>
          text_is (w_lease_owner w) (par ps 5) \<and> int_above (w_lease_expires w) (par ps 6)) (db_watches db)
      then
        Option.bind (sql_text (par ps 1)) (\<lambda>tenant. Option.bind (sql_text (par ps 2)) (\<lambda>watch_id.
        Option.bind (sql_text (par ps 3)) (\<lambda>run. Option.bind (sql_text (par ps 4)) (\<lambda>key.
        Option.bind (sql_text (par ps 5)) (\<lambda>owner. Option.bind (sql_int (par ps 6)) (\<lambda>started.
          if exists_where (\<lambda>x. run_idem x = (tenant, watch_id, key)) (db_runs db) then Some db
          else if exists_where (\<lambda>x. run_pk x = (tenant, watch_id, run)) (db_runs db) then None
          else Some (db\<lparr>db_runs := db_runs db @
            [\<lparr>run_tenant = tenant, run_watch = watch_id, run_id = run, run_key = key, run_owner = owner,
              run_status = ''running'', run_started = started, run_finished = None, run_error = None\<rparr>]\<rparr>)))))))
      else Some db)"

definition claim_delivery_stmt :: "js_value list \<Rightarrow> db \<Rightarrow> (delivery option \<times> db) option" where
  "claim_delivery_stmt ps db =
     Option.bind (sql_nullable sql_text (par ps 1)) (\<lambda>owner. Option.bind (sql_nullable sql_int (par ps 2)) (\<lambda>expires.
       let due = (\<lambda>d. d_status d = ''pending'' \<and> int_up_to (Some (d_next_attempt d)) (par ps 4) \<or>
             d_status d = ''delivering'' \<and> int_up_to (d_lease_expires d) (par ps 4));
           P = (\<lambda>d. text_is (Some (d_tenant d)) (par ps 3) \<and> due d);
           lease = (\<lambda>d. d\<lparr>d_status := ''delivering'', d_attempts := d_attempts d + 1, d_lease_owner := owner,
             d_lease_expires := expires, d_error := None\<rparr>)
       in Some (case head_option (select_ordered P (\<lambda>d. (d_next_attempt d, d_created d, d_id d)) (db_deliveries db)) of
            None \<Rightarrow> (None, db)
          | Some selected \<Rightarrow>
              (let P' = (\<lambda>d. text_is (Some (d_tenant d)) (par ps 3) \<and> d_id d = d_id selected \<and> due d)
               in (map_option lease (select_first P' (db_deliveries db)),
                   db\<lparr>db_deliveries := update_where P' lease (db_deliveries db)\<rparr>)))))"

definition complete_delivery_stmt :: "js_value list \<Rightarrow> db \<Rightarrow> (delivery option \<times> db) option" where
  "complete_delivery_stmt ps db =
     Option.bind (sql_int (par ps 3)) (\<lambda>next_attempt. Option.bind (sql_nullable sql_int (par ps 4)) (\<lambda>delivered.
     Option.bind (sql_nullable sql_text (par ps 5)) (\<lambda>error.
       let P = (\<lambda>d. text_is (Some (d_tenant d)) (par ps 6) \<and> text_is (Some (d_id d)) (par ps 7) \<and>
             text_is (d_lease_owner d) (par ps 8) \<and> d_status d = ''delivering'' \<and> int_above (d_lease_expires d) (par ps 9));
           completed = (\<lambda>d. d\<lparr>d_status := (if int_is (Some 1) (par ps 1) then ''succeeded''
                else if int_from (Some (int (d_attempts d))) (par ps 2) then ''failed'' else ''pending''),
              d_next_attempt := next_attempt, d_delivered := delivered, d_error := error, d_lease_owner := None,
              d_lease_expires := None\<rparr>)
       in Some (map_option completed (select_first P (db_deliveries db)),
            db\<lparr>db_deliveries := update_where P completed (db_deliveries db)\<rparr>))))"

section \<open>The remaining statements\<close>

definition upsert_source_values :: "upsert_source \<Rightarrow> js_value list" where
  "upsert_source_values r =
     [Js_String (us_tenant r), Js_String (sid_str (us_source r)), Js_Bool (us_enabled r), js_int (us_observed r)]"

definition upsert_source_stmt :: "js_value list \<Rightarrow> db \<Rightarrow> db option" where
  "upsert_source_stmt ps db =
     Option.bind (sql_text (par ps 1)) (\<lambda>tenant. Option.bind (sql_text (par ps 2)) (\<lambda>source.
     Option.bind (sql_int (par ps 3)) (\<lambda>enabled. Option.bind (sql_int (par ps 4)) (\<lambda>observed.
       Some (db\<lparr>db_sources := upsert_by source_row_key
         \<lparr>so_tenant = tenant, so_source = Source_Id source, so_enabled = int_bool enabled, so_observed = observed\<rparr>
         (\<lambda>row. row\<lparr>so_enabled := int_bool enabled, so_observed := observed\<rparr>) (db_sources db)\<rparr>)))))"

definition delete_watch_stmt :: "js_value list \<Rightarrow> db \<Rightarrow> nat \<times> db" where
  "delete_watch_stmt ps db =
     (let P = (\<lambda>w. text_is (Some (w_tenant w)) (par ps 1) \<and> text_is (Some (w_id w)) (par ps 2))
      in (count_where P (db_watches db),
          case (par ps 1, par ps 2) of
            (Js_String t, Js_String w) \<Rightarrow> delete_watch_rows (t, w) db
          | _ \<Rightarrow> db))"

definition list_watches_stmt :: "js_value list \<Rightarrow> db \<Rightarrow> watch list" where
  "list_watches_stmt ps db =
     select_ordered (\<lambda>w. text_is (Some (w_tenant w)) (par ps 1)) (\<lambda>w. (w_created w, w_id w)) (db_watches db)"

definition load_run_stmt :: "js_value list \<Rightarrow> db \<Rightarrow> watch_run option" where
  "load_run_stmt ps db =
     select_first (\<lambda>x. text_is (Some (run_tenant x)) (par ps 1) \<and> text_is (Some (run_watch x)) (par ps 2) \<and>
       text_is (Some (run_key x)) (par ps 3)) (db_runs db)"

definition load_run_values :: "start_watch_run \<Rightarrow> js_value list" where
  "load_run_values r = [Js_String (sr_tenant r), Js_String (sr_watch r), Js_String (sr_key r)]"

text \<open>\<open>LIMIT ?n\<close>: a negative bound is none.\<close>

definition sql_limit :: "js_value \<Rightarrow> 'a list \<Rightarrow> 'a list option" where
  "sql_limit v rows = map_option (\<lambda>n. if n < 0 then rows else take (nat n) rows) (sql_int v)"

definition history_tenant_values :: "history_request \<Rightarrow> js_value list" where
  "history_tenant_values r =
     [Js_String (hr_tenant r), js_int (case hr_since r of Some t \<Rightarrow> t | None \<Rightarrow> i64_min), js_int (int (hr_limit r))]"

definition history_tenant_stmt :: "js_value list \<Rightarrow> db \<Rightarrow> record_observation list option" where
  "history_tenant_stmt ps db =
     map_option (map (\<lambda>x. \<lparr>ob_record = rw_record x, ob_watch = None, ob_first = rw_first x, ob_last = rw_last x\<rparr>))
       (sql_limit (par ps 3)
         (select_ordered (\<lambda>x. text_is (Some (rw_tenant x)) (par ps 1) \<and> int_from (Some (rw_last x)) (par ps 2))
           (\<lambda>x. (- rw_last x, rec_source (rw_record x), rec_id (rw_record x))) (db_records db)))"

definition history_watch_values :: "history_request \<Rightarrow> js_value list" where
  "history_watch_values r =
     [Js_String (hr_tenant r), Js_String (case hr_watch r of Some w \<Rightarrow> w | None \<Rightarrow> []),
      js_int (case hr_since r of Some t \<Rightarrow> t | None \<Rightarrow> i64_min), js_int (int (hr_limit r))]"

definition history_watch_stmt :: "js_value list \<Rightarrow> db \<Rightarrow> record_observation list option" where
  "history_watch_stmt ps db =
     map_option
       (map (\<lambda>(wr, x). \<lparr>ob_record = rw_record x, ob_watch = Some (wr_watch wr), ob_first = wr_first wr, ob_last = wr_last wr\<rparr>))
       (sql_limit (par ps 4)
         (select_ordered (\<lambda>(wr, x). text_is (Some (wr_tenant wr)) (par ps 1) \<and> text_is (Some (wr_watch wr)) (par ps 2) \<and>
             int_from (Some (wr_last wr)) (par ps 3) \<and> record_row_key x = (wr_tenant wr, wr_source wr, wr_id wr))
           (\<lambda>(wr, x). (- wr_last wr, rec_source (rw_record x), rec_id (rw_record x)))
           (List.product (db_watch_records db) (db_records db))))"

definition list_deliveries_values :: "list_deliveries \<Rightarrow> js_value list" where
  "list_deliveries_values r =
     (case ld_status r of
        Some status \<Rightarrow> [Js_String (ld_tenant r), Js_String status, js_int (int (ld_limit r))]
      | None \<Rightarrow> [Js_String (ld_tenant r), js_int (int (ld_limit r))])"

definition list_deliveries_stmt :: "js_value list \<Rightarrow> db \<Rightarrow> delivery list option" where
  "list_deliveries_stmt ps db =
     sql_limit (par ps 2)
       (select_ordered (\<lambda>d. text_is (Some (d_tenant d)) (par ps 1)) (\<lambda>d. (d_created d, d_id d)) (db_deliveries db))"

definition list_deliveries_status_stmt :: "js_value list \<Rightarrow> db \<Rightarrow> delivery list option" where
  "list_deliveries_status_stmt ps db =
     sql_limit (par ps 3)
       (select_ordered (\<lambda>d. text_is (Some (d_tenant d)) (par ps 1) \<and> text_is (Some (d_status d)) (par ps 2))
         (\<lambda>d. (d_created d, d_id d)) (db_deliveries db))"

text \<open>The reads as the store calls them: the statement it picks, with its values.\<close>

definition d1_history_bound :: "history_request \<Rightarrow> db \<Rightarrow> record_observation list option" where
  "d1_history_bound r db =
     (if hr_watch r \<noteq> None then history_watch_stmt (history_watch_values r) db
      else history_tenant_stmt (history_tenant_values r) db)"

definition d1_deliveries_bound :: "list_deliveries \<Rightarrow> db \<Rightarrow> delivery list option" where
  "d1_deliveries_bound r db =
     (if ld_status r \<noteq> None then list_deliveries_status_stmt (list_deliveries_values r) db
      else list_deliveries_stmt (list_deliveries_values r) db)"

section \<open>The batch of a completion\<close>

datatype completion_sql = COMPLETE_GATE_SQL | INSERT_RECORDS_SQL | UPDATE_RECORDS_SQL | INSERT_RUN_DELIVERY_SQL
  | INSERT_WATCH_RECORDS_SQL | UPDATE_WATCH_RECORDS_SQL | COMPLETE_RUN_SQL | COMPLETE_WATCH_SQL

type_synonym prepared = "completion_sql \<times> js_value list"

text \<open>A result: whether D1 reports success, its error, the intervals of its rows (only the gate has
  rows) and the number of changed rows of its metadata, when there is one.\<close>

record d1_result =
  dr_success :: bool
  dr_error :: "string option"
  dr_rows :: "nat list"
  dr_changes :: "nat option"

definition record_statements :: "row_libs \<Rightarrow> complete_watch_run \<Rightarrow> string \<Rightarrow> prepared list" where
  "record_statements R r records =
     (let values = bulk_record_values r records
      in [(INSERT_RECORDS_SQL, values), (UPDATE_RECORDS_SQL, values)] @
         (case run_delivery_values R r records of None \<Rightarrow> [] | Some vs \<Rightarrow> [(INSERT_RUN_DELIVERY_SQL, vs)]) @
         [(INSERT_WATCH_RECORDS_SQL, values), (UPDATE_WATCH_RECORDS_SQL, values)])"

definition finish_statements :: "row_libs \<Rightarrow> complete_watch_run \<Rightarrow> prepared list" where
  "finish_statements R r = [(COMPLETE_RUN_SQL, complete_run_values r), (COMPLETE_WATCH_SQL, complete_watch_values R r)]"

definition completion_statements :: "row_libs \<Rightarrow> complete_watch_run \<Rightarrow> string \<Rightarrow> prepared list" where
  "completion_statements R r records =
     (COMPLETE_GATE_SQL, completion_gate_values r) # record_statements R r records @ finish_statements R r"

text \<open>What D1 answers for a statement that runs: a query its rows and no changes, a write its changes.\<close>

definition write_result :: "nat \<times> db \<Rightarrow> d1_result \<times> db" where
  "write_result x = (\<lparr>dr_success = True, dr_error = None, dr_rows = [], dr_changes = Some (fst x)\<rparr>, snd x)"

fun run_statement :: "row_libs \<Rightarrow> prepared \<Rightarrow> db \<Rightarrow> (d1_result \<times> db) option" where
  "run_statement R (COMPLETE_GATE_SQL, ps) db =
     Some (\<lparr>dr_success = True, dr_error = None, dr_rows = complete_gate_stmt ps db, dr_changes = Some 0\<rparr>, db)"
| "run_statement R (INSERT_RECORDS_SQL, ps) db = map_option write_result (insert_records_stmt R ps db)"
| "run_statement R (UPDATE_RECORDS_SQL, ps) db = map_option write_result (update_records_stmt R ps db)"
| "run_statement R (INSERT_RUN_DELIVERY_SQL, ps) db = map_option write_result (insert_run_delivery_stmt R ps db)"
| "run_statement R (INSERT_WATCH_RECORDS_SQL, ps) db = map_option write_result (insert_watch_records_stmt R ps db)"
| "run_statement R (UPDATE_WATCH_RECORDS_SQL, ps) db = map_option write_result (update_watch_records_stmt R ps db)"
| "run_statement R (COMPLETE_RUN_SQL, ps) db = map_option write_result (complete_run_stmt ps db)"
| "run_statement R (COMPLETE_WATCH_SQL, ps) db = map_option write_result (complete_watch_stmt R ps db)"

fun run_statements :: "row_libs \<Rightarrow> prepared list \<Rightarrow> db \<Rightarrow> (d1_result list \<times> db) option" where
  "run_statements R [] db = Some ([], db)"
| "run_statements R (s # ss) db =
     Option.bind (run_statement R s db) (\<lambda>(result, db).
       map_option (\<lambda>(results, db). (result # results, db)) (run_statements R ss db))"

text \<open>A batch is one transaction: D1 rolls it back when a statement fails, with the text of its error.\<close>

definition d1_batch :: "row_libs \<Rightarrow> string \<Rightarrow> prepared list \<Rightarrow> db \<Rightarrow> d1_result list store_result \<times> db" where
  "d1_batch R refusal ss db =
     (case run_statements R ss db of
        None \<Rightarrow> (Err (Store_Backend refusal), db)
      | Some (results, db) \<Rightarrow> (Ok results, db))"

section \<open>Reading the results\<close>

definition ensure_success :: "d1_result \<Rightarrow> unit store_result" where
  "ensure_success x =
     (if dr_success x then Ok ()
      else Err (Store_Backend (case dr_error x of Some e \<Rightarrow> e | None \<Rightarrow> ''D1 statement failed'')))"

definition d1_rows :: "d1_result \<Rightarrow> nat list store_result" where
  "d1_rows x = and_then (ensure_success x) (\<lambda>_. Ok (dr_rows x))"

definition d1_changes :: "d1_result \<Rightarrow> nat store_result" where
  "d1_changes x = and_then (ensure_success x) (\<lambda>_. Ok (case dr_changes x of Some n \<Rightarrow> n | None \<Rightarrow> 0))"

definition result_at :: "d1_result list \<Rightarrow> nat \<Rightarrow> d1_result option" where
  "result_at results i = (if i < length results then Some (results ! i) else None)"

definition completion_gate :: "complete_watch_run \<Rightarrow> d1_result option \<Rightarrow> unit store_result" where
  "completion_gate r result =
     (case result of
        None \<Rightarrow> Err (Store_Backend ''D1 completion batch returned no gate'')
      | Some x \<Rightarrow> and_then (d1_rows x) (ensure_completion_gate r))"

definition ensure_changed_result :: "d1_result option \<Rightarrow> string \<Rightarrow> unit store_result" where
  "ensure_changed_result result message =
     (case result of
        None \<Rightarrow> Err (Store_Backend ''D1 completion batch was truncated'')
      | Some x \<Rightarrow> and_then (d1_changes x) (\<lambda>n. ensure_changed n message))"

definition changes_at :: "d1_result list \<Rightarrow> nat \<Rightarrow> nat store_result" where
  "changes_at results i =
     and_then (ok_or (Store_Backend ''D1 completion batch was truncated'') (result_at results i)) d1_changes"

definition complete_outcome_of :: "complete_watch_run \<Rightarrow> d1_result list \<Rightarrow> watch_run_outcome store_result" where
  "complete_outcome_of r results =
     and_then (completion_gate r (result_at results 0)) (\<lambda>_.
     and_then (changes_at results 1) (\<lambda>inserted.
     (let delivery_offset = (if cr_delivery r = None then 0 else 1);
          watch_insert_index = 3 + delivery_offset;
          run_index = 5 + delivery_offset;
          watch_index = 6 + delivery_offset
      in and_then (changes_at results watch_insert_index) (\<lambda>watch_inserted.
         and_then (ensure_changed_result (result_at results run_index) ''watch run is not running under this lease'') (\<lambda>_.
         and_then (ensure_changed_result (result_at results watch_index) ''watch lease is not held by this worker'') (\<lambda>_.
           Ok \<lparr>out_run = cr_run r, out_status = run_status_of (cr_error r), out_seen = length (cr_records r),
               out_inserted = inserted, out_watch_inserted = watch_inserted\<rparr>))))))"

definition d1_complete_bound ::
  "row_libs \<Rightarrow> string \<Rightarrow> complete_watch_run \<Rightarrow> db \<Rightarrow> watch_run_outcome store_result \<times> db" where
  "d1_complete_bound R refusal r db =
     (case complete_watch_run_validate (rl_libs R) r of
        Err e \<Rightarrow> (Err e, db)
      | Ok _ \<Rightarrow>
     (case records_json R r of
        Err e \<Rightarrow> (Err e, db)
      | Ok records \<Rightarrow>
     (case d1_batch R refusal (completion_statements R r records) db of
        (Err e, db) \<Rightarrow> (Err e, db)
      | (Ok results, db) \<Rightarrow> (complete_outcome_of r results, db))))"

section \<open>The other operations\<close>

text \<open>The row a claim returns becomes the claimed watch with the lease as computed, not as stored.\<close>

definition claimed_watch_of :: "watch \<Rightarrow> string \<Rightarrow> int \<Rightarrow> claimed_watch" where
  "claimed_watch_of w owner lease_expires = \<lparr>cl_watch = w, cl_owner = owner, cl_expires = lease_expires\<rparr>"

definition d1_first :: "string \<Rightarrow> ('a option \<times> db) option \<Rightarrow> db \<Rightarrow> 'a option store_result \<times> db" where
  "d1_first refusal answer db =
     (case answer of None \<Rightarrow> (Err (Store_Backend refusal), db) | Some (row, db) \<Rightarrow> (Ok row, db))"

definition d1_claim_bound :: "string \<Rightarrow> claim_due_watch \<Rightarrow> db \<Rightarrow> claimed_watch option store_result \<times> db" where
  "d1_claim_bound refusal r db =
     (case and_then (claim_due_watch_validate r) (\<lambda>_. i64_from_u64 (cd_lease_seconds r) ''lease_seconds'') of
        Err e \<Rightarrow> (Err e, db)
      | Ok lease_seconds \<Rightarrow>
          (let lease_expires = add64 (cd_now r) lease_seconds
           in case d1_first refusal (claim_due_watch_stmt (claim_watch_values r lease_expires) db) db of
                (answer, db) \<Rightarrow>
                  (and_then answer (\<lambda>row. Ok (map_option (\<lambda>w. claimed_watch_of w (cd_owner r) lease_expires) row)), db)))"

definition d1_start_bound :: "string \<Rightarrow> start_watch_run \<Rightarrow> db \<Rightarrow> watch_run store_result \<times> db" where
  "d1_start_bound refusal r db =
     (case start_watch_run_validate r of
        Err e \<Rightarrow> (Err e, db)
      | Ok _ \<Rightarrow>
     (case start_run_stmt (start_run_values r) db of
        None \<Rightarrow> (Err (Store_Backend refusal), db)
      | Some db \<Rightarrow> (load_run r db, db)))"

definition d1_claim_delivery_bound :: "string \<Rightarrow> claim_pending_delivery \<Rightarrow> db \<Rightarrow> delivery option store_result \<times> db" where
  "d1_claim_delivery_bound refusal r db =
     (case and_then (claim_pending_validate r) (\<lambda>_. i64_from_u64 (cp_lease_seconds r) ''lease_seconds'') of
        Err e \<Rightarrow> (Err e, db)
      | Ok lease_seconds \<Rightarrow>
          d1_first refusal (claim_delivery_stmt (claim_delivery_values r (add64 (cp_now r) lease_seconds)) db) db)"

definition d1_complete_delivery_bound :: "string \<Rightarrow> complete_delivery \<Rightarrow> db \<Rightarrow> delivery store_result \<times> db" where
  "d1_complete_delivery_bound refusal r db =
     (case complete_delivery_validate r of
        Err e \<Rightarrow> (Err e, db)
      | Ok _ \<Rightarrow>
     (case d1_first refusal (complete_delivery_stmt (complete_delivery_values r) db) db of
        (answer, db) \<Rightarrow>
          (and_then answer (ok_or (Store_Conflict ''delivery is not leased by this worker'')), db)))"

end
