(* ===== verification/D1_Binding_Laws.thy ===== *)
theory D1_Binding_Laws
  imports D1_Binding Store_Properties
begin

text \<open>
  The statements of D1 with the values the store binds are the statements of \<open>D1_Store\<close>, and the outcome read
  from the results of the batch is the outcome of the completion.
\<close>

section \<open>Parameters\<close>

definition parses_back :: "row_libs \<Rightarrow> json \<Rightarrow> bool" where
  "parses_back R v \<longleftrightarrow> rl_parse R (json_text (rl_libs R) v) = Ok v"

lemma par_simps [simp]:
  "par (v # vs) (Suc 0) = v"
  "par (v # vs) (Suc (Suc n)) = par vs (Suc n)"
  "par (v # vs) 1 = v"
  by (auto simp: par_def)

lemma par_numeral [simp]: "1 < (numeral k :: nat) \<Longrightarrow> par (v # vs) (numeral k) = par vs (numeral k - 1)"
  by (cases "numeral k :: nat") (auto simp: par_def nth_Cons split: nat.splits)

lemma text_is_string [simp]: "text_is c (Js_String s) \<longleftrightarrow> c = Some s"
  by (auto simp: text_is_def split: option.splits)

lemma int_above_js [simp]: "safe_int n \<Longrightarrow> int_above c (js_int n) \<longleftrightarrow> expires_after c n"
  by (cases c) (simp_all add: int_above_def expires_after_def js_int_def f64_of_safe)

lemma int_up_to_js [simp]: "safe_int n \<Longrightarrow> int_up_to c (js_int n) \<longleftrightarrow> expired_at c n"
  by (cases c) (simp_all add: int_up_to_def expired_at_def js_int_def f64_of_safe)

lemma int_is_js [simp]: "safe_int n \<Longrightarrow> int_is c (js_int n) \<longleftrightarrow> c = Some n"
  by (cases c) (simp_all add: int_is_def js_int_def f64_of_safe)

lemma sql_int_js [simp]: "safe_int n \<Longrightarrow> sql_int (js_int n) = Some n"
  by (simp add: js_int_def f64_of_safe)

lemma sql_nullable_int [simp]: "safe_int n \<Longrightarrow> sql_nullable sql_int (js_int n) = Some (Some n)"
  by (simp add: js_int_def f64_of_safe)

lemma sql_nullable_opt_text [simp]: "sql_nullable sql_text (js_opt Js_String s) = Some s"
  by (cases s) simp_all

lemma sql_nullable_opt_int [simp]: "pred_option safe_int m \<Longrightarrow> sql_nullable sql_int (js_opt js_int m) = Some m"
  by (cases m) simp_all

lemma sql_json_back [simp]: "parses_back R v \<Longrightarrow> sql_json R (json_text_value R v) = Some v"
  by (simp add: sql_json_def json_text_value_def json_column_text_def parses_back_def)

lemma int_is_bool [simp]: "int_is (Some 1) (Js_Bool b) \<longleftrightarrow> b"
  by (simp add: int_is_def bool_int_def)

lemma int_from_js [simp]: "safe_int n \<Longrightarrow> int_from (Some m) (js_int n) \<longleftrightarrow> n \<le> m"
  by (simp add: int_from_def js_int_def f64_of_safe)

section \<open>The records of a completion\<close>

lemma bulk_row_back: "parses_back R (rec_metadata x) \<Longrightarrow> bulk_row R (bulk_record_json (rl_libs R) x) = Some x"
  by (cases x; cases "rec_id x"; cases "rec_source x"; cases "rec_title x"; cases "rec_text x"; cases "rec_author x";
      cases "rec_created_at x"; cases "rec_updated_at x")
    (simp_all add: bulk_record_json_def json_object_def bt_collect_def need_def maybe_def option_field_def sql_json_def
      parses_back_def)

lemma bulk_rows_back:
  "list_all (\<lambda>x. parses_back R (rec_metadata x)) xs \<Longrightarrow> those (map (bulk_row R) (map (bulk_record_json (rl_libs R)) xs)) = Some xs"
  by (induction xs) (simp_all add: bulk_row_back)

definition records_text :: "row_libs \<Rightarrow> complete_watch_run \<Rightarrow> string" where
  "records_text R r = json_text (rl_libs R) (JArray (map (bulk_record_json (rl_libs R)) (cr_records r)))"

text \<open>What the texts and the times of a completion must meet: the parser reads each text back as written, and
  the time is below 2^53.\<close>

definition completion_bound :: "row_libs \<Rightarrow> complete_watch_run \<Rightarrow> bool" where
  "completion_bound R r \<longleftrightarrow> safe_int (cr_finished r) \<and> parses_back R (cr_cursor r) \<and>
     parses_back R (JArray (map (bulk_record_json (rl_libs R)) (cr_records r))) \<and>
     list_all (\<lambda>x. parses_back R (rec_metadata x)) (cr_records r) \<and>
     (case cr_delivery r of None \<Rightarrow> True | Some d \<Rightarrow> parses_back R (rd_target d))"

lemma incoming_bound:
  assumes "completion_bound R r"
  shows "incoming R (Js_String (records_text R r) # vs) = Some (cr_records r)"
  using assms bulk_rows_back [of R "cr_records r"]
  by (simp add: incoming_def sql_json_def records_text_def completion_bound_def parses_back_def)

lemma incoming_row_for: "incoming_row (cr_records r) = incoming_for r"
  by (rule ext) (simp add: incoming_row_def incoming_for_def)

lemma record_groups_incoming: "record_groups (cr_records r) = incoming_groups r"
  by (simp add: record_groups_def incoming_groups_def)

section \<open>The guard\<close>

definition bound_guard :: "complete_watch_run \<Rightarrow> db \<Rightarrow> (watch \<times> watch_run) list" where
  "bound_guard r = guard_rows (Js_String (cr_tenant r)) (Js_String (cr_watch r)) (Js_String (cr_run r))
     (Js_String (cr_owner r)) (js_int (cr_finished r))"

lemma filter_product:
  "filter (\<lambda>(x, y). P x \<and> Q y) (List.product xs ys) = concat (map (\<lambda>x. map (Pair x) (filter Q ys)) (filter P xs))"
  by (induction xs) (auto simp: filter_map comp_def)

lemma bound_guard:
  assumes "safe_int (cr_finished r)"
  shows "bound_guard r db =
    concat (map (\<lambda>w. map (Pair w) (filter (gate_run r) (db_runs db))) (filter (gate_watch r) (db_watches db)))"
proof -
  have "bound_guard r db = filter (\<lambda>(w, x). gate_watch r w \<and> gate_run r x) (List.product (db_watches db) (db_runs db))"
    unfolding bound_guard_def guard_rows_def
    by (rule filter_cong) (use assms in \<open>auto simp: gate_watch_def gate_run_def lease_held_def watch_key_def run_pk_def\<close>)
  then show ?thesis by (simp only: filter_product)
qed

lemma bound_guard_open:
  assumes "safe_int (cr_finished r)"
  shows "bound_guard r db \<noteq> [] \<longleftrightarrow> gate_open r db"
  unfolding bound_guard [OF assms] gate_open_def exists_where_def
  by (auto simp: filter_empty_conv)

lemma gate_stmt:
  assumes "safe_int (cr_finished r)"
  shows "complete_gate_stmt (completion_gate_values r) db = complete_gate_sql r db"
  using bound_guard [OF assms, of db]
  by (simp add: complete_gate_stmt_def completion_gate_values_def bound_guard_def complete_gate_sql_def map_concat comp_def)

text \<open>The six parameters of the bulk statements, with those of the delivery after them.\<close>

lemma bulk_guard_open:
  assumes "safe_int (cr_finished r)"
  shows "bulk_guard (bulk_record_values r records @ rest) db \<longleftrightarrow> gate_open r db"
  using bound_guard_open [OF assms, of db]
  by (simp add: bulk_guard_def bulk_record_values_def bound_guard_def)

lemma incoming_bulk:
  "completion_bound R r \<Longrightarrow> incoming R (bulk_record_values r (records_text R r) @ rest) = Some (cr_records r)"
  using incoming_bound [of R r] by (simp add: bulk_record_values_def)

lemma bulk_pars [simp]:
  "par (bulk_record_values r records @ rest) 2 = Js_String (cr_tenant r)"
  "par (bulk_record_values r records @ rest) 3 = Js_String (cr_watch r)"
  "par (bulk_record_values r records @ rest) 4 = Js_String (cr_run r)"
  "par (bulk_record_values r records @ rest) 6 = js_int (cr_finished r)"
  by (simp_all add: bulk_record_values_def)

lemma delivery_pars [simp]:
  "par (bulk_record_values r records @ [a, b]) 7 = a"
  "par (bulk_record_values r records @ [a, b]) 8 = b"
  by (simp_all add: bulk_record_values_def)

section \<open>Each statement of the batch\<close>

lemma insert_records_bound:
  assumes "completion_bound R r"
  shows "insert_records_stmt R (bulk_record_values r (records_text R r)) db = Some (insert_records_sql r db)"
  using assms incoming_bulk [OF assms, of "[]"] bulk_guard_open [of r "records_text R r" "[]"] bulk_pars [of r "records_text R r" "[]"]
  by (simp add: insert_records_stmt_def insert_records_sql_def completion_bound_def split: prod.split)

lemma update_records_bound:
  assumes "completion_bound R r"
  shows "map_option snd (update_records_stmt R (bulk_record_values r (records_text R r)) db) = Some (update_records_sql r db)"
  using assms incoming_bulk [OF assms, of "[]"] bulk_guard_open [of r "records_text R r" "[]"] bulk_pars [of r "records_text R r" "[]"]
  by (simp add: update_records_stmt_def update_records_sql_def completion_bound_def incoming_row_for eq_commute [of "cr_tenant r"] Let_def)

lemma insert_watch_records_bound:
  assumes "completion_bound R r"
  shows "insert_watch_records_stmt R (bulk_record_values r (records_text R r)) db = Some (insert_watch_records_sql r db)"
  using assms incoming_bulk [OF assms, of "[]"] bulk_guard_open [of r "records_text R r" "[]"] bulk_pars [of r "records_text R r" "[]"]
  by (simp add: insert_watch_records_stmt_def insert_watch_records_sql_def completion_bound_def split: prod.split)

lemma update_watch_records_bound:
  assumes "completion_bound R r"
  shows "map_option snd (update_watch_records_stmt R (bulk_record_values r (records_text R r)) db) = Some (update_watch_records_sql r db)"
  using assms incoming_bulk [OF assms, of "[]"] bulk_guard_open [of r "records_text R r" "[]"] bulk_pars [of r "records_text R r" "[]"]
  by (simp add: update_watch_records_stmt_def update_watch_records_sql_def completion_bound_def incoming_row_for Let_def)

lemma insert_run_delivery_bound:
  assumes "completion_bound R r" "cr_delivery r = Some d"
    "run_delivery_values R r (records_text R r) = Some vs"
  shows "map_option snd (insert_run_delivery_stmt R vs db) = Some (insert_run_delivery_sql r d db)"
proof -
  have vs: "vs = bulk_record_values r (records_text R r) @ [Js_String (rd_id d), json_text_value R (rd_target d)]"
    using assms(2,3) by (simp add: run_delivery_values_def bulk_record_values_def)
  have "parses_back R (rd_target d)" using assms(1,2) by (simp add: completion_bound_def)
  then show ?thesis
    using assms(1) incoming_bulk [OF assms(1)] bulk_guard_open [of r "records_text R r"]
    by (simp add: vs insert_run_delivery_stmt_def insert_run_delivery_sql_def completion_bound_def record_groups_incoming Let_def
        watch_record_key_def delivery_payload_def run_delivery_row_def)
qed

lemma complete_run_bound:
  assumes "completion_bound R r"
  shows "complete_run_stmt (complete_run_values r) db = Some (complete_run_sql r db)"
  using assms
  by (simp add: complete_run_stmt_def complete_run_values_def complete_run_sql_def completion_bound_def gate_run_def [abs_def]
      gate_watch_def [abs_def] lease_held_def watch_key_def run_pk_def Let_def conj_ac)

lemma complete_watch_bound:
  assumes "completion_bound R r"
  shows "complete_watch_stmt R (complete_watch_values R r) db = Some (complete_watch_sql r db)"
  using assms
  by (simp add: complete_watch_stmt_def complete_watch_values_def complete_watch_sql_def completion_bound_def finished_run_def [abs_def]
      gate_watch_def [abs_def] lease_held_def watch_key_def run_pk_def Let_def conj_ac)

section \<open>The other statements\<close>

lemma claim_watch_bound:
  assumes "safe_int lease_expires" "safe_int (cd_now r)"
  shows "claim_due_watch_stmt (claim_watch_values r lease_expires) db =
    Some (claim_due_watch_sql (cd_owner r) lease_expires (cd_tenant r) (cd_now r) db)"
proof -
  have "due_order = (\<lambda>w. (w_next_due w, w_created w, w_id w))" by (rule ext) (simp add: due_order_def)
  then show ?thesis
    using assms
    by (simp add: claim_due_watch_stmt_def claim_watch_values_def claim_due_watch_sql_def watch_due_def [abs_def] lease_free_def
        expired_at_def Let_def split: option.split)
qed

definition run_refusal :: string where
  "run_refusal = ''UNIQUE constraint failed: watch_runs.tenant_id, watch_runs.watch_id, watch_runs.run_id''"

lemma start_run_bound:
  assumes "safe_int (sr_started r)"
  shows "d1_start_bound run_refusal r db = d1_start_watch_run r db"
  using assms
  by (simp add: run_refusal_def d1_start_bound_def d1_start_watch_run_def start_run_stmt_def start_run_values_def lease_held_def [abs_def]
      watch_key_def Let_def load_run_def run_idem_def run_pk_def split: sum.splits)

lemma claim_delivery_bound:
  assumes "safe_int lease_expires" "safe_int (cp_now r)"
  shows "claim_delivery_stmt (claim_delivery_values r lease_expires) db =
    Some (claim_delivery_sql (cp_owner r) lease_expires (cp_tenant r) (cp_now r) db)"
proof -
  have "delivery_order = (\<lambda>d. (d_next_attempt d, d_created d, d_id d))" by (rule ext) (simp add: delivery_order_def)
  then show ?thesis
    using assms
    by (simp add: claim_delivery_stmt_def claim_delivery_values_def claim_delivery_sql_def delivery_due_def [abs_def]
        claim_delivery_set_def [abs_def] expired_at_def Let_def conj_ac split: option.split)
qed

lemma complete_delivery_bound:
  assumes "safe_int (next_attempt_epoch_seconds r)" "safe_int (dc_finished r)"
  shows "complete_delivery_stmt (complete_delivery_values r) db = Some (complete_delivery_sql r db)"
proof -
  have attempts: "safe_int (int max_delivery_attempts)" by (simp add: safe_int_def max_delivery_attempts_def)
  show ?thesis
    using assms
    by (cases "dc_success r")
      (simp_all add: complete_delivery_stmt_def complete_delivery_values_def complete_delivery_sql_def delivery_held_def [abs_def]
        delivery_key_def Let_def conj_ac int_from_js [OF attempts])
qed

lemma upsert_source_bound:
  assumes "safe_int (us_observed r)" "upsert_source_validate r = Ok ()"
  shows "upsert_source_stmt (upsert_source_values r) db = Some (snd (d1_upsert_source r db))"
  using assms by (simp add: upsert_source_stmt_def upsert_source_values_def d1_upsert_source_def int_bool_def bool_int_def)

lemma delete_watch_bound:
  "delete_watch_stmt [Js_String t, Js_String w] db = (count_where (\<lambda>x. watch_key x = (t, w)) (db_watches db), delete_watch_rows (t, w) db)"
  by (simp add: delete_watch_stmt_def watch_key_def)

lemma list_watches_bound:
  "list_watches_stmt [Js_String t] db = select_ordered (\<lambda>w. w_tenant w = t) (\<lambda>w. (w_created w, w_id w)) (db_watches db)"
  by (simp add: list_watches_stmt_def)

lemma load_run_bound:
  "ok_or (Store_Conflict ''watch is not currently claimed by this worker'') (load_run_stmt (load_run_values r) db) = load_run r db"
  by (simp add: load_run_stmt_def load_run_values_def load_run_def run_idem_def)

lemma sql_limit_js [simp]: "safe_int (int n) \<Longrightarrow> sql_limit (js_int (int n)) rows = Some (take n rows)"
  by (simp add: sql_limit_def)

text \<open>The bound of a history without one is the least \<open>i64\<close>, a power of two, which a number holds.\<close>

lemma least_i64_exact: "f64_of_i64 i64_min = i64_min"
  by code_simp

definition since_bound :: "history_request \<Rightarrow> bool" where
  "since_bound r \<longleftrightarrow> (case hr_since r of None \<Rightarrow> True | Some t \<Rightarrow> safe_int t)"

lemma int_from_since:
  "since_bound r \<Longrightarrow> int_from (Some m) (js_int (case hr_since r of Some t \<Rightarrow> t | None \<Rightarrow> i64_min)) \<longleftrightarrow>
    (case hr_since r of Some t \<Rightarrow> t | None \<Rightarrow> i64_min) \<le> m"
  by (cases "hr_since r") (simp_all add: since_bound_def, simp add: int_from_def js_int_def least_i64_exact)

lemma history_bound:
  assumes "since_bound r" "history_validate r = Ok ()"
  shows "map_option Ok (d1_history_bound r db) = Some (d1_history r db)"
proof -
  have "hr_limit r \<le> 1000" using assms(2) by (auto simp: history_validate_def split: if_splits)
  then have "safe_int (int (hr_limit r))" by (simp add: safe_int_def)
  then show ?thesis
    using int_from_since [OF assms(1)] assms(2)
    by (simp add: d1_history_bound_def history_watch_stmt_def history_watch_values_def history_tenant_stmt_def d1_history_def
        history_tenant_values_def d1_history_for_watch_def d1_history_for_tenant_def history_watch_sql_def Let_def)
qed

lemma deliveries_bound:
  assumes "list_deliveries_validate r = Ok ()"
  shows "map_option Ok (d1_deliveries_bound r db) = Some (d1_list_deliveries r db)"
proof -
  have "ld_limit r \<le> 1000" using assms by (auto simp: list_deliveries_validate_def split: if_splits)
  then have "safe_int (int (ld_limit r))" by (simp add: safe_int_def)
  then show ?thesis
    using assms
    by (cases "ld_status r") (simp_all add: d1_deliveries_bound_def list_deliveries_stmt_def list_deliveries_status_stmt_def
        list_deliveries_values_def d1_list_deliveries_def)
qed

section \<open>The operations as bound\<close>

lemma update_records_result:
  assumes "completion_bound R r"
  obtains n where "update_records_stmt R (bulk_record_values r (records_text R r)) db = Some (n, update_records_sql r db)"
  using update_records_bound [OF assms, of db] by auto

lemma update_watch_records_result:
  assumes "completion_bound R r"
  obtains n where
    "update_watch_records_stmt R (bulk_record_values r (records_text R r)) db = Some (n, update_watch_records_sql r db)"
  using update_watch_records_bound [OF assms, of db] by auto

lemma run_delivery_result:
  assumes "completion_bound R r" "cr_delivery r = Some d" "run_delivery_values R r (records_text R r) = Some vs"
  obtains n where "insert_run_delivery_stmt R vs db = Some (n, insert_run_delivery_sql r d db)"
  using insert_run_delivery_bound [OF assms, of db] by auto

lemma ensure_success_write [simp]: "ensure_success (fst (write_result x)) = Ok ()"
  by (simp add: ensure_success_def write_result_def)

lemma d1_changes_write [simp]: "d1_changes (fst (write_result (n, db))) = Ok n"
  by (simp add: d1_changes_def write_result_def ensure_success_def)

text \<open>The batch runs, and its results, read by their places, are those of the completion.\<close>

lemma batch_bound:
  assumes "completion_bound R r"
  shows "\<exists>results. run_statements R (completion_statements R r (records_text R r)) db =
      Some (results, snd (d1_complete_batch r db)) \<and>
    complete_outcome_of r results = complete_outcome r (fst (d1_complete_batch r db))"
proof -
  have safe: "safe_int (cr_finished r)" using assms by (simp add: completion_bound_def)
  obtain n1 d1 where 1: "insert_records_sql r db = (n1, d1)" by fastforce
  obtain n2 where 2: "update_records_stmt R (bulk_record_values r (records_text R r)) d1 = Some (n2, update_records_sql r d1)"
    using update_records_result [OF assms] by blast
  define d2 where "d2 = update_records_sql r d1"
  define d3 where "d3 = (case cr_delivery r of None \<Rightarrow> d2 | Some d \<Rightarrow> insert_run_delivery_sql r d d2)"
  obtain n4 d4 where 4: "insert_watch_records_sql r d3 = (n4, d4)" by fastforce
  obtain n5 where 5: "update_watch_records_stmt R (bulk_record_values r (records_text R r)) d4 = Some (n5, update_watch_records_sql r d4)"
    using update_watch_records_result [OF assms] by blast
  define d5 where "d5 = update_watch_records_sql r d4"
  obtain n6 d6 where 6: "complete_run_sql r d5 = (n6, d6)" by fastforce
  obtain n7 d7 where 7: "complete_watch_sql r d6 = (n7, d7)" by fastforce
  have batch: "d1_complete_batch r db = ((complete_gate_sql r db, n1, n4, n6, n7), d7)"
    unfolding d1_complete_batch_def Let_def 1 prod.case d2_def [symmetric] d3_def [symmetric] 4 d5_def [symmetric] 6 7 ..
  note steps = gate_stmt [OF safe] insert_records_bound [OF assms] 1 2 d2_def [symmetric] insert_watch_records_bound [OF assms] 4 5
    d5_def [symmetric] complete_run_bound [OF assms] 6 complete_watch_bound [OF assms] 7
  show ?thesis
  proof (cases "cr_delivery r")
    case None
    then have "d3 = d2" by (simp add: d3_def)
    with None steps show ?thesis
      by (simp add: batch completion_statements_def record_statements_def finish_statements_def run_delivery_values_def Let_def
          write_result_def complete_outcome_of_def completion_gate_def result_at_def d1_rows_def ensure_success_def changes_at_def
          d1_changes_def ensure_changed_result_def)
  next
    case (Some d)
    then obtain vs where vs: "run_delivery_values R r (records_text R r) = Some vs" by (simp add: run_delivery_values_def)
    obtain n3 where "insert_run_delivery_stmt R vs d2 = Some (n3, d3)"
      using run_delivery_result [OF assms Some vs, of d2] Some by (auto simp: d3_def)
    with Some steps vs show ?thesis
      by (simp add: batch completion_statements_def record_statements_def finish_statements_def Let_def
          write_result_def complete_outcome_of_def completion_gate_def result_at_def d1_rows_def ensure_success_def changes_at_def
          d1_changes_def ensure_changed_result_def)
  qed
qed

lemma records_json_bound:
  "records_json R r = map_sum id (\<lambda>_. records_text R r) (records_json_check (rl_libs R) r)"
  by (simp add: records_json_def records_json_check_def records_text_def json_len_def Let_def)

lemma completion_as_bound:
  assumes "completion_bound R r"
  shows "d1_complete_bound R refusal r db = d1_complete_watch_run (rl_libs R) r db"
proof -
  obtain results where
    "run_statements R (completion_statements R r (records_text R r)) db = Some (results, snd (d1_complete_batch r db))"
    "complete_outcome_of r results = complete_outcome r (fst (d1_complete_batch r db))"
    using batch_bound [OF assms] by blast
  then show ?thesis
    by (auto simp: d1_complete_bound_def d1_complete_watch_run_def records_json_bound d1_batch_def split: sum.split prod.split)
qed

definition claim_bound :: "int \<Rightarrow> nat \<Rightarrow> bool" where
  "claim_bound now lease \<longleftrightarrow> safe_int now \<and> safe_int (add64 now (int lease))"

lemma i64_from_u64_value: "i64_from_u64 n name = Ok m \<Longrightarrow> m = int n"
  by (auto simp: i64_from_u64_def split: if_splits)

lemma claim_as_bound:
  "claim_bound (cd_now r) (cd_lease_seconds r) \<Longrightarrow> d1_claim_bound refusal r db = d1_claim_due_watch r db"
  by (auto simp: d1_claim_bound_def d1_claim_due_watch_def claim_bound_def Let_def claim_watch_bound d1_first_def claimed_watch_of_def
      dest!: i64_from_u64_value split: sum.split prod.split)

lemma claim_delivery_as_bound:
  "claim_bound (cp_now r) (cp_lease_seconds r) \<Longrightarrow> d1_claim_delivery_bound refusal r db = d1_claim_pending_delivery r db"
  by (auto simp: d1_claim_delivery_bound_def d1_claim_pending_delivery_def claim_bound_def Let_def claim_delivery_bound d1_first_def
      dest!: i64_from_u64_value split: sum.split prod.split)

lemma complete_delivery_as_bound:
  "safe_int (next_attempt_epoch_seconds r) \<Longrightarrow> safe_int (dc_finished r) \<Longrightarrow>
   d1_complete_delivery_bound refusal r db = d1_complete_delivery r db"
  by (auto simp: d1_complete_delivery_bound_def d1_complete_delivery_def complete_delivery_bound d1_first_def
      split: sum.split prod.split)

text \<open>C31: binding refines the statements: a completion prepared by D1 (each value at its position, each bulk row through
  JSON text, each result read at its index, with a delivery statement among them or not) has the outcome and
  leaves the tables that \<open>D1_Store\<close> states over the fields of the request, when its texts parse back and its time
  is an integer JavaScript holds without loss; so do claims, starts, the completion of a delivery
  and the lists of observations and deliveries.\<close>

theorem d1_binding_refines:
  assumes "completion_bound R r"
  shows "d1_complete_bound R refusal r db = d1_complete_watch_run (rl_libs R) r db \<and>
    (if claim_bound (cd_now c) (cd_lease_seconds c) then d1_claim_bound refusal c db = d1_claim_due_watch c db else True) \<and>
    (if safe_int (sr_started s) then d1_start_bound run_refusal s db = d1_start_watch_run s db else True) \<and>
    (if claim_bound (cp_now p) (cp_lease_seconds p)
     then d1_claim_delivery_bound refusal p db = d1_claim_pending_delivery p db else True) \<and>
    (if safe_int (next_attempt_epoch_seconds d) \<and> safe_int (dc_finished d)
     then d1_complete_delivery_bound refusal d db = d1_complete_delivery d db else True) \<and>
    (if since_bound h \<and> history_validate h = Ok () then map_option Ok (d1_history_bound h db) = Some (d1_history h db) else True) \<and>
    (if list_deliveries_validate l = Ok () then map_option Ok (d1_deliveries_bound l db) = Some (d1_list_deliveries l db) else True)"
  using assms completion_as_bound claim_as_bound start_run_bound claim_delivery_as_bound complete_delivery_as_bound
    history_bound deliveries_bound by simp

text \<open>Texts for the example: of an empty object, of the metadata and of the records.\<close>

definition example_text_libs :: libs where
  "example_text_libs = example_libs\<lparr>json_text := \<lambda>v. case v of JObject [] \<Rightarrow> ''c'' | JArray _ \<Rightarrow> ''r'' | _ \<Rightarrow> ''m''\<rparr>"

definition example_text_rows :: row_libs where
  "example_text_rows = \<lparr>rl_libs = example_text_libs,
     rl_parse = \<lambda>s. if s = ''c'' then Ok (JObject []) else if s = ''m'' then Ok (json_object [(''id'', JString ''7'')])
       else Ok (JArray (map (bulk_record_json example_text_libs) (cr_records example_complete))),
     rl_column = \<lambda>i. ''column'', rl_conversion = \<lambda>e. e\<rparr>"

theorem d1_binding_refines_witness:
  "let (answer, db) = d1_complete_bound example_text_rows ''refused'' example_complete example_db
   in map_sum id out_inserted answer = Ok 1 \<and> map w_lease_owner (db_watches db) = [None, None]"
proof -
  have "completion_bound example_text_rows example_complete"
    unfolding completion_bound_def parses_back_def by code_simp
  from d1_binding_refines [OF this, of "''refused''" example_db]
  have "d1_complete_bound example_text_rows ''refused'' example_complete example_db =
      d1_complete_watch_run example_text_libs example_complete example_db"
    by (simp add: example_text_rows_def)
  moreover have "let (answer, db) = d1_complete_watch_run example_text_libs example_complete example_db
      in map_sum id out_inserted answer = Ok 1 \<and> map w_lease_owner (db_watches db) = [None, None]"
    by code_simp
  ultimately show ?thesis by simp
qed

section \<open>What an outcome rests on\<close>

lemma and_then_okE: "and_then x f = Ok y \<Longrightarrow> (\<And>a. x = Ok a \<Longrightarrow> f a = Ok y \<Longrightarrow> Q) \<Longrightarrow> Q"
  by (cases x) auto

lemma changes_at_ok: "changes_at results i = Ok n \<longleftrightarrow>
    i < length results \<and> dr_success (results ! i) \<and> n = (case dr_changes (results ! i) of Some n \<Rightarrow> n | None \<Rightarrow> 0)"
  by (auto simp: changes_at_def result_at_def d1_changes_def ensure_success_def)

lemma ensure_changed_at_ok: "ensure_changed_result (result_at results i) message = Ok u \<longleftrightarrow> changes_at results i = Ok 1"
  by (auto simp: ensure_changed_result_def result_at_def changes_at_def ensure_changed_def d1_changes_def ensure_success_def
      split: option.splits)

lemma completion_gate_ok: "completion_gate r (result_at results 0) = Ok u \<longleftrightarrow>
    results \<noteq> [] \<and> dr_success (hd results) \<and> (\<exists>interval. dr_rows (hd results) = [interval] \<and> 0 < interval)"
  by (auto simp: completion_gate_def result_at_def d1_rows_def ensure_success_def ensure_completion_gate_def hd_conv_nth
      split: list.splits if_splits)

text \<open>C32: whatever D1 answers to the batch, a completion is reported only on a full answer: a gate of exactly one row with a
  positive interval, and at the indices of this batch (one further on when it has a delivery) the insertions that
  succeeded, whose counts the outcome carries, and the run and the watch updated exactly once each; a batch
  cut short or a failed statement among them is an error.\<close>

theorem completion_reports_full_answer:
  "case complete_outcome_of r results of
     Err _ \<Rightarrow> True
   | Ok out \<Rightarrow>
       (let offset = (if cr_delivery r = None then 0 else 1)
        in 6 + offset < length results \<and> dr_success (results ! 0) \<and>
           (case dr_rows (results ! 0) of [interval] \<Rightarrow> 0 < interval | _ \<Rightarrow> False) \<and>
           changes_at results 1 = Ok (out_inserted out) \<and>
           changes_at results (3 + offset) = Ok (out_watch_inserted out) \<and>
           changes_at results (5 + offset) = Ok 1 \<and> changes_at results (6 + offset) = Ok 1 \<and>
           out_run out = cr_run r \<and> out_status out = run_status_of (cr_error r) \<and> out_seen out = length (cr_records r))"
proof (cases "complete_outcome_of r results")
  case (Inr out)
  define k :: nat where "k = (if cr_delivery r = None then 0 else 1)"
  obtain inserted watch_inserted where
    "completion_gate r (result_at results 0) = Ok ()" "changes_at results 1 = Ok inserted"
    "changes_at results (3 + k) = Ok watch_inserted" "changes_at results (5 + k) = Ok 1" "changes_at results (6 + k) = Ok 1"
    and out: "out = \<lparr>out_run = cr_run r, out_status = run_status_of (cr_error r), out_seen = length (cr_records r),
      out_inserted = inserted, out_watch_inserted = watch_inserted\<rparr>"
    using Inr unfolding complete_outcome_of_def Let_def k_def [symmetric]
    by (elim and_then_okE) (simp add: ensure_changed_at_ok)
  moreover from this have "6 + k < length results" by (simp add: changes_at_ok)
  ultimately show ?thesis
    unfolding Inr sum.case Let_def k_def [symmetric] out
    by (auto simp: completion_gate_ok hd_conv_nth)
qed simp

end
