(* ===== verification/Hosts.thy ===== *)
theory Hosts
  imports Engine_Catalog Http_Clients GitHub_Runtime Hacker_News Stack_Exchange Web_Source Native_Cli Native_Store Cloud_Watch Source_Command_Laws
begin

text \<open>
  How the two hosts put the program together: the native command (\<open>comsat-cli/src/main.rs\<close>,
  \<open>plugins.rs\<close>) and the cloud worker (\<open>comsat-cloud/src/{source_graph,worker_entry,telemetry}.rs\<close>), with the
  builder of the application (\<open>comsat-app/src/app.rs\<close>). The runtimes of the four sources answer from one
  plugin state; a panic is the value None.
\<close>

section \<open>The application's builder\<close>

definition with_store :: "store_ops \<Rightarrow> comsat_app \<Rightarrow> comsat_app" where
  "with_store store app = app\<lparr>app_store := Some store\<rparr>"

definition with_limits :: "engine_limits \<Rightarrow> comsat_app \<Rightarrow> comsat_app" where
  "with_limits limits app = app\<lparr>app_limits := limits\<rparr>"

definition with_lease_owner :: "string \<Rightarrow> comsat_app \<Rightarrow> comsat_app" where
  "with_lease_owner owner app = app\<lparr>app_owner := owner\<rparr>"

definition with_target_stream_provider :: "(target, string) result list \<Rightarrow> comsat_app \<Rightarrow> comsat_app" where
  "with_target_stream_provider targets app = app\<lparr>app_targets := Some targets\<rparr>"

definition without_target_stream_provider :: "comsat_app \<Rightarrow> comsat_app" where
  "without_target_stream_provider app = app\<lparr>app_targets := None\<rparr>"

definition with_delivery_config :: "delivery_config \<Rightarrow> comsat_app \<Rightarrow> comsat_app" where
  "with_delivery_config config app = app\<lparr>app_delivery := Some config\<rparr>"

lemmas builder_defs = with_store_def with_limits_def with_lease_owner_def with_target_stream_provider_def
  without_target_stream_provider_def with_delivery_config_def

section \<open>Sources as a catalog serves them\<close>

text \<open>What the hosts share: the framework, the libraries, the client and clock, and a state of the plugins.\<close>

record host_libs =
  hl_serve :: "command_result \<Rightarrow> tool_run"
  hl_unknown :: tool_run
  hl_plugin :: plugin_libs
  hl_net :: net_libs
  hl_env :: plugin_env
  hl_state :: plugin_state

definition catalog_source_of :: "host_libs \<Rightarrow> descriptor \<Rightarrow> source_runtime \<Rightarrow> catalog_source" where
  "catalog_source_of H d rt = served_source (hl_serve H) (hl_unknown H) (pl_libs (hl_plugin H)) d rt"

definition github_source :: "host_libs \<Rightarrow> string option \<Rightarrow> catalog_source" where
  "github_source H token = catalog_source_of H gh_descriptor (gh_runtime (hl_plugin H) (hl_env H) token (hl_state H))"

definition hacker_news_source :: "host_libs \<Rightarrow> catalog_source" where
  "hacker_news_source H = catalog_source_of H hn_descriptor (hn_runtime (hl_plugin H) (hl_env H) (hl_state H))"

definition stack_exchange_source :: "host_libs \<Rightarrow> string option \<Rightarrow> string option \<Rightarrow> catalog_source" where
  "stack_exchange_source H site key =
     catalog_source_of H se_descriptor (se_runtime (hl_plugin H) (hl_env H) (se_new site key) (hl_state H))"

definition web_source :: "host_libs \<Rightarrow> string \<Rightarrow> catalog_source" where
  "web_source H key = catalog_source_of H web_descriptor (web_runtime (hl_plugin H) (hl_env H) key (hl_state H))"

section \<open>The native command\<close>

type_synonym environment = "string \<Rightarrow> string option"

text \<open>\<open>env::var(a).ok().or_else(|| env::var(b).ok())\<close>: a variable that is set wins, empty or not.\<close>

definition either_var :: "environment \<Rightarrow> string \<Rightarrow> string \<Rightarrow> string option" where
  "either_var env a b = (case env a of Some v \<Rightarrow> Some v | None \<Rightarrow> env b)"

definition first_party_sources :: "host_libs \<Rightarrow> environment \<Rightarrow> catalog_source list" where
  "first_party_sources H env =
     [github_source H (either_var env ''COMSAT_GITHUB_TOKEN'' ''GITHUB_TOKEN''),
      hacker_news_source H,
      stack_exchange_source H (env ''COMSAT_STACK_EXCHANGE_SITE'') (env ''COMSAT_STACK_EXCHANGE_KEY''),
      web_source H (case either_var env ''COMSAT_BRAVE_API_KEY'' ''BRAVE_API_KEY'' of Some k \<Rightarrow> k | None \<Rightarrow> [])]"

text \<open>The sources of \<open>COMSAT_PLUGINS\<close>, whose paths the platform splits, and a line per root that failed.\<close>

definition load_sources_from_env ::
  "agent_plugins \<Rightarrow> (string \<Rightarrow> string list) \<Rightarrow> environment \<Rightarrow> catalog_source list \<times> (string \<times> plugin_error) list" where
  "load_sources_from_env A split_paths env =
     (case env ''COMSAT_PLUGINS'' of None \<Rightarrow> ([], []) | Some paths \<Rightarrow> load_sources A (split_paths paths))"

definition catalog_with_agent_plugins ::
  "agent_plugins \<Rightarrow> (string \<Rightarrow> string list) \<Rightarrow> environment \<Rightarrow> (source_catalog \<times> (string \<times> plugin_error) list) option" where
  "catalog_with_agent_plugins A split_paths env =
     (case load_sources_from_env A split_paths env of
        (sources, diagnostics) \<Rightarrow> map_option (\<lambda>c. (c, diagnostics)) (catalog_new sources))"

definition plugin_data_root :: "(string \<Rightarrow> string \<Rightarrow> string) \<Rightarrow> environment \<Rightarrow> string \<Rightarrow> string" where
  "plugin_data_root push env temp_dir =
     push (case env ''COMSAT_DATA_DIR'' of Some d \<Rightarrow> d
       | None \<Rightarrow> (case env ''XDG_DATA_HOME'' of Some root \<Rightarrow> push root ''comsat''
       | None \<Rightarrow> push (case env ''HOME'' of Some home \<Rightarrow> home | None \<Rightarrow> temp_dir) ''.local/share/comsat'')) ''agent-plugin-data''"

datatype build_error = Build_Catalog engine_error | Build_Delivery store_error

definition build_app ::
  "host_libs \<Rightarrow> agent_plugins \<Rightarrow> (string \<Rightarrow> string list) \<Rightarrow> environment \<Rightarrow> nat \<Rightarrow> (string, string) result list \<Rightarrow>
   (comsat_app, build_error) result option" where
  "build_app H A split_paths env pid stdin =
     map_option (\<lambda>(plugins, diagnostics).
       and_then (map_err Build_Catalog (catalog_try_new (first_party_sources H env @ sca_sources plugins))) (\<lambda>catalog.
         (let tenant = (case env ''COMSAT_TENANT'' of Some t \<Rightarrow> t | None \<Rightarrow> ''default'')
          in map_err Build_Delivery (configure_notifications (hl_net H) env
               (with_lease_owner (''comsat-native-'' @ nat_str pid)
               (with_target_stream_provider (read_stdin_targets (hl_plugin H) stdin)
               (with_store (sqlite_store (pl_libs (hl_plugin H))) (app_new (sca_sources catalog) tenant)))))))
     ) (catalog_with_agent_plugins A split_paths env)"

text \<open>The clock in seconds since 1970, from a reading in seconds that may lie before it.\<close>

definition native_clock :: "int \<Rightarrow> int" where
  "native_clock seconds = (if seconds < 0 then 0 else if in_i64 seconds then seconds else i64_max)"

section \<open>The cloud worker\<close>

text \<open>The bindings that are strings; an empty one is none.\<close>

record source_bindings =
  sb_secret :: environment
  sb_var :: environment

definition non_empty :: "string option \<Rightarrow> string option" where
  "non_empty v = (if v = Some [] then None else v)"

definition optional_secret :: "source_bindings \<Rightarrow> string \<Rightarrow> string option" where
  "optional_secret b name = non_empty (sb_secret b name)"

definition optional_var :: "source_bindings \<Rightarrow> string \<Rightarrow> string option" where
  "optional_var b name = non_empty (sb_var b name)"

definition build_source_catalog :: "host_libs \<Rightarrow> source_bindings \<Rightarrow> source_catalog option" where
  "build_source_catalog H b = catalog_new
     [github_source H (optional_secret b ''GITHUB_TOKEN''),
      hacker_news_source H,
      web_source H (case optional_secret b ''BRAVE_SEARCH_API_KEY'' of Some k \<Rightarrow> k | None \<Rightarrow> []),
      stack_exchange_source H (optional_var b ''STACK_EXCHANGE_SITE'') (optional_secret b ''STACK_EXCHANGE_API_KEY'')]"

text \<open>The catalog of an isolate is built once; the second component is what \<open>SOURCE_CATALOG_CACHE\<close> holds after.\<close>

definition source_catalog_of ::
  "host_libs \<Rightarrow> source_bindings \<Rightarrow> source_catalog option \<Rightarrow> source_catalog option \<times> source_catalog option" where
  "source_catalog_of H b cache =
     (case cache of
        Some c \<Rightarrow> (Some c, cache)
      | None \<Rightarrow> (case build_source_catalog H b of None \<Rightarrow> (None, None) | Some c \<Rightarrow> (Some c, Some c)))"

definition app_catalog :: "source_catalog \<Rightarrow> store_ops \<Rightarrow> string \<Rightarrow> comsat_app" where
  "app_catalog c store tenant =
     with_lease_owner ''comsat-cloud'' (with_limits cloud_limits (with_store store (app_new (sca_sources c) tenant)))"

text \<open>The events of an isolate, each with the bindings it sees: the catalogs they use, in order.\<close>

fun event_catalogs :: "host_libs \<Rightarrow> source_bindings list \<Rightarrow> source_catalog option \<Rightarrow> source_catalog option list" where
  "event_catalogs H [] cache = []"
| "event_catalogs H (b # bs) cache = (case source_catalog_of H b cache of (c, cache) \<Rightarrow> c # event_catalogs H bs cache)"

text \<open>A request: the catalog is built or taken from the cache, the request is routed, a failure is only logged.\<close>

definition fetch_event ::
  "host_libs \<Rightarrow> (source_catalog \<Rightarrow> tool_host) \<Rightarrow> source_bindings \<Rightarrow> cloud_env \<Rightarrow> cloud_request \<Rightarrow>
   source_catalog option \<times> db \<Rightarrow> (routed \<times> source_catalog option) option" where
  "fetch_event H host b env q st =
     (case source_catalog_of H b (fst st) of
        (None, _) \<Rightarrow> None
      | (Some c, cache) \<Rightarrow> Some (route_request (host c) env q (snd st), cache))"

section \<open>What the worker logs\<close>

definition notification_summary :: "string \<Rightarrow> nat \<Rightarrow> nat \<Rightarrow> json" where
  "notification_summary scope configured attempted = json_object
     [(''event'', JString ''notification_delivery''), (''scope'', JString scope), (''configured_tenants'', json_nat configured),
      (''attempted'', json_nat attempted)]"

definition notification_delivery_line :: "string \<Rightarrow> delivery option \<Rightarrow> json" where
  "notification_delivery_line scope d =
     (case d of
        None \<Rightarrow> notification_summary scope 0 0
      | Some d \<Rightarrow> json_object [(''event'', JString ''notification_delivery''), (''scope'', JString scope), (''attempted'', json_nat 1),
          (''status'', JString (d_status d)), (''attempts'', json_nat (d_attempts d))])"

fun store_error_class :: "store_error \<Rightarrow> string" where
  "store_error_class (Store_Backend _) = ''backend''"
| "store_error_class (Store_Conflict _) = ''conflict''"
| "store_error_class (Store_NotFound _) = ''not_found''"
| "store_error_class (Store_Validation _) = ''validation''"

definition notification_failure_line :: "store_error \<Rightarrow> bool \<Rightarrow> json" where
  "notification_failure_line e retry = json_object
     [(''event'', JString ''notification_storage_failure''), (''class'', JString (store_error_class e)), (''retry'', JBool retry)]"

text \<open>\<open>STORAGE_SNAPSHOT\<close>. The time is bound as text, which SQL compares as the number it reads as.\<close>

record storage_snapshot =
  sn_active_tenants :: nat
  sn_active_watches :: nat
  sn_due_watches :: nat
  sn_leased_watches :: nat
  sn_records :: nat
  sn_content_bytes :: nat
  sn_runs :: nat
  sn_failed_runs :: nat
  sn_failed_deliveries :: nat

definition record_content_bytes :: "libs \<Rightarrow> comsat_record \<Rightarrow> nat" where
  "record_content_bytes L x = json_len L (rec_metadata x) + (case rec_text x of Some t \<Rightarrow> length t | None \<Rightarrow> 0) +
     (case rec_title x of Some t \<Rightarrow> length t | None \<Rightarrow> 0)"

definition storage_snapshot :: "libs \<Rightarrow> int \<Rightarrow> db \<Rightarrow> storage_snapshot" where
  "storage_snapshot L now db =
     \<lparr>sn_active_tenants = length (remdups (map w_tenant (filter w_enabled (db_watches db)))),
      sn_active_watches = count_where w_enabled (db_watches db),
      sn_due_watches = count_where (\<lambda>w. w_enabled w \<and> w_next_due w \<le> now) (db_watches db),
      sn_leased_watches = count_where (\<lambda>w. expires_after (w_lease_expires w) now) (db_watches db),
      sn_records = length (db_records db),
      sn_content_bytes = sum_list (map (\<lambda>x. record_content_bytes L (rw_record x)) (db_records db)),
      sn_runs = length (db_runs db),
      sn_failed_runs = count_where (\<lambda>x. run_status x = ''failed'') (db_runs db),
      sn_failed_deliveries = count_where (\<lambda>d. d_status d = ''failed'') (db_deliveries db)\<rparr>"

text \<open>The line both clients log for a request to a source: the native one only when asked to, by \<open>COMSAT_LOG\<close> or by
  the service that has started.\<close>

definition source_http_line :: "source_id \<Rightarrow> (http_response, source_error) result \<Rightarrow> nat \<Rightarrow> json" where
  "source_http_line source answer latency = json_object
     [(''event'', JString ''source_http_request''), (''source'', JString (sid_str source)),
      (''status'', case answer of Ok r \<Rightarrow> json_nat (hr_status r) | Err e \<Rightarrow> JNull),
      (''error_class'', case answer of Ok r \<Rightarrow> JNull | Err e \<Rightarrow> JString (class_name (err_class e))),
      (''latency_ms'', json_nat latency)]"

definition native_http_line ::
  "environment \<Rightarrow> bool \<Rightarrow> source_id \<Rightarrow> (http_response, source_error) result \<Rightarrow> nat \<Rightarrow> json option" where
  "native_http_line env serving source answer latency =
     (if env ''COMSAT_LOG'' \<noteq> Some ''1'' \<and> \<not> serving then None else Some (source_http_line source answer latency))"

text \<open>A client's \<open>send\<close>: the answer, and the line.\<close>

definition native_client_send ::
  "native_libs \<Rightarrow> environment \<Rightarrow> bool \<Rightarrow> nat \<Rightarrow> http_request \<Rightarrow> (http_response, source_error) result \<times> json option" where
  "native_client_send N env serving latency rq =
     (let answer = fst (native_send N rq)
      in (answer, native_http_line env serving (source_for_request N rq) answer latency))"

definition worker_client_send ::
  "worker_libs \<Rightarrow> source_id \<Rightarrow> nat \<Rightarrow> http_request \<Rightarrow> (http_response, source_error) result \<times> json" where
  "worker_client_send W source latency rq =
     (let answer = fst (worker_send W source rq) in (answer, source_http_line source answer latency))"

section \<open>Laws\<close>

definition built_in :: "source_id list" where
  "built_in = [github, hacker_news, stack_exchange, web]"

lemma cs_id_of [simp]: "cs_id (catalog_source_of H d rt) = desc_id d"
  by (simp add: catalog_source_of_def served_source_def)

lemma descriptor_ids [simp]:
  "desc_id gh_descriptor = github" "desc_id hn_descriptor = hacker_news" "desc_id se_descriptor = stack_exchange"
  "desc_id web_descriptor = web"
  by (simp_all add: gh_descriptor_def hn_descriptor_def se_descriptor_def web_descriptor_def descriptor_new_def)

lemma built_in_distinct: "distinct built_in"
  by (simp add: built_in_def github_def hacker_news_def stack_exchange_def web_def)

lemma first_party_ids: "map cs_id (first_party_sources H env) = built_in"
  by (simp add: first_party_sources_def built_in_def github_source_def hacker_news_source_def stack_exchange_source_def web_source_def)

lemma catalog_new_some: "catalog_new sources = (if distinct (map cs_id sources) then
    Some \<lparr>sca_sources = sources, sca_metrics = metrics_new (map cs_id sources)\<rparr> else None)"
  by (cases "validate_unique_sources sources")
    (auto simp: catalog_new_def catalog_try_new_def validate_unique_sources_ok [symmetric])

text \<open>The cloud's catalog always builds, and the first one an isolate builds is the one every later event uses,
  whatever bindings it sees.\<close>

lemma cloud_catalog_builds: "build_source_catalog H b \<noteq> None"
  unfolding build_source_catalog_def catalog_new_iff
  by (simp add: github_source_def hacker_news_source_def stack_exchange_source_def web_source_def
      github_def hacker_news_def stack_exchange_def web_def)

lemma event_catalogs_cached: "event_catalogs H bs (Some c) = replicate (length bs) (Some c)"
  by (induction bs) (simp_all add: source_catalog_of_def)

lemma isolate_keeps_catalog:
  "event_catalogs H bs None = (case bs of [] \<Rightarrow> [] | b # _ \<Rightarrow> replicate (length bs) (build_source_catalog H b))"
proof (cases bs)
  case (Cons b rest)
  obtain c where "build_source_catalog H b = Some c" using cloud_catalog_builds [of H b] by auto
  with Cons show ?thesis by (simp add: source_catalog_of_def event_catalogs_cached)
qed simp

text \<open>A package that loads and is named twice, or two packages of one source, stop the command with a panic; the diagnostics
  of a package that fails to load do not.\<close>

lemma load_sources_twice:
  "load_source A root = Ok s \<Longrightarrow> map cs_id (fst (load_sources A [root, root])) = [cs_id s, cs_id s]"
  by simp

lemma plugin_twice_panics:
  assumes "env ''COMSAT_PLUGINS'' = Some paths" "split_paths paths = [root, root]" "load_source A root = Ok s"
  shows "build_app H A split_paths env pid stdin = None"
  using assms
  by (simp add: build_app_def catalog_with_agent_plugins_def load_sources_from_env_def catalog_new_some)

text \<open>The native command starts exactly when its sources are distinct and its webhook is acceptable: then it serves the
  four sources of the program, in order, and after them every plugin that loaded, over its own database,
  with the targets of standard input; two plugins of one source make it panic, a plugin with the id of a
  source of the program and a refused webhook make it fail.\<close>

lemma native_app_built:
  "(let plugins = fst (load_sources_from_env A split_paths env)
    in case build_app H A split_paths env pid stdin of
         None \<Rightarrow> \<not> distinct (map cs_id plugins)
       | Some (Err (Build_Catalog e)) \<Rightarrow> distinct (map cs_id plugins) \<and> list_ex (\<lambda>s. cs_id s \<in> set built_in) plugins
       | Some (Err (Build_Delivery e)) \<Rightarrow>
           distinct (built_in @ map cs_id plugins) \<and>
           map_option (\<lambda>u. delivery_config_new (hl_net H) u (env ''COMSAT_WEBHOOK_TOKEN'')) (env ''COMSAT_WEBHOOK_URL'') = Some (Err e)
       | Some (Ok app) \<Rightarrow>
           distinct (map cs_id (app_sources app)) \<and> app_sources app = first_party_sources H env @ plugins \<and>
           map cs_id (app_sources app) = built_in @ map cs_id plugins \<and>
           app_store app = Some (sqlite_store (pl_libs (hl_plugin H))) \<and>
           app_targets app = Some (read_stdin_targets (hl_plugin H) stdin) \<and>
           app_owner app = ''comsat-native-'' @ nat_str pid \<and> app_limits app = default_limits \<and>
           (app_delivery app = None \<longleftrightarrow> env ''COMSAT_WEBHOOK_URL'' = None))"
proof -
  obtain plugins diagnostics where load: "load_sources_from_env A split_paths env = (plugins, diagnostics)" by fastforce
  show ?thesis
  proof (cases "distinct (map cs_id plugins)")
    case False
    then show ?thesis by (simp add: build_app_def catalog_with_agent_plugins_def load catalog_new_some)
  next
    case True
    let ?all = "first_party_sources H env @ plugins"
    have ids: "map cs_id ?all = built_in @ map cs_id plugins" by (simp add: first_party_ids)
    show ?thesis
    proof (cases "validate_unique_sources ?all")
      case (Inl e)
      then have "\<not> distinct (map cs_id ?all)" using validate_unique_sources_ok [of ?all] by simp
      then have "list_ex (\<lambda>s. cs_id s \<in> set built_in) plugins"
        unfolding ids using True built_in_distinct by (auto simp: list_ex_iff)
      with True Inl show ?thesis
        by (simp add: build_app_def catalog_with_agent_plugins_def load catalog_new_some catalog_try_new_def)
    next
      case (Inr u)
      then have "distinct (map cs_id ?all)" using validate_unique_sources_ok [of ?all] by simp
      with True Inr ids show ?thesis
        by (cases "env ''COMSAT_WEBHOOK_URL''")
          (auto simp: build_app_def catalog_with_agent_plugins_def load catalog_new_some catalog_try_new_def Let_def builder_defs
            configure_notifications_def app_new_def and_then_eq_Inl split: sum.split)
    qed
  qed
qed

text \<open>What is logged of a request is the source, the status, the class of its error and the time: two requests that
  differ in their URL, headers or body, or in the message of their error, log the same.\<close>

lemma log_line_hides:
  "source_http_line source (Ok \<lparr>hr_status = n, hr_headers = hs, hr_body = body\<rparr>) latency =
     source_http_line source (Ok \<lparr>hr_status = n, hr_headers = [], hr_body = []\<rparr>) latency"
  "err_class e = err_class e' \<Longrightarrow> source_http_line source (Err e) latency = source_http_line source (Err e') latency"
  by (simp_all add: source_http_line_def)

lemma count_where_mono: "(\<And>x. P x \<Longrightarrow> Q x) \<Longrightarrow> count_where P xs \<le> count_where Q xs"
  by (induction xs) (auto simp: count_where_def)

lemma snapshot_bounds:
  "sn_due_watches (storage_snapshot L now db) \<le> sn_active_watches (storage_snapshot L now db)"
  "sn_active_tenants (storage_snapshot L now db) \<le> sn_active_watches (storage_snapshot L now db)"
  using length_remdups_leq [of "map w_tenant (filter w_enabled (db_watches db))"]
  by (auto simp: storage_snapshot_def count_where_def [symmetric] intro: count_where_mono)

end
