(* ===== verification/Codemode_Commands.thy ===== *)
theory Codemode_Commands
  imports Codemode_Cli Hosts
begin

text \<open>
  The \<open>code\<close> group of the native command (\<open>comsat-cli/src/codemode.rs\<close>, \<open>codemode/lifecycle.rs\<close>): each command as
  a call of the Code Mode runtime, a library, over the state \<open>'w\<close> it keeps, and how what it answers is reported.
  A list, a read or a decision answers the JSON of a value; only \<open>run\<close> looks at whether the execution completed.
\<close>

section \<open>The runtime\<close>

text \<open>What it answers: for an execution also whether its status is \<open>completed\<close>; values carry the outcome of their
  conversion to JSON.\<close>

type_synonym jsons = "(json, string) result"

record 'w code_runtime =
  cmr_execute :: "string \<Rightarrow> 'w \<Rightarrow> (bool \<times> jsons, string) result \<times> 'w"
  cmr_search :: "string \<Rightarrow> 'w \<Rightarrow> (jsons, string) result \<times> 'w"
  cmr_executions :: "'w \<Rightarrow> (jsons, string) result \<times> 'w"
  cmr_snapshot :: "string \<Rightarrow> 'w \<Rightarrow> (jsons, string) result \<times> 'w"
  cmr_events :: "string \<Rightarrow> 'w \<Rightarrow> (jsons, string) result \<times> 'w"
  cmr_artifact :: "string \<Rightarrow> string \<Rightarrow> 'w \<Rightarrow> (json, string) result \<times> 'w"
  cmr_approve :: "string \<Rightarrow> nat \<Rightarrow> 'w \<Rightarrow> (bool \<times> jsons, string) result \<times> 'w"
  cmr_reject :: "string \<Rightarrow> nat \<Rightarrow> 'w \<Rightarrow> (bool \<times> jsons, string) result \<times> 'w"
  cmr_resume :: "string \<Rightarrow> 'w \<Rightarrow> (bool \<times> jsons, string) result \<times> 'w"
  cmr_cancel :: "string \<Rightarrow> 'w \<Rightarrow> (bool \<times> jsons, string) result \<times> 'w"
  cmr_rollback :: "string \<Rightarrow> 'w \<Rightarrow> (bool \<times> jsons, string) result \<times> 'w"
  cmr_prune :: "nat \<Rightarrow> 'w \<Rightarrow> (nat, string) result \<times> 'w"

text \<open>The application whose tools the program calls: that of the command without standard input.\<close>

definition code_mode_app :: "comsat_app \<Rightarrow> comsat_app" where
  "code_mode_app app = without_target_stream_provider app"

section \<open>The lifecycle\<close>

datatype lifecycle_command =
    Code_List | Code_Show string | Code_Events string | Code_Artifact string string
  | Code_Approve string nat | Code_Reject string nat | Code_Resume string | Code_Cancel string | Code_Rollback string
  | Code_Prune nat

definition state_value :: "(bool \<times> jsons, string) result \<times> 'w \<Rightarrow> (json, string) result \<times> 'w" where
  "state_value x = (and_then (fst x) snd, snd x)"

definition plain_value :: "(jsons, string) result \<times> 'w \<Rightarrow> (json, string) result \<times> 'w" where
  "plain_value x = (and_then (fst x) (\<lambda>v. v), snd x)"

fun lifecycle_handler :: "'w code_runtime \<Rightarrow> lifecycle_command \<Rightarrow> 'w \<Rightarrow> (json, string) result \<times> 'w" where
  "lifecycle_handler R Code_List w = plain_value (cmr_executions R w)"
| "lifecycle_handler R (Code_Show i) w = plain_value (cmr_snapshot R i w)"
| "lifecycle_handler R (Code_Events i) w = plain_value (cmr_events R i w)"
| "lifecycle_handler R (Code_Artifact i a) w = cmr_artifact R i a w"
| "lifecycle_handler R (Code_Approve i n) w = state_value (cmr_approve R i n w)"
| "lifecycle_handler R (Code_Reject i n) w = state_value (cmr_reject R i n w)"
| "lifecycle_handler R (Code_Resume i) w = state_value (cmr_resume R i w)"
| "lifecycle_handler R (Code_Cancel i) w = state_value (cmr_cancel R i w)"
| "lifecycle_handler R (Code_Rollback i) w = state_value (cmr_rollback R i w)"
| "lifecycle_handler R (Code_Prune keep) w = (case cmr_prune R keep w of (removed, w) \<Rightarrow> (prune_value keep removed, w))"

text \<open>\<open>broken\<close>: the blocking thread or its scheduler could not start; then nothing has run.\<close>

definition lifecycle_command_run ::
  "string option \<Rightarrow> 'w code_runtime \<Rightarrow> lifecycle_command \<Rightarrow> 'w \<Rightarrow> json typed_result \<times> 'w" where
  "lifecycle_command_run broken R c w =
     (if broken \<noteq> None then (codemode_answer (run_local broken (Err [])), w)
      else case lifecycle_handler R c w of (r, w) \<Rightarrow> (codemode_answer (run_local None r), w))"

section \<open>Running a program\<close>

definition code_run :: "string option \<Rightarrow> 'w code_runtime \<Rightarrow> string \<Rightarrow> 'w \<Rightarrow> json typed_result \<times> 'w" where
  "code_run broken R code w =
     (if broken \<noteq> None then (codemode_answer (run_execution broken (Err [])), w)
      else case cmr_execute R code w of (r, w) \<Rightarrow> (codemode_answer (run_execution None r), w))"

definition code_tools :: "string option \<Rightarrow> 'w code_runtime \<Rightarrow> string \<Rightarrow> 'w \<Rightarrow> json typed_result \<times> 'w" where
  "code_tools broken R query w =
     (if broken \<noteq> None then (codemode_answer (run_local broken (Err [])), w)
      else case cmr_search R query w of (r, w) \<Rightarrow>
        (codemode_answer (case r of Err e \<Rightarrow> Err e | Ok v \<Rightarrow> Ok (json_result v)), w))"

text \<open>The names of the group, as they are registered.\<close>

definition inspection_names :: "string list" where
  "inspection_names = [''list'', ''show'', ''events'', ''artifact'']"

definition control_names :: "string list" where
  "control_names = [''approve'', ''reject'', ''resume'', ''cancel'', ''rollback'', ''prune'']"

definition code_group :: "string list" where
  "code_group = [''run'', ''tools''] @ inspection_names @ control_names"

fun lifecycle_name :: "lifecycle_command \<Rightarrow> string" where
  "lifecycle_name Code_List = ''list''"
| "lifecycle_name (Code_Show i) = ''show''"
| "lifecycle_name (Code_Events i) = ''events''"
| "lifecycle_name (Code_Artifact i a) = ''artifact''"
| "lifecycle_name (Code_Approve i n) = ''approve''"
| "lifecycle_name (Code_Reject i n) = ''reject''"
| "lifecycle_name (Code_Resume i) = ''resume''"
| "lifecycle_name (Code_Cancel i) = ''cancel''"
| "lifecycle_name (Code_Rollback i) = ''rollback''"
| "lifecycle_name (Code_Prune keep) = ''prune''"

section \<open>Laws\<close>

fun exit_code_of :: "'a typed_result \<Rightarrow> nat" where
  "exit_code_of (Typed_Ok v) = 0"
| "exit_code_of (Typed_Ok_Exit v n) = n"
| "exit_code_of (Typed_Error c m) = 1"

lemma code_group_distinct: "distinct code_group"
  by code_simp

lemma lifecycle_name_registered: "lifecycle_name c \<in> set (inspection_names @ control_names)"
  by (cases c) (simp_all add: inspection_names_def control_names_def)

text \<open>What a lifecycle command reports: the value, exit code 0, or the runtime's error under one code.\<close>

lemma lifecycle_reports:
  "lifecycle_command_run None R c w =
     (case lifecycle_handler R c w of
        (Ok v, w) \<Rightarrow> (Typed_Ok v, w) | (Err e, w) \<Rightarrow> (Typed_Error ''codemode_error'' e, w))"
  by (auto simp: lifecycle_command_run_def run_local_def codemode_answer_def json_result_def split: prod.split sum.split)

text \<open>A program that did not complete exits with 1 and still reports its state.\<close>

lemma run_reports:
  "code_run None R code w =
     (case cmr_execute R code w of
        (Ok (completed, Ok v), w) \<Rightarrow> (if completed then Typed_Ok v else Typed_Ok_Exit v 1, w)
      | (Ok (completed, Err e), w) \<Rightarrow> (Typed_Error ''codemode_error'' e, w)
      | (Err e, w) \<Rightarrow> (Typed_Error ''codemode_error'' e, w))"
proof -
  obtain r w' where e: "cmr_execute R code w = (r, w')" by fastforce
  note defs = code_run_def run_execution_def codemode_answer_def execution_result_def
  show ?thesis
  proof (cases r)
    case (Inr state)
    obtain completed v where "state = (completed, v)" by fastforce
    with e Inr show ?thesis by (cases v) (simp_all add: defs)
  qed (simp add: e defs)
qed

text \<open>Resuming runs the same program and does not: whether the execution completed is lost, the exit code is 0.\<close>

lemma resume_hides_status:
  assumes "cmr_resume R i w = (Ok (completed, Ok v), w')" "cmr_execute R code w = (Ok (completed, Ok v), w')"
  shows "exit_code_of (fst (lifecycle_command_run None R (Code_Resume i) w)) = 0 \<and>
    exit_code_of (fst (code_run None R code w)) = (if completed then 0 else 1)"
  using assms by (simp add: lifecycle_reports run_reports state_value_def)

end
