(* ===== verification/Tooling.thy ===== *)
theory Tooling
  imports Complexity Native_Cli
begin

text \<open>
  The gate of the repository, \<open>cargo xtask\<close> (\<open>xtask/src/{main,checks,conformance,wasm}.rs\<close>): the steps of
  \<open>check\<close> in order, the manifests of the plugins, and the packages that must build for WebAssembly. What a
  command of the shell answers is a parameter; a gate answers its result and the commands it has run. The
  end-to-end tests are gates given as parameters.
\<close>

section \<open>Commands\<close>

type_synonym command = "string \<times> string list"

datatype command_status = Succeeded | Exited "int option" | Program_Missing | Not_Started string

record shell =
  sh_status :: "command \<Rightarrow> command_status"
  sh_text :: "int option \<Rightarrow> string"

text \<open>\<open>None\<close>: the gate does not return.\<close>

type_synonym gate = "unit checked option \<times> command list"

definition gate_ok :: gate where
  "gate_ok = (Some (Ok ()), [])"

definition then_gate :: "gate \<Rightarrow> gate \<Rightarrow> gate" where
  "then_gate g h = (case fst g of Some (Ok _) \<Rightarrow> (fst h, snd g @ snd h) | _ \<Rightarrow> g)"

definition status_error :: "string \<Rightarrow> int option \<Rightarrow> string" where
  "status_error name code =
     (case code of
        None \<Rightarrow> ''`'' @ name @ ''` terminated without an exit code''
      | Some c \<Rightarrow> ''`'' @ name @ ''` exited with status '' @ int_str c)"

definition run_command :: "shell \<Rightarrow> string \<Rightarrow> string \<Rightarrow> string list \<Rightarrow> gate" where
  "run_command S name program args =
     (Some (case sh_status S (program, args) of
        Succeeded \<Rightarrow> Ok ()
      | Exited code \<Rightarrow> Err (status_error name code)
      | Program_Missing \<Rightarrow> Err (''`'' @ name @ ''` could not run because `'' @ program @
          ''` is missing. Install the tool and rerun `cargo xtask check`.'')
      | Not_Started e \<Rightarrow> Err (''`'' @ name @ ''` failed to start: '' @ e)), [(program, args)])"

section \<open>WebAssembly (\<open>wasm.rs\<close>)\<close>

definition wasm_packages :: "string list" where
  "wasm_packages = [''comsat-types'', ''comsat-source'', ''comsat-engine'', ''comsat-app'', ''comsat-store'', ''comsat-cloud'',
     ''comsat-github'', ''comsat-hacker-news'', ''comsat-web'', ''comsat-stack-exchange'']"

definition run_cargo :: "shell \<Rightarrow> string \<Rightarrow> string list \<Rightarrow> gate" where
  "run_cargo S label args =
     (Some (case sh_status S (''cargo'', args) of
        Succeeded \<Rightarrow> Ok ()
      | Exited code \<Rightarrow> Err (''`'' @ label @ ''` exited with '' @ sh_text S code)
      | Program_Missing \<Rightarrow> Err ''`cargo` is missing; install Rust toolchain 1.98.1 and rerun''
      | Not_Started e \<Rightarrow> Err (''failed to start `'' @ label @ ''`: '' @ e)), [(''cargo'', args)])"

definition check_package :: "shell \<Rightarrow> string \<Rightarrow> gate" where
  "check_package S p =
     run_cargo S (''cargo check --target wasm32-unknown-unknown -p '' @ p @ '' --no-default-features'')
       [''check'', ''--target'', ''wasm32-unknown-unknown'', ''-p'', p, ''--no-default-features'']"

definition clippy_cloud_wasm :: "shell \<Rightarrow> gate" where
  "clippy_cloud_wasm S =
     run_cargo S ''cargo clippy --target wasm32-unknown-unknown -p comsat-cloud --no-default-features --lib --no-deps''
       [''clippy'', ''--target'', ''wasm32-unknown-unknown'', ''-p'', ''comsat-cloud'', ''--no-default-features'', ''--lib'',
        ''--no-deps'', ''--'', ''-D'', ''warnings'']"

fun check_wasm_packages :: "shell \<Rightarrow> string set \<Rightarrow> string list \<Rightarrow> nat \<Rightarrow> (nat \<Rightarrow> gate) \<Rightarrow> gate" where
  "check_wasm_packages S names [] checked rest = rest checked"
| "check_wasm_packages S names (p # ps) checked rest =
     (if p \<notin> names then check_wasm_packages S names ps checked rest
      else then_gate (check_package S p) (check_wasm_packages S names ps (checked + 1) rest))"

definition wasm_run :: "repository \<Rightarrow> shell \<Rightarrow> path \<Rightarrow> gate" where
  "wasm_run R S root =
     (case read_workspace R root of
        Err e \<Rightarrow> (Some (Err e), [])
      | Ok w \<Rightarrow> check_wasm_packages S (package_names w) wasm_packages 0 (\<lambda>checked.
          if checked = 0 then (Some (Err ''no WASM-required packages are present''), []) else clippy_cloud_wasm S))"

section \<open>Plugin manifests (\<open>conformance.rs\<close>)\<close>

definition manifest_extension :: "json \<Rightarrow> json option" where
  "manifest_extension document =
     Option.bind (json_get document ''extensions'') (\<lambda>x. Option.bind (json_get x ''io.comsat.source'') (\<lambda>v.
       if is_object v then
         (case (Option.bind (json_get v ''version'') as_u64, Option.bind (json_get v ''id'') as_str,
                Option.bind (json_get v ''displayName'') as_str) of
            (Some n, Some i, Some name) \<Rightarrow> if n = 1 \<and> i \<noteq> [] \<and> name \<noteq> [] then Some v else None
          | _ \<Rightarrow> None)
       else None))"

definition check_plugin_manifest ::
  "repository \<Rightarrow> (string \<Rightarrow> json checked) \<Rightarrow> path \<Rightarrow> package \<Rightarrow> string list checked" where
  "check_plugin_manifest R parse root p =
     (let file = pk_root p @ [''plugin.json'']
      in if \<not> fs_exists R file
         then Ok [display_path root (pk_root p) @ '' is missing plugin.json with io.comsat.source metadata'']
         else and_then (and_then (fs_read R file) parse) (\<lambda>document.
           Ok (if manifest_extension document = None
               then [display_path root file @ '' must declare extensions.io.comsat.source''] else [])))"

definition check_plugin_manifests ::
  "repository \<Rightarrow> (string \<Rightarrow> json checked) \<Rightarrow> path \<Rightarrow> workspace \<Rightarrow> string list checked" where
  "check_plugin_manifests R parse root w =
     and_then (collect_results (check_plugin_manifest R parse root) (filter is_plugin_package (ws_packages w))) (\<lambda>vs. Ok (concat vs))"

definition run_package_test :: "shell \<Rightarrow> string \<Rightarrow> string option \<Rightarrow> gate" where
  "run_package_test S p target =
     (let args = [''test'', ''-p'', p] @ (case target of None \<Rightarrow> [] | Some t \<Rightarrow> [''--test'', t]) @ [''--'', ''--nocapture'']
      in (Some (case sh_status S (''cargo'', args) of
           Succeeded \<Rightarrow> Ok ()
         | Exited code \<Rightarrow> Err (''`cargo test -p '' @ p @ '' conformance` exited with '' @ sh_text S code)
         | Program_Missing \<Rightarrow> Err ''`cargo` is missing; install Rust toolchain 1.98.1 and rerun''
         | Not_Started e \<Rightarrow> Err (''failed to start cargo for `'' @ p @ ''`: '' @ e)), [(''cargo'', args)]))"

definition run_conformance_tests :: "shell \<Rightarrow> workspace \<Rightarrow> gate" where
  "run_conformance_tests S w =
     then_gate (run_package_test S ''comsat-source'' None)
       (foldr (\<lambda>p rest. then_gate (run_package_test S (pk_name p) (Some ''conformance'')) rest)
         (filter is_plugin_package (ws_packages w)) gate_ok)"

definition conformance_run :: "repository \<Rightarrow> (string \<Rightarrow> json checked) \<Rightarrow> shell \<Rightarrow> path \<Rightarrow> gate" where
  "conformance_run R parse S root =
     (case read_workspace R root of
        Err e \<Rightarrow> (Some (Err e), [])
      | Ok w \<Rightarrow>
          (case check_plugin_manifests R parse root w of
             Err e \<Rightarrow> (Some (Err e), [])
           | Ok violations \<Rightarrow>
               if violations \<noteq> [] then (Some (Err (''source conformance failed:\<newline>'' @ join ''\<newline>'' violations)), [])
               else run_conformance_tests S w))"

section \<open>The check (\<open>checks.rs\<close>)\<close>

definition command_steps :: "(string \<times> string \<times> string list) list" where
  "command_steps =
     [(''cargo fmt --check'', ''cargo'', [''fmt'', ''--check'']),
      (''cargo clippy --workspace --all-targets --all-features'', ''cargo'',
        [''clippy'', ''--workspace'', ''--all-targets'', ''--all-features'', ''--'', ''-D'', ''warnings'']),
      (''cargo test --workspace --all-features'', ''cargo'', [''test'', ''--workspace'', ''--all-features'']),
      (''cargo deny check'', ''cargo'', [''deny'', ''check'']),
      (''cargo-machete --skip-target-dir'', ''cargo-machete'', [''--skip-target-dir''])]"

text \<open>What the gates read: the files, the parsers of JSON and of Rust, and the two end-to-end tests.\<close>

record tooling =
  tl_repository :: repository
  tl_shell :: shell
  tl_json :: "string \<Rightarrow> json checked"
  tl_rust :: "string \<Rightarrow> node list checked"
  tl_lines :: "string \<Rightarrow> string list"
  tl_native_test :: "path \<Rightarrow> gate"
  tl_cloud_test :: "path \<Rightarrow> gate"

definition silent :: "unit checked option \<Rightarrow> gate" where
  "silent r = (r, [])"

definition function_steps :: "tooling \<Rightarrow> (path \<Rightarrow> gate) list" where
  "function_steps T =
     [\<lambda>root. silent (architecture_run (tl_repository T) root),
      \<lambda>root. silent (complexity_run (tl_rust T) (tl_lines T) (tl_repository T) root),
      conformance_run (tl_repository T) (tl_json T) (tl_shell T),
      wasm_run (tl_repository T) (tl_shell T), tl_native_test T, tl_cloud_test T]"

definition check_steps :: "tooling \<Rightarrow> path \<Rightarrow> gate list" where
  "check_steps T root =
     map (\<lambda>(name, program, args). run_command (tl_shell T) name program args) command_steps @
     map (\<lambda>step. step root) (function_steps T)"

definition run_gates :: "gate list \<Rightarrow> gate" where
  "run_gates gs = foldr then_gate gs gate_ok"

definition check_run :: "tooling \<Rightarrow> path \<Rightarrow> gate" where
  "check_run T root = run_gates (check_steps T root)"

section \<open>The command (\<open>main.rs\<close>)\<close>

definition command_table :: "tooling \<Rightarrow> (string \<times> (path \<Rightarrow> gate)) list" where
  "command_table T =
     [(''architecture'', \<lambda>root. silent (architecture_run (tl_repository T) root)),
      (''check'', check_run T),
      (''cloud-test'', tl_cloud_test T),
      (''complexity'', \<lambda>root. silent (complexity_run (tl_rust T) (tl_lines T) (tl_repository T) root)),
      (''native-test'', tl_native_test T),
      (''conformance'', conformance_run (tl_repository T) (tl_json T) (tl_shell T)),
      (''wasm'', wasm_run (tl_repository T) (tl_shell T))]"

definition xtask :: "tooling \<Rightarrow> path \<Rightarrow> string option \<Rightarrow> gate" where
  "xtask T root arg =
     (let command = (case arg of Some c \<Rightarrow> c | None \<Rightarrow> ''help'')
      in case map_of (command_table T) command of
           Some run \<Rightarrow> run root
         | None \<Rightarrow> if command \<in> {''help'', ''-h'', ''--help''} then gate_ok
             else (Some (Err (''unknown xtask command `'' @ command @ ''`'')), []))"

section \<open>Laws\<close>

lemma then_gate_ok: "fst (then_gate g h) = Some (Ok ()) \<longleftrightarrow> fst g = Some (Ok ()) \<and> fst h = Some (Ok ())"
  by (auto simp: then_gate_def split: option.splits sum.splits)

text \<open>A list of gates passes when all of them pass; otherwise it answers what the first that does not pass answers,
  and nothing after it has run.\<close>

lemma run_gates_ok: "fst (run_gates gs) = Some (Ok ()) \<longleftrightarrow> list_all (\<lambda>g. fst g = Some (Ok ())) gs"
  by (induction gs) (simp_all add: run_gates_def gate_ok_def then_gate_ok)

lemma run_gates_first:
  "run_gates gs =
     (let passed = takeWhile (\<lambda>g. fst g = Some (Ok ())) gs
      in case dropWhile (\<lambda>g. fst g = Some (Ok ())) gs of
           [] \<Rightarrow> (Some (Ok ()), concat (map snd passed))
         | g # _ \<Rightarrow> (fst g, concat (map snd passed) @ snd g))"
proof (induction gs)
  case (Cons g gs)
  show ?case
  proof (cases "fst g = Some (Ok ())")
    case True
    then have "run_gates (g # gs) = (fst (run_gates gs), snd g @ snd (run_gates gs))"
      by (simp add: run_gates_def then_gate_def)
    with True Cons show ?thesis
      by (cases "dropWhile (\<lambda>g. fst g = Some (Ok ())) gs") (simp_all add: Let_def del: dropWhile_eq_Nil_conv)
  next
    case False
    then have "run_gates (g # gs) = g" by (auto simp: run_gates_def then_gate_def split: option.split sum.split)
    with False show ?thesis by (simp add: Let_def)
  qed
qed (simp add: run_gates_def gate_ok_def)

lemma run_command_ok: "fst (run_command S name program args) = Some (Ok ()) \<longleftrightarrow> sh_status S (program, args) = Succeeded"
  by (simp add: run_command_def split: command_status.split)

text \<open>\<open>cargo xtask check\<close> passes exactly when the five commands succeed and the six gates pass.\<close>

lemma check_passes:
  "fst (check_run T root) = Some (Ok ()) \<longleftrightarrow>
     list_all (\<lambda>(name, program, args). sh_status (tl_shell T) (program, args) = Succeeded) command_steps \<and>
     architecture_run (tl_repository T) root = Some (Ok ()) \<and>
     complexity_run (tl_rust T) (tl_lines T) (tl_repository T) root = Some (Ok ()) \<and>
     fst (conformance_run (tl_repository T) (tl_json T) (tl_shell T) root) = Some (Ok ()) \<and>
     fst (wasm_run (tl_repository T) (tl_shell T) root) = Some (Ok ()) \<and>
     fst (tl_native_test T root) = Some (Ok ()) \<and> fst (tl_cloud_test T root) = Some (Ok ())"
  by (simp add: check_run_def run_gates_ok check_steps_def function_steps_def silent_def list.pred_map comp_def case_prod_unfold
      run_command_ok)

text \<open>WebAssembly passes when some package of the list is in the workspace, each that is builds, and the cloud crate
  is clean; one that is missing is passed over.\<close>

lemma run_cargo_ok: "fst (run_cargo S label args) = Some (Ok ()) \<longleftrightarrow> sh_status S (''cargo'', args) = Succeeded"
  by (simp add: run_cargo_def split: command_status.split)

lemma check_wasm_packages_ok:
  "fst (check_wasm_packages S names ps n rest) = Some (Ok ()) \<longleftrightarrow>
     list_all (\<lambda>p. fst (check_package S p) = Some (Ok ())) (filter (\<lambda>p. p \<in> names) ps) \<and>
     fst (rest (n + length (filter (\<lambda>p. p \<in> names) ps))) = Some (Ok ())"
  by (induction ps arbitrary: n) (simp_all add: then_gate_ok)

lemma wasm_passes:
  "fst (wasm_run R S root) = Some (Ok ()) \<longleftrightarrow>
     (case read_workspace R root of
        Err e \<Rightarrow> False
      | Ok w \<Rightarrow>
          (let present = filter (\<lambda>p. p \<in> package_names w) wasm_packages
           in present \<noteq> [] \<and> list_all (\<lambda>p. fst (check_package S p) = Some (Ok ())) present \<and>
              fst (clippy_cloud_wasm S) = Some (Ok ())))"
  by (auto simp: wasm_run_def check_wasm_packages_ok Let_def split: sum.split)

text \<open>What the gate accepts of a manifest and what the loader accepts: the loader also checks the id, the gate also
  wants a display name.\<close>

definition loader_extension :: "json \<Rightarrow> json option" where
  "loader_extension document = Option.bind (json_get document ''extensions'') (\<lambda>x. json_get x ''io.comsat.source'')"

lemma from_plugin_ok:
  "from_plugin (Some v) = Ok x \<longleftrightarrow> is_object v \<and> Option.bind (json_get v ''version'') as_u64 = Some 1 \<and>
    (\<exists>name i. Option.bind (json_get v ''displayName'') as_str = Some name \<and>
      source_id_new (case Option.bind (json_get v ''id'') as_str of None \<Rightarrow> [] | Some i \<Rightarrow> i) = Ok i \<and>
      x = \<lparr>ext_id = i, ext_display_name = name, ext_fetch = extension_flag v ''supportsFetch'',
        ext_follow = extension_flag v ''supportsFollow''\<rparr>)"
  by (cases "Option.bind (json_get v ''displayName'') as_str")
    (auto simp: from_plugin_def)

lemma source_id_not_empty: "source_id_new s = Ok i \<Longrightarrow> s \<noteq> []"
  by (auto simp: source_id_new_def split: if_splits)

lemma gate_accepts_loaded:
  assumes "loader_extension document = Some v" "from_plugin (Some v) = Ok x" "ext_display_name x \<noteq> []"
  shows "manifest_extension document = Some v"
proof -
  obtain e where e: "json_get document ''extensions'' = Some e" "json_get e ''io.comsat.source'' = Some v"
    using assms(1) by (auto simp: loader_extension_def bind_eq_Some_conv)
  obtain name i where "is_object v" "Option.bind (json_get v ''version'') as_u64 = Some 1"
    "Option.bind (json_get v ''displayName'') as_str = Some name" "name \<noteq> []"
    "source_id_new (case Option.bind (json_get v ''id'') as_str of None \<Rightarrow> [] | Some i \<Rightarrow> i) = Ok i"
    using assms(2,3) by (auto simp: from_plugin_ok)
  moreover from this(5) have "case Option.bind (json_get v ''id'') as_str of None \<Rightarrow> False | Some i \<Rightarrow> i \<noteq> []"
    using source_id_not_empty by (cases "Option.bind (json_get v ''id'') as_str") fastforce+
  ultimately show ?thesis
    using e by (cases "Option.bind (json_get v ''id'') as_str") (simp_all add: manifest_extension_def)
qed

lemma loader_accepts_gated:
  assumes "manifest_extension document = Some v" "Option.bind (json_get v ''id'') as_str = Some i" "source_id_new i = Ok s"
  shows "loader_extension document = Some v \<and> (\<exists>x. from_plugin (Some v) = Ok x \<and> ext_id x = s)"
proof -
  obtain e where e: "json_get document ''extensions'' = Some e" "json_get e ''io.comsat.source'' = Some v" "is_object v"
    using assms(1) by (auto simp: manifest_extension_def bind_eq_Some_conv split: if_splits option.splits)
  moreover from this assms(1) obtain name where "Option.bind (json_get v ''version'') as_u64 = Some 1"
    "Option.bind (json_get v ''displayName'') as_str = Some name"
    by (cases "Option.bind (json_get v ''version'') as_u64"; cases "Option.bind (json_get v ''displayName'') as_str")
      (simp_all add: manifest_extension_def assms(2) split: if_splits)
  ultimately show ?thesis using assms(2,3) by (auto simp: loader_extension_def from_plugin_ok)
qed

end
