(* ===== verification/Example_Source.thy ===== *)
theory Example_Source
  imports Command_Schema
begin

text \<open>
  The sample plugin (\<open>examples/external-source/source/src/main.rs\<close>): an Incurs command graph of its own that the
  native command loads as a source. Its arguments are parsed by the framework for \<open>search\<close> and by its own code
  for the targets; the texts of the framework's and of serde's errors are parameters.
\<close>

section \<open>Records\<close>

definition fixture_source_id :: source_id where "fixture_source_id = Source_Id ''fixture-source''"

definition hang_query :: string where "hang_query = ''hang-until-cancelled''"

definition fixture_record :: "string \<Rightarrow> string \<Rightarrow> string option \<Rightarrow> comsat_record" where
  "fixture_record kind tail_name body =
     \<lparr>rec_id = Record_Id (''fixture:'' @ tail_name), rec_source = fixture_source_id, rec_kind = kind,
      rec_url = ''https://example.com/fixture/'' @ tail_name, rec_title = Some (''Fixture '' @ kind), rec_text = body,
      rec_author = Some ''fixture'', rec_created_at = None, rec_updated_at = None,
      rec_metadata = json_object [(''native_id'', JString tail_name), (''source'', JString ''fixture-source'')]\<rparr>"

section \<open>Targets\<close>

record fixture_target =
  ft_type :: string
  ft_source :: "string option"
  ft_url :: "string option"
  ft_id :: "string option"
  ft_record :: "comsat_record option"

definition fixture_fields :: "field_meta list" where
  "fixture_fields =
     [field ''type'' ''type'' FT_String True, field ''source'' ''source'' FT_String False, field ''url'' ''url'' FT_String False,
      field ''id'' ''id'' FT_String False, field ''record'' ''record'' FT_Value False]"

text \<open>A validation error names a field.\<close>

type_synonym field_error = "string \<times> string"

definition optional_string_field :: "arguments \<Rightarrow> string \<Rightarrow> (string option, field_error) result" where
  "optional_string_field raw name =
     (case map_of raw name of
        None \<Rightarrow> Ok None
      | Some v \<Rightarrow> ok_or (name, ''field must be a string'') (map_option Some (as_str v)))"

definition fixture_string_field :: "arguments \<Rightarrow> string \<Rightarrow> (string, field_error) result" where
  "fixture_string_field raw name =
     and_then (optional_string_field raw name) (ok_or (name, ''required field is missing''))"

definition optional_record_field :: "libs \<Rightarrow> arguments \<Rightarrow> string \<Rightarrow> (comsat_record option, field_error) result" where
  "optional_record_field L raw name =
     (case map_of raw name of
        None \<Rightarrow> Ok None
      | Some v \<Rightarrow> ok_or (name, decode_text L v) (map_option Some (record_from_json v)))"

definition target_from_raw :: "libs \<Rightarrow> arguments \<Rightarrow> (fixture_target, field_error) result" where
  "target_from_raw L raw =
     and_then (fixture_string_field raw ''type'') (\<lambda>kind.
     and_then (optional_string_field raw ''source'') (\<lambda>source.
     and_then (optional_string_field raw ''url'') (\<lambda>url.
     and_then (optional_string_field raw ''id'') (\<lambda>i.
     and_then (optional_record_field L raw ''record'') (\<lambda>r.
       Ok \<lparr>ft_type = kind, ft_source = source, ft_url = url, ft_id = i, ft_record = r\<rparr>)))))"

text \<open>Options that are not an object are none.\<close>

fun fixture_target_options :: "libs \<Rightarrow> json \<Rightarrow> (fixture_target, field_error) result" where
  "fixture_target_options L (JObject kvs) = target_from_raw L kvs"
| "fixture_target_options L _ = target_from_raw L []"

fun label_or :: "'a option \<Rightarrow> 'a option \<Rightarrow> 'a option" where
  "label_or (Some a) b = Some a"
| "label_or None b = b"

definition target_label :: "fixture_target \<Rightarrow> string" where
  "target_label t =
     (case label_or (map_option (\<lambda>r. rid_str (rec_id r)) (ft_record t)) (label_or (ft_url t) (label_or (ft_id t) (ft_source t))) of
        Some s \<Rightarrow> s | None \<Rightarrow> ft_type t)"

section \<open>Commands\<close>

text \<open>The text of a validation error is the framework's.\<close>

definition fixture_fetch :: "libs \<Rightarrow> (field_error \<Rightarrow> string) \<Rightarrow> json \<Rightarrow> tool_outcome" where
  "fixture_fetch L error_text options =
     (case fixture_target_options L options of
        Err e \<Rightarrow> Tool_Error ''VALIDATION_ERROR'' (error_text e)
      | Ok t \<Rightarrow> Tool_Ok (record_to_json (fixture_record ''document'' ''fetch'' (Some (target_label t)))))"

definition fixture_follow :: "libs \<Rightarrow> (field_error \<Rightarrow> string) \<Rightarrow> json \<Rightarrow> tool_outcome" where
  "fixture_follow L error_text options =
     (case fixture_target_options L options of
        Err e \<Rightarrow> Tool_Error ''VALIDATION_ERROR'' (error_text e)
      | Ok t \<Rightarrow> Tool_Ok (JArray [record_to_json (fixture_record ''comment'' ''follow'' (Some (target_label t)))]))"

text \<open>\<open>None\<close>: the search never answers.\<close>

definition fixture_search :: "query \<Rightarrow> tool_outcome option" where
  "fixture_search q =
     (if q_text q = hang_query then None
      else Some (Tool_Ok (JArray [record_to_json (fixture_record ''search-result'' ''search'' (Some (q_text q)))])))"

definition fixture_mcp_schema :: json where
  "fixture_mcp_schema = json_object
     [(''type'', JString ''object''),
      (''properties'', json_object
        [(''type'', json_object [(''type'', JString ''string'')]), (''source'', json_object [(''type'', JString ''string'')]),
         (''url'', json_object [(''type'', JString ''string'')]), (''id'', json_object [(''type'', JString ''string'')]),
         (''record'', json_object [(''type'', JString ''object'')])]),
      (''required'', JArray [JString ''type''])]"

section \<open>What the engine gets\<close>

lemma fixture_source_valid: "valid_source_id fixture_source_id"
  by code_simp

definition fixture_names :: "string list" where
  "fixture_names = [''search'', ''fetch'', ''follow'']"

lemma fixture_names_valid: "list_all (\<lambda>n. is_ok (record_id_new (''fixture:'' @ n))) fixture_names"
  by code_simp

lemma fixture_ids: "tail_name \<in> set fixture_names \<Longrightarrow> valid_ids (fixture_record kind tail_name body)"
  using fixture_source_valid fixture_names_valid by (auto simp: valid_ids_def fixture_record_def list_all_iff)

text \<open>A record of the plugin is one the engine accepts from it, where the URL parser takes its URL.\<close>

lemma fixture_record_accepted:
  assumes "tail_name \<in> set fixture_names" "validate_url L (''https://example.com/fixture/'' @ tail_name) = Ok ()" "trim kind \<noteq> []" "length kind \<le> 128"
  shows "record_from_json (record_to_json (fixture_record kind tail_name body)) = Some (fixture_record kind tail_name body) \<and>
    record_validate L (fixture_record kind tail_name body) = Ok () \<and>
    rec_source (fixture_record kind tail_name body) = fixture_source_id"
  using assms fixture_ids [of tail_name kind body]
  by (simp add: record_from_to_json record_validate_def fixture_record_def json_object_def)

text \<open>The label of each kind of target the engine sends.\<close>

fun sent_label :: "target \<Rightarrow> string" where
  "sent_label (Target_Record r) = rid_str (rec_id r)"
| "sent_label (Target_Url s u) = u"
| "sent_label (Target_Native s i) = i"

lemma fixture_reads_targets:
  assumes "target_ids_valid t"
  shows "map_sum id target_label (fixture_target_options L (JObject (target_arguments t))) = Ok (sent_label t)"
  using assms record_to_json_object
  by (cases t) (simp_all add: target_from_raw_def fixture_string_field_def optional_string_field_def optional_record_field_def
      map_of_object_arguments target_ids_valid_def record_from_to_json target_label_def)

text \<open>Every target the engine sends is answered, with a record of the plugin that names it.\<close>

lemma fixture_answers_targets:
  assumes "target_ids_valid t"
  shows "fixture_fetch L error_text (JObject (target_arguments t)) =
      Tool_Ok (record_to_json (fixture_record ''document'' ''fetch'' (Some (sent_label t))))"
    "fixture_follow L error_text (JObject (target_arguments t)) =
      Tool_Ok (JArray [record_to_json (fixture_record ''comment'' ''follow'' (Some (sent_label t)))])"
  using fixture_reads_targets [OF assms, of L]
  by (auto simp: fixture_fetch_def fixture_follow_def split: sum.splits)

end
