(* ===== verification/Spec2Isabelle.thy ===== *)
theory Spec2Isabelle
  imports Engine_Outcome Store_Properties Webhook_Laws App_Properties Source_Command_Laws Cloud_Laws
    GitHub_Laws Stack_Exchange_Laws Hacker_News Http_Clients Unix_Output Native_Cli Conformance_Laws Row_Laws Serve_Laws Codemode_Cli
    Migrations Architecture_Laws Complexity Engine_Catalog Command_Schema D1_Binding_Laws
    Hosts Codemode_Commands Tooling Example_Source
begin

text \<open>
  A verification of Comsat, a Rust workspace that searches, fetches and follows public sources through
  one interface. A source is a runtime wrapped into tools of the Incurs framework; the engine plans a
  request over the registered sources, calls their tools concurrently under budgets and merges what they
  answer into one stream; an application adds watches, searches repeated on a schedule whose results a
  store keeps and a webhook announces; a native command line and a cloud worker serve the application.
\<close>

section \<open>The parts of the program and their theories\<close>

text \<open>
  Paths are under \<open>src/crates\<close> unless they begin with \<open>plugins\<close>.

  \<^item> \<open>Prelude\<close>, \<open>Json\<close>, \<open>Net_Address\<close>: results, bytes and UTF-8 texts, lists as SQL tables, saturating
    words; \<open>serde_json\<close> values and the derived codecs; the addresses of \<open>std::net\<close>, parsed and classified.
  \<^item> \<open>Types\<close> (\<open>comsat-types\<close>): ids, records, queries, targets, errors and their validation.
  \<^item> \<open>Source_Contract\<close> (\<open>comsat-source/src/descriptor.rs\<close>): profiles, tool names, the tool call.
    \<open>Source_Command\<close> (\<open>command.rs\<close>, \<open>runtime.rs\<close>): a runtime as commands.
    \<open>Schema_Check\<close>, \<open>Conformance\<close> (\<open>conformance.rs\<close>, \<open>conformance/\<close>): the suite a source must pass.
  \<^item> \<open>Engine_Plan\<close>, \<open>Dedupe\<close>, \<open>Metrics\<close>, \<open>Engine_Sink\<close>, \<open>Engine_Merge\<close> (\<open>comsat-engine/src/plan.rs\<close>,
    \<open>dedupe.rs\<close>, \<open>metrics.rs\<close>, \<open>invoke.rs\<close>, \<open>merge.rs\<close>): from a request to the merged stream.
    \<open>Engine_Stream\<close> and \<open>Engine_Outcome\<close> hold what every stream contains, \<open>Engine_Catalog\<close> (\<open>catalog.rs\<close>) the
    sources a host holds and what is collected from their streams.
  \<^item> \<open>Store_Model\<close> (\<open>comsat-store\<close>): the values of a store, its requests and their validation.
    \<open>Store_Db\<close>: the tables, keys and clauses both databases share. \<open>Sqlite_Store\<close>
    (\<open>comsat-store-sqlite\<close>) and \<open>D1_Store\<close> (\<open>comsat-cloud/src/d1_*.rs\<close>): one definition per SQL
    statement and per operation. \<open>Store_Contract\<close>: the operations as a record a client holds.
    \<open>Row_Codec\<close> (\<open>codec.rs\<close>, \<open>d1_rows.rs\<close>, \<open>d1_values.rs\<close>): the columns of their rows. \<open>D1_Binding\<close> and its
    laws: the values D1 binds by position, its batches, and the results read back by index.
    \<open>Sqlite_Laws\<close>, \<open>D1_Laws\<close>, \<open>Store_Equivalence\<close>, \<open>Stored_Values\<close>, \<open>Store_Properties\<close>: their laws.
  \<^item> \<open>Webhook\<close> and \<open>App\<close> (\<open>comsat-app/src/notifications.rs\<close>, \<open>app.rs\<close>), \<open>Commands\<close>
    (\<open>comsat-app/src/commands\<close>), \<open>Serve\<close> (\<open>serve.rs\<close>): the delivery of a webhook, the application, its
    commands, the service and its scheduler. \<open>Command_Schema\<close> (\<open>commands/schema.rs\<close>): the fields, the failures
    and the annotations the commands advertise.
  \<^item> \<open>Cloud_Auth\<close>, \<open>Cloud_Routes\<close>, \<open>Cloud_Watch\<close> (\<open>comsat-cloud\<close>): who may call the worker, what it
    answers, and its scheduled work over queues and D1.
  \<^item> \<open>Source_Http\<close>, \<open>Source_Cooldown\<close>: what the source plugins share: requests, payloads, clocks.
    \<open>GitHub\<close>, \<open>GitHub_Records\<close>, \<open>GitHub_Runtime\<close> (\<open>plugins/github\<close>), \<open>Stack_Exchange\<close>
    (\<open>plugins/stack-exchange\<close>), \<open>Hacker_News\<close> (\<open>plugins/hacker-news\<close>), \<open>Web_Source\<close> (\<open>plugins/web\<close>).
  \<^item> \<open>Http_Clients\<close> (\<open>comsat-cli/src/http_client.rs\<close>, \<open>comsat-cloud/src/cloud_http.rs\<close>): the two
    clients the plugins send through. \<open>Unix_Output\<close> and \<open>Native_Cli\<close> (\<open>comsat-cli/src/output.rs\<close>,
    \<open>main.rs\<close>, \<open>plugins.rs\<close>): the lines the command prints, the targets it reads, Agent Plugins.
    \<open>Native_Store\<close> (\<open>native_store.rs\<close>): the database file that only a write creates.
  \<^item> \<open>Codemode_Store\<close> (\<open>comsat-store-sqlite/src/codemode.rs\<close>) and its laws, \<open>Codemode_Cli\<close>
    (\<open>comsat-cli/src/codemode.rs\<close>, \<open>codemode/\<close>, \<open>codemode_store.rs\<close>): what a Code Mode runtime keeps,
    the policy of its tools and how an applied action is undone; \<open>Codemode_Commands\<close>: its commands.
  \<^item> \<open>Hosts\<close> (\<open>comsat-cli/src/main.rs\<close>, \<open>plugins.rs\<close>, \<open>comsat-cloud/src/source_graph.rs\<close>, \<open>worker_entry.rs\<close>,
    \<open>telemetry.rs\<close>): how the command and the worker build their sources and the application, and what they log.
  \<^item> \<open>Migrations\<close> (\<open>comsat-store-sqlite/src/migrations.rs\<close>, \<open>src/migrations\<close>): the statements that bring a
    database to the current schema. \<open>Architecture\<close> and its laws (\<open>src/xtask/src/architecture.rs\<close>,
    \<open>manifest.rs\<close>): the dependency policy of the workspace. \<open>Complexity\<close> (\<open>complexity.rs\<close>): the limits on
    its functions and files. \<open>Tooling\<close> (\<open>main.rs\<close>, \<open>checks.rs\<close>, \<open>conformance.rs\<close>, \<open>wasm.rs\<close>): its gate.
    \<open>Example_Source\<close> (\<open>src/examples/external-source\<close>): the sample plugin.
\<close>

section \<open>How the code is modelled\<close>

text \<open>
  Texts are their UTF-8 bytes, so lengths and orders are those of Rust. A \<open>Result\<close> is a sum, its error
  on the left; a panic is a value of its own or \<open>None\<close>. A \<open>u64\<close> counter is a word; an \<open>i64\<close> of the
  stores is an integer with the wrap-around or the checked addition written out. A database is the lists
  of the rows of its tables; a statement is a function of it, an operation the composition of its
  statements, with the database it leaves behind also when it fails; a transaction that fails leaves the
  one it found. Asynchrony is explicit: the engine's stream is a function of a schedule that says which
  task has something ready at each poll, and its laws hold for every schedule; a source's operation is a
  function of the state that counts the requests sent so far, the client and the clock being functions of
  that state; a cancelled future is a driver dropped in any state.

  What is not under \<open>src\<close> is a parameter: \<open>libs\<close> holds the parsers of URLs and RFC 3339 texts and the texts of
  \<open>serde_json\<close>, \<open>plugin_libs\<close> and \<open>net_libs\<close> percent encoding, hashing, MACs and the JSON parser;
  \<open>host\<close> is the Incurs framework, whose documented behaviour is the hypothesis \<open>incurs_serves\<close>, and the tool
  catalog of the conformance suite. Nothing else is assumed of them, save where a hypothesis of a
  theorem says so, and its witness instantiates them with functions that meet it.
\<close>

section \<open>What is proved\<close>

text \<open>
  \<^item> The engine. A plan names each selected source once, in order. For every schedule the merged stream is the
    round robin of the sources' scripts, it ends, it holds exactly the first of the records that share a key
    and every failure, a strict one stops at the first failure, and whenever it is dropped the counters
    balance: everything started has one terminal.
  \<^item> The stores. An invariant of the tables (keys, references, ranges, the values validated on the way in)
    that every operation keeps; a lease is exclusive, a run completes once, a delivery goes from pending to
    delivering to one end, in any interleaving of requests; and SQLite and D1 agree on every
    operation, up to the row a claim returns and the order of texts in a batch; the lazily opened file of
    the command is such a store, and the Code Mode tables are three maps. The statements of D1 as bound, read
    by position and answered by index, are those stated over the requests, for times below 2^53, and a
    completion is reported only on a full answer. The locales
    \<open>watch_store\<close> and \<open>due_watch_store\<close> state what the application needs of a store, and are
    interpreted on both.
  \<^item> The application. A due watch runs end to end and is scheduled again, and none starves: the scheduler
    reaches it within as many ticks as there are watches before it; a webhook is sent at most three
    times, whoever claims it; the worker leases each watch it queues once and a redelivered message
    changes nothing.
  \<^item> The edges. A bearer token admits exactly its tenant and every route answers for that tenant only; sources
    send only to the hosts they are for; no client connects to an address that is not public; bodies
    are bounded; a source that was told to wait is not called before, which is the locale
    \<open>cooled_source\<close>, interpreted on GitHub and on Stack Exchange.
  \<^item> The hosts. The command starts exactly when its sources are distinct and its webhook is acceptable; an isolate
    of the worker keeps the catalog it built first. The gate passes exactly when its steps do, the
    architecture and the complexity checks exactly on the workspaces they describe; the sample plugin
    answers every target the engine sends.
  \<^item> Tools. A record, an error and a query survive the tool boundary; the schema check accepts exactly the
    documents whose every schema position holds a schema; a source passes the conformance suite exactly
    when its answers are valid.
\<close>

section \<open>Bounds\<close>

text \<open>
  No definition runs on fuel except the engine's poll, whose schedule is a list: one poll takes one entry
  per task it looks at, and the laws of the stream quantify over all schedules; \<open>stream_ends\<close> gives the
  number of polls after which the stream is over. The other loops recurse on their data, with a measure
  where they skip some of it. Numbers with a limit in the code (budgets, attempts, chunk sizes, page
  sizes) have the code's constants.
\<close>

section \<open>What is not modelled\<close>

text \<open>
  The wire formats (JSON text, HTTP, SQL text), TLS and DNS are libraries, and so are the JSON schemas derived from
  the types. Time is the argument \<open>now\<close> of an operation, and the \<open>Instant\<close> of a cooldown is unbounded, where
  the code panics on an overflow of the platform's clock. The timers of the scheduler loop, whose ticks are a
  list, the bindings of the worker, the writing of the log lines, the registration of commands in the
  framework and the Code Mode runtime (a JavaScript sandbox in a library) are I/O around the modelled parts.
  Bound values are modelled for D1, whose JavaScript numbers lose precision; SQLite binds typed values, and
  its statements are stated over the fields. The drivers of the end-to-end tests (\<open>native_test\<close> and
  \<open>cloud_test\<close> in \<open>xtask\<close>) start the built programs and are not part of them: the gate takes their outcome.
\<close>

end
